(* ===== verification/Prelude.thy ===== *)
theory Prelude
  imports Main "HOL-Library.Word" "HOL-Library.AList"
begin

text \<open>
  Shared vocabulary of the development: the integer widths of the Rust sources, \<open>Result\<close> as a
  sum type with its combinators, \<open>Instant\<close>/\<open>Duration\<close> arithmetic, \<open>HashMap\<close> as an association
  list with distinct keys, and the ASCII helpers of \<open>str\<close>. The lemmas are stated once here and
  put into the collections below, which the component theories hand to the simplifier.
\<close>

named_theorems result_simps \<open>reduction of the \<open>Result\<close> combinators\<close>
named_theorems checked_dest \<open>consequences of a successful checked operation\<close>

section \<open>Machine integers\<close>

type_synonym u8 = "8 word"
type_synonym u32 = "32 word"
type_synonym u64 = "64 word"

text \<open>\<open>uN::checked_add\<close>: \<open>None\<close> exactly when the mathematical sum does not fit the width.\<close>

definition checked_add :: "'l::len word \<Rightarrow> 'l word \<Rightarrow> 'l word option" where
  "checked_add a b = (if unat a + unat b < 2 ^ LENGTH('l) then Some (a + b) else None)"

lemma checked_add_Some_unat [checked_dest]:
  "checked_add a b = Some c \<Longrightarrow> unat c = unat a + unat b"
  by (auto simp: checked_add_def unat_word_ariths split: if_splits)

lemma checked_add_one_less [checked_dest]:
  fixes a :: "'l::len word"
  assumes "checked_add a 1 = Some c"
  shows "a < c"
proof -
  have "unat c = unat a + unat (1 :: 'l word)"
    using assms by (rule checked_add_Some_unat)
  then show ?thesis by (simp add: word_less_nat_alt)
qed

lemma checked_add_one_Suc:
  fixes a :: "'l::len word"
  assumes "checked_add a 1 = Some c"
  shows "unat c = Suc (unat a)"
  using checked_add_Some_unat [OF assms] by simp

lemma checked_add_None_iff:
  fixes a b :: "'l::len word"
  shows "checked_add a b = None \<longleftrightarrow> 2 ^ LENGTH('l) \<le> unat a + unat b"
  by (simp add: checked_add_def)

lemma checked_add_mono_less [checked_dest]:
  assumes "checked_add a b = Some c" and "b \<noteq> 0"
  shows "a < c"
  using checked_add_Some_unat [OF assms(1)] assms(2)
  by (simp add: word_less_nat_alt unat_gt_0)

definition saturating_add :: "'l::len word \<Rightarrow> 'l word \<Rightarrow> 'l word" where
  "saturating_add a b = (case checked_add a b of Some c \<Rightarrow> c | None \<Rightarrow> - 1)"

lemma saturating_add_unat:
  "unat (saturating_add a b) = min (unat a + unat b) (unat (- 1 :: 'l::len word))"
  for a b :: "'l::len word"
proof (cases "checked_add a b")
  case None
  have "unat (- 1 :: 'l word) < 2 ^ LENGTH('l)" by (rule unsigned_less)
  moreover have "2 ^ LENGTH('l) \<le> unat a + unat b"
    using None by (simp only: checked_add_None_iff)
  ultimately have "unat (- 1 :: 'l word) \<le> unat a + unat b" by linarith
  with None show ?thesis by (simp add: saturating_add_def)
next
  case (Some c)
  then have "unat a + unat b \<le> unat (- 1 :: 'l word)"
    using checked_add_Some_unat [OF Some] word_order.extremum [of c] by (metis word_le_nat_alt)
  with Some show ?thesis by (simp add: saturating_add_def checked_add_Some_unat)
qed

text \<open>
  \<open>usize\<close> is modelled by its value as a natural number together with the largest value of the
  target, \<open>usize_max\<close>, which every definition that can overflow takes as an argument.
\<close>

definition usize_checked_add :: "nat \<Rightarrow> nat \<Rightarrow> nat \<Rightarrow> nat option" where
  "usize_checked_add usize_max a b = (if a + b \<le> usize_max then Some (a + b) else None)"

definition usize_try_from :: "nat \<Rightarrow> u64 \<Rightarrow> nat option" where
  "usize_try_from usize_max w = (if unat w \<le> usize_max then Some (unat w) else None)"

section \<open>Results\<close>

type_synonym ('e, 'a) result = "'e + 'a"

definition ok_or :: "'a option \<Rightarrow> 'e \<Rightarrow> ('e, 'a) result" where
  "ok_or x e = (case x of None \<Rightarrow> Inl e | Some v \<Rightarrow> Inr v)"

definition rbind :: "('e, 'a) result \<Rightarrow> ('a \<Rightarrow> ('e, 'b) result) \<Rightarrow> ('e, 'b) result" where
  "rbind r f = (case r of Inl e \<Rightarrow> Inl e | Inr v \<Rightarrow> f v)"

definition map_err :: "('e \<Rightarrow> 'f) \<Rightarrow> ('e, 'a) result \<Rightarrow> ('f, 'a) result" where
  "map_err f r = (case r of Inl e \<Rightarrow> Inl (f e) | Inr v \<Rightarrow> Inr v)"

text \<open>\<open>iter().map(f).collect::<Result<Vec<_>, _>>()\<close>: the first error wins.\<close>

fun collect_results :: "('a \<Rightarrow> ('e, 'b) result) \<Rightarrow> 'a list \<Rightarrow> ('e, 'b list) result" where
  "collect_results f [] = Inr []"
| "collect_results f (x # xs) =
     (case f x of Inl e \<Rightarrow> Inl e
      | Inr y \<Rightarrow> (case collect_results f xs of Inl e \<Rightarrow> Inl e | Inr ys \<Rightarrow> Inr (y # ys)))"

lemma ok_or_simps [simp, result_simps]:
  "ok_or None e = Inl e" "ok_or (Some v) e = Inr v"
  by (simp_all add: ok_or_def)

lemma rbind_simps [simp, result_simps]:
  "rbind (Inl e) f = Inl e" "rbind (Inr v) f = f v"
  by (simp_all add: rbind_def)

lemma map_err_simps [simp, result_simps]:
  "map_err g (Inl e) = Inl (g e)" "map_err g (Inr v) = Inr v"
  by (simp_all add: map_err_def)

lemma ok_or_Inr_iff [simp]: "ok_or x e = Inr v \<longleftrightarrow> x = Some v"
  by (cases x) auto

lemma ok_or_Inl_iff [simp]: "ok_or x e = Inl e' \<longleftrightarrow> x = None \<and> e' = e"
  by (cases x) auto

lemma rbind_Inr_iff: "rbind r f = Inr v \<longleftrightarrow> (\<exists>u. r = Inr u \<and> f u = Inr v)"
  by (cases r) auto

lemma rbind_InrE: "rbind r f = Inr v \<Longrightarrow> (\<And>u. r = Inr u \<Longrightarrow> f u = Inr v \<Longrightarrow> P) \<Longrightarrow> P"
  by (auto simp: rbind_Inr_iff)

lemma list_all2_left: "list_all2 P xs ys \<Longrightarrow> x \<in> set xs \<Longrightarrow> \<exists>y \<in> set ys. P x y"
  by (induction rule: list_all2_induct) auto

lemma list_all2_right: "list_all2 P xs ys \<Longrightarrow> y \<in> set ys \<Longrightarrow> \<exists>x \<in> set xs. P x y"
  by (induction rule: list_all2_induct) auto

lemma map_err_Inr_iff [simp]: "map_err g r = Inr v \<longleftrightarrow> r = Inr v"
  by (cases r) auto

lemma collect_results_Inr_iff:
  "collect_results f xs = Inr ys \<longleftrightarrow> list_all2 (\<lambda>x y. f x = Inr y) xs ys"
proof (induction xs arbitrary: ys)
  case Nil
  then show ?case by auto
next
  case (Cons x xs)
  show ?case
  proof (cases "collect_results f xs")
    case (Inl e)
    with Cons.IH have "\<not> list_all2 (\<lambda>x y. f x = Inr y) xs zs" for zs
      by (metis Inl_Inr_False)
    with Inl show ?thesis
      by (cases ys) (auto split: sum.splits)
  next
    case (Inr zs)
    with Cons.IH have "list_all2 (\<lambda>x y. f x = Inr y) xs us \<longleftrightarrow> zs = us" for us
      by (metis sum.inject(2))
    with Inr show ?thesis
      by (cases ys) (auto split: sum.splits)
  qed
qed

lemma collect_results_Inl:
  "collect_results f xs = Inl e \<Longrightarrow> \<exists>x\<in>set xs. f x = Inl e"
  by (induction xs) (auto split: sum.splits)

lemma collect_results_length: "collect_results f xs = Inr ys \<Longrightarrow> length ys = length xs"
  by (auto simp: collect_results_Inr_iff dest: list_all2_lengthD)

lemma collect_results_total:
  "(\<And>x. x \<in> set xs \<Longrightarrow> f x = Inr (g x)) \<Longrightarrow> collect_results f xs = Inr (map g xs)"
  by (induction xs) auto

lemma collect_results_set:
  assumes "collect_results f xs = Inr ys"
  shows "y \<in> set ys \<longleftrightarrow> (\<exists>x\<in>set xs. f x = Inr y)"
proof -
  have l: "list_all2 (\<lambda>x y. f x = Inr y) xs ys"
    using assms by (simp add: collect_results_Inr_iff)
  show ?thesis
    using l by (induction xs ys rule: list_all2_induct) auto
qed

lemma collect_results_ok_iff:
  "(\<exists>ys. collect_results f xs = Inr ys) \<longleftrightarrow> (\<forall>x\<in>set xs. \<exists>y. f x = Inr y)"
  by (induction xs) (auto split: sum.splits)

section \<open>Time\<close>

text \<open>
  \<open>std::time::Duration\<close> and \<open>std::time::Instant\<close> are counted in nanoseconds. The largest instant
  a platform can represent is \<open>instant_max\<close>, an argument wherever \<open>Instant::checked_add\<close> is used.
\<close>

type_synonym duration = nat
type_synonym instant = nat

definition secs :: "nat \<Rightarrow> duration" where
  "secs n = n * 1000000000"

definition instant_checked_add :: "instant \<Rightarrow> instant \<Rightarrow> duration \<Rightarrow> instant option" where
  "instant_checked_add instant_max t d = (if t + d \<le> instant_max then Some (t + d) else None)"

definition checked_duration_since :: "instant \<Rightarrow> instant \<Rightarrow> duration option" where
  "checked_duration_since later earlier =
     (if earlier \<le> later then Some (later - earlier) else None)"

definition saturating_duration_since :: "instant \<Rightarrow> instant \<Rightarrow> duration" where
  "saturating_duration_since later earlier = later - earlier"

lemma instant_checked_add_Some [checked_dest]:
  "instant_checked_add m t d = Some u \<Longrightarrow> u = t + d \<and> t + d \<le> m"
  by (auto simp: instant_checked_add_def split: if_splits)

section \<open>Hash maps\<close>

text \<open>
  A \<open>HashMap\<close> is an association list with distinct keys: \<open>map_of\<close> is \<open>get\<close>, \<open>AList.update\<close> is
  \<open>insert\<close>, \<open>AList.delete\<close> is \<open>remove\<close>, \<open>filter\<close> is \<open>retain\<close> and \<open>length\<close> is \<open>len\<close>. The order of the
  list stands for the iteration order, which Rust leaves open; statements are for every order.
\<close>

type_synonym ('k, 'v) hash_map = "('k \<times> 'v) list"

definition hm_ok :: "('k, 'v) hash_map \<Rightarrow> bool" where
  "hm_ok m = distinct (map fst m)"

lemma hm_ok_Nil [simp]: "hm_ok []"
  by (simp add: hm_ok_def)

lemma hm_ok_update [simp]: "hm_ok m \<Longrightarrow> hm_ok (AList.update k v m)"
  by (simp add: hm_ok_def distinct_update)

lemma hm_ok_delete [simp]: "hm_ok m \<Longrightarrow> hm_ok (AList.delete k m)"
  by (simp add: hm_ok_def distinct_delete)

lemma hm_ok_filter [simp]: "hm_ok m \<Longrightarrow> hm_ok (filter P m)"
  unfolding hm_ok_def by (rule distinct_map_filter)

lemma hm_get_filter:
  assumes "hm_ok m"
  shows "map_of (filter P m) k =
    (case map_of m k of None \<Rightarrow> None | Some v \<Rightarrow> if P (k, v) then Some v else None)"
  using assms
proof (induction m)
  case Nil
  then show ?case by simp
next
  case (Cons kv m)
  obtain k' v' where kv: "kv = (k', v')" by (cases kv)
  have ok: "hm_ok m" and fresh: "k' \<notin> fst ` set m"
    using Cons.prems kv by (auto simp: hm_ok_def)
  have none: "map_of m k' = None"
    using fresh by (simp add: map_of_eq_None_iff)
  show ?case
    using Cons.IH [OF ok] kv none by (auto split: option.splits)
qed

lemma hm_len_update_le: "length (AList.update k v m) \<le> Suc (length m)"
  by (induction m) auto

lemma hm_len_update:
  "length (AList.update k v m) = (if k \<in> fst ` set m then length m else Suc (length m))"
  by (induction m) auto

lemma hm_keys_update: "fst ` set (AList.update k v m) = insert k (fst ` set m)"
  by (simp add: dom_update)

lemma hm_len_card: "hm_ok m \<Longrightarrow> length m = card (fst ` set m)"
  by (metis distinct_card hm_ok_def length_map list.set_map)

section \<open>ASCII text\<close>

text \<open>
  \<open>str\<close> is modelled by its UTF-8 bytes (\<open>char\<close> is a byte). \<open>eq_ignore_ascii_case\<close> folds the bytes
  \<open>A..Z\<close> only, as \<open>u8::eq_ignore_ascii_case\<close> does.
\<close>

definition ascii_lower :: "char \<Rightarrow> char" where
  "ascii_lower c =
     (let n = (of_char c :: nat) in if 65 \<le> n \<and> n \<le> 90 then char_of (n + 32) else c)"

definition to_ascii_lowercase :: "string \<Rightarrow> string" where
  "to_ascii_lowercase s = map ascii_lower s"

definition eq_ignore_ascii_case :: "string \<Rightarrow> string \<Rightarrow> bool" where
  "eq_ignore_ascii_case s t \<longleftrightarrow>
     length s = length t \<and> list_all (\<lambda>(a, b). ascii_lower a = ascii_lower b) (zip s t)"

lemma eq_ignore_ascii_case_iff:
  "eq_ignore_ascii_case s t \<longleftrightarrow> to_ascii_lowercase s = to_ascii_lowercase t"
proof (induction s arbitrary: t)
  case Nil
  then show ?case by (auto simp: eq_ignore_ascii_case_def to_ascii_lowercase_def)
next
  case (Cons a s)
  then show ?case
    by (cases t) (auto simp: eq_ignore_ascii_case_def to_ascii_lowercase_def)
qed

lemma eq_ignore_ascii_case_refl [simp]: "eq_ignore_ascii_case s s"
  by (simp add: eq_ignore_ascii_case_iff)

lemma eq_ignore_ascii_case_sym: "eq_ignore_ascii_case s t \<Longrightarrow> eq_ignore_ascii_case t s"
  by (simp add: eq_ignore_ascii_case_iff)

lemma eq_ignore_ascii_case_trans:
  "eq_ignore_ascii_case s t \<Longrightarrow> eq_ignore_ascii_case t u \<Longrightarrow> eq_ignore_ascii_case s u"
  by (simp add: eq_ignore_ascii_case_iff)

lemma ascii_lower_idem [simp]: "ascii_lower (ascii_lower c) = ascii_lower c"
proof (cases "65 \<le> (of_char c :: nat) \<and> (of_char c :: nat) \<le> 90")
  case True
  then have "(of_char (char_of ((of_char c :: nat) + 32)) :: nat) = of_char c + 32"
    by (simp only: of_char_of) simp
  with True show ?thesis by (simp add: ascii_lower_def Let_def)
next
  case False
  then show ?thesis by (auto simp: ascii_lower_def Let_def)
qed

lemma to_ascii_lowercase_idem [simp]:
  "to_ascii_lowercase (to_ascii_lowercase s) = to_ascii_lowercase s"
  by (simp add: to_ascii_lowercase_def)

end
