(* ===== verification/RustStr.thy ===== *)
theory RustStr
  imports Prelude
begin

text \<open>
  The operations of Rust's \<open>str\<close> the sources use, on UTF-8 bytes: \<open>starts_with\<close>, \<open>ends_with\<close>,
  \<open>contains\<close>, \<open>trim\<close> and \<open>char::is_whitespace\<close> (the Unicode White-Space code points, recognised by
  their UTF-8 encodings), and \<open>str::parse::<u64>\<close>.
\<close>

section \<open>Searching\<close>

definition starts_with :: "string \<Rightarrow> string \<Rightarrow> bool" where
  "starts_with s p \<longleftrightarrow> take (length p) s = p"

definition ends_with :: "string \<Rightarrow> string \<Rightarrow> bool" where
  "ends_with s p \<longleftrightarrow> length p \<le> length s \<and> drop (length s - length p) s = p"

fun contains_str :: "string \<Rightarrow> string \<Rightarrow> bool" where
  "contains_str [] p \<longleftrightarrow> p = []"
| "contains_str (c # s) p \<longleftrightarrow> starts_with (c # s) p \<or> contains_str s p"

lemma starts_with_iff: "starts_with s p \<longleftrightarrow> (\<exists>r. s = p @ r)"
  unfolding starts_with_def
  by (metis append_eq_conv_conj append_take_drop_id)

lemma ends_with_iff: "ends_with s p \<longleftrightarrow> (\<exists>r. s = r @ p)"
  unfolding ends_with_def
  by (metis append_eq_conv_conj append_take_drop_id diff_add_inverse2 le_add2 length_append)

lemma ends_with_single: "ends_with s [c] \<longleftrightarrow> s \<noteq> [] \<and> last s = c"
  by (cases s rule: rev_cases) (auto simp: ends_with_iff)

lemma starts_with_single: "starts_with s [c] \<longleftrightarrow> s \<noteq> [] \<and> hd s = c"
  by (cases s) (auto simp: starts_with_iff)

lemma contains_str_iff: "contains_str s p \<longleftrightarrow> (\<exists>a b. s = a @ p @ b)"
proof (induction s)
  case Nil
  then show ?case by simp
next
  case (Cons c s)
  show ?case
  proof
    assume "contains_str (c # s) p"
    then consider "starts_with (c # s) p" | "contains_str s p" by auto
    then show "\<exists>a b. c # s = a @ p @ b"
    proof cases
      case 1
      then show ?thesis by (metis append_Nil starts_with_iff)
    next
      case 2
      then show ?thesis using Cons.IH by (metis append_Cons)
    qed
  next
    assume "\<exists>a b. c # s = a @ p @ b"
    then obtain a b where ab: "c # s = a @ p @ b" by blast
    show "contains_str (c # s) p"
    proof (cases a)
      case Nil
      with ab have "starts_with (c # s) p" by (auto simp: starts_with_iff)
      then show ?thesis by simp
    next
      case (Cons d a')
      with ab have "s = a' @ p @ b" by simp
      with \<open>contains_str s p = _\<close> have "contains_str s p" by blast
      then show ?thesis by simp
    qed
  qed
qed

lemma contains_single: "contains_str s [c] \<longleftrightarrow> c \<in> set s"
  by (auto simp: contains_str_iff in_set_conv_decomp)

section \<open>White space\<close>

text \<open>
  The number of bytes of the white-space character a byte sequence starts with, \<open>0\<close> if it starts
  with none: U+0009..U+000D, U+0020, U+0085, U+00A0, U+1680, U+2000..U+200A, U+2028, U+2029, U+202F,
  U+205F and U+3000.
\<close>

definition ws_prefix_len :: "string \<Rightarrow> nat" where
  "ws_prefix_len s =
     (case map (\<lambda>c. of_char c :: nat) (take 3 s) of
        [] \<Rightarrow> 0
      | b # bs \<Rightarrow>
          (if 9 \<le> b \<and> b \<le> 13 \<or> b = 32 then 1
           else case bs of
             [] \<Rightarrow> 0
           | c # cs \<Rightarrow>
               (if b = 194 \<and> (c = 133 \<or> c = 160) then 2
                else case cs of
                  [] \<Rightarrow> 0
                | d # _ \<Rightarrow>
                    (if b = 225 \<and> c = 154 \<and> d = 128
                        \<or> b = 226 \<and> c = 128 \<and> (128 \<le> d \<and> d \<le> 138 \<or> d = 168 \<or> d = 169 \<or> d = 175)
                        \<or> b = 226 \<and> c = 129 \<and> d = 159
                        \<or> b = 227 \<and> c = 128 \<and> d = 128
                     then 3 else 0))))"

fun has_whitespace :: "string \<Rightarrow> bool" where
  "has_whitespace [] = False"
| "has_whitespace (c # s) = (0 < ws_prefix_len (c # s) \<or> has_whitespace s)"

lemma ws_prefix_len_Nil [simp]: "ws_prefix_len [] = 0"
  by (simp add: ws_prefix_len_def)

lemma ws_prefix_len_pos: "ws_prefix_len s \<noteq> 0 \<Longrightarrow> 0 < length s"
  by (cases s) auto

function trim_start :: "string \<Rightarrow> string" where
  "trim_start s =
     (if ws_prefix_len s = 0 then s else trim_start (drop (ws_prefix_len s) s))"
  by pat_completeness auto
termination
  by (relation "measure length") (use ws_prefix_len_pos in fastforce)+

declare trim_start.simps [simp del]

text \<open>The white-space character at the end of a byte sequence, by its last three bytes.\<close>

definition ws_suffix_len :: "string \<Rightarrow> nat" where
  "ws_suffix_len s =
     (if s = [] then 0
      else if ws_prefix_len [last s] = 1 then 1
      else if 2 \<le> length s \<and> ws_prefix_len (drop (length s - 2) s) = 2 then 2
      else if 3 \<le> length s \<and> ws_prefix_len (drop (length s - 3) s) = 3 then 3
      else 0)"

lemma ws_suffix_len_Nil [simp]: "ws_suffix_len [] = 0"
  by (simp add: ws_suffix_len_def)

lemma ws_suffix_len_pos: "ws_suffix_len s \<noteq> 0 \<Longrightarrow> 0 < length s"
  by (cases s) auto

function trim_end :: "string \<Rightarrow> string" where
  "trim_end s =
     (if ws_suffix_len s = 0 then s
      else trim_end (take (length s - ws_suffix_len s) s))"
  by pat_completeness auto
termination
  by (relation "measure length") (use ws_suffix_len_pos in fastforce)+

declare trim_end.simps [simp del]

definition trim :: "string \<Rightarrow> string" where
  "trim s = trim_end (trim_start s)"

lemma no_ws_prefix: "\<not> has_whitespace s \<Longrightarrow> ws_prefix_len s = 0"
  by (cases s) auto

lemma no_ws_append: "\<not> has_whitespace (a @ b) \<Longrightarrow> \<not> has_whitespace b"
  by (induction a) auto

lemma trim_start_no_ws: "\<not> has_whitespace s \<Longrightarrow> trim_start s = s"
  by (simp add: trim_start.simps no_ws_prefix)

lemma ws_suffix_no_ws:
  assumes "\<not> has_whitespace s"
  shows "ws_suffix_len s = 0"
proof -
  have d: "ws_prefix_len (drop n s) = 0" for n
    using assms no_ws_append [of "take n s" "drop n s"] by (simp add: no_ws_prefix)
  have l: "ws_prefix_len [last s] = 0" if "s \<noteq> []"
  proof -
    have "drop (length s - 1) s = [last s]"
      using that by (cases s rule: rev_cases) auto
    with d [of "length s - 1"] show ?thesis by simp
  qed
  show ?thesis
    using d l by (simp add: ws_suffix_len_def)
qed

lemma trim_no_ws: "\<not> has_whitespace s \<Longrightarrow> trim s = s"
  by (simp add: trim_def trim_start_no_ws trim_end.simps [of s] ws_suffix_no_ws)

section \<open>Decimal numbers\<close>

definition is_digit_char :: "char \<Rightarrow> bool" where
  "is_digit_char c \<longleftrightarrow> 48 \<le> (of_char c :: nat) \<and> (of_char c :: nat) \<le> 57"

definition decimal_value :: "string \<Rightarrow> nat" where
  "decimal_value ds = foldl (\<lambda>a c. 10 * a + (of_char c - 48)) 0 ds"

definition parse_u64 :: "string \<Rightarrow> u64 option" where
  "parse_u64 s =
     (let ds = (if starts_with s ''+'' then tl s else s) in
      if ds = [] \<or> \<not> list_all is_digit_char ds \<or> 2 ^ 64 \<le> decimal_value ds then None
      else Some (of_nat (decimal_value ds)))"

text \<open>\<open>Display\<close> of an unsigned integer.\<close>

definition digit_char :: "nat \<Rightarrow> char" where
  "digit_char d = char_of (48 + d)"

fun decimal :: "nat \<Rightarrow> string" where
  "decimal n = (if n < 10 then [digit_char n] else decimal (n div 10) @ [digit_char (n mod 10)])"

declare decimal.simps [simp del]

lemma digit_char_digit [simp]: "d < 10 \<Longrightarrow> of_char (digit_char d) = 48 + d"
  by (simp add: digit_char_def of_char_of take_bit_nat_eq_self)

lemma decimal_value_snoc: "decimal_value (s @ [c]) = decimal_value s * 10 + (of_char c - 48)"
  by (simp add: decimal_value_def)

text \<open>Printing and reading back.\<close>

lemma decimal_value_decimal [simp]: "decimal_value (decimal n) = n"
proof (induction n rule: decimal.induct)
  case (1 n)
  show ?case
  proof (cases "n < 10")
    case True
    then show ?thesis using decimal_value_snoc [of "[]" "digit_char n"]
      by (simp add: decimal.simps [of n] decimal_value_def)
  next
    case False
    with 1 show ?thesis by (simp add: decimal.simps [of n] decimal_value_snoc)
  qed
qed

lemma decimal_inject [simp]: "decimal m = decimal n \<longleftrightarrow> m = n"
  by (metis decimal_value_decimal)

end
