(* ===== verification/RateLimitPlan.thy ===== *)
theory RateLimitPlan
  imports RustStr
begin

text \<open>
  The data of rate limiting: buckets, windows and symbolic keys of a plan with its canonical form
  (\<open>rate_limit/plan.rs\<close>), the targets, observations and actions of a response
  (\<open>rate_limit/response.rs\<close>) with the \<open>Retry-After\<close> parser, and the inheritance combinator of
  \<open>policy/feature.rs\<close>.
\<close>

section \<open>Plans\<close>

record rate_limit_bucket_id =
  bid_kind :: string
  bid_name :: string

datatype rate_limit_key_value = KStatic string | KEndpoint | KMethod | KUrlHost

record rate_limit_key_part =
  kp_name :: string
  kp_value :: rate_limit_key_value

definition key_part_endpoint :: rate_limit_key_part where
  "key_part_endpoint = \<lparr>kp_name = ''endpoint'', kp_value = KEndpoint\<rparr>"

definition key_part_method :: rate_limit_key_part where
  "key_part_method = \<lparr>kp_name = ''method'', kp_value = KMethod\<rparr>"

definition key_part_url_host :: rate_limit_key_part where
  "key_part_url_host = \<lparr>kp_name = ''route.host'', kp_value = KUrlHost\<rparr>"

definition key_part_static :: "string \<Rightarrow> string \<Rightarrow> rate_limit_key_part" where
  "key_part_static name value = \<lparr>kp_name = name, kp_value = KStatic value\<rparr>"

type_synonym rate_limit_key = "rate_limit_key_part list"

text \<open>\<open>NonZeroU32\<close> is a \<open>u32\<close>; constructors are the only places that can produce one.\<close>

record rate_limit_window =
  rlw_max :: u32
  rlw_per :: duration

definition window_from_u32 :: "u32 \<Rightarrow> duration \<Rightarrow> rate_limit_window option" where
  "window_from_u32 mx per =
     (if mx = 0 then None
      else if per = 0 then None
      else Some \<lparr>rlw_max = mx, rlw_per = per\<rparr>)"

record rate_limit_bucket_use =
  bu_id :: rate_limit_bucket_id
  bu_key :: rate_limit_key
  bu_windows :: "rate_limit_window list"
  bu_cost :: u32

definition bucket_use_new :: "string \<Rightarrow> string \<Rightarrow> rate_limit_key \<Rightarrow> rate_limit_bucket_use" where
  "bucket_use_new kind name key =
     \<lparr>bu_id = \<lparr>bid_kind = kind, bid_name = name\<rparr>, bu_key = key, bu_windows = [], bu_cost = 1\<rparr>"

definition with_window :: "rate_limit_bucket_use \<Rightarrow> rate_limit_window \<Rightarrow> rate_limit_bucket_use" where
  "with_window b w = b\<lparr>bu_windows := bu_windows b @ [w]\<rparr>"

definition with_windows ::
  "rate_limit_bucket_use \<Rightarrow> rate_limit_window list \<Rightarrow> rate_limit_bucket_use" where
  "with_windows b ws = b\<lparr>bu_windows := ws\<rparr>"

definition with_cost :: "rate_limit_bucket_use \<Rightarrow> u32 \<Rightarrow> rate_limit_bucket_use" where
  "with_cost b c = b\<lparr>bu_cost := c\<rparr>"

record rate_limit_plan =
  rlp_buckets :: "rate_limit_bucket_use list"

definition plan_new :: rate_limit_plan where
  "plan_new = \<lparr>rlp_buckets = []\<rparr>"

definition plan_is_empty :: "rate_limit_plan \<Rightarrow> bool" where
  "plan_is_empty p \<longleftrightarrow> rlp_buckets p = []"

definition plan_push_bucket :: "rate_limit_plan \<Rightarrow> rate_limit_bucket_use \<Rightarrow> rate_limit_plan" where
  "plan_push_bucket p b = p\<lparr>rlp_buckets := rlp_buckets p @ [b]\<rparr>"

definition plan_extend :: "rate_limit_plan \<Rightarrow> rate_limit_plan \<Rightarrow> rate_limit_plan" where
  "plan_extend p q = p\<lparr>rlp_buckets := rlp_buckets p @ rlp_buckets q\<rparr>"

text \<open>\<open>retain(|bucket| seen.insert(bucket.clone()))\<close>: a bucket stays when it was not seen before.\<close>

fun retain_unseen :: "'a set \<Rightarrow> 'a list \<Rightarrow> 'a list" where
  "retain_unseen seen [] = []"
| "retain_unseen seen (b # bs) =
     (if b \<in> seen then retain_unseen seen bs else b # retain_unseen (insert b seen) bs)"

definition canonicalize :: "rate_limit_plan \<Rightarrow> rate_limit_plan" where
  "canonicalize p = p\<lparr>rlp_buckets := retain_unseen {} (rlp_buckets p)\<rparr>"

lemma set_retain_unseen: "set (retain_unseen seen xs) = set xs - seen"
  by (induction seen xs rule: retain_unseen.induct) auto

lemma distinct_retain_unseen: "distinct (retain_unseen seen xs)"
  by (induction seen xs rule: retain_unseen.induct) (auto simp: set_retain_unseen)

lemma retain_unseen_id:
  "distinct xs \<Longrightarrow> set xs \<inter> seen = {} \<Longrightarrow> retain_unseen seen xs = xs"
  by (induction seen xs rule: retain_unseen.induct) auto

text \<open>The retained buckets keep the order of their first occurrence.\<close>

lemma retain_unseen_filter:
  "retain_unseen seen xs = filter (\<lambda>x. x \<notin> seen) (rev (remdups (rev xs)))"
proof (induction xs rule: rev_induct)
  case Nil
  then show ?case by simp
next
  case (snoc x xs)
  have app: "retain_unseen S (as @ [y]) =
      retain_unseen S as @ (if y \<in> S \<or> y \<in> set as then [] else [y])" for S y as
    by (induction S as rule: retain_unseen.induct) auto
  show ?case
    using snoc by (simp add: app)
qed

section \<open>Feature inheritance\<close>

datatype 'a feature_use = FInherit | FAdd 'a | FReplace 'a | FOff

fun merge_inherited :: "'a option \<Rightarrow> 'a feature_use \<Rightarrow> ('a \<Rightarrow> 'a \<Rightarrow> 'a) \<Rightarrow> 'a option" where
  "merge_inherited parent FInherit add = parent"
| "merge_inherited None (FAdd v) add = Some v"
| "merge_inherited parent (FReplace v) add = Some v"
| "merge_inherited (Some p) (FAdd v) add = Some (add p v)"
| "merge_inherited parent FOff add = None"

text \<open>
  Inheritance along a chain of layers, outermost first: only the layers after the last \<open>Replace\<close>
  or \<open>Off\<close> matter.
\<close>

definition merge_chain :: "'a option \<Rightarrow> 'a feature_use list \<Rightarrow> ('a \<Rightarrow> 'a \<Rightarrow> 'a) \<Rightarrow> 'a option" where
  "merge_chain parent us add = foldl (\<lambda>p u. merge_inherited p u add) parent us"

lemma merge_chain_append:
  "merge_chain p (us @ vs) add = merge_chain (merge_chain p us add) vs add"
  by (simp add: merge_chain_def)

lemma merge_chain_reset:
  "merge_chain p (us @ FOff # vs) add = merge_chain None vs add"
  "merge_chain p (us @ FReplace v # vs) add = merge_chain (Some v) vs add"
  by (simp_all add: merge_chain_def)

section \<open>Targets, observations and actions\<close>

datatype rate_limit_target =
    TNone
  | TRequest
  | TEndpoint
  | THost
  | TClient
  | TCurrentPlan rate_limit_target
  | TBucketKind string rate_limit_target
  | TBucket rate_limit_bucket_id rate_limit_target

definition current_plan_or_endpoint :: rate_limit_target where
  "current_plan_or_endpoint = TCurrentPlan TEndpoint"

datatype rate_limit_scope_hint = SBucketKind string | SCurrentEndpoint

record rate_limit_observation =
  obs_limited :: bool
  obs_delay :: "duration option"
  obs_target :: rate_limit_target
  obs_scope :: "rate_limit_scope_hint option"
  obs_retry_after :: "duration option"

definition observation_continue :: rate_limit_observation where
  "observation_continue =
     \<lparr>obs_limited = False, obs_delay = None, obs_target = TNone, obs_scope = None,
      obs_retry_after = None\<rparr>"

definition observation_limited :: rate_limit_observation where
  "observation_limited =
     \<lparr>obs_limited = True, obs_delay = None, obs_target = current_plan_or_endpoint,
      obs_scope = Some SCurrentEndpoint, obs_retry_after = None\<rparr>"

definition with_delay :: "rate_limit_observation \<Rightarrow> duration \<Rightarrow> rate_limit_observation" where
  "with_delay obs d = obs\<lparr>obs_delay := Some d, obs_retry_after := Some d\<rparr>"

definition with_target ::
  "rate_limit_observation \<Rightarrow> rate_limit_target \<Rightarrow> rate_limit_observation" where
  "with_target obs t = obs\<lparr>obs_target := t\<rparr>"

datatype rate_limit_response_action =
    Continue
  | Limited "duration option" rate_limit_target bool

definition action_is_limited :: "rate_limit_response_action \<Rightarrow> bool" where
  "action_is_limited a = (case a of Continue \<Rightarrow> False | Limited _ _ _ \<Rightarrow> True)"

definition action_retry_after :: "rate_limit_response_action \<Rightarrow> duration option" where
  "action_retry_after a = (case a of Continue \<Rightarrow> None | Limited d _ _ \<Rightarrow> d)"

definition action_target :: "rate_limit_response_action \<Rightarrow> rate_limit_target option" where
  "action_target a = (case a of Continue \<Rightarrow> None | Limited _ t _ \<Rightarrow> Some t)"

definition action_cooldown_stored :: "rate_limit_response_action \<Rightarrow> bool" where
  "action_cooldown_stored a = (case a of Continue \<Rightarrow> False | Limited _ _ c \<Rightarrow> c)"

definition delay_handled_by_rate_limiter :: "rate_limit_response_action \<Rightarrow> bool" where
  "delay_handled_by_rate_limiter a =
     (case a of Limited (Some _) _ True \<Rightarrow> True | _ \<Rightarrow> False)"

section \<open>The request and response contexts\<close>

record rate_limit_context =
  rlc_endpoint :: string
  rlc_method :: string
  rlc_url :: string
  rlc_url_host :: "string option"
  rlc_page_index :: u32
  rlc_idempotent :: bool
  rlc_max_cooldown :: duration
  rlc_plan :: rate_limit_plan

text \<open>
  The response context carries the sanitised header view; a policy only reads it through
  \<open>headers.get(name)\<close>, which is the function \<open>rrc_header\<close>.
\<close>

record rate_limit_response_context =
  rrc_meta :: rate_limit_context
  rrc_status :: nat
  rrc_header :: "string \<Rightarrow> string option"
  rrc_max_cooldown :: duration

definition TOO_MANY_REQUESTS :: nat where
  "TOO_MANY_REQUESTS = 429"

section \<open>Retry-After\<close>

text \<open>
  \<open>parse_http_date\<close> is \<open>httpdate::parse_http_date\<close>; \<open>system_now\<close> is the reading of
  \<open>SystemTime::now()\<close>, both counted in nanoseconds of the system clock.
\<close>

definition parse_retry_after_value ::
  "(string \<Rightarrow> nat option) \<Rightarrow> nat \<Rightarrow> string \<Rightarrow> duration option" where
  "parse_retry_after_value parse_http_date system_now raw =
     (let raw = trim raw in
      case parse_u64 raw of
        Some seconds \<Rightarrow> Some (secs (unat seconds))
      | None \<Rightarrow>
          (case parse_http_date raw of
             None \<Rightarrow> None
           | Some w \<Rightarrow> if system_now \<le> w then Some (w - system_now) else Some 0))"

definition parse_retry_after_headers ::
  "(string \<Rightarrow> nat option) \<Rightarrow> nat \<Rightarrow> (string \<Rightarrow> string option) \<Rightarrow> duration option" where
  "parse_retry_after_headers parse_http_date system_now headers =
     (case headers ''retry-after'' of
        None \<Rightarrow> None
      | Some v \<Rightarrow> parse_retry_after_value parse_http_date system_now (trim v))"

definition scope_header ::
  "rate_limit_observation \<Rightarrow> rate_limit_response_context \<Rightarrow> string \<Rightarrow> rate_limit_observation" where
  "scope_header obs ctx name =
     (case rrc_header ctx name of
        None \<Rightarrow> obs
      | Some v \<Rightarrow>
          (let kind = trim v in
           if kind \<noteq> [] then
             obs\<lparr>obs_scope := Some (SBucketKind kind),
                 obs_target := TBucketKind kind current_plan_or_endpoint\<rparr>
           else obs))"

definition retry_after_header ::
  "(string \<Rightarrow> nat option) \<Rightarrow> nat \<Rightarrow> rate_limit_observation \<Rightarrow> rate_limit_response_context
    \<Rightarrow> rate_limit_observation" where
  "retry_after_header parse_http_date system_now obs ctx =
     (case parse_retry_after_headers parse_http_date system_now (rrc_header ctx) of
        None \<Rightarrow> obs
      | Some d \<Rightarrow> obs\<lparr>obs_delay := Some d, obs_retry_after := Some d\<rparr>)"

definition on_429 :: "rate_limit_response_context \<Rightarrow> rate_limit_observation" where
  "on_429 ctx =
     (if rrc_status ctx = TOO_MANY_REQUESTS then observation_limited else observation_continue)"

definition default_policy_observe ::
  "(string \<Rightarrow> nat option) \<Rightarrow> nat \<Rightarrow> rate_limit_response_context \<Rightarrow> rate_limit_observation" where
  "default_policy_observe parse_http_date system_now ctx =
     (if rrc_status ctx \<noteq> TOO_MANY_REQUESTS then observation_continue
      else retry_after_header parse_http_date system_now
             (with_target observation_limited current_plan_or_endpoint) ctx)"

lemma default_policy_observe_not_429 [simp]:
  "rrc_status ctx \<noteq> TOO_MANY_REQUESTS \<Longrightarrow>
   default_policy_observe phd now ctx = observation_continue"
  by (simp add: default_policy_observe_def)

lemma default_policy_observe_429:
  assumes "rrc_status ctx = TOO_MANY_REQUESTS"
  shows "default_policy_observe phd now ctx =
    \<lparr>obs_limited = True,
     obs_delay = parse_retry_after_headers phd now (rrc_header ctx),
     obs_target = TCurrentPlan TEndpoint,
     obs_scope = Some SCurrentEndpoint,
     obs_retry_after = parse_retry_after_headers phd now (rrc_header ctx)\<rparr>"
  using assms
  by (simp add: default_policy_observe_def retry_after_header_def with_target_def
      observation_limited_def current_plan_or_endpoint_def split: option.splits)

end
