(* ===== verification/Errors.thy ===== *)
theory Errors
  imports RateLimitPlan
begin

text \<open>
  The error values of the runtime: \<open>AuthError\<close> (\<open>auth/errors.rs\<close>), \<open>RateLimitError\<close>
  (\<open>rate_limit/error.rs\<close>), \<open>PaginationError\<close>, \<open>BodyErrorKind\<close> and the top-level \<open>ApiClientError\<close>
  with its stable categories (\<open>error.rs\<close>). A boxed foreign error (\<open>FxError\<close>, \<open>url::ParseError\<close>) is
  kept as its rendered text.
\<close>

record error_context =
  ec_endpoint :: string
  ec_method :: string

section \<open>Component errors\<close>

datatype auth_error_kind =
    MissingCredential
  | AcquireFailed
  | RefreshFailed
  | RejectedCredential
  | UnsupportedScheme
  | AuthTlsCapabilityUnavailable
  | RecursionDetected
  | ProviderRejected
  | AuthResponseTooLarge
  | AuthResponseBody
  | StateUnavailable
  | AuthInvalidConfiguration

record auth_error =
  ae_kind :: auth_error_kind
  ae_message :: string
  ae_retry_after :: "duration option"

definition auth_error_new :: "auth_error_kind \<Rightarrow> string \<Rightarrow> auth_error" where
  "auth_error_new kind message =
     \<lparr>ae_kind = kind, ae_message = message, ae_retry_after = None\<rparr>"

definition with_retry_after :: "auth_error \<Rightarrow> duration \<Rightarrow> auth_error" where
  "with_retry_after e d = e\<lparr>ae_retry_after := Some d\<rparr>"

datatype rate_limit_error_kind =
    RlInvalidConfiguration
  | RlInvalidKey
  | RlAcquireFailed
  | RlResponseActionFailed
  | RlInternal

record rate_limit_error =
  rle_kind :: rate_limit_error_kind
  rle_message :: string
  rle_source :: "string option"

datatype pagination_error_kind =
    RuntimeAlreadyInitialized
  | RuntimeNotInitialized
  | UnsupportedPagination
  | InvalidState
  | InvalidSize
  | Overflow
  | NonProgress
  | PageLimitExceeded
  | ItemLimitExceeded

datatype body_error_kind =
    BodyIo
  | BodyInput
  | BodyInvalidConfiguration
  | BodyExclusivePoll
  | BodyLimitExceeded
  | BodyExactLengthUnderflow
  | BodyExactLengthOverflow
  | BodyOther

datatype host_label_invalid_reason =
    HostEmpty
  | ContainsDot
  | ContainsSlash
  | ContainsScheme
  | ContainsWhitespace
  | StartsOrEndsDash
  | InvalidByte char
  | AbsoluteModePushLabel

section \<open>The client error\<close>

datatype api_client_error =
    InvalidParam error_context string
  | BuildUrl error_context string
  | TlsCapabilityUnavailable error_context
  | Timeout error_context string
  | Connect error_context string
  | RequestExecution error_context string
  | RequestBody error_context body_error_kind string
  | ResponseTooLarge error_context nat u64
  | ResponseBodyLimitExceeded error_context nat
  | ResponseBody error_context body_error_kind
  | ResponseFile error_context string string
  | RequestBodyLimitExceeded error_context nat u64
  | HttpStatus error_context nat "(string \<times> string) list" "rate_limit_response_action option"
  | Decode error_context string
  | HeadRequiresNoContent error_context
  | NoContentStatusRequiresNoContent error_context nat
  | ResponseContract error_context string
  | Codec error_context string
  | RateLimit error_context rate_limit_error
  | Pagination error_context pagination_error_kind string
  | PaginationLimit error_context pagination_error_kind string
  | Auth error_context auth_error
  | PolicyViolation error_context string
  | RuntimeState error_context string string
  | InvalidHostLabel error_context string nat "string option" host_label_invalid_reason

definition rate_limit :: "error_context \<Rightarrow> rate_limit_error_kind \<Rightarrow> string \<Rightarrow> api_client_error"
  where
  "rate_limit ctx kind message =
     RateLimit ctx \<lparr>rle_kind = kind, rle_message = message, rle_source = None\<rparr>"

definition rate_limit_with_source ::
  "error_context \<Rightarrow> rate_limit_error_kind \<Rightarrow> string \<Rightarrow> string \<Rightarrow> api_client_error" where
  "rate_limit_with_source ctx kind message source =
     RateLimit ctx \<lparr>rle_kind = kind, rle_message = message, rle_source = Some source\<rparr>"

datatype error_category =
    CatConfig
  | CatMissingCredential
  | CatAuthRejected
  | CatConnect
  | CatRequestExecution
  | CatRequestBody
  | CatTimeout
  | CatHttpStatus
  | CatDecode
  | CatPagination
  | CatRateLimit
  | CatResponseContract
  | CatInternalInvariant

fun error_category_of :: "api_client_error \<Rightarrow> error_category" where
  "error_category_of (InvalidParam _ _) = CatConfig"
| "error_category_of (BuildUrl _ _) = CatConfig"
| "error_category_of (TlsCapabilityUnavailable _) = CatConfig"
| "error_category_of (InvalidHostLabel _ _ _ _ _) = CatConfig"
| "error_category_of (Timeout _ _) = CatTimeout"
| "error_category_of (Connect _ _) = CatConnect"
| "error_category_of (RequestExecution _ _) = CatRequestExecution"
| "error_category_of (RequestBody _ _ _) = CatRequestBody"
| "error_category_of (ResponseTooLarge _ _ _) = CatDecode"
| "error_category_of (ResponseBodyLimitExceeded _ _) = CatDecode"
| "error_category_of (ResponseBody _ _) = CatDecode"
| "error_category_of (ResponseFile _ _ _) = CatDecode"
| "error_category_of (RequestBodyLimitExceeded _ _ _) = CatRequestBody"
| "error_category_of (HttpStatus _ _ _ rl) =
     (if rl \<noteq> None then CatRateLimit else CatHttpStatus)"
| "error_category_of (Decode _ _) = CatDecode"
| "error_category_of (Codec _ _) = CatDecode"
| "error_category_of (HeadRequiresNoContent _) = CatResponseContract"
| "error_category_of (NoContentStatusRequiresNoContent _ _) = CatResponseContract"
| "error_category_of (ResponseContract _ _) = CatResponseContract"
| "error_category_of (RateLimit _ _) = CatRateLimit"
| "error_category_of (Pagination _ _ _) = CatPagination"
| "error_category_of (PaginationLimit _ _ _) = CatPagination"
| "error_category_of (Auth _ source) =
     (if ae_kind source = MissingCredential then CatMissingCredential
      else if ae_kind source = RejectedCredential then CatAuthRejected
      else if ae_kind source = AuthTlsCapabilityUnavailable then CatConfig
      else CatAuthRejected)"
| "error_category_of (PolicyViolation _ _) = CatInternalInvariant"
| "error_category_of (RuntimeState _ _ _) = CatInternalInvariant"

fun error_context_of :: "api_client_error \<Rightarrow> error_context" where
  "error_context_of (InvalidParam ctx _) = ctx"
| "error_context_of (BuildUrl ctx _) = ctx"
| "error_context_of (TlsCapabilityUnavailable ctx) = ctx"
| "error_context_of (InvalidHostLabel ctx _ _ _ _) = ctx"
| "error_context_of (Timeout ctx _) = ctx"
| "error_context_of (Connect ctx _) = ctx"
| "error_context_of (RequestExecution ctx _) = ctx"
| "error_context_of (RequestBody ctx _ _) = ctx"
| "error_context_of (ResponseTooLarge ctx _ _) = ctx"
| "error_context_of (ResponseBodyLimitExceeded ctx _) = ctx"
| "error_context_of (ResponseBody ctx _) = ctx"
| "error_context_of (ResponseFile ctx _ _) = ctx"
| "error_context_of (RequestBodyLimitExceeded ctx _ _) = ctx"
| "error_context_of (HttpStatus ctx _ _ _) = ctx"
| "error_context_of (Decode ctx _) = ctx"
| "error_context_of (Codec ctx _) = ctx"
| "error_context_of (HeadRequiresNoContent ctx) = ctx"
| "error_context_of (NoContentStatusRequiresNoContent ctx _) = ctx"
| "error_context_of (ResponseContract ctx _) = ctx"
| "error_context_of (RateLimit ctx _) = ctx"
| "error_context_of (Pagination ctx _ _) = ctx"
| "error_context_of (PaginationLimit ctx _ _) = ctx"
| "error_context_of (Auth ctx _) = ctx"
| "error_context_of (PolicyViolation ctx _) = ctx"
| "error_context_of (RuntimeState ctx _ _) = ctx"

section \<open>Response classification\<close>

datatype response_class = Success | HttpStatusError

text \<open>\<open>StatusCode::is_success\<close>: a code in \<open>200..300\<close>.\<close>

definition classify_status :: "nat \<Rightarrow> response_class" where
  "classify_status status = (if 200 \<le> status \<and> status < 300 then Success else HttpStatusError)"

end
