(* ===== verification/RateLimitGovernor.thy ===== *)
theory RateLimitGovernor
  imports Errors
begin

text \<open>
  The default limiter (\<open>rate_limit/governor_runtime.rs\<close>): cooldown keys and the cooldown table, the
  bounded table of per-window limiters with idle pruning and oldest-first eviction, the cooldown
  wait loop and the permit acquisition. The \<open>governor\<close> crate is a parameter: \<open>with_period\<close> and
  \<open>allow_burst\<close> build a quota, \<open>direct\<close> a limiter of type \<open>'l\<close>, and \<open>until_n_ready\<close> says whether a
  limiter can ever grant a cost. Clock readings are arguments.
\<close>

section \<open>Keys\<close>

type_synonym resolved_rate_limit_key = "(string \<times> string) list"

datatype rate_limit_cooldown_key =
    CkClient
  | CkRequest string string string
  | CkEndpoint string string
  | CkHost string
  | CkBucketKind string resolved_rate_limit_key
  | CkBucket rate_limit_bucket_id resolved_rate_limit_key

record governor_window_spec =
  gws_id :: rate_limit_bucket_id
  gws_key :: resolved_rate_limit_key
  gws_window :: rate_limit_window

definition ctx_rate_limit_error ::
  "rate_limit_context \<Rightarrow> rate_limit_error_kind \<Rightarrow> string \<Rightarrow> api_client_error" where
  "ctx_rate_limit_error ctx kind msg =
     rate_limit \<lparr>ec_endpoint = rlc_endpoint ctx, ec_method = rlc_method ctx\<rparr> kind msg"

definition missing_host_key_error :: "rate_limit_context \<Rightarrow> api_client_error" where
  "missing_host_key_error ctx =
     ctx_rate_limit_error ctx RlInvalidKey
       ''rate_limit key `[host]` requires request URL to have a host''"

fun resolve_key_part_value ::
  "rate_limit_context \<Rightarrow> rate_limit_key_value \<Rightarrow> (api_client_error, string) result" where
  "resolve_key_part_value ctx (KStatic v) = Inr v"
| "resolve_key_part_value ctx KEndpoint = Inr (rlc_endpoint ctx)"
| "resolve_key_part_value ctx KMethod = Inr (rlc_method ctx)"
| "resolve_key_part_value ctx KUrlHost = ok_or (rlc_url_host ctx) (missing_host_key_error ctx)"

definition resolve_key ::
  "rate_limit_context \<Rightarrow> rate_limit_key \<Rightarrow> (api_client_error, resolved_rate_limit_key) result" where
  "resolve_key ctx key =
     collect_results
       (\<lambda>part. rbind (resolve_key_part_value ctx (kp_value part)) (\<lambda>v. Inr (kp_name part, v))) key"

definition request_cooldown_key :: "rate_limit_context \<Rightarrow> rate_limit_cooldown_key" where
  "request_cooldown_key ctx = CkRequest (rlc_method ctx) (rlc_endpoint ctx) (rlc_url ctx)"

definition client_cooldown_key :: rate_limit_cooldown_key where
  "client_cooldown_key = CkClient"

definition host_cooldown_key ::
  "rate_limit_context \<Rightarrow> (api_client_error, rate_limit_cooldown_key) result" where
  "host_cooldown_key ctx =
     rbind (ok_or (rlc_url_host ctx) (missing_host_key_error ctx)) (\<lambda>host. Inr (CkHost host))"

definition endpoint_cooldown_key :: "rate_limit_context \<Rightarrow> rate_limit_cooldown_key" where
  "endpoint_cooldown_key ctx = CkEndpoint (rlc_method ctx) (rlc_endpoint ctx)"

definition bucket_kind_cooldown_key ::
  "rate_limit_context \<Rightarrow> rate_limit_bucket_use
    \<Rightarrow> (api_client_error, rate_limit_cooldown_key) result" where
  "bucket_kind_cooldown_key ctx b =
     rbind (resolve_key ctx (bu_key b)) (\<lambda>key. Inr (CkBucketKind (bid_kind (bu_id b)) key))"

definition bucket_cooldown_key ::
  "rate_limit_context \<Rightarrow> rate_limit_bucket_use
    \<Rightarrow> (api_client_error, rate_limit_cooldown_key) result" where
  "bucket_cooldown_key ctx b =
     rbind (resolve_key ctx (bu_key b)) (\<lambda>key. Inr (CkBucket (bu_id b) key))"

text \<open>The loop over the buckets pushes two keys per bucket and stops at the first failure.\<close>

fun bucket_acquire_keys ::
  "rate_limit_context \<Rightarrow> rate_limit_bucket_use list
    \<Rightarrow> (api_client_error, rate_limit_cooldown_key list) result" where
  "bucket_acquire_keys ctx [] = Inr []"
| "bucket_acquire_keys ctx (b # bs) =
     rbind (bucket_kind_cooldown_key ctx b) (\<lambda>kk.
     rbind (bucket_cooldown_key ctx b) (\<lambda>bk.
     rbind (bucket_acquire_keys ctx bs) (\<lambda>ks. Inr (kk # bk # ks))))"

definition cooldown_keys_for_acquire ::
  "rate_limit_context \<Rightarrow> (api_client_error, rate_limit_cooldown_key list) result" where
  "cooldown_keys_for_acquire ctx =
     (let fixed_keys = [client_cooldown_key, endpoint_cooldown_key ctx, request_cooldown_key ctx] in
      rbind (if rlc_url_host ctx \<noteq> None
             then rbind (host_cooldown_key ctx) (\<lambda>k. Inr (fixed_keys @ [k]))
             else Inr fixed_keys)
        (\<lambda>keys. rbind (bucket_acquire_keys ctx (rlp_buckets (rlc_plan ctx)))
                  (\<lambda>bks. Inr (keys @ bks))))"

fun cooldown_keys_for_target ::
  "rate_limit_context \<Rightarrow> rate_limit_target
    \<Rightarrow> (api_client_error, rate_limit_cooldown_key list) result" where
  "cooldown_keys_for_target ctx TNone = Inr []"
| "cooldown_keys_for_target ctx TRequest = Inr [request_cooldown_key ctx]"
| "cooldown_keys_for_target ctx TEndpoint = Inr [endpoint_cooldown_key ctx]"
| "cooldown_keys_for_target ctx THost =
     (if rlc_url_host ctx = None then Inl (missing_host_key_error ctx)
      else rbind (host_cooldown_key ctx) (\<lambda>k. Inr [k]))"
| "cooldown_keys_for_target ctx TClient = Inr [client_cooldown_key]"
| "cooldown_keys_for_target ctx (TCurrentPlan fallback) =
     (if plan_is_empty (rlc_plan ctx) then cooldown_keys_for_target ctx fallback
      else collect_results (bucket_cooldown_key ctx) (rlp_buckets (rlc_plan ctx)))"
| "cooldown_keys_for_target ctx (TBucketKind kind fallback) =
     rbind (collect_results (bucket_kind_cooldown_key ctx)
              (filter (\<lambda>b. bid_kind (bu_id b) = kind) (rlp_buckets (rlc_plan ctx))))
       (\<lambda>keys. if keys = [] then cooldown_keys_for_target ctx fallback else Inr keys)"
| "cooldown_keys_for_target ctx (TBucket i fallback) =
     rbind (collect_results (bucket_cooldown_key ctx)
              (filter (\<lambda>b. bu_id b = i) (rlp_buckets (rlc_plan ctx))))
       (\<lambda>keys. if keys = [] then cooldown_keys_for_target ctx fallback else Inr keys)"

section \<open>State\<close>

text \<open>A \<open>Mutex\<close>: \<open>lock()\<close> fails once the mutex is poisoned.\<close>

record 'a mutex =
  mx_poisoned :: bool
  mx_value :: 'a

type_synonym cooldown_table = "(rate_limit_cooldown_key, instant) hash_map"

record 'l governor_window_entry =
  gwe_limiter :: 'l
  gwe_last_used :: instant

type_synonym 'l window_table = "(governor_window_spec, 'l governor_window_entry) hash_map"

record 'l governor_window_state =
  gst_windows :: "'l window_table"
  gst_next_prune_at :: "instant option"

record 'l governor_rate_limiter =
  grl_windows :: "'l governor_window_state mutex"
  grl_cooldowns :: "cooldown_table mutex"
  grl_max_window_entries :: nat
  grl_max_cooldown_entries :: nat
  grl_window_idle_ttl :: duration

definition DEFAULT_MAX_WINDOW_ENTRIES :: nat where
  "DEFAULT_MAX_WINDOW_ENTRIES = 4096"

definition DEFAULT_MAX_COOLDOWN_ENTRIES :: nat where
  "DEFAULT_MAX_COOLDOWN_ENTRIES = 4096"

definition governor_new :: "'l governor_rate_limiter" where
  "governor_new =
     \<lparr>grl_windows =
        \<lparr>mx_poisoned = False, mx_value = \<lparr>gst_windows = [], gst_next_prune_at = None\<rparr>\<rparr>,
      grl_cooldowns = \<lparr>mx_poisoned = False, mx_value = []\<rparr>,
      grl_max_window_entries = DEFAULT_MAX_WINDOW_ENTRIES,
      grl_max_cooldown_entries = DEFAULT_MAX_COOLDOWN_ENTRIES,
      grl_window_idle_ttl = secs (15 * 60)\<rparr>"

definition with_max_window_entries ::
  "'l governor_rate_limiter \<Rightarrow> nat \<Rightarrow> 'l governor_rate_limiter" where
  "with_max_window_entries g n = g\<lparr>grl_max_window_entries := max n 1\<rparr>"

definition with_max_cooldown_entries ::
  "'l governor_rate_limiter \<Rightarrow> nat \<Rightarrow> 'l governor_rate_limiter" where
  "with_max_cooldown_entries g n = g\<lparr>grl_max_cooldown_entries := max n 1\<rparr>"

definition with_window_idle_ttl ::
  "'l governor_rate_limiter \<Rightarrow> duration \<Rightarrow> 'l governor_rate_limiter" where
  "with_window_idle_ttl g d = g\<lparr>grl_window_idle_ttl := d\<rparr>"

section \<open>The window table\<close>

definition evict_oldest_windows :: "'l window_table \<Rightarrow> nat \<Rightarrow> 'l window_table" where
  "evict_oldest_windows windows count =
     (if count = 0 \<or> windows = [] then windows
      else
        (let oldest = sort_key snd (map (\<lambda>(spec, entry). (spec, gwe_last_used entry)) windows)
         in foldl (\<lambda>ws (spec, _). AList.delete spec ws) windows (take count oldest)))"

definition next_window_prune_at :: "instant \<Rightarrow> duration \<Rightarrow> 'l window_table \<Rightarrow> instant option" where
  "next_window_prune_at instant_max ttl windows =
     (let deadlines =
        (if ttl = 0 then map (\<lambda>(_, e). gwe_last_used e) windows
         else List.map_filter (\<lambda>(_, e). instant_checked_add instant_max (gwe_last_used e) ttl) windows)
      in if deadlines = [] then None else Some (Min (set deadlines)))"

definition prune_windows ::
  "instant \<Rightarrow> 'l governor_rate_limiter \<Rightarrow> 'l governor_window_state \<Rightarrow> instant
    \<Rightarrow> 'l governor_window_state" where
  "prune_windows instant_max g st now =
     (let ttl = grl_window_idle_ttl g;
          kept = (if ttl \<noteq> 0
                  then filter (\<lambda>(_, e). saturating_duration_since now (gwe_last_used e) \<le> ttl)
                         (gst_windows st)
                  else gst_windows st);
          bounded = (if grl_max_window_entries g < length kept
                     then evict_oldest_windows kept (length kept - grl_max_window_entries g)
                     else kept)
      in \<lparr>gst_windows = bounded,
          gst_next_prune_at = next_window_prune_at instant_max ttl bounded\<rparr>)"

definition prune_windows_if_needed ::
  "instant \<Rightarrow> 'l governor_rate_limiter \<Rightarrow> 'l governor_window_state \<Rightarrow> instant
    \<Rightarrow> 'l governor_window_state" where
  "prune_windows_if_needed instant_max g st now =
     (case gst_next_prune_at st of
        None \<Rightarrow> st
      | Some deadline \<Rightarrow> if now < deadline then st else prune_windows instant_max g st now)"

definition note_window_prune_at ::
  "instant \<Rightarrow> 'l governor_rate_limiter \<Rightarrow> 'l governor_window_state \<Rightarrow> instant
    \<Rightarrow> 'l governor_window_state" where
  "note_window_prune_at instant_max g st now =
     (if grl_window_idle_ttl g = 0 then st\<lparr>gst_next_prune_at := Some now\<rparr>
      else
        (case instant_checked_add instant_max now (grl_window_idle_ttl g) of
           None \<Rightarrow> st
         | Some deadline \<Rightarrow>
             st\<lparr>gst_next_prune_at :=
                 Some (case gst_next_prune_at st of None \<Rightarrow> deadline | Some c \<Rightarrow> min c deadline)\<rparr>))"

definition quota_for_window ::
  "(duration \<Rightarrow> 'q option) \<Rightarrow> ('q \<Rightarrow> u32 \<Rightarrow> 'q) \<Rightarrow> rate_limit_context \<Rightarrow> rate_limit_window
    \<Rightarrow> (api_client_error, 'q) result" where
  "quota_for_window with_period allow_burst ctx w =
     (if rlw_per w = 0 then
        Inl (ctx_rate_limit_error ctx RlInvalidConfiguration
               ''rate-limit window duration must not be zero'')
      else if rlw_max w = 0 then
        Inl (ctx_rate_limit_error ctx RlInvalidConfiguration
               ''rate-limit window duration is too small for max'')
      else
        (let per_cell = rlw_per w div unat (rlw_max w) in
         if per_cell = 0 then
           Inl (ctx_rate_limit_error ctx RlInvalidConfiguration
                  ''rate-limit window duration is too small for max'')
         else ok_or (map_option (\<lambda>q. allow_burst q (rlw_max w)) (with_period per_cell))
                (ctx_rate_limit_error ctx RlInvalidConfiguration ''invalid rate-limit quota'')))"

record ('q, 'l) governor_api =
  api_with_period :: "duration \<Rightarrow> 'q option"
  api_allow_burst :: "'q \<Rightarrow> u32 \<Rightarrow> 'q"
  api_direct :: "'q \<Rightarrow> 'l"
  api_until_n_ready :: "'l \<Rightarrow> u32 \<Rightarrow> bool"

definition limiter_for_locked ::
  "('q, 'l) governor_api \<Rightarrow> instant \<Rightarrow> 'l governor_rate_limiter \<Rightarrow> rate_limit_context
    \<Rightarrow> governor_window_spec \<Rightarrow> instant \<Rightarrow> 'l governor_window_state
    \<Rightarrow> (api_client_error, 'l) result \<times> 'l governor_window_state" where
  "limiter_for_locked api instant_max g ctx spec now st0 =
     (let st = prune_windows_if_needed instant_max g st0 now in
      case map_of (gst_windows st) spec of
        Some existing \<Rightarrow>
          (Inr (gwe_limiter existing),
           note_window_prune_at instant_max g
             (st\<lparr>gst_windows :=
                   AList.update spec (existing\<lparr>gwe_last_used := now\<rparr>) (gst_windows st)\<rparr>) now)
      | None \<Rightarrow>
          (let current_len = length (gst_windows st);
               st = (if grl_max_window_entries g \<le> current_len
                     then st\<lparr>gst_windows :=
                            evict_oldest_windows (gst_windows st)
                              (current_len + 1 - grl_max_window_entries g)\<rparr>
                     else st)
           in case quota_for_window (api_with_period api) (api_allow_burst api) ctx (gws_window spec) of
                Inl e \<Rightarrow> (Inl e, st)
              | Inr quota \<Rightarrow>
                  (let limiter = api_direct api quota in
                   (Inr limiter,
                    note_window_prune_at instant_max g
                      (st\<lparr>gst_windows :=
                           AList.update spec \<lparr>gwe_limiter = limiter, gwe_last_used = now\<rparr>
                             (gst_windows st)\<rparr>) now))))"

definition limiter_for ::
  "('q, 'l) governor_api \<Rightarrow> instant \<Rightarrow> 'l governor_rate_limiter \<Rightarrow> rate_limit_context
    \<Rightarrow> governor_window_spec \<Rightarrow> instant
    \<Rightarrow> (api_client_error, 'l) result \<times> 'l governor_rate_limiter" where
  "limiter_for api instant_max g ctx spec now =
     (if mx_poisoned (grl_windows g)
      then (Inl (ctx_rate_limit_error ctx RlInternal ''rate limit window lock poisoned''), g)
      else
        (let (r, st) = limiter_for_locked api instant_max g ctx spec now (mx_value (grl_windows g))
         in (r, g\<lparr>grl_windows := (grl_windows g)\<lparr>mx_value := st\<rparr>\<rparr>)))"

section \<open>The cooldown table\<close>

definition prune_cooldowns :: "cooldown_table \<Rightarrow> instant \<Rightarrow> cooldown_table" where
  "prune_cooldowns cds now = filter (\<lambda>(_, until). now < until) cds"

text \<open>One round of the loop of \<open>wait_cooldown\<close>, up to the \<open>sleep\<close>.\<close>

datatype wait_round =
    WaitDone "(api_client_error, unit) result"
  | WaitSleep duration

definition cooldown_delay ::
  "cooldown_table \<Rightarrow> instant \<Rightarrow> rate_limit_cooldown_key list \<Rightarrow> duration option" where
  "cooldown_delay cds now keys =
     (let delays = List.map_filter (\<lambda>until. checked_duration_since until now)
                     (List.map_filter (map_of cds) keys)
      in if delays = [] then None else Some (Max (set delays)))"

definition wait_cooldown_round ::
  "rate_limit_context \<Rightarrow> instant \<Rightarrow> cooldown_table mutex \<Rightarrow> wait_round \<times> cooldown_table mutex" where
  "wait_cooldown_round ctx now m =
     (case cooldown_keys_for_acquire ctx of
        Inl e \<Rightarrow> (WaitDone (Inl e), m)
      | Inr keys \<Rightarrow>
          if mx_poisoned m
          then (WaitDone (Inl (ctx_rate_limit_error ctx RlInternal
                                 ''rate limit cooldown lock poisoned'')), m)
          else
            (let cds = prune_cooldowns (mx_value m) now;
                 m' = m\<lparr>mx_value := cds\<rparr>
             in case cooldown_delay cds now keys of
                  None \<Rightarrow> (WaitDone (Inr ()), m')
                | Some delay \<Rightarrow>
                    if delay = 0 then (WaitDone (Inr ()), m')
                    else if rlc_max_cooldown ctx < delay then
                      (WaitDone (Inl (ctx_rate_limit_error ctx RlInvalidConfiguration
                         ''rate-limit cooldown exceeds configured maximum'')), m')
                    else (WaitSleep delay, m')))"

text \<open>
  The loop itself. \<open>clock i\<close> is the reading of \<open>Instant::now()\<close> in round \<open>i\<close> and \<open>others i\<close> what other
  tasks did to the table while this one slept after round \<open>i\<close>. The fuel bounds the number of rounds;
  \<open>None\<close> means it ran out.
\<close>

fun wait_cooldown ::
  "nat \<Rightarrow> rate_limit_context \<Rightarrow> (nat \<Rightarrow> instant) \<Rightarrow> (nat \<Rightarrow> cooldown_table mutex \<Rightarrow> cooldown_table mutex)
    \<Rightarrow> nat \<Rightarrow> cooldown_table mutex
    \<Rightarrow> ((api_client_error, unit) result \<times> nat \<times> cooldown_table mutex) option" where
  "wait_cooldown 0 ctx clock others i m = None"
| "wait_cooldown (Suc fuel) ctx clock others i m =
     (case wait_cooldown_round ctx (clock i) m of
        (WaitDone r, m') \<Rightarrow> Some (r, i, m')
      | (WaitSleep delay, m') \<Rightarrow> wait_cooldown fuel ctx clock others (Suc i) (others i m'))"

definition extend_cooldown :: "instant \<Rightarrow> cooldown_table \<Rightarrow> rate_limit_cooldown_key \<Rightarrow> cooldown_table"
  where
  "extend_cooldown until cds key =
     (case map_of cds key of
        None \<Rightarrow> AList.update key until cds
      | Some entry \<Rightarrow> if entry < until then AList.update key until cds else cds)"

definition store_cooldown ::
  "instant \<Rightarrow> 'l governor_rate_limiter \<Rightarrow> rate_limit_context \<Rightarrow> rate_limit_target \<Rightarrow> duration
    \<Rightarrow> duration \<Rightarrow> instant \<Rightarrow> (api_client_error, bool) result \<times> 'l governor_rate_limiter" where
  "store_cooldown instant_max g ctx target delay max_cooldown now =
     (case cooldown_keys_for_target ctx target of
        Inl e \<Rightarrow> (Inl e, g)
      | Inr keys \<Rightarrow>
          if keys = [] then (Inr False, g)
          else if max_cooldown < delay then
            (Inl (ctx_rate_limit_error ctx RlInvalidConfiguration
                    ''rate-limit cooldown exceeds configured maximum''), g)
          else
            (case instant_checked_add instant_max now delay of
               None \<Rightarrow>
                 (Inl (ctx_rate_limit_error ctx RlInvalidConfiguration
                         ''rate-limit cooldown duration overflowed''), g)
             | Some until \<Rightarrow>
                 if mx_poisoned (grl_cooldowns g) then
                   (Inl (ctx_rate_limit_error ctx RlInternal
                           ''rate limit cooldown lock poisoned''), g)
                 else
                   (let cds = prune_cooldowns (mx_value (grl_cooldowns g)) now;
                        new_entries = card (set (filter (\<lambda>k. k \<notin> fst ` set cds) keys));
                        put = (\<lambda>t. g\<lparr>grl_cooldowns := (grl_cooldowns g)\<lparr>mx_value := t\<rparr>\<rparr>)
                    in if grl_max_cooldown_entries g < length cds + new_entries then
                         (Inl (ctx_rate_limit_error ctx RlInvalidConfiguration
                                 ''rate-limit cooldown entry cap exceeded''), put cds)
                       else (Inr True, put (foldl (extend_cooldown until) cds keys)))))"

definition store_observation ::
  "instant \<Rightarrow> 'l governor_rate_limiter \<Rightarrow> rate_limit_response_context \<Rightarrow> rate_limit_observation
    \<Rightarrow> instant \<Rightarrow> (api_client_error, rate_limit_response_action) result \<times> 'l governor_rate_limiter"
  where
  "store_observation instant_max g ctx obs now =
     (if \<not> obs_limited obs then (Inr Continue, g)
      else
        (let delay = map_option (\<lambda>d. min d (rrc_max_cooldown ctx)) (obs_delay obs) in
         case delay of
           None \<Rightarrow> (Inr (Limited delay (obs_target obs) False), g)
         | Some d \<Rightarrow>
             if d = 0 \<or> obs_target obs = TNone
             then (Inr (Limited delay (obs_target obs) False), g)
             else
               (case store_cooldown instant_max g (rrc_meta ctx) (obs_target obs) d
                       (rrc_max_cooldown ctx) now of
                  (Inl e, g') \<Rightarrow> (Inl e, g')
                | (Inr stored, g') \<Rightarrow> (Inr (Limited delay (obs_target obs) stored), g'))))"

section \<open>Acquisition\<close>

text \<open>
  The permit loop over the windows of one bucket. \<open>clock i\<close> is the reading of the \<open>i\<close>-th call of
  \<open>limiter_for\<close>. The result carries the limiters that granted the cost, in order.
\<close>

fun acquire_windows ::
  "('q, 'l) governor_api \<Rightarrow> instant \<Rightarrow> rate_limit_context \<Rightarrow> rate_limit_bucket_id
    \<Rightarrow> resolved_rate_limit_key \<Rightarrow> u32 \<Rightarrow> (nat \<Rightarrow> instant) \<Rightarrow> nat \<Rightarrow> rate_limit_window list
    \<Rightarrow> 'l governor_rate_limiter
    \<Rightarrow> (api_client_error, unit) result \<times> 'l list \<times> nat \<times> 'l governor_rate_limiter" where
  "acquire_windows api imax ctx bid key cost clock i [] g = (Inr (), [], i, g)"
| "acquire_windows api imax ctx bid key cost clock i (w # ws) g =
     (case limiter_for api imax g ctx \<lparr>gws_id = bid, gws_key = key, gws_window = w\<rparr> (clock i) of
        (Inl e, g') \<Rightarrow> (Inl e, [], Suc i, g')
      | (Inr limiter, g') \<Rightarrow>
          if api_until_n_ready api limiter cost then
            (case acquire_windows api imax ctx bid key cost clock (Suc i) ws g' of
               (r, ls, j, g'') \<Rightarrow> (r, limiter # ls, j, g''))
          else
            (Inl (ctx_rate_limit_error ctx RlAcquireFailed
                    ''rate-limit cost exceeds bucket capacity''), [], Suc i, g'))"

fun acquire_buckets ::
  "('q, 'l) governor_api \<Rightarrow> instant \<Rightarrow> rate_limit_context \<Rightarrow> (nat \<Rightarrow> instant) \<Rightarrow> nat
    \<Rightarrow> rate_limit_bucket_use list \<Rightarrow> 'l governor_rate_limiter
    \<Rightarrow> (api_client_error, unit) result \<times> 'l list \<times> nat \<times> 'l governor_rate_limiter" where
  "acquire_buckets api imax ctx clock i [] g = (Inr (), [], i, g)"
| "acquire_buckets api imax ctx clock i (b # bs) g =
     (case resolve_key ctx (bu_key b) of
        Inl e \<Rightarrow> (Inl e, [], i, g)
      | Inr key \<Rightarrow>
          (case acquire_windows api imax ctx (bu_id b) key (bu_cost b) clock i (bu_windows b) g of
             (Inl e, ls, j, g') \<Rightarrow> (Inl e, ls, j, g')
           | (Inr _, ls, j, g') \<Rightarrow>
               (case acquire_buckets api imax ctx clock j bs g' of
                  (r, ls', k, g'') \<Rightarrow> (r, ls @ ls', k, g''))))"

definition governor_acquire ::
  "nat \<Rightarrow> ('q, 'l) governor_api \<Rightarrow> instant \<Rightarrow> rate_limit_context \<Rightarrow> (nat \<Rightarrow> instant)
    \<Rightarrow> (nat \<Rightarrow> cooldown_table mutex \<Rightarrow> cooldown_table mutex) \<Rightarrow> 'l governor_rate_limiter
    \<Rightarrow> ((api_client_error, unit) result \<times> 'l list \<times> 'l governor_rate_limiter) option" where
  "governor_acquire fuel api imax ctx clock others g =
     (case wait_cooldown fuel ctx clock others 0 (grl_cooldowns g) of
        None \<Rightarrow> None
      | Some (Inl e, i, m) \<Rightarrow> Some (Inl e, [], g\<lparr>grl_cooldowns := m\<rparr>)
      | Some (Inr _, i, m) \<Rightarrow>
          (let g' = g\<lparr>grl_cooldowns := m\<rparr> in
           if plan_is_empty (rlc_plan ctx) then Some (Inr (), [], g')
           else
             (case acquire_buckets api imax ctx clock (Suc i) (rlp_buckets (rlc_plan ctx)) g' of
                (r, ls, _, g'') \<Rightarrow> Some (r, ls, g''))))"

definition governor_on_response ::
  "(rate_limit_response_context \<Rightarrow> rate_limit_observation) \<Rightarrow> instant \<Rightarrow> 'l governor_rate_limiter
    \<Rightarrow> rate_limit_response_context \<Rightarrow> instant
    \<Rightarrow> (api_client_error, rate_limit_response_action) result \<times> 'l governor_rate_limiter" where
  "governor_on_response policy instant_max g ctx now =
     store_observation instant_max g ctx (policy ctx) now"

end
