(* ===== verification/GovernorCooldown.thy ===== *)
theory GovernorCooldown
  imports RateLimitGovernor
begin

text \<open>
  Properties of the cooldown half of the limiter: every key a response can put on cooldown is
  consulted by later acquisitions of the same call, a stored cooldown blocks them until it expires,
  the table stays within its cap and never shortens a cooldown, and the wait loop ends.
\<close>

section \<open>Keys\<close>

lemma bucket_keys_Inr:
  "bucket_cooldown_key ctx b = Inr k \<longleftrightarrow>
     (\<exists>key. resolve_key ctx (bu_key b) = Inr key \<and> k = CkBucket (bu_id b) key)"
  "bucket_kind_cooldown_key ctx b = Inr k \<longleftrightarrow>
     (\<exists>key. resolve_key ctx (bu_key b) = Inr key \<and> k = CkBucketKind (bid_kind (bu_id b)) key)"
  by (auto simp: bucket_cooldown_key_def bucket_kind_cooldown_key_def rbind_Inr_iff)

lemma bucket_acquire_keys_complete:
  assumes "bucket_acquire_keys ctx bs = Inr ks" and "b \<in> set bs"
  shows "bucket_cooldown_key ctx b = Inr k \<Longrightarrow> k \<in> set ks"
    and "bucket_kind_cooldown_key ctx b = Inr k \<Longrightarrow> k \<in> set ks"
  using assms
  by (induction bs arbitrary: ks) (auto simp: rbind_Inr_iff)

lemma acquire_keysE:
  assumes "cooldown_keys_for_acquire ctx = Inr keys"
  obtains bks where "bucket_acquire_keys ctx (rlp_buckets (rlc_plan ctx)) = Inr bks"
    and "set keys = {client_cooldown_key, endpoint_cooldown_key ctx, request_cooldown_key ctx}
           \<union> (case rlc_url_host ctx of None \<Rightarrow> {} | Some h \<Rightarrow> {CkHost h}) \<union> set bks"
  using assms
  by (cases "rlc_url_host ctx")
     (auto simp: cooldown_keys_for_acquire_def Let_def rbind_Inr_iff host_cooldown_key_def
       insert_commute)

lemma collected_bucket_keys_consulted:
  assumes "bucket_acquire_keys ctx bs = Inr bks" and "set bs' \<subseteq> set bs"
    and "collect_results (bucket_cooldown_key ctx) bs' = Inr ks
       \<or> collect_results (bucket_kind_cooldown_key ctx) bs' = Inr ks"
  shows "set ks \<subseteq> set bks"
proof
  fix k
  assume k: "k \<in> set ks"
  from assms(3) obtain b where "b \<in> set bs'"
    and "bucket_cooldown_key ctx b = Inr k \<or> bucket_kind_cooldown_key ctx b = Inr k"
    using k collect_results_set by metis
  with assms(1,2) show "k \<in> set bks"
    using bucket_acquire_keys_complete [OF assms(1), of b] by blast
qed

lemma target_keys_subset:
  assumes "cooldown_keys_for_target ctx target = Inr ks"
    and "cooldown_keys_for_acquire ctx = Inr keys"
  shows "set ks \<subseteq> set keys"
proof -
  obtain bks where bks: "bucket_acquire_keys ctx (rlp_buckets (rlc_plan ctx)) = Inr bks"
    and keys: "set keys = {client_cooldown_key, endpoint_cooldown_key ctx, request_cooldown_key ctx}
           \<union> (case rlc_url_host ctx of None \<Rightarrow> {} | Some h \<Rightarrow> {CkHost h}) \<union> set bks"
    using assms(2) by (rule acquire_keysE)
  note consulted = collected_bucket_keys_consulted [OF bks]
  show ?thesis
    using assms(1)
  proof (induction target)
    case (TCurrentPlan fallback)
    then show ?case
      using consulted [OF subset_refl] keys by (fastforce split: if_splits)
  next
    case (TBucketKind kind fallback)
    then show ?case
      using consulted [OF filter_is_subset] keys
      by (fastforce simp: rbind_Inr_iff split: if_splits)
  next
    case (TBucket i fallback)
    then show ?case
      using consulted [OF filter_is_subset] keys
      by (fastforce simp: rbind_Inr_iff split: if_splits)
  qed (auto simp: keys host_cooldown_key_def split: if_splits option.splits)
qed

section \<open>The table\<close>

definition cooldowns_ok :: "'l governor_rate_limiter \<Rightarrow> bool" where
  "cooldowns_ok g \<longleftrightarrow>
     hm_ok (mx_value (grl_cooldowns g))
     \<and> length (mx_value (grl_cooldowns g)) \<le> grl_max_cooldown_entries g"

lemma prune_cooldowns_get:
  "hm_ok cds \<Longrightarrow> map_of (prune_cooldowns cds now) k =
     (case map_of cds k of None \<Rightarrow> None | Some u \<Rightarrow> if now < u then Some u else None)"
  by (auto simp: prune_cooldowns_def hm_get_filter split: option.splits)

lemma prune_cooldowns_ok [simp]: "hm_ok cds \<Longrightarrow> hm_ok (prune_cooldowns cds now)"
  by (simp add: prune_cooldowns_def)

lemma prune_cooldowns_length: "length (prune_cooldowns cds now) \<le> length cds"
  by (simp add: prune_cooldowns_def)

lemma prune_cooldowns_live:
  "hm_ok cds \<Longrightarrow> map_of (prune_cooldowns cds now) k = Some u \<Longrightarrow> now < u"
  by (auto simp: prune_cooldowns_get split: option.splits if_splits)

lemma extend_cooldown_get:
  "map_of (extend_cooldown u cds key) k =
     (if k = key then Some (case map_of cds key of None \<Rightarrow> u | Some v \<Rightarrow> max v u)
      else map_of cds k)"
  by (auto simp: extend_cooldown_def update_conv' max_def split: option.splits)

lemma extend_cooldown_ok [simp]: "hm_ok cds \<Longrightarrow> hm_ok (extend_cooldown u cds key)"
  by (simp add: extend_cooldown_def split: option.splits)

lemma extend_cooldown_keys: "fst ` set (extend_cooldown u cds key) = insert key (fst ` set cds)"
proof (cases "map_of cds key")
  case None
  then show ?thesis by (simp add: extend_cooldown_def hm_keys_update)
next
  case (Some v)
  then have "key \<in> fst ` set cds" by (metis map_of_eq_None_iff option.distinct(1))
  with Some show ?thesis by (auto simp: extend_cooldown_def hm_keys_update)
qed

lemma extend_all_get:
  "map_of (foldl (extend_cooldown u) cds keys) k =
     (if k \<in> set keys then Some (case map_of cds k of None \<Rightarrow> u | Some v \<Rightarrow> max v u)
      else map_of cds k)"
  by (induction keys arbitrary: cds) (auto simp: extend_cooldown_get split: option.splits)

lemma extend_all_ok [simp]: "hm_ok cds \<Longrightarrow> hm_ok (foldl (extend_cooldown u) cds keys)"
  by (induction keys arbitrary: cds) auto

lemma extend_all_keys:
  "fst ` set (foldl (extend_cooldown u) cds keys) = set keys \<union> fst ` set cds"
  by (induction keys arbitrary: cds) (auto simp: extend_cooldown_keys)

lemma extend_all_length:
  assumes "hm_ok cds"
  shows "length (foldl (extend_cooldown u) cds keys) =
    length cds + card (set (filter (\<lambda>k. k \<notin> fst ` set cds) keys))"
proof -
  have new: "set keys \<union> fst ` set cds = fst ` set cds \<union> set (filter (\<lambda>k. k \<notin> fst ` set cds) keys)"
    by auto
  have "length (foldl (extend_cooldown u) cds keys) = card (set keys \<union> fst ` set cds)"
    using assms by (simp add: hm_len_card extend_all_keys)
  also have "\<dots> = card (fst ` set cds) + card (set (filter (\<lambda>k. k \<notin> fst ` set cds) keys))"
    unfolding new by (rule card_Un_disjoint) auto
  finally show ?thesis
    using assms by (simp add: hm_len_card)
qed

section \<open>Storing a cooldown\<close>

lemma store_cooldown_TrueE:
  assumes "store_cooldown imax g ctx target delay mc now = (Inr True, g')"
  obtains keys where "cooldown_keys_for_target ctx target = Inr keys" "keys \<noteq> []"
    "delay \<le> mc" "now + delay \<le> imax" "\<not> mx_poisoned (grl_cooldowns g)"
    "length (prune_cooldowns (mx_value (grl_cooldowns g)) now)
       + card (set (filter (\<lambda>k. k \<notin> fst ` set (prune_cooldowns (mx_value (grl_cooldowns g)) now)) keys))
       \<le> grl_max_cooldown_entries g"
    "g' = g\<lparr>grl_cooldowns := (grl_cooldowns g)\<lparr>mx_value :=
       foldl (extend_cooldown (now + delay)) (prune_cooldowns (mx_value (grl_cooldowns g)) now) keys\<rparr>\<rparr>"
  using assms
  by (auto simp: store_cooldown_def Let_def instant_checked_add_def simp del: set_filter
      split: sum.splits if_splits option.splits)

lemma store_cooldown_failure:
  assumes "store_cooldown imax g ctx target delay mc now = (r, g')" and "r \<noteq> Inr True"
  shows "g' = g \<or>
    g' = g\<lparr>grl_cooldowns := (grl_cooldowns g)\<lparr>mx_value :=
            prune_cooldowns (mx_value (grl_cooldowns g)) now\<rparr>\<rparr>"
  using assms
  by (auto simp: store_cooldown_def Let_def split: sum.splits if_splits option.splits)

lemma store_cooldown_keeps_ok:
  assumes "cooldowns_ok g" and "store_cooldown imax g ctx target delay mc now = (r, g')"
  shows "cooldowns_ok g'"
proof (cases "r = Inr True")
  case True
  with assms show ?thesis
    by (auto elim!: store_cooldown_TrueE simp: cooldowns_ok_def extend_all_length
        simp del: set_filter)
next
  case False
  have "length (prune_cooldowns (mx_value (grl_cooldowns g)) now) \<le> grl_max_cooldown_entries g"
    using assms(1) prune_cooldowns_length le_trans unfolding cooldowns_ok_def by blast
  with store_cooldown_failure [OF assms(2) False] assms(1) show ?thesis
    by (auto simp: cooldowns_ok_def)
qed

text \<open>A live entry is never shortened or dropped before it expires.\<close>

lemma store_cooldown_monotone:
  assumes "hm_ok (mx_value (grl_cooldowns g))"
    and "store_cooldown imax g ctx target delay mc now = (r, g')"
    and "map_of (mx_value (grl_cooldowns g)) k = Some u" and "now < u"
  shows "\<exists>u'\<ge>u. map_of (mx_value (grl_cooldowns g')) k = Some u'"
proof (cases "r = Inr True")
  case True
  with assms show ?thesis
    by (auto elim!: store_cooldown_TrueE simp: extend_all_get prune_cooldowns_get)
next
  case False
  from store_cooldown_failure [OF assms(2) False] assms show ?thesis
    by (auto simp: prune_cooldowns_get)
qed

lemma store_observation_keeps_ok:
  assumes "cooldowns_ok g" and "store_observation imax g ctx obs now = (r, g')"
  shows "cooldowns_ok g'"
proof -
  have "(\<exists>d r'. store_cooldown imax g (rrc_meta ctx) (obs_target obs) d (rrc_max_cooldown ctx) now
           = (r', g')) \<or> g' = g"
    using assms(2)
    by (auto simp: store_observation_def Let_def split: if_splits option.splits prod.splits sum.splits)
  with assms(1) show ?thesis
    by (auto intro: store_cooldown_keeps_ok)
qed

section \<open>Waiting\<close>

lemma cooldown_delay_None_iff:
  "cooldown_delay cds now keys = None \<longleftrightarrow>
     (\<forall>k\<in>set keys. \<forall>u. map_of cds k = Some u \<longrightarrow> u < now)"
  by (induction keys)
     (auto simp: cooldown_delay_def map_filter_simps checked_duration_since_def Let_def
       split: option.splits if_splits)

lemma delays_mem:
  "d \<in> set (List.map_filter (\<lambda>until. checked_duration_since until now)
       (List.map_filter (map_of cds) keys)) \<longleftrightarrow>
   (\<exists>k\<in>set keys. \<exists>u. map_of cds k = Some u \<and> now \<le> u \<and> d = u - now)"
  by (induction keys)
     (auto simp: map_filter_simps checked_duration_since_def split: option.splits if_splits)

lemma cooldown_delay_SomeD:
  assumes "cooldown_delay cds now keys = Some d"
  shows "\<exists>k\<in>set keys. map_of cds k = Some (now + d)"
    and "k \<in> set keys \<Longrightarrow> map_of cds k = Some u \<Longrightarrow> u \<le> now + d"
proof -
  let ?ds = "List.map_filter (\<lambda>until. checked_duration_since until now)
       (List.map_filter (map_of cds) keys)"
  have ne: "?ds \<noteq> []" and d: "d = Max (set ?ds)"
    using assms by (auto simp: cooldown_delay_def Let_def split: if_splits)
  then have "d \<in> set ?ds" by simp
  then show "\<exists>k\<in>set keys. map_of cds k = Some (now + d)"
    unfolding delays_mem by auto
  assume k: "k \<in> set keys" "map_of cds k = Some u"
  show "u \<le> now + d"
  proof (cases "now \<le> u")
    case True
    with k have "u - now \<in> set ?ds" unfolding delays_mem by auto
    then have "u - now \<le> d" using d by simp
    then show ?thesis by simp
  qed simp
qed

lemma wait_round_done_ok:
  assumes "wait_cooldown_round ctx now m = (WaitDone (Inr ()), m')"
    and "hm_ok (mx_value m)"
    and "cooldown_keys_for_acquire ctx = Inr keys" and "k \<in> set keys"
  shows "map_of (mx_value m') k = None"
proof -
  let ?cds = "prune_cooldowns (mx_value m) now"
  have m': "m' = m\<lparr>mx_value := ?cds\<rparr>"
    and d: "cooldown_delay ?cds now keys = None \<or> cooldown_delay ?cds now keys = Some 0"
    using assms(1,3)
    by (auto simp: wait_cooldown_round_def Let_def split: if_splits option.splits)
  have "u \<le> now" if "map_of ?cds k = Some u" for u
    using d that assms(4) cooldown_delay_SomeD(2) [of ?cds now keys 0 k u]
    by (fastforce simp: cooldown_delay_None_iff)
  moreover have "now < u" if "map_of ?cds k = Some u" for u
    using that assms(2) by (rule prune_cooldowns_live [rotated])
  ultimately show ?thesis
    unfolding m' by (metis mutex.select_convs(2) mutex.surjective mutex.update_convs(2) not_less
        option.exhaust)
qed

lemma wait_round_blocked:
  assumes "hm_ok (mx_value m)" and "cooldown_keys_for_acquire ctx = Inr keys" and "k \<in> set keys"
    and "map_of (mx_value m) k = Some u" and "now < u" and "\<not> mx_poisoned m"
  shows "(\<exists>d m'. wait_cooldown_round ctx now m = (WaitSleep d, m') \<and> u - now \<le> d)
    \<or> (\<exists>m'. wait_cooldown_round ctx now m =
          (WaitDone (Inl (ctx_rate_limit_error ctx RlInvalidConfiguration
             ''rate-limit cooldown exceeds configured maximum'')), m'))"
proof -
  let ?cds = "prune_cooldowns (mx_value m) now"
  have live: "map_of ?cds k = Some u"
    using assms(1,4,5) by (simp add: prune_cooldowns_get)
  then have "cooldown_delay ?cds now keys \<noteq> None"
    using assms(3,5) by (meson cooldown_delay_None_iff less_asym)
  then obtain d where d: "cooldown_delay ?cds now keys = Some d" by blast
  have "u \<le> now + d"
    using cooldown_delay_SomeD(2) [OF d assms(3) live] .
  then have "0 < d" and "u - now \<le> d" using assms(5) by linarith+
  with d assms(2,6) show ?thesis
    by (auto simp: wait_cooldown_round_def Let_def)
qed

section \<open>The wait loop\<close>

text \<open>
  What other tasks may do to the table while one sleeps: they only drop entries that expired by the
  time the sleeper reads the clock again, and never shorten one. \<open>store_cooldown_monotone\<close> and
  \<open>prune_cooldowns_get\<close> show this of the limiter's own operations.
\<close>

definition others_keep_cooldowns ::
  "(nat \<Rightarrow> instant) \<Rightarrow> (nat \<Rightarrow> cooldown_table mutex \<Rightarrow> cooldown_table mutex) \<Rightarrow> bool" where
  "others_keep_cooldowns clock others \<longleftrightarrow>
     (\<forall>i m. hm_ok (mx_value m) \<longrightarrow>
        hm_ok (mx_value (others i m))
        \<and> (\<forall>k u. map_of (mx_value m) k = Some u \<longrightarrow> clock (Suc i) < u \<longrightarrow>
             (\<exists>u'\<ge>u. map_of (mx_value (others i m)) k = Some u')))"

lemma wait_round_table:
  assumes "wait_cooldown_round ctx now m = (w, m')" and "hm_ok (mx_value m)"
  shows "hm_ok (mx_value m')"
    and "map_of (mx_value m) k = Some u \<Longrightarrow> now < u \<Longrightarrow> map_of (mx_value m') k = Some u"
  using assms
  by (auto simp: wait_cooldown_round_def Let_def prune_cooldowns_get
      split: sum.splits if_splits option.splits)

lemma wait_cooldown_index:
  "wait_cooldown fuel ctx clock others i m = Some (r, j, m') \<Longrightarrow> i \<le> j"
proof (induction fuel arbitrary: i m)
  case (Suc fuel)
  then show ?case
    by (auto split: prod.splits wait_round.splits dest!: Suc.IH)
qed simp

lemma wait_cooldown_not_before:
  assumes "wait_cooldown fuel ctx clock others i m = Some (Inr (), j, m')"
    and "cooldown_keys_for_acquire ctx = Inr keys" and "k \<in> set keys"
    and "hm_ok (mx_value m)" and "map_of (mx_value m) k = Some u"
    and "others_keep_cooldowns clock others" and "mono clock"
  shows "u \<le> clock j"
  using assms(1,4,5)
proof (induction fuel arbitrary: i m u)
  case 0
  then show ?case by simp
next
  case (Suc fuel)
  note run = Suc.prems(1) and ok = Suc.prems(2) and entry = Suc.prems(3)
  obtain w m1 where round: "wait_cooldown_round ctx (clock i) m = (w, m1)"
    by (cases "wait_cooldown_round ctx (clock i) m")
  show ?case
  proof (cases "u \<le> clock i")
    case True
    have "clock i \<le> clock j"
      using wait_cooldown_index [OF run] assms(7) by (simp add: monoD)
    with True show ?thesis by simp
  next
    case False
    then have live: "clock i < u" by simp
    have entry1: "map_of (mx_value m1) k = Some u" and ok1: "hm_ok (mx_value m1)"
      using wait_round_table [OF round ok] entry live by auto
    have "w \<noteq> WaitDone (Inr ())"
      using wait_round_done_ok [OF _ ok assms(2,3), of "clock i" m1] round entry1 by auto
    with run round obtain d where w: "w = WaitSleep d"
      and rest: "wait_cooldown fuel ctx clock others (Suc i) (others i m1) = Some (Inr (), j, m')"
      by (auto split: wait_round.splits)
    have ok2: "hm_ok (mx_value (others i m1))"
      using assms(6) ok1 by (simp add: others_keep_cooldowns_def)
    show ?thesis
    proof (cases "clock (Suc i) < u")
      case True
      then obtain u' where "u \<le> u'" and "map_of (mx_value (others i m1)) k = Some u'"
        using assms(6) ok1 entry1 unfolding others_keep_cooldowns_def by blast
      with Suc.IH [OF rest ok2] show ?thesis by (meson le_trans)
    next
      case False
      have "clock (Suc i) \<le> clock j"
        using wait_cooldown_index [OF rest] assms(7) by (simp add: monoD)
      with False show ?thesis by simp
    qed
  qed
qed

lemma wait_round_after_sleep:
  assumes "\<not> mx_poisoned m" and "hm_ok (mx_value m)"
    and "cooldown_keys_for_acquire ctx = Inr keys"
    and "\<And>k u. k \<in> set keys \<Longrightarrow> map_of (mx_value m) k = Some u \<Longrightarrow> u \<le> now"
  shows "\<exists>m'. wait_cooldown_round ctx now m = (WaitDone (Inr ()), m')"
proof -
  have "map_of (prune_cooldowns (mx_value m) now) k = None" if "k \<in> set keys" for k
    using assms(2) assms(4) [of k] that by (fastforce simp: prune_cooldowns_get split: option.splits)
  then have "cooldown_delay (prune_cooldowns (mx_value m) now) now keys = None"
    by (simp add: cooldown_delay_None_iff)
  with assms(1,3) show ?thesis
    by (simp add: wait_cooldown_round_def Let_def)
qed

section \<open>Properties\<close>

text \<open>
  Property C20: every cooldown key that a limited response can store for a call, whatever the target
  and its fallbacks, is among the keys that the next acquisition of a call with the same context
  looks up, so no cooldown is stored where it would never be found.
\<close>

theorem cooldown_target_keys_consulted:
  assumes "cooldown_keys_for_target ctx target = Inr ks"
    and "cooldown_keys_for_acquire ctx = Inr keys"
  shows "set ks \<subseteq> set keys"
  using assms by (rule target_keys_subset)

text \<open>
  Property C21: once a cooldown of length \<open>delay\<close> is stored at \<open>now\<close>, the wait loop of a later acquisition
  of the same call reports success only at a clock reading of at least \<open>now + delay\<close>, whatever other
  tasks do to the table in the meantime short of dropping unexpired entries.
\<close>

theorem stored_cooldown_delays_acquire:
  assumes "store_cooldown imax g ctx target delay mc now = (Inr True, g')"
    and "hm_ok (mx_value (grl_cooldowns g))"
    and "cooldown_keys_for_acquire ctx = Inr keys"
    and "others_keep_cooldowns clock others" and "mono clock"
    and "wait_cooldown fuel ctx clock others 0 (grl_cooldowns g') = Some (Inr (), j, m')"
  shows "now + delay \<le> clock j"
proof -
  from assms(1) obtain ks where ks: "cooldown_keys_for_target ctx target = Inr ks" "ks \<noteq> []"
    and g': "mx_value (grl_cooldowns g') =
      foldl (extend_cooldown (now + delay)) (prune_cooldowns (mx_value (grl_cooldowns g)) now) ks"
    by (auto elim!: store_cooldown_TrueE)
  from ks(2) obtain k where k: "k \<in> set ks" by (meson list.set_sel(1))
  then have "k \<in> set keys"
    using target_keys_subset [OF ks(1) assms(3)] by blast
  moreover obtain u where u: "map_of (mx_value (grl_cooldowns g')) k = Some u" "now + delay \<le> u"
    using k unfolding g' by (auto simp: extend_all_get split: option.splits)
  moreover have "hm_ok (mx_value (grl_cooldowns g'))"
    using assms(2) unfolding g' by simp
  ultimately have "u \<le> clock j"
    using wait_cooldown_not_before [OF assms(6,3)] assms(4,5) by blast
  with u(2) show ?thesis by simp
qed

text \<open>
  The wait loop ends. If the clock is past the requested delay after a sleep and other
  tasks neither extend the cooldowns of this call nor poison the lock, two rounds suffice, and
  the loop then reports success unless the delay exceeds the configured maximum.
\<close>

theorem wait_cooldown_terminates:
  assumes keys: "cooldown_keys_for_acquire ctx = Inr keys"
    and ok: "hm_ok (mx_value m)" and lock: "\<not> mx_poisoned m"
    and sleep: "\<And>d m1. wait_cooldown_round ctx (clock 0) m = (WaitSleep d, m1) \<Longrightarrow> clock 0 + d \<le> clock 1"
    and others: "\<And>m1. hm_ok (mx_value m1) \<Longrightarrow> \<not> mx_poisoned m1 \<Longrightarrow>
        hm_ok (mx_value (others 0 m1)) \<and> \<not> mx_poisoned (others 0 m1)
        \<and> (\<forall>k\<in>set keys. \<forall>u. map_of (mx_value (others 0 m1)) k = Some u \<longrightarrow>
             (\<exists>u'\<ge>u. map_of (mx_value m1) k = Some u'))"
  shows "\<exists>r j m'. wait_cooldown 2 ctx clock others 0 m = Some (r, j, m')
    \<and> (r = Inr () \<or> r = Inl (ctx_rate_limit_error ctx RlInvalidConfiguration
             ''rate-limit cooldown exceeds configured maximum''))"
proof -
  obtain w m1 where round: "wait_cooldown_round ctx (clock 0) m = (w, m1)"
    by (cases "wait_cooldown_round ctx (clock 0) m")
  show ?thesis
  proof (cases w)
    case (WaitDone r)
    with round keys lock show ?thesis
      by (auto simp: wait_cooldown_round_def Let_def numeral_2_eq_2
          split: if_splits option.splits)
  next
    case (WaitSleep d)
    have ok1: "hm_ok (mx_value m1)"
      using wait_round_table(1) [OF round ok] .
    have m1: "m1 = m\<lparr>mx_value := prune_cooldowns (mx_value m) (clock 0)\<rparr>"
      and d: "cooldown_delay (mx_value m1) (clock 0) keys = Some d"
      using round keys lock WaitSleep
      by (auto simp: wait_cooldown_round_def Let_def split: if_splits option.splits)
    have lock1: "\<not> mx_poisoned m1" using m1 lock by simp
    note other = others [OF ok1 lock1]
    have "u \<le> clock 1" if mem: "k \<in> set keys" "map_of (mx_value (others 0 m1)) k = Some u" for k u
    proof -
      obtain u' where "u \<le> u'" "map_of (mx_value m1) k = Some u'"
        using other mem by blast
      moreover have "u' \<le> clock 0 + d"
        using cooldown_delay_SomeD(2) [OF d mem(1)] calculation(2) .
      moreover have "clock 0 + d \<le> clock 1"
        using sleep round WaitSleep by simp
      ultimately show ?thesis by linarith
    qed
    then obtain m2 where "wait_cooldown_round ctx (clock 1) (others 0 m1) = (WaitDone (Inr ()), m2)"
      using wait_round_after_sleep [OF _ _ keys] other by blast
    with round WaitSleep show ?thesis
      by (simp add: numeral_2_eq_2)
  qed
qed

text \<open>
  The cooldown table never exceeds its entry cap and never holds a key twice, across
  any observation of any response policy, and an entry that has not expired keeps at least its
  deadline.
\<close>

theorem on_response_keeps_cooldown_table:
  assumes "cooldowns_ok g" and "governor_on_response policy imax g ctx now = (r, g')"
  shows "cooldowns_ok g'
    \<and> (\<forall>k u. map_of (mx_value (grl_cooldowns g)) k = Some u \<longrightarrow> now < u \<longrightarrow>
         (\<exists>u'\<ge>u. map_of (mx_value (grl_cooldowns g')) k = Some u'))"
proof -
  have "(\<exists>d r'. store_cooldown imax g (rrc_meta ctx) (obs_target (policy ctx)) d (rrc_max_cooldown ctx) now
           = (r', g')) \<or> g' = g"
    using assms(2)
    by (auto simp: governor_on_response_def store_observation_def Let_def
        split: if_splits option.splits prod.splits sum.splits)
  moreover have "hm_ok (mx_value (grl_cooldowns g))"
    using assms(1) by (simp add: cooldowns_ok_def)
  ultimately show ?thesis
    using assms(1) store_cooldown_keeps_ok [OF assms(1)] store_cooldown_monotone [of g]
    by (meson order_refl)
qed

text \<open>
  The delay of an observation is capped by the configured maximum before it is stored,
  so the "exceeds configured maximum" failure cannot arise while a response is processed, the action
  reported never carries a longer delay, and a response that is not limited changes nothing.
\<close>

theorem store_observation_capped:
  assumes "store_observation imax g ctx obs now = (r, g')"
  shows "r \<noteq> Inl (ctx_rate_limit_error (rrc_meta ctx) RlInvalidConfiguration
             ''rate-limit cooldown exceeds configured maximum'')
    \<and> (\<forall>a d. r = Inr a \<longrightarrow> action_retry_after a = Some d \<longrightarrow> d \<le> rrc_max_cooldown ctx)
    \<and> (\<not> obs_limited obs \<longrightarrow> r = Inr Continue \<and> g' = g)"
proof -
  let ?E = "ctx_rate_limit_error (rrc_meta ctx) RlInvalidConfiguration
             ''rate-limit cooldown exceeds configured maximum''"
  have target: "cooldown_keys_for_target (rrc_meta ctx) t \<noteq> Inl ?E" for t
  proof -
    have part: "resolve_key_part_value c v \<noteq> Inl ?E" for c v
      by (cases v) (auto simp: missing_host_key_error_def ctx_rate_limit_error_def rate_limit_def)
    have key: "resolve_key c k \<noteq> Inl ?E" for c k
      unfolding resolve_key_def
      using part by (auto simp: rbind_def dest!: collect_results_Inl split: sum.splits)
    have bucket: "bucket_cooldown_key c b \<noteq> Inl ?E" "bucket_kind_cooldown_key c b \<noteq> Inl ?E" for c b
      using key by (auto simp: bucket_cooldown_key_def bucket_kind_cooldown_key_def rbind_def
          split: sum.splits)
    have host: "missing_host_key_error c \<noteq> ?E" for c
      by (simp add: missing_host_key_error_def ctx_rate_limit_error_def rate_limit_def)
    show ?thesis
      using bucket host
      by (induction t)
         (auto simp: rbind_def host_cooldown_key_def dest!: collect_results_Inl
           split: sum.splits option.splits)
  qed
  have "store_cooldown imax g (rrc_meta ctx) t d (rrc_max_cooldown ctx) now \<noteq> (Inl ?E, g'')"
    if "d \<le> rrc_max_cooldown ctx" for t d g''
    using that target [of t]
    by (auto simp: store_cooldown_def Let_def ctx_rate_limit_error_def rate_limit_def
        split: sum.splits option.splits if_splits)
  with assms show ?thesis
    by (auto simp: store_observation_def Let_def action_retry_after_def
        split: if_splits option.splits prod.splits sum.splits)
qed

section \<open>Witnesses\<close>

definition sample_ctx :: rate_limit_context where
  "sample_ctx =
     \<lparr>rlc_endpoint = ''List'', rlc_method = ''GET'', rlc_url = ''http://h/u'',
      rlc_url_host = Some ''h'', rlc_page_index = 0, rlc_idempotent = True,
      rlc_max_cooldown = 60,
      rlc_plan = \<lparr>rlp_buckets =
        [\<lparr>bu_id = \<lparr>bid_kind = ''app'', bid_name = ''search''\<rparr>, bu_key = [key_part_url_host],
          bu_windows = [\<lparr>rlw_max = 10, rlw_per = 1000\<rparr>], bu_cost = 1\<rparr>]\<rparr>\<rparr>"

definition sample_clock :: "nat \<Rightarrow> instant" where
  "sample_clock i = 3 + 9 * i"

definition sample_governor :: "unit governor_rate_limiter" where
  "sample_governor = governor_new"

definition sample_bucket_key :: rate_limit_cooldown_key where
  "sample_bucket_key = CkBucket \<lparr>bid_kind = ''app'', bid_name = ''search''\<rparr> [(''route.host'', ''h'')]"

definition sample_table :: "cooldown_table mutex" where
  "sample_table = \<lparr>mx_poisoned = False, mx_value = [(sample_bucket_key, 8)]\<rparr>"

lemma sample_acquire_keys:
  "cooldown_keys_for_acquire sample_ctx =
     Inr [CkClient, CkEndpoint ''GET'' ''List'', CkRequest ''GET'' ''List'' ''http://h/u'',
          CkHost ''h'', CkBucketKind ''app'' [(''route.host'', ''h'')], sample_bucket_key]"
  by (simp add: cooldown_keys_for_acquire_def sample_ctx_def client_cooldown_key_def
      endpoint_cooldown_key_def request_cooldown_key_def host_cooldown_key_def
      bucket_kind_cooldown_key_def bucket_cooldown_key_def resolve_key_def key_part_url_host_def
      sample_bucket_key_def)

lemma sample_target_keys:
  "cooldown_keys_for_target sample_ctx current_plan_or_endpoint = Inr [sample_bucket_key]"
  by (simp add: sample_ctx_def current_plan_or_endpoint_def plan_is_empty_def
      bucket_cooldown_key_def resolve_key_def key_part_url_host_def sample_bucket_key_def)

lemma sample_stored:
  "store_cooldown 1000 sample_governor sample_ctx current_plan_or_endpoint 8 60 0 =
     (Inr True, sample_governor\<lparr>grl_cooldowns := sample_table\<rparr>)"
  by (simp add: store_cooldown_def sample_target_keys instant_checked_add_def sample_governor_def
      governor_new_def prune_cooldowns_def DEFAULT_MAX_COOLDOWN_ENTRIES_def extend_cooldown_def
      sample_table_def)

lemma sample_max: "rlc_max_cooldown sample_ctx = 60"
  by (simp add: sample_ctx_def)

lemma sample_rounds:
  "wait_cooldown_round sample_ctx 3 sample_table = (WaitSleep 5, sample_table)"
  "wait_cooldown_round sample_ctx 12 sample_table =
     (WaitDone (Inr ()), \<lparr>mx_poisoned = False, mx_value = []\<rparr>)"
  by (simp_all add: wait_cooldown_round_def sample_acquire_keys prune_cooldowns_def
      cooldown_delay_def List.map_filter_simps Let_def checked_duration_since_def sample_table_def
      sample_bucket_key_def sample_max)

lemma sample_wait:
  "wait_cooldown 2 sample_ctx sample_clock (\<lambda>_ m. m) 0 sample_table =
     Some (Inr (), 1, \<lparr>mx_poisoned = False, mx_value = []\<rparr>)"
  by (simp add: numeral_2_eq_2 sample_clock_def sample_rounds)

lemma sample_others: "others_keep_cooldowns sample_clock (\<lambda>_ m. m)"
  by (auto simp: others_keep_cooldowns_def)

lemma sample_mono: "mono sample_clock"
  by (simp add: mono_def sample_clock_def)

theorem cooldown_target_keys_consulted_witness:
  "set [sample_bucket_key] \<subseteq> set [CkClient, CkEndpoint ''GET'' ''List'',
     CkRequest ''GET'' ''List'' ''http://h/u'', CkHost ''h'',
     CkBucketKind ''app'' [(''route.host'', ''h'')], sample_bucket_key]"
  using cooldown_target_keys_consulted [OF sample_target_keys sample_acquire_keys] .

theorem stored_cooldown_delays_acquire_witness: "0 + 8 \<le> sample_clock 1"
proof -
  have ok: "hm_ok (mx_value (grl_cooldowns sample_governor))"
    by (simp add: sample_governor_def governor_new_def)
  have run: "wait_cooldown 2 sample_ctx sample_clock (\<lambda>_ m. m) 0
      (grl_cooldowns (sample_governor\<lparr>grl_cooldowns := sample_table\<rparr>)) =
        Some (Inr (), 1, \<lparr>mx_poisoned = False, mx_value = []\<rparr>)"
    by (simp add: sample_wait)
  show ?thesis
    by (rule stored_cooldown_delays_acquire
        [OF sample_stored ok sample_acquire_keys sample_others sample_mono run])
qed

theorem wait_cooldown_terminates_witness:
  "\<exists>r j m'. wait_cooldown 2 sample_ctx sample_clock (\<lambda>_ m. m) 0 sample_table = Some (r, j, m')
    \<and> (r = Inr () \<or> r = Inl (ctx_rate_limit_error sample_ctx RlInvalidConfiguration
             ''rate-limit cooldown exceeds configured maximum''))"
proof (rule wait_cooldown_terminates [OF sample_acquire_keys])
  show "hm_ok (mx_value sample_table)" "\<not> mx_poisoned sample_table"
    by (simp_all add: sample_table_def hm_ok_def)
next
  fix d m1
  assume "wait_cooldown_round sample_ctx (sample_clock 0) sample_table = (WaitSleep d, m1)"
  then show "sample_clock 0 + d \<le> sample_clock 1"
    by (simp add: sample_clock_def sample_rounds)
qed auto

definition sample_response_ctx :: rate_limit_response_context where
  "sample_response_ctx =
     \<lparr>rrc_meta = sample_ctx, rrc_status = 429,
      rrc_header = (\<lambda>n. if n = ''retry-after'' then Some ''90'' else None),
      rrc_max_cooldown = 60\<rparr>"

theorem on_response_keeps_cooldown_table_witness:
  "cooldowns_ok (snd (governor_on_response (\<lambda>_. observation_continue) 1000
     (sample_governor\<lparr>grl_cooldowns := sample_table\<rparr>) sample_response_ctx 1))"
  using on_response_keeps_cooldown_table
    [of "sample_governor\<lparr>grl_cooldowns := sample_table\<rparr>" "\<lambda>_. observation_continue" 1000
        sample_response_ctx 1 "Inr Continue" "sample_governor\<lparr>grl_cooldowns := sample_table\<rparr>"]
  by (simp add: governor_on_response_def store_observation_def observation_continue_def
      cooldowns_ok_def hm_ok_def sample_table_def sample_governor_def governor_new_def
      DEFAULT_MAX_COOLDOWN_ENTRIES_def)

lemma sample_target_nonempty: "current_plan_or_endpoint \<noteq> TNone"
  by (simp add: current_plan_or_endpoint_def)

lemma sample_observed:
  "store_observation 1000 sample_governor sample_response_ctx
     (with_delay observation_limited 7) 0 =
   (Inr (Limited (Some 7) current_plan_or_endpoint True),
    sample_governor\<lparr>grl_cooldowns := \<lparr>mx_poisoned = False, mx_value = [(sample_bucket_key, 7)]\<rparr>\<rparr>)"
  by (simp add: store_observation_def Let_def observation_limited_def with_delay_def sample_response_ctx_def
      store_cooldown_def sample_target_keys instant_checked_add_def sample_governor_def
      governor_new_def prune_cooldowns_def DEFAULT_MAX_COOLDOWN_ENTRIES_def extend_cooldown_def
      sample_target_nonempty)

theorem store_observation_capped_witness:
  "action_retry_after (Limited (Some 7) current_plan_or_endpoint True) = Some 7 \<and> (7 :: duration) \<le> 60"
  using store_observation_capped [OF sample_observed]
  by (simp add: sample_response_ctx_def action_retry_after_def)

end
