(* ===== verification/GovernorWindows.thy ===== *)
theory GovernorWindows
  imports GovernorCooldown
begin

text \<open>
  Properties of the window half of the limiter: the table of per-window limiters stays within its
  bound, eviction removes the least recently used entries, a window keeps its limiter while it is
  in use, and an acquisition that succeeds was granted by every window of the plan.
\<close>

section \<open>Eviction\<close>

lemma delete_all_get:
  "map_of (foldl (\<lambda>ws (spec, _). AList.delete spec ws) windows es) k =
     (if k \<in> fst ` set es then None else map_of windows k)"
  by (induction es arbitrary: windows) (auto simp: delete_conv')

lemma delete_all_keys:
  "fst ` set (foldl (\<lambda>ws (spec, _). AList.delete spec ws) windows es) =
     fst ` set windows - fst ` set es"
proof (rule set_eqI)
  fix k
  show "k \<in> fst ` set (foldl (\<lambda>ws (spec, _). AList.delete spec ws) windows es) \<longleftrightarrow>
      k \<in> fst ` set windows - fst ` set es"
    using delete_all_get [of windows es k]
    by (metis (no_types, lifting) Diff_iff map_of_eq_None_iff)
qed

lemma delete_all_ok:
  "hm_ok windows \<Longrightarrow> hm_ok (foldl (\<lambda>ws (spec, _). AList.delete spec ws) windows es)"
  by (induction es arbitrary: windows) (auto split: prod.splits)

definition by_age :: "'l window_table \<Rightarrow> (governor_window_spec \<times> instant) list" where
  "by_age windows = sort_key snd (map (\<lambda>(spec, entry). (spec, gwe_last_used entry)) windows)"

lemma by_age_set: "set (by_age windows) = (\<lambda>(s, e). (s, gwe_last_used e)) ` set windows"
  by (simp add: by_age_def)

lemma by_age_length [simp]: "length (by_age windows) = length windows"
  by (simp add: by_age_def)

lemma by_age_distinct: "hm_ok windows \<Longrightarrow> distinct (map fst (by_age windows))"
proof -
  assume ok: "hm_ok windows"
  let ?xs = "map (\<lambda>(spec, entry). (spec, gwe_last_used entry)) windows"
  have fst: "map fst ?xs = map fst windows" by (simp add: case_prod_beta o_def)
  then have "distinct (map fst ?xs)" using ok unfolding hm_ok_def by metis
  then have "distinct ?xs" "inj_on fst (set ?xs)" by (simp_all only: distinct_map)
  then show ?thesis by (simp only: by_age_def distinct_map distinct_sort set_sort simp_thms)
qed

lemma evict_eq:
  "evict_oldest_windows windows count =
     foldl (\<lambda>ws (spec, _). AList.delete spec ws) windows (take count (by_age windows))"
  by (cases "count = 0 \<or> windows = []") (auto simp: evict_oldest_windows_def by_age_def Let_def)

lemma evict_ok [simp]: "hm_ok windows \<Longrightarrow> hm_ok (evict_oldest_windows windows n)"
  by (simp add: evict_eq delete_all_ok)

lemma evict_length:
  assumes "hm_ok windows"
  shows "length (evict_oldest_windows windows n) = length windows - n"
proof -
  let ?gone = "fst ` set (take n (by_age windows))"
  have d: "distinct (map fst (take n (by_age windows)))"
    using by_age_distinct [OF assms] by (simp add: take_map [symmetric])
  have "card ?gone = min n (length windows)"
    using distinct_card [OF d] by (simp add: min.commute)
  moreover have "?gone \<subseteq> fst ` set windows"
    using set_take_subset [of n "by_age windows"] by (force simp: by_age_set)
  ultimately have "card (fst ` set windows - ?gone) = length windows - min n (length windows)"
    using assms by (simp add: card_Diff_subset finite_subset hm_len_card)
  then have "card (fst ` set (evict_oldest_windows windows n)) = length windows - n"
    by (simp add: evict_eq delete_all_keys min_def split: if_splits)
  then show ?thesis
    using hm_len_card [OF evict_ok [OF assms]] by simp
qed

lemma evict_keeps_entries:
  "map_of (evict_oldest_windows windows n) k = Some e \<Longrightarrow> map_of windows k = Some e"
  by (auto simp: evict_eq delete_all_get split: if_splits)

lemma evict_oldest_first:
  assumes "hm_ok windows"
    and kept: "map_of (evict_oldest_windows windows n) k = Some e"
    and gone: "map_of windows k' = Some e'" "map_of (evict_oldest_windows windows n) k' = None"
  shows "gwe_last_used e' \<le> gwe_last_used e"
proof -
  let ?xs = "by_age windows"
  have "k \<notin> fst ` set (take n ?xs)" and k: "map_of windows k = Some e"
    using kept by (auto simp: evict_eq delete_all_get split: if_splits)
  moreover have "(k, gwe_last_used e) \<in> set ?xs"
    using map_of_SomeD [OF k] by (force simp: by_age_set)
  ultimately have "(k, gwe_last_used e) \<in> set (drop n ?xs)"
    by (metis (no_types, lifting) Un_iff append_take_drop_id fst_conv imageI set_append)
  moreover have "(k', gwe_last_used e') \<in> set (take n ?xs)"
  proof -
    have "k' \<in> fst ` set (take n ?xs)"
      using gone by (auto simp: evict_eq delete_all_get split: if_splits)
    then obtain t where t: "(k', t) \<in> set (take n ?xs)" by auto
    then have "(k', t) \<in> set ?xs" by (meson in_set_takeD)
    then obtain e'' where "(k', e'') \<in> set windows" "t = gwe_last_used e''"
      by (auto simp: by_age_set)
    moreover have "map_of windows k' = Some e''"
      using assms(1) calculation(1) by (simp add: hm_ok_def)
    ultimately show ?thesis using t gone(1) by simp
  qed
  moreover have "sorted (map snd (take n ?xs) @ map snd (drop n ?xs))"
    by (simp only: map_append [symmetric] append_take_drop_id) (simp add: by_age_def)
  ultimately show ?thesis
    unfolding sorted_append by (metis image_eqI set_map snd_conv)
qed

section \<open>Pruning\<close>

definition windows_ok :: "'l governor_rate_limiter \<Rightarrow> bool" where
  "windows_ok g \<longleftrightarrow>
     1 \<le> grl_max_window_entries g
     \<and> hm_ok (gst_windows (mx_value (grl_windows g)))
     \<and> length (gst_windows (mx_value (grl_windows g))) \<le> grl_max_window_entries g"

definition window_live :: "'l governor_rate_limiter \<Rightarrow> instant \<Rightarrow> 'l governor_window_entry \<Rightarrow> bool" where
  "window_live g now e \<longleftrightarrow>
     grl_window_idle_ttl g = 0 \<or> now - gwe_last_used e \<le> grl_window_idle_ttl g"

lemma prune_windows_table:
  assumes "hm_ok (gst_windows st)" and "length (gst_windows st) \<le> grl_max_window_entries g"
  shows "gst_windows (prune_windows imax g st now) =
    filter (\<lambda>(_, e). window_live g now e) (gst_windows st)"
proof -
  let ?P = "\<lambda>(_, e). saturating_duration_since now (gwe_last_used e) \<le> grl_window_idle_ttl g"
  have "\<not> grl_max_window_entries g < length (filter ?P (gst_windows st))"
    using assms(2) length_filter_le [of ?P "gst_windows st"] by linarith
  moreover have "\<not> grl_max_window_entries g < length (gst_windows st)"
    using assms(2) by simp
  ultimately show ?thesis
    by (cases "grl_window_idle_ttl g = 0")
       (simp_all add: prune_windows_def Let_def window_live_def saturating_duration_since_def
          case_prod_beta)
qed

lemma prune_if_needed_table:
  assumes "hm_ok (gst_windows st)" and "length (gst_windows st) \<le> grl_max_window_entries g"
  shows "gst_windows (prune_windows_if_needed imax g st now) = gst_windows st
    \<or> gst_windows (prune_windows_if_needed imax g st now) =
        filter (\<lambda>(_, e). window_live g now e) (gst_windows st)"
  using prune_windows_table [OF assms]
  by (auto simp: prune_windows_if_needed_def split: option.splits)

lemma prune_if_needed_ok:
  assumes "hm_ok (gst_windows st)" and "length (gst_windows st) \<le> grl_max_window_entries g"
  shows "hm_ok (gst_windows (prune_windows_if_needed imax g st now))"
    and "length (gst_windows (prune_windows_if_needed imax g st now)) \<le> grl_max_window_entries g"
    and "length (gst_windows (prune_windows_if_needed imax g st now)) \<le> length (gst_windows st)"
proof -
  have "length (filter P (gst_windows st)) \<le> length (gst_windows st)" for P
    by (rule length_filter_le)
  then show "length (gst_windows (prune_windows_if_needed imax g st now)) \<le> length (gst_windows st)"
    using prune_if_needed_table [OF assms, of imax now] by auto
  then show "length (gst_windows (prune_windows_if_needed imax g st now)) \<le> grl_max_window_entries g"
    using assms(2) by simp
  show "hm_ok (gst_windows (prune_windows_if_needed imax g st now))"
    using prune_if_needed_table [OF assms, of imax now] assms(1) by auto
qed

lemma prune_if_needed_keeps_live:
  assumes "hm_ok (gst_windows st)" and "length (gst_windows st) \<le> grl_max_window_entries g"
    and "map_of (gst_windows st) k = Some e" and "window_live g now e"
  shows "map_of (gst_windows (prune_windows_if_needed imax g st now)) k = Some e"
  using prune_if_needed_table [OF assms(1,2), of imax now] assms(1,3,4)
  by (auto simp: hm_get_filter)

lemma note_prune_windows [simp]:
  "gst_windows (note_window_prune_at imax g st now) = gst_windows st"
  by (simp add: note_window_prune_at_def split: option.splits)

section \<open>Looking a limiter up\<close>

lemma limiter_for_locked_ok:
  assumes "limiter_for_locked api imax g ctx spec now st = (r, st')"
    and "1 \<le> grl_max_window_entries g"
    and "hm_ok (gst_windows st)" and "length (gst_windows st) \<le> grl_max_window_entries g"
  shows "hm_ok (gst_windows st') \<and> length (gst_windows st') \<le> grl_max_window_entries g"
proof -
  let ?st = "prune_windows_if_needed imax g st now"
  note pr = prune_if_needed_ok [OF assms(3,4), of imax now]
  show ?thesis
  proof (cases "map_of (gst_windows ?st) spec")
    case (Some existing)
    then have "spec \<in> fst ` set (gst_windows ?st)"
      by (metis map_of_eq_None_iff option.distinct(1))
    then have "length (AList.update spec e (gst_windows ?st)) = length (gst_windows ?st)" for e
      by (simp add: hm_len_update)
    with Some assms(1) pr show ?thesis
      by (auto simp: limiter_for_locked_def Let_def)
  next
    case None
    let ?ws = "if grl_max_window_entries g \<le> length (gst_windows ?st)
      then evict_oldest_windows (gst_windows ?st)
             (length (gst_windows ?st) + 1 - grl_max_window_entries g)
      else gst_windows ?st"
    have ok: "hm_ok ?ws" using pr(1) by simp
    have len: "length ?ws < grl_max_window_entries g"
      using pr assms(2) by (auto simp: evict_length)
    have st': "gst_windows st' = ?ws \<or> (\<exists>e. gst_windows st' = AList.update spec e ?ws)"
      using assms(1) None
      by (auto simp: limiter_for_locked_def Let_def split: sum.splits if_splits)
    have "length (AList.update spec e ?ws) \<le> grl_max_window_entries g" for e
      using hm_len_update_le [of spec e ?ws] len by linarith
    with st' ok len show ?thesis by auto
  qed
qed

lemma limiter_for_locked_entry:
  assumes "limiter_for_locked api imax g ctx spec now st = (Inr l, st')"
  shows "map_of (gst_windows st') spec = Some \<lparr>gwe_limiter = l, gwe_last_used = now\<rparr>"
  using assms
  by (auto simp: limiter_for_locked_def Let_def update_conv' split: option.splits sum.splits)

lemma limiter_for_locked_existing:
  assumes "hm_ok (gst_windows st)" and "length (gst_windows st) \<le> grl_max_window_entries g"
    and "map_of (gst_windows st) spec = Some e" and "window_live g now e"
  shows "\<exists>st'. limiter_for_locked api imax g ctx spec now st = (Inr (gwe_limiter e), st')"
  using prune_if_needed_keeps_live [OF assms, of imax]
  by (simp add: limiter_for_locked_def Let_def)

lemma limiter_for_frame:
  "limiter_for api imax g ctx spec now = (r, g') \<Longrightarrow>
   grl_cooldowns g' = grl_cooldowns g \<and> grl_max_window_entries g' = grl_max_window_entries g
   \<and> grl_window_idle_ttl g' = grl_window_idle_ttl g
   \<and> grl_max_cooldown_entries g' = grl_max_cooldown_entries g
   \<and> mx_poisoned (grl_windows g') = mx_poisoned (grl_windows g)"
  by (auto simp: limiter_for_def split: if_splits prod.splits)

lemma limiter_for_ok:
  assumes "windows_ok g" and "limiter_for api imax g ctx spec now = (r, g')"
  shows "windows_ok g'"
  using assms limiter_for_locked_ok [of api imax g ctx spec now "mx_value (grl_windows g)"]
  by (auto simp: limiter_for_def windows_ok_def split: if_splits prod.splits)

section \<open>Acquiring\<close>

lemma acquire_windows_ok:
  assumes "acquire_windows api imax ctx bid key cost clock i ws g = (r, ls, j, g')"
    and "windows_ok g"
  shows "windows_ok g'"
  using assms
proof (induction ws arbitrary: g g' i ls j r)
  case Nil
  then show ?case by simp
next
  case (Cons w ws)
  obtain rl g1 where lf:
    "limiter_for api imax g ctx \<lparr>gws_id = bid, gws_key = key, gws_window = w\<rparr> (clock i) = (rl, g1)"
    by (cases "limiter_for api imax g ctx \<lparr>gws_id = bid, gws_key = key, gws_window = w\<rparr> (clock i)")
  have "windows_ok g1" using limiter_for_ok [OF Cons.prems(2) lf] .
  with Cons.prems lf show ?case
    by (auto split: sum.splits if_splits prod.splits dest: Cons.IH)
qed

lemma acquire_buckets_ok:
  assumes "acquire_buckets api imax ctx clock i bs g = (r, ls, j, g')" and "windows_ok g"
  shows "windows_ok g'"
  using assms
  by (induction bs arbitrary: g g' i ls j r)
     (fastforce split: sum.splits prod.splits dest: acquire_windows_ok)+

text \<open>Every entry of the table holds the limiter that its own window specification asks for.\<close>

definition window_limiter :: "('q, 'l) governor_api \<Rightarrow> rate_limit_window \<Rightarrow> 'l option" where
  "window_limiter api w =
     (let per_cell = rlw_per w div unat (rlw_max w) in
      if rlw_max w = 0 \<or> per_cell = 0 then None
      else map_option (\<lambda>q. api_direct api (api_allow_burst api q (rlw_max w)))
             (api_with_period api per_cell))"

definition entries_match :: "('q, 'l) governor_api \<Rightarrow> 'l window_table \<Rightarrow> bool" where
  "entries_match api ws \<longleftrightarrow>
     (\<forall>(spec, e) \<in> set ws. window_limiter api (gws_window spec) = Some (gwe_limiter e))"

lemma quota_window_limiter:
  "quota_for_window (api_with_period api) (api_allow_burst api) ctx w = Inr q \<Longrightarrow>
   window_limiter api w = Some (api_direct api q)"
  by (auto simp: quota_for_window_def window_limiter_def Let_def ok_or_def
      split: if_splits option.splits)

lemma entries_match_subset: "entries_match api ws \<Longrightarrow> set ws' \<subseteq> set ws \<Longrightarrow> entries_match api ws'"
  by (auto simp: entries_match_def)

lemma set_update_subset: "set (AList.update k v m) \<subseteq> insert (k, v) (set m)"
  by (induction m) auto

lemma entries_match_update:
  assumes "entries_match api ws" and "window_limiter api (gws_window spec) = Some (gwe_limiter e)"
  shows "entries_match api (AList.update spec e ws)"
  using assms set_update_subset [of spec e ws] by (auto simp: entries_match_def)

lemma set_delete_all_subset:
  "set (foldl (\<lambda>ws (spec, _). AList.delete spec ws) windows es) \<subseteq> set windows"
proof (induction es arbitrary: windows)
  case (Cons e es)
  then show ?case by (cases e) (force simp: AList.delete_eq)
qed simp

lemma evict_subset: "set (evict_oldest_windows windows n) \<subseteq> set windows"
  by (simp add: evict_eq set_delete_all_subset)

lemma prune_if_needed_subset:
  "set (gst_windows (prune_windows_if_needed imax g st now)) \<subseteq> set (gst_windows st)"
  using evict_subset
  by (fastforce simp: prune_windows_if_needed_def prune_windows_def Let_def
      split: option.splits if_splits)

lemma entries_match_mapD:
  "entries_match api ws \<Longrightarrow> map_of ws spec = Some e \<Longrightarrow>
   window_limiter api (gws_window spec) = Some (gwe_limiter e)"
  by (auto simp: entries_match_def dest: map_of_SomeD)

lemma limiter_for_locked_match:
  assumes "limiter_for_locked api imax g ctx spec now st = (r, st')"
    and "entries_match api (gst_windows st)"
  shows "entries_match api (gst_windows st')
    \<and> (\<forall>l. r = Inr l \<longrightarrow> window_limiter api (gws_window spec) = Some l)"
proof -
  let ?st = "prune_windows_if_needed imax g st now"
  have m: "entries_match api (gst_windows ?st)"
    using assms(2) prune_if_needed_subset by (rule entries_match_subset)
  have ev: "entries_match api (evict_oldest_windows (gst_windows ?st) n)" for n
    using m evict_subset by (rule entries_match_subset)
  show ?thesis
  proof (cases "map_of (gst_windows ?st) spec")
    case (Some e)
    with assms(1) m entries_match_mapD [OF m Some] show ?thesis
      by (auto simp: limiter_for_locked_def Let_def entries_match_update)
  next
    case None
    with assms(1) m ev show ?thesis
      by (auto simp: limiter_for_locked_def Let_def entries_match_update
          dest: quota_window_limiter split: sum.splits if_splits)
  qed
qed

lemma limiter_for_match:
  assumes "limiter_for api imax g ctx spec now = (r, g')"
    and "entries_match api (gst_windows (mx_value (grl_windows g)))"
  shows "entries_match api (gst_windows (mx_value (grl_windows g')))"
    and "r = Inr l \<Longrightarrow> window_limiter api (gws_window spec) = Some l"
  using assms limiter_for_locked_match [of api imax g ctx spec now "mx_value (grl_windows g)"]
  by (auto simp: limiter_for_def split: if_splits prod.splits)

definition granted_by :: "('q, 'l) governor_api \<Rightarrow> u32 \<Rightarrow> rate_limit_window \<Rightarrow> 'l \<Rightarrow> bool" where
  "granted_by api cost w l \<longleftrightarrow> window_limiter api w = Some l \<and> api_until_n_ready api l cost"

lemma acquire_windows_granted:
  assumes "acquire_windows api imax ctx bid key cost clock i ws g = (r, ls, j, g')"
    and "entries_match api (gst_windows (mx_value (grl_windows g)))"
  shows "entries_match api (gst_windows (mx_value (grl_windows g')))
    \<and> (r = Inr () \<longrightarrow> list_all2 (granted_by api cost) ws ls)"
  using assms
proof (induction ws arbitrary: g g' i ls j r)
  case Nil
  then show ?case by simp
next
  case (Cons w ws)
  obtain rl g1 where lf:
    "limiter_for api imax g ctx \<lparr>gws_id = bid, gws_key = key, gws_window = w\<rparr> (clock i) = (rl, g1)"
    by (cases "limiter_for api imax g ctx \<lparr>gws_id = bid, gws_key = key, gws_window = w\<rparr> (clock i)")
  note m = limiter_for_match [OF lf Cons.prems(2)]
  show ?case
  proof (cases rl)
    case (Inl e)
    with Cons.prems lf m(1) show ?thesis by auto
  next
    case (Inr l)
    obtain r2 ls2 j2 g2 where
      rest: "acquire_windows api imax ctx bid key cost clock (Suc i) ws g1 = (r2, ls2, j2, g2)"
      by (metis prod_cases4)
    show ?thesis
      using Cons.prems(1) lf Inr rest m Cons.IH [OF rest m(1)]
      by (auto simp: granted_by_def split: if_splits)
  qed
qed

lemma acquire_buckets_granted:
  assumes "acquire_buckets api imax ctx clock i bs g = (r, ls, j, g')"
    and "entries_match api (gst_windows (mx_value (grl_windows g)))"
  shows "entries_match api (gst_windows (mx_value (grl_windows g')))
    \<and> (r = Inr () \<longrightarrow> list_all2 (\<lambda>(b, w). granted_by api (bu_cost b) w)
         (concat (map (\<lambda>b. map (Pair b) (bu_windows b)) bs)) ls)"
  using assms
proof (induction bs arbitrary: g g' i ls j r)
  case Nil
  then show ?case by simp
next
  case (Cons b bs)
  show ?case
  proof (cases "resolve_key ctx (bu_key b)")
    case (Inl e)
    with Cons.prems show ?thesis by auto
  next
    case (Inr key)
    obtain r1 ls1 j1 g1 where
      first: "acquire_windows api imax ctx (bu_id b) key (bu_cost b) clock i (bu_windows b) g
        = (r1, ls1, j1, g1)"
      by (metis prod_cases4)
    note f = acquire_windows_granted [OF first Cons.prems(2)]
    obtain r2 ls2 j2 g2 where
      rest: "acquire_buckets api imax ctx clock j1 bs g1 = (r2, ls2, j2, g2)"
      by (metis prod_cases4)
    have pairs: "list_all2 (\<lambda>(b, w). granted_by api (bu_cost b) w) (map (Pair b) ws) xs
        \<longleftrightarrow> list_all2 (granted_by api (bu_cost b)) ws xs" for ws xs
      by (simp add: list_all2_map1)
    show ?thesis
      using Cons.prems(1) Inr first rest f Cons.IH [OF rest]
      by (cases r1) (auto simp: pairs intro: list_all2_appendI)
  qed
qed

section \<open>Properties\<close>

text \<open>
  Eviction from a table with distinct keys removes exactly the requested number of
  entries (or empties the table) and removes least recently used ones first: no entry that stays
  was used before one that went.
\<close>

theorem evict_oldest_windows_lru:
  assumes "hm_ok windows"
  shows "length (evict_oldest_windows windows n) = length windows - n
    \<and> hm_ok (evict_oldest_windows windows n)
    \<and> (\<forall>k e. map_of (evict_oldest_windows windows n) k = Some e \<longrightarrow> map_of windows k = Some e)
    \<and> (\<forall>k e k' e'. map_of (evict_oldest_windows windows n) k = Some e \<longrightarrow>
         map_of windows k' = Some e' \<longrightarrow> map_of (evict_oldest_windows windows n) k' = None \<longrightarrow>
         gwe_last_used e' \<le> gwe_last_used e)"
  using evict_length [OF assms] evict_ok [OF assms] evict_keeps_entries evict_oldest_first [OF assms]
  by blast

text \<open>
  A limiter lookup keeps the window table within its configured bound with distinct
  keys, whether it finds, creates or fails to build a limiter, and touches nothing of the cooldown
  table.
\<close>

theorem limiter_for_bounded:
  assumes "windows_ok g" and "limiter_for api imax g ctx spec now = (r, g')"
  shows "windows_ok g' \<and> grl_cooldowns g' = grl_cooldowns g"
  using limiter_for_ok [OF assms] limiter_for_frame [OF assms(2)] by blast

text \<open>
  A window keeps its limiter. After a lookup returned limiter \<open>l\<close> for a window
  specification, looking the same specification up again within the idle time returns the same
  \<open>l\<close>, so the state of its bucket is not reset between the two requests.
\<close>

theorem limiter_for_stable:
  assumes "windows_ok g"
    and "limiter_for api imax g ctx spec now = (Inr l, g')"
    and "grl_window_idle_ttl g = 0 \<or> now' - now \<le> grl_window_idle_ttl g"
  shows "fst (limiter_for api imax g' ctx' spec now') = Inr l"
proof -
  let ?st = "mx_value (grl_windows g)" and ?st' = "mx_value (grl_windows g')"
  have locked: "limiter_for_locked api imax g ctx spec now ?st = (Inr l, ?st')"
    and unpoisoned: "\<not> mx_poisoned (grl_windows g')"
    using assms(2) by (auto simp: limiter_for_def split: if_splits prod.splits)
  have ok': "windows_ok g'" using limiter_for_ok [OF assms(1,2)] .
  have entry: "map_of (gst_windows ?st') spec = Some \<lparr>gwe_limiter = l, gwe_last_used = now\<rparr>"
    using limiter_for_locked_entry [OF locked] .
  have live: "window_live g' now' \<lparr>gwe_limiter = l, gwe_last_used = now\<rparr>"
    using assms(3) limiter_for_frame [OF assms(2)] by (simp add: window_live_def)
  obtain st2 where "limiter_for_locked api imax g' ctx' spec now' ?st' = (Inr l, st2)"
    using limiter_for_locked_existing [OF _ _ entry live, of api imax ctx'] ok'
    by (auto simp: windows_ok_def)
  with unpoisoned show ?thesis
    by (simp add: limiter_for_def)
qed

text \<open>
  An acquisition that succeeds was granted the bucket's cost by one limiter for every
  window of every bucket of the plan, in plan order, and each of those limiters is the one built
  from that window's own rate. The table keeps its bound, and still holds only limiters that match
  their windows.
\<close>

theorem acquire_grants_every_window:
  assumes "governor_acquire fuel api imax ctx clock others g = Some (Inr (), ls, g')"
    and "windows_ok g" and "entries_match api (gst_windows (mx_value (grl_windows g)))"
  shows "list_all2 (\<lambda>(b, w). granted_by api (bu_cost b) w)
      (concat (map (\<lambda>b. map (Pair b) (bu_windows b)) (rlp_buckets (rlc_plan ctx)))) ls
    \<and> windows_ok g' \<and> entries_match api (gst_windows (mx_value (grl_windows g')))"
proof -
  obtain i m where wait: "wait_cooldown fuel ctx clock others 0 (grl_cooldowns g) = Some (Inr (), i, m)"
    using assms(1) by (auto simp: governor_acquire_def split: option.splits sum.splits)
  have ok: "windows_ok (g\<lparr>grl_cooldowns := m\<rparr>)"
    using assms(2) by (simp add: windows_ok_def)
  have em: "entries_match api (gst_windows (mx_value (grl_windows (g\<lparr>grl_cooldowns := m\<rparr>))))"
    using assms(3) by simp
  show ?thesis
  proof (cases "plan_is_empty (rlc_plan ctx)")
    case True
    with assms(1) wait ok em show ?thesis
      by (auto simp: governor_acquire_def plan_is_empty_def)
  next
    case False
    then obtain k where run:
      "acquire_buckets api imax ctx clock (Suc i) (rlp_buckets (rlc_plan ctx)) (g\<lparr>grl_cooldowns := m\<rparr>)
         = (Inr (), ls, k, g')"
      using assms(1) wait by (auto simp: governor_acquire_def split: prod.splits)
    show ?thesis
      using acquire_buckets_granted [OF run em] acquire_buckets_ok [OF run ok] by simp
  qed
qed

section \<open>Sample runs\<close>

definition sample_spec :: "u32 \<Rightarrow> governor_window_spec" where
  "sample_spec n =
     \<lparr>gws_id = \<lparr>bid_kind = ''app'', bid_name = ''search''\<rparr>, gws_key = [(''route.host'', ''h'')],
      gws_window = \<lparr>rlw_max = n, rlw_per = 1000\<rparr>\<rparr>"

definition sample_windows :: "unit window_table" where
  "sample_windows =
     [(sample_spec 10, \<lparr>gwe_limiter = (), gwe_last_used = 7\<rparr>),
      (sample_spec 20, \<lparr>gwe_limiter = (), gwe_last_used = 4\<rparr>)]"

definition sample_api :: "(unit, unit) governor_api" where
  "sample_api =
     \<lparr>api_with_period = (\<lambda>d. if d = 0 then None else Some ()), api_allow_burst = (\<lambda>q _. q),
      api_direct = (\<lambda>q. ()), api_until_n_ready = (\<lambda>_ c. c \<le> 10)\<rparr>"

lemma sample_windows_ok: "windows_ok sample_governor"
  by (simp add: windows_ok_def sample_governor_def governor_new_def DEFAULT_MAX_WINDOW_ENTRIES_def)

definition sample_looked_up :: "unit governor_rate_limiter" where
  "sample_looked_up = snd (limiter_for sample_api 1000 sample_governor sample_ctx (sample_spec 10) 5)"

lemma sample_lookup:
  "limiter_for sample_api 1000 sample_governor sample_ctx (sample_spec 10) 5 =
     (Inr (), sample_looked_up)"
  unfolding sample_looked_up_def
  by (simp add: limiter_for_def limiter_for_locked_def prune_windows_if_needed_def Let_def
      sample_governor_def governor_new_def DEFAULT_MAX_WINDOW_ENTRIES_def quota_for_window_def
      sample_spec_def sample_api_def ok_or_def)

theorem evict_oldest_windows_lru_witness:
  "hm_ok sample_windows \<and> length (evict_oldest_windows sample_windows 1) = 1"
proof -
  have ok: "hm_ok sample_windows"
    by (simp add: sample_windows_def hm_ok_def sample_spec_def)
  then show ?thesis
    using evict_oldest_windows_lru [OF ok, of 1] by (simp add: sample_windows_def)
qed

theorem limiter_for_bounded_witness:
  "windows_ok sample_looked_up \<and> grl_cooldowns sample_looked_up = grl_cooldowns sample_governor"
  by (rule limiter_for_bounded [OF sample_windows_ok sample_lookup])

theorem limiter_for_stable_witness:
  "fst (limiter_for sample_api 1000 sample_looked_up sample_ctx (sample_spec 10) 9) = Inr ()"
  by (rule limiter_for_stable [OF sample_windows_ok sample_lookup])
     (simp add: sample_governor_def governor_new_def secs_def)

definition sample_waited :: "unit governor_rate_limiter" where
  "sample_waited = sample_governor\<lparr>grl_cooldowns := sample_table\<rparr>"

lemma sample_key: "resolve_key sample_ctx [key_part_url_host] = Inr [(''route.host'', ''h'')]"
  by (simp add: resolve_key_def key_part_url_host_def sample_ctx_def)

lemma sample_acquired:
  "\<exists>g'. governor_acquire 2 sample_api 1000 sample_ctx sample_clock (\<lambda>_ m. m) sample_waited =
     Some (Inr (), [()], g')"
proof -
  have plan: "rlp_buckets (rlc_plan sample_ctx) =
      [\<lparr>bu_id = \<lparr>bid_kind = ''app'', bid_name = ''search''\<rparr>, bu_key = [key_part_url_host],
        bu_windows = [\<lparr>rlw_max = 10, rlw_per = 1000\<rparr>], bu_cost = 1\<rparr>]"
    by (simp add: sample_ctx_def)
  have wait: "wait_cooldown 2 sample_ctx sample_clock (\<lambda>_ m. m) 0 (grl_cooldowns sample_waited) =
      Some (Inr (), 1, \<lparr>mx_poisoned = False, mx_value = []\<rparr>)"
    using sample_wait by (simp add: sample_waited_def)
  obtain g1 where lookup:
    "limiter_for sample_api 1000
       (sample_waited\<lparr>grl_cooldowns := \<lparr>mx_poisoned = False, mx_value = []\<rparr>\<rparr>) sample_ctx
       \<lparr>gws_id = \<lparr>bid_kind = ''app'', bid_name = ''search''\<rparr>, gws_key = [(''route.host'', ''h'')],
        gws_window = \<lparr>rlw_max = 10, rlw_per = 1000\<rparr>\<rparr> (sample_clock (Suc 1)) = (Inr (), g1)"
    by (simp add: limiter_for_def limiter_for_locked_def prune_windows_if_needed_def Let_def
      sample_governor_def sample_waited_def governor_new_def DEFAULT_MAX_WINDOW_ENTRIES_def
      quota_for_window_def sample_api_def ok_or_def)
  show ?thesis
    unfolding governor_acquire_def wait plan_is_empty_def plan
    using lookup by (simp add: Let_def sample_key) (simp add: sample_api_def)
qed

theorem acquire_grants_every_window_witness:
  "\<exists>g'. governor_acquire 2 sample_api 1000 sample_ctx sample_clock (\<lambda>_ m. m) sample_waited =
       Some (Inr (), [()], g') \<and> windows_ok g'
     \<and> entries_match sample_api (gst_windows (mx_value (grl_windows g')))"
proof -
  obtain g' where run:
    "governor_acquire 2 sample_api 1000 sample_ctx sample_clock (\<lambda>_ m. m) sample_waited =
       Some (Inr (), [()], g')"
    using sample_acquired by blast
  have ok: "windows_ok sample_waited"
    using sample_windows_ok by (simp add: windows_ok_def sample_waited_def)
  have em: "entries_match sample_api (gst_windows (mx_value (grl_windows sample_waited)))"
    by (simp add: sample_waited_def sample_governor_def governor_new_def entries_match_def)
  show ?thesis
    using acquire_grants_every_window [OF run ok em] run by blast
qed

end
