(* ===== verification/Transition.thy ===== *)
theory Transition
  imports Prelude
begin

text \<open>
  Two interfaces the stateful components are verified against. \<open>invariant_system\<close> lifts a one-step
  invariant to every reachable state. \<open>generation_cell\<close> is the contract of a cell whose content is
  tagged with a generation: what a tag once named, it names for ever.
\<close>

locale invariant_system =
  fixes init :: "'s \<Rightarrow> bool"
    and step :: "'s \<Rightarrow> 's \<Rightarrow> bool"
    and inv :: "'s \<Rightarrow> bool"
  assumes init_inv: "init s \<Longrightarrow> inv s"
    and step_inv: "inv s \<Longrightarrow> step s s' \<Longrightarrow> inv s'"
begin

lemma steps_inv: "step\<^sup>*\<^sup>* s s' \<Longrightarrow> inv s \<Longrightarrow> inv s'"
  by (induction rule: rtranclp_induct) (auto intro: step_inv)

lemma reachable_inv: "init s \<Longrightarrow> step\<^sup>*\<^sup>* s s' \<Longrightarrow> inv s'"
  using steps_inv init_inv by blast

end

locale generation_cell =
  fixes gen :: "'s \<Rightarrow> 'g::linorder"
    and content :: "'s \<Rightarrow> ('g \<times> 'v) option"
    and step :: "'s \<Rightarrow> 's \<Rightarrow> bool"
  assumes content_gen: "content s = Some (g, v) \<Longrightarrow> g = gen s"
    and step_gen: "step s s' \<Longrightarrow> gen s \<le> gen s'"
    and step_content: "step s s' \<Longrightarrow> gen s' = gen s \<Longrightarrow> content s = Some c \<Longrightarrow> content s' = Some c"
begin

lemma steps_gen: "step\<^sup>*\<^sup>* s s' \<Longrightarrow> gen s \<le> gen s'"
  by (induction rule: rtranclp_induct) (auto dest: step_gen)

lemma steps_content:
  "step\<^sup>*\<^sup>* s s' \<Longrightarrow> gen s' = gen s \<Longrightarrow> content s = Some c \<Longrightarrow> content s' = Some c"
proof (induction rule: rtranclp_induct)
  case (step t u)
  have "gen s \<le> gen t" "gen t \<le> gen u"
    using steps_gen [OF step.hyps(1)] step_gen [OF step.hyps(2)] by auto
  with step.prems step.IH step_content [OF step.hyps(2)] show ?case
    by (metis order_antisym)
qed

lemma generation_names_one_value:
  assumes "step\<^sup>*\<^sup>* s s'" and "content s = Some (g, v)" and "content s' = Some (g, v')"
  shows "v' = v"
proof -
  have "gen s' = gen s"
    using content_gen [OF assms(2)] content_gen [OF assms(3)] by simp
  then show ?thesis
    using steps_content [OF assms(1) _ assms(2)] assms(3) by simp
qed

lemma outdated_never_returns:
  assumes "g < gen s" and "step\<^sup>*\<^sup>* s s'"
  shows "content s' \<noteq> Some (g, v)"
proof
  assume "content s' = Some (g, v)"
  then have "g = gen s'" by (rule content_gen)
  with steps_gen [OF assms(2)] assms(1) show False by simp
qed

end

end
