(* ===== verification/CredentialSlot.thy ===== *)
theory CredentialSlot
  imports Errors Transition
begin

text \<open>
  The credential cache of one credential (\<open>auth/credentials.rs\<close>): its state machine, the lock phase
  of \<open>get_or_refresh\<close>, the two lock phases of \<open>commit_slot_result\<close>, the refresh guard, manual
  replacement and invalidation. Each operation takes the state the lock protects and returns the
  new one; an operation that calls \<open>notify_waiters\<close> also returns the handle it notified. The handle
  of a \<open>Notify\<close> created by the operation, clock readings and \<open>CredentialMaterial::expires_at\<close> are
  arguments.
\<close>

section \<open>State\<close>

record credential_id =
  cid_namespace :: string
  cid_name :: string

datatype credential_refresh_reason = RMissing | RExpired | RExpiringSoon | RRejected | RManual

datatype invalidate_reason = IrUnauthorized | IrForbidden | IrManual | IrProviderRejected

record auth_step_policy =
  asp_refresh_skew :: duration
  asp_recover_on_unauthorized :: bool
  asp_recover_on_forbidden :: bool
  asp_invalidate_on_unauthorized :: bool
  asp_invalidate_on_forbidden :: bool

definition auth_step_policy_default :: auth_step_policy where
  "auth_step_policy_default =
     \<lparr>asp_refresh_skew = secs 60, asp_recover_on_unauthorized = True,
      asp_recover_on_forbidden = True, asp_invalidate_on_unauthorized = True,
      asp_invalidate_on_forbidden = True\<rparr>"

record 'a credential_lease =
  cl_value :: 'a
  cl_generation :: u64

type_synonym notify_handle = nat
type_synonym refresh_owner_id = u64

datatype 'a refresh_previous =
    PrevEmpty
  | PrevValid 'a u64
  | PrevFailed auth_error "instant option"

datatype 'a credential_slot_state =
    SlotEmpty u64
  | SlotValid 'a u64
  | SlotRefreshing notify_handle u64 refresh_owner_id "'a refresh_previous"
  | SlotFailed u64 auth_error "instant option"

record 'a credential_slot_inner =
  csi_state :: "'a credential_slot_state"
  csi_next_owner :: u64

record ('p, 'a) credential_slot =
  cs_id :: credential_id
  cs_provider :: "'p option"
  cs_init_error :: "auth_error option"
  cs_inner :: "'a credential_slot_inner"

text \<open>
  What the lock phase of \<open>get_or_refresh\<close> decides: return at once, loop again, or one of the three
  values of \<open>SlotAction\<close>. A guard is the owner it was created for.
\<close>

datatype 'a slot_action =
    ActReturn "(auth_error, 'a credential_lease) result"
  | ActContinue
  | ActWait notify_handle
  | ActAcquire u64 refresh_owner_id
  | ActRefresh 'a u64 refresh_owner_id credential_refresh_reason

datatype 'a commit_outcome =
    Stored "'a credential_lease"
  | CommitFailed auth_error
  | StaleOwner

section \<open>Helpers\<close>

fun slot_generation :: "'a credential_slot_state \<Rightarrow> u64" where
  "slot_generation (SlotEmpty g) = g"
| "slot_generation (SlotValid _ g) = g"
| "slot_generation (SlotRefreshing _ g _ _) = g"
| "slot_generation (SlotFailed g _ _) = g"

definition generation_overflow :: auth_error where
  "generation_overflow = auth_error_new AcquireFailed ''credential generation counter overflowed''"

definition next_generation :: "'a credential_slot_state \<Rightarrow> (auth_error, u64) result" where
  "next_generation st = ok_or (checked_add (slot_generation st) 1) generation_overflow"

definition next_refresh_owner ::
  "'a credential_slot_inner \<Rightarrow> (auth_error, refresh_owner_id \<times> 'a credential_slot_inner) result" where
  "next_refresh_owner inner =
     (case checked_add (csi_next_owner inner) 1 of
        None \<Rightarrow> Inl (auth_error_new AcquireFailed ''credential refresh owner counter overflowed'')
      | Some n \<Rightarrow> Inr (csi_next_owner inner, inner\<lparr>csi_next_owner := n\<rparr>))"

definition checked_auth_instant_add ::
  "instant \<Rightarrow> instant \<Rightarrow> duration \<Rightarrow> string \<Rightarrow> (auth_error, instant) result" where
  "checked_auth_instant_add instant_max base d context =
     ok_or (instant_checked_add instant_max base d) (auth_error_new AuthInvalidConfiguration context)"

definition credential_refresh_reason_of ::
  "instant \<Rightarrow> ('a \<Rightarrow> instant option) \<Rightarrow> 'a \<Rightarrow> auth_step_policy \<Rightarrow> instant
    \<Rightarrow> (auth_error, credential_refresh_reason option) result" where
  "credential_refresh_reason_of instant_max expires_at value policy now =
     (case expires_at value of
        None \<Rightarrow> Inr None
      | Some expiry \<Rightarrow>
          if expiry \<le> now then Inr (Some RExpired)
          else
            rbind (checked_auth_instant_add instant_max now (asp_refresh_skew policy)
                     ''auth refresh_skew overflowed'')
              (\<lambda>horizon. Inr (if expiry \<le> horizon then Some RExpiringSoon else None)))"

fun into_state_at :: "'a refresh_previous \<Rightarrow> u64 \<Rightarrow> 'a credential_slot_state" where
  "into_state_at PrevEmpty g = SlotEmpty g"
| "into_state_at (PrevValid value _) g = SlotValid value g"
| "into_state_at (PrevFailed e retry_after) g = SlotFailed g e retry_after"

section \<open>Construction\<close>

text \<open>\<open>id_of\<close> is \<open>CredentialProvider::id\<close>.\<close>

definition slot_new :: "('p \<Rightarrow> credential_id) \<Rightarrow> 'p \<Rightarrow> ('p, 'a) credential_slot" where
  "slot_new id_of provider =
     \<lparr>cs_id = id_of provider, cs_provider = Some provider, cs_init_error = None,
      cs_inner = \<lparr>csi_state = SlotEmpty 0, csi_next_owner = 1\<rparr>\<rparr>"

definition slot_new_result ::
  "credential_id \<Rightarrow> (auth_error, 'p) result \<Rightarrow> ('p, 'a) credential_slot" where
  "slot_new_result i provider =
     \<lparr>cs_id = i, cs_provider = (case provider of Inr p \<Rightarrow> Some p | Inl _ \<Rightarrow> None),
      cs_init_error = (case provider of Inr _ \<Rightarrow> None | Inl e \<Rightarrow> Some e),
      cs_inner = \<lparr>csi_state = SlotEmpty 0, csi_next_owner = 1\<rparr>\<rparr>"

definition provider_ref :: "('p, 'a) credential_slot \<Rightarrow> (auth_error, 'p) result" where
  "provider_ref slot =
     (case cs_init_error slot of
        Some e \<Rightarrow> Inl e
      | None \<Rightarrow>
          ok_or (cs_provider slot)
            (auth_error_new StateUnavailable ''credential slot provider missing''))"

section \<open>The lock phase of \<open>get_or_refresh\<close>\<close>

text \<open>\<open>clock 0\<close> and \<open>clock 1\<close> are the first and the second reading of the clock in the phase.\<close>

definition begin_refresh ::
  "notify_handle \<Rightarrow> u64 \<Rightarrow> refresh_owner_id \<Rightarrow> 'a refresh_previous \<Rightarrow> 'a credential_slot_inner
    \<Rightarrow> 'a credential_slot_inner" where
  "begin_refresh notify g owner previous inner =
     inner\<lparr>csi_state := SlotRefreshing notify g owner previous\<rparr>"

definition lock_valid ::
  "instant \<Rightarrow> ('a \<Rightarrow> instant option) \<Rightarrow> auth_step_policy \<Rightarrow> (nat \<Rightarrow> instant) \<Rightarrow> notify_handle
    \<Rightarrow> 'a \<Rightarrow> u64 \<Rightarrow> 'a credential_slot_inner \<Rightarrow> 'a slot_action \<times> 'a credential_slot_inner" where
  "lock_valid instant_max expires_at policy clock notify value g inner =
     (case credential_refresh_reason_of instant_max expires_at value policy (clock 0) of
        Inl e \<Rightarrow> (ActReturn (Inl e), inner)
      | Inr None \<Rightarrow> (ActReturn (Inr \<lparr>cl_value = value, cl_generation = g\<rparr>), inner)
      | Inr (Some _) \<Rightarrow>
          (case next_generation (csi_state inner) of
             Inl e \<Rightarrow> (ActReturn (Inl e), inner)
           | Inr g' \<Rightarrow>
               (case credential_refresh_reason_of instant_max expires_at value policy (clock 1) of
                  Inl e \<Rightarrow> (ActReturn (Inl e), inner)
                | Inr why \<Rightarrow>
                    (let reason = (case why of None \<Rightarrow> RExpiringSoon | Some r \<Rightarrow> r) in
                     case next_refresh_owner inner of
                       Inl e \<Rightarrow> (ActReturn (Inl e), inner)
                     | Inr (owner, inner') \<Rightarrow>
                         (ActRefresh value g' owner reason,
                          begin_refresh notify g' owner (PrevValid value g) inner')))))"

definition lock_failed ::
  "instant \<Rightarrow> notify_handle \<Rightarrow> auth_error \<Rightarrow> instant option \<Rightarrow> 'a credential_slot_inner
    \<Rightarrow> 'a slot_action \<times> 'a credential_slot_inner" where
  "lock_failed now notify e retry_after inner =
     (if (case retry_after of None \<Rightarrow> False | Some retry_at \<Rightarrow> now < retry_at)
      then (ActReturn (Inl e), inner)
      else
        (case next_generation (csi_state inner) of
           Inl e' \<Rightarrow> (ActReturn (Inl e'), inner)
         | Inr g' \<Rightarrow>
             (case next_refresh_owner inner of
                Inl e' \<Rightarrow> (ActReturn (Inl e'), inner)
              | Inr (owner, inner') \<Rightarrow>
                  (ActAcquire g' owner,
                   begin_refresh notify g' owner (PrevFailed e retry_after) inner'))))"

definition lock_empty ::
  "notify_handle \<Rightarrow> 'a credential_slot_inner \<Rightarrow> 'a slot_action \<times> 'a credential_slot_inner" where
  "lock_empty notify inner =
     (case next_refresh_owner inner of
        Inl e \<Rightarrow> (ActReturn (Inl e), inner)
      | Inr (owner, inner') \<Rightarrow>
          (case next_generation (csi_state inner') of
             Inl e \<Rightarrow> (ActReturn (Inl e), inner')
           | Inr g' \<Rightarrow> (ActAcquire g' owner, begin_refresh notify g' owner PrevEmpty inner')))"

definition lock_refreshing ::
  "notify_handle \<Rightarrow> refresh_owner_id \<Rightarrow> 'a credential_slot_inner
    \<Rightarrow> 'a slot_action \<times> 'a credential_slot_inner" where
  "lock_refreshing registered owner inner =
     (let should_wait =
        (case csi_state inner of
           SlotRefreshing _ _ current_owner _ \<Rightarrow> current_owner = owner
         | _ \<Rightarrow> False)
      in (if should_wait then ActWait registered else ActContinue, inner))"

definition get_or_refresh_lock ::
  "instant \<Rightarrow> ('a \<Rightarrow> instant option) \<Rightarrow> auth_step_policy \<Rightarrow> (nat \<Rightarrow> instant) \<Rightarrow> notify_handle
    \<Rightarrow> 'a credential_slot_inner \<Rightarrow> 'a slot_action \<times> 'a credential_slot_inner" where
  "get_or_refresh_lock instant_max expires_at policy clock notify inner =
     (case csi_state inner of
        SlotValid value g \<Rightarrow> lock_valid instant_max expires_at policy clock notify value g inner
      | SlotRefreshing registered _ owner _ \<Rightarrow> lock_refreshing registered owner inner
      | SlotFailed _ e retry_after \<Rightarrow> lock_failed (clock 0) notify e retry_after inner
      | SlotEmpty _ \<Rightarrow> lock_empty notify inner)"

section \<open>Committing and dropping a refresh\<close>

definition owns_refresh :: "refresh_owner_id \<Rightarrow> u64 \<Rightarrow> 'a credential_slot_inner \<Rightarrow> bool" where
  "owns_refresh owner attempt inner =
     (case csi_state inner of
        SlotRefreshing _ g o' _ \<Rightarrow> o' = owner \<and> g = attempt
      | _ \<Rightarrow> False)"

text \<open>The first lock phase reads the handle, the second one stores the result.\<close>

definition commit_check ::
  "u64 \<Rightarrow> refresh_owner_id \<Rightarrow> 'a credential_slot_inner \<Rightarrow> notify_handle option" where
  "commit_check attempt owner inner =
     (case csi_state inner of
        SlotRefreshing notify g o' _ \<Rightarrow> if o' = owner \<and> g = attempt then Some notify else None
      | _ \<Rightarrow> None)"

definition commit_store ::
  "instant \<Rightarrow> instant \<Rightarrow> u64 \<Rightarrow> refresh_owner_id \<Rightarrow> notify_handle \<Rightarrow> (auth_error, 'a) result
    \<Rightarrow> 'a credential_slot_inner
    \<Rightarrow> (auth_error, 'a commit_outcome) result \<times> notify_handle option \<times> 'a credential_slot_inner" where
  "commit_store instant_max now attempt owner notify result inner =
     (if \<not> owns_refresh owner attempt inner then (Inr StaleOwner, None, inner)
      else
        (case result of
           Inr value \<Rightarrow>
             (Inr (Stored \<lparr>cl_value = value, cl_generation = attempt\<rparr>), Some notify,
              inner\<lparr>csi_state := SlotValid value attempt\<rparr>)
         | Inl e \<Rightarrow>
             (case ae_retry_after e of
                None \<Rightarrow>
                  (Inr (CommitFailed e), Some notify, inner\<lparr>csi_state := SlotFailed attempt e None\<rparr>)
              | Some wait \<Rightarrow>
                  (case checked_auth_instant_add instant_max now wait ''auth retry-after overflowed'' of
                     Inl e' \<Rightarrow> (Inl e', None, inner)
                   | Inr retry_at \<Rightarrow>
                       (Inr (CommitFailed e), Some notify,
                        inner\<lparr>csi_state := SlotFailed attempt e (Some retry_at)\<rparr>)))))"

text \<open>
  The two phases together; \<open>between\<close> is what other tasks do to the slot after the first lock is
  released. The boolean says whether the guard was disarmed.
\<close>

definition commit_slot_result ::
  "instant \<Rightarrow> instant \<Rightarrow> ('a credential_slot_inner \<Rightarrow> 'a credential_slot_inner) \<Rightarrow> u64
    \<Rightarrow> refresh_owner_id \<Rightarrow> (auth_error, 'a) result \<Rightarrow> 'a credential_slot_inner
    \<Rightarrow> (auth_error, 'a commit_outcome) result \<times> bool \<times> notify_handle option \<times> 'a credential_slot_inner"
  where
  "commit_slot_result instant_max now between attempt owner result inner =
     (case commit_check attempt owner inner of
        None \<Rightarrow> (Inr StaleOwner, True, None, inner)
      | Some notify \<Rightarrow>
          (case commit_store instant_max now attempt owner notify result (between inner) of
             (r, notified, inner') \<Rightarrow> (r, \<not> isl r, notified, inner')))"

definition guard_drop ::
  "bool \<Rightarrow> refresh_owner_id \<Rightarrow> 'a credential_slot_inner \<Rightarrow> notify_handle option \<times> 'a credential_slot_inner"
  where
  "guard_drop disarmed owner inner =
     (if disarmed then (None, inner)
      else
        (case csi_state inner of
           SlotRefreshing notify g o' previous \<Rightarrow>
             if o' = owner then (Some notify, inner\<lparr>csi_state := into_state_at previous g\<rparr>)
             else (None, inner)
         | _ \<Rightarrow> (None, inner)))"

text \<open>
  The whole of \<open>get_or_refresh\<close> as one task runs it. The world around the task says, per round of
  the loop, what the clock reads in the lock phase and at the commit, which fresh handle is
  created, what the provider answers, and what other tasks do to the slot while this one waits,
  fetches, sits between the two phases of the commit, or is about to drop its guard. The result
  carries the handles this task notified. The fuel bounds the rounds.
\<close>

record 'a slot_world =
  sw_clock :: "nat \<Rightarrow> nat \<Rightarrow> instant"
  sw_commit_clock :: "nat \<Rightarrow> instant"
  sw_handle :: "nat \<Rightarrow> notify_handle"
  sw_acquire :: "nat \<Rightarrow> (auth_error, 'a) result"
  sw_refresh :: "nat \<Rightarrow> 'a \<Rightarrow> credential_refresh_reason \<Rightarrow> (auth_error, 'a) result"
  sw_wait :: "nat \<Rightarrow> 'a credential_slot_inner \<Rightarrow> 'a credential_slot_inner"
  sw_fetch :: "nat \<Rightarrow> 'a credential_slot_inner \<Rightarrow> 'a credential_slot_inner"
  sw_between :: "nat \<Rightarrow> 'a credential_slot_inner \<Rightarrow> 'a credential_slot_inner"
  sw_drop :: "nat \<Rightarrow> 'a credential_slot_inner \<Rightarrow> 'a credential_slot_inner"

datatype 'a round_end =
    RoundReturn "(auth_error, 'a credential_lease) result"
  | RoundContinue

definition finish_refresh ::
  "instant \<Rightarrow> 'a slot_world \<Rightarrow> nat \<Rightarrow> u64 \<Rightarrow> refresh_owner_id \<Rightarrow> (auth_error, 'a) result
    \<Rightarrow> 'a credential_slot_inner \<Rightarrow> 'a round_end \<times> notify_handle list \<times> 'a credential_slot_inner" where
  "finish_refresh instant_max w i g owner result inner =
     (case commit_slot_result instant_max (sw_commit_clock w i) (sw_between w i) g owner result inner of
        (Inr (Stored lease), _, n, inner') \<Rightarrow> (RoundReturn (Inr lease), List.map_filter id [n], inner')
      | (Inr (CommitFailed e), _, n, inner') \<Rightarrow> (RoundReturn (Inl e), List.map_filter id [n], inner')
      | (Inr StaleOwner, _, n, inner') \<Rightarrow> (RoundContinue, List.map_filter id [n], inner')
      | (Inl e, disarmed, n, inner') \<Rightarrow>
          (case guard_drop disarmed owner (sw_drop w i inner') of
             (n', inner'') \<Rightarrow> (RoundReturn (Inl e), List.map_filter id [n, n'], inner'')))"

definition get_or_refresh_round ::
  "instant \<Rightarrow> ('a \<Rightarrow> instant option) \<Rightarrow> auth_step_policy \<Rightarrow> 'a slot_world \<Rightarrow> nat
    \<Rightarrow> 'a credential_slot_inner \<Rightarrow> 'a round_end \<times> notify_handle list \<times> 'a credential_slot_inner" where
  "get_or_refresh_round instant_max expires_at policy w i inner =
     (case get_or_refresh_lock instant_max expires_at policy (sw_clock w i) (sw_handle w i) inner of
        (ActReturn r, inner') \<Rightarrow> (RoundReturn r, [], inner')
      | (ActContinue, inner') \<Rightarrow> (RoundContinue, [], inner')
      | (ActWait _, inner') \<Rightarrow> (RoundContinue, [], sw_wait w i inner')
      | (ActAcquire g owner, inner') \<Rightarrow>
          finish_refresh instant_max w i g owner (sw_acquire w i) (sw_fetch w i inner')
      | (ActRefresh current g owner reason, inner') \<Rightarrow>
          finish_refresh instant_max w i g owner (sw_refresh w i current reason) (sw_fetch w i inner'))"

fun get_or_refresh_loop ::
  "nat \<Rightarrow> instant \<Rightarrow> ('a \<Rightarrow> instant option) \<Rightarrow> auth_step_policy \<Rightarrow> 'a slot_world \<Rightarrow> nat
    \<Rightarrow> 'a credential_slot_inner
    \<Rightarrow> ((auth_error, 'a credential_lease) result \<times> notify_handle list \<times> 'a credential_slot_inner) option"
  where
  "get_or_refresh_loop 0 instant_max expires_at policy w i inner = None"
| "get_or_refresh_loop (Suc fuel) instant_max expires_at policy w i inner =
     (case get_or_refresh_round instant_max expires_at policy w i inner of
        (RoundReturn r, ns, inner') \<Rightarrow> Some (r, ns, inner')
      | (RoundContinue, ns, inner') \<Rightarrow>
          map_option (\<lambda>(r, ns', inner''). (r, ns @ ns', inner''))
            (get_or_refresh_loop fuel instant_max expires_at policy w (Suc i) inner'))"

definition get_or_refresh ::
  "nat \<Rightarrow> instant \<Rightarrow> ('a \<Rightarrow> instant option) \<Rightarrow> auth_step_policy \<Rightarrow> 'a slot_world
    \<Rightarrow> ('p, 'a) credential_slot
    \<Rightarrow> ((auth_error, 'a credential_lease) result \<times> notify_handle list \<times> ('p, 'a) credential_slot) option"
  where
  "get_or_refresh fuel instant_max expires_at policy w slot =
     (case provider_ref slot of
        Inl e \<Rightarrow> Some (Inl e, [], slot)
      | Inr _ \<Rightarrow>
          map_option (\<lambda>(r, ns, inner). (r, ns, slot\<lparr>cs_inner := inner\<rparr>))
            (get_or_refresh_loop fuel instant_max expires_at policy w 0 (cs_inner slot)))"

section \<open>Invalidation and manual replacement\<close>

definition matches_generation :: "u64 option \<Rightarrow> u64 \<Rightarrow> bool" where
  "matches_generation expected g = (case expected of None \<Rightarrow> True | Some e \<Rightarrow> e = g)"

definition invalidate_generation_state ::
  "u64 option \<Rightarrow> 'a credential_slot_inner
    \<Rightarrow> (auth_error, 'a option \<times> u64 option) result \<times> 'a credential_slot_inner" where
  "invalidate_generation_state expected inner =
     (let current_generation = Some (slot_generation (csi_state inner)) in
      case csi_state inner of
        SlotValid value g \<Rightarrow>
          if matches_generation expected g then
            (case checked_add g 1 of
               None \<Rightarrow> (Inl generation_overflow, inner)
             | Some g' \<Rightarrow>
                 (Inr (Some value, current_generation), inner\<lparr>csi_state := SlotEmpty g'\<rparr>))
          else (Inr (None, current_generation), inner)
      | SlotRefreshing notify g owner previous \<Rightarrow>
          (case previous of
             PrevValid value pg \<Rightarrow>
               if matches_generation expected pg then
                 (Inr (Some value, current_generation),
                  inner\<lparr>csi_state := SlotRefreshing notify g owner PrevEmpty\<rparr>)
               else (Inr (None, current_generation), inner)
           | _ \<Rightarrow> (Inr (None, current_generation), inner))
      | _ \<Rightarrow> (Inr (None, current_generation), inner))"

definition slot_inner_update ::
  "('p, 'a) credential_slot \<Rightarrow> 'a credential_slot_inner \<Rightarrow> ('p, 'a) credential_slot" where
  "slot_inner_update slot inner = slot\<lparr>cs_inner := inner\<rparr>"

definition invalidate_generation_local ::
  "u64 option \<Rightarrow> ('p, 'a) credential_slot \<Rightarrow> (auth_error, unit) result \<times> ('p, 'a) credential_slot" where
  "invalidate_generation_local expected slot =
     (case invalidate_generation_state expected (cs_inner slot) of
        (Inl e, inner) \<Rightarrow> (Inl e, slot_inner_update slot inner)
      | (Inr _, inner) \<Rightarrow> (Inr (), slot_inner_update slot inner))"

definition invalidate_generation ::
  "('p \<Rightarrow> 'a option \<Rightarrow> invalidate_reason \<Rightarrow> (auth_error, unit) result) \<Rightarrow> u64 option \<Rightarrow> invalidate_reason
    \<Rightarrow> ('p, 'a) credential_slot \<Rightarrow> (auth_error, unit) result \<times> ('p, 'a) credential_slot" where
  "invalidate_generation provider_invalidate expected reason slot =
     (case provider_ref slot of
        Inl e \<Rightarrow> (Inl e, slot)
      | Inr provider \<Rightarrow>
          (case invalidate_generation_state expected (cs_inner slot) of
             (Inl e, inner) \<Rightarrow> (Inl e, slot_inner_update slot inner)
           | (Inr (current, _), inner) \<Rightarrow>
               (provider_invalidate provider current reason, slot_inner_update slot inner)))"

definition refreshing_handle :: "'a credential_slot_state \<Rightarrow> notify_handle option" where
  "refreshing_handle st = (case st of SlotRefreshing notify _ _ _ \<Rightarrow> Some notify | _ \<Rightarrow> None)"

definition set_manual_inner ::
  "'a \<Rightarrow> 'a credential_slot_inner
    \<Rightarrow> (auth_error, unit) result \<times> notify_handle option \<times> 'a credential_slot_inner" where
  "set_manual_inner value inner =
     (case next_generation (csi_state inner) of
        Inl e \<Rightarrow> (Inl e, None, inner)
      | Inr g \<Rightarrow>
          (Inr (), refreshing_handle (csi_state inner), inner\<lparr>csi_state := SlotValid value g\<rparr>))"

definition clear_manual_inner ::
  "'a credential_slot_inner
    \<Rightarrow> (auth_error, unit) result \<times> notify_handle option \<times> 'a credential_slot_inner" where
  "clear_manual_inner inner =
     (case next_generation (csi_state inner) of
        Inl e \<Rightarrow> (Inl e, None, inner)
      | Inr g \<Rightarrow>
          (Inr (), refreshing_handle (csi_state inner), inner\<lparr>csi_state := SlotEmpty g\<rparr>))"

definition set_manual ::
  "'a \<Rightarrow> ('p, 'a) credential_slot
    \<Rightarrow> (auth_error, unit) result \<times> notify_handle option \<times> ('p, 'a) credential_slot" where
  "set_manual value slot =
     (case cs_init_error slot of
        Some e \<Rightarrow> (Inl e, None, slot)
      | None \<Rightarrow>
          (case set_manual_inner value (cs_inner slot) of
             (r, notified, inner) \<Rightarrow> (r, notified, slot_inner_update slot inner)))"

definition clear_manual ::
  "('p, 'a) credential_slot
    \<Rightarrow> (auth_error, unit) result \<times> notify_handle option \<times> ('p, 'a) credential_slot" where
  "clear_manual slot =
     (case cs_init_error slot of
        Some e \<Rightarrow> (Inl e, None, slot)
      | None \<Rightarrow>
          (case clear_manual_inner (cs_inner slot) of
             (r, notified, inner) \<Rightarrow> (r, notified, slot_inner_update slot inner)))"

definition cached_lease :: "'a credential_slot_inner \<Rightarrow> 'a credential_lease option" where
  "cached_lease inner =
     (case csi_state inner of
        SlotValid value g \<Rightarrow> Some \<lparr>cl_value = value, cl_generation = g\<rparr>
      | _ \<Rightarrow> None)"

definition has_value :: "('p, 'a) credential_slot \<Rightarrow> bool" where
  "has_value slot =
     (if cs_init_error slot \<noteq> None then False
      else (case csi_state (cs_inner slot) of SlotValid _ _ \<Rightarrow> True | _ \<Rightarrow> False))"

definition get_cached :: "('p, 'a) credential_slot \<Rightarrow> 'a credential_lease option" where
  "get_cached slot = (if cs_init_error slot \<noteq> None then None else cached_lease (cs_inner slot))"

end
