(* ===== verification/CredentialSystem.thy ===== *)
theory CredentialSystem
  imports CredentialSlot
begin

text \<open>
  The credential slot under concurrency. A step of \<open>slot_step\<close> is one critical section of one task:
  the lock phase of \<open>get_or_refresh\<close>, either phase of the commit, the drop of a guard (a cancelled
  or failed fetch), an invalidation, a manual replacement or a read of the cache. The system state
  records the guards that are alive, the handles tasks wait on, the handles notified so far and
  every lease handed out.
\<close>

section \<open>The transition system\<close>

datatype 'a guard_phase =
    GFetching
  | GCommitting notify_handle "(auth_error, 'a) result"
  | GDropping

record 'a slot_system =
  sys_inner :: "'a credential_slot_inner"
  sys_guards :: "refresh_owner_id \<rightharpoonup> u64 \<times> 'a guard_phase"
  sys_waiters :: "notify_handle set"
  sys_notified :: "notify_handle set"
  sys_next_handle :: notify_handle
  sys_leases :: "(u64 \<times> 'a) set"

definition lease_pair :: "'a credential_lease \<Rightarrow> u64 \<times> 'a" where
  "lease_pair l = (cl_generation l, cl_value l)"

definition note_lease :: "'a credential_lease \<Rightarrow> 'a slot_system \<Rightarrow> 'a slot_system" where
  "note_lease l s = s\<lparr>sys_leases := insert (lease_pair l) (sys_leases s)\<rparr>"

definition locked_update ::
  "notify_handle option \<Rightarrow> 'a credential_slot_inner \<Rightarrow> 'a slot_system \<Rightarrow> 'a slot_system" where
  "locked_update n inner s =
     s\<lparr>sys_inner := inner,
       sys_notified := (case n of None \<Rightarrow> sys_notified s | Some h \<Rightarrow> insert h (sys_notified s))\<rparr>"

definition set_guard ::
  "refresh_owner_id \<Rightarrow> (u64 \<times> 'a guard_phase) option \<Rightarrow> 'a slot_system \<Rightarrow> 'a slot_system" where
  "set_guard owner gp s = s\<lparr>sys_guards := (sys_guards s)(owner := gp)\<rparr>"

definition after_lock :: "'a slot_action \<Rightarrow> 'a slot_system \<Rightarrow> 'a slot_system" where
  "after_lock act s =
     (case act of
        ActReturn (Inr l) \<Rightarrow> note_lease l s
      | ActReturn (Inl _) \<Rightarrow> s
      | ActContinue \<Rightarrow> s
      | ActWait h \<Rightarrow> s\<lparr>sys_waiters := insert h (sys_waiters s)\<rparr>
      | ActAcquire g owner \<Rightarrow> set_guard owner (Some (g, GFetching)) s
      | ActRefresh _ g owner _ \<Rightarrow> set_guard owner (Some (g, GFetching)) s)"

definition after_store ::
  "refresh_owner_id \<Rightarrow> u64 \<Rightarrow> (auth_error, 'a commit_outcome) result \<Rightarrow> 'a slot_system \<Rightarrow> 'a slot_system"
  where
  "after_store owner g r s =
     (case r of
        Inl _ \<Rightarrow> set_guard owner (Some (g, GDropping)) s
      | Inr (Stored l) \<Rightarrow> note_lease l (set_guard owner None s)
      | Inr _ \<Rightarrow> set_guard owner None s)"

inductive slot_step ::
  "instant \<Rightarrow> ('a \<Rightarrow> instant option) \<Rightarrow> 'a slot_system \<Rightarrow> 'a slot_system \<Rightarrow> bool"
  for imax expires_at
  where
  lock_phase:
    "get_or_refresh_lock imax expires_at policy clock (sys_next_handle s) (sys_inner s) = (act, inner)
     \<Longrightarrow> slot_step imax expires_at s
           (after_lock act (s\<lparr>sys_inner := inner, sys_next_handle := Suc (sys_next_handle s)\<rparr>))"
| check_stale:
    "sys_guards s owner = Some (g, GFetching) \<Longrightarrow> commit_check g owner (sys_inner s) = None
     \<Longrightarrow> slot_step imax expires_at s (set_guard owner None s)"
| check_owned:
    "sys_guards s owner = Some (g, GFetching) \<Longrightarrow> commit_check g owner (sys_inner s) = Some h
     \<Longrightarrow> slot_step imax expires_at s (set_guard owner (Some (g, GCommitting h result)) s)"
| store_phase:
    "sys_guards s owner = Some (g, GCommitting h result)
     \<Longrightarrow> commit_store imax now g owner h result (sys_inner s) = (r, n, inner)
     \<Longrightarrow> slot_step imax expires_at s (after_store owner g r (locked_update n inner s))"
| drop_guard:
    "sys_guards s owner = Some (g, phase) \<Longrightarrow> phase = GFetching \<or> phase = GDropping
     \<Longrightarrow> guard_drop False owner (sys_inner s) = (n, inner)
     \<Longrightarrow> slot_step imax expires_at s (set_guard owner None (locked_update n inner s))"
| manual_set:
    "set_manual_inner v (sys_inner s) = (r, n, inner)
     \<Longrightarrow> slot_step imax expires_at s (locked_update n inner s)"
| manual_clear:
    "clear_manual_inner (sys_inner s) = (r, n, inner)
     \<Longrightarrow> slot_step imax expires_at s (locked_update n inner s)"
| invalidate:
    "invalidate_generation_state expected (sys_inner s) = (q, inner)
     \<Longrightarrow> slot_step imax expires_at s (s\<lparr>sys_inner := inner\<rparr>)"
| read_cached:
    "cached_lease (sys_inner s) = Some l \<Longrightarrow> slot_step imax expires_at s (note_lease l s)"

inductive_cases slot_stepE: "slot_step imax expires_at s s'"

definition slot_init :: "'a slot_system \<Rightarrow> bool" where
  "slot_init s \<longleftrightarrow>
     sys_inner s = \<lparr>csi_state = SlotEmpty 0, csi_next_owner = 1\<rparr>
     \<and> sys_guards s = Map.empty \<and> sys_waiters s = {} \<and> sys_notified s = {} \<and> sys_leases s = {}"

section \<open>What each critical section does\<close>

definition sys_state :: "'a slot_system \<Rightarrow> 'a credential_slot_state" where
  "sys_state s = csi_state (sys_inner s)"

definition sys_generation :: "'a slot_system \<Rightarrow> u64" where
  "sys_generation s = slot_generation (sys_state s)"

lemmas slot_system_defs =
  note_lease_def locked_update_def set_guard_def after_lock_def after_store_def lease_pair_def

lemma checked_add_gt: "checked_add (g :: u64) 1 = Some g' \<Longrightarrow> g < g'"
  by (rule checked_add_one_less)

lemma checked_add_ge: "checked_add (g :: u64) 1 = Some g' \<Longrightarrow> g \<le> g'"
  using checked_add_gt by (rule less_imp_le)

lemma next_generation_Inr: "next_generation st = Inr g \<longleftrightarrow> checked_add (slot_generation st) 1 = Some g"
  by (auto simp: next_generation_def ok_or_def split: option.splits)

lemma next_refresh_owner_Inr:
  "next_refresh_owner inner = Inr (owner, inner') \<longleftrightarrow>
     owner = csi_next_owner inner
     \<and> (\<exists>n. checked_add owner 1 = Some n \<and> inner' = inner\<lparr>csi_next_owner := n\<rparr>)"
  by (auto simp: next_refresh_owner_def split: option.splits)

text \<open>A lock phase either leaves the slot state alone or starts a refresh of a slot that was idle.\<close>

definition starts_refresh ::
  "'a slot_action \<Rightarrow> notify_handle \<Rightarrow> 'a credential_slot_inner \<Rightarrow> 'a credential_slot_inner \<Rightarrow> bool" where
  "starts_refresh act h inner inner' \<longleftrightarrow>
     refreshing_handle (csi_state inner) = None
     \<and> (\<exists>g p. (act = ActAcquire g (csi_next_owner inner)
                \<or> (\<exists>v reason. act = ActRefresh v g (csi_next_owner inner) reason))
            \<and> checked_add (slot_generation (csi_state inner)) 1 = Some g
            \<and> csi_next_owner inner < csi_next_owner inner'
            \<and> csi_state inner' = SlotRefreshing h g (csi_next_owner inner) p
            \<and> (\<forall>v pg. p = PrevValid v pg \<longrightarrow> csi_state inner = SlotValid v pg))"

definition leaves_state ::
  "'a slot_action \<Rightarrow> 'a credential_slot_inner \<Rightarrow> 'a credential_slot_inner \<Rightarrow> bool" where
  "leaves_state act inner inner' \<longleftrightarrow>
     csi_state inner' = csi_state inner \<and> csi_next_owner inner \<le> csi_next_owner inner'
     \<and> ((\<exists>e. act = ActReturn (Inl e))
        \<or> (\<exists>l. act = ActReturn (Inr l) \<and> cached_lease inner = Some l)
        \<or> (\<exists>h. act = ActWait h \<and> refreshing_handle (csi_state inner) = Some h))"

lemma lock_valid_cases:
  assumes "csi_state inner = SlotValid v g"
    and "lock_valid imax expires_at policy clock h v g inner = (act, inner')"
  shows "leaves_state act inner inner' \<or> starts_refresh act h inner inner'"
  using assms
  by (auto simp: lock_valid_def leaves_state_def starts_refresh_def begin_refresh_def Let_def
      next_generation_Inr next_refresh_owner_Inr cached_lease_def refreshing_handle_def
      checked_add_gt split: sum.splits option.splits prod.splits)

lemma lock_failed_cases:
  assumes "csi_state inner = SlotFailed g e ra"
    and "lock_failed now h e ra inner = (act, inner')"
  shows "leaves_state act inner inner' \<or> starts_refresh act h inner inner'"
  using assms
  by (auto simp: lock_failed_def leaves_state_def starts_refresh_def begin_refresh_def
      next_generation_Inr next_refresh_owner_Inr refreshing_handle_def checked_add_gt
      split: sum.splits option.splits prod.splits if_splits)

lemma lock_empty_cases:
  assumes "csi_state inner = SlotEmpty g" and "lock_empty h inner = (act, inner')"
  shows "leaves_state act inner inner' \<or> starts_refresh act h inner inner'"
  using assms
  by (auto simp: lock_empty_def leaves_state_def starts_refresh_def begin_refresh_def
      next_generation_Inr next_refresh_owner_Inr refreshing_handle_def
      intro: checked_add_gt checked_add_ge split: sum.splits prod.splits)

lemma get_or_refresh_lock_cases:
  assumes "get_or_refresh_lock imax expires_at policy clock h inner = (act, inner')"
  shows "leaves_state act inner inner' \<or> starts_refresh act h inner inner'"
proof (cases "csi_state inner")
  case (SlotRefreshing r g owner p)
  with assms show ?thesis
    by (auto simp: get_or_refresh_lock_def lock_refreshing_def leaves_state_def refreshing_handle_def)
next
  case (SlotValid v g)
  then show ?thesis
    using assms lock_valid_cases [OF SlotValid] by (simp add: get_or_refresh_lock_def)
next
  case (SlotFailed g e ra)
  then show ?thesis
    using assms lock_failed_cases [OF SlotFailed] by (simp add: get_or_refresh_lock_def)
next
  case (SlotEmpty g)
  then show ?thesis
    using assms lock_empty_cases [OF SlotEmpty] by (simp add: get_or_refresh_lock_def)
qed

text \<open>The other critical sections, one fact each.\<close>

lemma commit_check_Some:
  "commit_check g owner inner = Some h \<longleftrightarrow> (\<exists>p. csi_state inner = SlotRefreshing h g owner p)"
  by (auto simp: commit_check_def split: credential_slot_state.splits)

lemma owns_refresh_iff:
  "owns_refresh owner g inner \<longleftrightarrow> (\<exists>h p. csi_state inner = SlotRefreshing h g owner p)"
  by (auto simp: owns_refresh_def split: credential_slot_state.splits)

lemma commit_store_cases:
  assumes "commit_store imax now g owner h result inner = (r, n, inner')"
  shows "inner' = inner \<and> n = None \<and> (r = Inr StaleOwner \<and> \<not> owns_refresh owner g inner
             \<or> (\<exists>e. r = Inl e))
    \<or> owns_refresh owner g inner \<and> n = Some h \<and> csi_next_owner inner' = csi_next_owner inner
       \<and> ((\<exists>v. result = Inr v \<and> csi_state inner' = SlotValid v g
              \<and> r = Inr (Stored \<lparr>cl_value = v, cl_generation = g\<rparr>))
          \<or> (\<exists>e ra. result = Inl e \<and> csi_state inner' = SlotFailed g e ra \<and> r = Inr (CommitFailed e)))"
  using assms
  by (auto simp: commit_store_def split: if_splits sum.splits option.splits)

lemma guard_drop_cases:
  assumes "guard_drop False owner inner = (n, inner')"
  shows "inner' = inner \<and> n = None \<and> (\<forall>h g p. csi_state inner \<noteq> SlotRefreshing h g owner p)
    \<or> (\<exists>h g p. csi_state inner = SlotRefreshing h g owner p \<and> n = Some h
          \<and> inner' = inner\<lparr>csi_state := into_state_at p g\<rparr>)"
  using assms by (auto simp: guard_drop_def split: credential_slot_state.splits if_splits)

lemma set_manual_inner_cases:
  assumes "set_manual_inner v inner = (r, n, inner')"
  shows "inner' = inner \<and> n = None
    \<or> (\<exists>g. checked_add (slot_generation (csi_state inner)) 1 = Some g
         \<and> n = refreshing_handle (csi_state inner)
         \<and> inner' = inner\<lparr>csi_state := SlotValid v g\<rparr>)"
  using assms by (auto simp: set_manual_inner_def next_generation_Inr split: sum.splits)

lemma clear_manual_inner_cases:
  assumes "clear_manual_inner inner = (r, n, inner')"
  shows "inner' = inner \<and> n = None
    \<or> (\<exists>g. checked_add (slot_generation (csi_state inner)) 1 = Some g
         \<and> n = refreshing_handle (csi_state inner)
         \<and> inner' = inner\<lparr>csi_state := SlotEmpty g\<rparr>)"
  using assms by (auto simp: clear_manual_inner_def next_generation_Inr split: sum.splits)

lemma invalidate_cases:
  assumes "invalidate_generation_state expected inner = (q, inner')"
  shows "inner' = inner
    \<or> (\<exists>v g g'. csi_state inner = SlotValid v g \<and> matches_generation expected g
         \<and> checked_add g 1 = Some g' \<and> inner' = inner\<lparr>csi_state := SlotEmpty g'\<rparr>)
    \<or> (\<exists>h g owner v pg. csi_state inner = SlotRefreshing h g owner (PrevValid v pg)
         \<and> matches_generation expected pg
         \<and> inner' = inner\<lparr>csi_state := SlotRefreshing h g owner PrevEmpty\<rparr>)"
  using assms
  by (auto simp: invalidate_generation_state_def Let_def
      split: credential_slot_state.splits refresh_previous.splits if_splits option.splits)

lemma into_state_at_generation [simp]: "slot_generation (into_state_at p g) = g"
  by (cases p) auto

lemma into_state_at_idle [simp]: "refreshing_handle (into_state_at p g) = None"
  by (cases p) (auto simp: refreshing_handle_def)

lemma cached_lease_Some:
  "cached_lease inner = Some l \<longleftrightarrow> csi_state inner = SlotValid (cl_value l) (cl_generation l)"
  by (cases l) (auto simp: cached_lease_def split: credential_slot_state.splits)

lemma cached_lease_cong: "csi_state inner' = csi_state inner \<Longrightarrow> cached_lease inner' = cached_lease inner"
  by (simp add: cached_lease_def)

section \<open>Generations\<close>

lemma sys_generation_simps [simp]:
  "sys_inner (after_lock act s) = sys_inner s"
  "sys_inner (after_store owner g r s) = sys_inner s"
  "sys_inner (set_guard owner gp s) = sys_inner s"
  "sys_inner (note_lease l s) = sys_inner s"
  "sys_inner (locked_update n inner s) = inner"
  by (auto simp: slot_system_defs split: slot_action.splits sum.splits commit_outcome.splits)

definition sys_content :: "'a slot_system \<Rightarrow> (u64 \<times> 'a) option" where
  "sys_content s = map_option lease_pair (cached_lease (sys_inner s))"

lemma sys_content_iff: "sys_content s = Some (g, v) \<longleftrightarrow> sys_state s = SlotValid v g"
  by (cases "sys_state s") (auto simp: sys_content_def sys_state_def cached_lease_def lease_pair_def)

lemma slot_step_inner:
  assumes "slot_step imax expires_at s s'"
  shows "sys_state s' = sys_state s \<or> sys_generation s < sys_generation s'
    \<or> (sys_generation s' = sys_generation s \<and> refreshing_handle (sys_state s) \<noteq> None)"
  using assms
proof (cases rule: slot_step.cases)
  case (lock_phase policy clock act inner)
  from get_or_refresh_lock_cases [OF lock_phase(2)] show ?thesis
    unfolding lock_phase(1)
    by (auto simp: sys_state_def sys_generation_def leaves_state_def starts_refresh_def
        dest: checked_add_gt)
next
  case (store_phase owner g h result now r n inner)
  from commit_store_cases [OF store_phase(3)] show ?thesis
    unfolding store_phase(1)
    by (auto simp: sys_state_def sys_generation_def owns_refresh_iff refreshing_handle_def)
next
  case (drop_guard owner g phase n inner)
  from guard_drop_cases [OF drop_guard(4)] show ?thesis
    unfolding drop_guard(1)
    by (auto simp: sys_state_def sys_generation_def refreshing_handle_def)
next
  case (manual_set v r n inner)
  from set_manual_inner_cases [OF manual_set(2)] show ?thesis
    unfolding manual_set(1) by (auto simp: sys_state_def sys_generation_def dest: checked_add_gt)
next
  case (manual_clear r n inner)
  from clear_manual_inner_cases [OF manual_clear(2)] show ?thesis
    unfolding manual_clear(1) by (auto simp: sys_state_def sys_generation_def dest: checked_add_gt)
next
  case (invalidate expected q inner)
  from invalidate_cases [OF invalidate(2)] show ?thesis
    unfolding invalidate(1)
    by (auto simp: sys_state_def sys_generation_def refreshing_handle_def dest: checked_add_gt)
qed (auto simp: sys_state_def)

interpretation slot_cell: generation_cell sys_generation sys_content "slot_step imax expires_at"
proof unfold_locales
  show "sys_content s = Some (g, v) \<Longrightarrow> g = sys_generation s" for s :: "'a slot_system" and g v
    by (simp add: sys_content_iff sys_generation_def)
next
  fix s s' :: "'a slot_system"
  assume step: "slot_step imax expires_at s s'"
  show "sys_generation s \<le> sys_generation s'"
    using slot_step_inner [OF step] by (auto simp: sys_generation_def)
  fix c
  assume "sys_generation s' = sys_generation s" and c: "sys_content s = Some c"
  then have "sys_state s' = sys_state s"
    using slot_step_inner [OF step] sys_content_iff [of s "fst c" "snd c"]
    by (auto simp: refreshing_handle_def)
  then show "sys_content s' = Some c"
    using c sys_content_iff by (metis prod.collapse)
qed

section \<open>The invariant\<close>

text \<open>A refresh in progress has a live guard, of its own generation, that knows its handle.\<close>

definition refresh_owned :: "'a slot_system \<Rightarrow> bool" where
  "refresh_owned s \<longleftrightarrow>
     (\<forall>h g owner p. sys_state s = SlotRefreshing h g owner p \<longrightarrow>
        h \<notin> sys_notified s \<and> h < sys_next_handle s
        \<and> (\<forall>v pg. p = PrevValid v pg \<longrightarrow> pg < g)
        \<and> (\<exists>phase. sys_guards s owner = Some (g, phase)
             \<and> (\<forall>h' result. phase = GCommitting h' result \<longrightarrow> h' = h)))"

definition counters_ahead :: "'a slot_system \<Rightarrow> bool" where
  "counters_ahead s \<longleftrightarrow>
     (\<forall>owner. sys_guards s owner \<noteq> None \<longrightarrow> owner < csi_next_owner (sys_inner s))
     \<and> (\<forall>h \<in> sys_notified s. h < sys_next_handle s)"

definition waiters_served :: "'a slot_system \<Rightarrow> bool" where
  "waiters_served s \<longleftrightarrow>
     (\<forall>h \<in> sys_waiters s. h \<in> sys_notified s \<or> refreshing_handle (sys_state s) = Some h)"

definition leases_current :: "'a slot_system \<Rightarrow> bool" where
  "leases_current s \<longleftrightarrow>
     (\<forall>(g, v) \<in> sys_leases s. g < sys_generation s \<or> sys_content s = Some (g, v))
     \<and> (\<forall>g v v'. (g, v) \<in> sys_leases s \<longrightarrow> (g, v') \<in> sys_leases s \<longrightarrow> v = v')"

definition slot_inv :: "'a slot_system \<Rightarrow> bool" where
  "slot_inv s \<longleftrightarrow> refresh_owned s \<and> counters_ahead s \<and> waiters_served s \<and> leases_current s"

text \<open>Leases: a step may only add what the cell holds after it.\<close>

lemma leases_step:
  assumes "leases_current s" and step: "slot_step imax expires_at s s'"
    and added: "sys_leases s' \<subseteq> sys_leases s \<union> set_option (sys_content s')"
  shows "leases_current s'"
proof -
  have old: "g < sys_generation s' \<or> sys_content s' = Some (g, v)" if mem: "(g, v) \<in> sys_leases s" for g v
  proof -
    have "g < sys_generation s \<or> sys_content s = Some (g, v)"
      using assms(1) mem unfolding leases_current_def by blast
    then show ?thesis
    proof
      assume "g < sys_generation s"
      with slot_cell.step_gen [OF step] show ?thesis by (meson less_le_trans)
    next
      assume c: "sys_content s = Some (g, v)"
      then have "g = sys_generation s" by (rule slot_cell.content_gen)
      then show ?thesis
        using slot_cell.step_gen [OF step] slot_cell.step_content [OF step _ c] by fastforce
    qed
  qed
  have now: "g < sys_generation s' \<or> sys_content s' = Some (g, v)" if "(g, v) \<in> sys_leases s'" for g v
    using subsetD [OF added that] old [of g v] by (cases "sys_content s'") auto
  moreover have "v = v'" if m: "(g, v) \<in> sys_leases s'" "(g, v') \<in> sys_leases s'" for g v v'
  proof (cases "g < sys_generation s'")
    case True
    then have "sys_content s' \<noteq> Some (g, w)" for w
      using slot_cell.content_gen [of s' g w] by auto
    then have "(g, v) \<in> sys_leases s" "(g, v') \<in> sys_leases s"
      using subsetD [OF added m(1)] subsetD [OF added m(2)] by (auto simp: elem_set)
    with assms(1) show ?thesis by (auto simp: leases_current_def)
  next
    case False
    with now [OF m(1)] now [OF m(2)] show ?thesis by simp
  qed
  ultimately show ?thesis by (auto simp: leases_current_def)
qed

lemma slot_step_leases:
  assumes "slot_step imax expires_at s s'"
  shows "sys_leases s' \<subseteq> sys_leases s \<union> set_option (sys_content s')"
  using assms
proof (cases rule: slot_step.cases)
  case (lock_phase policy clock act inner)
  from get_or_refresh_lock_cases [OF lock_phase(2)] show ?thesis
    unfolding lock_phase(1)
    by (auto simp: leaves_state_def starts_refresh_def slot_system_defs sys_content_def cached_lease_def)
next
  case (store_phase owner g h result now r n inner)
  from commit_store_cases [OF store_phase(3)] show ?thesis
    unfolding store_phase(1)
    by (auto simp: slot_system_defs sys_content_def cached_lease_def)
next
  case (read_cached l)
  then show ?thesis by (auto simp: slot_system_defs sys_content_def)
qed (auto simp: slot_system_defs)

text \<open>Handles and guards: one lemma per critical section.\<close>

lemmas slot_inv_parts = refresh_owned_def counters_ahead_def waiters_served_def

definition handles_inv :: "'a slot_system \<Rightarrow> bool" where
  "handles_inv s \<longleftrightarrow> refresh_owned s \<and> counters_ahead s \<and> waiters_served s"

lemma handles_inv_leave:
  assumes inv: "handles_inv s" and leave: "leaves_state act (sys_inner s) inner"
  shows "handles_inv (after_lock act (s\<lparr>sys_inner := inner, sys_next_handle := Suc (sys_next_handle s)\<rparr>))"
proof -
  have "owner < csi_next_owner inner" if "sys_guards s owner \<noteq> None" for owner
    using inv leave that less_le_trans
    unfolding handles_inv_def counters_ahead_def leaves_state_def by blast
  then show ?thesis
    using assms
    by (auto simp: handles_inv_def slot_inv_parts leaves_state_def sys_state_def slot_system_defs
        less_Suc_eq)
qed

lemma handles_inv_start:
  assumes inv: "handles_inv s" and "starts_refresh act (sys_next_handle s) (sys_inner s) inner"
  shows "handles_inv (after_lock act (s\<lparr>sys_inner := inner, sys_next_handle := Suc (sys_next_handle s)\<rparr>))"
proof -
  obtain g p where act: "act = ActAcquire g (csi_next_owner (sys_inner s))
        \<or> (\<exists>v reason. act = ActRefresh v g (csi_next_owner (sys_inner s)) reason)"
    and g: "checked_add (slot_generation (csi_state (sys_inner s))) 1 = Some g"
    and owner: "csi_next_owner (sys_inner s) < csi_next_owner inner"
    and st: "csi_state inner = SlotRefreshing (sys_next_handle s) g (csi_next_owner (sys_inner s)) p"
    and prev: "\<forall>v pg. p = PrevValid v pg \<longrightarrow> csi_state (sys_inner s) = SlotValid v pg"
    and idle: "refreshing_handle (csi_state (sys_inner s)) = None"
    using assms(2) unfolding starts_refresh_def by blast
  have after: "after_lock act (s\<lparr>sys_inner := inner, sys_next_handle := Suc (sys_next_handle s)\<rparr>) =
      set_guard (csi_next_owner (sys_inner s)) (Some (g, GFetching))
        (s\<lparr>sys_inner := inner, sys_next_handle := Suc (sys_next_handle s)\<rparr>)"
    using act by (auto simp: after_lock_def)
  have pg: "pg < g" if "p = PrevValid v pg" for v pg
    using checked_add_gt [OF g] prev that by simp
  have old: "o' < csi_next_owner inner" if "sys_guards s o' \<noteq> None" for o'
    using inv that owner by (auto simp: handles_inv_def counters_ahead_def intro: less_trans)
  show ?thesis
    unfolding after
    using inv idle owner pg old
    by (auto simp: handles_inv_def slot_inv_parts set_guard_def sys_state_def st less_Suc_eq)
qed

lemma handles_inv_commit:
  assumes inv: "handles_inv s" and "sys_guards s owner = Some (g, GCommitting h result)"
    and "commit_store imax now g owner h result (sys_inner s) = (r, n, inner)"
  shows "handles_inv (after_store owner g r (locked_update n inner s))"
  using commit_store_cases [OF assms(3)]
proof (elim disjE)
  assume "inner = sys_inner s \<and> n = None \<and> (r = Inr StaleOwner \<and> \<not> owns_refresh owner g (sys_inner s)
             \<or> (\<exists>e. r = Inl e))"
  then show ?thesis
    using inv assms(2)
    by (fastforce simp: handles_inv_def slot_inv_parts sys_state_def slot_system_defs owns_refresh_iff)
next
  assume st: "owns_refresh owner g (sys_inner s) \<and> n = Some h
       \<and> csi_next_owner inner = csi_next_owner (sys_inner s)
       \<and> ((\<exists>v. result = Inr v \<and> csi_state inner = SlotValid v g
              \<and> r = Inr (Stored \<lparr>cl_value = v, cl_generation = g\<rparr>))
          \<or> (\<exists>e ra. result = Inl e \<and> csi_state inner = SlotFailed g e ra \<and> r = Inr (CommitFailed e)))"
  then obtain p h' where r: "csi_state (sys_inner s) = SlotRefreshing h' g owner p"
    by (auto simp: owns_refresh_iff)
  then have "h' = h" "h < sys_next_handle s"
    using inv assms(2) by (auto simp: handles_inv_def refresh_owned_def sys_state_def)
  with st r inv show ?thesis
    by (auto simp: handles_inv_def slot_inv_parts sys_state_def slot_system_defs refreshing_handle_def
        split: if_splits)
qed

lemma handles_inv_drop:
  assumes inv: "handles_inv s" and "guard_drop False owner (sys_inner s) = (n, inner)"
  shows "handles_inv (set_guard owner None (locked_update n inner s))"
  using guard_drop_cases [OF assms(2)]
proof (elim disjE exE conjE)
  assume "inner = sys_inner s" "n = None"
    "\<forall>h g p. csi_state (sys_inner s) \<noteq> SlotRefreshing h g owner p"
  with inv show ?thesis
    by (auto simp: handles_inv_def slot_inv_parts sys_state_def slot_system_defs)
next
  fix h g p
  assume st: "csi_state (sys_inner s) = SlotRefreshing h g owner p"
    and n: "n = Some h" and inner: "inner = sys_inner s\<lparr>csi_state := into_state_at p g\<rparr>"
  have idle: "into_state_at p g \<noteq> SlotRefreshing a b c d" for a b c d
    by (cases p) auto
  show ?thesis
    using inv st idle unfolding n inner
    by (auto simp: handles_inv_def slot_inv_parts sys_state_def slot_system_defs refreshing_handle_def)
qed

lemma handles_inv_replace:
  assumes inv: "handles_inv s" and n: "n = refreshing_handle (csi_state (sys_inner s))"
    and "refreshing_handle st = None"
  shows "handles_inv (locked_update n (sys_inner s\<lparr>csi_state := st\<rparr>) s)"
proof -
  have "st \<noteq> SlotRefreshing a b c d" for a b c d
    using assms(3) by (auto simp: refreshing_handle_def)
  then show ?thesis
    using inv unfolding n
    by (auto simp: handles_inv_def slot_inv_parts sys_state_def slot_system_defs refreshing_handle_def
        split: credential_slot_state.splits)
qed

lemma handles_inv_invalidate:
  assumes inv: "handles_inv s" and "invalidate_generation_state expected (sys_inner s) = (q, inner)"
  shows "handles_inv (s\<lparr>sys_inner := inner\<rparr>)"
  using invalidate_cases [OF assms(2)] inv
  by (auto simp: handles_inv_def slot_inv_parts sys_state_def refreshing_handle_def)

lemma handles_inv_step:
  assumes "handles_inv s" and "slot_step imax expires_at s s'"
  shows "handles_inv s'"
  using assms(2)
proof (cases rule: slot_step.cases)
  case (lock_phase policy clock act inner)
  then show ?thesis
    using get_or_refresh_lock_cases [OF lock_phase(2)] handles_inv_leave handles_inv_start assms(1)
    by blast
next
  case (check_stale owner g)
  then have "sys_state s \<noteq> SlotRefreshing h g owner p" for h p
    by (auto simp: commit_check_def sys_state_def)
  with check_stale assms(1) show ?thesis
    by (fastforce simp: handles_inv_def slot_inv_parts sys_state_def slot_system_defs)
next
  case (check_owned owner g h result)
  then show ?thesis using assms(1)
    by (auto simp: handles_inv_def slot_inv_parts sys_state_def slot_system_defs commit_check_Some)
next
  case (store_phase owner g h result now r n inner)
  then show ?thesis using handles_inv_commit assms(1) by blast
next
  case (drop_guard owner g phase n inner)
  then show ?thesis using handles_inv_drop assms(1) by blast
next
  case (manual_set v r n inner)
  then show ?thesis
    using set_manual_inner_cases [OF manual_set(2)] assms(1)
      handles_inv_replace [OF assms(1), of n "SlotValid v g" for g]
    by (auto simp: refreshing_handle_def locked_update_def)
next
  case (manual_clear r n inner)
  then show ?thesis
    using clear_manual_inner_cases [OF manual_clear(2)] assms(1)
      handles_inv_replace [OF assms(1), of n "SlotEmpty g" for g]
    by (auto simp: refreshing_handle_def locked_update_def)
next
  case (invalidate expected q inner)
  then show ?thesis using handles_inv_invalidate assms(1) by blast
next
  case (read_cached l)
  then show ?thesis using assms(1)
    by (auto simp: handles_inv_def slot_inv_parts sys_state_def slot_system_defs)
qed

interpretation slot_system: invariant_system slot_init "slot_step imax expires_at" slot_inv
proof unfold_locales
  show "slot_init s \<Longrightarrow> slot_inv s" for s :: "'a slot_system"
    by (auto simp: slot_init_def slot_inv_def slot_inv_parts leases_current_def sys_state_def)
next
  fix s s' :: "'a slot_system"
  assume "slot_inv s" and step: "slot_step imax expires_at s s'"
  then show "slot_inv s'"
    using handles_inv_step [OF _ step] leases_step [OF _ step slot_step_leases [OF step]]
    by (auto simp: slot_inv_def handles_inv_def)
qed

section \<open>Superseded refreshes\<close>

definition superseded :: "refresh_owner_id \<Rightarrow> 'a slot_system \<Rightarrow> bool" where
  "superseded owner s \<longleftrightarrow>
     owner < csi_next_owner (sys_inner s)
     \<and> (\<forall>h g p. sys_state s \<noteq> SlotRefreshing h g owner p)"

lemma superseded_step:
  assumes "superseded owner s" and "slot_step imax expires_at s s'"
  shows "superseded owner s'"
  using assms(2)
proof (cases rule: slot_step.cases)
  case (lock_phase policy clock act inner)
  from get_or_refresh_lock_cases [OF lock_phase(2)] assms(1) show ?thesis
    unfolding lock_phase(1)
    by (auto simp: superseded_def sys_state_def leaves_state_def starts_refresh_def dest: sym)
next
  case (store_phase own g h result now r n inner)
  from commit_store_cases [OF store_phase(3)] assms(1) show ?thesis
    unfolding store_phase(1) by (auto simp: superseded_def sys_state_def)
next
  case (drop_guard own g phase n inner)
  have idle: "into_state_at p k \<noteq> SlotRefreshing a b c d" for p k a b c d
    by (cases p) auto
  from guard_drop_cases [OF drop_guard(4)] assms(1) show ?thesis
    unfolding drop_guard(1) by (auto simp: superseded_def sys_state_def idle)
next
  case (manual_set v r n inner)
  from set_manual_inner_cases [OF manual_set(2)] assms(1) show ?thesis
    unfolding manual_set(1) by (auto simp: superseded_def sys_state_def)
next
  case (manual_clear r n inner)
  from clear_manual_inner_cases [OF manual_clear(2)] assms(1) show ?thesis
    unfolding manual_clear(1) by (auto simp: superseded_def sys_state_def)
next
  case (invalidate expected q inner)
  from invalidate_cases [OF invalidate(2)] assms(1) show ?thesis
    unfolding invalidate(1) by (auto simp: superseded_def sys_state_def)
qed (use assms(1) in \<open>auto simp: superseded_def sys_state_def\<close>)

interpretation superseding:
  invariant_system "superseded owner" "slot_step imax expires_at" "superseded owner"
  by unfold_locales (auto intro: superseded_step)

lemma superseded_commit:
  assumes "superseded owner s"
  shows "commit_check g owner (sys_inner s) = None"
    and "commit_store imax now g owner h result (sys_inner s) = (Inr StaleOwner, None, sys_inner s)"
    and "guard_drop False owner (sys_inner s) = (None, sys_inner s)"
  using assms
  by (auto simp: superseded_def sys_state_def commit_check_def commit_store_def owns_refresh_def
      guard_drop_def split: credential_slot_state.splits)

section \<open>Properties\<close>

text \<open>
  Property C4: a lease generation identifies one credential value. However the tasks of a slot
  interleave, two leases that were ever handed out with the same generation carry the same value,
  and no lease carries a generation beyond the slot's current one.
\<close>

theorem lease_generation_unique:
  assumes "slot_init s0" and "(slot_step imax expires_at)\<^sup>*\<^sup>* s0 s"
    and "(g, v) \<in> sys_leases s"
  shows "g \<le> sys_generation s \<and> ((g, v') \<in> sys_leases s \<longrightarrow> v' = v)"
proof -
  have inv: "leases_current s"
    using slot_system.reachable_inv [OF assms(1,2)] by (simp add: slot_inv_def)
  then have "g < sys_generation s \<or> sys_content s = Some (g, v)"
    using assms(3) by (auto simp: leases_current_def)
  then have "g \<le> sys_generation s"
    using slot_cell.content_gen [of s g v] by auto
  with inv assms(3) show ?thesis by (auto simp: leases_current_def)
qed

text \<open>
  Property C5: no wake-up is lost. A task that waits on a handle nobody has notified waits for a
  refresh that is still in progress and whose guard is alive; dropping that guard notifies the
  handle, and so does storing the result, unless storing it fails, in which case the guard stays
  armed and is dropped.
\<close>

theorem waiter_has_live_refresh:
  assumes "slot_init s0" and "(slot_step imax expires_at)\<^sup>*\<^sup>* s0 s"
    and "h \<in> sys_waiters s" and "h \<notin> sys_notified s"
  shows "\<exists>g owner p phase. sys_state s = SlotRefreshing h g owner p
    \<and> sys_guards s owner = Some (g, phase)
    \<and> fst (guard_drop False owner (sys_inner s)) = Some h
    \<and> (\<forall>now h' result r n inner. phase = GCommitting h' result \<longrightarrow>
         commit_store imax now g owner h' result (sys_inner s) = (r, n, inner) \<longrightarrow> n = Some h \<or> isl r)"
proof -
  have inv: "handles_inv s"
    using slot_system.reachable_inv [OF assms(1,2)] by (simp add: slot_inv_def handles_inv_def)
  then have "refreshing_handle (sys_state s) = Some h"
    using assms(3,4) by (auto simp: handles_inv_def waiters_served_def)
  then obtain g owner p where st: "sys_state s = SlotRefreshing h g owner p"
    by (auto simp: refreshing_handle_def split: credential_slot_state.splits)
  then obtain phase where guard: "sys_guards s owner = Some (g, phase)"
    and same: "\<forall>h' result. phase = GCommitting h' result \<longrightarrow> h' = h"
    using inv by (auto simp: handles_inv_def refresh_owned_def)
  have "n = Some h \<or> isl r" if "phase = GCommitting h' result"
    "commit_store imax now g owner h' result (sys_inner s) = (r, n, inner)" for now h' result r n inner
    using commit_store_cases [OF that(2)] st same that(1)
    by (auto simp: owns_refresh_iff sys_state_def)
  moreover have "fst (guard_drop False owner (sys_inner s)) = Some h"
    using st by (simp add: guard_drop_def sys_state_def)
  ultimately show ?thesis using st guard by blast
qed

text \<open>
  Property C6: invalidation is exact. Invalidating a generation that was handed out means no task
  is ever handed that generation again, whatever happens afterwards; and if the slot already holds
  a newer credential, that credential is left as it is.
\<close>

theorem invalidated_generation_never_returns:
  assumes "slot_init s0" and "(slot_step imax expires_at)\<^sup>*\<^sup>* s0 s" and "(g, v) \<in> sys_leases s"
    and "invalidate_generation_state (Some g) (sys_inner s) = (Inr q, inner)"
    and "(slot_step imax expires_at)\<^sup>*\<^sup>* (s\<lparr>sys_inner := inner\<rparr>) s'"
  shows "cached_lease (sys_inner s') \<noteq> Some \<lparr>cl_value = w, cl_generation = g\<rparr>
    \<and> (g < sys_generation s \<longrightarrow> cached_lease inner = cached_lease (sys_inner s))"
proof -
  have inv: "slot_inv s" using slot_system.reachable_inv [OF assms(1,2)] .
  then have g: "g < sys_generation s \<or> sys_content s = Some (g, v)"
    using assms(3) by (auto simp: slot_inv_def leases_current_def)
  have "g < sys_generation (s\<lparr>sys_inner := inner\<rparr>)"
  proof (cases "sys_content s = Some (g, v)")
    case True
    then have st: "csi_state (sys_inner s) = SlotValid v g"
      by (simp add: sys_content_iff sys_state_def)
    then obtain g' where "checked_add g 1 = Some g'" "csi_state inner = SlotEmpty g'"
      using assms(4) by (auto simp: invalidate_generation_state_def matches_generation_def Let_def
          split: option.splits)
    then show ?thesis
      using checked_add_gt by (simp add: sys_generation_def sys_state_def)
  next
    case False
    then show ?thesis
      using g slot_cell.step_gen [OF slot_step.invalidate [OF assms(4)]] less_le_trans by blast
  qed
  then have "sys_content s' \<noteq> Some (g, w)"
    by (rule slot_cell.outdated_never_returns [OF _ assms(5)])
  moreover have "cached_lease inner = cached_lease (sys_inner s)" if "g < sys_generation s"
    using invalidate_cases [OF assms(4)] that
    by (auto simp: cached_lease_def matches_generation_def sys_generation_def sys_state_def)
  ultimately show ?thesis
    by (auto simp: sys_content_def lease_pair_def)
qed

text \<open>
  Property C7: a superseded refresh never overwrites the slot. Once the slot is no longer
  refreshing for an owner (a manual replacement or a clear came in between), that owner's result
  and the drop of its guard change nothing, at any later time: both phases of the commit report a
  stale owner.
\<close>

theorem superseded_refresh_never_commits:
  assumes "superseded owner s" and "(slot_step imax expires_at)\<^sup>*\<^sup>* s s'"
  shows "commit_slot_result imax now between g owner result (sys_inner s') =
      (Inr StaleOwner, True, None, sys_inner s')
    \<and> commit_store imax now g owner h result (sys_inner s') = (Inr StaleOwner, None, sys_inner s')
    \<and> guard_drop False owner (sys_inner s') = (None, sys_inner s')"
  using superseded_commit [OF superseding.reachable_inv [OF assms]]
  by (simp add: commit_slot_result_def)

text \<open>
  Manual replacement supersedes a running refresh at once: after a successful
  \<open>set_manual\<close> or \<open>clear_manual\<close> the generation has grown, the waiters of the refresh are
  notified, the value is the one that was set, and the refresh's owner is superseded.
\<close>

theorem manual_replacement_supersedes:
  assumes "sys_state s = SlotRefreshing h g owner p" and "slot_inv s"
    and "set_manual_inner v (sys_inner s) = (Inr (), n, inner)"
    and "clear_manual_inner (sys_inner s) = (Inr (), m, cleared)"
  shows "n = Some h \<and> m = Some h
    \<and> (\<exists>g'. g < g' \<and> csi_state inner = SlotValid v g' \<and> csi_state cleared = SlotEmpty g')
    \<and> superseded owner (locked_update n inner s) \<and> superseded owner (locked_update m cleared s)"
proof -
  have "owner < csi_next_owner (sys_inner s)"
    using assms(1,2) by (auto simp: slot_inv_def refresh_owned_def counters_ahead_def)
  moreover obtain g' where "checked_add g 1 = Some g'"
    using assms(1,3) by (auto simp: set_manual_inner_def next_generation_Inr sys_state_def split: sum.splits)
  ultimately show ?thesis
    using assms(1,3,4) checked_add_gt
    by (auto simp: set_manual_inner_def clear_manual_inner_def next_generation_def ok_or_def
        sys_state_def refreshing_handle_def superseded_def)
qed

text \<open>
  A cancelled or failed refresh rolls the slot forward. Dropping the guard of the
  refresh in progress leaves the slot idle at the refresh's generation, with the value it had
  before (unless that value was invalidated meanwhile) and with the waiters notified.
\<close>

theorem dropped_refresh_restores:
  assumes "sys_state s = SlotRefreshing h g owner p"
    and "guard_drop False owner (sys_inner s) = (n, inner)"
  shows "n = Some h \<and> slot_generation (csi_state inner) = g
    \<and> refreshing_handle (csi_state inner) = None
    \<and> cached_lease inner =
        (case p of PrevValid v _ \<Rightarrow> Some \<lparr>cl_value = v, cl_generation = g\<rparr> | _ \<Rightarrow> None)"
  using assms
  by (cases p) (auto simp: guard_drop_def sys_state_def cached_lease_def refreshing_handle_def)

definition undisturbed :: "'a slot_world \<Rightarrow> bool" where
  "undisturbed w \<longleftrightarrow> (\<forall>i. sw_fetch w i = id \<and> sw_between w i = id \<and> sw_drop w i = id)"

lemma finish_refresh_quiet:
  assumes "undisturbed w" and "csi_state inner = SlotRefreshing h g owner p"
  shows "\<exists>r ns inner'. finish_refresh imax w i g owner result inner = (RoundReturn r, ns, inner')
    \<and> ns = [h] \<and> refreshing_handle (csi_state inner') = None
    \<and> (\<forall>l. r = Inr l \<longrightarrow> cached_lease inner' = Some l \<and> result = Inr (cl_value l) \<and> cl_generation l = g)"
proof -
  have check: "commit_check g owner inner = Some h"
    using assms(2) by (simp add: commit_check_def)
  have w: "sw_between w i = id" "sw_drop w i = id"
    using assms(1) by (simp_all add: undisturbed_def)
  obtain r n inner' where store:
    "commit_store imax (sw_commit_clock w i) g owner h result inner = (r, n, inner')"
    by (metis prod_cases3)
  show ?thesis
    using commit_store_cases [OF store] assms(2) check store w
    by (auto simp: finish_refresh_def commit_slot_result_def owns_refresh_iff List.map_filter_simps
        guard_drop_def cached_lease_def refreshing_handle_def [of "SlotValid _ _"]
        refreshing_handle_def [of "SlotFailed _ _ _"])
qed

lemma quiet_round:
  assumes "undisturbed w" and "refreshing_handle (csi_state inner) = None"
  shows "\<exists>r ns inner'. get_or_refresh_loop 1 imax expires_at policy w i inner = Some (r, ns, inner')
    \<and> refreshing_handle (csi_state inner') = None
    \<and> (\<forall>l. r = Inr l \<longrightarrow> cached_lease inner' = Some l
         \<and> (cached_lease inner = Some l
            \<or> slot_generation (csi_state inner) < cl_generation l
              \<and> (sw_acquire w i = Inr (cl_value l)
                 \<or> (\<exists>v reason. sw_refresh w i v reason = Inr (cl_value l)))))"
proof -
  obtain act inner1 where lock:
    "get_or_refresh_lock imax expires_at policy (sw_clock w i) (sw_handle w i) inner = (act, inner1)"
    by fastforce
  have fetch: "sw_fetch w i = id" using assms(1) by (simp add: undisturbed_def)
  from get_or_refresh_lock_cases [OF lock] show ?thesis
  proof
    assume "leaves_state act inner inner1"
    with assms(2) lock show ?thesis
      by (auto simp: leaves_state_def get_or_refresh_round_def cached_lease_def)
  next
    assume "starts_refresh act (sw_handle w i) inner inner1"
    then obtain g p where act: "act = ActAcquire g (csi_next_owner inner)
          \<or> (\<exists>v reason. act = ActRefresh v g (csi_next_owner inner) reason)"
      and g: "checked_add (slot_generation (csi_state inner)) 1 = Some g"
      and st: "csi_state inner1 = SlotRefreshing (sw_handle w i) g (csi_next_owner inner) p"
      unfolding starts_refresh_def by blast
    note quiet = finish_refresh_quiet [OF assms(1) st, where imax = imax and i = i]
    from act show ?thesis
    proof (elim disjE exE)
      assume "act = ActAcquire g (csi_next_owner inner)"
      with quiet [of "sw_acquire w i"] lock fetch checked_add_gt [OF g] show ?thesis
        by (auto simp: get_or_refresh_round_def)
    next
      fix v reason
      assume "act = ActRefresh v g (csi_next_owner inner) reason"
      with quiet [of "sw_refresh w i v reason"] lock fetch checked_add_gt [OF g] show ?thesis
        by (auto simp: get_or_refresh_round_def)
    qed
  qed
qed

text \<open>
  Left alone, \<open>get_or_refresh\<close> on an idle slot finishes in one round, whatever the
  provider answers: it leaves no refresh in progress, the lease it returns is the one the slot
  caches, and it is either the lease that was cached before or one of a newer generation that
  carries what the provider returned.
\<close>

theorem get_or_refresh_quiet:
  assumes "undisturbed w" and "refreshing_handle (csi_state inner) = None"
  shows "\<exists>r ns inner'. get_or_refresh_loop 1 imax expires_at policy w i inner = Some (r, ns, inner')
    \<and> refreshing_handle (csi_state inner') = None
    \<and> (\<forall>l. r = Inr l \<longrightarrow> cached_lease inner' = Some l
         \<and> (cached_lease inner = Some l
            \<or> slot_generation (csi_state inner) < cl_generation l
              \<and> (sw_acquire w i = Inr (cl_value l)
                 \<or> (\<exists>v reason. sw_refresh w i v reason = Inr (cl_value l)))))"
  using quiet_round [OF assms] .

section \<open>Sample runs\<close>

text \<open>One task starts to acquire, a second one waits; then the first stores its result.\<close>

definition cred_empty :: "nat slot_system" where
  "cred_empty =
     \<lparr>sys_inner = \<lparr>csi_state = SlotEmpty 0, csi_next_owner = 1\<rparr>, sys_guards = Map.empty,
      sys_waiters = {}, sys_notified = {}, sys_next_handle = 0, sys_leases = {}\<rparr>"

definition cred_refreshing :: "nat credential_slot_inner" where
  "cred_refreshing = \<lparr>csi_state = SlotRefreshing 0 1 1 PrevEmpty, csi_next_owner = 2\<rparr>"

definition cred_acquiring :: "nat slot_system" where
  "cred_acquiring =
     \<lparr>sys_inner = cred_refreshing, sys_guards = [1 \<mapsto> (1, GFetching)],
      sys_waiters = {}, sys_notified = {}, sys_next_handle = 1, sys_leases = {}\<rparr>"

definition cred_waiting :: "nat slot_system" where
  "cred_waiting = cred_acquiring\<lparr>sys_waiters := {0}, sys_next_handle := 2\<rparr>"

definition cred_stored :: "nat slot_system" where
  "cred_stored =
     \<lparr>sys_inner = \<lparr>csi_state = SlotValid 7 1, csi_next_owner = 2\<rparr>, sys_guards = Map.empty,
      sys_waiters = {0}, sys_notified = {0}, sys_next_handle = 2, sys_leases = {(1, 7)}\<rparr>"

lemma cred_slot_init: "slot_init cred_empty"
  by (simp add: slot_init_def cred_empty_def)

lemma cred_one_add: "checked_add (0 :: u64) 1 = Some 1" "checked_add (1 :: u64) 1 = Some 2"
  by (simp_all add: checked_add_def)

lemma cred_step_acquire: "slot_step 1000 (\<lambda>_. None) cred_empty cred_acquiring"
proof -
  have "get_or_refresh_lock 1000 (\<lambda>_. None) auth_step_policy_default (\<lambda>_. 0) (sys_next_handle cred_empty)
      (sys_inner cred_empty) = (ActAcquire 1 1, cred_refreshing)"
    by (simp add: get_or_refresh_lock_def cred_empty_def lock_empty_def next_refresh_owner_def
        next_generation_def cred_one_add ok_or_def begin_refresh_def cred_refreshing_def)
  from slot_step.lock_phase [OF this] show ?thesis
    by (simp add: after_lock_def set_guard_def cred_empty_def cred_acquiring_def)
qed

lemma cred_step_wait: "slot_step 1000 (\<lambda>_. None) cred_acquiring cred_waiting"
proof -
  have "get_or_refresh_lock 1000 (\<lambda>_. None) auth_step_policy_default (\<lambda>_. 0)
      (sys_next_handle cred_acquiring) (sys_inner cred_acquiring) = (ActWait 0, cred_refreshing)"
    by (simp add: get_or_refresh_lock_def cred_acquiring_def cred_refreshing_def
        lock_refreshing_def)
  from slot_step.lock_phase [OF this] show ?thesis
    by (simp add: after_lock_def cred_acquiring_def cred_waiting_def numeral_2_eq_2)
qed

lemma cred_steps_waiting: "(slot_step 1000 (\<lambda>_. None))\<^sup>*\<^sup>* cred_empty cred_waiting"
  using cred_step_acquire cred_step_wait by auto

lemma cred_steps_stored: "(slot_step 1000 (\<lambda>_. None))\<^sup>*\<^sup>* cred_empty cred_stored"
proof -
  let ?mid = "set_guard 1 (Some (1, GCommitting 0 (Inr 7))) cred_waiting"
  have "slot_step 1000 (\<lambda>_. None) cred_waiting ?mid"
    by (rule slot_step.check_owned)
       (simp_all add: cred_waiting_def cred_acquiring_def cred_refreshing_def commit_check_def)
  moreover have "slot_step 1000 (\<lambda>_. None) ?mid
      (after_store 1 1 (Inr (Stored \<lparr>cl_value = 7, cl_generation = 1\<rparr>))
         (locked_update (Some 0) \<lparr>csi_state = SlotValid 7 1, csi_next_owner = 2\<rparr> ?mid))"
    by (rule slot_step.store_phase [where h = 0 and result = "Inr 7" and now = 0])
       (simp_all add: set_guard_def cred_waiting_def cred_acquiring_def cred_refreshing_def
          commit_store_def owns_refresh_def)
  moreover have "after_store 1 1 (Inr (Stored \<lparr>cl_value = 7, cl_generation = 1\<rparr>))
         (locked_update (Some 0) \<lparr>csi_state = SlotValid 7 1, csi_next_owner = 2\<rparr> ?mid) = cred_stored"
    by (simp add: slot_system_defs cred_waiting_def cred_acquiring_def cred_stored_def)
  ultimately show ?thesis
    using cred_steps_waiting by auto
qed

theorem lease_generation_unique_witness:
  "(1, 7) \<in> sys_leases cred_stored \<and> 1 \<le> sys_generation cred_stored"
proof -
  have "(1, 7) \<in> sys_leases cred_stored" by (simp add: cred_stored_def)
  with lease_generation_unique [OF cred_slot_init cred_steps_stored this, of 7] show ?thesis by simp
qed

theorem waiter_has_live_refresh_witness:
  "\<exists>g owner p phase. sys_state cred_waiting = SlotRefreshing 0 g owner p
    \<and> sys_guards cred_waiting owner = Some (g, phase)
    \<and> fst (guard_drop False owner (sys_inner cred_waiting)) = Some 0"
proof -
  have "0 \<in> sys_waiters cred_waiting" "0 \<notin> sys_notified cred_waiting"
    by (simp_all add: cred_waiting_def cred_acquiring_def)
  from waiter_has_live_refresh [OF cred_slot_init cred_steps_waiting this]
  show ?thesis by blast
qed

lemma cred_invalidated:
  "invalidate_generation_state (Some 1) (sys_inner cred_stored) =
     (Inr (Some 7, Some 1), \<lparr>csi_state = SlotEmpty 2, csi_next_owner = 2\<rparr>)"
  by (simp add: invalidate_generation_state_def cred_stored_def matches_generation_def cred_one_add)

theorem invalidated_generation_never_returns_witness:
  "cached_lease \<lparr>csi_state = SlotEmpty 2, csi_next_owner = 2\<rparr>
     \<noteq> Some \<lparr>cl_value = (7 :: nat), cl_generation = 1\<rparr>"
proof -
  have "(1, 7) \<in> sys_leases cred_stored" by (simp add: cred_stored_def)
  from invalidated_generation_never_returns
      [OF cred_slot_init cred_steps_stored this cred_invalidated rtranclp.rtrancl_refl]
  show ?thesis by simp
qed

theorem superseded_refresh_never_commits_witness:
  "guard_drop False 1 (sys_inner cred_stored) = (None, sys_inner cred_stored)"
proof -
  have "superseded 1 cred_stored"
    by (simp add: superseded_def cred_stored_def sys_state_def)
  from superseded_refresh_never_commits [OF this rtranclp.rtrancl_refl] show ?thesis by simp
qed

theorem manual_replacement_supersedes_witness:
  "superseded 1 (locked_update (Some 0) \<lparr>csi_state = SlotValid 9 2, csi_next_owner = 2\<rparr> cred_waiting)"
proof -
  have st: "sys_state cred_waiting = SlotRefreshing 0 1 1 PrevEmpty"
    by (simp add: sys_state_def cred_waiting_def cred_acquiring_def cred_refreshing_def)
  have inv: "slot_inv cred_waiting"
    using slot_system.reachable_inv [OF cred_slot_init cred_steps_waiting] .
  have s: "set_manual_inner 9 (sys_inner cred_waiting) =
      (Inr (), Some 0, \<lparr>csi_state = SlotValid 9 2, csi_next_owner = 2\<rparr>)"
    and c: "clear_manual_inner (sys_inner cred_waiting) =
      (Inr (), Some 0, \<lparr>csi_state = SlotEmpty 2, csi_next_owner = 2\<rparr>)"
    by (simp_all add: set_manual_inner_def clear_manual_inner_def next_generation_def ok_or_def
        refreshing_handle_def cred_waiting_def cred_acquiring_def cred_refreshing_def
        cred_one_add)
  from manual_replacement_supersedes [OF st inv s c] show ?thesis by blast
qed

theorem dropped_refresh_restores_witness:
  "slot_generation (csi_state (snd (guard_drop False 1 (sys_inner cred_waiting)))) = 1"
proof -
  have st: "sys_state cred_waiting = SlotRefreshing 0 1 1 PrevEmpty"
    by (simp add: sys_state_def cred_waiting_def cred_acquiring_def cred_refreshing_def)
  from dropped_refresh_restores [OF st surjective_pairing] show ?thesis by simp
qed

definition cred_world :: "nat slot_world" where
  "cred_world =
     \<lparr>sw_clock = (\<lambda>_ _. 0), sw_commit_clock = (\<lambda>_. 0), sw_handle = (\<lambda>i. i), sw_acquire = (\<lambda>_. Inr 7),
      sw_refresh = (\<lambda>_ v _. Inr (Suc v)), sw_wait = (\<lambda>_. id), sw_fetch = (\<lambda>_. id),
      sw_between = (\<lambda>_. id), sw_drop = (\<lambda>_. id)\<rparr>"

theorem get_or_refresh_quiet_witness:
  "\<exists>r ns inner'. get_or_refresh_loop 1 1000 (\<lambda>_. None) auth_step_policy_default cred_world 0
     (sys_inner cred_empty) = Some (r, ns, inner') \<and> refreshing_handle (csi_state inner') = None"
proof -
  have "undisturbed cred_world" by (simp add: undisturbed_def cred_world_def)
  moreover have "refreshing_handle (csi_state (sys_inner cred_empty)) = None"
    by (simp add: refreshing_handle_def cred_empty_def)
  ultimately show ?thesis
    using get_or_refresh_quiet [of cred_world "sys_inner cred_empty" 1000 "\<lambda>_. None"
        auth_step_policy_default 0] by blast
qed

end
