(* ===== verification/HeaderRules.thy ===== *)
theory HeaderRules
  imports RustStr
begin

text \<open>
  Which header names belong to whom, and which values are shown (\<open>header_ownership.rs\<close>,
  \<open>redaction.rs\<close> and the sanitised views of \<open>debug.rs\<close>). A \<open>HeaderName\<close> is its lower-case text.
  \<open>http::HeaderMap\<close> and \<open>url::Url\<close> are parameters: a record of the operations the code calls, whose
  documented behaviour is \<open>header_map_laws\<close>.
\<close>

section \<open>Header maps\<close>

type_synonym header_name = string

record ('h, 'v) header_map_ops =
  hmo_new :: 'h
  hmo_append :: "'h \<Rightarrow> header_name \<Rightarrow> 'v \<Rightarrow> 'h"
  hmo_insert :: "'h \<Rightarrow> header_name \<Rightarrow> 'v \<Rightarrow> 'h"
  hmo_remove :: "'h \<Rightarrow> header_name \<Rightarrow> 'h"
  hmo_iter :: "'h \<Rightarrow> (header_name \<times> 'v) list"
  hmo_get :: "'h \<Rightarrow> header_name \<Rightarrow> 'v option"
  hmo_contains_key :: "'h \<Rightarrow> header_name \<Rightarrow> bool"
  hmo_keys :: "'h \<Rightarrow> header_name list"

definition header_values :: "('h, 'v) header_map_ops \<Rightarrow> 'h \<Rightarrow> header_name \<Rightarrow> 'v list" where
  "header_values ops h name = map snd (filter (\<lambda>e. fst e = name) (hmo_iter ops h))"

definition header_map_laws :: "('h, 'v) header_map_ops \<Rightarrow> bool" where
  "header_map_laws ops \<longleftrightarrow>
     hmo_iter ops (hmo_new ops) = []
     \<and> (\<forall>h k v n. header_values ops (hmo_append ops h k v) n =
                    header_values ops h n @ (if n = k then [v] else []))
     \<and> (\<forall>h k v n. header_values ops (hmo_insert ops h k v) n =
                    (if n = k then [v] else header_values ops h n))
     \<and> (\<forall>h k n. header_values ops (hmo_remove ops h k) n =
                    (if n = k then [] else header_values ops h n))
     \<and> (\<forall>h n. hmo_get ops h n = map_of (hmo_iter ops h) n)
     \<and> (\<forall>h n. hmo_contains_key ops h n \<longleftrightarrow> n \<in> fst ` set (hmo_iter ops h))
     \<and> (\<forall>h. set (hmo_keys ops h) = fst ` set (hmo_iter ops h))"

lemma header_laws:
  assumes "header_map_laws ops"
  shows header_values_new: "header_values ops (hmo_new ops) n = []"
    and header_values_append: "header_values ops (hmo_append ops h k v) n =
      header_values ops h n @ (if n = k then [v] else [])"
    and header_values_insert: "header_values ops (hmo_insert ops h k v) n =
      (if n = k then [v] else header_values ops h n)"
    and header_values_remove: "header_values ops (hmo_remove ops h k) n =
      (if n = k then [] else header_values ops h n)"
    and header_get: "hmo_get ops h n = map_of (hmo_iter ops h) n"
    and header_contains_iter: "hmo_contains_key ops h n \<longleftrightarrow> n \<in> fst ` set (hmo_iter ops h)"
    and header_keys_iter: "set (hmo_keys ops h) = fst ` set (hmo_iter ops h)"
  using assms unfolding header_map_laws_def header_values_def by simp_all

lemma header_iter_values: "n \<in> fst ` set (hmo_iter ops h) \<longleftrightarrow> header_values ops h n \<noteq> []"
  by (auto simp: header_values_def filter_empty_conv)

section \<open>Name classes\<close>

definition matches_ignore_ascii_case :: "string \<Rightarrow> string list \<Rightarrow> bool" where
  "matches_ignore_ascii_case name candidates = list_ex (eq_ignore_ascii_case name) candidates"

definition windows :: "nat \<Rightarrow> 'a list \<Rightarrow> 'a list list" where
  "windows n xs = map (\<lambda>i. take n (drop i xs)) [0..<length xs + 1 - n]"

definition bytes_match :: "string \<Rightarrow> string \<Rightarrow> bool" where
  "bytes_match window needle = list_all (\<lambda>(a, b). ascii_lower a = ascii_lower b) (zip window needle)"

definition contains_ignore_ascii_case :: "string \<Rightarrow> string \<Rightarrow> bool" where
  "contains_ignore_ascii_case haystack needle =
     (if needle = [] then True
      else if length haystack < length needle then False
      else list_ex (\<lambda>window. bytes_match window needle) (windows (length needle) haystack))"

definition ends_with_ignore_ascii_case :: "string \<Rightarrow> string \<Rightarrow> bool" where
  "ends_with_ignore_ascii_case haystack needle \<longleftrightarrow>
     length needle \<le> length haystack
     \<and> bytes_match (drop (length haystack - length needle) haystack) needle"

definition is_sensitive_name :: "string \<Rightarrow> bool" where
  "is_sensitive_name name \<longleftrightarrow>
     matches_ignore_ascii_case name
       [''authorization'', ''proxy-authorization'', ''cookie'', ''set-cookie'', ''www-authenticate'',
        ''x-api-key'', ''x-api-token'', ''x-auth-token'', ''x-access-token'', ''x-refresh-token'',
        ''x-session-token'', ''access_token'', ''refresh_token'', ''api_key'', ''apikey'', ''key'',
        ''token'', ''secret'', ''password'', ''auth'']
     \<or> contains_ignore_ascii_case name ''token''
     \<or> contains_ignore_ascii_case name ''secret''
     \<or> contains_ignore_ascii_case name ''api-key''
     \<or> contains_ignore_ascii_case name ''apikey''
     \<or> contains_ignore_ascii_case name ''session''
     \<or> contains_ignore_ascii_case name ''credential''
     \<or> contains_ignore_ascii_case name ''authorization''
     \<or> ends_with_ignore_ascii_case name ''_key''
     \<or> ends_with_ignore_ascii_case name ''-key''"

definition REQUEST_IDENTITY_HEADERS :: "string list" where
  "REQUEST_IDENTITY_HEADERS =
     [''idempotency-key'', ''request-id'', ''request-idempotency-key'', ''x-request-id'',
      ''x-request-idempotency-key'', ''x-correlation-id'', ''correlation-id'']"

definition is_request_identity_header_name_str :: "string \<Rightarrow> bool" where
  "is_request_identity_header_name_str name =
     list_ex (eq_ignore_ascii_case name) REQUEST_IDENTITY_HEADERS"

definition is_credential_bearing_header_name :: "string \<Rightarrow> bool" where
  "is_credential_bearing_header_name name =
     (if is_request_identity_header_name_str name then False
      else if matches_ignore_ascii_case name
                [''set-cookie'', ''www-authenticate'', ''proxy-authenticate''] then False
      else
        matches_ignore_ascii_case name
          [''authorization'', ''proxy-authorization'', ''api-key'', ''access-token'',
           ''refresh-token'', ''session-token'', ''api-token'', ''x-api-key'', ''x-client-key'',
           ''x-subscription-key'', ''ocp-apim-subscription-key'', ''cookie'']
        \<or> contains_ignore_ascii_case name ''authorization''
        \<or> contains_ignore_ascii_case name ''credential''
        \<or> contains_ignore_ascii_case name ''secret''
        \<or> contains_ignore_ascii_case name ''password''
        \<or> contains_ignore_ascii_case name ''token''
        \<or> contains_ignore_ascii_case name ''auth''
        \<or> (contains_ignore_ascii_case name ''api''
            \<and> (contains_ignore_ascii_case name ''key'' \<or> contains_ignore_ascii_case name ''token''))
        \<or> ends_with_ignore_ascii_case name ''_key''
        \<or> ends_with_ignore_ascii_case name ''-key'')"

section \<open>Ownership\<close>

definition is_protocol_or_reqwest_owned :: "header_name \<Rightarrow> bool" where
  "is_protocol_or_reqwest_owned name \<longleftrightarrow>
     name \<in> set [''content-length'', ''transfer-encoding'', ''accept-encoding'', ''host'', ''connection'',
                ''proxy-authorization'', ''cookie'', ''set-cookie'']
     \<or> name \<in> set [''keep-alive'', ''proxy-connection'', ''te'', ''trailer'', ''upgrade'',
                  ''proxy-authenticate'', ''proxy-authorization'', ''www-authenticate'']"

definition is_forbidden_auth_placement :: "header_name \<Rightarrow> bool" where
  "is_forbidden_auth_placement name \<longleftrightarrow>
     is_protocol_or_reqwest_owned name
     \<or> name = ''content-type'' \<or> name = ''user-agent'' \<or> name = ''authorization''
     \<or> name = ''content-length''
     \<or> is_request_identity_header_name_str name"

definition is_forbidden_public_header :: "header_name \<Rightarrow> bool" where
  "is_forbidden_public_header name \<longleftrightarrow>
     is_protocol_or_reqwest_owned name \<or> name = ''user-agent''
     \<or> is_credential_bearing_header_name name"

text \<open>The error carries the first forbidden key.\<close>

definition validate_public_headers ::
  "('h, 'v) header_map_ops \<Rightarrow> 'h \<Rightarrow> (header_name, unit) result" where
  "validate_public_headers ops h =
     (case find is_forbidden_public_header (hmo_keys ops h) of
        Some name \<Rightarrow> Inl name
      | None \<Rightarrow> Inr ())"

section \<open>Sanitised views\<close>

definition sanitize_header_map :: "('h, 'v) header_map_ops \<Rightarrow> 'v \<Rightarrow> 'h \<Rightarrow> 'h" where
  "sanitize_header_map ops redacted h =
     foldl (\<lambda>acc (name, v). hmo_append ops acc name (if is_sensitive_name name then redacted else v))
       (hmo_new ops) (hmo_iter ops h)"

record sanitized_header_value =
  shv_value :: string
  shv_redacted :: bool

text \<open>\<open>to_str\<close> is \<open>HeaderValue::to_str\<close>.\<close>

definition sanitized_header_value_of ::
  "('v \<Rightarrow> string option) \<Rightarrow> string \<Rightarrow> 'v \<Rightarrow> sanitized_header_value" where
  "sanitized_header_value_of to_str name v =
     (if is_sensitive_name name then \<lparr>shv_value = ''<redacted>'', shv_redacted = True\<rparr>
      else \<lparr>shv_value = (case to_str v of Some s \<Rightarrow> s | None \<Rightarrow> ''<non-utf8>''), shv_redacted = False\<rparr>)"

definition sanitized_get ::
  "('h, 'v) header_map_ops \<Rightarrow> ('v \<Rightarrow> string option) \<Rightarrow> 'h \<Rightarrow> header_name \<Rightarrow> sanitized_header_value option"
  where
  "sanitized_get ops to_str h name =
     map_option (sanitized_header_value_of to_str name) (hmo_get ops h name)"

definition sanitized_iter ::
  "('h, 'v) header_map_ops \<Rightarrow> ('v \<Rightarrow> string option) \<Rightarrow> 'h \<Rightarrow> (header_name \<times> sanitized_header_value) list"
  where
  "sanitized_iter ops to_str h =
     map (\<lambda>(name, v). (name, sanitized_header_value_of to_str name v)) (hmo_iter ops h)"

text \<open>
  \<open>sanitize_url_for_debug\<close>: the URL operations are arguments. \<open>str_replace\<close> is \<open>str::replace\<close>.
\<close>

record 'u url_ops =
  uo_query :: "'u \<Rightarrow> string option"
  uo_query_pairs :: "'u \<Rightarrow> (string \<times> string) list"
  uo_clear_query :: "'u \<Rightarrow> 'u"
  uo_append_pair :: "'u \<Rightarrow> string \<Rightarrow> string \<Rightarrow> 'u"
  uo_to_string :: "'u \<Rightarrow> string"

function str_replace :: "string \<Rightarrow> string \<Rightarrow> string \<Rightarrow> string" where
  "str_replace [] from to = []"
| "str_replace (c # rest) from to =
     (if from \<noteq> [] \<and> starts_with (c # rest) from
      then to @ str_replace (drop (length from) (c # rest)) from to
      else c # str_replace rest from to)"
  by pat_completeness auto

termination str_replace
  by (relation "measure (\<lambda>(s, _, _). length s)") auto

definition query_key_redacted :: "string list \<Rightarrow> string \<Rightarrow> bool" where
  "query_key_redacted sensitive key \<longleftrightarrow> list_ex (eq_ignore_ascii_case key) sensitive \<or> is_sensitive_name key"

definition sanitize_url_for_debug :: "'u url_ops \<Rightarrow> 'u \<Rightarrow> string list \<Rightarrow> string" where
  "sanitize_url_for_debug ops url sensitive =
     (if uo_query ops url = None then uo_to_string ops url
      else
        (let out = foldl (\<lambda>u (key, v).
                     uo_append_pair ops u key
                       (if query_key_redacted sensitive key then ''<redacted>'' else v))
                   (uo_clear_query ops url) (uo_query_pairs ops url)
         in str_replace (uo_to_string ops out) ''%3Credacted%3E'' ''<redacted>''))"

section \<open>Matching is by lower-case text\<close>

lemma bytes_match_lower:
  "length w = length n \<Longrightarrow> bytes_match w n \<longleftrightarrow> to_ascii_lowercase w = to_ascii_lowercase n"
  using eq_ignore_ascii_case_iff [of w n] by (simp add: bytes_match_def eq_ignore_ascii_case_def)

lemma lower_append [simp]: "to_ascii_lowercase (a @ b) = to_ascii_lowercase a @ to_ascii_lowercase b"
  by (simp add: to_ascii_lowercase_def)

lemma lower_length [simp]: "length (to_ascii_lowercase s) = length s"
  by (simp add: to_ascii_lowercase_def)

lemma lower_take [simp]: "to_ascii_lowercase (take n s) = take n (to_ascii_lowercase s)"
  by (simp add: to_ascii_lowercase_def take_map)

lemma lower_drop [simp]: "to_ascii_lowercase (drop n s) = drop n (to_ascii_lowercase s)"
  by (simp add: to_ascii_lowercase_def drop_map)

lemma contains_ignore_case_iff:
  "contains_ignore_ascii_case h n \<longleftrightarrow>
     contains_str (to_ascii_lowercase h) (to_ascii_lowercase n)"
proof (cases "n = [] \<or> length h < length n")
  case True
  then show ?thesis
    by (auto simp: contains_ignore_ascii_case_def contains_str_iff to_ascii_lowercase_def)
       (metis add_lessD1 add.commute length_append length_map less_irrefl not_less_iff_gr_or_eq
          trans_less_add1)
next
  case False
  let ?l = to_ascii_lowercase
  have win: "bytes_match (take (length n) (drop i h)) n \<longleftrightarrow> take (length n) (drop i (?l h)) = ?l n"
    if "i \<in> set [0..<length h + 1 - length n]" for i
    using bytes_match_lower [of "take (length n) (drop i h)" n] that False by auto
  have "contains_ignore_ascii_case h n \<longleftrightarrow>
      (\<exists>i \<in> set [0..<length h + 1 - length n]. take (length n) (drop i (?l h)) = ?l n)"
    using False win by (auto simp: contains_ignore_ascii_case_def windows_def list_ex_iff)
  also have "\<dots> \<longleftrightarrow> (\<exists>a b. ?l h = a @ ?l n @ b)"
  proof
    assume "\<exists>i \<in> set [0..<length h + 1 - length n]. take (length n) (drop i (?l h)) = ?l n"
    then obtain i where "take (length n) (drop i (?l h)) = ?l n" by blast
    then have "?l h = take i (?l h) @ ?l n @ drop (length n) (drop i (?l h))"
      by (metis append_take_drop_id)
    then show "\<exists>a b. ?l h = a @ ?l n @ b" by blast
  next
    assume "\<exists>a b. ?l h = a @ ?l n @ b"
    then obtain a b where ab: "?l h = a @ ?l n @ b" by blast
    then have "length h = length a + length n + length b"
      by (metis add.assoc length_append lower_length)
    moreover have "take (length n) (drop (length a) (?l h)) = ?l n" by (simp add: ab)
    ultimately show "\<exists>i \<in> set [0..<length h + 1 - length n]. take (length n) (drop i (?l h)) = ?l n"
      by (intro bexI [of _ "length a"]) auto
  qed
  finally show ?thesis by (simp add: contains_str_iff)
qed

lemma ends_with_ignore_case_iff:
  "ends_with_ignore_ascii_case h n \<longleftrightarrow> ends_with (to_ascii_lowercase h) (to_ascii_lowercase n)"
proof -
  have "ends_with_ignore_ascii_case h n \<longleftrightarrow>
      length n \<le> length h \<and> drop (length h - length n) (to_ascii_lowercase h) = to_ascii_lowercase n"
    using bytes_match_lower [of "drop (length h - length n) h" n]
    by (auto simp: ends_with_ignore_ascii_case_def)
  also have "\<dots> \<longleftrightarrow> ends_with (to_ascii_lowercase h) (to_ascii_lowercase n)"
    by (simp add: ends_with_def)
  finally show ?thesis .
qed

lemma matches_ignore_case_iff:
  "matches_ignore_ascii_case name cs \<longleftrightarrow> to_ascii_lowercase name \<in> to_ascii_lowercase ` set cs"
  by (auto simp: matches_ignore_ascii_case_def list_ex_iff eq_ignore_ascii_case_iff)

lemma sensitive_lower: "is_sensitive_name (to_ascii_lowercase name) = is_sensitive_name name"
  by (simp only: is_sensitive_name_def matches_ignore_case_iff contains_ignore_case_iff
      ends_with_ignore_case_iff to_ascii_lowercase_idem)

lemma identity_lower:
  "is_request_identity_header_name_str (to_ascii_lowercase name) = is_request_identity_header_name_str name"
  by (simp add: is_request_identity_header_name_str_def list_ex_iff eq_ignore_ascii_case_iff)

lemma credential_lower:
  "is_credential_bearing_header_name (to_ascii_lowercase name) = is_credential_bearing_header_name name"
  by (simp only: is_credential_bearing_header_name_def matches_ignore_case_iff contains_ignore_case_iff
      ends_with_ignore_case_iff to_ascii_lowercase_idem identity_lower)

section \<open>Properties\<close>

text \<open>
  Header classification does not depend on letter case: the redaction rule, the
  credential rule and the request-identity rule give a name and its lower-case form the same
  verdict, so no spelling of a name escapes them.
\<close>

theorem name_rules_case_insensitive:
  "is_sensitive_name (to_ascii_lowercase name) = is_sensitive_name name
   \<and> is_credential_bearing_header_name (to_ascii_lowercase name) = is_credential_bearing_header_name name
   \<and> is_request_identity_header_name_str (to_ascii_lowercase name)
       = is_request_identity_header_name_str name"
  using sensitive_lower credential_lower identity_lower by blast

lemma sanitize_values_aux:
  assumes "header_map_laws ops"
  shows "header_values ops
      (foldl (\<lambda>acc (name, v). hmo_append ops acc name (if is_sensitive_name name then r else v)) acc es) n =
    header_values ops acc n
      @ map (\<lambda>v. if is_sensitive_name n then r else v) (map snd (filter (\<lambda>e. fst e = n) es))"
proof (induction es arbitrary: acc)
  case (Cons e es)
  then show ?case
    by (cases e) (auto simp: header_values_append [OF assms])
qed simp

lemma sanitize_values:
  assumes "header_map_laws ops"
  shows "header_values ops (sanitize_header_map ops r h) n =
    map (\<lambda>v. if is_sensitive_name n then r else v) (header_values ops h n)"
proof -
  note header_values_new [OF assms, of n]
  then show ?thesis
    unfolding sanitize_header_map_def sanitize_values_aux [OF assms] by (simp add: header_values_def)
qed


text \<open>
  The public-header check accepts exactly the maps without a forbidden key and
  otherwise names one; so the headers a request may carry publicly never include a credential
  header, \<open>Authorization\<close> in particular, or a header the transport owns.
\<close>

theorem validate_public_headers_exact:
  assumes "header_map_laws ops"
  shows "(validate_public_headers ops h = Inr () \<longleftrightarrow>
      (\<forall>n. hmo_contains_key ops h n \<longrightarrow> \<not> is_forbidden_public_header n))
    \<and> (\<forall>n. validate_public_headers ops h = Inl n \<longrightarrow>
         hmo_contains_key ops h n \<and> is_forbidden_public_header n)
    \<and> (validate_public_headers ops h = Inr () \<longrightarrow> \<not> hmo_contains_key ops h ''authorization'')"
proof -
  have keys: "hmo_contains_key ops h n \<longleftrightarrow> n \<in> set (hmo_keys ops h)" for n
    using assms by (simp add: header_map_laws_def)
  have auth: "is_forbidden_public_header ''authorization''"
    by (simp add: is_forbidden_public_header_def is_credential_bearing_header_name_def
        is_request_identity_header_name_str_def REQUEST_IDENTITY_HEADERS_def
        matches_ignore_ascii_case_def eq_ignore_ascii_case_def ascii_lower_def)
  show ?thesis
    using auth
    by (auto simp: validate_public_headers_def keys find_None_iff find_Some_iff split: option.splits
        intro: nth_mem)
qed

text \<open>
  A sanitised URL depends only on what is public: URLs whose query pairs agree up to
  the values of redacted keys, and which are otherwise the same, print the same text.
\<close>

theorem sanitized_url_hides_values:
  assumes "uo_query ops url \<noteq> None" and "uo_query ops url' \<noteq> None"
    and "uo_clear_query ops url = uo_clear_query ops url'"
    and "list_all2 (\<lambda>(k, v) (k', v'). k = k' \<and> (query_key_redacted sensitive k \<or> v = v'))
           (uo_query_pairs ops url) (uo_query_pairs ops url')"
  shows "sanitize_url_for_debug ops url sensitive = sanitize_url_for_debug ops url' sensitive"
proof -
  let ?f = "\<lambda>u (key, v). uo_append_pair ops u key
              (if query_key_redacted sensitive key then ''<redacted>'' else v)"
  have "foldl ?f u ps = foldl ?f u qs"
    if "list_all2 (\<lambda>(k, v) (k', v'). k = k' \<and> (query_key_redacted sensitive k \<or> v = v')) ps qs"
    for u ps qs
    using that by (induction arbitrary: u rule: list_all2_induct) auto
  from this [OF assms(4)] show ?thesis
    using assms(1-3) by (simp only: sanitize_url_for_debug_def if_False)
qed

section \<open>Sample runs\<close>

text \<open>Header maps as lists of entries.\<close>

definition list_headers :: "((header_name \<times> string) list, string) header_map_ops" where
  "list_headers =
     \<lparr>hmo_new = [], hmo_append = (\<lambda>h k v. h @ [(k, v)]),
      hmo_insert = (\<lambda>h k v. filter (\<lambda>e. fst e \<noteq> k) h @ [(k, v)]),
      hmo_remove = (\<lambda>h k. filter (\<lambda>e. fst e \<noteq> k) h), hmo_iter = (\<lambda>h. h), hmo_get = map_of,
      hmo_contains_key = (\<lambda>h n. n \<in> fst ` set h), hmo_keys = (\<lambda>h. remdups (map fst h))\<rparr>"

lemma list_headers_laws: "header_map_laws list_headers"
  by (auto simp: header_map_laws_def list_headers_def header_values_def filter_empty_conv
      intro!: arg_cong [where f = "map snd"] filter_cong)

lemma sample_names: "is_sensitive_name ''cookie''" "\<not> is_sensitive_name ''te''"
  by (simp_all add: is_sensitive_name_def matches_ignore_ascii_case_def eq_ignore_ascii_case_def
      ascii_lower_def contains_ignore_ascii_case_def ends_with_ignore_ascii_case_def)


theorem validate_public_headers_exact_witness:
  "validate_public_headers list_headers [(''te'', ''x'')] = Inl ''te''
   \<and> hmo_contains_key list_headers [(''te'', ''x'')] ''te'' \<and> is_forbidden_public_header ''te''"
proof -
  have "validate_public_headers list_headers [(''te'', ''x'')] = Inl ''te''"
    by (simp add: validate_public_headers_def list_headers_def is_forbidden_public_header_def
        is_protocol_or_reqwest_owned_def)
  then show ?thesis
    using validate_public_headers_exact [OF list_headers_laws, of "[(''te'', ''x'')]"] by blast
qed

definition list_url :: "(string \<times> string) list url_ops" where
  "list_url =
     \<lparr>uo_query = (\<lambda>u. if u = [] then None else Some []), uo_query_pairs = (\<lambda>u. u),
      uo_clear_query = (\<lambda>_. []), uo_append_pair = (\<lambda>u k v. u @ [(k, v)]),
      uo_to_string = (\<lambda>u. concat (map (\<lambda>(k, v). k @ v) u))\<rparr>"

theorem sanitized_url_hides_values_witness:
  "sanitize_url_for_debug list_url [(''s'', ''a'')] [''s''] = sanitize_url_for_debug list_url [(''s'', ''b'')] [''s'']"
  by (rule sanitized_url_hides_values) (simp_all add: list_url_def query_key_redacted_def)

end
