(* ===== verification/AuthPlan.thy ===== *)
theory AuthPlan
  imports HeaderRules CredentialSlot
begin

text \<open>
  The authentication plan (\<open>auth/plan.rs\<close>): requirements, preplanned slots with their placement
  preflight, transport material and its binding to a slot, the decision a challenge status leads
  to, and the rejection plan. \<open>HeaderName::from_bytes\<close> and \<open>Url::query_pairs\<close> are arguments; the
  atomic slot-id counter is a value that is passed along.
\<close>

section \<open>Identities\<close>

type_synonym auth_usage_id = string
type_synonym auth_provenance = string
type_synonym auth_slot_id = u64

datatype auth_placement = PlBearer | PlHeader string | PlQuery string | PlBasic

datatype auth_challenge_policy = ChUnauthorized | ChUnauthorizedOrForbidden | ChNeverRecover

record auth_requirement =
  ar_credential :: credential_id
  ar_placement :: auth_placement
  ar_usage_id :: auth_usage_id
  ar_step_id :: "string option"
  ar_provenance :: auth_provenance
  ar_challenge :: auth_challenge_policy

type_synonym auth_plan = "auth_requirement list"

datatype planned_auth_placement = PpBearer | PpHeader header_name | PpQuery string | PpBasic

record planned_auth_slot =
  ps_id :: auth_slot_id
  ps_credential :: credential_id
  ps_usage_id :: auth_usage_id
  ps_step_id :: "string option"
  ps_provenance :: auth_provenance
  ps_placement :: planned_auth_placement

record auth_placement_plan =
  app_slots :: "planned_auth_slot list"
  app_sensitive_query_keys :: "string list"

definition auth_slot_id_next :: "u64 \<Rightarrow> (auth_error, auth_slot_id \<times> u64) result" where
  "auth_slot_id_next counter =
     (case checked_add counter 1 of
        Some n \<Rightarrow> Inr (counter, n)
      | None \<Rightarrow> Inl (auth_error_new AuthInvalidConfiguration ''auth slot id counter overflowed''))"

section \<open>Placement planning\<close>

fun placements_collide :: "planned_auth_placement \<Rightarrow> planned_auth_placement \<Rightarrow> bool" where
  "placements_collide PpBearer PpBearer = True"
| "placements_collide PpBearer PpBasic = True"
| "placements_collide PpBasic PpBearer = True"
| "placements_collide PpBasic PpBasic = True"
| "placements_collide (PpHeader name) PpBearer = (name = ''authorization'')"
| "placements_collide (PpHeader name) PpBasic = (name = ''authorization'')"
| "placements_collide PpBearer (PpHeader name) = (name = ''authorization'')"
| "placements_collide PpBasic (PpHeader name) = (name = ''authorization'')"
| "placements_collide (PpHeader a) (PpHeader b) = (a = b)"
| "placements_collide (PpQuery a) (PpQuery b) = (a = b)"
| "placements_collide _ _ = False"

definition invalid_auth_configuration :: "string \<Rightarrow> auth_error" where
  "invalid_auth_configuration = auth_error_new AuthInvalidConfiguration"

text \<open>The placement of one requirement, and the sensitive query keys after it.\<close>

fun plan_placement ::
  "(string \<Rightarrow> header_name option) \<Rightarrow> string list \<Rightarrow> auth_placement
    \<Rightarrow> (auth_error, planned_auth_placement \<times> string list) result" where
  "plan_placement from_bytes keys PlBearer = Inr (PpBearer, keys)"
| "plan_placement from_bytes keys PlBasic = Inr (PpBasic, keys)"
| "plan_placement from_bytes keys (PlHeader name) =
     (case from_bytes name of
        None \<Rightarrow> Inl (invalid_auth_configuration ''invalid auth header name'')
      | Some n \<Rightarrow> Inr (PpHeader n, keys))"
| "plan_placement from_bytes keys (PlQuery name) =
     Inr (PpQuery name,
          if list_ex (\<lambda>existing. eq_ignore_ascii_case existing name) keys then keys else keys @ [name])"

definition forbidden_header_of :: "planned_auth_placement \<Rightarrow> header_name option" where
  "forbidden_header_of p =
     (case p of
        PpHeader name \<Rightarrow> if is_forbidden_auth_placement name then Some name else None
      | _ \<Rightarrow> None)"

definition plan_requirement ::
  "(string \<Rightarrow> header_name option) \<Rightarrow> u64 \<Rightarrow> auth_placement_plan \<Rightarrow> auth_requirement
    \<Rightarrow> (auth_error, auth_placement_plan \<times> u64) result" where
  "plan_requirement from_bytes counter planned requirement =
     rbind (plan_placement from_bytes (app_sensitive_query_keys planned) (ar_placement requirement))
       (\<lambda>(placement, keys).
          case forbidden_header_of placement of
            Some name \<Rightarrow>
              Inl (invalid_auth_configuration
                (''authentication may not own reserved header `'' @ name @ ''`''))
          | None \<Rightarrow>
            if list_ex (\<lambda>existing. placements_collide (ps_placement existing) placement)
                 (app_slots planned) then
              Inl (invalid_auth_configuration ''duplicate authentication placement target'')
            else
            rbind (auth_slot_id_next counter) (\<lambda>(i, counter').
              Inr (\<lparr>app_slots = app_slots planned @
                      [\<lparr>ps_id = i, ps_credential = ar_credential requirement,
                        ps_usage_id = ar_usage_id requirement, ps_step_id = ar_step_id requirement,
                        ps_provenance = ar_provenance requirement, ps_placement = placement\<rparr>],
                    app_sensitive_query_keys = keys\<rparr>, counter')))"

fun plan_requirements ::
  "(string \<Rightarrow> header_name option) \<Rightarrow> u64 \<Rightarrow> auth_placement_plan \<Rightarrow> auth_requirement list
    \<Rightarrow> (auth_error, auth_placement_plan \<times> u64) result" where
  "plan_requirements from_bytes counter planned [] = Inr (planned, counter)"
| "plan_requirements from_bytes counter planned (r # rs) =
     rbind (plan_requirement from_bytes counter planned r)
       (\<lambda>(planned', counter'). plan_requirements from_bytes counter' planned' rs)"

definition from_auth_plan ::
  "(string \<Rightarrow> header_name option) \<Rightarrow> u64 \<Rightarrow> auth_plan
    \<Rightarrow> (auth_error, auth_placement_plan \<times> u64) result" where
  "from_auth_plan from_bytes counter plan =
     plan_requirements from_bytes counter \<lparr>app_slots = [], app_sensitive_query_keys = []\<rparr> plan"

section \<open>Preflight against the public request\<close>

text \<open>\<open>has_header\<close> is \<open>HeaderMap::contains_key\<close>, \<open>query_pairs\<close> the decoded query of the URL.\<close>

definition slot_preflight ::
  "(header_name \<Rightarrow> bool) \<Rightarrow> (string \<times> string) list \<Rightarrow> header_name list \<Rightarrow> planned_auth_slot
    \<Rightarrow> (auth_error, unit) result" where
  "slot_preflight has_header query_pairs reserved slot =
     (case ps_placement slot of
        PpBearer \<Rightarrow>
          if has_header ''authorization'' then
            Inl (invalid_auth_configuration
                   ''bearer auth collides with an existing public Authorization header'')
          else Inr ()
      | PpBasic \<Rightarrow>
          if has_header ''authorization'' then
            Inl (invalid_auth_configuration
                   ''basic auth collides with an existing public Authorization header'')
          else Inr ()
      | PpHeader name \<Rightarrow>
          if has_header name \<or> list_ex (\<lambda>r. r = name) reserved then
            Inl (invalid_auth_configuration
                   (''header auth key `'' @ name @ ''` collides with an existing public header''))
          else Inr ()
      | PpQuery name \<Rightarrow>
          if list_ex (\<lambda>(existing, _). existing = name) query_pairs then
            Inl (invalid_auth_configuration
                   (''query auth key `'' @ name @ ''` collides with an existing public query parameter''))
          else Inr ())"

fun preflight_slots ::
  "(header_name \<Rightarrow> bool) \<Rightarrow> (string \<times> string) list \<Rightarrow> header_name list \<Rightarrow> planned_auth_slot list
    \<Rightarrow> (auth_error, unit) result" where
  "preflight_slots has_header query_pairs reserved [] = Inr ()"
| "preflight_slots has_header query_pairs reserved (slot # slots) =
     rbind (slot_preflight has_header query_pairs reserved slot)
       (\<lambda>_. preflight_slots has_header query_pairs reserved slots)"

definition validate_public_request_with_reserved_headers ::
  "auth_placement_plan \<Rightarrow> (header_name \<Rightarrow> bool) \<Rightarrow> (string \<times> string) list \<Rightarrow> header_name list
    \<Rightarrow> (auth_error, unit) result" where
  "validate_public_request_with_reserved_headers planned has_header query_pairs reserved =
     preflight_slots has_header query_pairs reserved (app_slots planned)"

definition validate_public_request ::
  "auth_placement_plan \<Rightarrow> (header_name \<Rightarrow> bool) \<Rightarrow> (string \<times> string) list
    \<Rightarrow> (auth_error, unit) result" where
  "validate_public_request planned has_header query_pairs =
     validate_public_request_with_reserved_headers planned has_header query_pairs []"

section \<open>Applying material to a slot\<close>

datatype auth_transport_material =
    MatSecret auth_slot_id string
  | MatBasic auth_slot_id string string

fun material_slot_id :: "auth_transport_material \<Rightarrow> auth_slot_id" where
  "material_slot_id (MatSecret i _) = i"
| "material_slot_id (MatBasic i _ _) = i"

record auth_applied_credential =
  aac_credential_id :: credential_id
  aac_usage_id :: auth_usage_id
  aac_step_id :: "string option"
  aac_generation :: "u64 option"
  aac_provenance :: auth_provenance

datatype auth_preparation_reuse = ReuseNever | ReuseRequestLocal

record prepared_auth_credential =
  pac_applied :: auth_applied_credential
  pac_reuse :: auth_preparation_reuse
  pac_material :: auth_transport_material

definition prepared_new ::
  "auth_applied_credential \<Rightarrow> auth_transport_material \<Rightarrow> prepared_auth_credential" where
  "prepared_new applied material =
     \<lparr>pac_applied = applied, pac_reuse = ReuseNever, pac_material = material\<rparr>"

definition with_reuse ::
  "prepared_auth_credential \<Rightarrow> auth_preparation_reuse \<Rightarrow> prepared_auth_credential" where
  "with_reuse prepared reuse = prepared\<lparr>pac_reuse := reuse\<rparr>"

definition material_matches_slot :: "auth_transport_material \<Rightarrow> planned_auth_slot \<Rightarrow> bool" where
  "material_matches_slot material slot =
     (case (material, ps_placement slot) of
        (MatSecret _ _, PpBearer) \<Rightarrow> True
      | (MatSecret _ _, PpHeader _) \<Rightarrow> True
      | (MatSecret _ _, PpQuery _) \<Rightarrow> True
      | (MatBasic _ _ _, PpBasic) \<Rightarrow> True
      | _ \<Rightarrow> False)"

fun placement_matches_requirement :: "planned_auth_placement \<Rightarrow> auth_placement \<Rightarrow> bool" where
  "placement_matches_requirement PpBearer PlBearer = True"
| "placement_matches_requirement PpBasic PlBasic = True"
| "placement_matches_requirement (PpHeader planned) (PlHeader requirement) =
     eq_ignore_ascii_case planned requirement"
| "placement_matches_requirement (PpQuery planned) (PlQuery requirement) = (planned = requirement)"
| "placement_matches_requirement _ _ = False"

definition validate_requirement ::
  "planned_auth_slot \<Rightarrow> auth_requirement \<Rightarrow> (auth_error, unit) result" where
  "validate_requirement planned requirement =
     (if ps_credential planned \<noteq> ar_credential requirement
         \<or> ps_usage_id planned \<noteq> ar_usage_id requirement
         \<or> ps_step_id planned \<noteq> ar_step_id requirement
         \<or> ps_provenance planned \<noteq> ar_provenance requirement then
        Inl (invalid_auth_configuration
          ''credential application does not match the preplanned authentication slot'')
      else if \<not> placement_matches_requirement (ps_placement planned) (ar_placement requirement) then
        Inl (invalid_auth_configuration
          ''credential application placement does not match the preplanned authentication slot'')
      else Inr ())"

definition validate_binding ::
  "prepared_auth_credential \<Rightarrow> planned_auth_slot \<Rightarrow> (auth_error, unit) result" where
  "validate_binding prepared slot =
     (if material_slot_id (pac_material prepared) \<noteq> ps_id slot
         \<or> \<not> material_matches_slot (pac_material prepared) slot then
        Inl (invalid_auth_configuration
          ''credential material does not match the preplanned authentication slot'')
      else if aac_credential_id (pac_applied prepared) \<noteq> ps_credential slot
         \<or> aac_usage_id (pac_applied prepared) \<noteq> ps_usage_id slot
         \<or> aac_step_id (pac_applied prepared) \<noteq> ps_step_id slot
         \<or> aac_provenance (pac_applied prepared) \<noteq> ps_provenance slot then
        Inl (invalid_auth_configuration
          ''applied credential metadata does not match the preplanned authentication slot'')
      else Inr ())"

definition apply_secret_credential ::
  "planned_auth_slot \<Rightarrow> auth_requirement \<Rightarrow> string \<Rightarrow> (auth_error, auth_transport_material) result" where
  "apply_secret_credential planned requirement secret_value =
     rbind (validate_requirement planned requirement) (\<lambda>_.
       case ps_placement planned of
         PpBasic \<Rightarrow>
           Inl (auth_error_new UnsupportedScheme
             ''credential material does not support preplanned auth placement'')
       | _ \<Rightarrow> Inr (MatSecret (ps_id planned) secret_value))"

record basic_credential =
  bc_username :: string
  bc_password :: string

definition apply_basic_credential ::
  "planned_auth_slot \<Rightarrow> auth_requirement \<Rightarrow> basic_credential
    \<Rightarrow> (auth_error, auth_transport_material) result" where
  "apply_basic_credential planned requirement material =
     rbind (validate_requirement planned requirement) (\<lambda>_.
       case ps_placement planned of
         PpBasic \<Rightarrow> Inr (MatBasic (ps_id planned) (bc_username material) (bc_password material))
       | _ \<Rightarrow>
           Inl (auth_error_new UnsupportedScheme ''basic credential requires basic auth placement''))"

section \<open>Challenges\<close>

datatype auth_recovery_reason = RecUnauthorized | RecForbidden

record auth_rejection_decision =
  ard_invalidate_reason :: "invalidate_reason option"
  ard_recovery_reason :: "auth_recovery_reason option"

definition UNAUTHORIZED :: nat where "UNAUTHORIZED = 401"
definition FORBIDDEN :: nat where "FORBIDDEN = 403"

definition then_some :: "bool \<Rightarrow> 'a \<Rightarrow> 'a option" where
  "then_some b x = (if b then Some x else None)"

definition auth_decision_for_status ::
  "nat \<Rightarrow> auth_requirement \<Rightarrow> auth_step_policy \<Rightarrow> auth_rejection_decision option" where
  "auth_decision_for_status status requirement policy =
     (if ar_challenge requirement = ChNeverRecover then None
      else if status = UNAUTHORIZED
              \<and> (ar_challenge requirement = ChUnauthorized
                 \<or> ar_challenge requirement = ChUnauthorizedOrForbidden) then
        (let recovery = then_some (asp_recover_on_unauthorized policy) RecUnauthorized;
             invalidate = then_some (asp_invalidate_on_unauthorized policy) IrUnauthorized
         in if recovery \<noteq> None \<or> invalidate \<noteq> None
            then Some \<lparr>ard_invalidate_reason = invalidate, ard_recovery_reason = recovery\<rparr>
            else None)
      else if status = FORBIDDEN \<and> ar_challenge requirement = ChUnauthorizedOrForbidden then
        (let recovery = then_some (asp_recover_on_forbidden policy) RecForbidden;
             invalidate = then_some (asp_invalidate_on_forbidden policy) IrForbidden
         in if recovery \<noteq> None \<or> invalidate \<noteq> None
            then Some \<lparr>ard_invalidate_reason = invalidate, ard_recovery_reason = recovery\<rparr>
            else None)
      else None)"

datatype auth_rejection_action =
    Terminal credential_id auth_usage_id "string option" "u64 option" "invalidate_reason option"
  | Recover credential_id auth_usage_id "string option" "u64 option" auth_recovery_reason
      "invalidate_reason option"

type_synonym auth_rejection_plan = "auth_rejection_action list"

definition action_terminal ::
  "auth_requirement \<Rightarrow> auth_applied_credential \<Rightarrow> invalidate_reason option \<Rightarrow> auth_rejection_action" where
  "action_terminal requirement applied reason =
     Terminal (ar_credential requirement) (aac_usage_id applied) (aac_step_id applied)
       (aac_generation applied) reason"

definition action_recover ::
  "auth_requirement \<Rightarrow> auth_applied_credential \<Rightarrow> auth_recovery_reason \<Rightarrow> invalidate_reason option
    \<Rightarrow> auth_rejection_action" where
  "action_recover requirement applied reason invalidate =
     Recover (ar_credential requirement) (aac_usage_id applied) (aac_step_id applied)
       (aac_generation applied) reason invalidate"

fun requests_recovery :: "auth_rejection_action \<Rightarrow> bool" where
  "requests_recovery (Recover _ _ _ _ _ _) = True"
| "requests_recovery (Terminal _ _ _ _ _) = False"

fun action_invalidate_reason :: "auth_rejection_action \<Rightarrow> invalidate_reason option" where
  "action_invalidate_reason (Terminal _ _ _ _ r) = r"
| "action_invalidate_reason (Recover _ _ _ _ _ r) = r"

definition identity_matches ::
  "credential_id \<Rightarrow> auth_usage_id \<Rightarrow> string option \<Rightarrow> u64 option \<Rightarrow> auth_requirement
    \<Rightarrow> auth_applied_credential \<Rightarrow> bool" where
  "identity_matches credential usage step g requirement applied \<longleftrightarrow>
     credential = ar_credential requirement \<and> credential = aac_credential_id applied
     \<and> usage = aac_usage_id applied \<and> step = aac_step_id applied \<and> g = aac_generation applied"

fun action_matches :: "auth_rejection_action \<Rightarrow> auth_requirement \<Rightarrow> auth_applied_credential \<Rightarrow> bool" where
  "action_matches (Terminal c u s g _) requirement applied = identity_matches c u s g requirement applied"
| "action_matches (Recover c u s g _ _) requirement applied = identity_matches c u s g requirement applied"

definition plan_requests_recovery :: "auth_rejection_plan \<Rightarrow> bool" where
  "plan_requests_recovery actions = list_ex requests_recovery actions"

definition append_validated :: "auth_rejection_plan \<Rightarrow> auth_rejection_action \<Rightarrow> auth_rejection_plan" where
  "append_validated actions action =
     (case action of
        Terminal _ _ _ _ _ \<Rightarrow> actions @ [action]
      | Recover _ _ _ _ _ _ \<Rightarrow> if \<not> plan_requests_recovery actions then actions @ [action] else actions)"

end
