(* ===== verification/AuthEngine.thy ===== *)
theory AuthEngine
  imports AuthPlan
begin

text \<open>
  The authentication engine: provider bindings and their four entry points
  (\<open>auth/orchestrator.rs\<close>), preparation of a request's credentials, classification of a challenged
  response and the two-phase application of the rejection plan (\<open>client/execute.rs\<close>). The
  credential slots of the client live in an authentication state, a slot per reference. A fetch of
  a lease is an argument; it is \<open>None\<close> while the call has not returned. The material inside a slot
  is type-erased: \<open>as_secret\<close> and \<open>as_basic\<close> are the downcasts.
\<close>

section \<open>Bindings\<close>

type_synonym slot_ref = nat
type_synonym ('p, 'a) auth_state = "slot_ref \<Rightarrow> ('p, 'a) credential_slot"

datatype materializer = MaterializeSecret | MaterializeBasic

datatype auth_preparation_mode = PerExecution | RequestLocal
datatype auth_challenge_mode = InvalidateOnly | Refresh

record auth_provider_binding =
  apb_slot :: slot_ref
  apb_materializer :: materializer
  apb_reuse :: auth_preparation_reuse
  apb_refresh_on_challenge :: bool

definition reuse_of_mode :: "auth_preparation_mode \<Rightarrow> auth_preparation_reuse" where
  "reuse_of_mode m = (case m of PerExecution \<Rightarrow> ReuseNever | RequestLocal \<Rightarrow> ReuseRequestLocal)"

definition secret_binding ::
  "slot_ref \<Rightarrow> auth_preparation_mode \<Rightarrow> auth_challenge_mode \<Rightarrow> auth_provider_binding" where
  "secret_binding slot preparation challenge =
     \<lparr>apb_slot = slot, apb_materializer = MaterializeSecret, apb_reuse = reuse_of_mode preparation,
      apb_refresh_on_challenge = (challenge = Refresh)\<rparr>"

definition basic_binding ::
  "slot_ref \<Rightarrow> auth_preparation_mode \<Rightarrow> auth_challenge_mode \<Rightarrow> auth_provider_binding" where
  "basic_binding slot preparation challenge =
     \<lparr>apb_slot = slot, apb_materializer = MaterializeBasic, apb_reuse = reuse_of_mode preparation,
      apb_refresh_on_challenge = (challenge = Refresh)\<rparr>"

definition binding_validate_requirement ::
  "('p, 'a) auth_state \<Rightarrow> auth_provider_binding \<Rightarrow> auth_requirement \<Rightarrow> (auth_error, unit) result" where
  "binding_validate_requirement st binding requirement =
     (if cs_id (st (apb_slot binding)) \<noteq> ar_credential requirement then
        Inl (invalid_auth_configuration
               ''authentication provider binding does not match its requirement'')
      else Inr ())"

record 'a downcasts =
  dc_as_secret :: "'a \<Rightarrow> string option"
  dc_as_basic :: "'a \<Rightarrow> basic_credential option"

definition materialize_secret ::
  "'a downcasts \<Rightarrow> 'a \<Rightarrow> planned_auth_slot \<Rightarrow> auth_requirement
    \<Rightarrow> (auth_error, auth_transport_material) result" where
  "materialize_secret dc v slot requirement =
     rbind (ok_or (dc_as_secret dc v)
              (invalid_auth_configuration
                 ''credential binding produced an incompatible secret material type''))
       (apply_secret_credential slot requirement)"

definition materialize_basic ::
  "'a downcasts \<Rightarrow> 'a \<Rightarrow> planned_auth_slot \<Rightarrow> auth_requirement
    \<Rightarrow> (auth_error, auth_transport_material) result" where
  "materialize_basic dc v slot requirement =
     rbind (ok_or (dc_as_basic dc v)
              (invalid_auth_configuration
                 ''credential binding produced an incompatible basic material type''))
       (apply_basic_credential slot requirement)"

definition materialize ::
  "'a downcasts \<Rightarrow> materializer \<Rightarrow> 'a \<Rightarrow> planned_auth_slot \<Rightarrow> auth_requirement
    \<Rightarrow> (auth_error, auth_transport_material) result" where
  "materialize dc m =
     (case m of MaterializeSecret \<Rightarrow> materialize_secret dc | MaterializeBasic \<Rightarrow> materialize_basic dc)"

section \<open>Preparation\<close>

type_synonym ('p, 'a) slot_fetch =
  "('p, 'a) credential_slot
    \<Rightarrow> ((auth_error, 'a credential_lease) result \<times> ('p, 'a) credential_slot) option"

definition prepare_binding ::
  "'a downcasts \<Rightarrow> ('p, 'a) slot_fetch \<Rightarrow> auth_provider_binding \<Rightarrow> auth_requirement \<Rightarrow> planned_auth_slot
    \<Rightarrow> ('p, 'a) auth_state
    \<Rightarrow> ((auth_error, prepared_auth_credential) result \<times> ('p, 'a) auth_state) option" where
  "prepare_binding dc fetch binding requirement slot st =
     (case binding_validate_requirement st binding requirement of
        Inl e \<Rightarrow> Some (Inl e, st)
      | Inr _ \<Rightarrow>
          (case fetch (st (apb_slot binding)) of
             None \<Rightarrow> None
           | Some (r, cell) \<Rightarrow>
               (let st' = st(apb_slot binding := cell) in
                Some (rbind r (\<lambda>lease.
                        rbind (materialize dc (apb_materializer binding) (cl_value lease) slot requirement)
                          (\<lambda>material.
                             Inr (with_reuse
                               (prepared_new
                                 \<lparr>aac_credential_id = ar_credential requirement,
                                  aac_usage_id = ar_usage_id requirement,
                                  aac_step_id = ar_step_id requirement,
                                  aac_generation = Some (cl_generation lease),
                                  aac_provenance = ar_provenance requirement\<rparr> material)
                               (apb_reuse binding)))), st'))))"

definition no_provider_binding :: auth_error where
  "no_provider_binding =
     invalid_auth_configuration ''authentication requirement has no generated provider binding''"

text \<open>\<open>binding_of\<close> is \<open>ClientContext::auth_provider_binding\<close>.\<close>

type_synonym binding_lookup = "credential_id \<Rightarrow> auth_provider_binding option"

definition prepare ::
  "'a downcasts \<Rightarrow> ('p, 'a) slot_fetch \<Rightarrow> binding_lookup \<Rightarrow> auth_requirement \<Rightarrow> planned_auth_slot
    \<Rightarrow> ('p, 'a) auth_state
    \<Rightarrow> ((auth_error, prepared_auth_credential) result \<times> ('p, 'a) auth_state) option" where
  "prepare dc fetch binding_of requirement slot st =
     (case binding_of (ar_credential requirement) of
        Some binding \<Rightarrow> prepare_binding dc fetch binding requirement slot st
      | None \<Rightarrow> Some (Inl no_provider_binding, st))"

record auth_preparation =
  apr_applied :: "auth_applied_credential list"
  apr_materials :: "auth_transport_material list"
  apr_request_local_reusable :: bool

definition map_auth_error :: "error_context \<Rightarrow> (auth_error, 'b) result \<Rightarrow> (api_client_error, 'b) result" where
  "map_auth_error ctx r = map_err (Auth ctx) r"

fun prepare_requirements ::
  "'a downcasts \<Rightarrow> ('p, 'a) slot_fetch \<Rightarrow> binding_lookup \<Rightarrow> error_context
    \<Rightarrow> (auth_requirement \<times> planned_auth_slot) list \<Rightarrow> auth_preparation \<Rightarrow> ('p, 'a) auth_state
    \<Rightarrow> ((api_client_error, auth_preparation) result \<times> ('p, 'a) auth_state) option" where
  "prepare_requirements dc fetch binding_of ctx [] acc st = Some (Inr acc, st)"
| "prepare_requirements dc fetch binding_of ctx ((requirement, slot) # rest) acc st =
     (case prepare dc fetch binding_of requirement slot st of
        None \<Rightarrow> None
      | Some (Inl e, st') \<Rightarrow> Some (Inl (Auth ctx e), st')
      | Some (Inr prepared, st') \<Rightarrow>
          (case validate_binding prepared slot of
             Inl e \<Rightarrow> Some (Inl (Auth ctx e), st')
           | Inr _ \<Rightarrow>
               prepare_requirements dc fetch binding_of ctx rest
                 \<lparr>apr_applied = apr_applied acc @ [pac_applied prepared],
                  apr_materials = apr_materials acc @ [pac_material prepared],
                  apr_request_local_reusable =
                    apr_request_local_reusable acc \<and> pac_reuse prepared = ReuseRequestLocal\<rparr>
                 st'))"

definition prepare_auth_plan ::
  "'a downcasts \<Rightarrow> ('p, 'a) slot_fetch \<Rightarrow> binding_lookup \<Rightarrow> error_context \<Rightarrow> auth_plan
    \<Rightarrow> auth_placement_plan \<Rightarrow> ('p, 'a) auth_state
    \<Rightarrow> ((api_client_error, auth_preparation) result \<times> ('p, 'a) auth_state) option" where
  "prepare_auth_plan dc fetch binding_of ctx requirements planned st =
     prepare_requirements dc fetch binding_of ctx (zip requirements (app_slots planned))
       \<lparr>apr_applied = [], apr_materials = [], apr_request_local_reusable = requirements \<noteq> []\<rparr> st"

section \<open>Classifying a challenge\<close>

definition plan_binding_rejection ::
  "('p, 'a) auth_state \<Rightarrow> auth_provider_binding \<Rightarrow> auth_requirement \<Rightarrow> auth_applied_credential \<Rightarrow> nat
    \<Rightarrow> (auth_error, auth_rejection_action) result" where
  "plan_binding_rejection st binding requirement applied status =
     rbind (binding_validate_requirement st binding requirement) (\<lambda>_.
       case auth_decision_for_status status requirement auth_step_policy_default of
         None \<Rightarrow> Inr (action_terminal requirement applied None)
       | Some decision \<Rightarrow>
           (case (apb_refresh_on_challenge binding, ard_recovery_reason decision) of
              (True, Some reason) \<Rightarrow>
                Inr (action_recover requirement applied reason (ard_invalidate_reason decision))
            | _ \<Rightarrow> Inr (action_terminal requirement applied (ard_invalidate_reason decision))))"

definition plan_rejection ::
  "('p, 'a) auth_state \<Rightarrow> binding_lookup \<Rightarrow> auth_requirement \<Rightarrow> auth_applied_credential \<Rightarrow> nat
    \<Rightarrow> (auth_error, auth_rejection_action) result" where
  "plan_rejection st binding_of requirement applied status =
     (case binding_of (ar_credential requirement) of
        Some binding \<Rightarrow> plan_binding_rejection st binding requirement applied status
      | None \<Rightarrow> Inl no_provider_binding)"

definition is_protected_auth_rejection :: "auth_plan \<Rightarrow> nat \<Rightarrow> bool" where
  "is_protected_auth_rejection requirements status \<longleftrightarrow>
     (status = UNAUTHORIZED \<or> status = FORBIDDEN) \<and> requirements \<noteq> []"

definition same_use :: "auth_applied_credential \<Rightarrow> auth_requirement \<Rightarrow> bool" where
  "same_use applied req \<longleftrightarrow>
     ar_credential req = aac_credential_id applied \<and> ar_usage_id req = aac_usage_id applied
     \<and> ar_step_id req = aac_step_id applied"

definition auth_plan_mismatch :: "error_context \<Rightarrow> string \<Rightarrow> api_client_error" where
  "auth_plan_mismatch ctx message = Auth ctx (invalid_auth_configuration message)"

fun classify_applied ::
  "('p, 'a) auth_state \<Rightarrow> binding_lookup \<Rightarrow> error_context \<Rightarrow> auth_plan \<Rightarrow> nat
    \<Rightarrow> auth_applied_credential list \<Rightarrow> auth_rejection_plan
    \<Rightarrow> (api_client_error, auth_rejection_plan) result" where
  "classify_applied st binding_of ctx requirements status [] aggregate = Inr aggregate"
| "classify_applied st binding_of ctx requirements status (applied # rest) aggregate =
     (case find (same_use applied) requirements of
        None \<Rightarrow> Inl (auth_plan_mismatch ctx ''authentication requirement use was not applied'')
      | Some requirement \<Rightarrow>
          (case plan_rejection st binding_of requirement applied status of
             Inl e \<Rightarrow> Inl (Auth ctx e)
           | Inr action \<Rightarrow>
               if \<not> action_matches action requirement applied then
                 Inl (auth_plan_mismatch ctx
                   ''authentication rejection action did not match its planning pair'')
               else if list_ex (\<lambda>existing. action_matches existing requirement applied) aggregate then
                 Inl (auth_plan_mismatch ctx
                   ''duplicate authentication rejection action for one applied use'')
               else
                 classify_applied st binding_of ctx requirements status rest
                   (append_validated aggregate action)))"

definition classify_auth_rejection ::
  "('p, 'a) auth_state \<Rightarrow> binding_lookup \<Rightarrow> error_context \<Rightarrow> auth_plan \<Rightarrow> nat
    \<Rightarrow> auth_applied_credential list \<Rightarrow> (api_client_error, auth_rejection_plan option) result" where
  "classify_auth_rejection st binding_of ctx requirements status applied =
     (if \<not> is_protected_auth_rejection requirements status then Inr None
      else
        rbind (classify_applied st binding_of ctx requirements status applied []) (\<lambda>aggregate.
          Inr (if aggregate = [] then None else Some aggregate)))"

section \<open>Applying a rejection plan\<close>

definition rejection_invalidation_reason :: "auth_rejection_action \<Rightarrow> nat \<Rightarrow> invalidate_reason option" where
  "rejection_invalidation_reason action status =
     (case action_invalidate_reason action of
        Some r \<Rightarrow> Some r
      | None \<Rightarrow>
          then_some (requests_recovery action)
            (if status = FORBIDDEN then IrForbidden else IrUnauthorized))"

definition action_mismatch :: auth_error where
  "action_mismatch =
     invalid_auth_configuration ''authentication rejection action does not match its provider binding''"

type_synonym ('p, 'a) provider_invalidate =
  "'p \<Rightarrow> 'a option \<Rightarrow> invalidate_reason \<Rightarrow> (auth_error, unit) result"

definition apply_binding_rejection ::
  "('p, 'a) provider_invalidate \<Rightarrow> auth_provider_binding \<Rightarrow> auth_rejection_action \<Rightarrow> auth_requirement
    \<Rightarrow> auth_applied_credential \<Rightarrow> nat \<Rightarrow> ('p, 'a) auth_state
    \<Rightarrow> (auth_error, unit) result \<times> ('p, 'a) auth_state" where
  "apply_binding_rejection pinv binding action requirement applied status st =
     (case binding_validate_requirement st binding requirement of
        Inl e \<Rightarrow> (Inl e, st)
      | Inr _ \<Rightarrow>
          if \<not> action_matches action requirement applied then (Inl action_mismatch, st)
          else
            (case rejection_invalidation_reason action status of
               None \<Rightarrow> (Inr (), st)
             | Some reason \<Rightarrow>
                 (case (if requests_recovery action
                        then invalidate_generation pinv (aac_generation applied) reason
                               (st (apb_slot binding))
                        else invalidate_generation_local (aac_generation applied)
                               (st (apb_slot binding))) of
                    (r, cell) \<Rightarrow> (r, st(apb_slot binding := cell)))))"

definition apply_binding_rejection_invalidation_only ::
  "auth_provider_binding \<Rightarrow> auth_rejection_action \<Rightarrow> auth_requirement \<Rightarrow> auth_applied_credential \<Rightarrow> nat
    \<Rightarrow> ('p, 'a) auth_state \<Rightarrow> (auth_error, unit) result \<times> ('p, 'a) auth_state" where
  "apply_binding_rejection_invalidation_only binding action requirement applied status st =
     (case binding_validate_requirement st binding requirement of
        Inl e \<Rightarrow> (Inl e, st)
      | Inr _ \<Rightarrow>
          if \<not> action_matches action requirement applied then (Inl action_mismatch, st)
          else if rejection_invalidation_reason action status \<noteq> None then
            (case invalidate_generation_local (aac_generation applied) (st (apb_slot binding)) of
               (r, cell) \<Rightarrow> (r, st(apb_slot binding := cell)))
          else (Inr (), st))"

datatype auth_rejection_application = ProviderCapable | InvalidationOnly

definition apply_rejection ::
  "('p, 'a) provider_invalidate \<Rightarrow> binding_lookup \<Rightarrow> auth_rejection_application \<Rightarrow> auth_rejection_action
    \<Rightarrow> auth_requirement \<Rightarrow> auth_applied_credential \<Rightarrow> nat \<Rightarrow> ('p, 'a) auth_state
    \<Rightarrow> (auth_error, unit) result \<times> ('p, 'a) auth_state" where
  "apply_rejection pinv binding_of application action requirement applied status st =
     (case binding_of (ar_credential requirement) of
        None \<Rightarrow> (Inl no_provider_binding, st)
      | Some binding \<Rightarrow>
          (case application of
             ProviderCapable \<Rightarrow> apply_binding_rejection pinv binding action requirement applied status st
           | InvalidationOnly \<Rightarrow>
               apply_binding_rejection_invalidation_only binding action requirement applied status st))"

text \<open>The first phase finds the applied use and the requirement of every action.\<close>

fun find_use ::
  "auth_rejection_action \<Rightarrow> auth_plan \<Rightarrow> auth_applied_credential list
    \<Rightarrow> (auth_requirement \<times> auth_applied_credential) option" where
  "find_use action requirements [] = None"
| "find_use action requirements (applied # rest) =
     (case find (\<lambda>req. same_use applied req \<and> action_matches action req applied) requirements of
        Some req \<Rightarrow> Some (req, applied)
      | None \<Rightarrow> find_use action requirements rest)"

definition resolve_actions ::
  "error_context \<Rightarrow> auth_plan \<Rightarrow> auth_applied_credential list \<Rightarrow> auth_rejection_plan
    \<Rightarrow> (api_client_error, (auth_rejection_action \<times> auth_requirement \<times> auth_applied_credential) list) result"
  where
  "resolve_actions ctx requirements applied actions =
     collect_results
       (\<lambda>action.
          case find_use action requirements applied of
            Some (req, use) \<Rightarrow> Inr (action, req, use)
          | None \<Rightarrow>
              Inl (Auth ctx (invalid_auth_configuration
                ''authentication rejection plan does not match the applied credential'')))
       actions"

fun apply_resolved ::
  "('p, 'a) provider_invalidate \<Rightarrow> binding_lookup \<Rightarrow> auth_rejection_application \<Rightarrow> error_context \<Rightarrow> nat
    \<Rightarrow> (auth_rejection_action \<times> auth_requirement \<times> auth_applied_credential) list \<Rightarrow> ('p, 'a) auth_state
    \<Rightarrow> (api_client_error, unit) result \<times> ('p, 'a) auth_state" where
  "apply_resolved pinv binding_of application ctx status [] st = (Inr (), st)"
| "apply_resolved pinv binding_of application ctx status ((action, req, use) # rest) st =
     (case apply_rejection pinv binding_of application action req use status st of
        (Inl e, st') \<Rightarrow> (Inl (Auth ctx e), st')
      | (Inr _, st') \<Rightarrow> apply_resolved pinv binding_of application ctx status rest st')"

definition apply_auth_rejection_plan ::
  "('p, 'a) provider_invalidate \<Rightarrow> binding_lookup \<Rightarrow> auth_rejection_application \<Rightarrow> error_context
    \<Rightarrow> auth_plan \<Rightarrow> auth_applied_credential list \<Rightarrow> auth_rejection_plan \<Rightarrow> nat \<Rightarrow> ('p, 'a) auth_state
    \<Rightarrow> (api_client_error, unit) result \<times> ('p, 'a) auth_state" where
  "apply_auth_rejection_plan pinv binding_of application ctx requirements applied actions status st =
     (case resolve_actions ctx requirements applied actions of
        Inl e \<Rightarrow> (Inl e, st)
      | Inr resolved \<Rightarrow> apply_resolved pinv binding_of application ctx status resolved st)"

definition auth_challenge_rejected :: "error_context \<Rightarrow> api_client_error" where
  "auth_challenge_rejected ctx = Auth ctx (auth_error_new ProviderRejected ''auth challenge rejected'')"

datatype auth_rejection_step = StepRetry | StepFail api_client_error

definition apply_auth_rejection_step ::
  "('p, 'a) provider_invalidate \<Rightarrow> binding_lookup \<Rightarrow> error_context \<Rightarrow> auth_plan
    \<Rightarrow> auth_applied_credential list \<Rightarrow> auth_rejection_plan \<Rightarrow> nat \<Rightarrow> bool \<Rightarrow> ('p, 'a) auth_state
    \<Rightarrow> (api_client_error, auth_rejection_step) result \<times> ('p, 'a) auth_state" where
  "apply_auth_rejection_step pinv binding_of ctx requirements applied actions status auth_rebuildable st =
     (if \<not> auth_rebuildable \<and> plan_requests_recovery actions
      then (Inr (StepFail (auth_challenge_rejected ctx)), st)
      else
        (case apply_auth_rejection_plan pinv binding_of ProviderCapable ctx requirements applied actions
                status st of
           (Inl e, st') \<Rightarrow> (Inl e, st')
         | (Inr _, st') \<Rightarrow>
             (Inr (if plan_requests_recovery actions then StepRetry
                   else StepFail (auth_challenge_rejected ctx)), st')))"

end
