(* ===== verification/AuthEngineProps.thy ===== *)
theory AuthEngineProps
  imports AuthEngine CredentialSystem
begin

text \<open>
  Properties of authentication: placement planning gives every requirement its own free target,
  prepared credentials fit the slots planned for them and name the generation the slot caches, and a
  rejection plan recovers at most once, always resolves, and invalidates exactly what was rejected.
\<close>

section \<open>Placement planning\<close>

fun placement_for ::
  "(string \<Rightarrow> header_name option) \<Rightarrow> auth_placement \<Rightarrow> planned_auth_placement \<Rightarrow> bool" where
  "placement_for from_bytes PlBearer p = (p = PpBearer)"
| "placement_for from_bytes PlBasic p = (p = PpBasic)"
| "placement_for from_bytes (PlHeader name) p = (\<exists>n. from_bytes name = Some n \<and> p = PpHeader n)"
| "placement_for from_bytes (PlQuery name) p = (p = PpQuery name)"

definition slot_for ::
  "(string \<Rightarrow> header_name option) \<Rightarrow> auth_requirement \<Rightarrow> planned_auth_slot \<Rightarrow> bool" where
  "slot_for from_bytes r s \<longleftrightarrow>
     ps_credential s = ar_credential r \<and> ps_usage_id s = ar_usage_id r \<and> ps_step_id s = ar_step_id r
     \<and> ps_provenance s = ar_provenance r \<and> placement_for from_bytes (ar_placement r) (ps_placement s)"

definition covers_query :: "string list \<Rightarrow> planned_auth_placement \<Rightarrow> bool" where
  "covers_query keys p \<longleftrightarrow> (\<forall>q. p = PpQuery q \<longrightarrow> list_ex (eq_ignore_ascii_case q) keys)"

lemma plan_placement_ok:
  assumes "plan_placement from_bytes keys placement = Inr (p, keys')"
  shows "placement_for from_bytes placement p \<and> covers_query keys' p \<and> set keys \<subseteq> set keys'"
proof (cases placement)
  case (PlHeader name)
  with assms show ?thesis by (auto simp: covers_query_def split: option.splits)
next
  case (PlQuery name)
  with assms show ?thesis
    by (auto simp: covers_query_def list_ex_iff intro: eq_ignore_ascii_case_sym split: if_splits)
qed (use assms in \<open>auto simp: covers_query_def\<close>)

lemma covers_query_mono: "covers_query keys p \<Longrightarrow> set keys \<subseteq> set keys' \<Longrightarrow> covers_query keys' p"
  by (auto simp: covers_query_def list_ex_iff)

definition apart :: "planned_auth_slot \<Rightarrow> planned_auth_slot \<Rightarrow> bool" where
  "apart a b \<longleftrightarrow> \<not> placements_collide (ps_placement a) (ps_placement b)"

definition planned_ok :: "u64 \<Rightarrow> auth_placement_plan \<Rightarrow> bool" where
  "planned_ok counter planned \<longleftrightarrow>
     sorted_wrt apart (app_slots planned)
     \<and> sorted_wrt (<) (map ps_id (app_slots planned))
     \<and> (\<forall>s \<in> set (app_slots planned). ps_id s < counter
          \<and> forbidden_header_of (ps_placement s) = None
          \<and> covers_query (app_sensitive_query_keys planned) (ps_placement s))"

lemma plan_requirement_ok:
  assumes "plan_requirement from_bytes counter planned r = Inr (planned', counter')"
    and "planned_ok counter planned"
  shows "planned_ok counter' planned'
    \<and> (\<exists>s. app_slots planned' = app_slots planned @ [s] \<and> slot_for from_bytes r s)"
proof -
  obtain p keys where p: "plan_placement from_bytes (app_sensitive_query_keys planned) (ar_placement r)
      = Inr (p, keys)"
    using assms(1) by (auto simp: plan_requirement_def rbind_def split: sum.splits)
  note pl = plan_placement_ok [OF p]
  have free: "forbidden_header_of p = None"
      "\<forall>s \<in> set (app_slots planned). \<not> placements_collide (ps_placement s) p"
    and c: "checked_add counter 1 = Some counter'"
    and planned': "planned' = \<lparr>app_slots = app_slots planned @
          [\<lparr>ps_id = counter, ps_credential = ar_credential r, ps_usage_id = ar_usage_id r,
            ps_step_id = ar_step_id r, ps_provenance = ar_provenance r, ps_placement = p\<rparr>],
        app_sensitive_query_keys = keys\<rparr>"
    using assms(1) p
    by (auto simp: plan_requirement_def auth_slot_id_next_def rbind_def list_ex_iff
        split: option.splits if_splits)
  have "counter < counter'" using c by (rule checked_add_gt)
  then have "planned_ok counter' planned'"
    using assms(2) free pl unfolding planned'
    by (auto simp: planned_ok_def sorted_wrt_append apart_def intro: covers_query_mono less_trans)
  then show ?thesis using pl unfolding planned' by (auto simp: slot_for_def)
qed

lemma plan_requirements_ok:
  assumes "plan_requirements from_bytes counter planned rs = Inr (planned', counter')"
    and "planned_ok counter planned"
  shows "planned_ok counter' planned'
    \<and> (\<exists>ss. app_slots planned' = app_slots planned @ ss \<and> list_all2 (slot_for from_bytes) rs ss)"
  using assms
proof (induction rs arbitrary: counter planned)
  case Nil
  then show ?case by auto
next
  case (Cons r rs)
  obtain planned1 counter1 where one: "plan_requirement from_bytes counter planned r = Inr (planned1, counter1)"
    and rest: "plan_requirements from_bytes counter1 planned1 rs = Inr (planned', counter')"
    using Cons.prems(1) by (auto simp: rbind_def split: sum.splits)
  from plan_requirement_ok [OF one Cons.prems(2)] Cons.IH [OF rest] show ?case
    by (auto simp: list_all2_Cons1)
qed

text \<open>
  Property C24: placement planning is sound. A plan that is accepted has one slot per requirement,
  in order and for that requirement's credential and placement; no two slots write the same target;
  the slot ids are distinct; no slot owns a reserved header, \<open>Authorization\<close> included; and every
  query parameter that carries a credential is on the list of keys that debug output redacts.
\<close>

theorem from_auth_plan_sound:
  assumes "from_auth_plan from_bytes counter plan = Inr (planned, counter')"
  shows "list_all2 (slot_for from_bytes) plan (app_slots planned)
    \<and> sorted_wrt apart (app_slots planned)
    \<and> distinct (map ps_id (app_slots planned))
    \<and> (\<forall>s \<in> set (app_slots planned). forbidden_header_of (ps_placement s) = None)
    \<and> (\<forall>s \<in> set (app_slots planned). \<forall>q. ps_placement s = PpQuery q \<longrightarrow>
         query_key_redacted (app_sensitive_query_keys planned) q)"
proof -
  have "planned_ok counter \<lparr>app_slots = [], app_sensitive_query_keys = []\<rparr>"
    by (simp add: planned_ok_def)
  from plan_requirements_ok [OF assms [unfolded from_auth_plan_def] this]
  have ok: "planned_ok counter' planned"
    and all: "list_all2 (slot_for from_bytes) plan (app_slots planned)" by auto
  have "distinct (map ps_id (app_slots planned))"
    using ok by (auto simp: planned_ok_def strict_sorted_iff)
  with ok all show ?thesis
    by (auto simp: planned_ok_def covers_query_def query_key_redacted_def)
qed

section \<open>Preflight\<close>

definition target_free ::
  "(header_name \<Rightarrow> bool) \<Rightarrow> (string \<times> string) list \<Rightarrow> header_name list \<Rightarrow> planned_auth_placement \<Rightarrow> bool" where
  "target_free has_header query_pairs reserved p =
     (case p of
        PpBearer \<Rightarrow> \<not> has_header ''authorization''
      | PpBasic \<Rightarrow> \<not> has_header ''authorization''
      | PpHeader name \<Rightarrow> \<not> has_header name \<and> name \<notin> set reserved
      | PpQuery name \<Rightarrow> name \<notin> fst ` set query_pairs)"

lemma slot_preflight_iff:
  "slot_preflight has_header query_pairs reserved slot = Inr () \<longleftrightarrow>
     target_free has_header query_pairs reserved (ps_placement slot)"
  by (force simp: slot_preflight_def target_free_def list_ex_iff split: planned_auth_placement.splits)

lemma preflight_slots_iff:
  "preflight_slots has_header query_pairs reserved slots = Inr () \<longleftrightarrow>
     (\<forall>s \<in> set slots. target_free has_header query_pairs reserved (ps_placement s))"
proof (induction slots)
  case (Cons s slots)
  then show ?case
    using slot_preflight_iff [of has_header query_pairs reserved s]
    by (cases "slot_preflight has_header query_pairs reserved s") (auto simp: rbind_def)
qed simp

text \<open>
  The preflight passes exactly when every slot's target is still free in the public
  request: no public \<open>Authorization\<close> header for bearer and Basic, no public or reserved header of a
  slot's name, no public query parameter of a slot's key.
\<close>

theorem preflight_exact:
  "validate_public_request_with_reserved_headers planned has_header query_pairs reserved = Inr () \<longleftrightarrow>
     (\<forall>s \<in> set (app_slots planned). target_free has_header query_pairs reserved (ps_placement s))"
  unfolding validate_public_request_with_reserved_headers_def by (rule preflight_slots_iff)

section \<open>Preparation\<close>

text \<open>What preparation needs of a fetch: a lease it returns is the one the slot now caches.\<close>

locale credential_source =
  fixes fetch :: "('p, 'a) slot_fetch"
  assumes fetch_cached: "fetch cell = Some (Inr lease, cell') \<Longrightarrow> get_cached cell' = Some lease"
    and fetch_id: "fetch cell = Some (r, cell') \<Longrightarrow> cs_id cell' = cs_id cell"
begin

lemma prepare_names_cached_generation:
  assumes "prepare dc fetch binding_of requirement slot st = Some (Inr prepared, st')"
  shows "\<exists>binding lease. binding_of (ar_credential requirement) = Some binding
    \<and> get_cached (st' (apb_slot binding)) = Some lease
    \<and> aac_generation (pac_applied prepared) = Some (cl_generation lease)
    \<and> cs_id (st' (apb_slot binding)) = ar_credential requirement
    \<and> (\<forall>ref. ref \<noteq> apb_slot binding \<longrightarrow> st' ref = st ref)"
proof -
  obtain binding where b: "binding_of (ar_credential requirement) = Some binding"
    and pb: "prepare_binding dc fetch binding requirement slot st = Some (Inr prepared, st')"
    using assms by (auto simp: prepare_def split: option.splits)
  then obtain lease cell where f: "fetch (st (apb_slot binding)) = Some (Inr lease, cell)"
    and i: "cs_id (st (apb_slot binding)) = ar_credential requirement"
    and st': "st' = st(apb_slot binding := cell)"
    and g: "aac_generation (pac_applied prepared) = Some (cl_generation lease)"
    by (auto simp: prepare_binding_def binding_validate_requirement_def Let_def rbind_def with_reuse_def
        prepared_new_def split: option.splits sum.splits if_splits)
  show ?thesis
    using b fetch_cached [OF f] fetch_id [OF f] g i st' by auto
qed

end

text \<open>The fetch is \<open>get_or_refresh\<close>, run by a task that nobody disturbs.\<close>

definition calm :: "'a slot_world \<Rightarrow> 'a slot_world" where
  "calm w = w\<lparr>sw_fetch := (\<lambda>_. id), sw_between := (\<lambda>_. id), sw_drop := (\<lambda>_. id)\<rparr>"

definition calm_fetch ::
  "instant \<Rightarrow> ('a \<Rightarrow> instant option) \<Rightarrow> auth_step_policy \<Rightarrow> 'a slot_world \<Rightarrow> ('p, 'a) slot_fetch" where
  "calm_fetch imax expires_at policy w cell =
     map_option (\<lambda>(r, ns, cell'). (r, cell')) (get_or_refresh 1 imax expires_at policy (calm w) cell)"

lemma calm_undisturbed: "undisturbed (calm w)"
  by (simp add: undisturbed_def calm_def)

lemma refreshing_round_continues:
  assumes "refreshing_handle (csi_state inner) \<noteq> None"
  shows "get_or_refresh_loop 1 imax expires_at policy w i inner = None"
  using assms
  by (auto simp: refreshing_handle_def get_or_refresh_round_def get_or_refresh_lock_def
      lock_refreshing_def split: credential_slot_state.splits)

lemma calm_loop_cached:
  assumes "get_or_refresh_loop 1 imax expires_at policy (calm w) i inner = Some (Inr lease, ns, inner')"
  shows "cached_lease inner' = Some lease"
proof (cases "refreshing_handle (csi_state inner)")
  case None
  from quiet_round [OF calm_undisturbed None, of imax expires_at policy w i] assms show ?thesis by auto
next
  case (Some h)
  with refreshing_round_continues [of inner imax expires_at policy "calm w" i] assms show ?thesis by simp
qed

interpretation calm_source: credential_source "calm_fetch imax expires_at policy w"
proof unfold_locales
  fix cell cell' :: "('b, 'a) credential_slot" and lease
  assume f: "calm_fetch imax expires_at policy w cell = Some (Inr lease, cell')"
  then obtain provider ns inner where p: "provider_ref cell = Inr provider"
    and loop: "get_or_refresh_loop 1 imax expires_at policy (calm w) 0 (cs_inner cell) = Some (Inr lease, ns, inner)"
    and cell': "cell' = cell\<lparr>cs_inner := inner\<rparr>"
    by (auto simp: calm_fetch_def get_or_refresh_def split: sum.splits)
  have "cs_init_error cell = None"
    using p by (auto simp: provider_ref_def split: option.splits)
  then show "get_cached cell' = Some lease"
    using calm_loop_cached [OF loop] by (simp add: get_cached_def cell')
next
  fix cell cell' :: "('b, 'a) credential_slot" and r
  assume "calm_fetch imax expires_at policy w cell = Some (r, cell')"
  then show "cs_id cell' = cs_id cell"
    by (auto simp: calm_fetch_def get_or_refresh_def split: sum.splits)
qed

text \<open>
  A credential that was prepared is tied to what the slot really holds: the
  generation recorded for it is the generation of the lease its slot caches at that moment, the
  slot is the one bound to the required credential, and no other slot changed.
\<close>

theorem prepared_generation_is_cached:
  assumes "prepare dc (calm_fetch imax expires_at policy w) binding_of requirement slot st
      = Some (Inr prepared, st')"
  shows "\<exists>binding lease. binding_of (ar_credential requirement) = Some binding
    \<and> get_cached (st' (apb_slot binding)) = Some lease
    \<and> aac_generation (pac_applied prepared) = Some (cl_generation lease)
    \<and> cs_id (st' (apb_slot binding)) = ar_credential requirement
    \<and> (\<forall>ref. ref \<noteq> apb_slot binding \<longrightarrow> st' ref = st ref)"
  by (rule calm_source.prepare_names_cached_generation [OF assms])

lemma placement_for_matches:
  assumes "placement_for from_bytes p q" and "\<And>name n. from_bytes name = Some n \<Longrightarrow> eq_ignore_ascii_case n name"
  shows "placement_matches_requirement q p"
  using assms by (cases p) auto

lemma apply_secret_fits:
  "apply_secret_credential slot requirement v = Inr m \<Longrightarrow>
   material_slot_id m = ps_id slot \<and> material_matches_slot m slot"
  by (auto simp: apply_secret_credential_def material_matches_slot_def rbind_def
      split: sum.splits planned_auth_placement.splits)

lemma apply_basic_fits:
  "apply_basic_credential slot requirement v = Inr m \<Longrightarrow>
   material_slot_id m = ps_id slot \<and> material_matches_slot m slot"
  by (auto simp: apply_basic_credential_def material_matches_slot_def rbind_def
      split: sum.splits planned_auth_placement.splits)

lemma materialize_fits:
  "materialize dc k v slot requirement = Inr m \<Longrightarrow>
   material_slot_id m = ps_id slot \<and> material_matches_slot m slot"
  by (auto simp: materialize_def materialize_secret_def materialize_basic_def rbind_Inr_iff
      dest: apply_secret_fits apply_basic_fits split: materializer.splits)

text \<open>
  The binding checks never reject what planning and preparation produce. For a slot
  planned for a requirement, application passes the slot check, and whatever preparation returns
  passes \<open>validate_binding\<close>: material never travels to a slot it was not made for.
\<close>

theorem prepared_credential_fits_slot:
  assumes "slot_for from_bytes requirement slot"
    and "\<And>name n. from_bytes name = Some n \<Longrightarrow> eq_ignore_ascii_case n name"
    and "prepare dc fetch binding_of requirement slot st = Some (Inr prepared, st')"
  shows "validate_requirement slot requirement = Inr () \<and> validate_binding prepared slot = Inr ()"
proof -
  obtain binding where "prepare_binding dc fetch binding requirement slot st = Some (Inr prepared, st')"
    using assms(3) by (auto simp: prepare_def split: option.splits)
  then obtain v g m where m: "materialize dc (apb_materializer binding) v slot requirement = Inr m"
    and prepared: "pac_material prepared = m" "pac_applied prepared =
        \<lparr>aac_credential_id = ar_credential requirement, aac_usage_id = ar_usage_id requirement,
         aac_step_id = ar_step_id requirement, aac_generation = Some g,
         aac_provenance = ar_provenance requirement\<rparr>"
    by (auto simp: prepare_binding_def Let_def rbind_Inr_iff with_reuse_def prepared_new_def
        split: option.splits sum.splits)
  show ?thesis
    using assms(1) materialize_fits [OF m] placement_for_matches [OF _ assms(2)]
    by (auto simp: slot_for_def validate_requirement_def validate_binding_def prepared)
qed

section \<open>Rejection plans\<close>

fun action_generation :: "auth_rejection_action \<Rightarrow> u64 option" where
  "action_generation (Terminal _ _ _ g _) = g"
| "action_generation (Recover _ _ _ g _ _) = g"

fun action_credential :: "auth_rejection_action \<Rightarrow> credential_id" where
  "action_credential (Terminal c _ _ _ _) = c"
| "action_credential (Recover c _ _ _ _ _) = c"

lemma action_matchesD:
  "action_matches action requirement applied \<Longrightarrow>
   action_generation action = aac_generation applied \<and> action_credential action = ar_credential requirement"
  by (cases action) (auto simp: identity_matches_def)

definition names_a_use :: "auth_plan \<Rightarrow> auth_applied_credential list \<Rightarrow> auth_rejection_action \<Rightarrow> bool" where
  "names_a_use requirements applied action \<longleftrightarrow>
     (\<exists>use \<in> set applied. \<exists>req \<in> set requirements. same_use use req \<and> action_matches action req use)"

definition recoveries :: "auth_rejection_plan \<Rightarrow> nat" where
  "recoveries actions = length (filter requests_recovery actions)"

lemma append_validated_recoveries:
  "recoveries actions \<le> 1 \<Longrightarrow> recoveries (append_validated actions action) \<le> 1"
proof (cases "plan_requests_recovery actions")
  case False
  then have "filter requests_recovery actions = []"
    by (auto simp: plan_requests_recovery_def list_ex_iff filter_empty_conv)
  then show ?thesis
    by (cases action) (auto simp: append_validated_def recoveries_def)
qed (cases action; auto simp: append_validated_def recoveries_def)

lemma append_validated_set: "set (append_validated actions action) \<subseteq> insert action (set actions)"
  by (cases action) (auto simp: append_validated_def)

lemma classify_applied_ok:
  assumes "classify_applied st binding_of ctx requirements status uses aggregate = Inr actions"
    and "\<forall>a \<in> set aggregate. names_a_use requirements applied a" and "set uses \<subseteq> set applied"
    and "recoveries aggregate \<le> 1"
  shows "(\<forall>a \<in> set actions. names_a_use requirements applied a) \<and> recoveries actions \<le> 1"
  using assms
proof (induction uses arbitrary: aggregate)
  case Nil
  then show ?case by simp
next
  case (Cons use uses)
  obtain req action where find: "find (same_use use) requirements = Some req"
    and m: "action_matches action req use"
    and rest: "classify_applied st binding_of ctx requirements status uses (append_validated aggregate action)
        = Inr actions"
    using Cons.prems(1) by (auto split: option.splits sum.splits if_splits)
  have "req \<in> set requirements" "same_use use req"
    using find by (auto simp: find_Some_iff)
  then have "names_a_use requirements applied action"
    using m Cons.prems(3) unfolding names_a_use_def by auto
  then have "\<forall>a \<in> set (append_validated aggregate action). names_a_use requirements applied a"
    using Cons.prems(2) append_validated_set [of aggregate action] by blast
  with Cons.IH [OF rest] Cons.prems(3,4) append_validated_recoveries show ?case by simp
qed

lemma find_use_Some:
  assumes "find_use action requirements applied = Some (req, use)"
  shows "use \<in> set applied \<and> req \<in> set requirements \<and> same_use use req \<and> action_matches action req use"
  using assms by (induction applied) (auto simp: find_Some_iff split: option.splits)

lemma find_use_complete:
  "names_a_use requirements applied action \<Longrightarrow> \<exists>p. find_use action requirements applied = Some p"
proof (induction applied)
  case Nil
  then show ?case by (simp add: names_a_use_def)
next
  case (Cons use applied)
  let ?P = "\<lambda>req. same_use use req \<and> action_matches action req use"
  show ?case
  proof (cases "find ?P requirements")
    case None
    then have "names_a_use requirements applied action"
      using Cons.prems by (auto simp: names_a_use_def find_None_iff)
    with Cons.IH None show ?thesis by simp
  qed simp
qed

lemma resolve_actions_ok:
  assumes "\<forall>a \<in> set actions. names_a_use requirements applied a"
  shows "\<exists>resolved. resolve_actions ctx requirements applied actions = Inr resolved"
  unfolding resolve_actions_def
  using assms
proof (induction actions)
  case (Cons a actions)
  obtain req use where "find_use a requirements applied = Some (req, use)"
    using find_use_complete [of requirements applied a] Cons.prems by auto
  with Cons show ?case by (auto simp: rbind_def)
qed simp

text \<open>
  Property C25: a challenge leads to at most one recovery, and its plan is always applicable. A
  classified rejection plan is not empty, holds at most one recovering action, and each of its
  actions names a credential use of this execution, so that resolving the plan cannot fail. A plan
  that does not resolve leaves every credential slot as it was.
\<close>

theorem rejection_plan_resolves:
  assumes "classify_auth_rejection st binding_of ctx requirements status applied = Inr (Some actions)"
  shows "actions \<noteq> [] \<and> recoveries actions \<le> 1
    \<and> (\<forall>a \<in> set actions. names_a_use requirements applied a)
    \<and> (\<exists>resolved. resolve_actions ctx requirements applied actions = Inr resolved)
    \<and> (\<forall>e plan. resolve_actions ctx requirements applied plan = Inl e \<longrightarrow>
         apply_auth_rejection_plan pinv binding_of application ctx requirements applied plan status st
           = (Inl e, st))"
proof -
  have run: "classify_applied st binding_of ctx requirements status applied [] = Inr actions"
    and ne: "actions \<noteq> []"
    using assms by (auto simp: classify_auth_rejection_def rbind_Inr_iff split: if_splits)
  have ok: "(\<forall>a \<in> set actions. names_a_use requirements applied a) \<and> recoveries actions \<le> 1"
    by (rule classify_applied_ok [OF run]) (auto simp: recoveries_def)
  then show ?thesis
    using ne resolve_actions_ok [of actions requirements applied ctx]
    by (auto simp: apply_auth_rejection_plan_def)
qed

section \<open>Exact invalidation\<close>

definition slot_lease :: "('p, 'a) credential_slot \<Rightarrow> 'a credential_lease option" where
  "slot_lease cell = cached_lease (cs_inner cell)"

definition dropped_or_kept :: "('p, 'a) auth_state \<Rightarrow> ('p, 'a) auth_state \<Rightarrow> bool" where
  "dropped_or_kept st st' \<longleftrightarrow> (\<forall>ref. slot_lease (st' ref) = slot_lease (st ref) \<or> slot_lease (st' ref) = None)"

lemma dropped_or_kept_trans:
  "dropped_or_kept st st' \<Longrightarrow> dropped_or_kept st' st'' \<Longrightarrow> dropped_or_kept st st''"
  unfolding dropped_or_kept_def by metis

lemma dropped_or_kept_refl: "dropped_or_kept st st"
  by (simp add: dropped_or_kept_def)

lemma invalidate_state_lease:
  assumes "invalidate_generation_state (Some g) inner = (q, inner')"
  shows "(cached_lease inner' = cached_lease inner \<or> cached_lease inner' = None)
    \<and> (\<forall>a. q = Inr a \<longrightarrow> cached_lease inner' \<noteq> Some \<lparr>cl_value = v, cl_generation = g\<rparr>)"
  using assms
  by (auto simp: invalidate_generation_state_def cached_lease_def Let_def matches_generation_def
      split: credential_slot_state.splits refresh_previous.splits if_splits option.splits)

lemma invalidate_state_kept:
  assumes "invalidate_generation_state expected inner = (q, inner')"
  shows "cached_lease inner' = cached_lease inner \<or> cached_lease inner' = None"
  using invalidate_cases [OF assms] by (auto simp: cached_lease_def)

text \<open>Both ways to invalidate a slot are the same critical section.\<close>

lemma invalidate_slot:
  assumes "invalidate_generation pinv expected reason cell = (r, cell')
    \<or> invalidate_generation_local expected cell = (r, cell')"
  shows "(cell' = cell \<and> isl r)
    \<or> (\<exists>q inner. invalidate_generation_state expected (cs_inner cell) = (q, inner)
         \<and> cs_inner cell' = inner \<and> (r = Inr () \<longrightarrow> \<not> isl q))"
  using assms
  by (auto simp: invalidate_generation_def invalidate_generation_local_def slot_inner_update_def
      split: sum.splits prod.splits)

lemma apply_rejection_effect:
  assumes "apply_rejection pinv binding_of application action req use status st = (r, st')"
  shows "dropped_or_kept st st'
    \<and> (\<forall>ref. (\<forall>b. binding_of (ar_credential req) = Some b \<longrightarrow> ref \<noteq> apb_slot b) \<longrightarrow> st' ref = st ref)
    \<and> (r = Inr () \<longrightarrow> rejection_invalidation_reason action status \<noteq> None \<longrightarrow>
         (\<forall>b g v. binding_of (ar_credential req) = Some b \<longrightarrow> aac_generation use = Some g \<longrightarrow>
            slot_lease (st' (apb_slot b)) \<noteq> Some \<lparr>cl_value = v, cl_generation = g\<rparr>))"
proof (cases "\<exists>b cell reason. binding_of (ar_credential req) = Some b
    \<and> (invalidate_generation pinv (aac_generation use) reason (st (apb_slot b)) = (r, cell)
       \<or> invalidate_generation_local (aac_generation use) (st (apb_slot b)) = (r, cell))
    \<and> st' = st(apb_slot b := cell)")
  case True
  then obtain b cell reason where b: "binding_of (ar_credential req) = Some b"
    and inv: "invalidate_generation pinv (aac_generation use) reason (st (apb_slot b)) = (r, cell)
       \<or> invalidate_generation_local (aac_generation use) (st (apb_slot b)) = (r, cell)"
    and st': "st' = st(apb_slot b := cell)" by blast
  from invalidate_slot [OF inv] show ?thesis
  proof
    assume "cell = st (apb_slot b) \<and> isl r"
    then show ?thesis using b st' by (auto simp: dropped_or_kept_refl)
  next
    assume "\<exists>q inner. invalidate_generation_state (aac_generation use) (cs_inner (st (apb_slot b))) = (q, inner)
      \<and> cs_inner cell = inner \<and> (r = Inr () \<longrightarrow> \<not> isl q)"
    then obtain q inner where q: "invalidate_generation_state (aac_generation use) (cs_inner (st (apb_slot b))) = (q, inner)"
      and cell: "cs_inner cell = inner" and ok: "r = Inr () \<longrightarrow> \<not> isl q" by blast
    have "dropped_or_kept st st'"
      using invalidate_state_kept [OF q] by (auto simp: dropped_or_kept_def slot_lease_def st' cell)
    moreover have "slot_lease (st' (apb_slot b)) \<noteq> Some \<lparr>cl_value = v, cl_generation = g\<rparr>"
      if "aac_generation use = Some g" "r = Inr ()" for g v
      using invalidate_state_lease [of g "cs_inner (st (apb_slot b))" q inner v] q that ok
      by (cases q) (auto simp: slot_lease_def st' cell)
    ultimately show ?thesis using b st' by auto
  qed
next
  case False
  then have "st' = st \<and> (r = Inr () \<longrightarrow> rejection_invalidation_reason action status = None)"
    using assms
    by (auto simp: apply_rejection_def apply_binding_rejection_def
        apply_binding_rejection_invalidation_only_def
        split: option.splits sum.splits if_splits prod.splits auth_rejection_application.splits)
  then show ?thesis by (auto simp: dropped_or_kept_refl)
qed

lemma apply_resolved_effect:
  assumes "apply_resolved pinv binding_of application ctx status resolved st = (Inr (), st')"
    and "\<forall>(action, req, use) \<in> set resolved. action_matches action req use"
  shows "dropped_or_kept st st'
    \<and> (\<forall>ref. (\<forall>(action, req, use) \<in> set resolved. \<forall>b. binding_of (ar_credential req) = Some b \<longrightarrow>
               ref \<noteq> apb_slot b) \<longrightarrow> st' ref = st ref)
    \<and> (\<forall>(action, req, use) \<in> set resolved. rejection_invalidation_reason action status \<noteq> None \<longrightarrow>
         (\<forall>b g v. binding_of (ar_credential req) = Some b \<longrightarrow> aac_generation use = Some g \<longrightarrow>
            slot_lease (st' (apb_slot b)) \<noteq> Some \<lparr>cl_value = v, cl_generation = g\<rparr>))"
  using assms
proof (induction resolved arbitrary: st)
  case Nil
  then show ?case by (simp add: dropped_or_kept_refl)
next
  case (Cons x resolved)
  obtain action req use where x: "x = (action, req, use)" by (cases x)
  obtain st1 where one: "apply_rejection pinv binding_of application action req use status st = (Inr (), st1)"
    and rest: "apply_resolved pinv binding_of application ctx status resolved st1 = (Inr (), st')"
    using Cons.prems(1) by (auto simp: x split: prod.splits sum.splits)
  note e1 = apply_rejection_effect [OF one]
  have e2: "dropped_or_kept st1 st'"
    "\<forall>ref. (\<forall>(action, req, use) \<in> set resolved. \<forall>b. binding_of (ar_credential req) = Some b \<longrightarrow>
               ref \<noteq> apb_slot b) \<longrightarrow> st' ref = st1 ref"
    "\<forall>(action, req, use) \<in> set resolved. rejection_invalidation_reason action status \<noteq> None \<longrightarrow>
         (\<forall>b g v. binding_of (ar_credential req) = Some b \<longrightarrow> aac_generation use = Some g \<longrightarrow>
            slot_lease (st' (apb_slot b)) \<noteq> Some \<lparr>cl_value = v, cl_generation = g\<rparr>)"
    using Cons.IH [OF rest] Cons.prems(2) by simp_all
  have "slot_lease (st' (apb_slot b)) \<noteq> Some \<lparr>cl_value = v, cl_generation = g\<rparr>"
    if "rejection_invalidation_reason action status \<noteq> None" "binding_of (ar_credential req) = Some b"
      "aac_generation use = Some g" for b g v
  proof -
    have "slot_lease (st1 (apb_slot b)) \<noteq> Some \<lparr>cl_value = v, cl_generation = g\<rparr>"
      using e1 that by blast
    then show ?thesis
      using e2(1) unfolding dropped_or_kept_def by (metis option.distinct(1))
  qed
  moreover have "dropped_or_kept st st'" using e1 e2(1) dropped_or_kept_trans by blast
  ultimately show ?case using e1 e2 by (auto simp: x)
qed

lemma resolve_actions_members:
  assumes "resolve_actions ctx requirements applied actions = Inr resolved"
  shows "map fst resolved = actions
    \<and> (\<forall>(action, req, use) \<in> set resolved. action_matches action req use \<and> use \<in> set applied)"
  using assms unfolding resolve_actions_def collect_results_Inr_iff
proof (induction rule: list_all2_induct)
  case (Cons a actions y ys)
  then obtain req use where "find_use a requirements applied = Some (req, use)" "y = (a, req, use)"
    by (auto split: option.splits)
  with Cons.IH find_use_Some [of a requirements applied req use] show ?case by simp
qed simp

text \<open>
  Applying a rejection plan invalidates exactly what was rejected. When it succeeds,
  no slot of an invalidating action caches the rejected generation any more, no slot gained or
  changed a cached credential, and slots of credentials the plan does not name are untouched.
\<close>

theorem applied_rejection_invalidates:
  assumes "apply_auth_rejection_plan pinv binding_of application ctx requirements applied actions status st
      = (Inr (), st')"
    and "action \<in> set actions" and "rejection_invalidation_reason action status \<noteq> None"
    and "action_generation action = Some g" and "binding_of (action_credential action) = Some b"
  shows "slot_lease (st' (apb_slot b)) \<noteq> Some \<lparr>cl_value = v, cl_generation = g\<rparr>
    \<and> (\<forall>ref. slot_lease (st' ref) = slot_lease (st ref) \<or> slot_lease (st' ref) = None)
    \<and> (\<forall>ref. (\<forall>a \<in> set actions. \<forall>b. binding_of (action_credential a) = Some b \<longrightarrow> ref \<noteq> apb_slot b) \<longrightarrow>
         st' ref = st ref)"
proof -
  obtain resolved where res: "resolve_actions ctx requirements applied actions = Inr resolved"
    and run: "apply_resolved pinv binding_of application ctx status resolved st = (Inr (), st')"
    using assms(1) by (auto simp: apply_auth_rejection_plan_def split: sum.splits)
  note mem = resolve_actions_members [OF res]
  then have actions: "set actions = fst ` set resolved" by (metis list.set_map)
  have "\<forall>(action, req, use) \<in> set resolved. action_matches action req use" using mem by auto
  note eff = apply_resolved_effect [OF run this]
  obtain req use where r: "(action, req, use) \<in> set resolved"
    using assms(2) actions by force
  then have "action_generation action = aac_generation use" "action_credential action = ar_credential req"
    using mem action_matchesD [of action req use] by auto
  then have gone: "slot_lease (st' (apb_slot b)) \<noteq> Some \<lparr>cl_value = v, cl_generation = g\<rparr>"
    using eff r assms(3,4,5) by fastforce
  have untouched: "st' ref = st ref"
    if "\<forall>a \<in> set actions. \<forall>b. binding_of (action_credential a) = Some b \<longrightarrow> ref \<noteq> apb_slot b" for ref
  proof -
    have "\<forall>b. binding_of (ar_credential q) = Some b \<longrightarrow> ref \<noteq> apb_slot b"
      if m: "(a, q, u) \<in> set resolved" for a q u
    proof -
      have "a \<in> set actions" using m actions by force
      moreover have "action_credential a = ar_credential q"
        using m mem action_matchesD [of a q u] by auto
      ultimately show ?thesis using \<open>\<forall>a \<in> set actions. _\<close> by auto
    qed
    then show ?thesis using eff by blast
  qed
  have "dropped_or_kept st st'" using eff by (rule conjunct1)
  then show ?thesis using gone untouched unfolding dropped_or_kept_def by blast
qed

text \<open>
  A recovering action always invalidates before it refreshes, also when the decision itself asked
  for no invalidation.
\<close>

lemma recovery_always_invalidates:
  "rejection_invalidation_reason (action_recover requirement applied reason None) status \<noteq> None"
  by (simp add: rejection_invalidation_reason_def action_recover_def then_some_def)

section \<open>Sample runs\<close>

definition auth_cid :: credential_id where
  "auth_cid = \<lparr>cid_namespace = ''n'', cid_name = ''c''\<rparr>"

definition auth_req :: auth_requirement where
  "auth_req =
     \<lparr>ar_credential = auth_cid, ar_placement = PlBearer, ar_usage_id = ''u'', ar_step_id = None,
      ar_provenance = ''p'', ar_challenge = ChUnauthorized\<rparr>"

definition auth_slot :: planned_auth_slot where
  "auth_slot =
     \<lparr>ps_id = 1, ps_credential = auth_cid, ps_usage_id = ''u'', ps_step_id = None,
      ps_provenance = ''p'', ps_placement = PpBearer\<rparr>"

definition auth_cell :: "(unit, nat) credential_slot" where
  "auth_cell =
     \<lparr>cs_id = auth_cid, cs_provider = Some (), cs_init_error = None,
      cs_inner = \<lparr>csi_state = SlotValid 7 3, csi_next_owner = 3\<rparr>\<rparr>"

definition auth_cells :: "(unit, nat) auth_state" where
  "auth_cells = (\<lambda>_. auth_cell)"

definition auth_bindings :: binding_lookup where
  "auth_bindings c = (if c = auth_cid then Some (secret_binding 0 PerExecution Refresh) else None)"

definition auth_downcasts :: "nat downcasts" where
  "auth_downcasts = \<lparr>dc_as_secret = (\<lambda>_. Some ''k''), dc_as_basic = (\<lambda>_. None)\<rparr>"

definition auth_use :: auth_applied_credential where
  "auth_use =
     \<lparr>aac_credential_id = auth_cid, aac_usage_id = ''u'', aac_step_id = None,
      aac_generation = Some 3, aac_provenance = ''p''\<rparr>"

lemma auth_planned:
  "from_auth_plan (\<lambda>n. Some n) 1 [auth_req] =
     Inr (\<lparr>app_slots = [auth_slot], app_sensitive_query_keys = []\<rparr>, 2)"
  by (simp add: from_auth_plan_def plan_requirement_def auth_req_def rbind_def forbidden_header_of_def
      auth_slot_id_next_def cred_one_add auth_slot_def)

theorem from_auth_plan_sound_witness:
  "list_all2 (slot_for (\<lambda>n. Some n)) [auth_req] [auth_slot] \<and> distinct (map ps_id [auth_slot])"
  using from_auth_plan_sound [OF auth_planned] by simp

theorem preflight_exact_witness:
  "validate_public_request_with_reserved_headers \<lparr>app_slots = [auth_slot], app_sensitive_query_keys = []\<rparr>
       (\<lambda>n. n = ''te'') [] [] = Inr ()
   \<and> validate_public_request_with_reserved_headers \<lparr>app_slots = [auth_slot], app_sensitive_query_keys = []\<rparr>
       (\<lambda>n. n = ''authorization'') [] [] \<noteq> Inr ()"
  by (simp add: preflight_exact auth_slot_def target_free_def)

lemma auth_prepared:
  "\<exists>prepared. prepare auth_downcasts (calm_fetch 1000 (\<lambda>_. None) auth_step_policy_default cred_world)
     auth_bindings auth_req auth_slot auth_cells = Some (Inr prepared, auth_cells)"
proof -
  have "calm_fetch 1000 (\<lambda>_. None) auth_step_policy_default cred_world auth_cell =
      Some (Inr \<lparr>cl_value = 7, cl_generation = 3\<rparr>, auth_cell)"
    by (simp add: calm_fetch_def get_or_refresh_def provider_ref_def auth_cell_def
        get_or_refresh_round_def get_or_refresh_lock_def lock_valid_def credential_refresh_reason_of_def)
  then show ?thesis
    by (simp add: prepare_def auth_bindings_def auth_req_def prepare_binding_def secret_binding_def
        binding_validate_requirement_def auth_cells_def auth_cell_def rbind_def materialize_def
        materialize_secret_def auth_downcasts_def apply_secret_credential_def validate_requirement_def
        auth_slot_def Let_def fun_eq_iff)
qed

theorem prepared_generation_is_cached_witness:
  "\<exists>prepared lease. prepare auth_downcasts
       (calm_fetch 1000 (\<lambda>_. None) auth_step_policy_default cred_world) auth_bindings auth_req auth_slot
       auth_cells = Some (Inr prepared, auth_cells)
     \<and> get_cached (auth_cells 0) = Some lease
     \<and> aac_generation (pac_applied prepared) = Some (cl_generation lease)"
proof -
  obtain prepared where run: "prepare auth_downcasts
       (calm_fetch 1000 (\<lambda>_. None) auth_step_policy_default cred_world) auth_bindings auth_req auth_slot
       auth_cells = Some (Inr prepared, auth_cells)"
    using auth_prepared by blast
  from prepared_generation_is_cached [OF run]
  obtain lease where "get_cached (auth_cells 0) = Some lease"
    and "aac_generation (pac_applied prepared) = Some (cl_generation lease)"
    by (auto simp: auth_cells_def)
  with run show ?thesis by blast
qed

theorem prepared_credential_fits_slot_witness:
  "\<exists>prepared. prepare auth_downcasts
       (calm_fetch 1000 (\<lambda>_. None) auth_step_policy_default cred_world) auth_bindings auth_req auth_slot
       auth_cells = Some (Inr prepared, auth_cells) \<and> validate_binding prepared auth_slot = Inr ()"
proof -
  obtain prepared where run: "prepare auth_downcasts
       (calm_fetch 1000 (\<lambda>_. None) auth_step_policy_default cred_world) auth_bindings auth_req auth_slot
       auth_cells = Some (Inr prepared, auth_cells)"
    using auth_prepared by blast
  have "slot_for (\<lambda>n. Some n) auth_req auth_slot"
    by (simp add: slot_for_def auth_req_def auth_slot_def)
  from prepared_credential_fits_slot [OF this _ run] run show ?thesis by auto
qed

definition auth_action :: auth_rejection_action where
  "auth_action = Recover auth_cid ''u'' None (Some 3) RecUnauthorized (Some IrUnauthorized)"

lemma auth_classified:
  "classify_auth_rejection auth_cells auth_bindings ctx [auth_req] 401 [auth_use] = Inr (Some [auth_action])"
  by (simp add: classify_auth_rejection_def is_protected_auth_rejection_def UNAUTHORIZED_def
      same_use_def auth_req_def auth_use_def plan_rejection_def auth_bindings_def
      plan_binding_rejection_def binding_validate_requirement_def auth_cells_def auth_cell_def
      auth_decision_for_status_def auth_step_policy_default_def then_some_def secret_binding_def
      action_recover_def identity_matches_def append_validated_def plan_requests_recovery_def
      auth_action_def rbind_def)

theorem rejection_plan_resolves_witness:
  "recoveries [auth_action] \<le> 1 \<and> names_a_use [auth_req] [auth_use] auth_action"
  using rejection_plan_resolves [OF auth_classified [of "\<lparr>ec_endpoint = ''e'', ec_method = ''GET''\<rparr>"]]
  by simp

lemma auth_rejected:
  "\<exists>st'. apply_auth_rejection_plan (\<lambda>_ _ _. Inr ()) auth_bindings InvalidationOnly ctx [auth_req]
     [auth_use] [auth_action] 401 auth_cells = (Inr (), st')"
  by (simp add: apply_auth_rejection_plan_def resolve_actions_def same_use_def auth_req_def auth_use_def
      auth_action_def identity_matches_def apply_rejection_def auth_bindings_def
      apply_binding_rejection_invalidation_only_def binding_validate_requirement_def auth_cells_def
      auth_cell_def rejection_invalidation_reason_def secret_binding_def
      invalidate_generation_local_def invalidate_generation_state_def matches_generation_def
      checked_add_def)

theorem applied_rejection_invalidates_witness:
  "\<exists>st'. apply_auth_rejection_plan (\<lambda>_ _ _. Inr ()) auth_bindings InvalidationOnly
       \<lparr>ec_endpoint = ''e'', ec_method = ''GET''\<rparr> [auth_req] [auth_use] [auth_action] 401 auth_cells
         = (Inr (), st')
     \<and> slot_lease (st' 0) \<noteq> Some \<lparr>cl_value = 7, cl_generation = 3\<rparr>"
proof -
  obtain st' where run: "apply_auth_rejection_plan (\<lambda>_ _ _. Inr ()) auth_bindings InvalidationOnly
       \<lparr>ec_endpoint = ''e'', ec_method = ''GET''\<rparr> [auth_req] [auth_use] [auth_action] 401 auth_cells
         = (Inr (), st')"
    using auth_rejected by blast
  have b: "auth_bindings (action_credential auth_action) = Some (secret_binding 0 PerExecution Refresh)"
    by (simp add: auth_bindings_def auth_action_def)
  have "slot_lease (st' (apb_slot (secret_binding 0 PerExecution Refresh)))
      \<noteq> Some \<lparr>cl_value = 7, cl_generation = 3\<rparr>"
    using applied_rejection_invalidates [OF run _ _ _ b, of 3 7]
    by (simp add: auth_action_def rejection_invalidation_reason_def)
  with run show ?thesis by (auto simp: secret_binding_def)
qed

end
