(* ===== verification/Transport.thy ===== *)
theory Transport
  imports AuthPlan
begin

text \<open>
  The transport boundary (\<open>transport.rs\<close>): TLS preflight, writing prepared credentials into the
  native request, and the response stream that accounts every byte against a limit. The header
  map, the URL, \<open>HeaderValue::from_str\<close> and the base64 encoder are arguments; a native response
  body is the sequence of frames it will deliver.
\<close>

section \<open>TLS preflight\<close>

datatype tls_capability = TlsAvailable | TlsUnavailable

definition preflight_scheme :: "tls_capability \<Rightarrow> string \<Rightarrow> bool" where
  "preflight_scheme capability scheme = (\<not> (scheme = ''https'' \<and> capability = TlsUnavailable))"

section \<open>Materialising credentials\<close>

record ('h, 'u) native_request =
  nr_headers :: 'h
  nr_url :: 'u

record ('h, 'v, 'u) native_ops =
  no_headers :: "('h, 'v) header_map_ops"
  no_append_pair :: "'u \<Rightarrow> string \<Rightarrow> string \<Rightarrow> 'u"
  no_value_from_str :: "string \<Rightarrow> 'v option"
  no_base64 :: "string \<Rightarrow> string"

definition insert_auth_header ::
  "('h, 'v, 'u) native_ops \<Rightarrow> header_name \<Rightarrow> string \<Rightarrow> string \<Rightarrow> ('h, 'u) native_request
    \<Rightarrow> (auth_error, ('h, 'u) native_request) result" where
  "insert_auth_header ops name text msg message =
     (case no_value_from_str ops text of
        None \<Rightarrow> Inl (auth_error_new UnsupportedScheme msg)
      | Some v \<Rightarrow> Inr (message\<lparr>nr_headers := hmo_insert (no_headers ops) (nr_headers message) name v\<rparr>))"

definition materialize_slot ::
  "('h, 'v, 'u) native_ops \<Rightarrow> planned_auth_slot \<Rightarrow> auth_transport_material \<Rightarrow> ('h, 'u) native_request
    \<Rightarrow> (auth_error, ('h, 'u) native_request) result" where
  "materialize_slot ops slot material message =
     (case (ps_placement slot, material) of
        (PpBearer, MatSecret _ secret) \<Rightarrow>
          insert_auth_header ops ''authorization'' (''Bearer '' @ secret)
            ''invalid bearer header value'' message
      | (PpHeader name, MatSecret _ secret) \<Rightarrow>
          insert_auth_header ops name secret ''invalid auth header value'' message
      | (PpQuery name, MatSecret _ secret) \<Rightarrow>
          Inr (message\<lparr>nr_url := no_append_pair ops (nr_url message) name secret\<rparr>)
      | (PpBasic, MatBasic _ username password) \<Rightarrow>
          insert_auth_header ops ''authorization''
            (''Basic '' @ no_base64 ops (username @ '':'' @ password))
            ''invalid basic header value'' message
      | _ \<Rightarrow>
          Inl (auth_error_new UnsupportedScheme
            (''credential material does not match auth placement for `'' @ ps_usage_id slot @ ''`'')))"

definition by_slot :: "auth_transport_material list \<Rightarrow> (auth_slot_id, auth_transport_material) hash_map" where
  "by_slot materials = foldl (\<lambda>m material. AList.update (material_slot_id material) material m) [] materials"

fun materialize_slots ::
  "('h, 'v, 'u) native_ops \<Rightarrow> (auth_slot_id, auth_transport_material) hash_map \<Rightarrow> planned_auth_slot list
    \<Rightarrow> ('h, 'u) native_request \<Rightarrow> (auth_error, ('h, 'u) native_request) result" where
  "materialize_slots ops table [] message = Inr message"
| "materialize_slots ops table (slot # slots) message =
     (case map_of table (ps_id slot) of
        None \<Rightarrow>
          Inl (auth_error_new MissingCredential
            (''missing materialized credential `'' @ cid_namespace (ps_credential slot) @ ''.''
               @ cid_name (ps_credential slot) @ ''` for auth usage `'' @ ps_usage_id slot @ ''`''))
      | Some material \<Rightarrow>
          rbind (materialize_slot ops slot material message) (materialize_slots ops table slots))"

definition materialize_authentication ::
  "('h, 'v, 'u) native_ops \<Rightarrow> ('h, 'u) native_request \<Rightarrow> auth_placement_plan
    \<Rightarrow> auth_transport_material list \<Rightarrow> (auth_error, ('h, 'u) native_request) result" where
  "materialize_authentication ops message planned materials =
     materialize_slots ops (by_slot materials) (app_slots planned) message"

section \<open>The bounded response stream\<close>

datatype frame = FData "u8 list" | FTrailers

datatype body_error =
    LimitExceeded u64 u64
  | TransportFailure

text \<open>What the native body delivers next; an exhausted list is the end of the body.\<close>

datatype body_item = ItemFrame frame | ItemError

record bounded_response_stream =
  brs_body :: "body_item list"
  brs_limit :: "u64 option"
  brs_seen :: u64
  brs_terminal :: bool

definition set_limit :: "bounded_response_stream \<Rightarrow> u64 \<Rightarrow> bounded_response_stream" where
  "set_limit s limit = s\<lparr>brs_limit := Some limit\<rparr>"

definition poll_frame ::
  "bounded_response_stream \<Rightarrow> (body_error, frame) result option \<times> bounded_response_stream" where
  "poll_frame s =
     (if brs_terminal s then (None, s)
      else
        (case brs_body s of
           [] \<Rightarrow> (None, s\<lparr>brs_terminal := True\<rparr>)
         | ItemError # rest \<Rightarrow>
             (Some (Inl TransportFailure), s\<lparr>brs_body := rest, brs_terminal := True\<rparr>)
         | ItemFrame FTrailers # rest \<Rightarrow> (Some (Inr FTrailers), s\<lparr>brs_body := rest\<rparr>)
         | ItemFrame (FData data) # rest \<Rightarrow>
             (let actual = saturating_add (brs_seen s) (word_of_nat (length data)) in
              case brs_limit s of
                Some limit \<Rightarrow>
                  if limit < actual
                  then (Some (Inl (LimitExceeded limit actual)),
                        s\<lparr>brs_body := rest, brs_terminal := True\<rparr>)
                  else (Some (Inr (FData data)), s\<lparr>brs_body := rest, brs_seen := actual\<rparr>)
              | None \<Rightarrow> (Some (Inr (FData data)), s\<lparr>brs_body := rest, brs_seen := actual\<rparr>))))"

lemma poll_frame_shrinks:
  "poll_frame s = (Some (Inr f), s') \<Longrightarrow> length (brs_body s') < length (brs_body s)"
  by (auto simp: poll_frame_def Let_def split: if_splits list.splits body_item.splits frame.splits
      option.splits)

function next_chunk ::
  "bounded_response_stream \<Rightarrow> (body_error, u8 list option) result \<times> bounded_response_stream" where
  "next_chunk s =
     (case poll_frame s of
        (None, s') \<Rightarrow> (Inr None, s')
      | (Some (Inl e), s') \<Rightarrow> (Inl e, s')
      | (Some (Inr (FData data)), s') \<Rightarrow> (Inr (Some data), s')
      | (Some (Inr FTrailers), s') \<Rightarrow> next_chunk s')"
  by pat_completeness auto

termination next_chunk
  by (relation "measure (\<lambda>s. length (brs_body s))") (auto intro: poll_frame_shrinks [OF sym])

declare next_chunk.simps [simp del]

lemma next_chunk_shrinks:
  "next_chunk s = (Inr (Some data), s') \<Longrightarrow> length (brs_body s') < length (brs_body s)"
proof (induction s rule: next_chunk.induct)
  case (1 s)
  obtain r s1 where p: "poll_frame s = (r, s1)" by fastforce
  show ?case
  proof (cases "r = Some (Inr FTrailers)")
    case True
    then have "length (brs_body s1) < length (brs_body s)"
      using p poll_frame_shrinks by simp
    moreover have "length (brs_body s') < length (brs_body s1)"
      using 1 p True by (simp add: next_chunk.simps [of s])
    ultimately show ?thesis by simp
  next
    case False
    with 1(2) p poll_frame_shrinks show ?thesis
      by (auto simp: next_chunk.simps [of s] split: option.splits sum.splits frame.splits)
  qed
qed

function collect_bytes ::
  "bounded_response_stream \<Rightarrow> (body_error, u8 list) result \<times> bounded_response_stream" where
  "collect_bytes s =
     (case next_chunk s of
        (Inl e, s') \<Rightarrow> (Inl e, s')
      | (Inr None, s') \<Rightarrow> (Inr [], s')
      | (Inr (Some data), s') \<Rightarrow>
          (case collect_bytes s' of
             (Inl e, s'') \<Rightarrow> (Inl e, s'')
           | (Inr rest, s'') \<Rightarrow> (Inr (data @ rest), s'')))"
  by pat_completeness auto

termination collect_bytes
  by (relation "measure (\<lambda>s. length (brs_body s))") (auto intro: next_chunk_shrinks [OF sym])

declare collect_bytes.simps [simp del]

section \<open>What the stream delivers\<close>

fun item_data :: "body_item \<Rightarrow> u8 list" where
  "item_data (ItemFrame (FData data)) = data"
| "item_data _ = []"

definition body_data :: "body_item list \<Rightarrow> u8 list" where
  "body_data items = concat (map item_data items)"

lemma body_data_simps [simp]:
  "body_data [] = []"
  "body_data (ItemError # items) = body_data items"
  "body_data (ItemFrame FTrailers # items) = body_data items"
  "body_data (ItemFrame (FData data) # items) = data @ body_data items"
  by (simp_all add: body_data_def)

lemma seen_unat:
  assumes "unat seen + n < 2 ^ 64"
  shows "unat (saturating_add (seen :: u64) (word_of_nat n)) = unat seen + n"
proof -
  have "unat (- 1 :: u64) = 2 ^ 64 - 1" by (simp add: unsigned_minus_1_eq_mask mask_eq_exp_minus_1)
  moreover have "unat (word_of_nat n :: u64) = n"
    using assms by (simp add: unat_of_nat take_bit_nat_eq_self)
  ultimately show ?thesis using assms by (simp add: saturating_add_unat)
qed

lemma collect_bytes_terminal: "brs_terminal s \<Longrightarrow> collect_bytes s = (Inr [], s)"
  by (simp add: collect_bytes.simps next_chunk.simps poll_frame_def)

lemma collect_bytes_run:
  assumes "\<not> brs_terminal s" and "brs_limit s = Some limit"
    and "unat (brs_seen s) + length (body_data (brs_body s)) < 2 ^ 64"
    and "unat (brs_seen s) \<le> unat limit"
  shows "(\<forall>bytes. fst (collect_bytes s) = Inr bytes \<longrightarrow> bytes = body_data (brs_body s))
    \<and> (fst (collect_bytes s) = Inr (body_data (brs_body s)) \<longleftrightarrow>
         ItemError \<notin> set (brs_body s)
         \<and> unat (brs_seen s) + length (body_data (brs_body s)) \<le> unat limit)
    \<and> (ItemError \<notin> set (brs_body s) \<longrightarrow>
         unat limit < unat (brs_seen s) + length (body_data (brs_body s)) \<longrightarrow>
         (\<exists>actual. limit < actual \<and> fst (collect_bytes s) = Inl (LimitExceeded limit actual)))"
  using assms
proof (induction "brs_body s" arbitrary: s)
  case Nil
  then show ?case
    by (simp add: collect_bytes.simps [of s] next_chunk.simps [of s] poll_frame_def)
next
  case (Cons item items)
  note body = Cons.hyps(2) [symmetric]
  show ?case
  proof (cases item)
    case ItemError
    then show ?thesis
      using Cons.prems(1) body
      by (simp add: collect_bytes.simps [of s] next_chunk.simps [of s] poll_frame_def)
  next
    case (ItemFrame fr)
    show ?thesis
    proof (cases fr)
      case FTrailers
      let ?s = "s\<lparr>brs_body := items\<rparr>"
      have "next_chunk s = next_chunk ?s"
        using Cons.prems(1) body ItemFrame FTrailers
        by (simp add: next_chunk.simps [of s] poll_frame_def)
      then have "collect_bytes s = collect_bytes ?s"
        by (simp add: collect_bytes.simps [of s] collect_bytes.simps [of ?s])
      moreover note Cons.hyps(1) [of ?s] Cons.prems
      ultimately show ?thesis
        by (simp add: body ItemFrame FTrailers)
    next
      case (FData data)
      let ?actual = "saturating_add (brs_seen s) (word_of_nat (length data))"
      let ?s = "s\<lparr>brs_body := items, brs_seen := ?actual\<rparr>"
      have fits: "unat (brs_seen s) + length data + length (body_data items) < 2 ^ 64"
        using Cons.prems(3) by (simp add: body ItemFrame FData)
      then have actual: "unat ?actual = unat (brs_seen s) + length data"
        by (intro seen_unat) simp
      have chunk: "next_chunk s = (if limit < ?actual
          then (Inl (LimitExceeded limit ?actual), s\<lparr>brs_body := items, brs_terminal := True\<rparr>)
          else (Inr (Some data), ?s))"
        using Cons.prems(1,2) body ItemFrame FData
        by (simp add: next_chunk.simps [of s] poll_frame_def Let_def)
      show ?thesis
      proof (cases "limit < ?actual")
        case True
        then have "unat limit < unat (brs_seen s) + length data"
          using actual by (simp add: word_less_nat_alt)
        with True chunk show ?thesis
          by (auto simp: collect_bytes.simps [of s] body ItemFrame FData)
      next
        case False
        then have le: "unat (brs_seen s) + length data \<le> unat limit"
          using actual by (simp add: word_less_nat_alt)
        have "collect_bytes s = (case collect_bytes ?s of
             (Inl e, s'') \<Rightarrow> (Inl e, s'')
           | (Inr rest, s'') \<Rightarrow> (Inr (data @ rest), s''))"
          using chunk False by (simp add: collect_bytes.simps [of s])
        moreover note Cons.hyps(1) [of ?s] Cons.prems(1,2)
        ultimately show ?thesis
          using actual fits le
          by (cases "fst (collect_bytes ?s)")
             (auto simp: body ItemFrame FData add.assoc split: prod.splits sum.splits)
      qed
    qed
  qed
qed

text \<open>
  A limited response is collected only within its limit. Collecting a fresh stream
  returns either all the data of the body, in order, or an error; it succeeds exactly when the
  transport reported no error and the data fits the limit, and an oversized body that the transport
  delivered without error ends in the limit error.
\<close>

theorem collect_bytes_bounded:
  assumes "\<not> brs_terminal s" and "brs_seen s = 0" and "brs_limit s = Some limit"
    and "length (body_data (brs_body s)) < 2 ^ 64"
  shows "(\<forall>bytes. fst (collect_bytes s) = Inr bytes \<longrightarrow>
       bytes = body_data (brs_body s) \<and> length bytes \<le> unat limit)
    \<and> (fst (collect_bytes s) = Inr (body_data (brs_body s)) \<longleftrightarrow>
         ItemError \<notin> set (brs_body s) \<and> length (body_data (brs_body s)) \<le> unat limit)
    \<and> (ItemError \<notin> set (brs_body s) \<longrightarrow> unat limit < length (body_data (brs_body s)) \<longrightarrow>
         (\<exists>actual. limit < actual \<and> fst (collect_bytes s) = Inl (LimitExceeded limit actual)))"
  using collect_bytes_run [OF assms(1,3)] assms(2,4) by auto

section \<open>Where credentials go\<close>

definition fits_slot :: "planned_auth_slot \<Rightarrow> auth_transport_material \<Rightarrow> bool" where
  "fits_slot slot m \<longleftrightarrow> material_slot_id m = ps_id slot \<and> material_matches_slot m slot"

fun header_target :: "planned_auth_placement \<Rightarrow> header_name option" where
  "header_target PpBearer = Some ''authorization''"
| "header_target PpBasic = Some ''authorization''"
| "header_target (PpHeader name) = Some name"
| "header_target (PpQuery _) = None"

definition header_text :: "('h, 'v, 'u) native_ops \<Rightarrow> planned_auth_placement \<Rightarrow> auth_transport_material \<Rightarrow> string"
  where
  "header_text ops p m =
     (case (p, m) of
        (PpBearer, MatSecret _ secret) \<Rightarrow> ''Bearer '' @ secret
      | (PpBasic, MatBasic _ username password) \<Rightarrow>
          ''Basic '' @ no_base64 ops (username @ '':'' @ password)
      | (_, MatSecret _ secret) \<Rightarrow> secret
      | _ \<Rightarrow> [])"

lemma by_slot_get:
  assumes "list_all2 fits_slot slots materials" and "distinct (map ps_id slots)"
    and "(slot, m) \<in> set (zip slots materials)"
  shows "map_of (by_slot materials) (ps_id slot) = Some m"
proof -
  have "map_of (foldl (\<lambda>t m. AList.update (material_slot_id m) m t) t materials) (ps_id slot) = Some m"
    if "list_all2 fits_slot slots materials" "distinct (map ps_id slots)"
      "(slot, m) \<in> set (zip slots materials)
       \<or> ps_id slot \<notin> set (map ps_id slots) \<and> map_of t (ps_id slot) = Some m" for t slots materials
    using that
  proof (induction slots arbitrary: materials t)
    case Nil
    then show ?case by auto
  next
    case (Cons a slots)
    then obtain b rest where m: "materials = b # rest" and fit: "fits_slot a b"
      and rest: "list_all2 fits_slot slots rest" by (auto simp: list_all2_Cons1)
    have "(slot, m) \<in> set (zip slots rest)
       \<or> ps_id slot \<notin> set (map ps_id slots)
         \<and> map_of (AList.update (material_slot_id b) b t) (ps_id slot) = Some m"
      using Cons.prems(2,3) fit by (auto simp: m fits_slot_def update_conv')
    with Cons.IH [OF rest] Cons.prems(2) show ?case by (simp add: m)
  qed
  from this [OF assms(1,2)] assms(3) show ?thesis by (simp add: by_slot_def)
qed

lemma materialize_slot_effect:
  assumes "header_map_laws (no_headers ops)" and "fits_slot slot m"
    and "materialize_slot ops slot m message = Inr message'"
  shows "(\<forall>n. header_values (no_headers ops) (nr_headers message') n =
       (if header_target (ps_placement slot) = Some n
        then [the (no_value_from_str ops (header_text ops (ps_placement slot) m))]
        else header_values (no_headers ops) (nr_headers message) n))
    \<and> (nr_url message' =
        (case (ps_placement slot, m) of
           (PpQuery name, MatSecret _ secret) \<Rightarrow> no_append_pair ops (nr_url message) name secret
         | _ \<Rightarrow> nr_url message))"
  using assms
  by (auto simp: materialize_slot_def insert_auth_header_def header_map_laws_def fits_slot_def
      material_matches_slot_def header_text_def
      split: planned_auth_placement.splits auth_transport_material.splits option.splits)

lemma materialize_slots_effect:
  assumes laws: "header_map_laws (no_headers ops)"
    and "materialize_slots ops table slots message = Inr message'"
    and "\<forall>slot \<in> set slots. \<exists>m. map_of table (ps_id slot) = Some m \<and> fits_slot slot m"
    and "sorted_wrt (\<lambda>a b. \<not> placements_collide (ps_placement a) (ps_placement b)) slots"
  shows "(\<forall>n. (\<forall>slot \<in> set slots. header_target (ps_placement slot) \<noteq> Some n) \<longrightarrow>
       header_values (no_headers ops) (nr_headers message') n =
       header_values (no_headers ops) (nr_headers message) n)
    \<and> (\<forall>slot m n. slot \<in> set slots \<longrightarrow> map_of table (ps_id slot) = Some m \<longrightarrow>
         header_target (ps_placement slot) = Some n \<longrightarrow>
         header_values (no_headers ops) (nr_headers message') n =
           [the (no_value_from_str ops (header_text ops (ps_placement slot) m))])"
  using assms(2-4)
proof (induction slots arbitrary: message)
  case Nil
  then show ?case by simp
next
  case (Cons slot slots)
  obtain m where m: "map_of table (ps_id slot) = Some m" "fits_slot slot m"
    using Cons.prems(2) by auto
  then obtain message1 where one: "materialize_slot ops slot m message = Inr message1"
    and rest: "materialize_slots ops table slots message1 = Inr message'"
    using Cons.prems(1) by (auto simp: rbind_Inr_iff)
  note e1 = materialize_slot_effect [OF laws m(2) one]
  have IH: "\<forall>n. (\<forall>slot \<in> set slots. header_target (ps_placement slot) \<noteq> Some n) \<longrightarrow>
       header_values (no_headers ops) (nr_headers message') n =
       header_values (no_headers ops) (nr_headers message1) n"
    "\<forall>slot m n. slot \<in> set slots \<longrightarrow> map_of table (ps_id slot) = Some m \<longrightarrow>
         header_target (ps_placement slot) = Some n \<longrightarrow>
         header_values (no_headers ops) (nr_headers message') n =
           [the (no_value_from_str ops (header_text ops (ps_placement slot) m))]"
    using Cons.IH [OF rest] Cons.prems(2,3) by simp_all
  have other: "header_target (ps_placement b) \<noteq> Some n"
    if "b \<in> set slots" "header_target (ps_placement slot) = Some n" for b n
    using Cons.prems(3) that
    by (cases "ps_placement slot"; cases "ps_placement b") auto
  show ?case
    using IH e1 other m(1) by auto
qed


section \<open>Sample runs\<close>

definition small_stream :: bounded_response_stream where
  "small_stream =
     \<lparr>brs_body = [ItemFrame (FData [7, 8]), ItemFrame FTrailers, ItemFrame (FData [9])],
      brs_limit = Some 3, brs_seen = 0, brs_terminal = False\<rparr>"

theorem collect_bytes_bounded_witness:
  "fst (collect_bytes small_stream) = Inr [7, 8, 9]"
proof -
  have "\<not> brs_terminal small_stream" "brs_seen small_stream = 0" "brs_limit small_stream = Some 3"
    "length (body_data (brs_body small_stream)) < 2 ^ 64"
    by (simp_all add: small_stream_def)
  note bounded = collect_bytes_bounded [OF this]
  have "ItemError \<notin> set (brs_body small_stream) \<and> length (body_data (brs_body small_stream)) \<le> unat (3 :: u64)"
    by (simp add: small_stream_def)
  then have "fst (collect_bytes small_stream) = Inr (body_data (brs_body small_stream))"
    using bounded [THEN conjunct2, THEN conjunct1] by blast
  then show ?thesis by (simp add: small_stream_def)
qed

definition list_native :: "((header_name \<times> string) list, string, (string \<times> string) list) native_ops" where
  "list_native =
     \<lparr>no_headers = list_headers, no_append_pair = (\<lambda>u k v. u @ [(k, v)]),
      no_value_from_str = (\<lambda>s. Some s), no_base64 = (\<lambda>s. s)\<rparr>"

definition bearer_plan :: auth_placement_plan where
  "bearer_plan =
     \<lparr>app_slots = [\<lparr>ps_id = 1, ps_credential = \<lparr>cid_namespace = ''n'', cid_name = ''c''\<rparr>,
         ps_usage_id = ''u'', ps_step_id = None, ps_provenance = ''p'', ps_placement = PpBearer\<rparr>],
      app_sensitive_query_keys = []\<rparr>"


end
