(* ===== verification/RequestHead.thy ===== *)
theory RequestHead
  imports AuthEngine Transport
begin

text \<open>
  Building a request before it is sent (\<open>client/build.rs\<close>, the body recipes of \<open>io.rs\<close>): the public
  head with its header merge and validation, the authentication preflight, and the body that a
  recipe produces for one visible execution. URL parsing, header maps and the native request builder
  are arguments.
\<close>

section \<open>Body recipes\<close>

record size_hint =
  sh_lower :: u64
  sh_upper :: "u64 option"

definition size_hint_exact :: "size_hint \<Rightarrow> u64 option" where
  "size_hint_exact h = (if sh_upper h = Some (sh_lower h) then Some (sh_lower h) else None)"

datatype 'b terminal_body =
    TbEmpty
  | TbReusableBytes 'b
  | TbOneShotByteStream 'b
  | TbOneShotHttpBody 'b
  | TbMultipartRecipe 'b

text \<open>
  A factory is called once per production; its \<open>i\<close>-th call returns \<open>f i\<close>. A multipart recipe carries
  whether it can be reconstructed.
\<close>

datatype 'b request_body_recipe =
    RbEmpty
  | RbReusableBytes 'b
  | RbOneShotByteStream "'b option"
  | RbOneShotHttpBody "'b option"
  | RbFactory "nat \<Rightarrow> (body_error_kind, 'b terminal_body) result" nat
  | RbMultipart "('b \<times> bool) option"

datatype 'v prepared_body_media_type = MtFixed 'v | MtDynamic

record ('b, 'v) prepared_body =
  pb_recipe :: "'b request_body_recipe"
  pb_media_type :: "'v prepared_body_media_type option"
  pb_size_hint :: size_hint

record ('b, 'v) produced_body =
  pd_terminal :: "'b terminal_body"
  pd_media_type :: "'v option"
  pd_exact_length :: "u64 option"

datatype body_production_error = AlreadyConsumed | FactoryFailure body_error_kind

definition media_type :: "('b, 'v) prepared_body \<Rightarrow> 'v option" where
  "media_type body = (case pb_media_type body of Some (MtFixed v) \<Rightarrow> Some v | _ \<Rightarrow> None)"

definition reserves_content_type :: "('b, 'v) prepared_body \<Rightarrow> bool" where
  "reserves_content_type body = (pb_media_type body = Some MtDynamic)"

definition is_replayable :: "('b, 'v) prepared_body \<Rightarrow> bool" where
  "is_replayable body =
     (case pb_recipe body of
        RbEmpty \<Rightarrow> True
      | RbReusableBytes _ \<Rightarrow> True
      | RbFactory _ _ \<Rightarrow> True
      | RbMultipart (Some (_, reconstructible)) \<Rightarrow> reconstructible
      | _ \<Rightarrow> False)"

definition terminal_exact_length :: "'b terminal_body \<Rightarrow> size_hint \<Rightarrow> u64 option" where
  "terminal_exact_length t h = (case t of TbMultipartRecipe _ \<Rightarrow> None | _ \<Rightarrow> size_hint_exact h)"

definition produce_for_execution ::
  "('b, 'v) prepared_body
    \<Rightarrow> (body_production_error, ('b, 'v) produced_body) result \<times> ('b, 'v) prepared_body" where
  "produce_for_execution body =
     (case pb_recipe body of
        RbEmpty \<Rightarrow>
          (Inr \<lparr>pd_terminal = TbEmpty, pd_media_type = None, pd_exact_length = None\<rparr>, body)
      | RbReusableBytes b \<Rightarrow>
          (Inr \<lparr>pd_terminal = TbReusableBytes b, pd_media_type = media_type body, pd_exact_length = None\<rparr>,
           body)
      | RbOneShotByteStream None \<Rightarrow> (Inl AlreadyConsumed, body)
      | RbOneShotByteStream (Some b) \<Rightarrow>
          (Inr \<lparr>pd_terminal = TbOneShotByteStream b, pd_media_type = media_type body,
                pd_exact_length = size_hint_exact (pb_size_hint body)\<rparr>,
           body\<lparr>pb_recipe := RbOneShotByteStream None\<rparr>)
      | RbOneShotHttpBody None \<Rightarrow> (Inl AlreadyConsumed, body)
      | RbOneShotHttpBody (Some b) \<Rightarrow>
          (Inr \<lparr>pd_terminal = TbOneShotHttpBody b, pd_media_type = media_type body,
                pd_exact_length = size_hint_exact (pb_size_hint body)\<rparr>,
           body\<lparr>pb_recipe := RbOneShotHttpBody None\<rparr>)
      | RbFactory f i \<Rightarrow>
          ((case f i of
              Inl e \<Rightarrow> Inl (FactoryFailure e)
            | Inr t \<Rightarrow>
                Inr \<lparr>pd_terminal = t, pd_media_type = media_type body,
                     pd_exact_length = terminal_exact_length t (pb_size_hint body)\<rparr>),
           body\<lparr>pb_recipe := RbFactory f (Suc i)\<rparr>)
      | RbMultipart None \<Rightarrow> (Inl AlreadyConsumed, body)
      | RbMultipart (Some (b, reconstructible)) \<Rightarrow>
          (Inr \<lparr>pd_terminal = TbMultipartRecipe b, pd_media_type = None, pd_exact_length = None\<rparr>,
           if reconstructible then body else body\<lparr>pb_recipe := RbMultipart None\<rparr>))"

text \<open>\<open>BodyProductionError::body_error\<close> is present for a factory failure.\<close>

definition produce_execution_body ::
  "error_context \<Rightarrow> ('b, 'v) prepared_body
    \<Rightarrow> (api_client_error, ('b, 'v) produced_body) result \<times> ('b, 'v) prepared_body" where
  "produce_execution_body ctx body =
     (case produce_for_execution body of
        (Inr produced, body') \<Rightarrow> (Inr produced, body')
      | (Inl AlreadyConsumed, body') \<Rightarrow>
          (Inl (PolicyViolation ctx ''one-shot request body has already been consumed''), body')
      | (Inl (FactoryFailure kind), body') \<Rightarrow> (Inl (RequestBody ctx kind ''request body factory failed''), body'))"

section \<open>Media types\<close>

definition apply_prepared_body_media_type ::
  "('h, 'v) header_map_ops \<Rightarrow> 'h \<Rightarrow> ('b, 'v) prepared_body \<Rightarrow> 'h option" where
  "apply_prepared_body_media_type ops headers body =
     (case pb_media_type body of
        Some MtDynamic \<Rightarrow> if hmo_contains_key ops headers ''content-type'' then None else Some headers
      | _ \<Rightarrow>
          (case media_type body of
             None \<Rightarrow> Some headers
           | Some mt \<Rightarrow>
               if hmo_contains_key ops headers ''content-type'' then
                 (if hmo_get ops headers ''content-type'' = Some mt then Some headers else None)
               else Some (hmo_insert ops headers ''content-type'' mt)))"

definition apply_execution_media_type ::
  "('h, 'v) header_map_ops \<Rightarrow> 'h \<Rightarrow> 'v option \<Rightarrow> 'h option" where
  "apply_execution_media_type ops headers mt =
     (case mt of
        None \<Rightarrow> Some headers
      | Some m \<Rightarrow>
          (case hmo_get ops headers ''content-type'' of
             Some existing \<Rightarrow> if existing = m then Some headers else None
           | None \<Rightarrow> Some (hmo_insert ops headers ''content-type'' m)))"

section \<open>The request plan\<close>

record request_meta =
  rm_endpoint :: string
  rm_method :: string
  rm_idempotent :: bool
  rm_page_index :: u32

record 'h request_plan_view =
  rpv_name :: string
  rpv_method :: string
  rpv_idempotent :: bool
  rpv_scheme :: string
  rpv_host :: string
  rpv_path :: string
  rpv_headers :: 'h
  rpv_query :: "(string \<times> string) list"
  rpv_timeout :: "duration option"
  rpv_rate_limit :: rate_limit_plan
  rpv_auth :: auth_plan
  rpv_no_content :: bool
  rpv_override_timeout :: "duration option"
  rpv_page_index :: u32

definition plan_ctx :: "'h request_plan_view \<Rightarrow> error_context" where
  "plan_ctx plan = \<lparr>ec_endpoint = rpv_name plan, ec_method = rpv_method plan\<rparr>"

definition plan_meta :: "'h request_plan_view \<Rightarrow> request_meta" where
  "plan_meta plan =
     \<lparr>rm_endpoint = rpv_name plan, rm_method = rpv_method plan, rm_idempotent = rpv_idempotent plan,
      rm_page_index = rpv_page_index plan\<rparr>"

definition into_canonical_request_plan_view :: "'h request_plan_view \<Rightarrow> 'h request_plan_view" where
  "into_canonical_request_plan_view plan = plan\<lparr>rpv_rate_limit := canonicalize (rpv_rate_limit plan)\<rparr>"

record ('h, 'u) public_request_head =
  prh_meta :: request_meta
  prh_url :: 'u
  prh_headers :: 'h
  prh_timeout :: "duration option"
  prh_rate_limit :: rate_limit_plan
  prh_auth_plan :: auth_placement_plan
  prh_reserved_headers :: "header_name list"

record ('h, 'v, 'u) head_ops =
  ho_headers :: "('h, 'v) header_map_ops"
  ho_parse :: "string \<Rightarrow> (string, 'u) result"
  ho_set_path :: "'u \<Rightarrow> string \<Rightarrow> 'u"
  ho_append_pair :: "'u \<Rightarrow> string \<Rightarrow> string \<Rightarrow> 'u"
  ho_query_pairs :: "'u \<Rightarrow> (string \<times> string) list"
  ho_scheme :: "'u \<Rightarrow> string"
  ho_static :: "string \<Rightarrow> 'v"
  ho_user_agent :: 'v

definition public_header_error :: "error_context \<Rightarrow> string \<Rightarrow> header_name \<Rightarrow> api_client_error" where
  "public_header_error ctx scope name =
     (if is_credential_bearing_header_name name then
        Auth ctx (invalid_auth_configuration
          ((if scope = ''client-wide'' then ''credential-bearing client-wide header''
            else ''credential-bearing endpoint header'') @ '' collides with authentication ownership''))
      else PolicyViolation ctx ''public API headers include a transport-reserved header'')"

definition merge_headers ::
  "('h, 'v, 'u) head_ops \<Rightarrow> 'h \<Rightarrow> 'h \<Rightarrow> 'h" where
  "merge_headers ops api_headers endpoint_headers =
     (let hops = ho_headers ops;
          cleared = foldl (hmo_remove hops) api_headers (hmo_keys hops endpoint_headers);
          merged = foldl (\<lambda>h (name, v). hmo_append hops h name v) cleared (hmo_iter hops endpoint_headers);
          accepting = (if hmo_contains_key hops merged ''accept'' then merged
                       else hmo_insert hops merged ''accept'' (ho_static ops ''*/*''))
      in hmo_insert hops accepting ''user-agent'' (ho_user_agent ops))"

definition build_url :: "('h, 'v, 'u) head_ops \<Rightarrow> 'h request_plan_view \<Rightarrow> (api_client_error, 'u) result" where
  "build_url ops plan =
     (case ho_parse ops (rpv_scheme plan @ ''://'' @ rpv_host plan) of
        Inl e \<Rightarrow> Inl (BuildUrl (plan_ctx plan) e)
      | Inr url \<Rightarrow>
          Inr (foldl (\<lambda>u (k, v). ho_append_pair ops u k v) (ho_set_path ops url (rpv_path plan))
                 (rpv_query plan)))"

definition resolve_public_request_head ::
  "('h, 'v, 'u) head_ops \<Rightarrow> 'h \<Rightarrow> 'h request_plan_view \<Rightarrow> ('b, 'v) prepared_body
    \<Rightarrow> (api_client_error, ('h, 'u) public_request_head) result" where
  "resolve_public_request_head ops api_headers plan body =
     rbind (build_url ops plan) (\<lambda>url.
     rbind (map_err (public_header_error (plan_ctx plan) ''client-wide'')
              (validate_public_headers (ho_headers ops) api_headers)) (\<lambda>_.
     rbind (map_err (public_header_error (plan_ctx plan) ''endpoint'')
              (validate_public_headers (ho_headers ops) (rpv_headers plan))) (\<lambda>_.
     rbind (ok_or (apply_prepared_body_media_type (ho_headers ops)
                     (merge_headers ops api_headers (rpv_headers plan)) body)
              (PolicyViolation (plan_ctx plan)
                 ''request Content-Type conflicts with prepared body media type'')) (\<lambda>headers.
     Inr \<lparr>prh_meta = plan_meta plan, prh_url = url, prh_headers = headers,
          prh_timeout = (case rpv_override_timeout plan of Some t \<Rightarrow> Some t | None \<Rightarrow> rpv_timeout plan),
          prh_rate_limit = rpv_rate_limit plan,
          prh_auth_plan = \<lparr>app_slots = [], app_sensitive_query_keys = []\<rparr>,
          prh_reserved_headers =
            (if reserves_content_type body \<or> media_type body \<noteq> None then [''content-type''] else [])\<rparr>))))"

definition apply_auth_preflight ::
  "('h, 'v, 'u) head_ops \<Rightarrow> error_context \<Rightarrow> auth_placement_plan \<Rightarrow> ('h, 'u) public_request_head
    \<Rightarrow> (api_client_error, ('h, 'u) public_request_head) result" where
  "apply_auth_preflight ops ctx planned head =
     rbind (map_err (Auth ctx)
              (validate_public_request_with_reserved_headers planned
                 (hmo_contains_key (ho_headers ops) (prh_headers head))
                 (ho_query_pairs ops (prh_url head)) (prh_reserved_headers head)))
       (\<lambda>_. Inr (head\<lparr>prh_auth_plan := planned\<rparr>))"

section \<open>Properties\<close>

text \<open>
  A replayable body can be produced for every execution. Production leaves it
  replayable and never reports it as consumed; a body that is not replayable is produced at most
  once, and the second attempt reports that it was consumed.
\<close>

theorem body_production:
  "(is_replayable body \<longrightarrow>
      is_replayable (snd (produce_for_execution body))
      \<and> fst (produce_for_execution body) \<noteq> Inl AlreadyConsumed)
   \<and> (\<not> is_replayable body \<longrightarrow>
      fst (produce_for_execution (snd (produce_for_execution body))) = Inl AlreadyConsumed)"
proof (cases "pb_recipe body")
  case (RbOneShotByteStream b)
  then show ?thesis by (cases b) (auto simp: is_replayable_def produce_for_execution_def)
next
  case (RbOneShotHttpBody b)
  then show ?thesis by (cases b) (auto simp: is_replayable_def produce_for_execution_def)
next
  case (RbMultipart m)
  then show ?thesis
    by (cases m) (auto simp: is_replayable_def produce_for_execution_def)
next
  case (RbFactory f i)
  then show ?thesis by (auto simp: is_replayable_def produce_for_execution_def split: sum.splits)
qed (auto simp: is_replayable_def produce_for_execution_def)

definition used_body :: "(nat, string) prepared_body" where
  "used_body =
     \<lparr>pb_recipe = RbOneShotHttpBody (Some 7), pb_media_type = None,
      pb_size_hint = \<lparr>sh_lower = 0, sh_upper = None\<rparr>\<rparr>"

theorem body_production_witness:
  "fst (produce_for_execution (snd (produce_for_execution used_body))) = Inl AlreadyConsumed"
  using body_production [of used_body] by (simp add: is_replayable_def used_body_def)

text \<open>How the merge treats each header name.\<close>

lemma foldl_remove_values:
  assumes "header_map_laws ops"
  shows "header_values ops (foldl (hmo_remove ops) h names) n =
    (if n \<in> set names then [] else header_values ops h n)"
  by (induction names arbitrary: h) (auto simp: header_values_remove [OF assms])

lemma foldl_append_values:
  assumes "header_map_laws ops"
  shows "header_values ops (foldl (\<lambda>h (name, v). hmo_append ops h name v) h es) n =
    header_values ops h n @ map snd (filter (\<lambda>e. fst e = n) es)"
  by (induction es arbitrary: h) (auto simp: header_values_append [OF assms])

lemma contains_values:
  assumes "header_map_laws ops"
  shows "hmo_contains_key ops h n \<longleftrightarrow> header_values ops h n \<noteq> []"
  by (simp add: header_contains_iter [OF assms] header_iter_values)

lemma keys_values:
  assumes "header_map_laws ops"
  shows "n \<in> set (hmo_keys ops h) \<longleftrightarrow> header_values ops h n \<noteq> []"
  by (simp add: header_keys_iter [OF assms] header_iter_values)

definition merged_values ::
  "('h, 'v, 'u) head_ops \<Rightarrow> 'h \<Rightarrow> 'h \<Rightarrow> header_name \<Rightarrow> 'v list" where
  "merged_values ops api_headers endpoint_headers n =
     (let e = header_values (ho_headers ops) endpoint_headers n;
          a = header_values (ho_headers ops) api_headers n
      in if n = ''user-agent'' then [ho_user_agent ops]
         else if e \<noteq> [] then e
         else if a \<noteq> [] then a
         else if n = ''accept'' then [ho_static ops ''*/*'']
         else [])"

lemma merge_headers_values:
  assumes "header_map_laws (ho_headers ops)"
  shows "header_values (ho_headers ops) (merge_headers ops a e) n = merged_values ops a e n"
proof -
  let ?h = "ho_headers ops"
  let ?merged = "foldl (\<lambda>h (name, v). hmo_append ?h h name v)
      (foldl (hmo_remove ?h) a (hmo_keys ?h e)) (hmo_iter ?h e)"
  have merged: "header_values ?h ?merged n =
      (if header_values ?h e n \<noteq> [] then header_values ?h e n else header_values ?h a n)" for n
    using foldl_append_values [OF assms] foldl_remove_values [OF assms] keys_values [OF assms]
    by (simp add: header_values_def)
  show ?thesis
    using contains_values [OF assms, of ?merged "''accept''"]
    by (simp add: merge_headers_def Let_def header_values_insert [OF assms] merged merged_values_def)
qed

lemma media_type_values:
  assumes "header_map_laws ops" and "apply_prepared_body_media_type ops h body = Some h'"
    and "n \<noteq> ''content-type''"
  shows "header_values ops h' n = header_values ops h n"
  using assms(2,3)
  by (auto simp: apply_prepared_body_media_type_def header_values_insert [OF assms(1)]
      split: option.splits prepared_body_media_type.splits if_splits)

lemma validated_free:
  assumes "header_map_laws ops" and "validate_public_headers ops h = Inr ()"
    and "is_forbidden_public_header n"
  shows "header_values ops h n = []"
  using assms(2,3) keys_values [OF assms(1), of n h]
  by (auto simp: validate_public_headers_def find_None_iff split: option.splits)

text \<open>
  A resolved head carries exactly the merged public headers. Apart from the body's
  content type, every name has the endpoint's values if the endpoint sets it, else the client's,
  with \<open>Accept\<close> defaulted and \<open>User-Agent\<close> fixed; and no name that only the transport or
  authentication may set is present, so bearer and Basic slots always find their target free.
\<close>

theorem resolved_head_headers:
  assumes "header_map_laws (ho_headers ops)"
    and "resolve_public_request_head ops api_headers plan body = Inr head"
  shows "(n \<noteq> ''content-type'' \<longrightarrow>
      header_values (ho_headers ops) (prh_headers head) n =
        merged_values ops api_headers (rpv_headers plan) n)
    \<and> (is_forbidden_public_header n \<longrightarrow> n \<noteq> ''user-agent'' \<longrightarrow> n \<noteq> ''content-type'' \<longrightarrow> n \<noteq> ''accept'' \<longrightarrow>
         header_values (ho_headers ops) (prh_headers head) n = [])"
proof -
  have mt: "apply_prepared_body_media_type (ho_headers ops)
      (merge_headers ops api_headers (rpv_headers plan)) body = Some (prh_headers head)"
    and va: "validate_public_headers (ho_headers ops) api_headers = Inr ()"
    and ve: "validate_public_headers (ho_headers ops) (rpv_headers plan) = Inr ()"
    using assms(2)
    by (auto simp: resolve_public_request_head_def rbind_Inr_iff map_err_def ok_or_def
        split: sum.splits option.splits)
  have vals: "header_values (ho_headers ops) (prh_headers head) n =
      merged_values ops api_headers (rpv_headers plan) n" if "n \<noteq> ''content-type''"
    using media_type_values [OF assms(1) mt that] merge_headers_values [OF assms(1)] by simp
  then show ?thesis
    using validated_free [OF assms(1) va] validated_free [OF assms(1) ve]
    by (auto simp: merged_values_def Let_def)
qed

definition list_head_ops ::
  "((header_name \<times> string) list, string, string) head_ops" where
  "list_head_ops =
     \<lparr>ho_headers = list_headers, ho_parse = (\<lambda>s. Inr s), ho_set_path = (\<lambda>u p. u @ p),
      ho_append_pair = (\<lambda>u k v. u @ k @ v), ho_query_pairs = (\<lambda>_. []), ho_scheme = (\<lambda>_. ''https''),
      ho_static = (\<lambda>s. s), ho_user_agent = ''ua''\<rparr>"

definition sample_plan_view :: "(header_name \<times> string) list request_plan_view" where
  "sample_plan_view =
     \<lparr>rpv_name = ''e'', rpv_method = ''GET'', rpv_idempotent = True, rpv_scheme = ''https'',
      rpv_host = ''h'', rpv_path = ''/'', rpv_headers = [], rpv_query = [], rpv_timeout = None,
      rpv_rate_limit = plan_new, rpv_auth = [], rpv_no_content = False, rpv_override_timeout = None,
      rpv_page_index = 0\<rparr>"

lemma sample_head:
  "\<exists>head. resolve_public_request_head list_head_ops [] sample_plan_view used_body = Inr head"
  by (simp add: resolve_public_request_head_def build_url_def rbind_def map_err_def ok_or_def
      list_head_ops_def sample_plan_view_def validate_public_headers_def list_headers_def
      apply_prepared_body_media_type_def used_body_def media_type_def)

theorem resolved_head_headers_witness:
  "\<exists>head. resolve_public_request_head list_head_ops [] sample_plan_view used_body = Inr head
     \<and> header_values list_headers (prh_headers head) ''accept'' = [''*/*'']"
proof -
  obtain head where run: "resolve_public_request_head list_head_ops [] sample_plan_view used_body = Inr head"
    using sample_head by blast
  have laws: "header_map_laws (ho_headers list_head_ops)"
    by (simp add: list_head_ops_def list_headers_laws)
  have "merged_values list_head_ops [] (rpv_headers sample_plan_view) ''accept'' = [''*/*'']"
    by (simp add: merged_values_def list_head_ops_def sample_plan_view_def header_values_def
        list_headers_def Let_def)
  with resolved_head_headers [OF laws run, of "''accept''"] run show ?thesis
    by (auto simp: list_head_ops_def)
qed

end
