(* ===== verification/Pipeline.thy ===== *)
theory Pipeline
  imports RequestHead
begin

text \<open>
  Sending one request (\<open>client/send_flow.rs\<close>) and driving its visible executions
  (\<open>drive_executions\<close> of \<open>client/execute.rs\<close>). What lies outside is a record of operations on a world:
  the rate limiter, the runtime hooks and the HTTP client. Every effect is written to a trace, in
  order. Header values are their text.
\<close>

section \<open>The world outside\<close>

record hook_meta =
  hk_endpoint :: string
  hk_method :: string
  hk_url :: string
  hk_page_index :: u32
  hk_idempotent :: bool

record 'h execution_response =
  er_status :: nat
  er_headers :: 'h
  er_content_length :: "u64 option"
  er_body :: bounded_response_stream

text \<open>
  A failed execution: the error the client returned, and the error the request body recorded, which
  takes precedence.
\<close>

datatype transport_error_kind = TeBody body_error_kind | TeTimeout | TeConnect | TeExecution

record transport_error =
  te_kind :: transport_error_kind
  te_limit :: "u64 option"
  te_observed :: "u64 option"
  te_text :: string

record ('w, 'h, 'u) outside =
  os_acquire :: "rate_limit_context \<Rightarrow> 'w \<Rightarrow> (api_client_error, unit) result \<times> 'w"
  os_on_response ::
    "rate_limit_response_context \<Rightarrow> 'w \<Rightarrow> (api_client_error, rate_limit_response_action) result \<times> 'w"
  os_pre_send :: "hook_meta \<Rightarrow> 'w \<Rightarrow> (api_client_error, unit) result \<times> 'w"
  os_post_response :: "hook_meta \<Rightarrow> nat \<Rightarrow> 'w \<Rightarrow> 'w"
  os_request_error :: "hook_meta \<Rightarrow> error_category \<Rightarrow> 'w \<Rightarrow> 'w"
  os_execute ::
    "('h, 'u) native_request \<Rightarrow> 'w
      \<Rightarrow> (transport_error option \<times> transport_error, 'h execution_response) result \<times> 'w"
  os_render :: "api_client_error \<Rightarrow> string"

datatype exec_event =
    EvReject auth_rejection_application
  | EvPrepare
  | EvBody
  | EvAcquire
  | EvPreSend
  | EvExecute
  | EvRequestError error_category
  | EvPostResponse
  | EvObserve
  | EvRelease

record 'w run_state =
  rs_world :: 'w
  rs_trace :: "exec_event list"

definition emit :: "exec_event \<Rightarrow> 'w run_state \<Rightarrow> 'w run_state" where
  "emit ev s = s\<lparr>rs_trace := rs_trace s @ [ev]\<rparr>"

definition act :: "exec_event \<Rightarrow> ('w \<Rightarrow> 'w) \<Rightarrow> 'w run_state \<Rightarrow> 'w run_state" where
  "act ev f s = emit ev (s\<lparr>rs_world := f (rs_world s)\<rparr>)"

definition ask :: "exec_event \<Rightarrow> ('w \<Rightarrow> 'r \<times> 'w) \<Rightarrow> 'w run_state \<Rightarrow> 'r \<times> 'w run_state" where
  "ask ev f s = (case f (rs_world s) of (r, w) \<Rightarrow> (r, emit ev (s\<lparr>rs_world := w\<rparr>)))"

section \<open>One visible execution\<close>

record ('h, 'u) built_request =
  br_message :: "('h, 'u) native_request"
  br_meta :: request_meta
  br_url_host :: "string option"
  br_rate_limit :: rate_limit_plan
  br_auth_plan :: auth_placement_plan
  br_size_hint :: size_hint

record client_limits =
  lim_request_body :: "nat option"
  lim_max_cooldown :: duration

definition wrap_rate_limit_error ::
  "(api_client_error \<Rightarrow> string) \<Rightarrow> error_context \<Rightarrow> rate_limit_error_kind \<Rightarrow> string \<Rightarrow> api_client_error
    \<Rightarrow> api_client_error" where
  "wrap_rate_limit_error render ctx kind message err =
     (case err of
        RateLimit _ _ \<Rightarrow> err
      | other \<Rightarrow> rate_limit_with_source ctx kind message (render other))"

definition hook_meta_of :: "request_meta \<Rightarrow> string \<Rightarrow> hook_meta" where
  "hook_meta_of meta url =
     \<lparr>hk_endpoint = rm_endpoint meta, hk_method = rm_method meta, hk_url = url,
      hk_page_index = rm_page_index meta, hk_idempotent = rm_idempotent meta\<rparr>"

definition rate_limit_context_of ::
  "client_limits \<Rightarrow> ('h, 'u) built_request \<Rightarrow> string \<Rightarrow> rate_limit_context" where
  "rate_limit_context_of limits built url =
     \<lparr>rlc_endpoint = rm_endpoint (br_meta built), rlc_method = rm_method (br_meta built), rlc_url = url,
      rlc_url_host = br_url_host built, rlc_page_index = rm_page_index (br_meta built),
      rlc_idempotent = rm_idempotent (br_meta built), rlc_max_cooldown = lim_max_cooldown limits,
      rlc_plan = br_rate_limit built\<rparr>"

text \<open>The length of a body that is known to exceed the limit before it is streamed.\<close>

definition known_oversize :: "size_hint \<Rightarrow> nat \<Rightarrow> u64 option" where
  "known_oversize hint limit =
     (let known = (case size_hint_exact hint of
                     Some n \<Rightarrow> Some n
                   | None \<Rightarrow> if limit < unat (sh_lower hint) then Some (sh_lower hint) else None)
      in case known of
           Some actual \<Rightarrow> if limit < unat actual then Some actual else None
         | None \<Rightarrow> None)"

definition request_execution_error :: "error_context \<Rightarrow> transport_error \<Rightarrow> api_client_error" where
  "request_execution_error ctx e =
     (case te_kind e of
        TeBody kind \<Rightarrow> RequestBody ctx kind (te_text e)
      | TeTimeout \<Rightarrow> Timeout ctx (te_text e)
      | TeConnect \<Rightarrow> Connect ctx (te_text e)
      | TeExecution \<Rightarrow> RequestExecution ctx (te_text e))"

definition terminal_transport_error :: "error_context \<Rightarrow> transport_error \<Rightarrow> api_client_error" where
  "terminal_transport_error ctx e =
     (if te_kind e = TeBody BodyLimitExceeded
      then RequestBodyLimitExceeded ctx (unat (case te_limit e of Some l \<Rightarrow> l | None \<Rightarrow> 0))
             (case te_observed e of Some n \<Rightarrow> n | None \<Rightarrow> 0)
      else request_execution_error ctx e)"

definition send_built_request ::
  "('w, 'h, 'u) outside \<Rightarrow> ('h, string, 'u) native_ops \<Rightarrow> ('h, 'u) built_request \<Rightarrow> string
    \<Rightarrow> auth_transport_material list \<Rightarrow> error_context \<Rightarrow> 'w run_state
    \<Rightarrow> (api_client_error, 'h execution_response) result \<times> 'w run_state" where
  "send_built_request os nops built url materials ctx s =
     (case materialize_authentication nops (br_message built) (br_auth_plan built) materials of
        Inl e \<Rightarrow> (Inl (Auth ctx e), s)
      | Inr native \<Rightarrow>
          (case ask EvExecute (os_execute os native) s of
             (Inr response, s') \<Rightarrow> (Inr response, s')
           | (Inl (recorded, e), s') \<Rightarrow>
               (let terminal = terminal_transport_error ctx (case recorded of Some r \<Rightarrow> r | None \<Rightarrow> e) in
                (Inl terminal,
                 act (EvRequestError (error_category_of terminal))
                   (os_request_error os (hook_meta_of (br_meta built) url) (error_category_of terminal))
                   s'))))"

definition acquire_rate_limit_and_send ::
  "('w, 'h, 'u) outside \<Rightarrow> ('h, string, 'u) native_ops \<Rightarrow> client_limits \<Rightarrow> ('h, 'u) built_request \<Rightarrow> string
    \<Rightarrow> auth_transport_material list \<Rightarrow> error_context \<Rightarrow> 'w run_state
    \<Rightarrow> (api_client_error, 'h execution_response) result \<times> 'w run_state" where
  "acquire_rate_limit_and_send os nops limits built url materials ctx s =
     (case ask EvAcquire (os_acquire os (rate_limit_context_of limits built url)) s of
        (Inl e, s1) \<Rightarrow>
          (Inl (wrap_rate_limit_error (os_render os) ctx RlAcquireFailed ''rate-limit acquire failed'' e), s1)
      | (Inr _, s1) \<Rightarrow>
          (case (case lim_request_body limits of
                   None \<Rightarrow> None
                 | Some limit \<Rightarrow> map_option (Pair limit) (known_oversize (br_size_hint built) limit)) of
             Some (limit, actual) \<Rightarrow>
               (let terminal = RequestBodyLimitExceeded ctx limit actual in
                (Inl terminal,
                 act (EvRequestError (error_category_of terminal))
                   (os_request_error os (hook_meta_of (br_meta built) url) (error_category_of terminal))
                   s1))
           | None \<Rightarrow>
               (case ask EvPreSend (os_pre_send os (hook_meta_of (br_meta built) url)) s1 of
                  (Inl e, s2) \<Rightarrow> (Inl e, s2)
                | (Inr _, s2) \<Rightarrow> send_built_request os nops built url materials ctx s2)))"

text \<open>A response view for the limiter: the sanitised headers are read by name.\<close>

definition response_context_of ::
  "('h, string) header_map_ops \<Rightarrow> client_limits \<Rightarrow> ('h, 'u) built_request \<Rightarrow> string \<Rightarrow> 'h execution_response
    \<Rightarrow> rate_limit_response_context" where
  "response_context_of hops limits built url response =
     \<lparr>rrc_meta = rate_limit_context_of limits built url, rrc_status = er_status response,
      rrc_header = (\<lambda>n. map_option shv_value (sanitized_get hops Some (er_headers response) n)),
      rrc_max_cooldown = lim_max_cooldown limits\<rparr>"

definition observe_transport_response ::
  "('w, 'h, 'u) outside \<Rightarrow> ('h, string) header_map_ops \<Rightarrow> client_limits \<Rightarrow> ('h, 'u) built_request \<Rightarrow> string
    \<Rightarrow> error_context \<Rightarrow> 'h execution_response \<Rightarrow> 'w run_state
    \<Rightarrow> (api_client_error, 'h execution_response \<times> rate_limit_response_action) result \<times> 'w run_state" where
  "observe_transport_response os hops limits built url ctx response s =
     (let s1 = act EvPostResponse
                 (os_post_response os (hook_meta_of (br_meta built) url) (er_status response)) s in
      case ask EvObserve (os_on_response os (response_context_of hops limits built url response)) s1 of
        (Inl e, s2) \<Rightarrow>
          (Inl (wrap_rate_limit_error (os_render os) ctx RlResponseActionFailed
                  ''rate-limit response action failed'' e), s2)
      | (Inr action, s2) \<Rightarrow> (Inr (response, action), s2))"

definition send_and_observe_once ::
  "('w, 'h, 'u) outside \<Rightarrow> ('h, string, 'u) native_ops \<Rightarrow> client_limits \<Rightarrow> ('h, 'u) built_request \<Rightarrow> string
    \<Rightarrow> auth_transport_material list \<Rightarrow> error_context \<Rightarrow> 'w run_state
    \<Rightarrow> (api_client_error, 'h execution_response \<times> rate_limit_response_action) result \<times> 'w run_state" where
  "send_and_observe_once os nops limits built url materials ctx s =
     (case acquire_rate_limit_and_send os nops limits built url materials ctx s of
        (Inl e, s') \<Rightarrow> (Inl e, s')
      | (Inr response, s') \<Rightarrow>
          observe_transport_response os (no_headers nops) limits built url ctx response s')"

section \<open>Classifying the response\<close>

definition http_status_error ::
  "('h, string) header_map_ops \<Rightarrow> error_context \<Rightarrow> 'h execution_response \<Rightarrow> rate_limit_response_action
    \<Rightarrow> api_client_error" where
  "http_status_error hops ctx response action =
     HttpStatus ctx (er_status response)
       (hmo_iter hops (sanitize_header_map hops ''<redacted>'' (er_headers response)))
       (if action = Continue then None else Some action)"

definition classify_observed_transport_response ::
  "('h, string) header_map_ops \<Rightarrow> error_context \<Rightarrow> 'h execution_response \<Rightarrow> rate_limit_response_action
    \<Rightarrow> (api_client_error, 'h execution_response) result" where
  "classify_observed_transport_response hops ctx response action =
     (case classify_status (er_status response) of
        HttpStatusError \<Rightarrow> Inl (http_status_error hops ctx response action)
      | Success \<Rightarrow> Inr response)"

definition limit_response_body ::
  "'h execution_response \<Rightarrow> nat option \<Rightarrow> error_context \<Rightarrow> (api_client_error, 'h execution_response) result"
  where
  "limit_response_body response limit ctx =
     (case limit of
        None \<Rightarrow> Inr response
      | Some l \<Rightarrow>
          (let limit64 = (if l < 2 ^ 64 then word_of_nat l else - 1 :: u64) in
           case er_content_length response of
             Some actual \<Rightarrow>
               if limit64 < actual then Inl (ResponseTooLarge ctx (unat limit64) actual)
               else Inr (response\<lparr>er_body := set_limit (er_body response) limit64\<rparr>)
           | None \<Rightarrow> Inr (response\<lparr>er_body := set_limit (er_body response) limit64\<rparr>)))"

text \<open>\<open>split_semicolon\<close> is the first piece of \<open>split(';')\<close>.\<close>

definition header_matches_media_type :: "string option \<Rightarrow> string \<Rightarrow> bool" where
  "header_matches_media_type value expected =
     (case value of
        None \<Rightarrow> False
      | Some v \<Rightarrow> eq_ignore_ascii_case (trim (takeWhile (\<lambda>c. c \<noteq> CHR '';'') v)) expected)"

end
