(* ===== verification/Execution.thy ===== *)
theory Execution
  imports Pipeline CredentialSystem
begin

text \<open>
  The visible executions of one logical request (\<open>drive_executions\<close> in \<open>client/execute.rs\<close>): head,
  preflight, credentials, body, send, challenge handling, and the single recovery execution. The
  loop is bounded by fuel; two rounds are enough.
\<close>

section \<open>State\<close>

record auth_resend_intent =
  in_plan :: auth_rejection_plan
  in_status :: nat
  in_applied :: "auth_applied_credential list"

record drive_locals =
  dl_auth_plan :: "auth_placement_plan option"
  dl_snapshot :: bool
  dl_pending :: "auth_resend_intent option"
  dl_initiated :: bool
  dl_cached :: "auth_preparation option"

record ('p, 'a, 'b, 'w) drive_state =
  ds_cells :: "('p, 'a) auth_state"
  ds_counter :: u64
  ds_body :: "('b, string) prepared_body"
  ds_run :: "'w run_state"

datatype execution_family = Buffered bool "nat option" | StreamFamily "nat option"

text \<open>
  What the client is configured with. \<open>dv_native_body\<close> is \<open>apply_to_reqwest\<close> with the media type the
  native body adds and its size hint, \<open>dv_native_build\<close> whether the native builder accepts the
  request, \<open>dv_try_auth_state\<close> whether the authentication state can be read.
\<close>

record ('p, 'a, 'b, 'w, 'h, 'u) drive_env =
  dv_os :: "('w, 'h, 'u) outside"
  dv_native :: "('h, string, 'u) native_ops"
  dv_head :: "('h, string, 'u) head_ops"
  dv_limits :: client_limits
  dv_api_headers :: 'h
  dv_tls :: tls_capability
  dv_try_auth_state :: "(auth_error, unit) result"
  dv_bindings :: binding_lookup
  dv_downcasts :: "'a downcasts"
  dv_fetch :: "('p, 'a) slot_fetch"
  dv_invalidate :: "('p, 'a) provider_invalidate"
  dv_from_bytes :: "string \<Rightarrow> header_name option"
  dv_debug_url :: "'u \<Rightarrow> string list \<Rightarrow> string"
  dv_host :: "'u \<Rightarrow> string option"
  dv_native_body :: "('b, string) produced_body \<Rightarrow> (string option \<times> size_hint) option"
  dv_native_build :: "('h, 'u) native_request \<Rightarrow> bool"

datatype 'h drive_step =
    Finished "(api_client_error, 'h execution_response) result"
  | Again

section \<open>The phases of a round\<close>

definition recovery_initiate :: "bool \<Rightarrow> bool \<times> bool" where
  "recovery_initiate initiated = (if initiated then (False, initiated) else (True, True))"

definition prepare_head ::
  "('p, 'a, 'b, 'w, 'h, 'u) drive_env \<Rightarrow> 'h request_plan_view \<Rightarrow> drive_locals \<Rightarrow> u64
    \<Rightarrow> ('b, string) prepared_body
    \<Rightarrow> (api_client_error, ('h, 'u) public_request_head \<times> auth_placement_plan \<times> u64) result" where
  "prepare_head env plan locals counter body =
     (let ctx = plan_ctx plan in
      rbind (resolve_public_request_head (dv_head env) (dv_api_headers env) plan body) (\<lambda>head.
      rbind (case dl_auth_plan locals of
               Some planned \<Rightarrow> Inr (planned, counter)
             | None \<Rightarrow> map_err (Auth ctx) (from_auth_plan (dv_from_bytes env) counter (rpv_auth plan)))
        (\<lambda>(planned, counter').
      rbind (apply_auth_preflight (dv_head env) ctx planned head) (\<lambda>head'.
      if \<not> preflight_scheme (dv_tls env) (ho_scheme (dv_head env) (prh_url head'))
      then Inl (TlsCapabilityUnavailable ctx)
      else
        rbind (if dl_snapshot locals then Inr () else map_err (Auth ctx) (dv_try_auth_state env))
          (\<lambda>_. Inr (head', planned, counter'))))))"

definition apply_pending ::
  "('p, 'a, 'b, 'w, 'h, 'u) drive_env \<Rightarrow> 'h request_plan_view \<Rightarrow> bool \<Rightarrow> drive_locals
    \<Rightarrow> ('p, 'a, 'b, 'w) drive_state
    \<Rightarrow> (api_client_error, unit) result \<times> drive_locals \<times> ('p, 'a, 'b, 'w) drive_state" where
  "apply_pending env plan rebuildable locals st =
     (case dl_pending locals of
        None \<Rightarrow> (Inr (), locals, st)
      | Some intent \<Rightarrow>
          (let locals' = locals\<lparr>dl_pending := None\<rparr> in
           case apply_auth_rejection_step (dv_invalidate env) (dv_bindings env) (plan_ctx plan)
                  (rpv_auth plan) (in_applied intent) (in_plan intent) (in_status intent) rebuildable
                  (ds_cells st) of
             (r, cells) \<Rightarrow>
               (let st' = st\<lparr>ds_cells := cells, ds_run := emit (EvReject ProviderCapable) (ds_run st)\<rparr> in
                case r of
                  Inl e \<Rightarrow> (Inl e, locals', st')
                | Inr (StepFail e) \<Rightarrow> (Inl e, locals', st')
                | Inr StepRetry \<Rightarrow> (Inr (), locals'\<lparr>dl_cached := None\<rparr>, st'))))"

definition ensure_preparation ::
  "('p, 'a, 'b, 'w, 'h, 'u) drive_env \<Rightarrow> 'h request_plan_view \<Rightarrow> auth_placement_plan \<Rightarrow> drive_locals
    \<Rightarrow> ('p, 'a, 'b, 'w) drive_state
    \<Rightarrow> ((api_client_error, auth_preparation) result \<times> drive_locals \<times> ('p, 'a, 'b, 'w) drive_state) option"
  where
  "ensure_preparation env plan planned locals st =
     (case dl_cached locals of
        Some prepared \<Rightarrow> Some (Inr prepared, locals, st)
      | None \<Rightarrow>
          (case prepare_auth_plan (dv_downcasts env) (dv_fetch env) (dv_bindings env) (plan_ctx plan)
                  (rpv_auth plan) planned (ds_cells st) of
             None \<Rightarrow> None
           | Some (r, cells) \<Rightarrow>
               (let st' = st\<lparr>ds_cells := cells, ds_run := emit EvPrepare (ds_run st)\<rparr> in
                case r of
                  Inl e \<Rightarrow> Some (Inl e, locals, st')
                | Inr prepared \<Rightarrow>
                    Some (Inr prepared,
                          (if apr_request_local_reusable prepared
                           then locals\<lparr>dl_cached := Some prepared\<rparr> else locals), st'))))"

definition finish_head ::
  "('p, 'a, 'b, 'w, 'h, 'u) drive_env \<Rightarrow> error_context \<Rightarrow> ('h, 'u) public_request_head
    \<Rightarrow> ('b, string) produced_body \<Rightarrow> (api_client_error, ('h, 'u) built_request) result" where
  "finish_head env ctx head produced =
     (case dv_native_body env produced of
        None \<Rightarrow> Inl (PolicyViolation ctx ''native request body materialization failed'')
      | Some (mt, hint) \<Rightarrow>
          (case apply_execution_media_type (ho_headers (dv_head env)) (prh_headers head) mt of
             None \<Rightarrow>
               Inl (PolicyViolation ctx ''request Content-Type conflicts with produced body media type'')
           | Some headers \<Rightarrow>
               (let message = \<lparr>nr_headers = headers, nr_url = prh_url head\<rparr> in
                if \<not> dv_native_build env message
                then Inl (PolicyViolation ctx ''native request construction failed'')
                else Inr \<lparr>br_message = message, br_meta = prh_meta head,
                          br_url_host = dv_host env (prh_url head),
                          br_rate_limit = prh_rate_limit head, br_auth_plan = prh_auth_plan head,
                          br_size_hint = hint\<rparr>)))"

definition reject_with ::
  "('p, 'a, 'b, 'w, 'h, 'u) drive_env \<Rightarrow> 'h request_plan_view \<Rightarrow> auth_resend_intent
    \<Rightarrow> ('p, 'a, 'b, 'w) drive_state
    \<Rightarrow> (api_client_error, unit) result \<times> ('p, 'a, 'b, 'w) drive_state" where
  "reject_with env plan intent st =
     (case apply_auth_rejection_plan (dv_invalidate env) (dv_bindings env) InvalidationOnly (plan_ctx plan)
             (rpv_auth plan) (in_applied intent) (in_plan intent) (in_status intent) (ds_cells st) of
        (r, cells) \<Rightarrow>
          (r, st\<lparr>ds_cells := cells, ds_run := emit (EvReject InvalidationOnly) (ds_run st)\<rparr>))"

definition release :: "('p, 'a, 'b, 'w) drive_state \<Rightarrow> ('p, 'a, 'b, 'w) drive_state" where
  "release st = st\<lparr>ds_run := emit EvRelease (ds_run st)\<rparr>"

definition handle_recoverable ::
  "('p, 'a, 'b, 'w, 'h, 'u) drive_env \<Rightarrow> 'h request_plan_view \<Rightarrow> bool \<Rightarrow> auth_resend_intent
    \<Rightarrow> api_client_error \<Rightarrow> drive_locals \<Rightarrow> ('p, 'a, 'b, 'w) drive_state
    \<Rightarrow> 'h drive_step \<times> drive_locals \<times> ('p, 'a, 'b, 'w) drive_state" where
  "handle_recoverable env plan rebuildable intent terminal locals st =
     (let st1 = release st in
      if \<not> rebuildable then
        (case reject_with env plan intent st1 of
           (Inl e, st2) \<Rightarrow> (Finished (Inl e), locals, st2)
         | (Inr _, st2) \<Rightarrow> (Finished (Inl terminal), locals, st2))
      else
        (case recovery_initiate (dl_initiated locals) of
           (True, initiated) \<Rightarrow>
             (Again, locals\<lparr>dl_initiated := initiated, dl_pending := Some intent\<rparr>, st1)
         | (False, initiated) \<Rightarrow>
             (case reject_with env plan intent st1 of
                (Inl e, st2) \<Rightarrow> (Finished (Inl e), locals, st2)
              | (Inr _, st2) \<Rightarrow> (Finished (Inl (auth_challenge_rejected (plan_ctx plan))), locals, st2))))"

definition handle_terminal ::
  "('p, 'a, 'b, 'w, 'h, 'u) drive_env \<Rightarrow> 'h request_plan_view \<Rightarrow> bool \<Rightarrow> auth_resend_intent
    \<Rightarrow> ('p, 'a, 'b, 'w) drive_state \<Rightarrow> api_client_error \<times> ('p, 'a, 'b, 'w) drive_state" where
  "handle_terminal env plan rebuildable intent st =
     (let st1 = release st in
      case apply_auth_rejection_step (dv_invalidate env) (dv_bindings env) (plan_ctx plan) (rpv_auth plan)
             (in_applied intent) (in_plan intent) (in_status intent) rebuildable (ds_cells st1) of
        (r, cells) \<Rightarrow>
          ((case r of
              Inl e \<Rightarrow> e
            | Inr (StepFail e) \<Rightarrow> e
            | Inr StepRetry \<Rightarrow> auth_challenge_rejected (plan_ctx plan)),
           st1\<lparr>ds_cells := cells, ds_run := emit (EvReject ProviderCapable) (ds_run st1)\<rparr>))"

definition finish_family ::
  "execution_family \<Rightarrow> error_context \<Rightarrow> 'h execution_response
    \<Rightarrow> (api_client_error, 'h execution_response) result" where
  "finish_family family ctx response =
     (case family of
        Buffered skip_body response_limit \<Rightarrow>
          limit_response_body response (if skip_body then None else response_limit) ctx
      | StreamFamily response_limit \<Rightarrow> limit_response_body response response_limit ctx)"

definition handle_response ::
  "('p, 'a, 'b, 'w, 'h, 'u) drive_env \<Rightarrow> 'h request_plan_view \<Rightarrow> execution_family \<Rightarrow> bool
    \<Rightarrow> auth_preparation \<Rightarrow> 'h execution_response \<Rightarrow> rate_limit_response_action \<Rightarrow> drive_locals
    \<Rightarrow> ('p, 'a, 'b, 'w) drive_state
    \<Rightarrow> 'h drive_step \<times> drive_locals \<times> ('p, 'a, 'b, 'w) drive_state" where
  "handle_response env plan family rebuildable prepared response action locals st =
     (let ctx = plan_ctx plan; hops = no_headers (dv_native env) in
      case classify_auth_rejection (ds_cells st) (dv_bindings env) ctx (rpv_auth plan)
             (er_status response) (apr_applied prepared) of
        Inl e \<Rightarrow> (Finished (Inl e), locals, st)
      | Inr (Some rejection) \<Rightarrow>
          (let intent = \<lparr>in_plan = rejection, in_status = er_status response,
                         in_applied = apr_applied prepared\<rparr> in
           if plan_requests_recovery rejection then
             handle_recoverable env plan rebuildable intent (http_status_error hops ctx response action)
               locals st
           else
             (case handle_terminal env plan rebuildable intent st of
                (e, st') \<Rightarrow> (Finished (Inl e), locals, st')))
      | Inr None \<Rightarrow>
          (Finished (rbind (classify_observed_transport_response hops ctx response action)
                       (finish_family family ctx)), locals, st))"

definition execute_prepared ::
  "('p, 'a, 'b, 'w, 'h, 'u) drive_env \<Rightarrow> 'h request_plan_view \<Rightarrow> execution_family \<Rightarrow> bool
    \<Rightarrow> ('h, 'u) public_request_head \<Rightarrow> auth_preparation \<Rightarrow> drive_locals \<Rightarrow> ('p, 'a, 'b, 'w) drive_state
    \<Rightarrow> 'h drive_step \<times> drive_locals \<times> ('p, 'a, 'b, 'w) drive_state" where
  "execute_prepared env plan family rebuildable head prepared locals st =
     (let ctx = plan_ctx plan in
      case produce_execution_body ctx (ds_body st) of
        (r, body) \<Rightarrow>
          (let st1 = st\<lparr>ds_body := body, ds_run := emit EvBody (ds_run st)\<rparr> in
           case rbind r (finish_head env ctx head) of
             Inl e \<Rightarrow> (Finished (Inl e), locals, st1)
           | Inr built \<Rightarrow>
               (let url = dv_debug_url env (prh_url head)
                            (app_sensitive_query_keys (br_auth_plan built)) in
                case send_and_observe_once (dv_os env) (dv_native env) (dv_limits env) built url
                       (apr_materials prepared) ctx (ds_run st1) of
                  (Inl e, run) \<Rightarrow> (Finished (Inl e), locals, st1\<lparr>ds_run := run\<rparr>)
                | (Inr (response, action), run) \<Rightarrow>
                    handle_response env plan family rebuildable prepared response action locals
                      (st1\<lparr>ds_run := run\<rparr>))))"

definition drive_round ::
  "('p, 'a, 'b, 'w, 'h, 'u) drive_env \<Rightarrow> 'h request_plan_view \<Rightarrow> execution_family \<Rightarrow> bool
    \<Rightarrow> drive_locals \<Rightarrow> ('p, 'a, 'b, 'w) drive_state
    \<Rightarrow> ('h drive_step \<times> drive_locals \<times> ('p, 'a, 'b, 'w) drive_state) option" where
  "drive_round env plan family rebuildable locals st =
     (case prepare_head env plan locals (ds_counter st) (ds_body st) of
        Inl e \<Rightarrow> Some (Finished (Inl e), locals, st)
      | Inr (head, planned, counter) \<Rightarrow>
          (case apply_pending env plan rebuildable
                  (locals\<lparr>dl_auth_plan := Some planned, dl_snapshot := True\<rparr>)
                  (st\<lparr>ds_counter := counter\<rparr>) of
             (Inl e, locals1, st1) \<Rightarrow> Some (Finished (Inl e), locals1, st1)
           | (Inr _, locals1, st1) \<Rightarrow>
               (case ensure_preparation env plan planned locals1 st1 of
                  None \<Rightarrow> None
                | Some (Inl e, locals2, st2) \<Rightarrow> Some (Finished (Inl e), locals2, st2)
                | Some (Inr prepared, locals2, st2) \<Rightarrow>
                    Some (execute_prepared env plan family rebuildable head prepared locals2 st2))))"

fun drive_loop ::
  "nat \<Rightarrow> ('p, 'a, 'b, 'w, 'h, 'u) drive_env \<Rightarrow> 'h request_plan_view \<Rightarrow> execution_family \<Rightarrow> bool
    \<Rightarrow> drive_locals \<Rightarrow> ('p, 'a, 'b, 'w) drive_state
    \<Rightarrow> ((api_client_error, 'h execution_response) result \<times> ('p, 'a, 'b, 'w) drive_state) option" where
  "drive_loop 0 env plan family rebuildable locals st = None"
| "drive_loop (Suc fuel) env plan family rebuildable locals st =
     (case drive_round env plan family rebuildable locals st of
        None \<Rightarrow> None
      | Some (Finished r, _, st') \<Rightarrow> Some (r, st')
      | Some (Again, locals', st') \<Rightarrow> drive_loop fuel env plan family rebuildable locals' st')"

definition drive_executions ::
  "nat \<Rightarrow> ('p, 'a, 'b, 'w, 'h, 'u) drive_env \<Rightarrow> 'h request_plan_view \<Rightarrow> execution_family
    \<Rightarrow> ('p, 'a, 'b, 'w) drive_state
    \<Rightarrow> ((api_client_error, 'h execution_response) result \<times> ('p, 'a, 'b, 'w) drive_state) option" where
  "drive_executions fuel env plan family st =
     drive_loop fuel env plan family (is_replayable (ds_body st))
       \<lparr>dl_auth_plan = None, dl_snapshot = False, dl_pending = None, dl_initiated = False,
        dl_cached = None\<rparr> st"

end
