(* ===== verification/ExecutionProps.thy ===== *)
theory ExecutionProps
  imports Execution AuthEngineProps
begin

text \<open>
  What the driver of visible executions promises. The order of effects is given by an automaton over
  the trace; the driver's trace is accepted by it, from which the bounds on visible executions and
  the order of the effects follow. Together with the two-round bound this is the contract stated in
  the comments of \<open>drive_executions\<close>.
\<close>

section \<open>The life cycle of a request\<close>

datatype stage =
    StReady | StPrepared | StBody | StAcquired | StAllowed | StExecuted | StResponded | StObserved
  | StReleased | StRejected | StClosed

text \<open>The number counts the visible executions that were prepared; \<open>limit\<close> bounds it.\<close>

definition advance :: "nat \<Rightarrow> nat \<Rightarrow> (stage \<times> nat) option" where
  "advance limit k = (if k < limit then Some (StPrepared, Suc k) else None)"

definition lifecycle :: "nat \<Rightarrow> stage \<times> nat \<Rightarrow> exec_event \<Rightarrow> (stage \<times> nat) option" where
  "lifecycle limit p ev = (case p of (stage, k) \<Rightarrow>
     (case stage of
        StReady \<Rightarrow> if ev = EvPrepare then advance limit k else None
      | StPrepared \<Rightarrow> if ev = EvBody then Some (StBody, k) else None
      | StBody \<Rightarrow> if ev = EvAcquire then Some (StAcquired, k) else None
      | StAcquired \<Rightarrow>
          (case ev of EvRequestError _ \<Rightarrow> Some (StClosed, k) | EvPreSend \<Rightarrow> Some (StAllowed, k) | _ \<Rightarrow> None)
      | StAllowed \<Rightarrow> if ev = EvExecute then Some (StExecuted, k) else None
      | StExecuted \<Rightarrow>
          (case ev of EvRequestError _ \<Rightarrow> Some (StClosed, k) | EvPostResponse \<Rightarrow> Some (StResponded, k) | _ \<Rightarrow> None)
      | StResponded \<Rightarrow> if ev = EvObserve then Some (StObserved, k) else None
      | StObserved \<Rightarrow> if ev = EvRelease then Some (StReleased, k) else None
      | StReleased \<Rightarrow>
          if ev = EvReject ProviderCapable then Some (StRejected, k)
          else if ev = EvReject InvalidationOnly then Some (StClosed, k) else None
      | StRejected \<Rightarrow> if ev = EvPrepare then advance limit k else None
      | StClosed \<Rightarrow> None))"

declare lifecycle_def [simp] advance_def [simp]

fun lifecycle_run :: "nat \<Rightarrow> stage \<times> nat \<Rightarrow> exec_event list \<Rightarrow> (stage \<times> nat) option" where
  "lifecycle_run limit p [] = Some p"
| "lifecycle_run limit p (ev # evs) =
     (case lifecycle limit p ev of None \<Rightarrow> None | Some q \<Rightarrow> lifecycle_run limit q evs)"

lemma lifecycle_run_append:
  "lifecycle_run limit p (xs @ ys) =
     (case lifecycle_run limit p xs of None \<Rightarrow> None | Some q \<Rightarrow> lifecycle_run limit q ys)"
  by (induction xs arbitrary: p) (auto split: option.splits)

definition reaches :: "nat \<Rightarrow> stage \<times> nat \<Rightarrow> 'w run_state \<Rightarrow> 'w run_state \<Rightarrow> stage \<times> nat \<Rightarrow> bool" where
  "reaches limit p s s' q \<longleftrightarrow>
     (\<exists>tr. rs_trace s' = rs_trace s @ tr \<and> lifecycle_run limit p tr = Some q)"

lemma reaches_refl [simp]: "reaches limit p s s p"
  unfolding reaches_def by (rule exI [of _ "[]"]) simp

lemma reaches_trans [trans]:
  assumes "reaches limit p s s' q" "reaches limit q s' s'' r"
  shows "reaches limit p s s'' r"
proof -
  obtain tr tr' where "rs_trace s' = rs_trace s @ tr" "lifecycle_run limit p tr = Some q"
    "rs_trace s'' = rs_trace s' @ tr'" "lifecycle_run limit q tr' = Some r"
    using assms unfolding reaches_def by blast
  then have "rs_trace s'' = rs_trace s @ (tr @ tr')" "lifecycle_run limit p (tr @ tr') = Some r"
    by (simp_all add: lifecycle_run_append)
  then show ?thesis unfolding reaches_def by blast
qed

lemma reaches_event:
  assumes "lifecycle limit p ev = Some q" "rs_trace s' = rs_trace s @ [ev]"
  shows "reaches limit p s s' q"
  unfolding reaches_def using assms by (intro exI [of _ "[ev]"]) simp

lemma reaches_emit:
  "lifecycle limit p ev = Some q \<Longrightarrow> reaches limit p s (emit ev s) q"
  by (rule reaches_event) (simp_all add: emit_def)

lemma reaches_act:
  "lifecycle limit p ev = Some q \<Longrightarrow> reaches limit p s (act ev f s) q"
  by (rule reaches_event) (simp_all add: emit_def act_def)

lemma reaches_ask:
  assumes "ask ev f s = (r, s')" "lifecycle limit p ev = Some q"
  shows "reaches limit p s s' q"
  using assms by (intro reaches_event) (auto simp: emit_def ask_def split: prod.splits)

section \<open>One visible execution follows the life cycle\<close>

lemma send_built_request_lifecycle:
  assumes "send_built_request os nops built url materials ctx s = (r, s')"
  shows "\<exists>g. reaches limit (StAllowed, k) s s' (g, k) \<and> (\<forall>x. r = Inr x \<longrightarrow> g = StExecuted)"
proof (cases "materialize_authentication nops (br_message built) (br_auth_plan built) materials")
  case (Inl e)
  then have "s' = s" "\<nexists>x. r = Inr x" using assms by (auto simp: send_built_request_def)
  then show ?thesis using reaches_refl by blast
next
  case (Inr native)
  obtain q s1 where a: "ask EvExecute (os_execute os native) s = (q, s1)" by fastforce
  have s1: "reaches limit (StAllowed, k) s s1 (StExecuted, k)" by (rule reaches_ask [OF a]) simp
  show ?thesis
  proof (cases q)
    case (Inr response)
    then show ?thesis using assms \<open>_ = Inr native\<close> a s1 by (auto simp: send_built_request_def)
  next
    case (Inl e)
    then obtain c f where "s' = act (EvRequestError c) f s1" "\<nexists>x. r = Inr x"
      using assms \<open>_ = Inr native\<close> a by (auto simp: send_built_request_def Let_def split: prod.splits)
    moreover have "reaches limit (StExecuted, k) s1 (act (EvRequestError c) f s1) (StClosed, k)"
      by (rule reaches_act) simp
    ultimately show ?thesis using s1 reaches_trans by blast
  qed
qed

lemma acquire_and_send_lifecycle:
  assumes "acquire_rate_limit_and_send os nops limits built url materials ctx s = (r, s')"
  shows "\<exists>g. reaches limit (StBody, k) s s' (g, k) \<and> (\<forall>x. r = Inr x \<longrightarrow> g = StExecuted)"
proof -
  obtain q s1 where a: "ask EvAcquire (os_acquire os (rate_limit_context_of limits built url)) s = (q, s1)"
    by fastforce
  have s1: "reaches limit (StBody, k) s s1 (StAcquired, k)" by (rule reaches_ask [OF a]) simp
  define over where "over = (case lim_request_body limits of
      None \<Rightarrow> None
    | Some limit \<Rightarrow> map_option (Pair limit) (known_oversize (br_size_hint built) limit))"
  show ?thesis
  proof (cases q)
    case (Inl e)
    then show ?thesis using assms a s1 by (auto simp: acquire_rate_limit_and_send_def)
  next
    case (Inr u)
    show ?thesis
    proof (cases over)
      case (Some la)
      then obtain c f where "s' = act (EvRequestError c) f s1" "\<nexists>x. r = Inr x"
        using assms Inr a
        by (auto simp: acquire_rate_limit_and_send_def over_def [symmetric] Let_def split: prod.splits)
      moreover have "reaches limit (StAcquired, k) s1 (act (EvRequestError c) f s1) (StClosed, k)"
        by (rule reaches_act) simp
      ultimately show ?thesis using s1 reaches_trans by blast
    next
      case None
      obtain p s2 where b: "ask EvPreSend (os_pre_send os (hook_meta_of (br_meta built) url)) s1 = (p, s2)"
        by fastforce
      have "reaches limit (StAcquired, k) s1 s2 (StAllowed, k)" by (rule reaches_ask [OF b]) simp
      then have s2: "reaches limit (StBody, k) s s2 (StAllowed, k)" using s1 reaches_trans by blast
      show ?thesis
      proof (cases p)
        case (Inl e)
        then show ?thesis using assms Inr None a b s2
          by (auto simp: acquire_rate_limit_and_send_def over_def [symmetric])
      next
        case (Inr v)
        then have "send_built_request os nops built url materials ctx s2 = (r, s')"
          using assms \<open>q = Inr u\<close> None a b
          by (simp add: acquire_rate_limit_and_send_def over_def [symmetric])
        then obtain g where "reaches limit (StAllowed, k) s2 s' (g, k)" "\<forall>x. r = Inr x \<longrightarrow> g = StExecuted"
          using send_built_request_lifecycle by blast
        then show ?thesis using s2 reaches_trans by blast
      qed
    qed
  qed
qed

lemma send_and_observe_lifecycle:
  assumes "send_and_observe_once os nops limits built url materials ctx s = (r, s')"
  shows "\<exists>g. reaches limit (StBody, k) s s' (g, k) \<and> (\<forall>x. r = Inr x \<longrightarrow> g = StObserved)"
proof -
  obtain q s1 where a: "acquire_rate_limit_and_send os nops limits built url materials ctx s = (q, s1)"
    by fastforce
  obtain g where g: "reaches limit (StBody, k) s s1 (g, k)" "\<And>x. q = Inr x \<Longrightarrow> g = StExecuted"
    using acquire_and_send_lifecycle [OF a] by blast
  show ?thesis
  proof (cases q)
    case (Inl e)
    then show ?thesis using assms a g(1) by (auto simp: send_and_observe_once_def)
  next
    case (Inr response)
    define s2 where "s2 = act EvPostResponse
      (os_post_response os (hook_meta_of (br_meta built) url) (er_status response)) s1"
    have "reaches limit (StExecuted, k) s1 s2 (StResponded, k)"
      unfolding s2_def by (rule reaches_act) simp
    then have s2: "reaches limit (StBody, k) s s2 (StResponded, k)"
      using g Inr reaches_trans by blast
    obtain p s3 where b: "ask EvObserve
        (os_on_response os (response_context_of (no_headers nops) limits built url response)) s2 = (p, s3)"
      by fastforce
    have "reaches limit (StResponded, k) s2 s3 (StObserved, k)" by (rule reaches_ask [OF b]) simp
    moreover have "s' = s3" using assms a Inr b
      by (auto simp: send_and_observe_once_def observe_transport_response_def s2_def [symmetric]
          split: sum.splits)
    ultimately show ?thesis using s2 reaches_trans by blast
  qed
qed

section \<open>Rounds\<close>

lemma reject_with_lifecycle:
  assumes "reject_with env plan intent st = (r, st')"
  shows "reaches limit (StReleased, k) (ds_run st) (ds_run st') (StClosed, k)"
proof -
  have "ds_run st' = emit (EvReject InvalidationOnly) (ds_run st)"
    using assms by (auto simp: reject_with_def split: prod.splits)
  then show ?thesis by (simp add: reaches_emit)
qed

lemma release_lifecycle:
  "reaches limit (StObserved, k) (ds_run st) (ds_run (release st)) (StReleased, k)"
  by (simp add: release_def reaches_emit)

text \<open>
  What a round may leave behind: it finished, or the one recovery was started, with a body that can
  be rebuilt, and its intent is pending.
\<close>

definition round_result ::
  "nat \<Rightarrow> nat \<Rightarrow> bool \<Rightarrow> stage \<times> nat \<Rightarrow> 'w run_state \<Rightarrow> drive_locals \<Rightarrow> 'h drive_step
    \<Rightarrow> drive_locals \<Rightarrow> 'w run_state \<Rightarrow> bool" where
  "round_result limit n rebuildable p s locals step locals' s' \<longleftrightarrow>
     (case step of
        Finished _ \<Rightarrow> \<exists>q. reaches limit p s s' q
      | Again \<Rightarrow> \<not> dl_initiated locals \<and> rebuildable \<and> dl_initiated locals'
          \<and> (\<exists>intent. dl_pending locals' = Some intent \<and> plan_requests_recovery (in_plan intent))
          \<and> reaches limit p s s' (StReleased, n))"

lemma round_finished:
  assumes "step = Finished x" "reaches limit p s s' q"
  shows "round_result limit n rebuildable p s locals step locals' s'"
proof -
  have "\<exists>q. reaches limit p s s' q" using assms(2) by (rule exI)
  then show ?thesis unfolding round_result_def assms(1) drive_step.case .
qed

lemma handle_recoverable_lifecycle:
  assumes "handle_recoverable env plan rebuildable intent terminal locals st = (step, locals', st')"
    and "plan_requests_recovery (in_plan intent)"
  shows "round_result limit k rebuildable (StObserved, k) (ds_run st) locals step locals' (ds_run st')"
proof (cases "rebuildable \<and> \<not> dl_initiated locals")
  case True
  then have "step = Again" "st' = release st"
    "locals' = locals\<lparr>dl_initiated := True, dl_pending := Some intent\<rparr>"
    using assms(1) by (auto simp: handle_recoverable_def recovery_initiate_def Let_def)
  then show ?thesis using True assms(2) release_lifecycle by (auto simp: round_result_def)
next
  case False
  obtain r st2 where rj: "reject_with env plan intent (release st) = (r, st2)" by fastforce
  obtain x where "step = Finished x" and st': "st' = st2"
    using assms(1) False rj
    by (auto simp: handle_recoverable_def recovery_initiate_def Let_def split: sum.splits if_splits)
  moreover have "reaches limit (StObserved, k) (ds_run st) (ds_run st') (StClosed, k)"
    unfolding st' by (rule reaches_trans [OF release_lifecycle reject_with_lifecycle [OF rj]])
  ultimately show ?thesis by (intro round_finished)
qed

lemma handle_terminal_lifecycle:
  assumes "handle_terminal env plan rebuildable intent st = (e, st')"
  shows "reaches limit (StObserved, k) (ds_run st) (ds_run st') (StRejected, k)"
proof -
  have "ds_run st' = emit (EvReject ProviderCapable) (ds_run (release st))"
    using assms by (auto simp: handle_terminal_def Let_def split: prod.splits)
  moreover have "reaches limit (StReleased, k) (ds_run (release st))
    (emit (EvReject ProviderCapable) (ds_run (release st))) (StRejected, k)"
    by (rule reaches_emit) simp
  ultimately show ?thesis using reaches_trans [OF release_lifecycle] by simp
qed

lemma handle_response_lifecycle:
  assumes "handle_response env plan family rebuildable prepared response action locals st
    = (step, locals', st')"
  shows "round_result limit k rebuildable (StObserved, k) (ds_run st) locals step locals' (ds_run st')"
proof -
  define cl where "cl = classify_auth_rejection (ds_cells st) (dv_bindings env) (plan_ctx plan)
    (rpv_auth plan) (er_status response) (apr_applied prepared)"
  note h = assms [unfolded handle_response_def Let_def, folded cl_def]
  consider (err) e where "cl = Inl e" | (ok) "cl = Inr None"
    | (recover) rejection where "cl = Inr (Some rejection)" "plan_requests_recovery rejection"
    | (terminal) rejection where "cl = Inr (Some rejection)" "\<not> plan_requests_recovery rejection"
    by (cases cl) auto
  then show ?thesis
  proof cases
    case err
    then obtain x where "step = Finished x" "st' = st" using h by auto
    then show ?thesis by (simp add: round_finished [OF _ reaches_refl])
  next
    case ok
    then obtain x where "step = Finished x" "st' = st" using h by auto
    then show ?thesis by (simp add: round_finished [OF _ reaches_refl])
  next
    case recover
    then show ?thesis using h by (intro handle_recoverable_lifecycle) auto
  next
    case terminal
    then obtain intent e where "handle_terminal env plan rebuildable intent st = (e, st')"
      "step = Finished (Inl e)" using h by (auto split: prod.splits)
    from round_finished [OF this(2) handle_terminal_lifecycle [OF this(1)]] show ?thesis .
  qed
qed

lemma round_result_prepend:
  assumes "reaches limit p s s1 q" "round_result limit n rebuildable q s1 locals step locals' s'"
  shows "round_result limit n rebuildable p s locals step locals' s'"
proof (cases step)
  case (Finished x)
  then obtain q' where "reaches limit q s1 s' q'"
    using assms(2) unfolding round_result_def by (simp only: drive_step.case) (elim exE)
  then show ?thesis using Finished reaches_trans [OF assms(1)] round_finished by blast
next
  case Again
  then show ?thesis using assms(2) reaches_trans [OF assms(1)] by (simp add: round_result_def)
qed

lemma execute_prepared_lifecycle:
  assumes "execute_prepared env plan family rebuildable head prepared locals st = (step, locals', st')"
  shows "round_result limit k rebuildable (StPrepared, k) (ds_run st) locals step locals' (ds_run st')"
proof -
  obtain r body where pb: "produce_execution_body (plan_ctx plan) (ds_body st) = (r, body)" by fastforce
  define st1 where "st1 = st\<lparr>ds_body := body, ds_run := emit EvBody (ds_run st)\<rparr>"
  have st1: "reaches limit (StPrepared, k) (ds_run st) (ds_run st1) (StBody, k)"
    by (simp add: st1_def reaches_emit)
  show ?thesis
  proof (cases "rbind r (finish_head env (plan_ctx plan) head)")
    case (Inl e)
    then have "step = Finished (Inl e)" "st' = st1"
      using assms pb by (auto simp: execute_prepared_def st1_def Let_def)
    then show ?thesis using st1 round_finished by blast
  next
    case (Inr built)
    define url where "url = dv_debug_url env (prh_url head) (app_sensitive_query_keys (br_auth_plan built))"
    obtain q run where so: "send_and_observe_once (dv_os env) (dv_native env) (dv_limits env) built url
        (apr_materials prepared) (plan_ctx plan) (ds_run st1) = (q, run)" by fastforce
    obtain g where g: "reaches limit (StBody, k) (ds_run st1) run (g, k)" "\<And>x. q = Inr x \<Longrightarrow> g = StObserved"
      using send_and_observe_lifecycle [OF so] by blast
    note ex = assms [unfolded execute_prepared_def Let_def pb prod.case, folded st1_def,
        unfolded Inr sum.case, folded url_def, unfolded so prod.case]
    have run: "reaches limit (StPrepared, k) (ds_run st) run (g, k)" by (rule reaches_trans [OF st1 g(1)])
    show ?thesis
    proof (cases q)
      case (Inl e)
      then have "step = Finished (Inl e)" "ds_run st' = run" using ex by auto
      then show ?thesis using run round_finished by blast
    next
      case (Inr ra)
      then have "handle_response env plan family rebuildable prepared (fst ra) (snd ra) locals
          (st1\<lparr>ds_run := run\<rparr>) = (step, locals', st')"
        using ex by (cases ra) simp
      from handle_response_lifecycle [OF this] have
        "round_result limit k rebuildable (StObserved, k) run locals step locals' (ds_run st')" by simp
      then show ?thesis using run g(2) [OF Inr] round_result_prepend by blast
    qed
  qed
qed

text \<open>Before a round: nothing happened yet, or the recovery is pending after a released challenge.\<close>

definition round_start :: "bool \<Rightarrow> drive_locals \<Rightarrow> stage \<times> nat \<Rightarrow> bool" where
  "round_start rebuildable locals p \<longleftrightarrow>
     (case dl_pending locals of
        None \<Rightarrow> \<not> dl_initiated locals \<and> dl_cached locals = None \<and> p = (StReady, 0)
      | Some intent \<Rightarrow> plan_requests_recovery (in_plan intent) \<and> dl_initiated locals \<and> rebuildable
          \<and> p = (StReleased, 1))"

definition execution_limit :: "bool \<Rightarrow> nat" where
  "execution_limit rebuildable = (if rebuildable then 2 else 1)"

lemma apply_pending_lifecycle:
  assumes "apply_pending env plan rebuildable locals st = (r, locals', st')"
    and "round_start rebuildable locals p"
  shows "\<exists>g. reaches limit p (ds_run st) (ds_run st') (g, snd p)
    \<and> dl_initiated locals' = dl_initiated locals
    \<and> (r = Inr () \<longrightarrow> g \<in> {StReady, StRejected} \<and> snd p < execution_limit rebuildable
          \<and> dl_cached locals' = None)"
proof (cases "dl_pending locals")
  case None
  then have "st' = st" "locals' = locals" "p = (StReady, 0)" "dl_cached locals = None"
    using assms by (auto simp: apply_pending_def round_start_def)
  then show ?thesis by (auto simp: execution_limit_def intro: reaches_refl)
next
  case (Some intent)
  then have i: "p = (StReleased, 1)" "rebuildable" using assms(2) by (auto simp: round_start_def)
  have "ds_run st' = emit (EvReject ProviderCapable) (ds_run st)"
    and l: "dl_initiated locals' = dl_initiated locals" "r = Inr () \<Longrightarrow> dl_cached locals' = None"
    using assms(1) Some
    by (auto simp: apply_pending_def Let_def split: prod.splits sum.splits auth_rejection_step.splits)
  then have "reaches limit p (ds_run st) (ds_run st') (StRejected, snd p)"
    by (simp add: i reaches_emit)
  then show ?thesis using l i by (auto simp: execution_limit_def)
qed

lemma drive_round_lifecycle:
  assumes "drive_round env plan family rebuildable locals st = Some (step, locals', st')"
    and start: "round_start rebuildable locals p"
  shows "round_result (execution_limit rebuildable) (Suc (snd p)) rebuildable p (ds_run st) locals step
    locals' (ds_run st')"
proof (cases "prepare_head env plan locals (ds_counter st) (ds_body st)")
  case (Inl e)
  then have "step = Finished (Inl e)" "st' = st" using assms(1) by (auto simp: drive_round_def)
  then show ?thesis by (simp add: round_finished [OF _ reaches_refl])
next
  case (Inr hpc)
  obtain head planned counter where hpc: "hpc = (head, planned, counter)" by (cases hpc)
  define l0 where "l0 = locals\<lparr>dl_auth_plan := Some planned, dl_snapshot := True\<rparr>"
  have l0: "round_start rebuildable l0 p" "dl_initiated l0 = dl_initiated locals"
    using start by (auto simp: l0_def round_start_def split: option.splits)
  obtain r l1 st1 where ap: "apply_pending env plan rebuildable l0 (st\<lparr>ds_counter := counter\<rparr>) = (r, l1, st1)"
    by (metis prod_cases3)
  obtain g where g: "reaches (execution_limit rebuildable) p (ds_run st) (ds_run st1) (g, snd p)"
    "dl_initiated l1 = dl_initiated locals"
    "r = Inr () \<Longrightarrow> g \<in> {StReady, StRejected} \<and> snd p < execution_limit rebuildable \<and> dl_cached l1 = None"
    using apply_pending_lifecycle [OF ap l0(1)] l0(2) by auto
  note dr = assms(1) [unfolded drive_round_def Inr hpc, simplified, folded l0_def, unfolded ap]
  show ?thesis
  proof (cases r)
    case (Inl e)
    then have "step = Finished (Inl e)" "st' = st1" using dr by auto
    then show ?thesis using g(1) round_finished by blast
  next
    case (Inr u)
    with g(3) have g3: "g \<in> {StReady, StRejected}" "snd p < execution_limit rebuildable" "dl_cached l1 = None"
      by auto
    obtain r2 l2 st2 where ep: "ensure_preparation env plan planned l1 st1 = Some (r2, l2, st2)"
      using dr Inr by (auto split: option.splits)
    have "ds_run st2 = emit EvPrepare (ds_run st1)" and l2: "dl_initiated l2 = dl_initiated l1"
      using ep g3(3) by (auto simp: ensure_preparation_def Let_def split: option.splits prod.splits sum.splits if_splits)
    then have "reaches (execution_limit rebuildable) (g, snd p) (ds_run st1) (ds_run st2) (StPrepared, Suc (snd p))"
      using g3 by (auto intro: reaches_emit)
    with g(1) have s2: "reaches (execution_limit rebuildable) p (ds_run st) (ds_run st2) (StPrepared, Suc (snd p))"
      by (rule reaches_trans)
    show ?thesis
    proof (cases r2)
      case (Inl e)
      then have "step = Finished (Inl e)" "st' = st2" using dr \<open>r = Inr u\<close> ep by auto
      then show ?thesis using s2 round_finished by blast
    next
      case (Inr prepared)
      then have "execute_prepared env plan family rebuildable head prepared l2 st2 = (step, locals', st')"
        using dr \<open>r = Inr u\<close> ep by auto
      from execute_prepared_lifecycle [OF this] have
        "round_result (execution_limit rebuildable) (Suc (snd p)) rebuildable (StPrepared, Suc (snd p))
          (ds_run st2) l2 step locals' (ds_run st')" .
      from round_result_prepend [OF s2 this] show ?thesis
        using l2 g(2) by (cases step) (auto simp: round_result_def)
    qed
  qed
qed

section \<open>The driver\<close>

lemma drive_loop_lifecycle:
  assumes "drive_loop fuel env plan family rebuildable locals st = Some (r, st')"
    and "round_start rebuildable locals p"
  shows "\<exists>q. reaches (execution_limit rebuildable) p (ds_run st) (ds_run st') q"
  using assms
proof (induction fuel arbitrary: locals st p)
  case (Suc fuel)
  obtain step l1 st1 where dr: "drive_round env plan family rebuildable locals st = Some (step, l1, st1)"
    using Suc.prems(1) by (auto split: option.splits)
  note rr = drive_round_lifecycle [OF dr Suc.prems(2)]
  show ?case
  proof (cases step)
    case (Finished x)
    then have "st' = st1" using Suc.prems(1) dr by simp
    then show ?thesis using rr unfolding round_result_def Finished drive_step.case by simp
  next
    case Again
    then have loop: "drive_loop fuel env plan family rebuildable l1 st1 = Some (r, st')"
      using Suc.prems(1) dr by simp
    from rr Again have
      "reaches (execution_limit rebuildable) p (ds_run st) (ds_run st1) (StReleased, Suc (snd p))"
      and n: "\<not> dl_initiated locals" and l1: "dl_initiated l1" "rebuildable"
      "\<exists>intent. dl_pending l1 = Some intent \<and> plan_requests_recovery (in_plan intent)"
      by (auto simp: round_result_def)
    moreover have "p = (StReady, 0)"
      using Suc.prems(2) n by (auto simp: round_start_def split: option.splits)
    moreover have "round_start rebuildable l1 (StReleased, 1)" using l1 by (auto simp: round_start_def)
    ultimately show ?thesis using Suc.IH [OF loop] reaches_trans by fastforce
  qed
qed simp

definition drive_start :: drive_locals where
  "drive_start = \<lparr>dl_auth_plan = None, dl_snapshot = False, dl_pending = None, dl_initiated = False,
     dl_cached = None\<rparr>"

lemma drive_start [simp]: "round_start rebuildable drive_start (StReady, 0)"
  by (simp add: drive_start_def round_start_def)

lemma drive_executions_reaches:
  assumes "drive_executions fuel env plan family st = Some (r, st')"
  shows "\<exists>q. reaches (execution_limit (is_replayable (ds_body st))) (StReady, 0) (ds_run st) (ds_run st') q"
  using drive_loop_lifecycle [OF assms [unfolded drive_executions_def, folded drive_start_def] drive_start] .

lemma lifecycle_executions:
  assumes "lifecycle_run limit (stage, k) tr = Some (g, n)" "k \<le> limit"
  shows "n \<le> limit \<and> k \<le> n
    \<and> count_list tr EvExecute + k + (if stage \<in> {StPrepared, StBody, StAcquired, StAllowed} then 0 else 1)
        \<le> n + 1"
  using assms
proof (induction tr arbitrary: stage k)
  case (Cons ev tr)
  then obtain stage' k' where step: "lifecycle limit (stage, k) ev = Some (stage', k')"
    and rest: "lifecycle_run limit (stage', k') tr = Some (g, n)"
    by (auto split: option.splits simp del: lifecycle_def)
  have "k' \<le> limit" using step Cons.prems(2) by (auto split: stage.splits exec_event.splits if_splits)
  note IH = Cons.IH [OF rest this]
  show ?case using IH step
    by (cases stage) (auto split: exec_event.splits if_splits)
qed auto

text \<open>
  One effect pays for another: in every stage there is at most one \<open>before\<close> that was not followed by
  its \<open>after\<close>, so no prefix of a trace has more of the latter.
\<close>

locale paid_effect =
  fixes before after :: "exec_event \<Rightarrow> bool" and credit :: "stage \<Rightarrow> nat"
  assumes step: "lifecycle limit (g, k) ev = Some (g', k') \<Longrightarrow>
      of_bool (after ev) + credit g' \<le> of_bool (before ev) + credit g"
    and start: "credit StReady = 0"
begin

lemma paid:
  assumes "lifecycle_run limit (g, k) tr = Some q"
  shows "length (filter after tr) \<le> length (filter before tr) + credit g"
  using assms
proof (induction tr arbitrary: g k)
  case (Cons ev tr)
  then obtain g' k' where ev: "lifecycle limit (g, k) ev = Some (g', k')"
    and rest: "lifecycle_run limit (g', k') tr = Some q"
    by (auto split: option.splits simp del: lifecycle_def)
  from step [OF ev] Cons.IH [OF rest] show ?case by auto
qed simp

lemma paid_prefix:
  assumes "lifecycle_run limit (StReady, k) (xs @ ys) = Some q"
  shows "length (filter after xs) \<le> length (filter before xs)"
proof -
  obtain q' where "lifecycle_run limit (StReady, k) xs = Some q'"
    using assms by (auto simp: lifecycle_run_append split: option.splits)
  from paid [OF this] show ?thesis by (simp add: start)
qed

end

interpretation prepare_pays_acquire: paid_effect "\<lambda>ev. ev = EvPrepare" "\<lambda>ev. ev = EvAcquire"
  "\<lambda>g. of_bool (g \<in> {StPrepared, StBody})"
  by unfold_locales (auto split: stage.splits exec_event.splits if_splits)

interpretation acquire_pays_execute: paid_effect "\<lambda>ev. ev = EvAcquire" "\<lambda>ev. ev = EvExecute"
  "\<lambda>g. of_bool (g \<in> {StAcquired, StAllowed})"
  by unfold_locales (auto split: stage.splits exec_event.splits if_splits)

interpretation hook_pays_execute: paid_effect "\<lambda>ev. ev = EvPreSend" "\<lambda>ev. ev = EvExecute"
  "\<lambda>g. of_bool (g = StAllowed)"
  by unfold_locales (auto split: stage.splits exec_event.splits if_splits)

interpretation observe_pays_release: paid_effect "\<lambda>ev. ev = EvObserve" "\<lambda>ev. ev = EvRelease"
  "\<lambda>g. of_bool (g = StObserved)"
  by unfold_locales (auto split: stage.splits exec_event.splits if_splits)

interpretation release_pays_reject: paid_effect "\<lambda>ev. ev = EvRelease" "\<lambda>ev. \<exists>a. ev = EvReject a"
  "\<lambda>g. of_bool (g = StReleased)"
  by unfold_locales (auto split: stage.splits exec_event.splits if_splits)

section \<open>Properties\<close>

text \<open>
  Property C1: one logical request has at most two visible executions, and at most one when its body
  cannot be rebuilt. Its effects follow the life cycle: preparation, body, rate-limit permit, hook,
  execution, response hook, observation; a challenged response is released before credentials are
  touched, and only a rejection that the provider may act on is followed by a second preparation.
\<close>

theorem drive_follows_lifecycle:
  assumes "drive_executions fuel env plan family st = Some (r, st')"
  shows "\<exists>tr. rs_trace (ds_run st') = rs_trace (ds_run st) @ tr
    \<and> lifecycle_run (if is_replayable (ds_body st) then 2 else 1) (StReady, 0) tr \<noteq> None
    \<and> count_list tr EvExecute \<le> (if is_replayable (ds_body st) then 2 else 1)"
proof -
  define limit where "limit = execution_limit (is_replayable (ds_body st))"
  have limit: "limit = (if is_replayable (ds_body st) then 2 else 1)" by (simp add: limit_def execution_limit_def)
  obtain tr g n where tr: "rs_trace (ds_run st') = rs_trace (ds_run st) @ tr"
    and run: "lifecycle_run limit (StReady, 0) tr = Some (g, n)"
    using drive_executions_reaches [OF assms] unfolding reaches_def limit_def by fastforce
  from lifecycle_executions [OF run] have "count_list tr EvExecute \<le> limit" by simp
  with tr run show ?thesis unfolding limit by (intro exI [of _ tr]) simp
qed


section \<open>Termination and success\<close>

lemma prepare_auth_plan_returns:
  assumes "\<And>cell. fetch cell \<noteq> None"
  shows "prepare_auth_plan dc fetch binding_of ctx requirements planned st \<noteq> None"
proof -
  have one: "prepare dc fetch binding_of requirement slot st \<noteq> None" for requirement slot st
    using assms [of "st (apb_slot (the (binding_of (ar_credential requirement))))"]
    by (auto simp: prepare_def prepare_binding_def Let_def split: option.splits sum.splits)
  have "prepare_requirements dc fetch binding_of ctx pairs acc st \<noteq> None" for pairs acc
  proof (induction pairs arbitrary: acc st)
    case (Cons pair pairs)
    obtain r st' where "prepare dc fetch binding_of (fst pair) (snd pair) st = Some (r, st')"
      using one by (metis not_None_eq surj_pair)
    then show ?case using Cons.IH by (cases pair) (auto split: sum.splits)
  qed simp
  then show ?thesis by (simp add: prepare_auth_plan_def)
qed

lemma drive_round_returns:
  assumes "\<And>cell. dv_fetch env cell \<noteq> None"
  shows "drive_round env plan family rebuildable locals st \<noteq> None"
proof -
  have returns: "ensure_preparation env plan planned l st1 \<noteq> None" for planned l st1
    using prepare_auth_plan_returns [of "dv_fetch env" "dv_downcasts env" "dv_bindings env" "plan_ctx plan"
        "rpv_auth plan" planned "ds_cells st1"] assms
    by (auto simp: ensure_preparation_def Let_def split: option.splits sum.splits)
  have "\<exists>planned l st1. ensure_preparation env plan planned l st1 = None"
    if "drive_round env plan family rebuildable locals st = None"
    using that by (auto simp: drive_round_def split: sum.splits prod.splits option.splits)
  then show ?thesis using returns by blast
qed

lemma round_again:
  assumes "drive_round env plan family rebuildable locals st = Some (Again, locals', st')"
    and "round_start rebuildable locals p"
  shows "\<not> dl_initiated locals \<and> round_start rebuildable locals' (StReleased, 1) \<and> dl_initiated locals'"
  using drive_round_lifecycle [OF assms] by (auto simp: round_result_def round_start_def)

text \<open>A second round is final: the recovery budget is spent.\<close>

lemma drive_loop_two_rounds:
  assumes fetch: "\<And>cell. dv_fetch env cell \<noteq> None" and start: "round_start rebuildable locals p"
  shows "\<exists>r st'. \<forall>n. drive_loop (Suc (Suc n)) env plan family rebuildable locals st = Some (r, st')"
proof -
  obtain step l1 st1 where dr: "drive_round env plan family rebuildable locals st = Some (step, l1, st1)"
    using drive_round_returns [OF fetch] by (metis not_None_eq prod_cases3)
  show ?thesis
  proof (cases step)
    case (Finished x)
    then show ?thesis using dr by simp
  next
    case Again
    note l1 = round_again [OF dr [unfolded Again] start]
    obtain step2 l2 st2 where dr2: "drive_round env plan family rebuildable l1 st1 = Some (step2, l2, st2)"
      using drive_round_returns [OF fetch] by (metis not_None_eq prod_cases3)
    have "step2 \<noteq> Again" using round_again [of env plan family rebuildable l1 st1 l2 st2] dr2 l1 by blast
    then show ?thesis using dr dr2 Again by (cases step2) simp_all
  qed
qed

text \<open>
  Property C3: the driver's loop ends. When every credential fetch returns, two rounds are enough,
  whatever the servers, hooks and providers answer, and more fuel changes nothing.
\<close>

theorem drive_terminates:
  assumes "\<And>cell. dv_fetch env cell \<noteq> None" and "2 \<le> fuel"
  shows "\<exists>r st'. drive_executions fuel env plan family st = Some (r, st')
    \<and> drive_executions 2 env plan family st = Some (r, st')"
proof -
  obtain n where "fuel = Suc (Suc n)" using assms(2) by (metis add_2_eq_Suc le_Suc_ex)
  then show ?thesis
    using drive_loop_two_rounds [OF assms(1) drive_start, where st = st]
    unfolding drive_executions_def drive_start_def [symmetric] numeral_2_eq_2 by blast
qed

definition family_limit :: "execution_family \<Rightarrow> nat option" where
  "family_limit family =
     (case family of Buffered skip limit \<Rightarrow> if skip then None else limit | StreamFamily limit \<Rightarrow> limit)"

definition accepted_response :: "execution_family \<Rightarrow> 'h execution_response \<Rightarrow> bool" where
  "accepted_response family response \<longleftrightarrow>
     classify_status (er_status response) = Success
     \<and> (\<forall>l. family_limit family = Some l \<longrightarrow>
          (\<exists>limit. brs_limit (er_body response) = Some limit \<and> unat limit = min l (2 ^ 64 - 1)
             \<and> (\<forall>n. er_content_length response = Some n \<longrightarrow> unat n \<le> l)))"

lemma limit_response_body_accepts:
  assumes "limit_response_body response limit ctx = Inr response'"
  shows "er_status response' = er_status response
    \<and> (\<forall>l. limit = Some l \<longrightarrow>
         (\<exists>lim. brs_limit (er_body response') = Some lim \<and> unat lim = min l (2 ^ 64 - 1)
            \<and> (\<forall>n. er_content_length response' = Some n \<longrightarrow> unat n \<le> l)))"
proof (cases limit)
  case None
  then show ?thesis using assms by (simp add: limit_response_body_def)
next
  case (Some l)
  define lim :: u64 where "lim = (if l < 2 ^ 64 then word_of_nat l else - 1)"
  have lim: "unat lim = min l (2 ^ 64 - 1)"
    by (auto simp: lim_def unat_of_nat take_bit_nat_eq_self min_def unsigned_minus_1_eq_mask
        mask_eq_exp_minus_1)
  have r: "response' = response\<lparr>er_body := set_limit (er_body response) lim\<rparr>"
    and n: "\<And>n. er_content_length response = Some n \<Longrightarrow> n \<le> lim"
    using assms [unfolded limit_response_body_def Some option.case, folded lim_def]
    by (auto simp: Let_def not_less split: option.splits if_splits)
  show ?thesis using lim n Some unfolding r by (fastforce simp: set_limit_def word_le_nat_alt)
qed

lemma finish_family_accepts:
  assumes "rbind (classify_observed_transport_response hops ctx response action)
      (finish_family family ctx) = Inr response'"
  shows "accepted_response family response'"
proof -
  have s: "classify_status (er_status response) = Success"
    and f: "limit_response_body response (family_limit family) ctx = Inr response'"
    using assms
    by (auto simp: rbind_def classify_observed_transport_response_def finish_family_def family_limit_def
        split: response_class.splits execution_family.splits if_splits)
  show ?thesis using limit_response_body_accepts [OF f] s by (simp add: accepted_response_def)
qed

lemma handle_response_success:
  assumes "handle_response env plan family rebuildable prepared response action locals st
    = (Finished (Inr response'), locals', st')"
  shows "accepted_response family response' \<and> st' = st"
proof -
  have "rbind (classify_observed_transport_response (no_headers (dv_native env)) (plan_ctx plan) response action)
      (finish_family family (plan_ctx plan)) = Inr response' \<and> st' = st"
    using assms
    by (auto simp: handle_response_def handle_recoverable_def Let_def
        split: sum.splits option.splits if_splits prod.splits bool.splits)
  then show ?thesis using finish_family_accepts by blast
qed

lemma execute_prepared_success:
  assumes "execute_prepared env plan family rebuildable head prepared locals st
    = (Finished (Inr response), locals', st')"
  shows "accepted_response family response"
proof -
  obtain response0 action locals0 st0 where "handle_response env plan family rebuildable prepared
      response0 action locals0 st0 = (Finished (Inr response), locals', st')"
    using assms by (auto simp: execute_prepared_def Let_def split: prod.splits sum.splits)
  from handle_response_success [OF this] show ?thesis by simp
qed

lemma drive_loop_success:
  assumes "drive_loop fuel env plan family rebuildable locals st = Some (Inr response, st')"
  shows "accepted_response family response"
  using assms
proof (induction fuel arbitrary: locals st)
  case (Suc fuel)
  obtain step l1 st1 where dr: "drive_round env plan family rebuildable locals st = Some (step, l1, st1)"
    using Suc.prems by (auto split: option.splits)
  show ?case
  proof (cases step)
    case Again
    then show ?thesis using Suc dr by simp
  next
    case (Finished r)
    then have "drive_round env plan family rebuildable locals st = Some (Finished (Inr response), l1, st1)"
      using Suc.prems dr by simp
    then obtain head prepared locals0 st0 where "execute_prepared env plan family rebuildable head prepared
        locals0 st0 = (Finished (Inr response), l1, st1)"
      by (auto simp: drive_round_def split: sum.splits prod.splits option.splits)
    from execute_prepared_success [OF this] show ?thesis .
  qed
qed simp

text \<open>
  A request that succeeds returns a response with a success status whose body is
  limited: when the family has a response limit, the returned stream carries it and a declared
  content length is within it.
\<close>

theorem drive_success_limited:
  assumes "drive_executions fuel env plan family st = Some (Inr response, st')"
  shows "200 \<le> er_status response \<and> er_status response < 300
    \<and> (\<forall>l. family_limit family = Some l \<longrightarrow>
          (\<exists>limit. brs_limit (er_body response) = Some limit \<and> unat limit = min l (2 ^ 64 - 1)
             \<and> (\<forall>n. er_content_length response = Some n \<longrightarrow> unat n \<le> l)))"
  using drive_loop_success [OF assms [unfolded drive_executions_def]]
  by (simp add: accepted_response_def classify_status_def split: if_splits)

section \<open>A sample run\<close>

text \<open>A server that challenges the first execution and accepts the second; the world counts executions.\<close>

type_synonym sample_headers = "(header_name \<times> string) list"

definition run_response :: "nat \<Rightarrow> sample_headers execution_response" where
  "run_response status =
     \<lparr>er_status = status, er_headers = [], er_content_length = Some 2,
      er_body = \<lparr>brs_body = [ItemFrame (FData [1, 2])], brs_limit = None, brs_seen = 0, brs_terminal = False\<rparr>\<rparr>"

definition run_outside :: "(nat, sample_headers, string) outside" where
  "run_outside =
     \<lparr>os_acquire = (\<lambda>_ w. (Inr (), w)), os_on_response = (\<lambda>_ w. (Inr Continue, w)),
      os_pre_send = (\<lambda>_ w. (Inr (), w)), os_post_response = (\<lambda>_ _ w. w), os_request_error = (\<lambda>_ _ w. w),
      os_execute = (\<lambda>_ w. (Inr (run_response (if w = 0 then 401 else 200)), Suc w)),
      os_render = (\<lambda>_. [])\<rparr>"

definition run_native :: "(sample_headers, string, string) native_ops" where
  "run_native =
     \<lparr>no_headers = list_headers, no_append_pair = (\<lambda>u k v. u @ k @ v),
      no_value_from_str = (\<lambda>s. Some s), no_base64 = (\<lambda>s. s)\<rparr>"

definition run_env :: "(unit, nat, nat, nat, sample_headers, string) drive_env" where
  "run_env =
     \<lparr>dv_os = run_outside, dv_native = run_native, dv_head = list_head_ops,
      dv_limits = \<lparr>lim_request_body = None, lim_max_cooldown = 0\<rparr>, dv_api_headers = [],
      dv_tls = TlsAvailable, dv_try_auth_state = Inr (), dv_bindings = auth_bindings,
      dv_downcasts = auth_downcasts,
      dv_fetch = (\<lambda>cell. Some (Inr \<lparr>cl_value = 7, cl_generation = 3\<rparr>, cell)),
      dv_invalidate = (\<lambda>_ _ _. Inr ()), dv_from_bytes = (\<lambda>n. Some n), dv_debug_url = (\<lambda>u _. u),
      dv_host = (\<lambda>_. None),
      dv_native_body = (\<lambda>_. Some (None, \<lparr>sh_lower = 0, sh_upper = Some 0\<rparr>)), dv_native_build = (\<lambda>_. True)\<rparr>"

definition run_plan :: "sample_headers request_plan_view" where
  "run_plan = sample_plan_view\<lparr>rpv_auth := [auth_req]\<rparr>"

definition run_start :: "(unit, nat, nat, nat) drive_state" where
  "run_start =
     \<lparr>ds_cells = auth_cells, ds_counter = 1, ds_body = used_body\<lparr>pb_recipe := RbEmpty\<rparr>,
      ds_run = \<lparr>rs_world = 0, rs_trace = []\<rparr>\<rparr>"

abbreviation challenged_trace :: "exec_event list" where
  "challenged_trace \<equiv>
     [EvPrepare, EvBody, EvAcquire, EvPreSend, EvExecute, EvPostResponse, EvObserve, EvRelease]"

abbreviation recovered_trace :: "exec_event list" where
  "recovered_trace \<equiv>
     [EvReject ProviderCapable, EvPrepare, EvBody, EvAcquire, EvPreSend, EvExecute, EvPostResponse, EvObserve]"

definition run_slots :: auth_placement_plan where
  "run_slots = \<lparr>app_slots = [auth_slot], app_sensitive_query_keys = []\<rparr>"

definition run_head :: "(sample_headers, string) public_request_head" where
  "run_head =
     \<lparr>prh_meta = plan_meta run_plan, prh_url = ''https://h/'',
      prh_headers = [(''accept'', ''*/*''), (''user-agent'', ''ua'')], prh_timeout = None,
      prh_rate_limit = plan_new, prh_auth_plan = run_slots, prh_reserved_headers = []\<rparr>"

lemma run_prepare_head:
  assumes "dl_auth_plan l = None \<and> c = 1 \<or> dl_auth_plan l = Some run_slots \<and> c = 2"
  shows "prepare_head run_env run_plan l c (ds_body run_start) = Inr (run_head, run_slots, 2)"
proof -
  have "resolve_public_request_head list_head_ops [] run_plan (ds_body run_start) =
      Inr (run_head\<lparr>prh_auth_plan := \<lparr>app_slots = [], app_sensitive_query_keys = []\<rparr>\<rparr>)"
    by (simp add: run_plan_def run_start_def resolve_public_request_head_def build_url_def rbind_def
        map_err_def ok_or_def list_head_ops_def sample_plan_view_def validate_public_headers_def
        list_headers_def apply_prepared_body_media_type_def used_body_def media_type_def Let_def
        merge_headers_def run_head_def reserves_content_type_def)
  then show ?thesis using assms auth_planned
    by (auto simp: prepare_head_def run_env_def rbind_def map_err_def apply_auth_preflight_def
        validate_public_request_with_reserved_headers_def slot_preflight_def run_slots_def auth_slot_def
        preflight_scheme_def run_head_def list_head_ops_def list_headers_def run_plan_def)
qed

definition run_prepared :: auth_preparation where
  "run_prepared =
     \<lparr>apr_applied = [auth_use], apr_materials = [MatSecret 1 ''k''], apr_request_local_reusable = False\<rparr>"

lemma run_prepare:
  assumes "cs_id (cells 0) = auth_cid"
  shows "prepare_auth_plan (dv_downcasts run_env) (dv_fetch run_env) (dv_bindings run_env) ctx
     (rpv_auth run_plan) run_slots cells = Some (Inr run_prepared, cells)"
  using assms by (simp add: prepare_auth_plan_def run_env_def run_plan_def run_slots_def prepare_def auth_bindings_def
      auth_req_def prepare_binding_def secret_binding_def binding_validate_requirement_def rbind_def
      materialize_def materialize_secret_def auth_downcasts_def apply_secret_credential_def
      validate_requirement_def auth_slot_def Let_def prepared_new_def with_reuse_def reuse_of_mode_def
      validate_binding_def material_matches_slot_def run_prepared_def auth_use_def)

definition run_built :: "(sample_headers, string) built_request" where
  "run_built =
     \<lparr>br_message = \<lparr>nr_headers = prh_headers run_head, nr_url = prh_url run_head\<rparr>,
      br_meta = prh_meta run_head, br_url_host = None, br_rate_limit = prh_rate_limit run_head,
      br_auth_plan = run_slots, br_size_hint = \<lparr>sh_lower = 0, sh_upper = Some 0\<rparr>\<rparr>"

lemma run_send:
  "send_and_observe_once (dv_os run_env) (dv_native run_env) (dv_limits run_env) run_built url
     (apr_materials run_prepared) ctx s =
   (Inr (run_response (if rs_world s = 0 then 401 else 200), Continue),
    \<lparr>rs_world = Suc (rs_world s),
     rs_trace = rs_trace s @ [EvAcquire, EvPreSend, EvExecute, EvPostResponse, EvObserve]\<rparr>)"
proof -
  obtain native where "materialize_authentication run_native (br_message run_built) (br_auth_plan run_built)
      (apr_materials run_prepared) = Inr native"
    by (simp add: materialize_authentication_def run_native_def run_slots_def auth_slot_def
        run_prepared_def by_slot_def materialize_slot_def insert_auth_header_def run_built_def)
  then show ?thesis
    by (simp add: run_env_def send_and_observe_once_def acquire_rate_limit_and_send_def ask_def act_def
        emit_def run_outside_def send_built_request_def observe_transport_response_def)
qed

lemma run_execute:
  assumes "ds_body st = ds_body run_start"
  shows "execute_prepared run_env run_plan family True run_head run_prepared l st =
    handle_response run_env run_plan family True run_prepared
      (run_response (if rs_world (ds_run st) = 0 then 401 else 200)) Continue l
      (st\<lparr>ds_body := ds_body run_start, ds_run := \<lparr>rs_world = Suc (rs_world (ds_run st)),
        rs_trace = rs_trace (ds_run st) @ [EvBody, EvAcquire, EvPreSend, EvExecute, EvPostResponse, EvObserve]\<rparr>\<rparr>)"
proof -
  obtain produced where p: "produce_execution_body (plan_ctx run_plan) (ds_body run_start)
      = (Inr produced, ds_body run_start)"
    by (simp add: produce_execution_body_def produce_for_execution_def run_start_def used_body_def)
  have "finish_head run_env (plan_ctx run_plan) run_head produced = Inr run_built"
    by (simp add: finish_head_def run_env_def apply_execution_media_type_def run_built_def run_head_def)
  then show ?thesis using p assms run_send
    by (simp add: execute_prepared_def rbind_def emit_def Let_def)
qed

lemma run_accepts:
  "handle_response run_env run_plan (Buffered False (Some 2)) True run_prepared (run_response 200) Continue l st =
     (Finished (Inr (run_response 200\<lparr>er_body := set_limit (er_body (run_response 200)) 2\<rparr>)), l, st)"
  by (simp add: handle_response_def classify_auth_rejection_def is_protected_auth_rejection_def
      UNAUTHORIZED_def FORBIDDEN_def run_response_def classify_observed_transport_response_def
      classify_status_def rbind_def finish_family_def limit_response_body_def)

definition run_intent :: auth_resend_intent where
  "run_intent = \<lparr>in_plan = [auth_action], in_status = 401, in_applied = [auth_use]\<rparr>"

lemma run_challenged:
  assumes "\<not> dl_initiated l" "ds_cells st = auth_cells"
  shows "handle_response run_env run_plan family True run_prepared (run_response 401) Continue l st =
    (Again, l\<lparr>dl_initiated := True, dl_pending := Some run_intent\<rparr>, release st)"
proof -
  have "classify_auth_rejection (ds_cells st) (dv_bindings run_env) (plan_ctx run_plan) (rpv_auth run_plan)
      401 (apr_applied run_prepared) = Inr (Some [auth_action])"
    using auth_classified assms by (simp add: run_env_def run_plan_def run_prepared_def)
  then show ?thesis using assms
    by (simp add: handle_response_def run_response_def plan_requests_recovery_def auth_action_def
        handle_recoverable_def recovery_initiate_def run_intent_def run_prepared_def Let_def)
qed

lemma run_rejected:
  "\<exists>cells. cs_id (cells 0) = auth_cid \<and>
     apply_auth_rejection_step (dv_invalidate run_env) (dv_bindings run_env) ctx (rpv_auth run_plan)
       (in_applied run_intent) (in_plan run_intent) (in_status run_intent) True auth_cells
     = (Inr StepRetry, cells)"
  by (simp add: run_env_def run_plan_def run_intent_def apply_auth_rejection_step_def
      apply_auth_rejection_plan_def resolve_actions_def same_use_def auth_req_def auth_use_def
      auth_action_def identity_matches_def apply_rejection_def auth_bindings_def plan_requests_recovery_def
      apply_binding_rejection_def binding_validate_requirement_def auth_cells_def
      auth_cell_def rejection_invalidation_reason_def secret_binding_def
      invalidate_generation_def invalidate_generation_local_def invalidate_generation_state_def matches_generation_def
      checked_add_def provider_ref_def slot_inner_update_def)

lemma run_first_round:
  "drive_round run_env run_plan family True drive_start run_start =
     Some (Again,
       drive_start\<lparr>dl_auth_plan := Some run_slots, dl_snapshot := True, dl_initiated := True,
         dl_pending := Some run_intent\<rparr>,
       run_start\<lparr>ds_counter := 2, ds_run := \<lparr>rs_world = 1,
         rs_trace = challenged_trace\<rparr>\<rparr>)"
proof -
  have "prepare_head run_env run_plan drive_start (ds_counter run_start) (ds_body run_start)
      = Inr (run_head, run_slots, 2)"
    by (rule run_prepare_head) (simp add: drive_start_def run_start_def)
  moreover have "prepare_auth_plan (dv_downcasts run_env) (dv_fetch run_env) (dv_bindings run_env)
      (plan_ctx run_plan) (rpv_auth run_plan) run_slots auth_cells = Some (Inr run_prepared, auth_cells)"
    by (rule run_prepare) (simp add: auth_cells_def auth_cell_def)
  ultimately show ?thesis
    by (simp add: drive_round_def apply_pending_def ensure_preparation_def drive_start_def run_execute
        run_challenged run_prepared_def [THEN arg_cong [of _ _ apr_request_local_reusable]]
        run_start_def emit_def release_def)
qed

definition run_result :: "sample_headers execution_response" where
  "run_result = run_response 200\<lparr>er_body := set_limit (er_body (run_response 200)) 2\<rparr>"

lemma run_second_round:
  "\<exists>l' st'. drive_round run_env run_plan (Buffered False (Some 2)) True
       (drive_start\<lparr>dl_auth_plan := Some run_slots, dl_snapshot := True, dl_initiated := True,
         dl_pending := Some run_intent\<rparr>)
       (run_start\<lparr>ds_counter := 2, ds_run := \<lparr>rs_world = 1, rs_trace = tr\<rparr>\<rparr>)
     = Some (Finished (Inr run_result), l', st')
   \<and> rs_trace (ds_run st') = tr @ recovered_trace"
proof -
  obtain cells where cells: "cs_id (cells 0) = auth_cid"
    "apply_auth_rejection_step (dv_invalidate run_env) (dv_bindings run_env) (plan_ctx run_plan)
       (rpv_auth run_plan) (in_applied run_intent) (in_plan run_intent) (in_status run_intent) True
       (ds_cells run_start) = (Inr StepRetry, cells)"
    using run_rejected [of "plan_ctx run_plan"] by (auto simp: run_start_def)
  have "prepare_head run_env run_plan
      (drive_start\<lparr>dl_auth_plan := Some run_slots, dl_snapshot := True, dl_initiated := True,
         dl_pending := Some run_intent\<rparr>) 2 (ds_body run_start) = Inr (run_head, run_slots, 2)"
    by (rule run_prepare_head) simp
  then show ?thesis
    using cells run_prepare [of cells "plan_ctx run_plan"]
    by (simp add: drive_round_def apply_pending_def ensure_preparation_def run_execute run_accepts
        run_prepared_def [THEN arg_cong [of _ _ apr_request_local_reusable]] emit_def Let_def run_result_def)
qed

text \<open>The challenged request is recovered by a second visible execution.\<close>

lemma sample_run:
  "\<exists>st'. drive_executions 2 run_env run_plan (Buffered False (Some 2)) run_start = Some (Inr run_result, st')
   \<and> rs_trace (ds_run st') = challenged_trace @ recovered_trace"
proof -
  have "is_replayable (ds_body run_start)" by (simp add: is_replayable_def run_start_def used_body_def)
  moreover obtain l' st' where "drive_round run_env run_plan (Buffered False (Some 2)) True
       (drive_start\<lparr>dl_auth_plan := Some run_slots, dl_snapshot := True, dl_initiated := True,
         dl_pending := Some run_intent\<rparr>)
       (run_start\<lparr>ds_counter := 2, ds_run := \<lparr>rs_world = 1,
         rs_trace = challenged_trace\<rparr>\<rparr>)
     = Some (Finished (Inr run_result), l', st')"
    "rs_trace (ds_run st') = challenged_trace @ recovered_trace"
    using run_second_round by blast
  ultimately show ?thesis
    using run_first_round [of "Buffered False (Some 2)"]
    by (simp add: drive_executions_def drive_start_def [symmetric] numeral_2_eq_2)
qed

theorem drive_follows_lifecycle_witness:
  "\<exists>st' tr. drive_executions 2 run_env run_plan (Buffered False (Some 2)) run_start = Some (Inr run_result, st')
     \<and> rs_trace (ds_run st') = tr \<and> count_list tr EvExecute = 2 \<and> lifecycle_run 2 (StReady, 0) tr \<noteq> None"
proof -
  obtain st' where run: "drive_executions 2 run_env run_plan (Buffered False (Some 2)) run_start
      = Some (Inr run_result, st')"
    and tr: "rs_trace (ds_run st') = challenged_trace @ recovered_trace"
    using sample_run by blast
  have "is_replayable (ds_body run_start)" "rs_trace (ds_run run_start) = []"
    by (simp_all add: is_replayable_def run_start_def used_body_def)
  with drive_follows_lifecycle [OF run] have "lifecycle_run 2 (StReady, 0) (rs_trace (ds_run st')) \<noteq> None"
    by auto
  with run tr show ?thesis by (intro exI [of _ st'] exI [of _ "rs_trace (ds_run st')"]) simp
qed


theorem drive_terminates_witness:
  "\<exists>r st'. drive_executions 5 run_env run_plan (Buffered False (Some 2)) run_start = Some (r, st')"
  using drive_terminates [of run_env 5 run_plan "Buffered False (Some 2)" run_start]
  by (auto simp: run_env_def)

theorem drive_success_limited_witness:
  "er_status run_result = 200 \<and> brs_limit (er_body run_result) = Some 2"
proof -
  obtain st' where run: "drive_executions 2 run_env run_plan (Buffered False (Some 2)) run_start
      = Some (Inr run_result, st')" using sample_run by blast
  have "family_limit (Buffered False (Some 2)) = Some 2" by (simp add: family_limit_def)
  with drive_success_limited [OF run] obtain limit where
    "brs_limit (er_body run_result) = Some limit" "unat limit = 2" by auto
  moreover from \<open>unat limit = 2\<close> have "limit = 2" by (simp add: word_unat_eq_iff)
  ultimately show ?thesis by (simp add: run_result_def run_response_def)
qed

end
