(* ===== verification/Pagination.thy ===== *)
theory Pagination
  imports RequestHead
begin

text \<open>
  Pagination controllers (\<open>pagination.rs\<close>, \<open>pagination/offset_limit.rs\<close>, \<open>pagination/paged.rs\<close>,
  \<open>pagination/cursor.rs\<close>): caps, progress keys, the \<open>EndpointPagination\<close> contract as a record of
  operations, its three implementations and the runtime adapter that keeps a controller beside an
  endpoint. The page type and its next cursor are arguments; \<open>usize_max\<close> is the largest \<open>usize\<close>.
\<close>

section \<open>Data\<close>

datatype pagination_termination =
    HardPageCap nat
  | HardItemCap nat
  | TakePages nat
  | TakeItems nat

record pagination_caps =
  pc_termination :: pagination_termination
  pc_detect_loops :: bool

definition caps_new :: "pagination_termination \<Rightarrow> pagination_caps" where
  "caps_new termination = \<lparr>pc_termination = termination, pc_detect_loops = True\<rparr>"

definition caps_detect_loops :: "pagination_caps \<Rightarrow> bool \<Rightarrow> pagination_caps" where
  "caps_detect_loops caps enabled = caps\<lparr>pc_detect_loops := enabled\<rparr>"

datatype progress_key = PkU64 u64 | PkStr string | PkBytes "u8 list"

definition diagnostic_summary :: "progress_key \<Rightarrow> string" where
  "diagnostic_summary k =
     (case k of
        PkU64 _ \<Rightarrow> ''u64 progress key''
      | PkStr value \<Rightarrow> ''string progress key (len='' @ decimal (length value) @ '' bytes)''
      | PkBytes value \<Rightarrow> ''bytes progress key (len='' @ decimal (length value) @ '' bytes)'')"

datatype page_decision = PdContinue | PdStop
datatype control = CtContinue | CtStop

fun control_of :: "page_decision \<Rightarrow> control" where
  "control_of PdContinue = CtContinue"
| "control_of PdStop = CtStop"

record page_apply =
  pa_endpoint :: string
  pa_page_index :: u64
  pa_ctx :: error_context

record page_advance =
  pv_endpoint :: string
  pv_page_index :: u64
  pv_item_count :: nat

record ('pg, 'i) page_items =
  pi_item_count :: "'pg \<Rightarrow> nat"
  pi_into_items :: "'pg \<Rightarrow> 'i list"

record ('c, 'pg) endpoint_pagination =
  ep_apply :: "page_apply \<Rightarrow> 'c \<Rightarrow> (api_client_error, 'c) result"
  ep_expected_items_per_page :: "'c \<Rightarrow> nat option"
  ep_advance :: "'pg \<Rightarrow> page_advance \<Rightarrow> 'c \<Rightarrow> (api_client_error, page_decision \<times> 'c) result"
  ep_progress_key :: "'c \<Rightarrow> progress_key option"

section \<open>Page sizes\<close>

text \<open>The context an \<open>advance\<close> reports its own errors in.\<close>

definition pagination_context :: error_context where
  "pagination_context = \<lparr>ec_endpoint = ''pagination'', ec_method = ''GET''\<rparr>"

definition non_zero :: "nat \<Rightarrow> nat option" where
  "non_zero n = (if n = 0 then None else Some n)"

definition validate_page_size ::
  "nat \<Rightarrow> u64 \<Rightarrow> string \<Rightarrow> error_context \<Rightarrow> (api_client_error, nat) result" where
  "validate_page_size usize_max value controller ctx =
     rbind (ok_or (usize_try_from usize_max value)
              (Pagination ctx Overflow (controller @ '': page size does not fit in usize'')))
       (\<lambda>v. ok_or (non_zero v)
              (Pagination ctx InvalidSize (controller @ '': page size must be greater than zero'')))"

definition validate_paged_page_size ::
  "nat \<Rightarrow> u64 \<Rightarrow> error_context \<Rightarrow> (api_client_error, nat) result" where
  "validate_paged_page_size usize_max value ctx =
     rbind (ok_or (usize_try_from usize_max value)
              (Pagination ctx Overflow ''paged: page size does not fit in usize''))
       (\<lambda>v. ok_or (non_zero v) (Pagination ctx InvalidSize ''paged: page size must be greater than zero''))"

definition validate_paged_page :: "u64 \<Rightarrow> error_context \<Rightarrow> (api_client_error, unit) result" where
  "validate_paged_page value ctx =
     (if value = 0 then Inl (Pagination ctx InvalidSize ''paged: page=0'') else Inr ())"

definition validate_per_page ::
  "nat \<Rightarrow> u64 \<Rightarrow> string \<Rightarrow> error_context \<Rightarrow> (api_client_error, nat) result" where
  "validate_per_page usize_max value controller ctx =
     rbind (ok_or (usize_try_from usize_max value)
              (Pagination ctx Overflow (controller @ '': per_page does not fit in usize'')))
       (\<lambda>v. ok_or (non_zero v)
              (Pagination ctx InvalidSize (controller @ '': per_page must be greater than zero'')))"

definition expected_items :: "nat \<Rightarrow> u64 \<Rightarrow> nat option" where
  "expected_items usize_max value =
     (case usize_try_from usize_max value of None \<Rightarrow> None | Some v \<Rightarrow> non_zero v)"

section \<open>Offset and limit\<close>

record offset_limit_pagination =
  ol_offset :: u64
  ol_limit :: u64

definition offset_limit_default :: offset_limit_pagination where
  "offset_limit_default = \<lparr>ol_offset = 0, ol_limit = 20\<rparr>"

definition offset_limit_apply ::
  "nat \<Rightarrow> page_apply \<Rightarrow> offset_limit_pagination \<Rightarrow> (api_client_error, offset_limit_pagination) result" where
  "offset_limit_apply usize_max ctx c =
     rbind (validate_page_size usize_max (ol_limit c) ''offset/limit'' (pa_ctx ctx)) (\<lambda>_. Inr c)"

definition offset_limit_advance ::
  "nat \<Rightarrow> 'pg \<Rightarrow> page_advance \<Rightarrow> offset_limit_pagination
    \<Rightarrow> (api_client_error, page_decision \<times> offset_limit_pagination) result" where
  "offset_limit_advance usize_max page ctx c =
     rbind (validate_page_size usize_max (ol_limit c) ''offset/limit'' pagination_context) (\<lambda>_.
     rbind (ok_or (checked_add (ol_offset c) (ol_limit c))
              (Pagination pagination_context Overflow ''offset/limit: offset overflow'')) (\<lambda>offset.
     Inr (PdContinue, c\<lparr>ol_offset := offset\<rparr>)))"

definition offset_limit_ops :: "nat \<Rightarrow> (offset_limit_pagination, 'pg) endpoint_pagination" where
  "offset_limit_ops usize_max =
     \<lparr>ep_apply = offset_limit_apply usize_max,
      ep_expected_items_per_page = (\<lambda>c. expected_items usize_max (ol_limit c)),
      ep_advance = offset_limit_advance usize_max,
      ep_progress_key = (\<lambda>c. Some (PkU64 (ol_offset c)))\<rparr>"

section \<open>Numbered pages\<close>

record paged_pagination =
  pp_page :: u64
  pp_per_page :: u64

definition paged_default :: paged_pagination where
  "paged_default = \<lparr>pp_page = 1, pp_per_page = 20\<rparr>"

definition paged_apply ::
  "nat \<Rightarrow> page_apply \<Rightarrow> paged_pagination \<Rightarrow> (api_client_error, paged_pagination) result" where
  "paged_apply usize_max ctx c =
     rbind (validate_paged_page (pp_page c) (pa_ctx ctx)) (\<lambda>_.
     rbind (validate_paged_page_size usize_max (pp_per_page c) (pa_ctx ctx)) (\<lambda>_. Inr c))"

definition paged_advance ::
  "nat \<Rightarrow> 'pg \<Rightarrow> page_advance \<Rightarrow> paged_pagination
    \<Rightarrow> (api_client_error, page_decision \<times> paged_pagination) result" where
  "paged_advance usize_max page ctx c =
     rbind (validate_paged_page_size usize_max (pp_per_page c) pagination_context) (\<lambda>_.
     rbind (ok_or (checked_add (pp_page c) 1)
              (Pagination pagination_context Overflow ''paged: page overflow'')) (\<lambda>page'.
     Inr (PdContinue, c\<lparr>pp_page := page'\<rparr>)))"

definition paged_ops :: "nat \<Rightarrow> (paged_pagination, 'pg) endpoint_pagination" where
  "paged_ops usize_max =
     \<lparr>ep_apply = paged_apply usize_max,
      ep_expected_items_per_page = (\<lambda>c. expected_items usize_max (pp_per_page c)),
      ep_advance = paged_advance usize_max,
      ep_progress_key = (\<lambda>c. Some (PkU64 (pp_page c)))\<rparr>"

section \<open>Cursors\<close>

record cursor_pagination =
  cp_cursor :: "string option"
  cp_per_page :: u64
  cp_send_cursor_on_first :: bool
  cp_stop_when_cursor_missing :: bool

definition cursor_default :: cursor_pagination where
  "cursor_default =
     \<lparr>cp_cursor = None, cp_per_page = 20, cp_send_cursor_on_first = False, cp_stop_when_cursor_missing = True\<rparr>"

definition cursor_apply ::
  "nat \<Rightarrow> page_apply \<Rightarrow> cursor_pagination \<Rightarrow> (api_client_error, cursor_pagination) result" where
  "cursor_apply usize_max ctx c =
     rbind (validate_per_page usize_max (cp_per_page c) ''cursor'' (pa_ctx ctx)) (\<lambda>_.
     Inr (if pa_page_index ctx = 0 \<and> \<not> cp_send_cursor_on_first c then c\<lparr>cp_cursor := None\<rparr> else c))"

definition cursor_advance ::
  "('pg \<Rightarrow> string option) \<Rightarrow> nat \<Rightarrow> 'pg \<Rightarrow> page_advance \<Rightarrow> cursor_pagination
    \<Rightarrow> (api_client_error, page_decision \<times> cursor_pagination) result" where
  "cursor_advance next_cursor usize_max page ctx c =
     rbind (validate_per_page usize_max (cp_per_page c) ''cursor'' pagination_context) (\<lambda>_.
     (let c' = c\<lparr>cp_cursor := next_cursor page\<rparr> in
      if cp_cursor c' = None \<and> cp_stop_when_cursor_missing c' then Inr (PdStop, c')
      else Inr (PdContinue, c')))"

definition cursor_ops ::
  "('pg \<Rightarrow> string option) \<Rightarrow> nat \<Rightarrow> (cursor_pagination, 'pg) endpoint_pagination" where
  "cursor_ops next_cursor usize_max =
     \<lparr>ep_apply = cursor_apply usize_max,
      ep_expected_items_per_page = (\<lambda>c. expected_items usize_max (cp_per_page c)),
      ep_advance = cursor_advance next_cursor usize_max,
      ep_progress_key = (\<lambda>c. map_option PkStr (cp_cursor c))\<rparr>"

section \<open>The runtime adapter\<close>

record ('e, 'c) paginate_binding =
  pb_load_pagination :: "'e \<Rightarrow> 'c"
  pb_store_pagination :: "'c \<Rightarrow> 'e \<Rightarrow> 'e"

record ('r, 'e, 'pg) pagination_runtime =
  prt_init :: "'e \<Rightarrow> page_apply \<Rightarrow> 'r \<Rightarrow> (api_client_error, 'r) result"
  prt_apply :: "page_apply \<Rightarrow> 'r \<Rightarrow> 'e \<Rightarrow> (api_client_error, 'r \<times> 'e) result"
  prt_advance ::
    "error_context \<Rightarrow> 'pg \<Rightarrow> page_advance \<Rightarrow> 'r \<Rightarrow> 'e
      \<Rightarrow> (api_client_error, page_decision \<times> 'r \<times> 'e) result"
  prt_expected_items_per_page :: "'r \<Rightarrow> nat option"
  prt_progress_key :: "'r \<Rightarrow> progress_key option"

definition adapter_init ::
  "('e, 'c) paginate_binding \<Rightarrow> 'e \<Rightarrow> page_apply \<Rightarrow> 'c option \<Rightarrow> (api_client_error, 'c option) result" where
  "adapter_init bnd ep ctx p =
     (if p \<noteq> None
      then Inl (Pagination (pa_ctx ctx) RuntimeAlreadyInitialized
                  ''pagination runtime was initialized more than once'')
      else Inr (Some (pb_load_pagination bnd ep)))"

definition adapter_apply ::
  "('c, 'pg) endpoint_pagination \<Rightarrow> ('e, 'c) paginate_binding \<Rightarrow> page_apply \<Rightarrow> 'c option \<Rightarrow> 'e
    \<Rightarrow> (api_client_error, 'c option \<times> 'e) result" where
  "adapter_apply ops bnd ctx p ep =
     rbind (ok_or p (Pagination (pa_ctx ctx) RuntimeNotInitialized
                       ''pagination runtime was used before initialization'')) (\<lambda>c.
     rbind (ep_apply ops ctx c) (\<lambda>c'. Inr (Some c', pb_store_pagination bnd c' ep)))"

definition adapter_advance ::
  "('c, 'pg) endpoint_pagination \<Rightarrow> ('e, 'c) paginate_binding \<Rightarrow> error_context \<Rightarrow> 'pg \<Rightarrow> page_advance
    \<Rightarrow> 'c option \<Rightarrow> 'e \<Rightarrow> (api_client_error, page_decision \<times> 'c option \<times> 'e) result" where
  "adapter_advance ops bnd err_ctx page ctx p ep =
     rbind (ok_or p (Pagination err_ctx RuntimeNotInitialized
                       ''pagination runtime was used before initialization'')) (\<lambda>c.
     rbind (ep_advance ops page ctx c) (\<lambda>(decision, c').
     Inr (decision, Some c', pb_store_pagination bnd c' ep)))"

definition pagination_runtime_adapter ::
  "('c, 'pg) endpoint_pagination \<Rightarrow> ('e, 'c) paginate_binding \<Rightarrow> ('c option, 'e, 'pg) pagination_runtime" where
  "pagination_runtime_adapter ops bnd =
     \<lparr>prt_init = adapter_init bnd, prt_apply = adapter_apply ops bnd, prt_advance = adapter_advance ops bnd,
      prt_expected_items_per_page =
        (\<lambda>p. case p of None \<Rightarrow> None | Some c \<Rightarrow> ep_expected_items_per_page ops c),
      prt_progress_key = (\<lambda>p. case p of None \<Rightarrow> None | Some c \<Rightarrow> ep_progress_key ops c)\<rparr>"

end
