(* ===== verification/PaginationRun.thy ===== *)
theory PaginationRun
  imports Pagination "HOL-Library.List_Lexorder" "HOL-Library.Char_ord" "HOL-Library.Product_Lexorder"
begin

text \<open>
  Collecting a paginated endpoint (\<open>PaginatedRequest::collect\<close> and \<open>collect_with_pagination_runtime\<close>
  of \<open>request.rs\<close>) with the request options. Planning a call from the endpoint and executing it are
  arguments: the first is generated code, the second the client's \<open>execute_plan\<close>. Hash sets are lists
  of the inserted elements. Header values are their text. \<open>fetched_pages\<close> is computed without
  wrap-around, as on a target whose \<open>usize\<close> has more than 32 bits.
\<close>

section \<open>Request options\<close>

datatype timeout_override = ToInherit | ToClear | ToSet duration

record request_options =
  ro_timeout_override :: timeout_override

definition request_options_default :: request_options where
  "request_options_default = \<lparr>ro_timeout_override = ToInherit\<rparr>"

definition apply_to :: "request_options \<Rightarrow> 'h request_plan_view \<Rightarrow> u32 \<Rightarrow> 'h request_plan_view" where
  "apply_to opts plan page_index =
     plan\<lparr>rpv_override_timeout :=
            (case ro_timeout_override opts of
               ToInherit \<Rightarrow> rpv_override_timeout plan
             | ToClear \<Rightarrow> None
             | ToSet d \<Rightarrow> Some d),
          rpv_page_index := page_index\<rparr>"

definition opts_timeout :: "duration \<Rightarrow> request_options \<Rightarrow> request_options" where
  "opts_timeout d opts = opts\<lparr>ro_timeout_override := ToSet d\<rparr>"

definition opts_clear_timeout :: "request_options \<Rightarrow> request_options" where
  "opts_clear_timeout opts = opts\<lparr>ro_timeout_override := ToClear\<rparr>"

definition opts_inherit_timeout :: "request_options \<Rightarrow> request_options" where
  "opts_inherit_timeout opts = opts\<lparr>ro_timeout_override := ToInherit\<rparr>"

section \<open>Request identity\<close>

record pagination_request_identity =
  pri_endpoint :: string
  pri_method :: string
  pri_scheme :: string
  pri_host :: string
  pri_path :: string
  pri_query :: "(string \<times> string) list"
  pri_headers :: "(string \<times> string) list"

definition pagination_request_identity_of ::
  "('h, string) header_map_ops \<Rightarrow> 'h request_plan_view \<Rightarrow> pagination_request_identity" where
  "pagination_request_identity_of hops plan =
     \<lparr>pri_endpoint = rpv_name plan, pri_method = rpv_method plan, pri_scheme = rpv_scheme plan,
      pri_host = rpv_host plan, pri_path = rpv_path plan, pri_query = rpv_query plan,
      pri_headers = sort (hmo_iter hops (rpv_headers plan))\<rparr>"

definition ensure_progress ::
  "pagination_request_identity list \<Rightarrow> pagination_request_identity \<Rightarrow> error_context \<Rightarrow> u32
    \<Rightarrow> (api_client_error, pagination_request_identity list) result" where
  "ensure_progress seen identity ctx page_index =
     (if identity \<in> set seen
      then Inl (Pagination ctx NonProgress
                  (''non-progress detected (page_index='' @ decimal (unat page_index) @ '' request repeated)''))
      else Inr (seen @ [identity]))"

section \<open>Caps\<close>

definition validate_collect_termination ::
  "pagination_termination \<Rightarrow> error_context \<Rightarrow> (api_client_error, unit) result" where
  "validate_collect_termination termination ctx =
     (case termination of
        HardPageCap n \<Rightarrow>
          if n = 0 then Inl (Pagination ctx InvalidSize ''hard pagination page cap must be greater than zero'')
          else Inr ()
      | HardItemCap n \<Rightarrow>
          if n = 0 then Inl (Pagination ctx InvalidSize ''hard pagination item cap must be greater than zero'')
          else Inr ()
      | _ \<Rightarrow> Inr ())"

definition common_content_stop :: "nat \<Rightarrow> nat option \<Rightarrow> bool" where
  "common_content_stop item_count expected =
     (item_count = 0 \<or> (case expected of None \<Rightarrow> False | Some n \<Rightarrow> item_count < n))"

record pre_advance_decision =
  pad_common_stop :: bool
  pad_take_items_done :: bool
  pad_hard_item_cap_exceeded :: "nat option"

definition items_overflow :: "error_context \<Rightarrow> api_client_error" where
  "items_overflow ctx = Pagination ctx Overflow ''items overflow''"

definition pre_advance_decision_of ::
  "nat \<Rightarrow> pagination_termination \<Rightarrow> nat \<Rightarrow> nat \<Rightarrow> nat option \<Rightarrow> error_context
    \<Rightarrow> (api_client_error, pre_advance_decision) result" where
  "pre_advance_decision_of usize_max termination items_count item_count expected ctx =
     rbind (ok_or (usize_checked_add usize_max items_count item_count) (items_overflow ctx)) (\<lambda>hinted_total.
     Inr \<lparr>pad_common_stop = common_content_stop item_count expected,
          pad_take_items_done =
            (case termination of TakeItems max_items \<Rightarrow> max_items - items_count \<le> item_count | _ \<Rightarrow> False),
          pad_hard_item_cap_exceeded =
            (case termination of
               HardItemCap max_items \<Rightarrow> if max_items < hinted_total then Some hinted_total else None
             | _ \<Rightarrow> None)\<rparr>)"

definition hard_item_cap_error :: "error_context \<Rightarrow> nat \<Rightarrow> nat \<Rightarrow> u32 \<Rightarrow> api_client_error" where
  "hard_item_cap_error ctx max_items seen_items page_index =
     PaginationLimit ctx ItemLimitExceeded
       (''pagination hard item cap exceeded (max='' @ decimal max_items @ '' seen='' @ decimal seen_items
        @ '' page_index='' @ decimal (unat page_index) @ '')'')"

definition hard_page_cap_error :: "error_context \<Rightarrow> nat \<Rightarrow> nat \<Rightarrow> nat \<Rightarrow> api_client_error" where
  "hard_page_cap_error ctx max_pages seen_items fetched_pages =
     PaginationLimit ctx PageLimitExceeded
       (''pagination hard page cap exceeded (max='' @ decimal max_pages @ '' seen_items='' @ decimal seen_items
        @ '' page_index='' @ decimal fetched_pages @ '')'')"

section \<open>One page\<close>

record ('r, 'e, 'pg, 'i, 'h, 'b, 'w) collect_env =
  ce_runtime :: "('r, 'e, 'pg) pagination_runtime"
  ce_pages :: "('pg, 'i) page_items"
  ce_plan :: "'e \<Rightarrow> (api_client_error, 'h request_plan_view \<times> 'b) result"
  ce_execute :: "'h request_plan_view \<Rightarrow> 'b \<Rightarrow> 'w \<Rightarrow> (api_client_error, 'pg) result \<times> 'w"
  ce_headers :: "('h, string) header_map_ops"
  ce_opts :: request_options
  ce_caps :: pagination_caps
  ce_ctx :: error_context
  ce_usize_max :: nat

record ('r, 'e, 'i, 'w) collect_state =
  cst_ep :: 'e
  cst_runtime :: 'r
  cst_out :: "'i list"
  cst_seen :: "progress_key list option"
  cst_identities :: "pagination_request_identity list"
  cst_items_count :: nat
  cst_page_index :: u32
  cst_world :: 'w

datatype 'i page_step = PageDone "(api_client_error, 'i list) result" | PageNext

definition detect_loop ::
  "('r, 'e, 'pg, 'i, 'h, 'b, 'w) collect_env \<Rightarrow> ('r, 'e, 'i, 'w) collect_state
    \<Rightarrow> (api_client_error, progress_key list option) result" where
  "detect_loop env st =
     (case cst_seen st of
        None \<Rightarrow> Inr None
      | Some seen \<Rightarrow>
          (case prt_progress_key (ce_runtime env) (cst_runtime st) of
             None \<Rightarrow> Inr (Some seen)
           | Some k \<Rightarrow>
               if k \<in> set seen
               then Inl (Pagination (ce_ctx env) NonProgress
                           (''loop detected (page_index='' @ decimal (unat (cst_page_index st)) @ '' ''
                            @ diagnostic_summary k @ '')''))
               else Inr (Some (seen @ [k]))))"

definition page_apply_of :: "('r, 'e, 'pg, 'i, 'h, 'b, 'w) collect_env \<Rightarrow> u32 \<Rightarrow> page_apply" where
  "page_apply_of env page_index =
     \<lparr>pa_endpoint = ec_endpoint (ce_ctx env), pa_page_index = ucast page_index, pa_ctx = ce_ctx env\<rparr>"

text \<open>From the loop check to the planned call; the identity is recorded.\<close>

definition plan_page ::
  "('r, 'e, 'pg, 'i, 'h, 'b, 'w) collect_env \<Rightarrow> ('r, 'e, 'i, 'w) collect_state
    \<Rightarrow> (api_client_error,
         ('h request_plan_view \<times> 'b) \<times> nat option \<times> ('r, 'e, 'i, 'w) collect_state) result" where
  "plan_page env st =
     rbind (detect_loop env st) (\<lambda>seen.
     rbind (prt_apply (ce_runtime env) (page_apply_of env (cst_page_index st)) (cst_runtime st) (cst_ep st))
       (\<lambda>(rt, ep).
     rbind (ce_plan env ep) (\<lambda>(plan, body).
     (let plan' = apply_to (ce_opts env) plan (cst_page_index st) in
      rbind (ensure_progress (cst_identities st) (pagination_request_identity_of (ce_headers env) plan')
               (ce_ctx env) (cst_page_index st)) (\<lambda>identities.
      Inr ((plan', body), prt_expected_items_per_page (ce_runtime env) rt,
           st\<lparr>cst_seen := seen, cst_runtime := rt, cst_ep := ep, cst_identities := identities\<rparr>))))))"

text \<open>The control decision: \<open>advance\<close> is not called when the page already decides.\<close>

definition advance_page ::
  "('r, 'e, 'pg, 'i, 'h, 'b, 'w) collect_env \<Rightarrow> 'pg \<Rightarrow> nat \<Rightarrow> nat option
    \<Rightarrow> ('r, 'e, 'i, 'w) collect_state
    \<Rightarrow> (api_client_error, control \<times> ('r, 'e, 'i, 'w) collect_state) result" where
  "advance_page env page page_len expected st =
     rbind (pre_advance_decision_of (ce_usize_max env) (pc_termination (ce_caps env)) (cst_items_count st)
              page_len expected (ce_ctx env)) (\<lambda>pre.
     case (pc_termination (ce_caps env), pad_hard_item_cap_exceeded pre) of
       (HardItemCap max_items, Some new_total) \<Rightarrow>
         Inl (hard_item_cap_error (ce_ctx env) max_items new_total (cst_page_index st))
     | _ \<Rightarrow>
         if pad_common_stop pre \<or> pad_take_items_done pre then Inr (CtStop, st)
         else
           rbind (prt_advance (ce_runtime env) (ce_ctx env) page
                    \<lparr>pv_endpoint = ec_endpoint (ce_ctx env), pv_page_index = ucast (cst_page_index st),
                     pv_item_count = page_len\<rparr> (cst_runtime st) (cst_ep st)) (\<lambda>(decision, rt, ep).
           Inr (control_of decision, st\<lparr>cst_runtime := rt, cst_ep := ep\<rparr>)))"

text \<open>Appending the items; \<open>True\<close> when the cap on taken items is reached.\<close>

definition add_items ::
  "('r, 'e, 'pg, 'i, 'h, 'b, 'w) collect_env \<Rightarrow> 'i list \<Rightarrow> nat \<Rightarrow> ('r, 'e, 'i, 'w) collect_state
    \<Rightarrow> (api_client_error, bool \<times> ('r, 'e, 'i, 'w) collect_state) result" where
  "add_items env items page_len st =
     (let total = ok_or (usize_checked_add (ce_usize_max env) (cst_items_count st) page_len)
                    (items_overflow (ce_ctx env)) in
      case pc_termination (ce_caps env) of
        HardItemCap max_items \<Rightarrow>
          rbind total (\<lambda>new_total.
          if max_items < new_total
          then Inl (hard_item_cap_error (ce_ctx env) max_items new_total (cst_page_index st))
          else Inr (False, st\<lparr>cst_items_count := new_total, cst_out := cst_out st @ items\<rparr>))
      | TakeItems max_items \<Rightarrow>
          rbind (ok_or (if cst_items_count st \<le> max_items then Some (max_items - cst_items_count st) else None)
                   (items_overflow (ce_ctx env))) (\<lambda>remaining.
          if remaining \<le> page_len then Inr (True, st\<lparr>cst_out := cst_out st @ take remaining items\<rparr>)
          else
            rbind total (\<lambda>new_total.
            Inr (False, st\<lparr>cst_items_count := new_total, cst_out := cst_out st @ items\<rparr>)))
      | _ \<Rightarrow>
          rbind total (\<lambda>new_total.
          Inr (False, st\<lparr>cst_items_count := new_total, cst_out := cst_out st @ items\<rparr>)))"

definition next_page ::
  "('r, 'e, 'pg, 'i, 'h, 'b, 'w) collect_env \<Rightarrow> control \<Rightarrow> ('r, 'e, 'i, 'w) collect_state
    \<Rightarrow> 'i page_step \<times> ('r, 'e, 'i, 'w) collect_state" where
  "next_page env ctrl st =
     (let fetched_pages = unat (cst_page_index st) + 1;
          bump = (case checked_add (cst_page_index st) 1 of
                    None \<Rightarrow> (PageDone (Inl (Pagination (ce_ctx env) Overflow ''page index overflow'')), st)
                  | Some i \<Rightarrow> (PageNext, st\<lparr>cst_page_index := i\<rparr>)) in
      case ctrl of
        CtStop \<Rightarrow> (PageDone (Inr (cst_out st)), st)
      | CtContinue \<Rightarrow>
          (case pc_termination (ce_caps env) of
             HardPageCap max_pages \<Rightarrow>
               if max_pages \<le> fetched_pages
               then (PageDone (Inl (hard_page_cap_error (ce_ctx env) max_pages (cst_items_count st)
                       fetched_pages)), st)
               else bump
           | TakePages max_pages \<Rightarrow>
               if max_pages \<le> fetched_pages then (PageDone (Inr (cst_out st)), st) else bump
           | _ \<Rightarrow> bump))"

definition settle_page ::
  "('r, 'e, 'pg, 'i, 'h, 'b, 'w) collect_env \<Rightarrow> 'pg \<Rightarrow> nat option \<Rightarrow> ('r, 'e, 'i, 'w) collect_state
    \<Rightarrow> 'i page_step \<times> ('r, 'e, 'i, 'w) collect_state" where
  "settle_page env page expected st =
     (let page_len = pi_item_count (ce_pages env) page in
      case advance_page env page page_len expected st of
        Inl e \<Rightarrow> (PageDone (Inl e), st)
      | Inr (ctrl, st1) \<Rightarrow>
          if page_len = 0 then (PageDone (Inr (cst_out st1)), st1)
          else
            (case add_items env (pi_into_items (ce_pages env) page) page_len st1 of
               Inl e \<Rightarrow> (PageDone (Inl e), st1)
             | Inr (True, st2) \<Rightarrow> (PageDone (Inr (cst_out st2)), st2)
             | Inr (False, st2) \<Rightarrow>
                 if common_content_stop page_len expected then (PageDone (Inr (cst_out st2)), st2)
                 else next_page env ctrl st2))"

definition page_round ::
  "('r, 'e, 'pg, 'i, 'h, 'b, 'w) collect_env \<Rightarrow> ('r, 'e, 'i, 'w) collect_state
    \<Rightarrow> 'i page_step \<times> ('r, 'e, 'i, 'w) collect_state" where
  "page_round env st =
     (case plan_page env st of
        Inl e \<Rightarrow> (PageDone (Inl e), st)
      | Inr ((plan, body), expected, st1) \<Rightarrow>
          (case ce_execute env plan body (cst_world st1) of
             (Inl e, w) \<Rightarrow> (PageDone (Inl e), st1\<lparr>cst_world := w\<rparr>)
           | (Inr page, w) \<Rightarrow> settle_page env page expected (st1\<lparr>cst_world := w\<rparr>)))"

section \<open>The loop\<close>

fun collect_loop ::
  "nat \<Rightarrow> ('r, 'e, 'pg, 'i, 'h, 'b, 'w) collect_env \<Rightarrow> ('r, 'e, 'i, 'w) collect_state
    \<Rightarrow> ((api_client_error, 'i list) result \<times> ('r, 'e, 'i, 'w) collect_state) option" where
  "collect_loop 0 env st = None"
| "collect_loop (Suc fuel) env st =
     (case page_round env st of
        (PageDone r, st') \<Rightarrow> Some (r, st')
      | (PageNext, st') \<Rightarrow> collect_loop fuel env st')"

definition collect_start ::
  "('r, 'e, 'pg, 'i, 'h, 'b, 'w) collect_env \<Rightarrow> 'e \<Rightarrow> 'r \<Rightarrow> 'w \<Rightarrow> ('r, 'e, 'i, 'w) collect_state" where
  "collect_start env ep rt w =
     \<lparr>cst_ep = ep, cst_runtime = rt, cst_out = [],
      cst_seen = (if pc_detect_loops (ce_caps env) then Some [] else None), cst_identities = [],
      cst_items_count = 0, cst_page_index = 0, cst_world = w\<rparr>"

definition collect_with_pagination_runtime ::
  "nat \<Rightarrow> ('r, 'e, 'pg, 'i, 'h, 'b, 'w) collect_env \<Rightarrow> 'e \<Rightarrow> 'r \<Rightarrow> 'w
    \<Rightarrow> ((api_client_error, 'i list) result \<times> ('r, 'e, 'i, 'w) collect_state) option" where
  "collect_with_pagination_runtime fuel env ep rt w =
     (case prt_init (ce_runtime env) ep (page_apply_of env 0) rt of
        Inl e \<Rightarrow> Some (Inl e, collect_start env ep rt w)
      | Inr rt' \<Rightarrow> collect_loop fuel env (collect_start env ep rt' w))"

text \<open>
  \<open>collect\<close>: the first plan gives the context and whether the endpoint declares pagination;
  \<open>runtime\<close> is what the endpoint's \<open>pagination_runtime\<close> returns.
\<close>

definition collect_pages ::
  "nat \<Rightarrow> ('r, 'e, 'pg, 'i, 'h, 'b, 'w) collect_env \<Rightarrow> bool \<Rightarrow> 'r option \<Rightarrow> 'e \<Rightarrow> 'w
    \<Rightarrow> ((api_client_error, 'i list) result \<times> 'w) option" where
  "collect_pages fuel env0 declares_pagination runtime ep w =
     (case ce_plan env0 ep of
        Inl e \<Rightarrow> Some (Inl e, w)
      | Inr (first_plan, _) \<Rightarrow>
          (let env = env0\<lparr>ce_ctx := plan_ctx first_plan\<rparr>;
               termination = pc_termination (ce_caps env) in
           case validate_collect_termination termination (ce_ctx env) of
             Inl e \<Rightarrow> Some (Inl e, w)
           | Inr _ \<Rightarrow>
               if termination = TakePages 0 \<or> termination = TakeItems 0 then Some (Inr [], w)
               else
                 (case runtime of
                    Some rt \<Rightarrow>
                      map_option (\<lambda>(r, st). (r, cst_world st)) (collect_with_pagination_runtime fuel env ep rt w)
                  | None \<Rightarrow>
                      Some (Inl (Pagination (ce_ctx env) UnsupportedPagination
                              (if declares_pagination then ''pagination requires runtime support''
                               else ''endpoint is not paginated'')), w))))"

end
