(* ===== verification/PaginationProps.thy ===== *)
theory PaginationProps
  imports PaginationRun
begin

text \<open>
  What collecting promises: it ends within the number of rounds its cap allows, whatever the
  controller and the server do; it never repeats a request and never exceeds its cap; and a
  controller that walks a data set page by page, which the three controllers of the library do,
  collects all of it in order.
\<close>

section \<open>Rounds\<close>

lemma next_page_next:
  assumes "next_page env ctrl st = (PageNext, st')"
  shows "unat (cst_page_index st') = Suc (unat (cst_page_index st)) \<and> ctrl = CtContinue
    \<and> cst_out st' = cst_out st \<and> cst_items_count st' = cst_items_count st
    \<and> cst_identities st' = cst_identities st
    \<and> (\<forall>n. pc_termination (ce_caps env) \<in> {HardPageCap n, TakePages n} \<longrightarrow> unat (cst_page_index st') < n)"
proof -
  obtain i where i: "checked_add (cst_page_index st) 1 = Some i" "st' = st\<lparr>cst_page_index := i\<rparr>"
    "ctrl = CtContinue"
    and cap: "\<forall>n. pc_termination (ce_caps env) \<in> {HardPageCap n, TakePages n} \<longrightarrow> Suc (unat (cst_page_index st)) < n"
    using assms
    by (auto simp: next_page_def Let_def not_le
        split: control.splits pagination_termination.splits if_splits option.splits)
  then show ?thesis using checked_add_one_Suc [OF i(1)] by simp
qed

lemma next_page_done:
  assumes "next_page env ctrl st = (PageDone r, st')"
  shows "st' = st \<and> (\<forall>out. r = Inr out \<longrightarrow> out = cst_out st)"
  using assms
  by (auto simp: next_page_def Let_def
      split: control.splits pagination_termination.splits if_splits option.splits)

lemma add_items_more:
  assumes "add_items env items len st = Inr (False, st')"
  shows "st' = st\<lparr>cst_items_count := cst_items_count st + len, cst_out := cst_out st @ items\<rparr>
    \<and> (\<forall>n. pc_termination (ce_caps env) = HardItemCap n \<longrightarrow> cst_items_count st + len \<le> n)
    \<and> (\<forall>n. pc_termination (ce_caps env) = TakeItems n \<longrightarrow> cst_items_count st + len < n)"
  using assms
  by (auto simp: add_items_def Let_def rbind_Inr_iff usize_checked_add_def
      split: pagination_termination.splits if_splits)

lemma add_items_done:
  assumes "add_items env items len st = Inr (True, st')"
  shows "\<exists>n. pc_termination (ce_caps env) = TakeItems n \<and> cst_items_count st \<le> n
    \<and> n \<le> cst_items_count st + len
    \<and> st' = st\<lparr>cst_out := cst_out st @ take (n - cst_items_count st) items\<rparr>"
  using assms
  by (auto simp: add_items_def Let_def rbind_Inr_iff usize_checked_add_def
      split: pagination_termination.splits if_splits)

lemma advance_page_ok:
  assumes "advance_page env page len expected st = Inr (ctrl, st')"
  shows "cst_out st' = cst_out st \<and> cst_items_count st' = cst_items_count st
    \<and> cst_identities st' = cst_identities st \<and> cst_page_index st' = cst_page_index st"
  using assms
  by (cases "pc_termination (ce_caps env)")
    (auto simp: advance_page_def rbind_Inr_iff split: option.splits if_splits)

lemma plan_page_ok:
  assumes "plan_page env st = Inr (call, expected, st')"
  shows "cst_out st' = cst_out st \<and> cst_items_count st' = cst_items_count st
    \<and> cst_page_index st' = cst_page_index st
    \<and> (\<exists>i. cst_identities st' = cst_identities st @ [i] \<and> i \<notin> set (cst_identities st))"
  using assms
  by (auto simp: plan_page_def rbind_Inr_iff Let_def ensure_progress_def split: if_splits prod.splits)

text \<open>A page that lets the run continue has at least one item and stays within the caps.\<close>

lemma settle_page_next:
  assumes "settle_page env page expected st = (PageNext, st')"
  shows "\<exists>len > 0. cst_items_count st' = cst_items_count st + len
    \<and> cst_out st' = cst_out st @ pi_into_items (ce_pages env) page
    \<and> len = pi_item_count (ce_pages env) page
    \<and> cst_identities st' = cst_identities st
    \<and> unat (cst_page_index st') = Suc (unat (cst_page_index st))
    \<and> (\<forall>n. pc_termination (ce_caps env) \<in> {HardPageCap n, TakePages n} \<longrightarrow> unat (cst_page_index st') < n)
    \<and> (\<forall>n. pc_termination (ce_caps env) = HardItemCap n \<longrightarrow> cst_items_count st' \<le> n)
    \<and> (\<forall>n. pc_termination (ce_caps env) = TakeItems n \<longrightarrow> cst_items_count st' < n)"
proof -
  define len where "len = pi_item_count (ce_pages env) page"
  obtain ctrl st1 st2 where "advance_page env page len expected st = Inr (ctrl, st1)" "len \<noteq> 0"
    "add_items env (pi_into_items (ce_pages env) page) len st1 = Inr (False, st2)"
    "next_page env ctrl st2 = (PageNext, st')"
    using assms
    by (auto simp: settle_page_def Let_def len_def split: sum.splits bool.splits if_splits)
  note advance_page_ok [OF this(1)] this(2) add_items_more [OF this(3)] next_page_next [OF this(4)]
  then show ?thesis unfolding len_def by (intro exI [of _ "pi_item_count (ce_pages env) page"]) auto
qed

lemma settle_page_done:
  assumes "settle_page env page expected st = (PageDone (Inr out), st')"
    and "pi_item_count (ce_pages env) page = length (pi_into_items (ce_pages env) page)"
  shows "cst_identities st' = cst_identities st
    \<and> (\<exists>xs. out = cst_out st @ xs \<and> length xs \<le> pi_item_count (ce_pages env) page
        \<and> (\<forall>n. pc_termination (ce_caps env) = HardItemCap n \<longrightarrow>
              cst_items_count st \<le> n \<longrightarrow> cst_items_count st + length xs \<le> n)
        \<and> (\<forall>n. pc_termination (ce_caps env) = TakeItems n \<longrightarrow>
              cst_items_count st \<le> n \<longrightarrow> cst_items_count st + length xs \<le> n))"
proof -
  define len where "len = pi_item_count (ce_pages env) page"
  define items where "items = pi_into_items (ce_pages env) page"
  have len: "len = length items" using assms(2) by (simp add: len_def items_def)
  obtain ctrl st1 where ap: "advance_page env page len expected st = Inr (ctrl, st1)"
    using assms(1) by (auto simp: settle_page_def Let_def len_def split: sum.splits)
  note st1 = advance_page_ok [OF ap]
  note s = assms(1) [unfolded settle_page_def Let_def, folded len_def items_def, unfolded ap, simplified]
  consider (empty) "len = 0" "out = cst_out st1" "st' = st1"
    | (taken) st2 where "len \<noteq> 0" "add_items env items len st1 = Inr (True, st2)" "out = cst_out st2" "st' = st2"
    | (more) st2 where "len \<noteq> 0" "add_items env items len st1 = Inr (False, st2)" "out = cst_out st2" "st' = st2"
    using s next_page_done by (fastforce split: sum.splits bool.splits if_splits)
  then show ?thesis
  proof cases
    case empty
    then show ?thesis using st1 by auto
  next
    case taken
    from add_items_done [OF taken(2)] show ?thesis
      unfolding len_def [symmetric] using taken st1 len by (auto simp: min_def)
  next
    case more
    from add_items_more [OF more(2)] show ?thesis
      unfolding len_def [symmetric] using more st1 len by auto
  qed
qed

lemma page_round_next:
  assumes "page_round env st = (PageNext, st')"
  shows "\<exists>page i. pi_item_count (ce_pages env) page > 0
    \<and> cst_items_count st' = cst_items_count st + pi_item_count (ce_pages env) page
    \<and> cst_out st' = cst_out st @ pi_into_items (ce_pages env) page
    \<and> cst_identities st' = cst_identities st @ [i] \<and> i \<notin> set (cst_identities st)
    \<and> unat (cst_page_index st') = Suc (unat (cst_page_index st))
    \<and> (\<forall>n. pc_termination (ce_caps env) \<in> {HardPageCap n, TakePages n} \<longrightarrow> unat (cst_page_index st') < n)
    \<and> (\<forall>n. pc_termination (ce_caps env) = HardItemCap n \<longrightarrow> cst_items_count st' \<le> n)
    \<and> (\<forall>n. pc_termination (ce_caps env) = TakeItems n \<longrightarrow> cst_items_count st' < n)"
proof -
  obtain call expected st1 page w where pp: "plan_page env st = Inr (call, expected, st1)"
    and sp: "settle_page env page expected (st1\<lparr>cst_world := w\<rparr>) = (PageNext, st')"
    using assms by (auto simp: page_round_def split: sum.splits prod.splits)
  from plan_page_ok [OF pp] settle_page_next [OF sp] show ?thesis
    by (intro exI [of _ page]) auto
qed

lemma page_round_done:
  assumes "page_round env st = (PageDone r, st')"
  shows "cst_identities st' = cst_identities st
    \<or> (\<exists>i. cst_identities st' = cst_identities st @ [i] \<and> i \<notin> set (cst_identities st))"
proof (cases "plan_page env st")
  case (Inl e)
  then show ?thesis using assms by (auto simp: page_round_def)
next
  case (Inr x)
  obtain call expected st1 where pp: "plan_page env st = Inr (call, expected, st1)"
    using Inr by (cases x) auto
  have "cst_identities st' = cst_identities st1"
  proof (cases "ce_execute env (fst call) (snd call) (cst_world st1)")
    case (Pair q w)
    have settle: "cst_identities st2' = cst_identities st2"
      if "settle_page env page expected st2 = (PageDone r, st2')" for page st2 st2'
      using that
      by (auto simp: settle_page_def Let_def dest!: advance_page_ok add_items_more add_items_done next_page_done
          split: sum.splits bool.splits if_splits)
    show ?thesis using assms pp Pair settle
      by (cases q) (fastforce simp: page_round_def split: prod.splits)+
  qed
  then show ?thesis using plan_page_ok [OF pp] by auto
qed

section \<open>Termination\<close>

fun page_budget :: "pagination_termination \<Rightarrow> nat" where
  "page_budget (HardPageCap n) = n"
| "page_budget (TakePages n) = n"
| "page_budget (TakeItems n) = n"
| "page_budget (HardItemCap n) = Suc n"

definition rounds_left :: "pagination_termination \<Rightarrow> ('r, 'e, 'i, 'w) collect_state \<Rightarrow> nat" where
  "rounds_left t st =
     (case t of
        HardPageCap n \<Rightarrow> n - unat (cst_page_index st)
      | TakePages n \<Rightarrow> n - unat (cst_page_index st)
      | TakeItems n \<Rightarrow> n - cst_items_count st
      | HardItemCap n \<Rightarrow> Suc n - cst_items_count st)"

lemma next_uses_a_round:
  assumes "page_round env st = (PageNext, st')"
  shows "0 < rounds_left (pc_termination (ce_caps env)) st'
    \<and> rounds_left (pc_termination (ce_caps env)) st' < rounds_left (pc_termination (ce_caps env)) st"
  using page_round_next [OF assms]
  by (cases "pc_termination (ce_caps env)") (auto simp: rounds_left_def)

lemma collect_loop_returns:
  assumes "0 < rounds_left (pc_termination (ce_caps env)) st"
    and "rounds_left (pc_termination (ce_caps env)) st \<le> fuel" and "distinct (cst_identities st)"
  shows "\<exists>r st'. collect_loop fuel env st = Some (r, st')
    \<and> length (cst_identities st') \<le> length (cst_identities st) + rounds_left (pc_termination (ce_caps env)) st
    \<and> distinct (cst_identities st')"
  using assms
proof (induction fuel arbitrary: st)
  case (Suc fuel)
  obtain step st1 where pr: "page_round env st = (step, st1)" by fastforce
  show ?case
  proof (cases step)
    case (PageDone r)
    then show ?thesis using pr page_round_done [OF pr [unfolded PageDone]] Suc.prems by auto
  next
    case PageNext
    note nx = next_uses_a_round [OF pr [unfolded PageNext]] page_round_next [OF pr [unfolded PageNext]]
    then have "distinct (cst_identities st1)" "length (cst_identities st1) = Suc (length (cst_identities st))"
      using Suc.prems(3) by auto
    with Suc.IH [of st1] nx(1) Suc.prems(2) obtain r st' where
      "collect_loop fuel env st1 = Some (r, st')" "distinct (cst_identities st')"
      "length (cst_identities st') \<le> Suc (length (cst_identities st)) + rounds_left (pc_termination (ce_caps env)) st1"
      by auto
    then show ?thesis using pr PageNext nx(1) by auto
  qed
qed simp

lemma collect_start_rounds:
  "rounds_left t (collect_start env ep rt w) = page_budget t"
  by (cases t) (simp_all add: rounds_left_def collect_start_def)


section \<open>Caps\<close>

definition within_caps :: "pagination_termination \<Rightarrow> nat \<Rightarrow> bool" where
  "within_caps t k = (case t of HardItemCap n \<Rightarrow> k \<le> n | TakeItems n \<Rightarrow> k \<le> n | _ \<Rightarrow> True)"

definition exact_pages :: "('pg, 'i) page_items \<Rightarrow> bool" where
  "exact_pages ops \<longleftrightarrow> (\<forall>page. pi_item_count ops page = length (pi_into_items ops page))"

lemma page_round_out:
  assumes "page_round env st = (PageDone (Inr out), st')" and "exact_pages (ce_pages env)"
    and "cst_items_count st = length (cst_out st)"
    and "within_caps (pc_termination (ce_caps env)) (length (cst_out st))"
  shows "within_caps (pc_termination (ce_caps env)) (length out)"
proof -
  obtain call expected st1 page w where pp: "plan_page env st = Inr (call, expected, st1)"
    and sp: "settle_page env page expected (st1\<lparr>cst_world := w\<rparr>) = (PageDone (Inr out), st')"
    using assms(1) by (auto simp: page_round_def split: sum.splits prod.splits)
  have "pi_item_count (ce_pages env) page = length (pi_into_items (ce_pages env) page)"
    using assms(2) by (simp add: exact_pages_def)
  from settle_page_done [OF sp this] plan_page_ok [OF pp] assms(3,4) show ?thesis
    by (auto simp: within_caps_def split: pagination_termination.splits)
qed

lemma collect_loop_within_caps:
  assumes "collect_loop fuel env st = Some (Inr out, st')" and "exact_pages (ce_pages env)"
    and "cst_items_count st = length (cst_out st)"
    and "within_caps (pc_termination (ce_caps env)) (length (cst_out st))"
  shows "within_caps (pc_termination (ce_caps env)) (length out)"
  using assms
proof (induction fuel arbitrary: st)
  case (Suc fuel)
  obtain step st1 where pr: "page_round env st = (step, st1)" by fastforce
  show ?case
  proof (cases step)
    case (PageDone r)
    then show ?thesis using pr page_round_out Suc.prems by auto
  next
    case PageNext
    from page_round_next [OF pr [unfolded PageNext]] Suc.prems(2,3) have
      "cst_items_count st1 = length (cst_out st1)"
      "within_caps (pc_termination (ce_caps env)) (length (cst_out st1))"
      by (auto simp: exact_pages_def within_caps_def split: pagination_termination.splits)
    then show ?thesis using Suc.IH [of st1] Suc.prems pr PageNext by simp
  qed
qed simp

text \<open>
  A successful collection returns at most as many items as its item cap or its number of
  items to take, when the page type counts its items exactly.
\<close>

theorem collect_within_caps:
  assumes "collect_with_pagination_runtime fuel env ep rt w = Some (Inr out, st')"
    and "\<And>page. pi_item_count (ce_pages env) page = length (pi_into_items (ce_pages env) page)"
    and "pc_termination (ce_caps env) = HardItemCap n \<or> pc_termination (ce_caps env) = TakeItems n"
  shows "length out \<le> n"
proof -
  obtain rt' where "collect_loop fuel env (collect_start env ep rt' w) = Some (Inr out, st')"
    using assms(1) by (auto simp: collect_with_pagination_runtime_def split: sum.splits)
  then have "within_caps (pc_termination (ce_caps env)) (length out)"
    by (rule collect_loop_within_caps)
      (simp_all add: exact_pages_def assms(2) collect_start_def within_caps_def split: pagination_termination.splits)
  then show ?thesis using assms(3) by (auto simp: within_caps_def)
qed

section \<open>Walking a data set\<close>

text \<open>
  What a controller and a server have to provide so that a data set is walked page by page: \<open>at j\<close>
  before page \<open>j\<close> is applied and \<open>ready j\<close> after, pages that are windows of the data, and an advance
  that leads to the next page or stops when no data is left.
\<close>

locale page_walk =
  fixes env :: "('r, 'e, 'pg, 'i, 'h, 'b, 'w) collect_env"
    and at :: "nat \<Rightarrow> 'r \<Rightarrow> 'e \<Rightarrow> bool" and ready :: "nat \<Rightarrow> 'r \<Rightarrow> 'e \<Rightarrow> bool"
    and page_at :: "nat \<Rightarrow> 'pg \<Rightarrow> bool"
    and ident :: "nat \<Rightarrow> pagination_request_identity" and key :: "nat \<Rightarrow> progress_key option"
    and size :: nat and data :: "'i list" and cap :: nat
  assumes size: "0 < size"
    and fits: "length data \<le> ce_usize_max env" "length data div size + 1 < 2 ^ 32"
    and cap: "pc_termination (ce_caps env) = HardPageCap cap" "length data div size < cap"
    and key: "at j rt ep \<Longrightarrow> prt_progress_key (ce_runtime env) rt = key j"
    and key_inj: "i < j \<Longrightarrow> j * size \<le> length data \<Longrightarrow> key j \<noteq> None \<Longrightarrow> key i \<noteq> key j"
    and ident_inj: "i < j \<Longrightarrow> j * size \<le> length data \<Longrightarrow> ident i \<noteq> ident j"
    and applied: "at j rt ep \<Longrightarrow> j * size \<le> length data \<Longrightarrow> unat idx = j \<Longrightarrow>
      \<exists>rt' ep'. prt_apply (ce_runtime env) (page_apply_of env idx) rt ep = Inr (rt', ep') \<and> ready j rt' ep'
        \<and> prt_expected_items_per_page (ce_runtime env) rt' = Some size"
    and fetched: "ready j rt ep \<Longrightarrow> j * size \<le> length data \<Longrightarrow>
      \<exists>plan body. ce_plan env ep = Inr (plan, body)
        \<and> pagination_request_identity_of (ce_headers env) plan = ident j
        \<and> (\<forall>idx w. \<exists>page w'. ce_execute env (apply_to (ce_opts env) plan idx) body w = (Inr page, w')
              \<and> page_at j page)"
    and window: "page_at j page \<Longrightarrow> pi_into_items (ce_pages env) page = take size (drop (j * size) data)
        \<and> pi_item_count (ce_pages env) page = length (take size (drop (j * size) data))"
    and advanced: "ready j rt ep \<Longrightarrow> page_at j page \<Longrightarrow> Suc j * size \<le> length data \<Longrightarrow>
      (\<exists>rt' ep'. prt_advance (ce_runtime env) (ce_ctx env) page ctx rt ep = Inr (PdContinue, rt', ep')
         \<and> at (Suc j) rt' ep')
      \<or> (\<exists>rt' ep'. prt_advance (ce_runtime env) (ce_ctx env) page ctx rt ep = Inr (PdStop, rt', ep')
         \<and> length data \<le> Suc j * size)"
begin

abbreviation walked :: "nat \<Rightarrow> ('r, 'e, 'i, 'w) collect_state \<Rightarrow> bool" where
  "walked j st \<equiv> at j (cst_runtime st) (cst_ep st) \<and> unat (cst_page_index st) = j
     \<and> cst_out st = take (j * size) data \<and> cst_items_count st = j * size \<and> j * size \<le> length data
     \<and> set (cst_identities st) \<subseteq> ident ` {..<j}
     \<and> (\<forall>ks. cst_seen st = Some ks \<longrightarrow> Some ` set ks \<subseteq> key ` {..<j})"

lemma identity_apply_to:
  "pagination_request_identity_of hops (apply_to opts plan idx) = pagination_request_identity_of hops plan"
  by (simp add: pagination_request_identity_of_def apply_to_def)

lemma plan_walked:
  assumes "walked j st"
  shows "\<exists>plan body st'. plan_page env st = Inr ((plan, body), Some size, st')
    \<and> ready j (cst_runtime st') (cst_ep st') \<and> cst_page_index st' = cst_page_index st
    \<and> cst_out st' = cst_out st \<and> cst_items_count st' = cst_items_count st
    \<and> set (cst_identities st') \<subseteq> ident ` {..<Suc j}
    \<and> (\<forall>ks. cst_seen st' = Some ks \<longrightarrow> Some ` set ks \<subseteq> key ` {..<Suc j})
    \<and> (\<forall>w. \<exists>page w'. ce_execute env plan body w = (Inr page, w') \<and> page_at j page)"
proof -
  from assms have j: "j * size \<le> length data" and at: "at j (cst_runtime st) (cst_ep st)"
    and idx: "unat (cst_page_index st) = j" by auto
  obtain rt ep where ap: "prt_apply (ce_runtime env) (page_apply_of env (cst_page_index st))
      (cst_runtime st) (cst_ep st) = Inr (rt, ep)" "ready j rt ep"
    "prt_expected_items_per_page (ce_runtime env) rt = Some size"
    using applied [OF at j idx] by blast
  obtain plan body where pl: "ce_plan env ep = Inr (plan, body)"
    "pagination_request_identity_of (ce_headers env) plan = ident j"
    "\<forall>idx w. \<exists>page w'. ce_execute env (apply_to (ce_opts env) plan idx) body w = (Inr page, w') \<and> page_at j page"
    using fetched [OF ap(2) j] by blast
  have "k \<notin> set ks" if "cst_seen st = Some ks" "key j = Some k" for k ks
  proof
    assume "k \<in> set ks"
    then have "Some k \<in> key ` {..<j}" using that assms by blast
    then show False using key_inj [OF _ j] that(2) by force
  qed
  then have fresh: "\<forall>ks. cst_seen st = Some ks \<longrightarrow> (\<forall>k. key j = Some k \<longrightarrow> k \<notin> set ks)" by blast
  have old: "\<forall>ks. cst_seen st = Some ks \<longrightarrow> Some ` set ks \<subseteq> key ` {..<Suc j}"
    using assms by (auto simp: lessThan_Suc)
  obtain seen where dl: "detect_loop env st = Inr seen"
    "\<forall>ks. seen = Some ks \<longrightarrow> Some ` set ks \<subseteq> key ` {..<Suc j}"
  proof (cases "cst_seen st")
    case None
    then show thesis using that by (simp add: detect_loop_def)
  next
    case (Some ks)
    show thesis
    proof (cases "key j")
      case None
      then show thesis using that [of "Some ks"] Some old key [OF at] by (simp add: detect_loop_def)
    next
      case (Some k)
      then have "detect_loop env st = Inr (Some (ks @ [k]))"
        using \<open>cst_seen st = Some ks\<close> fresh key [OF at] by (simp add: detect_loop_def)
      moreover have "Some k \<in> key ` {..<Suc j}" using Some by (metis lessThan_Suc image_insert insertI1)
      ultimately show thesis using that [of "Some (ks @ [k])"] old \<open>cst_seen st = Some ks\<close> by simp
    qed
  qed
  have "ident j \<notin> ident ` {..<j}" using ident_inj [OF _ j] by force
  then have "ident j \<notin> set (cst_identities st)" using assms by blast
  then have en: "ensure_progress (cst_identities st) (ident j) (ce_ctx env) (cst_page_index st)
      = Inr (cst_identities st @ [ident j])" by (simp add: ensure_progress_def)
  have "plan_page env st = Inr ((apply_to (ce_opts env) plan (cst_page_index st), body), Some size,
      st\<lparr>cst_seen := seen, cst_runtime := rt, cst_ep := ep, cst_identities := cst_identities st @ [ident j]\<rparr>)"
    using dl ap pl en by (simp add: plan_page_def identity_apply_to)
  moreover have "set (cst_identities st @ [ident j]) \<subseteq> ident ` {..<Suc j}"
    using assms by (auto simp: lessThan_Suc)
  ultimately show ?thesis using ap(2) pl(3) dl(2) by simp
qed

lemma settle_walked:
  assumes "page_at j page" "ready j (cst_runtime st) (cst_ep st)" "unat (cst_page_index st) = j"
    "cst_out st = take (j * size) data" "cst_items_count st = j * size" "j * size \<le> length data"
  shows "(\<exists>st'. settle_page env page (Some size) st = (PageDone (Inr data), st'))
    \<or> Suc j * size \<le> length data
      \<and> (\<exists>st'. settle_page env page (Some size) st = (PageNext, st')
           \<and> at (Suc j) (cst_runtime st') (cst_ep st') \<and> unat (cst_page_index st') = Suc j
           \<and> cst_out st' = take (Suc j * size) data \<and> cst_items_count st' = Suc j * size
           \<and> cst_identities st' = cst_identities st \<and> cst_seen st' = cst_seen st)"
proof -
  define len where "len = length (take size (drop (j * size) data))"
  have len: "len = min size (length data - j * size)" by (simp add: len_def)
  have cnt: "pi_item_count (ce_pages env) page = len"
    "pi_into_items (ce_pages env) page = take size (drop (j * size) data)"
    using window [OF assms(1)] by (simp_all add: len_def)
  have add: "usize_checked_add (ce_usize_max env) (j * size) len = Some (j * size + len)"
    using fits(1) assms(6) len by (simp add: usize_checked_add_def)
  have out: "take (j * size) data @ take size (drop (j * size) data) = take (Suc j * size) data"
    using take_add [of "j * size" size data] by (simp add: add.commute)
  have ai: "add_items env (take size (drop (j * size) data)) len st' =
      Inr (False, st'\<lparr>cst_items_count := j * size + len, cst_out := take (Suc j * size) data\<rparr>)"
    if "cst_items_count st' = j * size" "cst_out st' = take (j * size) data" for st'
    using that add out by (simp add: add_items_def cap(1))
  show ?thesis
  proof (cases "len = size")
    case False
    then have stop: "common_content_stop len (Some size)" and all: "length data \<le> Suc j * size"
      using len by (auto simp: common_content_stop_def min_def split: if_splits)
    then have "advance_page env page len (Some size) st = Inr (CtStop, st)"
      using add assms(5) by (simp add: advance_page_def pre_advance_decision_of_def cap(1))
    then show ?thesis
      using assms cnt stop all ai [of st] len
      by (cases "len = 0") (auto simp: settle_page_def Let_def min_def split: if_splits)
  next
    case True
    then have more: "Suc j * size \<le> length data" using len assms(6) by (simp add: min_def split: if_splits)
    have pre: "pre_advance_decision_of (ce_usize_max env) (pc_termination (ce_caps env)) (cst_items_count st)
        len (Some size) (ce_ctx env)
      = Inr \<lparr>pad_common_stop = False, pad_take_items_done = False, pad_hard_item_cap_exceeded = None\<rparr>"
      using add assms(5) True size by (simp add: pre_advance_decision_of_def cap(1) common_content_stop_def)
    have nstop: "\<not> common_content_stop len (Some size)" using True size by (simp add: common_content_stop_def)
    define ctx where "ctx = \<lparr>pv_endpoint = ec_endpoint (ce_ctx env),
      pv_page_index = ucast (cst_page_index st) :: u64, pv_item_count = len\<rparr>"
    from advanced [OF assms(2,1) more, of ctx] show ?thesis
    proof (elim disjE exE conjE)
      fix rt ep
      assume adv: "prt_advance (ce_runtime env) (ce_ctx env) page ctx (cst_runtime st) (cst_ep st)
          = Inr (PdStop, rt, ep)" and all: "length data \<le> Suc j * size"
      then have "advance_page env page len (Some size) st = Inr (CtStop, st\<lparr>cst_runtime := rt, cst_ep := ep\<rparr>)"
        using pre by (simp add: advance_page_def ctx_def cap(1))
      then show ?thesis using assms cnt nstop True size all ai [of "st\<lparr>cst_runtime := rt, cst_ep := ep\<rparr>"]
        by (simp add: settle_page_def Let_def next_page_def)
    next
      fix rt ep
      assume adv: "prt_advance (ce_runtime env) (ce_ctx env) page ctx (cst_runtime st) (cst_ep st)
          = Inr (PdContinue, rt, ep)" and at': "at (Suc j) rt ep"
      then have ap: "advance_page env page len (Some size) st = Inr (CtContinue, st\<lparr>cst_runtime := rt, cst_ep := ep\<rparr>)"
        using pre by (simp add: advance_page_def ctx_def cap(1))
      have "Suc j \<le> length data div size" using more size by (simp add: less_eq_div_iff_mult_less_eq)
      then have b: "Suc j < cap" "Suc j < 2 ^ 32" using cap(2) fits(2) by auto
      then obtain i where i: "checked_add (cst_page_index st) 1 = Some i" "unat i = Suc j"
        using assms(3) by (auto simp: checked_add_def unat_word_ariths)
      show ?thesis
        using assms cnt nstop True size ap at' more i b ai [of "st\<lparr>cst_runtime := rt, cst_ep := ep\<rparr>"]
        by (simp add: settle_page_def Let_def next_page_def cap(1))
    qed
  qed
qed

lemma round_walked:
  assumes "walked j st"
  shows "(\<exists>st'. page_round env st = (PageDone (Inr data), st'))
    \<or> Suc j * size \<le> length data \<and> (\<exists>st'. page_round env st = (PageNext, st') \<and> walked (Suc j) st')"
proof -
  obtain plan body st1 where p: "plan_page env st = Inr ((plan, body), Some size, st1)"
    and st1: "ready j (cst_runtime st1) (cst_ep st1)" "cst_page_index st1 = cst_page_index st"
    "cst_out st1 = cst_out st" "cst_items_count st1 = cst_items_count st"
    "set (cst_identities st1) \<subseteq> ident ` {..<Suc j}"
    "\<forall>ks. cst_seen st1 = Some ks \<longrightarrow> Some ` set ks \<subseteq> key ` {..<Suc j}"
    and ex: "\<forall>w. \<exists>page w'. ce_execute env plan body w = (Inr page, w') \<and> page_at j page"
    using plan_walked [OF assms] by metis
  obtain page w where pg: "ce_execute env plan body (cst_world st1) = (Inr page, w)" "page_at j page"
    using ex by blast
  have r: "page_round env st = settle_page env page (Some size) (st1\<lparr>cst_world := w\<rparr>)"
    using p pg by (simp add: page_round_def)
  let ?s = "st1\<lparr>cst_world := w\<rparr>"
  have "ready j (cst_runtime ?s) (cst_ep ?s)" "unat (cst_page_index ?s) = j"
    "cst_out ?s = take (j * size) data" "cst_items_count ?s = j * size" "j * size \<le> length data"
    using st1 assms by simp_all
  from settle_walked [OF pg(2) this] show ?thesis
  proof
    assume "Suc j * size \<le> length data \<and> (\<exists>st'. settle_page env page (Some size) ?s = (PageNext, st')
       \<and> at (Suc j) (cst_runtime st') (cst_ep st') \<and> unat (cst_page_index st') = Suc j
       \<and> cst_out st' = take (Suc j * size) data \<and> cst_items_count st' = Suc j * size
       \<and> cst_identities st' = cst_identities ?s \<and> cst_seen st' = cst_seen ?s)"
    then show ?thesis unfolding r using st1(5,6) by auto
  qed (simp add: r)
qed

lemma loop_walked:
  assumes "walked j st" "length data div size - j < fuel"
  shows "\<exists>st'. collect_loop fuel env st = Some (Inr data, st')"
  using assms
proof (induction fuel arbitrary: j st)
  case (Suc fuel)
  consider st1 where "page_round env st = (PageDone (Inr data), st1)"
    | st1 where "page_round env st = (PageNext, st1)" "walked (Suc j) st1" "Suc j * size \<le> length data"
    using round_walked [OF Suc.prems(1)] by metis
  then show ?case
  proof cases
    case (2 st1)
    then have "Suc j \<le> length data div size" using size by (simp add: less_eq_div_iff_mult_less_eq)
    then show ?thesis using Suc.IH [OF 2(2)] Suc.prems(2) 2(1) by simp
  qed simp
qed simp

lemma collects_all:
  assumes "prt_init (ce_runtime env) ep (page_apply_of env 0) rt0 = Inr rt" "at 0 rt ep"
    and "length data div size < fuel"
  shows "\<exists>st'. collect_with_pagination_runtime fuel env ep rt0 w = Some (Inr data, st')"
proof -
  have "walked 0 (collect_start env ep rt w)" using assms(2) by (simp add: collect_start_def)
  then show ?thesis using loop_walked assms by (simp add: collect_with_pagination_runtime_def)
qed

end

section \<open>Servers\<close>

text \<open>
  A server that answers with windows of a data set: the planned request of an endpoint identifies the
  position its pagination state stands for, and executing it returns the window at that position.
\<close>

definition serves_windows ::
  "('r, 'e, 'pg, 'i, 'h, 'b, 'w) collect_env \<Rightarrow> ('e, 'c) paginate_binding \<Rightarrow> ('c \<Rightarrow> nat)
    \<Rightarrow> (nat \<Rightarrow> 'pg \<Rightarrow> bool) \<Rightarrow> (nat \<Rightarrow> pagination_request_identity) \<Rightarrow> bool" where
  "serves_windows env bnd pos answer ident \<longleftrightarrow>
     (\<forall>c ep. pb_load_pagination bnd (pb_store_pagination bnd c ep) = c) \<and> inj ident
     \<and> (\<forall>ep. \<exists>plan body. ce_plan env ep = Inr (plan, body)
          \<and> pagination_request_identity_of (ce_headers env) plan = ident (pos (pb_load_pagination bnd ep))
          \<and> (\<forall>idx w. \<exists>page w'. ce_execute env (apply_to (ce_opts env) plan idx) body w = (Inr page, w')
                \<and> answer (pos (pb_load_pagination bnd ep)) page))"

lemma serves_binding: "serves_windows env bnd pos answer ident \<Longrightarrow>
    pb_load_pagination bnd (pb_store_pagination bnd c ep) = c"
  by (simp add: serves_windows_def)

lemma serves_fetch:
  assumes "serves_windows env bnd pos answer ident" "pos (pb_load_pagination bnd ep) = n"
  shows "\<exists>plan body. ce_plan env ep = Inr (plan, body)
    \<and> pagination_request_identity_of (ce_headers env) plan = ident n
    \<and> (\<forall>idx w. \<exists>page w'. ce_execute env (apply_to (ce_opts env) plan idx) body w = (Inr page, w') \<and> answer n page)"
  using assms unfolding serves_windows_def by metis

lemma serves_ident: "serves_windows env bnd pos answer ident \<Longrightarrow> ident m = ident n \<longleftrightarrow> m = n"
  by (simp add: serves_windows_def inj_eq)

definition window_page ::
  "('pg, 'i) page_items \<Rightarrow> nat \<Rightarrow> 'i list \<Rightarrow> nat \<Rightarrow> 'pg \<Rightarrow> bool" where
  "window_page ops k data n page \<longleftrightarrow>
     pi_into_items ops page = take k (drop n data)
     \<and> pi_item_count ops page = length (take k (drop n data))"

lemma valid_size:
  assumes "unat value \<le> usize_max" "value \<noteq> 0"
  shows "validate_page_size usize_max value c ctx = Inr (unat value)"
    "validate_paged_page_size usize_max value ctx = Inr (unat value)"
    "validate_per_page usize_max value c ctx = Inr (unat value)"
    "expected_items usize_max value = Some (unat value)"
  using assms
  by (simp_all add: validate_page_size_def validate_paged_page_size_def validate_per_page_def
      expected_items_def usize_try_from_def non_zero_def unat_eq_zero)

lemma unat_of_nat_u64: "n < 2 ^ 64 \<Longrightarrow> unat (of_nat n :: u64) = n"
  by (simp add: unat_of_nat take_bit_nat_eq_self)

lemma checked_add_of_nat:
  "m + unat b < 2 ^ 64 \<Longrightarrow> checked_add (of_nat m) b = Some (of_nat (m + unat b) :: u64)"
  by (simp add: checked_add_def unat_of_nat_u64)

lemma ucast_u64_zero: "(ucast (w :: u32) :: u64) = 0 \<longleftrightarrow> unat w = 0"
proof -
  have "(ucast w :: u64) = 0 \<longleftrightarrow> w = 0" by transfer (simp add: take_bit_eq_mod)
  then show ?thesis by (simp add: unat_eq_zero)
qed

lemma offset_walk:
  fixes env :: "(offset_limit_pagination option, 'e, 'pg, 'i, 'h, 'b, 'w) collect_env" and limit :: u64
  assumes rt: "ce_runtime env = pagination_runtime_adapter (offset_limit_ops (ce_usize_max env)) bnd"
    and srv: "serves_windows env bnd (\<lambda>c. unat (ol_offset c)) (window_page (ce_pages env) (unat limit) data) ident"
    and limit: "limit \<noteq> 0" "unat limit \<le> ce_usize_max env"
    and fits: "length data \<le> ce_usize_max env" "length data < 2 ^ 64" "length data div unat limit + 1 < 2 ^ 32"
    and cap: "pc_termination (ce_caps env) = HardPageCap cap" "length data div unat limit < cap"
  shows "page_walk env
    (\<lambda>j rt ep. rt = Some \<lparr>ol_offset = of_nat (j * unat limit), ol_limit = limit\<rparr>)
    (\<lambda>j rt ep. rt = Some \<lparr>ol_offset = of_nat (j * unat limit), ol_limit = limit\<rparr>
       \<and> pb_load_pagination bnd ep = \<lparr>ol_offset = of_nat (j * unat limit), ol_limit = limit\<rparr>)
    (\<lambda>j. window_page (ce_pages env) (unat limit) data (j * unat limit))
    (\<lambda>j. ident (j * unat limit)) (\<lambda>j. Some (PkU64 (of_nat (j * unat limit)))) (unat limit) data cap"
proof -
  have pos: "0 < unat limit" using limit(1) by (simp add: unat_gt_0)
  have nat: "unat (of_nat (j * unat limit) :: u64) = j * unat limit" if "j * unat limit \<le> length data" for j
    using that fits(2) by (intro unat_of_nat_u64) simp
  show ?thesis
  proof (unfold_locales, goal_cases)
    case 1
    then show ?case by (rule pos)
  next
    case (6 j rt ep)
    then show ?case by (simp add: assms(1) pagination_runtime_adapter_def offset_limit_ops_def)
  next
    case (7 i j)
    then have less: "i * unat limit < j * unat limit" using pos by simp
    then have "i * unat limit \<le> length data" using 7(2) by linarith
    from less have "unat (of_nat (i * unat limit) :: u64) \<noteq> unat (of_nat (j * unat limit) :: u64)"
      unfolding nat [OF \<open>i * unat limit \<le> length data\<close>] nat [OF 7(2)] by simp
    then show ?case by auto
  next
    case (8 i j)
    then show ?case using serves_ident [OF srv] pos by simp
  next
    case (9 j rt ep idx)
    then show ?case
      by (simp add: assms(1) pagination_runtime_adapter_def adapter_apply_def offset_limit_ops_def
          offset_limit_apply_def valid_size limit serves_binding [OF srv])
  next
    case (10 j rt ep)
    then have "unat (ol_offset (pb_load_pagination bnd ep)) = j * unat limit" using nat [OF 10(2)] by simp
    then show ?case by (rule serves_fetch [OF srv])
  next
    case (11 j page)
    then show ?case by (simp add: window_page_def)
  next
    case (12 j rt ep page ctx)
    have "j * unat limit + unat limit < 2 ^ 64" using 12(3) fits(2) by simp
    then have "checked_add (of_nat (j * unat limit)) limit = Some (of_nat (Suc j * unat limit))"
      using checked_add_of_nat by (metis add.commute mult_Suc)
    then show ?case using 12(1)
      by (simp add: assms(1) pagination_runtime_adapter_def adapter_advance_def offset_limit_ops_def
          offset_limit_advance_def valid_size limit)
  qed (use fits cap in simp_all)
qed

lemma paged_walk:
  fixes env :: "(paged_pagination option, 'e, 'pg, 'i, 'h, 'b, 'w) collect_env" and per_page :: u64
  assumes rt: "ce_runtime env = pagination_runtime_adapter (paged_ops (ce_usize_max env)) bnd"
    and srv: "serves_windows env bnd (\<lambda>c. (unat (pp_page c) - 1) * unat per_page)
      (window_page (ce_pages env) (unat per_page) data) ident"
    and size: "per_page \<noteq> 0" "unat per_page \<le> ce_usize_max env"
    and fits: "length data \<le> ce_usize_max env" "length data div unat per_page + 1 < 2 ^ 32"
    and cap: "pc_termination (ce_caps env) = HardPageCap cap" "length data div unat per_page < cap"
  shows "page_walk env
    (\<lambda>j rt ep. rt = Some \<lparr>pp_page = of_nat (Suc j), pp_per_page = per_page\<rparr>)
    (\<lambda>j rt ep. rt = Some \<lparr>pp_page = of_nat (Suc j), pp_per_page = per_page\<rparr>
       \<and> pb_load_pagination bnd ep = \<lparr>pp_page = of_nat (Suc j), pp_per_page = per_page\<rparr>)
    (\<lambda>j. window_page (ce_pages env) (unat per_page) data (j * unat per_page))
    (\<lambda>j. ident (j * unat per_page)) (\<lambda>j. Some (PkU64 (of_nat (Suc j)))) (unat per_page) data cap"
proof -
  have pos: "0 < unat per_page" using size(1) by (simp add: unat_gt_0)
  have nat: "unat (of_nat (Suc j) :: u64) = Suc j" if "j * unat per_page \<le> length data" for j
  proof -
    have "j \<le> length data div unat per_page" using that pos by (simp add: less_eq_div_iff_mult_less_eq)
    then show ?thesis using fits(2) by (intro unat_of_nat_u64) simp
  qed
  have page: "of_nat (Suc j) \<noteq> (0 :: u64)" if "j * unat per_page \<le> length data" for j
    using nat [OF that] by (metis nat.distinct(1) unat_0)
  show ?thesis
  proof (unfold_locales, goal_cases)
    case 1
    then show ?case by (rule pos)
  next
    case (6 j rt ep)
    then show ?case by (simp add: assms(1) pagination_runtime_adapter_def paged_ops_def)
  next
    case (7 i j)
    then have "i * unat per_page \<le> length data" using mult_le_mono1 [of i j "unat per_page"] by linarith
    from 7(1) have "unat (of_nat (Suc i) :: u64) \<noteq> unat (of_nat (Suc j) :: u64)"
      unfolding nat [OF \<open>i * unat per_page \<le> length data\<close>] nat [OF 7(2)] by simp
    then show ?case by auto
  next
    case (8 i j)
    then show ?case using serves_ident [OF srv] pos by simp
  next
    case (9 j rt ep idx)
    then show ?case using page [OF 9(2)]
      by (simp add: assms(1) pagination_runtime_adapter_def adapter_apply_def paged_ops_def paged_apply_def
          validate_paged_page_def valid_size size serves_binding [OF srv])
  next
    case (10 j rt ep)
    then have "(unat (pp_page (pb_load_pagination bnd ep)) - 1) * unat per_page = j * unat per_page"
      using nat [OF 10(2)] by simp
    then show ?case by (rule serves_fetch [OF srv])
  next
    case (11 j page)
    then show ?case by (simp add: window_page_def)
  next
    case (12 j rt ep page ctx)
    then have "Suc j \<le> length data div unat per_page" using pos by (simp add: less_eq_div_iff_mult_less_eq)
    then have "checked_add (of_nat (Suc j)) 1 = Some (of_nat (Suc (Suc j)) :: u64)"
      using checked_add_of_nat [of "Suc j" 1] fits(2) by simp
    then show ?case using 12(1)
      by (simp add: assms(1) pagination_runtime_adapter_def adapter_advance_def paged_ops_def
          paged_advance_def valid_size size)
  qed (use fits cap in simp_all)
qed

text \<open>A cursor server: every page but the last names the position of the next one.\<close>

definition cursor_page ::
  "('pg, 'i) page_items \<Rightarrow> ('pg \<Rightarrow> string option) \<Rightarrow> (nat \<Rightarrow> string) \<Rightarrow> nat \<Rightarrow> 'i list \<Rightarrow> nat \<Rightarrow> 'pg \<Rightarrow> bool" where
  "cursor_page ops next_cursor enc k data n page \<longleftrightarrow>
     window_page ops k data n page
     \<and> next_cursor page = (if n + k < length data then Some (enc (n + k)) else None)"

lemma cursor_walk:
  fixes env :: "(cursor_pagination option, 'e, 'pg, 'i, 'h, 'b, 'w) collect_env" and per_page :: u64
  assumes rt: "ce_runtime env = pagination_runtime_adapter (cursor_ops next_cursor (ce_usize_max env)) bnd"
    and srv: "serves_windows env bnd (\<lambda>c. case cp_cursor c of None \<Rightarrow> 0 | Some s \<Rightarrow> dec s)
      (cursor_page (ce_pages env) next_cursor enc (unat per_page) data) ident"
    and codec: "\<And>n. dec (enc n) = n"
    and size: "per_page \<noteq> 0" "unat per_page \<le> ce_usize_max env"
    and fits: "length data \<le> ce_usize_max env" "length data div unat per_page + 1 < 2 ^ 32"
    and cap: "pc_termination (ce_caps env) = HardPageCap cap" "length data div unat per_page < cap"
  shows "page_walk env
    (\<lambda>j rt ep. rt = Some \<lparr>cp_cursor = (if j = 0 then None else Some (enc (j * unat per_page))),
       cp_per_page = per_page, cp_send_cursor_on_first = first, cp_stop_when_cursor_missing = True\<rparr>)
    (\<lambda>j rt ep. rt = Some \<lparr>cp_cursor = (if j = 0 then None else Some (enc (j * unat per_page))),
       cp_per_page = per_page, cp_send_cursor_on_first = first, cp_stop_when_cursor_missing = True\<rparr>
       \<and> pb_load_pagination bnd ep = \<lparr>cp_cursor = (if j = 0 then None else Some (enc (j * unat per_page))),
       cp_per_page = per_page, cp_send_cursor_on_first = first, cp_stop_when_cursor_missing = True\<rparr>)
    (\<lambda>j. cursor_page (ce_pages env) next_cursor enc (unat per_page) data (j * unat per_page))
    (\<lambda>j. ident (j * unat per_page))
    (\<lambda>j. if j = 0 then None else Some (PkStr (enc (j * unat per_page)))) (unat per_page) data cap"
proof -
  have pos: "0 < unat per_page" using size(1) by (simp add: unat_gt_0)
  have enc: "enc m = enc n \<longleftrightarrow> m = n" for m n by (metis codec)
  show ?thesis
  proof (unfold_locales, goal_cases)
    case 1
    then show ?case by (rule pos)
  next
    case (6 j rt ep)
    then show ?case by (simp add: assms(1) pagination_runtime_adapter_def cursor_ops_def)
  next
    case (7 i j)
    then show ?case using pos by (simp add: enc)
  next
    case (8 i j)
    then show ?case using serves_ident [OF srv] pos by simp
  next
    case (9 j rt ep idx)
    then have "(ucast idx :: u64) = 0 \<longleftrightarrow> j = 0" by (simp add: ucast_u64_zero)
    then show ?case using 9(1)
      by (auto simp: assms(1) pagination_runtime_adapter_def adapter_apply_def cursor_ops_def cursor_apply_def
          valid_size size serves_binding [OF srv] page_apply_of_def)
  next
    case (10 j rt ep)
    then have "(case cp_cursor (pb_load_pagination bnd ep) of None \<Rightarrow> 0 | Some s \<Rightarrow> dec s) = j * unat per_page"
      by (simp add: codec)
    then show ?case by (rule serves_fetch [OF srv])
  next
    case (11 j page)
    then show ?case by (simp add: window_page_def cursor_page_def)
  next
    case (12 j rt ep page ctx)
    then show ?case
      by (auto simp: assms(1) pagination_runtime_adapter_def adapter_advance_def cursor_ops_def
          cursor_advance_def valid_size size cursor_page_def add.commute)
  qed (use fits cap in simp_all)
qed

section \<open>Collecting everything\<close>

text \<open>
  Property C23: offset and limit pagination collects the whole data set, in order, from a server that
  answers every request with the window its offset and limit name, when the page cap leaves room for
  the pages that are needed.
\<close>

theorem offset_collects_all:
  assumes "ce_runtime env = pagination_runtime_adapter (offset_limit_ops (ce_usize_max env)) bnd"
    and "serves_windows env bnd (\<lambda>c. unat (ol_offset c)) (window_page (ce_pages env) (unat limit) data) ident"
    and "limit \<noteq> 0" "unat limit \<le> ce_usize_max env"
    and "length data \<le> ce_usize_max env" "length data < 2 ^ 64" "length data div unat limit + 1 < 2 ^ 32"
    and "pc_termination (ce_caps env) = HardPageCap cap" "length data div unat limit < cap"
    and "pb_load_pagination bnd ep = \<lparr>ol_offset = 0, ol_limit = limit\<rparr>"
    and "length data div unat limit < fuel"
  shows "\<exists>st'. collect_with_pagination_runtime fuel env ep None w = Some (Inr data, st')"
proof -
  have "prt_init (ce_runtime env) ep (page_apply_of env 0) None = Inr (Some \<lparr>ol_offset = 0, ol_limit = limit\<rparr>)"
    using assms(10) by (simp add: assms(1) pagination_runtime_adapter_def adapter_init_def)
  then show ?thesis by (rule page_walk.collects_all [OF offset_walk [OF assms(1-9)] _ _ assms(11)]) simp
qed

text \<open>
  Numbered pages, starting at page one, collect the whole data set in the same way.
\<close>

theorem paged_collects_all:
  assumes "ce_runtime env = pagination_runtime_adapter (paged_ops (ce_usize_max env)) bnd"
    and "serves_windows env bnd (\<lambda>c. (unat (pp_page c) - 1) * unat per_page)
      (window_page (ce_pages env) (unat per_page) data) ident"
    and "per_page \<noteq> 0" "unat per_page \<le> ce_usize_max env"
    and "length data \<le> ce_usize_max env" "length data div unat per_page + 1 < 2 ^ 32"
    and "pc_termination (ce_caps env) = HardPageCap cap" "length data div unat per_page < cap"
    and "pb_load_pagination bnd ep = \<lparr>pp_page = 1, pp_per_page = per_page\<rparr>"
    and "length data div unat per_page < fuel"
  shows "\<exists>st'. collect_with_pagination_runtime fuel env ep None w = Some (Inr data, st')"
proof -
  have "prt_init (ce_runtime env) ep (page_apply_of env 0) None = Inr (Some \<lparr>pp_page = 1, pp_per_page = per_page\<rparr>)"
    using assms(9) by (simp add: assms(1) pagination_runtime_adapter_def adapter_init_def)
  then show ?thesis by (rule page_walk.collects_all [OF paged_walk [OF assms(1-8)] _ _ assms(10)]) simp
qed

text \<open>
  Cursor pagination without an initial cursor collects the whole data set, in order, from
  a server whose pages name the cursor of the next page until no data is left.
\<close>

theorem cursor_collects_all:
  assumes "ce_runtime env = pagination_runtime_adapter (cursor_ops next_cursor (ce_usize_max env)) bnd"
    and "serves_windows env bnd (\<lambda>c. case cp_cursor c of None \<Rightarrow> 0 | Some s \<Rightarrow> dec s)
      (cursor_page (ce_pages env) next_cursor enc (unat per_page) data) ident"
    and "\<And>n. dec (enc n) = n"
    and "per_page \<noteq> 0" "unat per_page \<le> ce_usize_max env"
    and "length data \<le> ce_usize_max env" "length data div unat per_page + 1 < 2 ^ 32"
    and "pc_termination (ce_caps env) = HardPageCap cap" "length data div unat per_page < cap"
    and "pb_load_pagination bnd ep = \<lparr>cp_cursor = None, cp_per_page = per_page,
      cp_send_cursor_on_first = first, cp_stop_when_cursor_missing = True\<rparr>"
    and "length data div unat per_page < fuel"
  shows "\<exists>st'. collect_with_pagination_runtime fuel env ep None w = Some (Inr data, st')"
proof -
  have "prt_init (ce_runtime env) ep (page_apply_of env 0) None = Inr (Some \<lparr>cp_cursor = None, cp_per_page = per_page,
      cp_send_cursor_on_first = first, cp_stop_when_cursor_missing = True\<rparr>)"
    using assms(10) by (simp add: assms(1) pagination_runtime_adapter_def adapter_init_def)
  then show ?thesis by (rule page_walk.collects_all [OF cursor_walk [OF assms(1-9)] _ _ assms(11)]) simp
qed

section \<open>Timeouts\<close>

text \<open>
  The timeout a request is built with. Clearing the override falls back to the timeout of the policy
  layers: a request with a policy timeout cannot be made without one.
\<close>

lemma timeout_override_effect:
  assumes "resolve_public_request_head ops api_headers (apply_to opts plan page_index) body = Inr head"
  shows "prh_timeout head =
    (case ro_timeout_override opts of
       ToSet d \<Rightarrow> Some d
     | ToClear \<Rightarrow> rpv_timeout plan
     | ToInherit \<Rightarrow> (case rpv_override_timeout plan of Some d \<Rightarrow> Some d | None \<Rightarrow> rpv_timeout plan))"
  using assms
  by (auto simp: resolve_public_request_head_def rbind_Inr_iff apply_to_def
      split: timeout_override.splits option.splits)

section \<open>Sample runs\<close>

text \<open>An endpoint that is its own pagination state, served in pages of two.\<close>

type_synonym walk_page = "nat list \<times> string option"

definition walk_data :: "nat list" where
  "walk_data = [10, 11, 12, 13, 14]"

definition walk_page :: "nat \<Rightarrow> walk_page" where
  "walk_page n = (take 2 (drop n walk_data), if n + 2 < length walk_data then Some (decimal (n + 2)) else None)"

definition walk_identity :: "nat \<Rightarrow> pagination_request_identity" where
  "walk_identity n =
     \<lparr>pri_endpoint = ''e'', pri_method = ''GET'', pri_scheme = ''https'', pri_host = ''h'', pri_path = ''/'',
      pri_query = [(''at'', decimal n)], pri_headers = []\<rparr>"

definition walk_env ::
  "('e option, 'e, walk_page) pagination_runtime \<Rightarrow> ('e \<Rightarrow> nat) \<Rightarrow> pagination_termination
    \<Rightarrow> ('e option, 'e, walk_page, nat, (header_name \<times> string) list, nat, unit) collect_env" where
  "walk_env runtime pos termination =
     \<lparr>ce_runtime = runtime,
      ce_pages = \<lparr>pi_item_count = (\<lambda>(xs, _). length xs), pi_into_items = fst\<rparr>,
      ce_plan = (\<lambda>e. Inr (sample_plan_view\<lparr>rpv_query := [(''at'', decimal (pos e))]\<rparr>, pos e)),
      ce_execute = (\<lambda>_ n w. (Inr (walk_page n), w)), ce_headers = list_headers,
      ce_opts = request_options_default, ce_caps = caps_new termination,
      ce_ctx = \<lparr>ec_endpoint = ''e'', ec_method = ''GET''\<rparr>, ce_usize_max = 2 ^ 64 - 1\<rparr>"

definition self_binding :: "('e, 'e) paginate_binding" where
  "self_binding = \<lparr>pb_load_pagination = (\<lambda>e. e), pb_store_pagination = (\<lambda>c _. c)\<rparr>"

lemma walk_serves:
  assumes "\<And>n. answer n (walk_page n)"
  shows "serves_windows (walk_env runtime pos termination) self_binding pos answer walk_identity"
proof -
  have "inj walk_identity" by (rule injI) (simp add: walk_identity_def)
  then show ?thesis using assms
    by (auto simp: serves_windows_def self_binding_def walk_env_def walk_identity_def sample_plan_view_def
        pagination_request_identity_of_def list_headers_def)
qed

abbreviation walk_offset_env where
  "walk_offset_env \<equiv> walk_env (pagination_runtime_adapter (offset_limit_ops (2 ^ 64 - 1)) self_binding)
     (\<lambda>c. unat (ol_offset c))"

abbreviation walk_paged_env where
  "walk_paged_env \<equiv> walk_env (pagination_runtime_adapter (paged_ops (2 ^ 64 - 1)) self_binding)
     (\<lambda>c. (unat (pp_page c) - 1) * unat (2 :: u64))"

abbreviation walk_cursor_env where
  "walk_cursor_env \<equiv> walk_env (pagination_runtime_adapter (cursor_ops snd (2 ^ 64 - 1)) self_binding)
     (\<lambda>c. case cp_cursor c of None \<Rightarrow> 0 | Some s \<Rightarrow> decimal_value s)"

lemmas walk_sizes = walk_env_def caps_new_def walk_data_def window_page_def walk_page_def self_binding_def

interpretation offset_sample: page_walk "walk_offset_env (HardPageCap 9)"
  "\<lambda>j rt ep. rt = Some \<lparr>ol_offset = of_nat (j * unat (2 :: u64)), ol_limit = 2\<rparr>"
  "\<lambda>j rt ep. rt = Some \<lparr>ol_offset = of_nat (j * unat (2 :: u64)), ol_limit = 2\<rparr>
     \<and> pb_load_pagination self_binding ep = \<lparr>ol_offset = of_nat (j * unat (2 :: u64)), ol_limit = 2\<rparr>"
  "\<lambda>j. window_page (ce_pages (walk_offset_env (HardPageCap 9))) (unat (2 :: u64)) walk_data (j * unat (2 :: u64))"
  "\<lambda>j. walk_identity (j * unat (2 :: u64))" "\<lambda>j. Some (PkU64 (of_nat (j * unat (2 :: u64))))" "unat (2 :: u64)" walk_data 9
  by (rule offset_walk [OF _ walk_serves]) (simp_all add: walk_sizes)

theorem offset_collects_all_witness:
  "\<exists>st'. collect_with_pagination_runtime 3 (walk_offset_env (HardPageCap 9)) \<lparr>ol_offset = 0, ol_limit = 2\<rparr> None ()
     = Some (Inr [10, 11, 12, 13, 14], st')"
  by (rule offset_collects_all [OF _ walk_serves, where limit = 2 and data = "[10, 11, 12, 13, 14]" and cap = 9])
    (simp_all add: walk_sizes)

theorem paged_collects_all_witness:
  "\<exists>st'. collect_with_pagination_runtime 3 (walk_paged_env (HardPageCap 9)) \<lparr>pp_page = 1, pp_per_page = 2\<rparr> None ()
     = Some (Inr [10, 11, 12, 13, 14], st')"
  by (rule paged_collects_all [OF _ walk_serves, where per_page = 2 and data = "[10, 11, 12, 13, 14]" and cap = 9])
    (simp_all add: walk_sizes)

theorem cursor_collects_all_witness:
  "\<exists>st'. collect_with_pagination_runtime 3 (walk_cursor_env (HardPageCap 9)) (cursor_default\<lparr>cp_per_page := 2\<rparr>) None ()
     = Some (Inr [10, 11, 12, 13, 14], st')"
  by (rule cursor_collects_all [OF _ walk_serves decimal_value_decimal, where per_page = 2
      and data = "[10, 11, 12, 13, 14]" and cap = 9 and first = False])
    (auto simp: walk_sizes cursor_page_def cursor_default_def)


lemma walk_takes_one:
  "\<exists>st'. collect_with_pagination_runtime 1 (walk_offset_env (TakeItems 1)) \<lparr>ol_offset = 0, ol_limit = 2\<rparr> None ()
     = Some (Inr [10], st')"
  by (simp add: collect_with_pagination_runtime_def walk_sizes pagination_runtime_adapter_def adapter_init_def
      collect_start_def page_round_def plan_page_def detect_loop_def offset_limit_ops_def adapter_apply_def
      offset_limit_apply_def valid_size ensure_progress_def settle_page_def advance_page_def
      pre_advance_decision_of_def usize_checked_add_def add_items_def Let_def)

theorem collect_within_caps_witness:
  "\<exists>out st'. collect_with_pagination_runtime 1 (walk_offset_env (TakeItems 1)) \<lparr>ol_offset = 0, ol_limit = 2\<rparr> None ()
     = Some (Inr out, st') \<and> length out \<le> 1"
proof -
  obtain st' where run: "collect_with_pagination_runtime 1 (walk_offset_env (TakeItems 1))
      \<lparr>ol_offset = 0, ol_limit = 2\<rparr> None () = Some (Inr [10], st')"
    using walk_takes_one by blast
  have "length [10 :: nat] \<le> 1"
    by (rule collect_within_caps [OF run]) (simp_all add: walk_env_def caps_new_def split: prod.splits)
  with run show ?thesis by blast
qed

end
