(* ===== verification/UrlRoute.thy ===== *)
theory UrlRoute
  imports Errors
begin

text \<open>
  Hosts and paths of a route (\<open>types.rs\<close>): host parts in suffix and absolute mode with their
  validation and joining, the path builder and the percent encoding of dynamic segments. Strings are
  their UTF-8 bytes.
\<close>

section \<open>Hosts\<close>

datatype host_label_source = LsStatic string | LsPlaceholder string | LsMixed

record host_label =
  hl_value :: string
  hl_source :: host_label_source

datatype host_spec = SuffixDomain "host_label list" | AbsoluteHost string

record host_parts =
  hp_spec :: host_spec
  hp_absolute_push_attempt :: "host_label option"

definition host_parts_default :: host_parts where
  "host_parts_default = \<lparr>hp_spec = SuffixDomain [], hp_absolute_push_attempt = None\<rparr>"

definition set_absolute :: "string \<Rightarrow> host_parts \<Rightarrow> host_parts" where
  "set_absolute host h = h\<lparr>hp_spec := AbsoluteHost host, hp_absolute_push_attempt := None\<rparr>"

definition push_label :: "string \<Rightarrow> host_label_source \<Rightarrow> host_parts \<Rightarrow> host_parts" where
  "push_label value source h =
     (let label = \<lparr>hl_value = value, hl_source = source\<rparr> in
      case hp_spec h of
        SuffixDomain labels \<Rightarrow> h\<lparr>hp_spec := SuffixDomain (labels @ [label])\<rparr>
      | AbsoluteHost _ \<Rightarrow>
          if hp_absolute_push_attempt h = None then h\<lparr>hp_absolute_push_attempt := Some label\<rparr> else h)"

definition push_label_static :: "string \<Rightarrow> host_parts \<Rightarrow> host_parts" where
  "push_label_static s h = push_label s (LsStatic s) h"

definition placeholder_of :: "host_label \<Rightarrow> string option" where
  "placeholder_of label = (case hl_source label of LsPlaceholder name \<Rightarrow> Some name | _ \<Rightarrow> None)"

text \<open>The first forbidden delimiter, in the order of the code.\<close>

definition forbidden_delimiter :: "string \<Rightarrow> char option" where
  "forbidden_delimiter host = find (\<lambda>c. c \<in> set host) [CHR ''@'', CHR ''?'', CHR ''#'', CHR 92]"

definition validate_absolute ::
  "error_context \<Rightarrow> string \<Rightarrow> host_label option \<Rightarrow> (api_client_error, unit) result" where
  "validate_absolute ctx host attempt =
     (case attempt of
        Some label \<Rightarrow> Inl (InvalidHostLabel ctx (hl_value label) 0 (placeholder_of label) AbsoluteModePushLabel)
      | None \<Rightarrow>
          if host = [] then Inl (InvalidHostLabel ctx host 0 None HostEmpty)
          else if contains_str host ''://'' then Inl (InvalidHostLabel ctx host 0 None ContainsScheme)
          else
            (case forbidden_delimiter host of
               Some c \<Rightarrow> Inl (InvalidHostLabel ctx host 0 None (InvalidByte c))
             | None \<Rightarrow>
                 if has_whitespace host then Inl (InvalidHostLabel ctx host 0 None ContainsWhitespace)
                 else if CHR ''/'' \<in> set host then Inl (InvalidHostLabel ctx host 0 None ContainsSlash)
                 else Inr ()))"

definition ascii_between :: "char \<Rightarrow> char \<Rightarrow> char \<Rightarrow> bool" where
  "ascii_between lo hi c \<longleftrightarrow> (of_char lo :: nat) \<le> of_char c \<and> (of_char c :: nat) \<le> of_char hi"

definition ascii_alphanumeric :: "char \<Rightarrow> bool" where
  "ascii_alphanumeric c \<longleftrightarrow>
     ascii_between CHR ''A'' CHR ''Z'' c \<or> ascii_between CHR ''a'' CHR ''z'' c
     \<or> ascii_between CHR ''0'' CHR ''9'' c"

definition label_byte :: "char \<Rightarrow> bool" where
  "label_byte c \<longleftrightarrow> ascii_alphanumeric c \<or> c = CHR ''-''"

definition label_error :: "string \<Rightarrow> host_label_invalid_reason option" where
  "label_error s =
     (if s = [] then Some HostEmpty
      else if CHR ''.'' \<in> set s then Some ContainsDot
      else if CHR ''/'' \<in> set s then Some ContainsSlash
      else if starts_with s ''-'' \<or> ends_with s ''-'' then Some StartsOrEndsDash
      else map_option InvalidByte (find (\<lambda>c. \<not> label_byte c) s))"

fun validate_labels ::
  "error_context \<Rightarrow> nat \<Rightarrow> host_label list \<Rightarrow> (api_client_error, unit) result" where
  "validate_labels ctx index [] = Inr ()"
| "validate_labels ctx index (seg # labels) =
     (case label_error (hl_value seg) of
        Some reason \<Rightarrow> Inl (InvalidHostLabel ctx (hl_value seg) index (placeholder_of seg) reason)
      | None \<Rightarrow> validate_labels ctx (Suc index) labels)"

definition validate_host :: "host_parts \<Rightarrow> error_context \<Rightarrow> (api_client_error, unit) result" where
  "validate_host h ctx =
     (case hp_spec h of
        AbsoluteHost host \<Rightarrow> validate_absolute ctx host (hp_absolute_push_attempt h)
      | SuffixDomain labels \<Rightarrow> validate_labels ctx 0 labels)"

fun join_labels :: "string list \<Rightarrow> string" where
  "join_labels [] = []"
| "join_labels [s] = s"
| "join_labels (s # t # rest) = s @ ''.'' @ join_labels (t # rest)"

definition join_host :: "host_parts \<Rightarrow> string \<Rightarrow> string" where
  "join_host h domain =
     (case hp_spec h of
        AbsoluteHost host \<Rightarrow> host
      | SuffixDomain labels \<Rightarrow>
          if labels = [] then domain else join_labels (map hl_value labels) @ ''.'' @ domain)"

section \<open>Paths\<close>

text \<open>\<open>UrlPath\<close> is its inner string.\<close>

type_synonym url_path = string

definition url_path_new :: url_path where
  "url_path_new = ''/''"

definition as_str :: "url_path \<Rightarrow> string" where
  "as_str p = (if p = [] then ''/'' else p)"

definition push_raw :: "string \<Rightarrow> url_path \<Rightarrow> url_path" where
  "push_raw piece0 p =
     (let piece = trim piece0 in
      if piece = [] \<or> piece = ''/'' then p
      else
        (let inner = (if p = [] then ''/'' else if \<not> starts_with p ''/'' then ''/'' @ p else p);
             joined =
               (case (ends_with inner ''/'', starts_with piece ''/'') of
                  (True, True) \<Rightarrow> butlast inner @ piece
                | (False, False) \<Rightarrow> inner @ ''/'' @ piece
                | _ \<Rightarrow> inner @ piece) in
         if 1 < length joined \<and> ends_with joined ''/'' then butlast joined else joined))"

definition unreserved :: "char \<Rightarrow> bool" where
  "unreserved c \<longleftrightarrow> ascii_alphanumeric c \<or> c \<in> set ''-._~''"

definition HEX :: string where
  "HEX = ''0123456789ABCDEF''"

definition percent_encode_path_segment :: "string \<Rightarrow> string" where
  "percent_encode_path_segment seg =
     concat (map (\<lambda>b. if unreserved b then [b]
                      else [CHR ''%'', HEX ! (of_char b div 16), HEX ! (of_char b mod 16)]) seg)"

definition push_segment_encoded :: "string \<Rightarrow> url_path \<Rightarrow> url_path" where
  "push_segment_encoded seg p =
     (if seg = [] \<or> seg = ''/'' then p else push_raw (percent_encode_path_segment seg) p)"

definition push_segment :: "string \<Rightarrow> url_path \<Rightarrow> url_path" where
  "push_segment seg p = push_raw seg p"

text \<open>A display value is its text.\<close>

definition push_display :: "string \<Rightarrow> url_path \<Rightarrow> url_path" where
  "push_display text p = push_raw text p"

record route_builder =
  rb_host :: host_parts
  rb_path :: url_path

definition route_builder_new :: route_builder where
  "route_builder_new = \<lparr>rb_host = host_parts_default, rb_path = url_path_new\<rparr>"

section \<open>Valid hosts\<close>

lemma find_None_all: "find P xs = None \<longleftrightarrow> list_all (\<lambda>x. \<not> P x) xs"
  by (induction xs) auto

lemma label_error_None_iff:
  "label_error s = None \<longleftrightarrow> s \<noteq> [] \<and> list_all label_byte s \<and> \<not> starts_with s ''-'' \<and> \<not> ends_with s ''-''"
proof -
  have "\<not> label_byte CHR ''.''" "\<not> label_byte CHR ''/''" by (simp_all add: label_byte_def ascii_alphanumeric_def ascii_between_def)
  then show ?thesis by (auto simp: label_error_def find_None_all list_all_iff)
qed

lemma validate_labels_iff:
  "validate_labels ctx i labels = Inr () \<longleftrightarrow> list_all (\<lambda>l. label_error (hl_value l) = None) labels"
  by (induction labels arbitrary: i) (auto split: option.splits)

lemma join_labels_set: "set (join_labels ss) \<subseteq> (\<Union>s \<in> set ss. set s) \<union> {CHR ''.''}"
  by (induction ss rule: join_labels.induct) auto

text \<open>Bytes that end the authority of a URL or start its user information.\<close>

definition delimiter :: "char \<Rightarrow> bool" where
  "delimiter c \<longleftrightarrow> c \<in> set ''@?#/'' \<or> c = CHR 92"

lemma label_byte_not_delimiter: "label_byte c \<Longrightarrow> \<not> delimiter c"
  by (auto simp: label_byte_def ascii_alphanumeric_def ascii_between_def delimiter_def)

lemma validated_labels_plain:
  assumes "validate_labels ctx 0 labels = Inr ()" "c \<in> set (join_labels (map hl_value labels))"
  shows "label_byte c \<or> c = CHR ''.''"
  using assms join_labels_set [of "map hl_value labels"]
  by (fastforce simp: validate_labels_iff label_error_None_iff list_all_iff)

text \<open>
  Property C35: a validated host stays where it belongs. It contains none of the bytes that would end
  the authority or start user information, and in suffix mode it is the configured domain or a
  sub-domain of it.
\<close>

theorem validated_host_in_domain:
  assumes "validate_host h ctx = Inr ()" and "\<And>c. c \<in> set domain \<Longrightarrow> \<not> delimiter c"
  shows "(\<forall>c \<in> set (join_host h domain). \<not> delimiter c)
    \<and> (\<forall>labels. hp_spec h = SuffixDomain labels \<longrightarrow> join_host h domain = domain
         \<or> (\<exists>prefix. join_host h domain = prefix @ ''.'' @ domain
              \<and> (\<forall>c \<in> set prefix. label_byte c \<or> c = CHR ''.'')))"
proof (cases "hp_spec h")
  case (AbsoluteHost host)
  then have "\<forall>c \<in> set host. \<not> delimiter c"
    using assms(1)
    by (auto simp: validate_host_def validate_absolute_def forbidden_delimiter_def find_None_all delimiter_def
        split: option.splits if_splits)
  then show ?thesis using AbsoluteHost by (simp add: join_host_def)
next
  case (SuffixDomain labels)
  then have v: "validate_labels ctx 0 labels = Inr ()" using assms(1) by (simp add: validate_host_def)
  have dot: "\<not> delimiter CHR ''.''" by (simp add: delimiter_def)
  show ?thesis
  proof (cases "labels = []")
    case True
    then show ?thesis using SuffixDomain assms(2) by (simp add: join_host_def)
  next
    case False
    then have j: "join_host h domain = join_labels (map hl_value labels) @ ''.'' @ domain"
      using SuffixDomain by (simp add: join_host_def)
    show ?thesis unfolding j
      using validated_labels_plain [OF v] label_byte_not_delimiter dot assms(2) by fastforce
  qed
qed

section \<open>Percent encoding\<close>

definition hex_value :: "char \<Rightarrow> nat" where
  "hex_value c = (if ascii_between CHR ''0'' CHR ''9'' c then of_char c - 48 else of_char c - 55)"

fun percent_decode :: "string \<Rightarrow> string" where
  "percent_decode [] = []"
| "percent_decode (c # s) =
     (if c = CHR ''%'' then
        (case s of a # b # rest \<Rightarrow> char_of (16 * hex_value a + hex_value b) # percent_decode rest | _ \<Rightarrow> c # s)
      else c # percent_decode s)"

lemma HEX_nth:
  assumes "n < 16"
  shows "hex_value (HEX ! n) = n" "ascii_alphanumeric (HEX ! n)"
proof -
  have "\<forall>k \<in> set [0..<16]. hex_value (HEX ! k) = k \<and> ascii_alphanumeric (HEX ! k)" by code_simp
  then show "hex_value (HEX ! n) = n" "ascii_alphanumeric (HEX ! n)" using assms by auto
qed

lemma of_char_nibbles:
  "of_char c div 16 < (16 :: nat)" "of_char c mod 16 < (16 :: nat)"
  "char_of (16 * (of_char c div 16) + of_char c mod 16 :: nat) = c"
proof -
  have "of_char c < (256 :: nat)" by simp
  then show "of_char c div 16 < (16 :: nat)" by (simp add: div_less_iff_less_mult)
  show "of_char c mod 16 < (16 :: nat)" by simp
  have "16 * (of_char c div 16) + of_char c mod 16 = (of_char c :: nat)" by simp
  then show "char_of (16 * (of_char c div 16) + of_char c mod 16 :: nat) = c" by (simp del: mult_div_mod_eq)
qed

lemma percent_encode_Cons:
  "percent_encode_path_segment (b # s) =
     (if unreserved b then [b] else [CHR ''%'', HEX ! (of_char b div 16), HEX ! (of_char b mod 16)])
     @ percent_encode_path_segment s"
  by (simp add: percent_encode_path_segment_def)

lemma percent_round_trip: "percent_decode (percent_encode_path_segment s) = s"
proof (induction s)
  case Nil
  then show ?case by (simp add: percent_encode_path_segment_def)
next
  case (Cons b s)
  have "\<not> unreserved CHR ''%''"
    by (simp add: unreserved_def ascii_alphanumeric_def ascii_between_def)
  then show ?case using Cons.IH of_char_nibbles [of b]
    by (auto simp: percent_encode_Cons HEX_nth)
qed

definition encoded_byte :: "char \<Rightarrow> bool" where
  "encoded_byte c \<longleftrightarrow> unreserved c \<or> c = CHR ''%''"

lemma encoded_bytes: "list_all encoded_byte (percent_encode_path_segment s)"
proof (induction s)
  case Nil
  then show ?case by (simp add: percent_encode_path_segment_def)
next
  case (Cons b s)
  then show ?case using of_char_nibbles [of b]
    by (simp add: percent_encode_Cons encoded_byte_def unreserved_def HEX_nth)
qed

lemma encoded_nonempty: "percent_encode_path_segment s = [] \<longleftrightarrow> s = []"
  by (cases s) (simp_all add: percent_encode_Cons percent_encode_path_segment_def)

lemma encoded_byte_plain:
  assumes "encoded_byte c"
  shows "33 \<le> (of_char c :: nat)" "(of_char c :: nat) \<le> 126" "c \<noteq> CHR ''/''"
  using assms
  by (auto simp: encoded_byte_def unreserved_def ascii_alphanumeric_def ascii_between_def)

lemma plain_no_whitespace: "list_all encoded_byte s \<Longrightarrow> \<not> has_whitespace s"
proof (induction s)
  case (Cons c s)
  then have "33 \<le> (of_char c :: nat)" "(of_char c :: nat) \<le> 126" using encoded_byte_plain by auto
  then have "ws_prefix_len (c # s) = 0" by (auto simp: ws_prefix_len_def split: list.splits)
  with Cons show ?case by simp
qed simp

section \<open>Segments\<close>

fun split_slash :: "string \<Rightarrow> string list" where
  "split_slash [] = [[]]"
| "split_slash (c # s) =
     (if c = CHR ''/'' then [] # split_slash s
      else (case split_slash s of [] \<Rightarrow> [[c]] | w # ws \<Rightarrow> (c # w) # ws))"

definition path_of :: "string list \<Rightarrow> string" where
  "path_of segs = concat (map (\<lambda>s. CHR ''/'' # s) segs)"

lemma split_slash_plain:
  assumes "CHR ''/'' \<notin> set s"
  shows "split_slash (s @ r) = (s @ hd (split_slash r)) # tl (split_slash r)"
  using assms
proof (induction s)
  case Nil
  have "split_slash r \<noteq> []" by (induction r) (auto split: list.splits)
  then show ?case by simp
qed auto

lemma split_path_of:
  "list_all (\<lambda>s. CHR ''/'' \<notin> set s) segs \<Longrightarrow> split_slash (path_of segs) = [] # segs"
proof (induction segs)
  case (Cons s segs)
  then show ?case using split_slash_plain [of s "path_of segs"] by (simp add: path_of_def)
qed (simp add: path_of_def)

lemma push_encoded_path:
  assumes "seg \<noteq> []" "seg \<noteq> ''/''" and "list_all (\<lambda>s. s \<noteq> [] \<and> CHR ''/'' \<notin> set s) segs"
  shows "push_segment_encoded seg (if segs = [] then url_path_new else path_of segs) =
    path_of (segs @ [percent_encode_path_segment seg])"
proof -
  let ?e = "percent_encode_path_segment seg"
  have e: "?e \<noteq> []" "list_all encoded_byte ?e" "\<not> has_whitespace ?e"
    using assms(1) by (simp_all add: encoded_nonempty encoded_bytes plain_no_whitespace)
  have ns: "CHR ''/'' \<notin> set ?e" using e(2) encoded_byte_plain(3) by (auto simp: list_all_iff)
  then have hl: "hd ?e \<noteq> CHR ''/''" "last ?e \<noteq> CHR ''/''"
    using hd_in_set [OF e(1)] last_in_set [OF e(1)] by metis+
  then have es: "\<not> starts_with ?e ''/''" "\<not> ends_with ?e ''/''" "?e \<noteq> ''/''"
    using e(1) ns by (auto simp: starts_with_single ends_with_single)
  have ends: "ends_with (p @ ''/'' @ ?e) ''/'' = False" "ends_with (''/'' @ ?e) ''/'' = False" for p
    using hl(2) e(1) by (simp_all add: ends_with_single)
  show ?thesis
  proof (cases "segs = []")
    case True
    then show ?thesis using assms(1,2) e es ends(2)
      by (simp add: push_segment_encoded_def push_raw_def url_path_new_def trim_no_ws path_of_def
          starts_with_single ends_with_single)
  next
    case False
    then obtain xs y where segs: "segs = xs @ [y]" by (metis rev_exhaust)
    then have y: "y \<noteq> []" "CHR ''/'' \<notin> set y" using assms(3) by auto
    have p: "path_of segs = path_of xs @ ''/'' @ y" by (simp add: segs path_of_def)
    have "last y \<noteq> CHR ''/''" using y last_in_set [OF y(1)] by metis
    then have "\<not> ends_with (path_of segs) ''/''" using y by (simp add: p ends_with_single)
    moreover have "starts_with (path_of segs) ''/''"
      using False by (cases segs) (simp_all add: path_of_def starts_with_single)
    moreover have "path_of segs \<noteq> []" by (simp add: p)
    ultimately show ?thesis using assms(1,2) e es ends(1) False
      by (simp add: push_segment_encoded_def push_raw_def trim_no_ws path_of_def)
  qed
qed

lemma push_all_encoded:
  assumes "list_all (\<lambda>s. s \<noteq> [] \<and> s \<noteq> ''/'') segs"
  shows "foldl (\<lambda>p s. push_segment_encoded s p) url_path_new segs =
    (if segs = [] then url_path_new else path_of (map percent_encode_path_segment segs))"
  using assms
proof (induction segs rule: rev_induct)
  case (snoc x xs)
  have "list_all (\<lambda>s. s \<noteq> [] \<and> CHR ''/'' \<notin> set s) (map percent_encode_path_segment xs)"
    using snoc.prems encoded_bytes encoded_byte_plain(3)
    by (fastforce simp: list_all_iff encoded_nonempty)
  from push_encoded_path [OF _ _ this, of x] snoc show ?case by auto
qed simp

text \<open>
  Property C36: dynamic path segments survive the path. Pushing segments one by one gives a path whose
  pieces between the slashes decode to exactly these segments: none is split, merged, trimmed or
  reinterpreted, whatever bytes it has. Only the empty segment and a lone slash are dropped.
\<close>

theorem path_round_trip:
  assumes "list_all (\<lambda>s. s \<noteq> [] \<and> s \<noteq> ''/'') segs" and "segs \<noteq> []"
  shows "map percent_decode
      (tl (split_slash (as_str (foldl (\<lambda>p s. push_segment_encoded s p) url_path_new segs)))) = segs"
proof -
  have plain: "list_all (\<lambda>s. CHR ''/'' \<notin> set s) (map percent_encode_path_segment segs)"
    using encoded_bytes encoded_byte_plain(3) by (fastforce simp: list_all_iff)
  have "path_of (map percent_encode_path_segment segs) \<noteq> []" using assms(2) by (cases segs) (simp_all add: path_of_def)
  then show ?thesis
    using push_all_encoded [OF assms(1)] assms(2) split_path_of [OF plain]
    by (simp add: as_str_def comp_def percent_round_trip)
qed

theorem path_round_trip_witness:
  "map percent_decode (tl (split_slash (as_str
     (foldl (\<lambda>p s. push_segment_encoded s p) url_path_new [''a/b'', ''..'', '' x''])))) = [''a/b'', ''..'', '' x'']"
  by (rule path_round_trip) simp_all

theorem validated_host_in_domain_witness:
  "join_host (push_label ''eu'' LsMixed host_parts_default) ''x.y'' = ''eu.x.y''
   \<and> CHR ''@'' \<notin> set (join_host (push_label ''eu'' LsMixed host_parts_default) ''x.y'')"
proof -
  have "validate_host (push_label ''eu'' LsMixed host_parts_default) \<lparr>ec_endpoint = ''e'', ec_method = ''GET''\<rparr> = Inr ()"
    by (simp add: validate_host_def push_label_def host_parts_default_def label_error_def label_byte_def
        ascii_alphanumeric_def ascii_between_def starts_with_single ends_with_single Let_def)
  moreover have "\<not> delimiter c" if "c \<in> set ''x.y''" for c using that by (auto simp: delimiter_def)
  ultimately have "\<forall>c \<in> set (join_host (push_label ''eu'' LsMixed host_parts_default) ''x.y''). \<not> delimiter c"
    using validated_host_in_domain by blast
  then show ?thesis by (auto simp: delimiter_def join_host_def push_label_def host_parts_default_def Let_def)
qed

text \<open>A value that is a lone slash is dropped, although any other value becomes one segment.\<close>

lemma slash_value_dropped: "push_segment_encoded ''/'' p = p"
  by (simp add: push_segment_encoded_def)

end
