(* ===== verification/PolicyLayers.thy ===== *)
theory PolicyLayers
  imports HeaderRules RateLimitPlan
begin

text \<open>
  The request policy that the layers of a client build up (\<open>policy.rs\<close>): headers, query, timeout and
  rate limit, with the provenance that decides whether the decoder may set \<open>Accept\<close>. The header map
  is a record of operations with its documented laws. The last section gives the abstract view, in
  which a policy is what the last writer of each name left.
\<close>

section \<open>Data\<close>

datatype policy_layer = LyClient | LyPrefixPath | LyEndpoint | LyRuntime

record 'h policy =
  pol_headers :: 'h
  pol_query :: "(string \<times> string) list"
  pol_timeout :: "duration option"
  pol_rate_limit :: rate_limit_plan
  pol_layer :: policy_layer
  pol_accept_explicit_by_endpoint :: bool
  pol_accept_explicit_by_runtime :: bool

section \<open>Operations\<close>

definition policy_new :: "('h, 'v) header_map_ops \<Rightarrow> 'h policy" where
  "policy_new ops =
     \<lparr>pol_headers = hmo_new ops, pol_query = [], pol_timeout = None, pol_rate_limit = plan_new,
      pol_layer = LyClient, pol_accept_explicit_by_endpoint = False, pol_accept_explicit_by_runtime = False\<rparr>"

definition set_layer :: "policy_layer \<Rightarrow> 'h policy \<Rightarrow> 'h policy" where
  "set_layer layer p = p\<lparr>pol_layer := layer\<rparr>"

definition set_timeout :: "duration \<Rightarrow> 'h policy \<Rightarrow> 'h policy" where
  "set_timeout d p = p\<lparr>pol_timeout := Some d\<rparr>"

definition clear_timeout :: "'h policy \<Rightarrow> 'h policy" where
  "clear_timeout p = p\<lparr>pol_timeout := None\<rparr>"

definition add_rate_limit :: "rate_limit_plan \<Rightarrow> 'h policy \<Rightarrow> 'h policy" where
  "add_rate_limit plan p = p\<lparr>pol_rate_limit := plan_extend (pol_rate_limit p) plan\<rparr>"

definition replace_rate_limit :: "rate_limit_plan \<Rightarrow> 'h policy \<Rightarrow> 'h policy" where
  "replace_rate_limit plan p = p\<lparr>pol_rate_limit := plan\<rparr>"

definition clear_rate_limit :: "'h policy \<Rightarrow> 'h policy" where
  "clear_rate_limit p = p\<lparr>pol_rate_limit := plan_new\<rparr>"

definition note_accept :: "header_name \<Rightarrow> 'h policy \<Rightarrow> 'h policy" where
  "note_accept name p =
     (if pol_layer p = LyEndpoint \<and> name = ''accept'' then p\<lparr>pol_accept_explicit_by_endpoint := True\<rparr> else p)"

definition insert_header :: "('h, 'v) header_map_ops \<Rightarrow> header_name \<Rightarrow> 'v \<Rightarrow> 'h policy \<Rightarrow> 'h policy" where
  "insert_header ops name value p =
     (let p' = note_accept name p in p'\<lparr>pol_headers := hmo_insert ops (pol_headers p') name value\<rparr>)"

definition remove_header :: "('h, 'v) header_map_ops \<Rightarrow> header_name \<Rightarrow> 'h policy \<Rightarrow> 'h policy" where
  "remove_header ops name p =
     (let p' = note_accept name p in p'\<lparr>pol_headers := hmo_remove ops (pol_headers p') name\<rparr>)"

definition ensure_accept :: "('h, 'v) header_map_ops \<Rightarrow> 'v \<Rightarrow> 'h policy \<Rightarrow> 'h policy" where
  "ensure_accept ops value p =
     (if pol_accept_explicit_by_endpoint p \<or> pol_accept_explicit_by_runtime p then p
      else p\<lparr>pol_headers := hmo_insert ops (pol_headers p) ''accept'' value\<rparr>)"

definition remove_query :: "string \<Rightarrow> 'h policy \<Rightarrow> 'h policy" where
  "remove_query key p = p\<lparr>pol_query := filter (\<lambda>(k, _). k \<noteq> key) (pol_query p)\<rparr>"

definition replace_query_values :: "string \<Rightarrow> string list \<Rightarrow> 'h policy \<Rightarrow> 'h policy" where
  "replace_query_values key values p =
     (let p' = remove_query key p in p'\<lparr>pol_query := pol_query p' @ map (Pair key) values\<rparr>)"

definition set_query :: "string \<Rightarrow> string \<Rightarrow> 'h policy \<Rightarrow> 'h policy" where
  "set_query key value p = replace_query_values key [value] p"

definition into_parts ::
  "'h policy \<Rightarrow> 'h \<times> (string \<times> string) list \<times> duration option \<times> rate_limit_plan" where
  "into_parts p = (pol_headers p, pol_query p, pol_timeout p, pol_rate_limit p)"

text \<open>The calls a builder makes, in the order it makes them.\<close>

datatype 'v policy_op =
    OpLayer policy_layer
  | OpInsertHeader header_name 'v
  | OpRemoveHeader header_name
  | OpSetQuery string string
  | OpReplaceQuery string "string list"
  | OpRemoveQuery string
  | OpSetTimeout duration
  | OpClearTimeout
  | OpAddRateLimit rate_limit_plan
  | OpReplaceRateLimit rate_limit_plan
  | OpClearRateLimit
  | OpEnsureAccept 'v

fun run_policy_op :: "('h, 'v) header_map_ops \<Rightarrow> 'v policy_op \<Rightarrow> 'h policy \<Rightarrow> 'h policy" where
  "run_policy_op ops (OpLayer l) p = set_layer l p"
| "run_policy_op ops (OpInsertHeader n v) p = insert_header ops n v p"
| "run_policy_op ops (OpRemoveHeader n) p = remove_header ops n p"
| "run_policy_op ops (OpSetQuery k v) p = set_query k v p"
| "run_policy_op ops (OpReplaceQuery k vs) p = replace_query_values k vs p"
| "run_policy_op ops (OpRemoveQuery k) p = remove_query k p"
| "run_policy_op ops (OpSetTimeout d) p = set_timeout d p"
| "run_policy_op ops OpClearTimeout p = clear_timeout p"
| "run_policy_op ops (OpAddRateLimit plan) p = add_rate_limit plan p"
| "run_policy_op ops (OpReplaceRateLimit plan) p = replace_rate_limit plan p"
| "run_policy_op ops OpClearRateLimit p = clear_rate_limit p"
| "run_policy_op ops (OpEnsureAccept v) p = ensure_accept ops v p"

section \<open>The abstract view\<close>

record 'v policy_view =
  pw_headers :: "header_name \<Rightarrow> 'v list"
  pw_query :: "string \<Rightarrow> string list"
  pw_timeout :: "duration option"
  pw_rate_limit :: rate_limit_plan
  pw_layer :: policy_layer
  pw_endpoint_accept :: bool

definition query_values :: "(string \<times> string) list \<Rightarrow> string \<Rightarrow> string list" where
  "query_values q key = map snd (filter (\<lambda>e. fst e = key) q)"

definition view_of :: "('h, 'v) header_map_ops \<Rightarrow> 'h policy \<Rightarrow> 'v policy_view" where
  "view_of ops p =
     \<lparr>pw_headers = header_values ops (pol_headers p), pw_query = query_values (pol_query p),
      pw_timeout = pol_timeout p, pw_rate_limit = pol_rate_limit p, pw_layer = pol_layer p,
      pw_endpoint_accept = pol_accept_explicit_by_endpoint p\<rparr>"

definition touch_accept :: "header_name \<Rightarrow> 'v policy_view \<Rightarrow> bool" where
  "touch_accept n w \<longleftrightarrow> pw_endpoint_accept w \<or> pw_layer w = LyEndpoint \<and> n = ''accept''"

fun view_op :: "'v policy_op \<Rightarrow> 'v policy_view \<Rightarrow> 'v policy_view" where
  "view_op (OpLayer l) w = w\<lparr>pw_layer := l\<rparr>"
| "view_op (OpInsertHeader n v) w =
     w\<lparr>pw_headers := (pw_headers w)(n := [v]), pw_endpoint_accept := touch_accept n w\<rparr>"
| "view_op (OpRemoveHeader n) w =
     w\<lparr>pw_headers := (pw_headers w)(n := []), pw_endpoint_accept := touch_accept n w\<rparr>"
| "view_op (OpSetQuery k v) w = w\<lparr>pw_query := (pw_query w)(k := [v])\<rparr>"
| "view_op (OpReplaceQuery k vs) w = w\<lparr>pw_query := (pw_query w)(k := vs)\<rparr>"
| "view_op (OpRemoveQuery k) w = w\<lparr>pw_query := (pw_query w)(k := [])\<rparr>"
| "view_op (OpSetTimeout d) w = w\<lparr>pw_timeout := Some d\<rparr>"
| "view_op OpClearTimeout w = w\<lparr>pw_timeout := None\<rparr>"
| "view_op (OpAddRateLimit plan) w = w\<lparr>pw_rate_limit := plan_extend (pw_rate_limit w) plan\<rparr>"
| "view_op (OpReplaceRateLimit plan) w = w\<lparr>pw_rate_limit := plan\<rparr>"
| "view_op OpClearRateLimit w = w\<lparr>pw_rate_limit := plan_new\<rparr>"
| "view_op (OpEnsureAccept v) w =
     (if pw_endpoint_accept w then w else w\<lparr>pw_headers := (pw_headers w)(''accept'' := [v])\<rparr>)"

lemma query_values_append: "query_values (q @ r) key = query_values q key @ query_values r key"
  by (simp add: query_values_def)

lemma query_values_removed:
  "query_values (filter (\<lambda>(k, _). k \<noteq> key) q) k' = (if k' = key then [] else query_values q k')"
  by (induction q) (auto simp: query_values_def)

lemma query_values_pairs: "query_values (map (Pair key) vs) k' = (if k' = key then vs else [])"
  by (induction vs) (auto simp: query_values_def)

lemma query_values_single [simp]: "query_values [(key, v)] k' = (if k' = key then [v] else [])"
  using query_values_pairs [of key "[v]" k'] by simp

lemmas policy_op_defs =
  set_layer_def insert_header_def remove_header_def note_accept_def set_query_def replace_query_values_def
  remove_query_def set_timeout_def clear_timeout_def add_rate_limit_def replace_rate_limit_def
  clear_rate_limit_def ensure_accept_def Let_def

lemma policy_op_runtime_flag:
  "pol_accept_explicit_by_runtime (run_policy_op ops oper p) = pol_accept_explicit_by_runtime p"
  by (cases oper) (simp_all add: policy_op_defs)

lemma policy_op_view:
  assumes "header_map_laws ops" and "\<not> pol_accept_explicit_by_runtime p"
  shows "view_of ops (run_policy_op ops oper p) = view_op oper (view_of ops p)"
  using assms(2)
  by (cases oper)
    (auto simp: view_of_def policy_op_defs touch_accept_def fun_eq_iff
      query_values_append query_values_removed query_values_pairs
      header_values_insert [OF assms(1)] header_values_remove [OF assms(1)])

lemma policy_ops_view:
  assumes "header_map_laws ops" and "\<not> pol_accept_explicit_by_runtime p"
  shows "view_of ops (fold (run_policy_op ops) xs p) = fold view_op xs (view_of ops p)"
  using assms(2)
  by (induction xs arbitrary: p) (simp_all add: policy_op_view [OF assms(1)] policy_op_runtime_flag)

definition empty_view :: "'v policy_view" where
  "empty_view =
     \<lparr>pw_headers = \<lambda>_. [], pw_query = \<lambda>_. [], pw_timeout = None, pw_rate_limit = plan_new,
      pw_layer = LyClient, pw_endpoint_accept = False\<rparr>"

text \<open>
  Property C37: however the layers of a client build a policy, it refines the abstract view in which
  every header and query key holds what its last writer left, the timeout is the last one set, the
  rate limits of the layers are added up, and the decoder's \<open>Accept\<close> replaces whatever was inherited
  exactly when no call made in the endpoint layer set or removed \<open>Accept\<close>.
\<close>

theorem policy_refines_last_writer:
  assumes "header_map_laws ops"
  shows "view_of ops (fold (run_policy_op ops) xs (policy_new ops)) = fold view_op xs empty_view"
proof -
  have "view_of ops (policy_new ops) = empty_view"
    by (auto simp: view_of_def policy_new_def empty_view_def query_values_def fun_eq_iff header_values_new [OF assms])
  then show ?thesis
    using policy_ops_view [OF assms, of "policy_new ops" xs] by (simp add: policy_new_def)
qed

theorem policy_refines_last_writer_witness:
  "view_of list_headers
     (fold (run_policy_op list_headers)
       [OpInsertHeader ''accept'' ''t'', OpSetQuery ''q'' ''1'', OpLayer LyEndpoint, OpSetQuery ''q'' ''2'',
        OpLayer LyRuntime, OpEnsureAccept ''j'']
       (policy_new list_headers)) =
   empty_view\<lparr>pw_headers := (\<lambda>_. [])(''accept'' := [''j'']), pw_query := (\<lambda>_. [])(''q'' := [''2'']),
     pw_layer := LyRuntime\<rparr>"
  using policy_refines_last_writer [OF list_headers_laws, of
      "[OpInsertHeader ''accept'' ''t'', OpSetQuery ''q'' ''1'', OpLayer LyEndpoint, OpSetQuery ''q'' ''2'',
        OpLayer LyRuntime, OpEnsureAccept ''j'']"]
  by (auto simp: empty_view_def touch_accept_def fun_eq_iff)

end
