(* ===== verification/Bodies.thy ===== *)
theory Bodies
  imports RequestHead "HOL-Library.Sublist"
begin

text \<open>
  Streamed bodies (\<open>body.rs\<close>, \<open>stream_body.rs\<close> and the byte stream of \<open>multipart.rs\<close>): the safe error
  taxonomy, the readers, and the guards that bound what a producer may deliver. A body is its state
  together with a poll function; a guard wraps the poll function of its inner body. The locale
  \<open>byte_guard\<close> is the contract of such a guard, \<open>exact_guard\<close> that of the guards which also check the
  end of the body; the limiter, the exact-length guard and the multipart stream are instances.
\<close>

section \<open>Errors\<close>

record body_failure =
  be_kind :: body_error_kind
  be_limit :: "u64 option"
  be_observed :: "u64 option"

definition body_failure_new :: "body_error_kind \<Rightarrow> body_failure" where
  "body_failure_new kind = \<lparr>be_kind = kind, be_limit = None, be_observed = None\<rparr>"

definition input :: body_failure where
  "input = body_failure_new BodyInput"

definition invalid_configuration :: body_failure where
  "invalid_configuration = body_failure_new BodyInvalidConfiguration"

definition exclusive_poll :: body_failure where
  "exclusive_poll = body_failure_new BodyExclusivePoll"

definition limit_exceeded :: "u64 \<Rightarrow> u64 \<Rightarrow> body_failure" where
  "limit_exceeded limit observed =
     \<lparr>be_kind = BodyLimitExceeded, be_limit = Some limit, be_observed = Some observed\<rparr>"

definition exact_length_underflow :: "u64 \<Rightarrow> u64 \<Rightarrow> body_failure" where
  "exact_length_underflow expected observed =
     \<lparr>be_kind = BodyExactLengthUnderflow, be_limit = Some expected, be_observed = Some observed\<rparr>"

definition exact_length_overflow :: "u64 \<Rightarrow> u64 \<Rightarrow> body_failure" where
  "exact_length_overflow expected observed =
     \<lparr>be_kind = BodyExactLengthOverflow, be_limit = Some expected, be_observed = Some observed\<rparr>"

datatype stream_body_error_kind = StreamIo | InvalidChunkSize | StreamSizeHint | StreamProducer

definition of_stream_body_error :: "stream_body_error_kind \<Rightarrow> body_failure" where
  "of_stream_body_error kind =
     (case kind of
        StreamIo \<Rightarrow> body_failure_new BodyIo
      | InvalidChunkSize \<Rightarrow> invalid_configuration
      | StreamSizeHint \<Rightarrow> invalid_configuration
      | StreamProducer \<Rightarrow> input)"

text \<open>
  The dynamic types \<open>from_producer\<close> distinguishes. A \<open>reqwest::Error\<close> is the chain of its sources,
  itself first; a \<open>ReqwestError\<close> is whether its kind is \<open>Io\<close>.
\<close>

datatype source_error = SrcBody body_failure | SrcStream stream_body_error_kind | SrcOther

datatype producer_error =
    PeBody body_failure
  | PeStream stream_body_error_kind
  | PeReqwestError bool
  | PeReqwestNative "source_error list"
  | PeIo
  | PeOther

fun source_chain :: "source_error list \<Rightarrow> body_failure" where
  "source_chain [] = input"
| "source_chain (SrcBody e # _) = e"
| "source_chain (SrcStream k # _) = of_stream_body_error k"
| "source_chain (SrcOther # rest) = source_chain rest"

definition from_producer :: "producer_error \<Rightarrow> body_failure" where
  "from_producer error =
     (case error of
        PeBody e \<Rightarrow> e
      | PeStream k \<Rightarrow> of_stream_body_error k
      | PeReqwestError is_io \<Rightarrow> if is_io then body_failure_new BodyIo else input
      | PeReqwestNative chain \<Rightarrow> source_chain chain
      | PeIo \<Rightarrow> body_failure_new BodyIo
      | PeOther \<Rightarrow> input)"

section \<open>Polling\<close>

datatype 'a poll = Pending | Ready 'a

type_synonym ('e, 'a) polled = "('e, 'a) result option poll"

text \<open>\<open>u64::try_from\<close> of a length.\<close>

definition u64_try_from :: "nat \<Rightarrow> u64 option" where
  "u64_try_from n = (if n < 2 ^ 64 then Some (of_nat n) else None)"

definition u64_or_max :: "nat \<Rightarrow> u64" where
  "u64_or_max n = (case u64_try_from n of Some w \<Rightarrow> w | None \<Rightarrow> - 1)"

definition frame_len :: "frame \<Rightarrow> nat" where
  "frame_len f = (case f of FData data \<Rightarrow> length data | FTrailers \<Rightarrow> 0)"

definition exact_hint :: "u64 \<Rightarrow> size_hint" where
  "exact_hint n = \<lparr>sh_lower = n, sh_upper = Some n\<rparr>"

record 'b counted_body =
  cb_inner :: 'b
  cb_seen :: u64
  cb_terminal :: bool

section \<open>The limiter\<close>

record 'b limited_body = "'b counted_body" +
  lb_limit :: u64

definition limited_new :: "'b \<Rightarrow> u64 \<Rightarrow> 'b limited_body" where
  "limited_new inner limit = \<lparr>cb_inner = inner, cb_seen = 0, cb_terminal = False, lb_limit = limit\<rparr>"

definition limited_admit :: "'b limited_body \<Rightarrow> frame \<Rightarrow> (body_failure, frame) result \<times> 'b limited_body" where
  "limited_admit s f =
     (case f of
        FTrailers \<Rightarrow> (Inr f, s)
      | FData data \<Rightarrow>
          (case u64_try_from (length data) of
             None \<Rightarrow> (Inl (limit_exceeded (lb_limit s) (- 1)), s\<lparr>cb_terminal := True\<rparr>)
           | Some len \<Rightarrow>
               (case checked_add (cb_seen s) len of
                  None \<Rightarrow> (Inl (limit_exceeded (lb_limit s) (- 1)), s\<lparr>cb_terminal := True\<rparr>)
                | Some observed \<Rightarrow>
                    if lb_limit s < observed
                    then (Inl (limit_exceeded (lb_limit s) observed), s\<lparr>cb_terminal := True\<rparr>)
                    else (Inr f, s\<lparr>cb_seen := observed\<rparr>))))"

definition limited_poll_frame ::
  "('b \<Rightarrow> (producer_error, frame) polled \<times> 'b) \<Rightarrow> 'b limited_body
    \<Rightarrow> (body_failure, frame) polled \<times> 'b limited_body" where
  "limited_poll_frame produce s =
     (if cb_terminal s then (Ready None, s)
      else
        (let (r, inner) = produce (cb_inner s); s = s\<lparr>cb_inner := inner\<rparr> in
         case r of
           Ready (Some (Inr f)) \<Rightarrow> (let (out, s') = limited_admit s f in (Ready (Some out), s'))
         | Ready (Some (Inl e)) \<Rightarrow> (Ready (Some (Inl (from_producer e))), s\<lparr>cb_terminal := True\<rparr>)
         | Ready None \<Rightarrow> (Ready None, s\<lparr>cb_terminal := True\<rparr>)
         | Pending \<Rightarrow> (Pending, s)))"

definition limited_size_hint :: "('b \<Rightarrow> size_hint) \<Rightarrow> 'b limited_body \<Rightarrow> size_hint" where
  "limited_size_hint inner_hint s =
     (if cb_terminal s then exact_hint 0
      else
        (let remaining = (if cb_seen s \<le> lb_limit s then lb_limit s - cb_seen s else 0);
             h = inner_hint (cb_inner s) in
         \<lparr>sh_lower = if sh_lower h \<le> remaining then sh_lower h else 0,
          sh_upper = Some (case sh_upper h of Some upper \<Rightarrow> min upper remaining | None \<Rightarrow> remaining)\<rparr>))"

section \<open>The exact-length guard\<close>

record 'b exact_length_body = "'b counted_body" +
  el_expected :: u64

definition exact_new :: "'b \<Rightarrow> u64 \<Rightarrow> 'b exact_length_body" where
  "exact_new inner expected = \<lparr>cb_inner = inner, cb_seen = 0, cb_terminal = False, el_expected = expected\<rparr>"

definition exact_admit ::
  "'b exact_length_body \<Rightarrow> frame \<Rightarrow> (body_failure, frame) result \<times> 'b exact_length_body" where
  "exact_admit s f =
     (case f of
        FTrailers \<Rightarrow> (Inr f, s)
      | FData data \<Rightarrow>
          (let observed = saturating_add (cb_seen s) (u64_or_max (length data)) in
           if el_expected s < observed
           then (Inl (exact_length_overflow (el_expected s) observed), s\<lparr>cb_terminal := True\<rparr>)
           else (Inr f, s\<lparr>cb_seen := observed\<rparr>)))"

definition exact_poll_frame ::
  "('b \<Rightarrow> (producer_error, frame) polled \<times> 'b) \<Rightarrow> 'b exact_length_body
    \<Rightarrow> (body_failure, frame) polled \<times> 'b exact_length_body" where
  "exact_poll_frame produce s =
     (if cb_terminal s then (Ready None, s)
      else
        (let (r, inner) = produce (cb_inner s); s = s\<lparr>cb_inner := inner\<rparr> in
         case r of
           Ready (Some (Inr f)) \<Rightarrow> (let (out, s') = exact_admit s f in (Ready (Some out), s'))
         | Ready (Some (Inl e)) \<Rightarrow> (Ready (Some (Inl (from_producer e))), s\<lparr>cb_terminal := True\<rparr>)
         | Ready None \<Rightarrow>
             (if cb_seen s = el_expected s then Ready None
              else Ready (Some (Inl (exact_length_underflow (el_expected s) (cb_seen s)))),
              s\<lparr>cb_terminal := True\<rparr>)
         | Pending \<Rightarrow> (Pending, s)))"

definition exact_size_hint :: "'b exact_length_body \<Rightarrow> size_hint" where
  "exact_size_hint s =
     (if cb_terminal s then exact_hint 0
      else exact_hint (if cb_seen s \<le> el_expected s then el_expected s - cb_seen s else 0))"

section \<open>The multipart byte stream\<close>

text \<open>Its items are byte chunks, and its source reports stream errors.\<close>

record 'b multipart_byte_stream = "'b counted_body" +
  mb_expected :: "u64 option"

definition multipart_stream_new :: "'b \<Rightarrow> u64 option \<Rightarrow> 'b multipart_byte_stream" where
  "multipart_stream_new inner expected =
     \<lparr>cb_inner = inner, cb_seen = 0, cb_terminal = False, mb_expected = expected\<rparr>"

definition exceeds :: "u64 option \<Rightarrow> u64 \<Rightarrow> bool" where
  "exceeds expected observed = (case expected of Some e \<Rightarrow> e < observed | None \<Rightarrow> False)"

definition multipart_poll_next ::
  "('b \<Rightarrow> (stream_body_error_kind, u8 list) polled \<times> 'b) \<Rightarrow> 'b multipart_byte_stream
    \<Rightarrow> (body_failure, u8 list) polled \<times> 'b multipart_byte_stream" where
  "multipart_poll_next produce s =
     (if cb_terminal s then (Ready None, s)
      else
        (let (r, inner) = produce (cb_inner s); s = s\<lparr>cb_inner := inner\<rparr> in
         case r of
           Ready (Some (Inr bytes)) \<Rightarrow>
             (let observed = saturating_add (cb_seen s) (u64_or_max (length bytes)) in
              if exceeds (mb_expected s) observed
              then (Ready (Some (Inl (exact_length_overflow (the (mb_expected s)) observed))),
                    s\<lparr>cb_terminal := True\<rparr>)
              else (Ready (Some (Inr bytes)), s\<lparr>cb_seen := observed\<rparr>))
         | Ready (Some (Inl e)) \<Rightarrow>
             (Ready (Some (Inl (of_stream_body_error e))), s\<lparr>cb_terminal := True\<rparr>)
         | Ready None \<Rightarrow>
             (case mb_expected s of
                Some expected \<Rightarrow>
                  if cb_seen s \<noteq> expected
                  then (Ready (Some (Inl (exact_length_underflow expected (cb_seen s)))),
                        s\<lparr>cb_terminal := True\<rparr>)
                  else (Ready None, s\<lparr>cb_terminal := True\<rparr>)
              | None \<Rightarrow> (Ready None, s\<lparr>cb_terminal := True\<rparr>))
         | Pending \<Rightarrow> (Pending, s)))"

section \<open>Hints, observation and exclusive access\<close>

record 'b hinted_body =
  hb_inner :: 'b
  hb_lower :: u64
  hb_upper :: "u64 option"
  hb_terminal :: bool

definition with_size_hint :: "'b \<Rightarrow> size_hint \<Rightarrow> 'b hinted_body" where
  "with_size_hint body h =
     \<lparr>hb_inner = body, hb_lower = sh_lower h, hb_upper = sh_upper h, hb_terminal = False\<rparr>"

definition note_frame :: "frame \<Rightarrow> 'b hinted_body \<Rightarrow> 'b hinted_body" where
  "note_frame f s =
     (case f of
        FTrailers \<Rightarrow> s
      | FData data \<Rightarrow>
          (case u64_try_from (length data) of
             Some len \<Rightarrow>
               s\<lparr>hb_lower := (if len \<le> hb_lower s then hb_lower s - len else 0),
                 hb_upper :=
                   (case hb_upper s of
                      Some upper \<Rightarrow> if len \<le> upper then Some (upper - len) else None
                    | None \<Rightarrow> None)\<rparr>
           | None \<Rightarrow> s\<lparr>hb_lower := 0, hb_upper := None\<rparr>))"

definition hinted_poll_frame ::
  "('b \<Rightarrow> (body_failure, frame) polled \<times> 'b) \<Rightarrow> 'b hinted_body
    \<Rightarrow> (body_failure, frame) polled \<times> 'b hinted_body" where
  "hinted_poll_frame produce s =
     (if hb_terminal s then (Ready None, s)
      else
        (let (r, inner) = produce (hb_inner s); s = s\<lparr>hb_inner := inner\<rparr> in
         case r of
           Ready (Some (Inr f)) \<Rightarrow> (r, note_frame f s)
         | Ready None \<Rightarrow> (r, s\<lparr>hb_terminal := True, hb_lower := 0, hb_upper := Some 0\<rparr>)
         | _ \<Rightarrow> (r, s)))"

definition hinted_size_hint :: "'b hinted_body \<Rightarrow> size_hint" where
  "hinted_size_hint s =
     (if hb_terminal s then exact_hint 0 else \<lparr>sh_lower = hb_lower s, sh_upper = hb_upper s\<rparr>)"

text \<open>The slot that keeps the first error of a request body.\<close>

definition record_error :: "body_failure \<Rightarrow> body_failure option \<Rightarrow> body_failure option" where
  "record_error error slot = (if slot = None then Some error else slot)"

definition observed_poll_frame ::
  "('b \<Rightarrow> (producer_error, frame) polled \<times> 'b) \<Rightarrow> 'b \<times> body_failure option
    \<Rightarrow> (body_failure, frame) polled \<times> 'b \<times> body_failure option" where
  "observed_poll_frame produce s =
     (let (r, inner) = produce (fst s) in
      case r of
        Ready (Some (Inl e)) \<Rightarrow>
          (Ready (Some (Inl (from_producer e))), inner, record_error (from_producer e) (snd s))
      | Ready (Some (Inr f)) \<Rightarrow> (Ready (Some (Inr f)), inner, snd s)
      | Ready None \<Rightarrow> (Ready None, inner, snd s)
      | Pending \<Rightarrow> (Pending, inner, snd s))"

text \<open>A poll that panics leaves the mutex poisoned; the panic itself is \<open>None\<close>.\<close>

record 'b exclusive_poll_body =
  ep_inner :: 'b
  ep_poisoned :: bool
  ep_terminal :: bool

definition exclusive_new :: "'b \<Rightarrow> 'b exclusive_poll_body" where
  "exclusive_new inner = \<lparr>ep_inner = inner, ep_poisoned = False, ep_terminal = False\<rparr>"

definition exclusive_poll_frame ::
  "('b \<Rightarrow> (body_failure, frame) polled option \<times> 'b) \<Rightarrow> 'b exclusive_poll_body
    \<Rightarrow> (body_failure, frame) polled option \<times> 'b exclusive_poll_body" where
  "exclusive_poll_frame produce s =
     (if ep_poisoned s
      then (if ep_terminal s then Some (Ready None) else Some (Ready (Some (Inl exclusive_poll))),
            s\<lparr>ep_terminal := True\<rparr>)
      else
        (let (r, inner) = produce (ep_inner s) in
         (r, s\<lparr>ep_inner := inner, ep_poisoned := (r = None)\<rparr>)))"

definition exclusive_size_hint :: "('b \<Rightarrow> size_hint) \<Rightarrow> 'b exclusive_poll_body \<Rightarrow> size_hint" where
  "exclusive_size_hint inner_hint s =
     (if ep_terminal s then exact_hint 0
      else if ep_poisoned s then \<lparr>sh_lower = 0, sh_upper = None\<rparr>
      else inner_hint (ep_inner s))"

section \<open>Byte sources\<close>

definition DEFAULT_CHUNK_SIZE :: nat where
  "DEFAULT_CHUNK_SIZE = 8 * 1024"

definition once_poll_next ::
  "u8 list option \<Rightarrow> (stream_body_error_kind, u8 list) polled \<times> u8 list option" where
  "once_poll_next bytes = (Ready (map_option Inr bytes), None)"

record 'r async_read_byte_stream =
  ar_reader :: 'r
  ar_chunk_size :: nat
  ar_eof :: bool

definition async_read_new :: "'r \<Rightarrow> nat \<Rightarrow> (stream_body_error_kind, 'r async_read_byte_stream) result" where
  "async_read_new reader chunk_size =
     (if chunk_size = 0 then Inl InvalidChunkSize
      else Inr \<lparr>ar_reader = reader, ar_chunk_size = chunk_size, ar_eof = False\<rparr>)"

text \<open>\<open>poll_read\<close> is given the size of the buffer and returns the bytes it filled in.\<close>

definition async_read_poll_next ::
  "(nat \<Rightarrow> 'r \<Rightarrow> (unit, u8 list) result poll \<times> 'r) \<Rightarrow> 'r async_read_byte_stream
    \<Rightarrow> (stream_body_error_kind, u8 list) polled \<times> 'r async_read_byte_stream" where
  "async_read_poll_next poll_read s =
     (if ar_eof s then (Ready None, s)
      else
        (let (r, reader) = poll_read (ar_chunk_size s) (ar_reader s); s = s\<lparr>ar_reader := reader\<rparr> in
         case r of
           Pending \<Rightarrow> (Pending, s)
         | Ready (Inr filled) \<Rightarrow>
             if filled = [] then (Ready None, s\<lparr>ar_eof := True\<rparr>) else (Ready (Some (Inr filled)), s)
         | Ready (Inl _) \<Rightarrow> (Ready (Some (Inl StreamIo)), s\<lparr>ar_eof := True\<rparr>)))"

section \<open>Runs of polls\<close>

fun polls :: "('s \<Rightarrow> 'r \<times> 's) \<Rightarrow> nat \<Rightarrow> 's \<Rightarrow> 'r list \<times> 's" where
  "polls f 0 s = ([], s)"
| "polls f (Suc n) s = (let (r, s1) = f s; (rs, s2) = polls f n s1 in (r # rs, s2))"

fun items :: "('e, 'a) polled list \<Rightarrow> 'a list" where
  "items [] = []"
| "items (r # rs) = (case r of Ready (Some (Inr x)) \<Rightarrow> x # items rs | _ \<Rightarrow> items rs)"

definition fails :: "('e, 'a) polled \<Rightarrow> bool" where
  "fails r \<longleftrightarrow> (case r of Ready (Some (Inl _)) \<Rightarrow> True | _ \<Rightarrow> False)"

definition total :: "('a \<Rightarrow> nat) \<Rightarrow> 'a list \<Rightarrow> nat" where
  "total size_of xs = sum_list (map size_of xs)"

lemma items_replicate_end [simp]: "items (replicate n (Ready None)) = []"
  by (induction n) auto

lemma total_simps [simp]: "total size_of [] = 0" "total size_of (x # xs) = size_of x + total size_of xs"
  by (simp_all add: total_def)

lemma polled_cases:
  obtains (item) x where "r = Ready (Some (Inr x))" | (failure) e where "r = Ready (Some (Inl e))"
    | (finish) "r = Ready None" | (pending) "r = Pending"
  by (metis option.exhaust poll.exhaust sum.exhaust)

text \<open>
  What a guard promises: an ended body stays ended, every error ends it, an item is the producer's
  own and is counted, and the count stays within the budget. A budget of \<open>None\<close> is no promise.
\<close>

locale byte_guard =
  fixes poll_guard :: "'s \<Rightarrow> ('e, 'a) polled \<times> 's"
    and produce :: "'b \<Rightarrow> ('p, 'a) polled \<times> 'b"
    and inner :: "'s \<Rightarrow> 'b"
    and payload :: "'a \<Rightarrow> nat"
    and counted :: "'s \<Rightarrow> nat"
    and ended :: "'s \<Rightarrow> bool"
    and budget :: "'s \<Rightarrow> nat option"
  assumes stays_ended: "ended s \<Longrightarrow> poll_guard s = (Ready None, s)"
    and passes_item: "poll_guard s = (Ready (Some (Inr x)), s') \<Longrightarrow>
      produce (inner s) = (Ready (Some (Inr x)), inner s') \<and> \<not> ended s' \<and> budget s' = budget s"
    and counts_item: "poll_guard s = (Ready (Some (Inr x)), s') \<Longrightarrow> budget s = Some b \<Longrightarrow>
      counted s' = counted s + payload x \<and> (counted s \<le> b \<longrightarrow> counted s' \<le> b)"
    and fails_once: "poll_guard s = (Ready (Some (Inl e)), s') \<Longrightarrow> ended s'"
    and ends_once: "poll_guard s = (Ready None, s') \<Longrightarrow> ended s'"
    and waits: "poll_guard s = (Pending, s') \<Longrightarrow>
      produce (inner s) = (Pending, inner s') \<and> \<not> ended s' \<and> counted s' = counted s \<and> budget s' = budget s"
begin

lemma polls_ended: "ended s \<Longrightarrow> polls poll_guard n s = (replicate n (Ready None), s)"
  by (induction n) (simp_all add: stays_ended)

lemma items_prefix:
  "prefix (items (fst (polls poll_guard n s))) (items (fst (polls produce n (inner s))))"
proof (induction n arbitrary: s)
  case (Suc n)
  obtain r s1 where p: "poll_guard s = (r, s1)" by fastforce
  show ?case
  proof (cases r rule: polled_cases)
    case (item x)
    then show ?thesis using p passes_item [of s x s1] Suc [of s1] by (simp add: case_prod_beta Let_def)
  next
    case (failure e)
    then show ?thesis using p polls_ended [OF fails_once, of s e s1 n] by (simp add: case_prod_beta Let_def)
  next
    case finish
    then show ?thesis using p polls_ended [OF ends_once, of s s1 n] by (simp add: case_prod_beta Let_def)
  next
    case pending
    then show ?thesis using p waits [of s s1] Suc [of s1] by (simp add: case_prod_beta Let_def)
  qed
qed simp

lemma within_budget:
  assumes "budget s = Some b" and "counted s \<le> b"
  shows "counted s + total payload (items (fst (polls poll_guard n s))) \<le> b"
  using assms
proof (induction n arbitrary: s)
  case (Suc n)
  obtain r s1 where p: "poll_guard s = (r, s1)" by fastforce
  show ?case
  proof (cases r rule: polled_cases)
    case (item x)
    then show ?thesis
      using p passes_item [of s x s1] counts_item [of s x s1 b] Suc.IH [of s1] Suc.prems
      by (simp add: case_prod_beta Let_def)
  next
    case (failure e)
    then show ?thesis
      using p polls_ended [OF fails_once, of s e s1 n] Suc.prems by (simp add: case_prod_beta Let_def)
  next
    case finish
    then show ?thesis
      using p polls_ended [OF ends_once, of s s1 n] Suc.prems by (simp add: case_prod_beta Let_def)
  next
    case pending
    then show ?thesis using p waits [of s s1] Suc.IH [of s1] Suc.prems by (simp add: case_prod_beta Let_def)
  qed
qed simp

lemma silent_after_end:
  assumes "fst (polls poll_guard n s) = xs @ r # ys" and "fails r \<or> r = Ready None"
  shows "set ys \<subseteq> {Ready None}"
  using assms(1)
proof (induction n arbitrary: s xs)
  case (Suc n)
  obtain r1 s1 where p: "poll_guard s = (r1, s1)" by fastforce
  then have run: "r1 # fst (polls poll_guard n s1) = xs @ r # ys"
    using Suc.prems by (simp add: case_prod_beta Let_def)
  show ?case
  proof (cases xs)
    case Nil
    then have "r1 = r" and ys: "ys = fst (polls poll_guard n s1)" using run by simp_all
    then have "ended s1"
      using p assms(2) fails_once ends_once
      by (cases r rule: polled_cases) (auto simp: fails_def)
    then show ?thesis using ys polls_ended [of s1 n] by auto
  next
    case (Cons x xs')
    then show ?thesis using run Suc.IH [of s1 xs'] by simp
  qed
qed simp

end

text \<open>An exact guard ends only when the count meets its budget.\<close>

locale exact_guard = byte_guard +
  assumes ends_exact: "poll_guard s = (Ready None, s') \<Longrightarrow> \<not> ended s \<Longrightarrow> budget s = Some b \<Longrightarrow> counted s = b"
begin

lemma complete_is_exact:
  assumes "budget s = Some b" and "\<not> ended s"
    and "Ready None \<in> set (fst (polls poll_guard n s))"
    and "list_all (\<lambda>r. \<not> fails r) (fst (polls poll_guard n s))"
  shows "counted s + total payload (items (fst (polls poll_guard n s))) = b"
  using assms
proof (induction n arbitrary: s)
  case (Suc n)
  obtain r s1 where p: "poll_guard s = (r, s1)" by fastforce
  show ?case
  proof (cases r rule: polled_cases)
    case (item x)
    then show ?thesis
      using p passes_item [of s x s1] counts_item [of s x s1 b] Suc.IH [of s1] Suc.prems
      by (simp add: case_prod_beta Let_def)
  next
    case (failure e)
    then show ?thesis using p Suc.prems by (simp add: case_prod_beta Let_def fails_def)
  next
    case finish
    then show ?thesis
      using p polls_ended [OF ends_once, of s s1 n] ends_exact [of s s1 b] Suc.prems
      by (simp add: case_prod_beta Let_def)
  next
    case pending
    then show ?thesis using p waits [of s s1] Suc.IH [of s1] Suc.prems by (simp add: case_prod_beta Let_def)
  qed
qed simp

end

section \<open>The guards\<close>

lemma u64_try_from_unat: "u64_try_from n = Some w \<Longrightarrow> unat w = n"
  by (auto simp: u64_try_from_def unsigned_of_nat take_bit_nat_eq_self split: if_splits)

text \<open>With a saturating sum the largest value bounds nothing; every other one does.\<close>

definition finite_budget :: "u64 \<Rightarrow> nat option" where
  "finite_budget w = (if w = - 1 then None else Some (unat w))"

lemma saturating_within:
  assumes "\<not> w < saturating_add seen (u64_or_max n)" and "w \<noteq> - 1"
  shows "unat (saturating_add seen (u64_or_max n)) = unat seen + n"
proof -
  let ?o = "saturating_add seen (u64_or_max n)"
  have le: "unat ?o \<le> unat w" using assms(1) by (simp add: word_le_nat_alt not_less)
  have "unat w < unat (- 1 :: u64)"
    using assms(2) word_order.not_eq_extremum [of w] by (simp add: word_less_nat_alt)
  with le have less: "unat ?o < unat (- 1 :: u64)" by simp
  then have sum: "unat ?o = unat seen + unat (u64_or_max n)" by (simp add: saturating_add_unat)
  with less have "u64_or_max n \<noteq> - 1" by auto
  then have "unat (u64_or_max n) = n"
    by (auto simp: u64_or_max_def u64_try_from_unat split: option.splits)
  with sum show ?thesis by simp
qed

lemma limited_admit_item:
  assumes "limited_admit s f = (Inr x, s')"
  shows "x = f \<and> cb_inner s' = cb_inner s \<and> cb_terminal s' = cb_terminal s \<and> lb_limit s' = lb_limit s
    \<and> unat (cb_seen s') = unat (cb_seen s) + frame_len x \<and> (cb_seen s \<le> lb_limit s \<longrightarrow> cb_seen s' \<le> lb_limit s)"
  using assms
  by (auto simp: limited_admit_def frame_len_def not_less dest!: checked_add_Some_unat u64_try_from_unat
      split: frame.splits option.splits if_splits)

lemma exact_admit_item:
  assumes "exact_admit s f = (Inr x, s')"
  shows "x = f \<and> cb_inner s' = cb_inner s \<and> cb_terminal s' = cb_terminal s \<and> el_expected s' = el_expected s
    \<and> (el_expected s \<noteq> - 1 \<longrightarrow> unat (cb_seen s') = unat (cb_seen s) + frame_len x)
    \<and> (cb_seen s \<le> el_expected s \<longrightarrow> cb_seen s' \<le> el_expected s)"
  using assms saturating_within
  by (auto simp: exact_admit_def frame_len_def not_less Let_def split: frame.splits if_splits)

lemmas admit_items = limited_admit_item exact_admit_item

lemma limited_admit_failure: "limited_admit s f = (Inl e, s') \<Longrightarrow> cb_terminal s'"
  by (auto simp: limited_admit_def split: frame.splits option.splits if_splits)

lemma exact_admit_failure: "exact_admit s f = (Inl e, s') \<Longrightarrow> cb_terminal s'"
  by (auto simp: exact_admit_def Let_def split: frame.splits if_splits)

interpretation limited: byte_guard "limited_poll_frame produce" produce cb_inner frame_len
  "\<lambda>s. unat (cb_seen s)" cb_terminal "\<lambda>s. Some (unat (lb_limit s))" for produce
proof (unfold_locales, goal_cases)
  case (2 s x s')
  then show ?case
    by (auto simp: limited_poll_frame_def Let_def dest!: limited_admit_item
        split: if_splits prod.splits poll.splits option.splits sum.splits)
next
  case (3 s x s' b)
  then show ?case
    by (auto simp: limited_poll_frame_def Let_def word_le_nat_alt dest!: limited_admit_item
        split: if_splits prod.splits poll.splits option.splits sum.splits)
qed (auto simp: limited_poll_frame_def Let_def dest!: limited_admit_failure
    split: if_splits prod.splits poll.splits option.splits sum.splits)

interpretation exact: exact_guard "exact_poll_frame produce" produce cb_inner frame_len
  "\<lambda>s. unat (cb_seen s)" cb_terminal "\<lambda>s. finite_budget (el_expected s)" for produce
proof (unfold_locales, goal_cases)
  case (2 s x s')
  then show ?case
    by (auto simp: exact_poll_frame_def Let_def dest!: exact_admit_item
        split: if_splits prod.splits poll.splits option.splits sum.splits)
next
  case (3 s x s' b)
  then show ?case
    by (auto simp: exact_poll_frame_def Let_def word_le_nat_alt finite_budget_def dest!: exact_admit_item
        split: if_splits prod.splits poll.splits option.splits sum.splits)
next
  case (7 s s' b)
  then show ?case
    by (auto simp: exact_poll_frame_def Let_def finite_budget_def
        split: if_splits prod.splits poll.splits option.splits sum.splits)
qed (auto simp: exact_poll_frame_def Let_def dest!: exact_admit_failure
    split: if_splits prod.splits poll.splits option.splits sum.splits)

interpretation multipart: exact_guard "multipart_poll_next produce" produce cb_inner length
  "\<lambda>s. unat (cb_seen s)" cb_terminal "\<lambda>s. Option.bind (mb_expected s) finite_budget" for produce
proof (unfold_locales, goal_cases)
  case (3 s x s' b)
  then obtain e where e: "mb_expected s = Some e" "e \<noteq> - 1" "b = unat e"
    by (auto simp: finite_budget_def split: if_splits bind_splits)
  then show ?case
    using 3 saturating_within [of e "cb_seen s" "length x"]
    by (auto simp: multipart_poll_next_def exceeds_def Let_def word_le_nat_alt not_less
        split: if_splits prod.splits poll.splits option.splits sum.splits)
next
  case (7 s s' b)
  then show ?case
    by (auto simp: multipart_poll_next_def Let_def finite_budget_def
        split: if_splits prod.splits poll.splits option.splits sum.splits)
qed (auto simp: multipart_poll_next_def exceeds_def Let_def
    split: if_splits prod.splits poll.splits option.splits sum.splits)

section \<open>What a request body delivers\<close>

text \<open>A body that delivers a list of polls and then ends.\<close>

fun listed :: "('e, 'a) polled list \<Rightarrow> ('e, 'a) polled \<times> ('e, 'a) polled list" where
  "listed [] = (Ready None, [])"
| "listed (r # rs) = (r, rs)"

text \<open>
  Property C33: however often an exact-length body is polled and whatever its producer does, it
  delivers a prefix of the producer's frames with never more data than the declared length, nothing
  follows an error, and a body that ends without an error delivered exactly the declared length.
\<close>

theorem exact_length_body_delivers:
  assumes "expected \<noteq> - 1"
    and "polls (exact_poll_frame produce) n (exact_new body expected) = (rs, s)"
  shows "prefix (items rs) (items (fst (polls produce n body)))
    \<and> total frame_len (items rs) \<le> unat expected
    \<and> (\<forall>xs r ys. rs = xs @ r # ys \<longrightarrow> fails r \<longrightarrow> set ys \<subseteq> {Ready None})
    \<and> (Ready None \<in> set rs \<longrightarrow> list_all (\<lambda>r. \<not> fails r) rs \<longrightarrow> total frame_len (items rs) = unat expected)"
proof -
  let ?s = "exact_new body expected"
  have b: "finite_budget (el_expected ?s) = Some (unat expected)" "unat (cb_seen ?s) = 0"
    "cb_inner ?s = body" "\<not> cb_terminal ?s"
    using assms(1) by (simp_all add: exact_new_def finite_budget_def)
  have rs: "rs = fst (polls (exact_poll_frame produce) n ?s)" using assms(2) by simp
  show ?thesis
    using exact.items_prefix [of produce n ?s] exact.within_budget [of ?s "unat expected" produce n]
      exact.silent_after_end [of produce n ?s] exact.complete_is_exact [of ?s "unat expected" produce n] b
    unfolding rs by simp
qed

theorem exact_length_body_delivers_witness:
  "total frame_len (items (fst (polls (exact_poll_frame listed) 3
      (exact_new [Ready (Some (Inr (FData [1, 2]))), Pending] 2)))) = 2"
proof -
  let ?body = "[Ready (Some (Inr (FData [1, 2]))), Pending] :: (producer_error, frame) polled list"
  have w: "(2 :: u64) \<noteq> - 1" by simp
  obtain rs s where p: "polls (exact_poll_frame listed) 3 (exact_new ?body 2) = (rs, s)" by fastforce
  then have "rs = [Ready (Some (Inr (FData [1, 2]))), Pending, Ready None]"
    by (simp add: numeral_3_eq_3 exact_poll_frame_def exact_new_def exact_admit_def Let_def
        saturating_add_def checked_add_def u64_or_max_def u64_try_from_def)
  then show ?thesis using exact_length_body_delivers [OF w p] by (simp add: fails_def p)
qed

text \<open>The limiter, for the same producers.\<close>

lemma limited_body_bounded:
  assumes "polls (limited_poll_frame produce) n (limited_new body limit) = (rs, s)"
  shows "prefix (items rs) (items (fst (polls produce n body))) \<and> total frame_len (items rs) \<le> unat limit"
proof -
  let ?s = "limited_new body limit"
  have b: "lb_limit ?s = limit" "unat (cb_seen ?s) = 0" "cb_inner ?s = body" by (simp_all add: limited_new_def)
  have rs: "rs = fst (polls (limited_poll_frame produce) n ?s)" using assms by simp
  show ?thesis
    using limited.items_prefix [of produce n ?s] limited.within_budget [of ?s "unat limit" produce n] b
    by (simp add: rs)
qed

text \<open>
  A size hint that brackets what the producer still has to deliver brackets the rest after each frame.
\<close>

lemma hinted_hint_sound:
  assumes "unat (hb_lower s) \<le> frame_len f + rest" and "\<forall>u. hb_upper s = Some u \<longrightarrow> frame_len f + rest \<le> unat u"
    and "\<not> hb_terminal s" and "produce (hb_inner s) = (Ready (Some (Inr f)), inner)"
    and "hinted_poll_frame produce s = (r, s')"
  shows "unat (sh_lower (hinted_size_hint s')) \<le> rest
    \<and> (\<forall>u. sh_upper (hinted_size_hint s') = Some u \<longrightarrow> rest \<le> unat u)"
  using assms
  by (auto simp: hinted_poll_frame_def note_frame_def hinted_size_hint_def frame_len_def Let_def unat_sub
      word_le_nat_alt dest!: u64_try_from_unat split: frame.splits option.splits if_splits)

text \<open>
  A poisoned body reports its failure once and then ends.
\<close>

lemma poisoned_reports_once:
  assumes "ep_poisoned s" and "\<not> ep_terminal s"
  shows "fst (polls (exclusive_poll_frame produce) (Suc n) s) =
    Some (Ready (Some (Inl exclusive_poll))) # replicate n (Some (Ready None))"
proof -
  have "fst (polls (exclusive_poll_frame produce) n s) = replicate n (Some (Ready None))"
    if "ep_poisoned s" "ep_terminal s" for s n
    using that
  proof (induction n arbitrary: s)
    case (Suc n)
    have "exclusive_poll_frame produce s = (Some (Ready None), s\<lparr>ep_terminal := True\<rparr>)"
      using Suc.prems by (simp add: exclusive_poll_frame_def)
    then show ?case using Suc by (simp add: case_prod_beta Let_def)
  qed simp
  then show ?thesis using assms by (simp add: exclusive_poll_frame_def case_prod_beta Let_def)
qed

end
