(* ===== verification/Multipart.thy ===== *)
theory Multipart
  imports Bodies
begin

text \<open>
  Multipart recipes (\<open>multipart.rs\<close>): parts and their metadata, the validation that runs before a
  request is built, reconstruction of a recipe, and the native form. The form and its parts belong to
  the HTTP client and are a record of operations.
\<close>

section \<open>Data\<close>

datatype multipart_body_error_kind =
    InvalidPartName
  | InvalidPartFileName
  | InvalidPartContentType
  | InvalidMultipartContentType

text \<open>A stream part is its size hint and the state of its source.\<close>

datatype 'b raw_part_body = PartText string | PartBytes "u8 list" | PartStream size_hint 'b

record ('v, 'b) raw_part =
  rp_name :: string
  rp_file_name :: "string option"
  rp_content_type :: "'v option"
  rp_body :: "'b raw_part_body"

type_synonym ('v, 'b) multipart_body = "('v, 'b) raw_part list"

record ('v, 'b, 'p, 'f) form_ops =
  fo_to_str :: "'v \<Rightarrow> string option"
  fo_text :: "string \<Rightarrow> 'p"
  fo_bytes :: "u8 list \<Rightarrow> 'p"
  fo_stream :: "'b multipart_byte_stream \<Rightarrow> 'p"
  fo_stream_with_length :: "'b multipart_byte_stream \<Rightarrow> u64 \<Rightarrow> 'p"
  fo_file_name :: "'p \<Rightarrow> string \<Rightarrow> 'p"
  fo_mime_str :: "'p \<Rightarrow> string \<Rightarrow> 'p option"
  fo_form_new :: 'f
  fo_part :: "'f \<Rightarrow> string \<Rightarrow> 'p \<Rightarrow> 'f"

text \<open>Whether a MIME text is accepted does not depend on the part it is set on.\<close>

definition mime_rule :: "('v, 'b, 'p, 'f) form_ops \<Rightarrow> bool" where
  "mime_rule ops \<longleftrightarrow> (\<forall>p q t. (fo_mime_str ops p t = None) = (fo_mime_str ops q t = None))"

section \<open>Recipes\<close>

definition part_text :: "string \<Rightarrow> string \<Rightarrow> ('v, 'b) raw_part" where
  "part_text name value =
     \<lparr>rp_name = name, rp_file_name = None, rp_content_type = None, rp_body = PartText value\<rparr>"

definition part_bytes_with ::
  "string \<Rightarrow> string option \<Rightarrow> 'v option \<Rightarrow> u8 list \<Rightarrow> ('v, 'b) raw_part" where
  "part_bytes_with name file_name content_type bytes =
     \<lparr>rp_name = name, rp_file_name = file_name, rp_content_type = content_type, rp_body = PartBytes bytes\<rparr>"

definition part_bytes :: "string \<Rightarrow> u8 list \<Rightarrow> ('v, 'b) raw_part" where
  "part_bytes name bytes = part_bytes_with name None None bytes"

definition part_stream_with ::
  "string \<Rightarrow> string option \<Rightarrow> 'v option \<Rightarrow> size_hint \<Rightarrow> 'b \<Rightarrow> ('v, 'b) raw_part" where
  "part_stream_with name file_name content_type h source =
     \<lparr>rp_name = name, rp_file_name = file_name, rp_content_type = content_type,
      rp_body = PartStream h source\<rparr>"

definition part_stream :: "string \<Rightarrow> size_hint \<Rightarrow> 'b \<Rightarrow> ('v, 'b) raw_part" where
  "part_stream name h source = part_stream_with name None None h source"

definition multipart_part :: "('v, 'b) multipart_body \<Rightarrow> ('v, 'b) raw_part \<Rightarrow> ('v, 'b) multipart_body" where
  "multipart_part body p = body @ [p]"

definition is_reconstructible :: "('v, 'b) multipart_body \<Rightarrow> bool" where
  "is_reconstructible body = list_all (\<lambda>p. case rp_body p of PartStream _ _ \<Rightarrow> False | _ \<Rightarrow> True) body"

definition clone_part_body :: "'b raw_part_body \<Rightarrow> 'b raw_part_body option" where
  "clone_part_body b =
     (case b of
        PartText value \<Rightarrow> Some (PartText value)
      | PartBytes value \<Rightarrow> Some (PartBytes value)
      | PartStream _ _ \<Rightarrow> None)"

fun clone_if_reconstructible :: "('v, 'b) multipart_body \<Rightarrow> ('v, 'b) multipart_body option" where
  "clone_if_reconstructible [] = Some []"
| "clone_if_reconstructible (p # ps) =
     (case clone_part_body (rp_body p) of
        None \<Rightarrow> None
      | Some b \<Rightarrow>
          map_option
            ((#) \<lparr>rp_name = rp_name p, rp_file_name = rp_file_name p, rp_content_type = rp_content_type p,
                  rp_body = b\<rparr>)
            (clone_if_reconstructible ps))"

section \<open>Validation\<close>

definition is_valid_disposition_value :: "string \<Rightarrow> bool" where
  "is_valid_disposition_value value \<longleftrightarrow>
     value \<noteq> []
     \<and> list_all (\<lambda>c. (of_char c :: nat) < 128) value
     \<and> list_all (\<lambda>c. 32 \<le> (of_char c :: nat) \<and> (of_char c :: nat) \<le> 126
          \<and> c \<notin> {CHR 92, CHR 34, CHR 13, CHR 10}) value"

definition validate_part_name :: "string \<Rightarrow> (multipart_body_error_kind, unit) result" where
  "validate_part_name value =
     (if is_valid_disposition_value value then Inr () else Inl InvalidPartName)"

definition validate_part_file_name :: "string \<Rightarrow> (multipart_body_error_kind, unit) result" where
  "validate_part_file_name value =
     (if is_valid_disposition_value value then Inr () else Inl InvalidPartFileName)"

definition validate_part_content_type ::
  "('v, 'b, 'p, 'f) form_ops \<Rightarrow> 'v \<Rightarrow> (multipart_body_error_kind, string) result" where
  "validate_part_content_type ops content_type =
     rbind (ok_or (fo_to_str ops content_type) InvalidPartContentType) (\<lambda>t.
     case fo_mime_str ops (fo_text ops []) t of None \<Rightarrow> Inl InvalidPartContentType | Some _ \<Rightarrow> Inr t)"

fun validate_multipart ::
  "('v, 'b, 'p, 'f) form_ops \<Rightarrow> ('v, 'b) multipart_body \<Rightarrow> (multipart_body_error_kind, unit) result" where
  "validate_multipart ops [] = Inr ()"
| "validate_multipart ops (p # ps) =
     rbind (validate_part_name (rp_name p)) (\<lambda>_.
     rbind (case rp_file_name p of Some n \<Rightarrow> validate_part_file_name n | None \<Rightarrow> Inr ()) (\<lambda>_.
     rbind (case rp_content_type p of
              Some t \<Rightarrow> rbind (validate_part_content_type ops t) (\<lambda>_. Inr ())
            | None \<Rightarrow> Inr ()) (\<lambda>_.
     validate_multipart ops ps)))"

section \<open>The native form\<close>

definition native_part :: "('v, 'b, 'p, 'f) form_ops \<Rightarrow> 'b raw_part_body \<Rightarrow> 'p" where
  "native_part ops b =
     (case b of
        PartText text \<Rightarrow> fo_text ops text
      | PartBytes bytes \<Rightarrow> fo_bytes ops bytes
      | PartStream h source \<Rightarrow>
          (let exact_length = size_hint_exact h; body = multipart_stream_new source exact_length in
           case exact_length of
             Some len \<Rightarrow> fo_stream_with_length ops body len
           | None \<Rightarrow> fo_stream ops body))"

definition build_part ::
  "('v, 'b, 'p, 'f) form_ops \<Rightarrow> ('v, 'b) raw_part \<Rightarrow> (multipart_body_error_kind, string \<times> 'p) result" where
  "build_part ops p =
     rbind (validate_part_name (rp_name p)) (\<lambda>_.
     let body = native_part ops (rp_body p) in
     rbind (case rp_file_name p of
              Some n \<Rightarrow> rbind (validate_part_file_name n) (\<lambda>_. Inr (fo_file_name ops body n))
            | None \<Rightarrow> Inr body) (\<lambda>body.
     rbind (case rp_content_type p of
              Some t \<Rightarrow>
                rbind (validate_part_content_type ops t) (\<lambda>text.
                ok_or (fo_mime_str ops body text) InvalidPartContentType)
            | None \<Rightarrow> Inr body) (\<lambda>body.
     Inr (rp_name p, body))))"

fun add_parts ::
  "('v, 'b, 'p, 'f) form_ops \<Rightarrow> ('v, 'b) multipart_body \<Rightarrow> 'f \<Rightarrow> (multipart_body_error_kind, 'f) result" where
  "add_parts ops [] form = Inr form"
| "add_parts ops (p # ps) form =
     rbind (build_part ops p) (\<lambda>(name, part). add_parts ops ps (fo_part ops form name part))"

definition into_form ::
  "('v, 'b, 'p, 'f) form_ops \<Rightarrow> ('v, 'b) multipart_body \<Rightarrow> (multipart_body_error_kind, 'f) result" where
  "into_form ops body = add_parts ops body (fo_form_new ops)"

section \<open>Validation and construction agree\<close>

definition forget :: "('e, 'a) result \<Rightarrow> ('e, unit) result" where
  "forget r = rbind r (\<lambda>_. Inr ())"

lemma forget_simps [simp]: "forget (Inl e) = Inl e" "forget (Inr v) = Inr ()"
  by (simp_all add: forget_def)

lemma rbind_Inr_right [simp]: "rbind r Inr = r"
  by (cases r) simp_all

lemma forget_bind: "forget (rbind r f) = rbind r (\<lambda>x. forget (f x))"
  by (cases r) simp_all

lemma content_type_accepted:
  assumes "mime_rule ops" and "validate_part_content_type ops t = Inr text"
  shows "\<exists>p. fo_mime_str ops body text = Some p"
proof -
  have "fo_mime_str ops (fo_text ops []) text \<noteq> None"
    using assms(2) by (auto simp: validate_part_content_type_def rbind_Inr_iff split: option.splits)
  then have "fo_mime_str ops body text \<noteq> None" using assms(1) unfolding mime_rule_def by metis
  then show ?thesis by simp
qed

lemma build_part_validates:
  assumes "mime_rule ops"
  shows "forget (build_part ops p) = validate_multipart ops [p]"
proof -
  have set_type: "forget (rbind (validate_part_content_type ops t) (\<lambda>text.
      ok_or (fo_mime_str ops body text) InvalidPartContentType)) =
      forget (validate_part_content_type ops t)" for t body
  proof (cases "validate_part_content_type ops t")
    case (Inr m)
    then show ?thesis using content_type_accepted [OF assms Inr, of body] by auto
  qed simp
  show ?thesis
    by (cases "validate_part_name (rp_name p)"; cases "rp_file_name p"; cases "rp_content_type p";
        cases "validate_part_file_name (the (rp_file_name p))")
      (simp_all add: build_part_def Let_def forget_bind set_type [unfolded forget_def])
qed

lemma validate_append: "validate_multipart ops (p # ps) = rbind (validate_multipart ops [p]) (\<lambda>_. validate_multipart ops ps)"
  by (simp add: rbind_def split: sum.splits)

lemma add_parts_validates:
  assumes "mime_rule ops"
  shows "forget (add_parts ops ps form) = validate_multipart ops ps"
proof (induction ps arbitrary: form)
  case (Cons p ps)
  have "forget (add_parts ops (p # ps) form) = rbind (forget (build_part ops p)) (\<lambda>_. validate_multipart ops ps)"
    by (cases "build_part ops p") (auto simp: Cons)
  then show ?case unfolding build_part_validates [OF assms] validate_append [of ops p ps] .
qed simp

lemma clone_part_body_iff:
  "clone_part_body b = (case b of PartStream _ _ \<Rightarrow> None | _ \<Rightarrow> Some b)"
  by (cases b) (auto simp: clone_part_body_def)

text \<open>
  Property C38: validating a recipe before the request is built gives exactly the outcome of building
  its native form (the same error, or success on both sides), and a recipe can be cloned for a second
  execution exactly when it has no stream part, the clone being the same recipe.
\<close>

theorem multipart_validation_agrees:
  assumes "mime_rule ops"
  shows "forget (into_form ops body) = validate_multipart ops body
    \<and> clone_if_reconstructible body = (if is_reconstructible body then Some body else None)"
proof -
  have "clone_if_reconstructible body = (if is_reconstructible body then Some body else None)"
    by (induction body) (auto simp: is_reconstructible_def clone_part_body_iff split: raw_part_body.splits)
  then show ?thesis using add_parts_validates [OF assms] by (simp add: into_form_def)
qed

text \<open>A form that is the list of its parts, with the MIME texts that contain a slash.\<close>

definition listed_form :: "(string, unit, string \<times> string, (string \<times> string \<times> string) list) form_ops" where
  "listed_form =
     \<lparr>fo_to_str = Some, fo_text = \<lambda>t. (t, []), fo_bytes = \<lambda>_. ([], []), fo_stream = \<lambda>_. ([], []),
      fo_stream_with_length = \<lambda>_ _. ([], []), fo_file_name = \<lambda>p n. p,
      fo_mime_str = \<lambda>p t. if CHR ''/'' \<in> set t then Some (fst p, t) else None,
      fo_form_new = [], fo_part = \<lambda>f n p. f @ [(n, p)]\<rparr>"

theorem multipart_validation_agrees_witness:
  "forget (into_form listed_form [part_bytes_with ''f'' (Some ''a.txt'') (Some ''text'') [1]]) =
     Inl InvalidPartContentType"
proof -
  have "mime_rule listed_form" by (simp add: mime_rule_def listed_form_def)
  then have "forget (into_form listed_form [part_bytes_with ''f'' (Some ''a.txt'') (Some ''text'') [1]]) =
      validate_multipart listed_form [part_bytes_with ''f'' (Some ''a.txt'') (Some ''text'') [1]]"
    using multipart_validation_agrees by blast
  then show ?thesis
    by (simp add: part_bytes_with_def validate_part_name_def validate_part_file_name_def
        validate_part_content_type_def is_valid_disposition_value_def listed_form_def)
qed

end
