(* ===== verification/RetryMode.thy ===== *)
theory RetryMode
  imports RateLimitPlan Errors
begin

text \<open>
  The general retry mode of a client (\<open>retry_mode.rs\<close>) and the limiters without a governor
  (\<open>rate_limit/limiter.rs\<close>, \<open>rate_limit/no_governor_default.rs\<close>). The URL and authority parsers are
  arguments; the retry policy handed to the HTTP client is the record of what the builder was told.
\<close>

section \<open>Origins and modes\<close>

datatype origin_scheme = OriginHttp | OriginHttps

record fixed_origin_descriptor =
  fod_scheme :: origin_scheme
  fod_authority :: string

datatype api_origin_descriptor =
    FixedSingleOrigin fixed_origin_descriptor
  | DynamicOrigin
  | MultiOrigin

definition APPROVED_STATUSES :: "nat list" where
  "APPROVED_STATUSES = [502, 503, 504]"

record status_retry_config =
  src_max_retries :: u8
  src_statuses :: "nat list"

datatype retry_mode = ModeProtocolRecovery | ModeDisabled | ModeStatus status_retry_config

definition retry_mode_default :: retry_mode where
  "retry_mode_default = ModeProtocolRecovery"

datatype provider_operation_retry_mode = ProviderProtocolRecovery | ProviderDisabled

datatype provider_reqwest_retry_install = ProviderInstallRecovery | ProviderInstallNever

definition provider_resolve :: "provider_operation_retry_mode \<Rightarrow> provider_reqwest_retry_install" where
  "provider_resolve mode =
     (case mode of ProviderProtocolRecovery \<Rightarrow> ProviderInstallRecovery | ProviderDisabled \<Rightarrow> ProviderInstallNever)"

text \<open>The error of building the managed client is the text it prints.\<close>

datatype retry_mode_error =
    InvalidMaxRetries u8
  | EmptyStatusSet
  | UnsupportedStatus nat
  | NotFixedOrigin
  | InvalidFixedOriginMetadata
  | RetryBuild string

datatype retry_verdict = Retryable | RetrySuccess

record retry_builder =
  rtb_host :: string
  rtb_max_retries_per_request :: nat
  rtb_classify :: "string \<Rightarrow> nat option \<Rightarrow> retry_verdict"

datatype reqwest_retry_install = InstallRecovery | InstallNever | InstallCustom retry_builder

section \<open>Configuration\<close>

fun collect_statuses :: "nat list \<Rightarrow> nat list \<Rightarrow> (retry_mode_error, nat list) result" where
  "collect_statuses collected [] = Inr collected"
| "collect_statuses collected (status # rest) =
     (if status \<notin> set APPROVED_STATUSES then Inl (UnsupportedStatus status)
      else collect_statuses (if status \<in> set collected then collected else collected @ [status]) rest)"

definition status_retry_config_new ::
  "u8 \<Rightarrow> nat list \<Rightarrow> (retry_mode_error, status_retry_config) result" where
  "status_retry_config_new max_retries statuses =
     (if \<not> (1 \<le> max_retries \<and> max_retries \<le> 2) then Inl (InvalidMaxRetries max_retries)
      else rbind (collect_statuses [] statuses) (\<lambda>collected.
           if collected = [] then Inl EmptyStatusSet
           else Inr \<lparr>src_max_retries = max_retries, src_statuses = collected\<rparr>))"

definition retry_mode_status :: "u8 \<Rightarrow> nat list \<Rightarrow> (retry_mode_error, retry_mode) result" where
  "retry_mode_status max_retries statuses =
     rbind (status_retry_config_new max_retries statuses) (\<lambda>config. Inr (ModeStatus config))"

definition method_is_eligible :: "string \<Rightarrow> bool" where
  "method_is_eligible m \<longleftrightarrow> m = ''GET'' \<or> m = ''HEAD'' \<or> m = ''OPTIONS''"

definition build_reqwest_policy :: "status_retry_config \<Rightarrow> string \<Rightarrow> retry_builder" where
  "build_reqwest_policy config host =
     \<lparr>rtb_host = host, rtb_max_retries_per_request = unat (src_max_retries config),
      rtb_classify = \<lambda>m status.
        (case status of
           Some s \<Rightarrow> if method_is_eligible m \<and> s \<in> set (src_statuses config) then Retryable else RetrySuccess
         | None \<Rightarrow> RetrySuccess)\<rparr>"

section \<open>Resolution\<close>

record url_parts =
  upt_username :: string
  upt_password :: "string option"
  upt_host :: "string option"
  upt_path :: string
  upt_query :: "string option"
  upt_fragment :: "string option"

text \<open>\<open>url::Url::parse\<close>, and \<open>host()\<close> of a parsed \<open>http::uri::Authority\<close>.\<close>

record origin_parsers =
  op_url_parse :: "string \<Rightarrow> url_parts option"
  op_authority_host :: "string \<Rightarrow> string option"

text \<open>\<open>char::is_control\<close>: U+0000 to U+001F and U+007F to U+009F, in UTF-8.\<close>

fun has_control :: "nat list \<Rightarrow> bool" where
  "has_control [] = False"
| "has_control (b # bs) =
     (b < 32 \<or> b = 127 \<or> (b = 194 \<and> bs \<noteq> [] \<and> 128 \<le> hd bs \<and> hd bs \<le> 159) \<or> has_control bs)"

definition fixed_origin_host :: "origin_parsers \<Rightarrow> string \<Rightarrow> (retry_mode_error, string) result" where
  "fixed_origin_host parsers authority =
     (if authority = [] \<or> CHR ''@'' \<in> set authority \<or> has_whitespace authority
         \<or> has_control (map of_char authority)
      then Inl InvalidFixedOriginMetadata
      else
        rbind (ok_or (op_url_parse parsers (''http://'' @ authority @ ''/'')) InvalidFixedOriginMetadata) (\<lambda>url.
        if upt_username url \<noteq> [] \<or> upt_password url \<noteq> None \<or> upt_host url = None \<or> upt_path url \<noteq> ''/''
           \<or> upt_query url \<noteq> None \<or> upt_fragment url \<noteq> None
        then Inl InvalidFixedOriginMetadata
        else
          rbind (ok_or (op_authority_host parsers authority) InvalidFixedOriginMetadata) (\<lambda>host.
          if host = [] then Inl InvalidFixedOriginMetadata else Inr host)))"

definition resolve_retry_mode ::
  "origin_parsers \<Rightarrow> retry_mode \<Rightarrow> api_origin_descriptor option \<Rightarrow> (retry_mode_error, reqwest_retry_install) result"
  where
  "resolve_retry_mode parsers mode origin =
     (case mode of
        ModeProtocolRecovery \<Rightarrow> Inr InstallRecovery
      | ModeDisabled \<Rightarrow> Inr InstallNever
      | ModeStatus config \<Rightarrow>
          (case origin of
             Some (FixedSingleOrigin fixed) \<Rightarrow>
               rbind (fixed_origin_host parsers (fod_authority fixed)) (\<lambda>host.
               Inr (InstallCustom (build_reqwest_policy config host)))
           | _ \<Rightarrow> Inl NotFixedOrigin))"

section \<open>Limiters without a governor\<close>

definition noop_acquire :: "rate_limit_context \<Rightarrow> (api_client_error, unit) result" where
  "noop_acquire ctx = Inr ()"

definition noop_on_response :: "rate_limit_response_context \<Rightarrow> (api_client_error, rate_limit_response_action) result" where
  "noop_on_response ctx = Inr Continue"

definition rate_limit_disabled_error :: "rate_limit_context \<Rightarrow> string \<Rightarrow> api_client_error" where
  "rate_limit_disabled_error ctx msg =
     rate_limit \<lparr>ec_endpoint = rlc_endpoint ctx, ec_method = rlc_method ctx\<rparr> RlInvalidConfiguration msg"

definition disabled_message :: string where
  "disabled_message =
     ''rate-limit-governor feature is disabled; non-empty rate-limit plans require an explicit opt-out''"

definition disabled_acquire :: "rate_limit_context \<Rightarrow> (api_client_error, unit) result" where
  "disabled_acquire ctx =
     (if plan_is_empty (rlc_plan ctx) then Inr () else Inl (rate_limit_disabled_error ctx disabled_message))"

definition disabled_on_response ::
  "rate_limit_response_context \<Rightarrow> (api_client_error, rate_limit_response_action) result" where
  "disabled_on_response ctx =
     (if plan_is_empty (rlc_plan (rrc_meta ctx)) then Inr Continue
      else Inl (rate_limit_disabled_error (rrc_meta ctx) disabled_message))"

section \<open>What status retry may do\<close>

lemma collect_statuses_Inr:
  "collect_statuses acc statuses = Inr out \<longleftrightarrow>
     set statuses \<subseteq> set APPROVED_STATUSES \<and> collect_statuses acc statuses = Inr out"
  by (induction acc statuses rule: collect_statuses.induct) (auto split: if_splits)

lemma collect_statuses_set:
  "collect_statuses acc statuses = Inr out \<Longrightarrow> set out = set acc \<union> set statuses"
  by (induction acc statuses rule: collect_statuses.induct) (auto split: if_splits)

lemma collect_statuses_total:
  "set statuses \<subseteq> set APPROVED_STATUSES \<Longrightarrow> \<exists>out. collect_statuses acc statuses = Inr out"
  by (induction acc statuses rule: collect_statuses.induct) auto

lemma collect_statuses_Inl:
  "collect_statuses acc statuses = Inl e \<Longrightarrow> \<exists>s \<in> set statuses. s \<notin> set APPROVED_STATUSES \<and> e = UnsupportedStatus s"
  by (induction acc statuses rule: collect_statuses.induct) (auto split: if_splits)

lemma status_config_Inr:
  assumes "status_retry_config_new n statuses = Inr config"
  shows "1 \<le> n \<and> n \<le> 2 \<and> src_max_retries config = n \<and> set (src_statuses config) = set statuses
    \<and> statuses \<noteq> [] \<and> set statuses \<subseteq> set APPROVED_STATUSES"
  using assms collect_statuses_set [of "[]" statuses] collect_statuses_Inr [of "[]" statuses]
  by (auto simp: status_retry_config_new_def rbind_Inr_iff split: if_splits)

lemma status_config_exists:
  assumes "1 \<le> n" "n \<le> 2" "statuses \<noteq> []" "set statuses \<subseteq> set APPROVED_STATUSES"
  shows "\<exists>config. status_retry_config_new n statuses = Inr config"
proof -
  obtain out where out: "collect_statuses [] statuses = Inr out"
    using collect_statuses_total [OF assms(4)] by blast
  then have "out \<noteq> []" using collect_statuses_set [OF out] assms(3) by auto
  then show ?thesis using out assms(1,2) by (simp add: status_retry_config_new_def)
qed

lemma policy_classify:
  "rtb_classify (build_reqwest_policy config host) m status = Retryable \<longleftrightarrow>
     method_is_eligible m \<and> (\<exists>s \<in> set (src_statuses config). status = Some s)"
  by (auto simp: build_reqwest_policy_def split: option.splits)

text \<open>A policy scoped to a host that retries safe methods answered by one of the statuses.\<close>

definition scoped_policy :: "string \<Rightarrow> u8 \<Rightarrow> nat list \<Rightarrow> retry_builder \<Rightarrow> bool" where
  "scoped_policy host n statuses policy \<longleftrightarrow>
     rtb_host policy = host \<and> rtb_max_retries_per_request policy = unat n
     \<and> (\<forall>m status. rtb_classify policy m status = Retryable \<longleftrightarrow>
          m \<in> {''GET'', ''HEAD'', ''OPTIONS''} \<and> status \<in> Some ` set statuses)"

lemma scoped_policy_iff:
  assumes "src_max_retries config = n" and "set (src_statuses config) = set statuses"
  shows "scoped_policy host n statuses policy \<longleftrightarrow> policy = build_reqwest_policy config host"
proof
  assume p: "scoped_policy host n statuses policy"
  have "rtb_classify policy m status = rtb_classify (build_reqwest_policy config host) m status" for m status
  proof -
    have "rtb_classify policy m status = Retryable \<longleftrightarrow>
        rtb_classify (build_reqwest_policy config host) m status = Retryable"
      using p assms(2) unfolding policy_classify scoped_policy_def by (auto simp: method_is_eligible_def)
    then show ?thesis by (metis retry_verdict.exhaust)
  qed
  then have "rtb_classify policy = rtb_classify (build_reqwest_policy config host)" by (simp add: fun_eq_iff)
  then show "policy = build_reqwest_policy config host"
    using p assms(1) by (simp add: scoped_policy_def build_reqwest_policy_def)
next
  assume "policy = build_reqwest_policy config host"
  then show "scoped_policy host n statuses policy"
    using assms by (auto simp: scoped_policy_def build_reqwest_policy_def method_is_eligible_def split: option.splits if_splits)
qed

text \<open>Selecting status retry for a client: the mode is built, then resolved for the origin of the API.\<close>

definition status_install ::
  "origin_parsers \<Rightarrow> u8 \<Rightarrow> nat list \<Rightarrow> api_origin_descriptor option
    \<Rightarrow> (retry_mode_error, reqwest_retry_install) result" where
  "status_install parsers n statuses origin =
     rbind (retry_mode_status n statuses) (\<lambda>mode. resolve_retry_mode parsers mode origin)"

definition gateway_config :: "u8 \<Rightarrow> nat list \<Rightarrow> bool" where
  "gateway_config n statuses \<longleftrightarrow> 1 \<le> n \<and> n \<le> 2 \<and> statuses \<noteq> [] \<and> set statuses \<subseteq> {502, 503, 504}"

lemma approved_set [simp]: "set APPROVED_STATUSES = {502, 503, 504}"
  by (auto simp: APPROVED_STATUSES_def)

lemma status_config_iff: "(\<exists>config. status_retry_config_new n statuses = Inr config) \<longleftrightarrow> gateway_config n statuses"
  using status_config_Inr [of n statuses] status_config_exists [of n statuses]
  by (auto simp: gateway_config_def)

lemma status_config_error:
  "status_retry_config_new n statuses = Inl e \<Longrightarrow> e \<noteq> NotFixedOrigin \<and> e \<noteq> InvalidFixedOriginMetadata"
  using collect_statuses_Inl [of "[]" statuses]
  by (auto simp: status_retry_config_new_def rbind_def split: if_splits sum.splits)

text \<open>
  Property C39: a status retry mode is accepted exactly for one or two retries of a non-empty set of
  gateway statuses on an API with one fixed origin whose authority names a host; the installed policy is
  then scoped to that host with that bound, and asks for a retry exactly when a safe method was answered
  by one of the chosen statuses. A valid configuration for any other origin is refused as not fixed.
\<close>

theorem status_retry_scoped:
  "(status_install parsers n statuses origin = Inr install \<longleftrightarrow>
      gateway_config n statuses
      \<and> (\<exists>fixed host policy. origin = Some (FixedSingleOrigin fixed)
          \<and> fixed_origin_host parsers (fod_authority fixed) = Inr host
          \<and> install = InstallCustom policy \<and> scoped_policy host n statuses policy))
   \<and> (status_install parsers n statuses origin = Inl NotFixedOrigin \<longleftrightarrow>
      gateway_config n statuses \<and> (\<nexists>fixed. origin = Some (FixedSingleOrigin fixed)))"
proof (cases "status_retry_config_new n statuses")
  case (Inl e)
  then have "\<not> gateway_config n statuses" using status_config_iff [of n statuses] by simp
  then show ?thesis
    using Inl status_config_error [OF Inl] by (simp add: status_install_def retry_mode_status_def)
next
  case (Inr config)
  note c = status_config_Inr [OF Inr]
  have ok: "gateway_config n statuses" using status_config_iff [of n statuses] Inr by blast
  have eq: "scoped_policy host n statuses policy \<longleftrightarrow> policy = build_reqwest_policy config host" for host policy
    using c by (intro scoped_policy_iff) simp_all
  have run: "status_install parsers n statuses origin = resolve_retry_mode parsers (ModeStatus config) origin"
    using Inr by (simp add: status_install_def retry_mode_status_def)
  have meta: "fixed_origin_host parsers a \<noteq> Inl NotFixedOrigin" for a
    by (auto simp: fixed_origin_host_def rbind_def split: if_splits sum.splits)
  show ?thesis
    unfolding run eq using ok meta
    by (auto simp: resolve_retry_mode_def rbind_def split: option.splits api_origin_descriptor.splits sum.splits)
qed

text \<open>Without a governor, a plan is refused in acquisition and in response handling unless it is empty.\<close>

lemma disabled_limiter_fails_closed:
  "(disabled_acquire ctx = Inr () \<longleftrightarrow> plan_is_empty (rlc_plan ctx))
   \<and> (disabled_acquire ctx = Inl e \<longrightarrow> error_category_of e = CatRateLimit)
   \<and> (disabled_on_response rctx = Inr action \<longrightarrow> plan_is_empty (rlc_plan (rrc_meta rctx)) \<and> action = Continue)
   \<and> noop_acquire ctx = Inr ()"
  by (auto simp: disabled_acquire_def disabled_on_response_def noop_acquire_def rate_limit_disabled_error_def
      rate_limit_def split: if_splits)

end
