(* ===== verification/AuthHttp.thy ===== *)
theory AuthHttp
  imports Execution
begin

text \<open>
  The HTTP exchange of credential providers (\<open>auth/http.rs\<close>, \<open>client/auth_http.rs\<close>) and the provided
  credential providers (\<open>auth/providers.rs\<close>, \<open>auth/materials.rs\<close>). A provider may itself send
  authenticated requests; the task-local stack of requirements detects when they form a cycle. The
  provider client, the URL type, JSON decoding and form encoding are arguments.
\<close>

section \<open>Requests\<close>

record auth_requirement_id =
  ari_namespace :: string
  ari_name :: string

definition safe_fragment :: "auth_requirement_id \<Rightarrow> string" where
  "safe_fragment i = ari_namespace i @ '':'' @ ari_name i"

definition display_requirement_id :: "auth_requirement_id \<Rightarrow> string" where
  "display_requirement_id i = ari_namespace i @ ''.'' @ ari_name i"

datatype auth_mode = SkipAuth | UseAuth auth_requirement_id auth_requirement

record auth_internal_policy =
  aip_timeout :: "duration option"
  aip_max_body_bytes :: nat

definition DEFAULT_MAX_BODY_BYTES :: nat where
  "DEFAULT_MAX_BODY_BYTES = 1024 * 1024"

definition auth_internal_policy_default :: auth_internal_policy where
  "auth_internal_policy_default = \<lparr>aip_timeout = None, aip_max_body_bytes = DEFAULT_MAX_BODY_BYTES\<rparr>"

record ('h, 'u, 'b) auth_http_request =
  ahr_method :: string
  ahr_url :: 'u
  ahr_headers :: 'h
  ahr_body :: "('b, string) prepared_body"
  ahr_mode :: auth_mode
  ahr_policy :: auth_internal_policy

record 'h auth_http_response =
  ahp_status :: nat
  ahp_headers :: 'h
  ahp_body :: "u8 list"

text \<open>
  What the provider client returns: the chunks the response will deliver, an error as the kind it
  prints.
\<close>

record 'h provider_response =
  pvr_status :: nat
  pvr_headers :: 'h
  pvr_content_length :: "u64 option"
  pvr_chunks :: "(string, u8 list) result list"

record ('p, 'a, 'b, 'w, 'h, 'u) auth_http_env =
  ahe_client :: "('p, 'a, 'b, 'w, 'h, 'u) drive_env"
  ahe_execute :: "('h, 'u) native_request \<Rightarrow> 'w \<Rightarrow> (string, 'h provider_response) result \<times> 'w"
  ahe_render :: "auth_error \<Rightarrow> string"

text \<open>The task-local stack, absent outside of an exchange, and the rest of the state.\<close>

record ('p, 'a, 'w) auth_http_state =
  ahs_stack :: "string list option"
  ahs_counter :: u64
  ahs_cells :: "('p, 'a) auth_state"
  ahs_world :: 'w

section \<open>The requirement stack\<close>

definition guard_push :: "string \<Rightarrow> string list \<Rightarrow> string list" where
  "guard_push key stack = stack @ [key]"

text \<open>\<open>rposition\<close> and \<open>remove\<close>: the last entry with the key.\<close>

definition remove_last :: "string \<Rightarrow> string list \<Rightarrow> string list" where
  "remove_last key stack = rev (remove1 key (rev stack))"

definition guard_pop :: "string \<Rightarrow> string list \<Rightarrow> string list" where
  "guard_pop key stack =
     (if stack \<noteq> [] \<and> last stack = key then butlast stack else remove_last key stack)"

definition with_auth_internal_stack ::
  "(('p, 'a, 'w) auth_http_state \<Rightarrow> ('r \<times> ('p, 'a, 'w) auth_http_state) option)
    \<Rightarrow> ('p, 'a, 'w) auth_http_state \<Rightarrow> ('r \<times> ('p, 'a, 'w) auth_http_state) option" where
  "with_auth_internal_stack run st =
     (case ahs_stack st of
        Some _ \<Rightarrow> run st
      | None \<Rightarrow> map_option (\<lambda>(r, st'). (r, st'\<lparr>ahs_stack := None\<rparr>)) (run (st\<lparr>ahs_stack := Some []\<rparr>)))"

section \<open>The exchange\<close>

definition validate_auth_internal_body ::
  "('h, string) header_map_ops \<Rightarrow> 'h \<Rightarrow> ('b, string) prepared_body \<Rightarrow> (auth_error, 'h) result" where
  "validate_auth_internal_body ops headers body =
     (if \<not> is_replayable body
      then Inl (auth_error_new UnsupportedScheme ''auth-internal request body category is not supported'')
      else ok_or (apply_prepared_body_media_type ops headers body)
             (auth_error_new AuthInvalidConfiguration
                ''auth-internal Content-Type conflicts with prepared body media type''))"

definition produce_auth_internal_body ::
  "('b, string) prepared_body
    \<Rightarrow> (auth_error, ('b, string) produced_body) result \<times> ('b, string) prepared_body" where
  "produce_auth_internal_body body =
     (case produce_for_execution body of
        (r, body') \<Rightarrow>
          (map_err (\<lambda>e. auth_error_new AcquireFailed
             (case e of
                AlreadyConsumed \<Rightarrow> ''auth-internal one-shot request body was already consumed''
              | FactoryFailure _ \<Rightarrow> ''auth-internal request body factory failed'')) r, body'))"

definition auth_body_limit_error :: "u64 \<Rightarrow> auth_error" where
  "auth_body_limit_error limit =
     auth_error_new AuthResponseTooLarge
       (''auth response body exceeded configured limit '' @ decimal (unat limit) @ '' bytes'')"

fun read_auth_body ::
  "u64 \<Rightarrow> (string, u8 list) result list \<Rightarrow> u8 list \<Rightarrow> u64 \<Rightarrow> (auth_error, u8 list) result" where
  "read_auth_body limit [] body seen = Inr body"
| "read_auth_body limit (Inl kind # rest) body seen =
     Inl (auth_error_new AuthResponseBody (''auth response body read failed ('' @ kind @ '')''))"
| "read_auth_body limit (Inr chunk # rest) body seen =
     (let actual = saturating_add seen (word_of_nat (length chunk)) in
      if limit < actual then Inl (auth_body_limit_error limit)
      else read_auth_body limit rest (body @ chunk) actual)"

definition receive_auth_response ::
  "nat \<Rightarrow> 'h provider_response \<Rightarrow> (auth_error, 'h auth_http_response) result" where
  "receive_auth_response max_body_bytes resp =
     (let limit = word_of_nat max_body_bytes;
          read = rbind (read_auth_body limit (pvr_chunks resp) [] 0) (\<lambda>body.
            Inr \<lparr>ahp_status = pvr_status resp, ahp_headers = pvr_headers resp, ahp_body = body\<rparr>) in
      case pvr_content_length resp of
        Some actual \<Rightarrow> if limit < actual then Inl (auth_body_limit_error limit) else read
      | None \<Rightarrow> read)"

definition auth_base_head ::
  "('h, 'u, 'b) auth_http_request \<Rightarrow> 'h \<Rightarrow> auth_placement_plan \<Rightarrow> ('h, 'u) public_request_head" where
  "auth_base_head req headers planned =
     \<lparr>prh_meta = \<lparr>rm_endpoint = ''<auth>'', rm_method = ahr_method req, rm_idempotent = False, rm_page_index = 0\<rparr>,
      prh_url = ahr_url req, prh_headers = headers, prh_timeout = aip_timeout (ahr_policy req),
      prh_rate_limit = plan_new, prh_auth_plan = planned, prh_reserved_headers = []\<rparr>"

definition make_built_request ::
  "('p, 'a, 'b, 'w, 'h, 'u) auth_http_env \<Rightarrow> ('h, 'u) public_request_head \<Rightarrow> ('b, string) prepared_body
    \<Rightarrow> (auth_error, ('h, 'u) built_request) result" where
  "make_built_request env head body =
     rbind (fst (produce_auth_internal_body body)) (\<lambda>produced.
     map_err (\<lambda>_. auth_error_new AuthInvalidConfiguration ''auth-internal request URI is invalid'')
       (finish_head (ahe_client env)
          \<lparr>ec_endpoint = ''<auth>'', ec_method = rm_method (prh_meta head)\<rparr> head produced))"

text \<open>The plan, the preflight and the body check, before any credential is prepared.\<close>

definition plan_auth_request ::
  "('p, 'a, 'b, 'w, 'h, 'u) auth_http_env \<Rightarrow> ('h, 'u, 'b) auth_http_request \<Rightarrow> u64
    \<Rightarrow> (auth_error, ('h, 'u) public_request_head) result \<times> u64" where
  "plan_auth_request env req counter =
     (let dv = ahe_client env; hops = ho_headers (dv_head dv) in
      case (case ahr_mode req of
              SkipAuth \<Rightarrow> Inr (\<lparr>app_slots = [], app_sensitive_query_keys = []\<rparr>, counter)
            | UseAuth _ requirement \<Rightarrow> from_auth_plan (dv_from_bytes dv) counter [requirement]) of
        Inl e \<Rightarrow> (Inl e, counter)
      | Inr (planned, counter') \<Rightarrow>
          (rbind (validate_public_request planned (hmo_contains_key hops (ahr_headers req))
                    (ho_query_pairs (dv_head dv) (ahr_url req))) (\<lambda>_.
           if \<not> preflight_scheme (dv_tls dv) (ho_scheme (dv_head dv) (ahr_url req))
           then Inl (auth_error_new AuthTlsCapabilityUnavailable ''HTTPS requires an available TLS capability'')
           else rbind (validate_auth_internal_body hops (ahr_headers req) (ahr_body req)) (\<lambda>headers.
                Inr (auth_base_head req headers planned))), counter'))"

type_synonym ('p, 'a, 'w) auth_prepare =
  "auth_requirement \<Rightarrow> planned_auth_slot \<Rightarrow> ('p, 'a, 'w) auth_http_state
    \<Rightarrow> ((auth_error, prepared_auth_credential) result \<times> ('p, 'a, 'w) auth_http_state) option"

definition prepare_auth_materials ::
  "('p, 'a, 'b, 'w, 'h, 'u) auth_http_env \<Rightarrow> ('p, 'a, 'w) auth_prepare \<Rightarrow> auth_mode \<Rightarrow> auth_placement_plan
    \<Rightarrow> ('p, 'a, 'w) auth_http_state
    \<Rightarrow> ((auth_error, auth_transport_material list) result \<times> ('p, 'a, 'w) auth_http_state) option" where
  "prepare_auth_materials env prep mode planned st =
     (case mode of
        SkipAuth \<Rightarrow> Some (Inr [], st)
      | UseAuth i requirement \<Rightarrow>
          (let key = safe_fragment i; stack = the (ahs_stack st); slot = hd (app_slots planned) in
           if key \<in> set stack then
             Some (Inl (auth_error_new RecursionDetected
               (''internal auth recursion detected for requirement `'' @ display_requirement_id i @ ''`'')), st)
           else
             (case dv_try_auth_state (ahe_client env) of
                Inl e \<Rightarrow> Some (Inl e, st)
              | Inr _ \<Rightarrow>
                  (case prep requirement slot (st\<lparr>ahs_stack := Some (guard_push key stack)\<rparr>) of
                     None \<Rightarrow> None
                   | Some (r, st') \<Rightarrow>
                       Some (rbind r (\<lambda>prepared.
                               rbind (validate_binding prepared slot) (\<lambda>_. Inr [pac_material prepared])),
                             st'\<lparr>ahs_stack := map_option (guard_pop key) (ahs_stack st')\<rparr>)))))"

definition submit_auth_request ::
  "('p, 'a, 'b, 'w, 'h, 'u) auth_http_env \<Rightarrow> ('h, 'u, 'b) auth_http_request \<Rightarrow> ('h, 'u) public_request_head
    \<Rightarrow> auth_transport_material list \<Rightarrow> 'w \<Rightarrow> (auth_error, 'h auth_http_response) result \<times> 'w" where
  "submit_auth_request env req head materials w =
     (case rbind (make_built_request env head (ahr_body req)) (\<lambda>built.
             map_err (\<lambda>e. auth_error_new AcquireFailed (ahe_render env e))
               (materialize_authentication (dv_native (ahe_client env)) (br_message built) (br_auth_plan built)
                  materials)) of
        Inl e \<Rightarrow> (Inl e, w)
      | Inr native \<Rightarrow>
          (case ahe_execute env native w of
             (Inl source, w') \<Rightarrow> (Inl (auth_error_new AcquireFailed source), w')
           | (Inr resp, w') \<Rightarrow> (receive_auth_response (aip_max_body_bytes (ahr_policy req)) resp, w')))"

definition auth_send ::
  "('p, 'a, 'b, 'w, 'h, 'u) auth_http_env \<Rightarrow> ('p, 'a, 'w) auth_prepare \<Rightarrow> ('h, 'u, 'b) auth_http_request
    \<Rightarrow> ('p, 'a, 'w) auth_http_state
    \<Rightarrow> ((auth_error, 'h auth_http_response) result \<times> ('p, 'a, 'w) auth_http_state) option" where
  "auth_send env prep req =
     with_auth_internal_stack (\<lambda>st.
       case plan_auth_request env req (ahs_counter st) of
         (Inl e, counter) \<Rightarrow> Some (Inl e, st\<lparr>ahs_counter := counter\<rparr>)
       | (Inr head, counter) \<Rightarrow>
           (case prepare_auth_materials env prep (ahr_mode req) (prh_auth_plan head)
                   (st\<lparr>ahs_counter := counter\<rparr>) of
              None \<Rightarrow> None
            | Some (Inl e, st') \<Rightarrow> Some (Inl e, st')
            | Some (Inr materials, st') \<Rightarrow>
                (case submit_auth_request env req head materials (ahs_world st') of
                   (r, w) \<Rightarrow> Some (r, st'\<lparr>ahs_world := w\<rparr>))))"

text \<open>
  The preparation is given the executor, so a provider can send requests of its own. Fuel bounds the
  nesting.
\<close>

fun nested_send ::
  "nat \<Rightarrow> ('p, 'a, 'b, 'w, 'h, 'u) auth_http_env
    \<Rightarrow> ((('h, 'u, 'b) auth_http_request \<Rightarrow> ('p, 'a, 'w) auth_http_state
          \<Rightarrow> ((auth_error, 'h auth_http_response) result \<times> ('p, 'a, 'w) auth_http_state) option)
        \<Rightarrow> ('p, 'a, 'w) auth_prepare)
    \<Rightarrow> ('h, 'u, 'b) auth_http_request \<Rightarrow> ('p, 'a, 'w) auth_http_state
    \<Rightarrow> ((auth_error, 'h auth_http_response) result \<times> ('p, 'a, 'w) auth_http_state) option" where
  "nested_send 0 env prepares req st = None"
| "nested_send (Suc n) env prepares req st = auth_send env (prepares (nested_send n env prepares)) req st"

section \<open>Nested exchanges\<close>

lemma guard_push_pop [simp]: "guard_pop key (guard_push key stack) = stack"
  by (simp add: guard_push_def guard_pop_def)

definition key_within :: "string set \<Rightarrow> ('h, 'u, 'b) auth_http_request \<Rightarrow> bool" where
  "key_within K req \<longleftrightarrow> (\<forall>i requirement. ahr_mode req = UseAuth i requirement \<longrightarrow> safe_fragment i \<in> K)"

text \<open>
  A preparation returns once the requests it sends return. It sends requests for requirements of \<open>K\<close>
  only, and the stack, which it cannot reach, is as it was.
\<close>

definition prepares_return where
  "prepares_return K prepares \<longleftrightarrow>
     (\<forall>exec requirement slot st.
        (\<forall>req st1. key_within K req \<longrightarrow> ahs_stack st1 = ahs_stack st \<longrightarrow>
           (\<exists>r st2. exec req st1 = Some (r, st2) \<and> ahs_stack st2 = ahs_stack st1)) \<longrightarrow>
        (\<exists>r st2. prepares exec requirement slot st = Some (r, st2) \<and> ahs_stack st2 = ahs_stack st))"

definition returns where
  "returns run st \<longleftrightarrow> (\<exists>r st'. run st = Some (r, st') \<and> ahs_stack st' = ahs_stack st)"

definition open_stack :: "('p, 'a, 'w) auth_http_state \<Rightarrow> string list" where
  "open_stack st = (case ahs_stack st of None \<Rightarrow> [] | Some stack \<Rightarrow> stack)"

lemma with_stack_returns:
  assumes "\<And>s. ahs_stack s = Some (open_stack st) \<Longrightarrow> returns run s"
  shows "returns (with_auth_internal_stack run) st"
proof (cases "ahs_stack st")
  case None
  then have "returns run (st\<lparr>ahs_stack := Some []\<rparr>)" by (intro assms) (simp add: open_stack_def)
  then obtain r st' where "run (st\<lparr>ahs_stack := Some []\<rparr>) = Some (r, st')" unfolding returns_def by blast
  then show ?thesis using None by (simp add: returns_def with_auth_internal_stack_def)
next
  case (Some k)
  then have "returns run st" by (intro assms) (simp add: open_stack_def)
  then show ?thesis using Some by (simp add: returns_def with_auth_internal_stack_def)
qed

lemma prepare_materials_returns:
  assumes "ahs_stack st = Some stack"
    and "\<And>i requirement. mode = UseAuth i requirement \<Longrightarrow> safe_fragment i \<notin> set stack \<Longrightarrow>
      returns (prep requirement (hd (app_slots planned))) (st\<lparr>ahs_stack := Some (guard_push (safe_fragment i) stack)\<rparr>)"
  shows "returns (prepare_auth_materials env prep mode planned) st"
proof (cases mode)
  case (UseAuth i requirement)
  show ?thesis
  proof (cases "safe_fragment i \<in> set stack")
    case False
    obtain r st' where "prep requirement (hd (app_slots planned))
        (st\<lparr>ahs_stack := Some (guard_push (safe_fragment i) stack)\<rparr>) = Some (r, st')"
      "ahs_stack st' = Some (guard_push (safe_fragment i) stack)"
      using assms(2) [OF UseAuth False] by (auto simp: returns_def)
    then show ?thesis
      using UseAuth False assms(1)
      by (cases "dv_try_auth_state (ahe_client env)") (simp_all add: returns_def prepare_auth_materials_def Let_def)
  qed (use UseAuth assms(1) in \<open>auto simp: returns_def prepare_auth_materials_def\<close>)
qed (simp add: returns_def prepare_auth_materials_def)

lemma send_returns:
  assumes "\<And>i requirement slot s. ahr_mode req = UseAuth i requirement \<Longrightarrow> safe_fragment i \<notin> set (open_stack st)
      \<Longrightarrow> ahs_stack s = Some (guard_push (safe_fragment i) (open_stack st))
      \<Longrightarrow> returns (prep requirement slot) s"
  shows "returns (auth_send env prep req) st"
  unfolding auth_send_def
proof (rule with_stack_returns, goal_cases)
  case (1 s)
  have "returns (prepare_auth_materials env prep (ahr_mode req) planned) (s\<lparr>ahs_counter := counter\<rparr>)" for planned counter
    by (rule prepare_materials_returns [where stack = "open_stack st"]) (use 1 in \<open>auto intro: assms\<close>)
  then have mats: "\<exists>r s'. prepare_auth_materials env prep (ahr_mode req) planned (s\<lparr>ahs_counter := counter\<rparr>) = Some (r, s')
      \<and> ahs_stack s' = ahs_stack s" for planned counter
    by (auto simp: returns_def)
  obtain p counter where p: "plan_auth_request env req (ahs_counter s) = (p, counter)" by fastforce
  show ?case
  proof (cases p)
    case (Inr head)
    obtain r s' where "prepare_auth_materials env prep (ahr_mode req) (prh_auth_plan head) (s\<lparr>ahs_counter := counter\<rparr>) = Some (r, s')"
      "ahs_stack s' = ahs_stack s" using mats by blast
    then show ?thesis using p Inr
      by (cases r; cases "submit_auth_request env req head (projr r) (ahs_world s')") (auto simp: returns_def)
  qed (use p in \<open>simp add: returns_def\<close>)
qed


text \<open>A provider that needs its own credential to acquire it.\<close>

definition cyclic_request :: "(unit, unit, unit) auth_http_request" where
  "cyclic_request =
     \<lparr>ahr_method = ''POST'', ahr_url = (), ahr_headers = (),
      ahr_body = \<lparr>pb_recipe = RbEmpty, pb_media_type = None, pb_size_hint = \<lparr>sh_lower = 0, sh_upper = None\<rparr>\<rparr>,
      ahr_mode = UseAuth \<lparr>ari_namespace = ''a'', ari_name = ''b''\<rparr>
        \<lparr>ar_credential = \<lparr>cid_namespace = ''a'', cid_name = ''b''\<rparr>, ar_placement = PlBearer,
         ar_usage_id = ''u'', ar_step_id = None, ar_provenance = ''p'', ar_challenge = ChNeverRecover\<rparr>,
      ahr_policy = auth_internal_policy_default\<rparr>"

definition cyclic_prepare ::
  "((unit, unit, unit) auth_http_request \<Rightarrow> ('p, 'a, 'w) auth_http_state
      \<Rightarrow> ((auth_error, unit auth_http_response) result \<times> ('p, 'a, 'w) auth_http_state) option)
    \<Rightarrow> ('p, 'a, 'w) auth_prepare" where
  "cyclic_prepare exec requirement slot st =
     (case exec cyclic_request st of
        None \<Rightarrow> None
      | Some (r, st') \<Rightarrow> Some (rbind r (\<lambda>_. Inl (auth_error_new AcquireFailed [])), st'))"


section \<open>The response of an exchange\<close>

lemma read_auth_body_bounded:
  assumes "read_auth_body limit chunks body seen = Inr out" and "limit \<noteq> - 1" and "seen \<le> limit"
    and "unat seen = length body" and "\<And>c. Inr c \<in> set chunks \<Longrightarrow> length c < 2 ^ 64"
  shows "length out \<le> unat limit \<and> out = body @ concat (map projr chunks)"
  using assms
proof (induction limit chunks body seen rule: read_auth_body.induct)
  case (3 limit chunk rest body seen)
  let ?actual = "saturating_add seen (word_of_nat (length chunk))"
  have within: "\<not> limit < ?actual" and rest: "read_auth_body limit rest (body @ chunk) ?actual = Inr out"
    using 3(2) by (auto simp: Let_def split: if_splits)
  have len: "unat (word_of_nat (length chunk) :: u64) = length chunk"
    using 3(6) [of chunk] by (simp add: unsigned_of_nat take_bit_nat_eq_self)
  have "unat ?actual \<le> unat limit" using within by (simp add: word_le_nat_alt not_less)
  moreover have "unat limit < unat (- 1 :: u64)"
    using 3(3) word_order.not_eq_extremum [of limit] by (simp add: word_less_nat_alt)
  ultimately have "unat ?actual = length (body @ chunk)"
    using 3(5) len by (simp add: saturating_add_unat)
  then show ?case
    using 3(1) [OF refl within rest] 3(3,6) within by (auto simp: not_less)
qed (auto simp: word_le_nat_alt)

lemma unat_max_u64: "unat (- 1 :: u64) = 2 ^ 64 - 1"
  by (simp add: unsigned_minus_1_eq_mask mask_eq_exp_minus_1)

lemma received_body_bounded:
  assumes "receive_auth_response n resp = Inr out" and "n < 2 ^ 64 - 1"
    and "\<And>c. Inr c \<in> set (pvr_chunks resp) \<Longrightarrow> length c < 2 ^ 64"
  shows "length (ahp_body out) \<le> n \<and> ahp_body out = concat (map projr (pvr_chunks resp))"
proof -
  have n: "unat (word_of_nat n :: u64) = n" using assms(2) by (simp add: unsigned_of_nat take_bit_nat_eq_self)
  then have "(word_of_nat n :: u64) \<noteq> - 1" using assms(2) by (metis less_irrefl unat_max_u64)
  moreover obtain body where r: "read_auth_body (word_of_nat n) (pvr_chunks resp) [] 0 = Inr body" and out: "ahp_body out = body"
    using assms(1)
    by (auto simp: receive_auth_response_def Let_def rbind_Inr_iff split: option.splits if_splits)
  ultimately have "length body \<le> unat (word_of_nat n :: u64) \<and> body = [] @ concat (map projr (pvr_chunks resp))"
    by (intro read_auth_body_bounded [OF r] assms(3)) simp_all
  then show ?thesis unfolding n out append_Nil .
qed

section \<open>Providers\<close>

record access_token =
  at_token :: string
  at_expires_at :: "instant option"
  at_refresh_token :: "string option"
  at_scope :: "string list"
  at_audience :: "string option"

definition access_token_new :: "string \<Rightarrow> access_token" where
  "access_token_new token =
     \<lparr>at_token = token, at_expires_at = None, at_refresh_token = None, at_scope = [], at_audience = None\<rparr>"

text \<open>The static providers return the value they were given.\<close>

definition static_acquire :: "'m \<Rightarrow> (auth_error, 'm) result" where
  "static_acquire value = Inr value"

definition manual_acquire :: "string option \<Rightarrow> credential_id \<Rightarrow> (auth_error, 'm) result" where
  "manual_acquire missing_hint i =
     Inl (auth_error_new MissingCredential
       (case missing_hint of
          Some hint \<Rightarrow> ''missing credential `'' @ cid_name i @ ''`; call `'' @ hint @ ''` first''
        | None \<Rightarrow> ''missing credential `'' @ cid_name i @ ''`''))"

record 'u url_reader =
  ur_scheme :: "'u \<Rightarrow> string"
  ur_host_str :: "'u \<Rightarrow> string option"
  ur_username :: "'u \<Rightarrow> string"
  ur_password :: "'u \<Rightarrow> string option"
  ur_fragment :: "'u \<Rightarrow> string option"

record 'u oauth2_provider =
  oap_id :: credential_id
  oap_token_url :: 'u
  oap_client_id :: string
  oap_client_secret :: string
  oap_scope :: "string option"

definition invalid_token_url :: auth_error where
  "invalid_token_url =
     auth_error_new AuthInvalidConfiguration
       ''invalid oauth2 token URL: must be https with a host, no userinfo, and no fragment''"

definition validate_oauth2_token_url :: "'u url_reader \<Rightarrow> 'u \<Rightarrow> (auth_error, unit) result" where
  "validate_oauth2_token_url ur url =
     (if ur_scheme ur url \<noteq> ''https''
         \<or> (case ur_host_str ur url of None \<Rightarrow> True | Some host \<Rightarrow> host = [])
         \<or> ur_username ur url \<noteq> [] \<or> ur_password ur url \<noteq> None \<or> ur_fragment ur url \<noteq> None
      then Inl invalid_token_url else Inr ())"

definition validate_oauth2_token_url_raw :: "string \<Rightarrow> (auth_error, unit) result" where
  "validate_oauth2_token_url_raw token_url =
     (if \<not> starts_with token_url ''https://'' then Inl invalid_token_url
      else
        (let authority = takeWhile (\<lambda>c. c \<notin> set ''/?#'') (drop 8 token_url) in
         if authority = [] \<or> CHR ''@'' \<in> set authority \<or> starts_with authority ''/''
         then Inl invalid_token_url else Inr ()))"

definition oauth2_new ::
  "'u url_reader \<Rightarrow> credential_id \<Rightarrow> 'u \<Rightarrow> string \<Rightarrow> string \<Rightarrow> (auth_error, 'u oauth2_provider) result" where
  "oauth2_new ur i token_url client_id client_secret =
     rbind (validate_oauth2_token_url ur token_url) (\<lambda>_.
     Inr \<lparr>oap_id = i, oap_token_url = token_url, oap_client_id = client_id,
          oap_client_secret = client_secret, oap_scope = None\<rparr>)"

definition from_validated_token_url ::
  "'u url_reader \<Rightarrow> (string \<Rightarrow> (string, 'u) result) \<Rightarrow> credential_id \<Rightarrow> string \<Rightarrow> string \<Rightarrow> string
    \<Rightarrow> (auth_error, 'u oauth2_provider) result" where
  "from_validated_token_url ur parse i token_url client_id client_secret =
     rbind (validate_oauth2_token_url_raw token_url) (\<lambda>_.
     rbind (map_err (\<lambda>err. auth_error_new AuthInvalidConfiguration (''invalid oauth2 token URL: '' @ err))
              (parse token_url)) (\<lambda>url.
     oauth2_new ur i url client_id client_secret))"

definition with_scope :: "string \<Rightarrow> 'u oauth2_provider \<Rightarrow> 'u oauth2_provider" where
  "with_scope scope p = p\<lparr>oap_scope := Some scope\<rparr>"

record oauth2_token_response =
  otr_access_token :: string
  otr_token_type :: "string option"
  otr_expires_in :: "u64 option"
  otr_refresh_token :: "string option"
  otr_scope :: "string option"

text \<open>
  The libraries the provider calls: base64, \<open>HeaderValue::from_str\<close>, form encoding, the bytes of a body,
  the token decoder, and how a status prints.
\<close>

record ('h, 'b) oauth2_ops =
  oo_headers :: "('h, string) header_map_ops"
  oo_base64 :: "string \<Rightarrow> string"
  oo_value_from_str :: "string \<Rightarrow> string option"
  oo_form :: "(string \<times> string) list \<Rightarrow> string"
  oo_bytes :: "string \<Rightarrow> 'b"
  oo_decode :: "u8 list \<Rightarrow> (string, oauth2_token_response) result"
  oo_status_text :: "nat \<Rightarrow> string"

text \<open>\<open>str::split_whitespace\<close>, with the piece that is being read.\<close>

function split_whitespace :: "string \<Rightarrow> string \<Rightarrow> string list" where
  "split_whitespace piece s =
     (if s = [] then (if piece = [] then [] else [piece])
      else if ws_prefix_len s = 0 then split_whitespace (piece @ [hd s]) (tl s)
      else (if piece = [] then [] else [piece]) @ split_whitespace [] (drop (ws_prefix_len s) s))"
  by pat_completeness auto
termination
  by (relation "measure (\<lambda>(_, s). length s)") (auto dest: ws_prefix_len_pos)

declare split_whitespace.simps [simp del]

definition oauth2_request ::
  "('h, 'b) oauth2_ops \<Rightarrow> 'u oauth2_provider \<Rightarrow> (auth_error, ('h, 'u, 'b) auth_http_request) result" where
  "oauth2_request ops p =
     (let raw = oap_client_id p @ '':'' @ oap_client_secret p in
      rbind (ok_or (oo_value_from_str ops (''Basic '' @ oo_base64 ops raw))
               (auth_error_new AuthInvalidConfiguration ''invalid client secret'')) (\<lambda>basic.
      Inr \<lparr>ahr_method = ''POST'', ahr_url = oap_token_url p,
           ahr_headers = hmo_insert (oo_headers ops) (hmo_new (oo_headers ops)) ''authorization'' basic,
           ahr_body =
             (let form = oo_form ops
                    ((''grant_type'', ''client_credentials'')
                     # (case oap_scope p of Some scope \<Rightarrow> [(''scope'', scope)] | None \<Rightarrow> [])) in
              \<lparr>pb_recipe = RbReusableBytes (oo_bytes ops form),
               pb_media_type = Some (MtFixed ''application/x-www-form-urlencoded''),
               pb_size_hint = \<lparr>sh_lower = word_of_nat (length form), sh_upper = Some (word_of_nat (length form))\<rparr>\<rparr>),
           ahr_mode = SkipAuth, ahr_policy = auth_internal_policy_default\<rparr>))"

definition oauth2_token ::
  "('h, 'b) oauth2_ops \<Rightarrow> instant \<Rightarrow> instant \<Rightarrow> 'h auth_http_response \<Rightarrow> (auth_error, access_token) result" where
  "oauth2_token ops instant_max now resp =
     (if \<not> (200 \<le> ahp_status resp \<and> ahp_status resp < 300) then
        Inl (auth_error_new AcquireFailed
               (''oauth2 token endpoint returned '' @ oo_status_text ops (ahp_status resp)))
      else
        rbind (map_err (\<lambda>e. auth_error_new AcquireFailed (''oauth2 token response decode failed: '' @ e))
                 (oo_decode ops (ahp_body resp))) (\<lambda>token.
        if (case otr_token_type token of Some t \<Rightarrow> \<not> eq_ignore_ascii_case t ''bearer'' | None \<Rightarrow> False) then
          Inl (auth_error_new UnsupportedScheme ''oauth2 token response used an unsupported token_type'')
        else
          rbind (case otr_expires_in token of
                   None \<Rightarrow> Inr None
                 | Some seconds \<Rightarrow>
                     rbind (checked_auth_instant_add instant_max now (secs (unat seconds))
                              ''oauth2 expires_in overflowed'') (\<lambda>at. Inr (Some at))) (\<lambda>expires.
          Inr \<lparr>at_token = otr_access_token token, at_expires_at = expires,
               at_refresh_token = otr_refresh_token token,
               at_scope = split_whitespace [] (case otr_scope token of Some s \<Rightarrow> s | None \<Rightarrow> []),
               at_audience = None\<rparr>)))"

definition oauth2_acquire ::
  "('h, 'b) oauth2_ops \<Rightarrow> instant \<Rightarrow> instant \<Rightarrow> 'u oauth2_provider
    \<Rightarrow> (('h, 'u, 'b) auth_http_request \<Rightarrow> 's \<Rightarrow> ((auth_error, 'h auth_http_response) result \<times> 's) option)
    \<Rightarrow> 's \<Rightarrow> ((auth_error, access_token) result \<times> 's) option" where
  "oauth2_acquire ops instant_max now p exec st =
     (case oauth2_request ops p of
        Inl e \<Rightarrow> Some (Inl e, st)
      | Inr req \<Rightarrow>
          (case exec req st of
             None \<Rightarrow> None
           | Some (r, st') \<Rightarrow> Some (rbind r (oauth2_token ops instant_max now), st')))"

text \<open>The client secret goes to an HTTPS host only, and never under another credential.\<close>

lemma oauth2_secret_https:
  assumes "oauth2_new ur i url client_id client_secret = Inr p"
    and "oauth2_request ops (case scope of Some s \<Rightarrow> with_scope s p | None \<Rightarrow> p) = Inr req"
  shows "ur_scheme ur (ahr_url req) = ''https'' \<and> ur_host_str ur (ahr_url req) \<notin> {None, Some []}
    \<and> ur_username ur (ahr_url req) = [] \<and> ahr_mode req = SkipAuth"
  using assms
  by (auto simp: oauth2_new_def validate_oauth2_token_url_def oauth2_request_def with_scope_def Let_def rbind_Inr_iff
      split: if_splits option.splits)

text \<open>A token it returns was answered with success, is a bearer token and expires as the answer says.\<close>

lemma oauth2_token_checked:
  assumes "oauth2_token ops instant_max now resp = Inr out"
  shows "\<exists>token. oo_decode ops (ahp_body resp) = Inr token \<and> at_token out = otr_access_token token
    \<and> 200 \<le> ahp_status resp \<and> ahp_status resp < 300
    \<and> (\<forall>t. otr_token_type token = Some t \<longrightarrow> eq_ignore_ascii_case t ''bearer'')
    \<and> at_expires_at out = map_option (\<lambda>s. now + secs (unat s)) (otr_expires_in token)"
  using assms
  by (auto simp: oauth2_token_def rbind_Inr_iff checked_auth_instant_add_def instant_checked_add_def
      split: if_splits option.splits)

end
