(* ===== verification/Codecs.thy ===== *)
theory Codecs
  imports RequestHead Bodies Multipart
begin

text \<open>
  Codecs and request entities (\<open>codec.rs\<close>, \<open>codec/json.rs\<close>, \<open>codec/text.rs\<close>, \<open>media.rs\<close>, the prepared
  bodies and request entities of \<open>io.rs\<close>): how the value of a request becomes a body recipe, and how
  the body produced for one execution is handed to the HTTP client. A codec is the record of the
  methods of its trait. The serialiser, \<open>HeaderValue::from_str\<close>, byte streams and advanced bodies
  are arguments.
\<close>

section \<open>UTF-8\<close>

text \<open>A string is the list of its UTF-8 bytes; \<open>std::str::from_utf8\<close> accepts the well-formed sequences.\<close>

definition str_bytes :: "string \<Rightarrow> u8 list" where
  "str_bytes s = map (\<lambda>c. word_of_nat (of_char c)) s"

definition bytes_str :: "u8 list \<Rightarrow> string" where
  "bytes_str bs = map (\<lambda>b. char_of (unat b)) bs"

definition utf8_tail :: "u8 \<Rightarrow> bool" where
  "utf8_tail b \<longleftrightarrow> 0x80 \<le> b \<and> b \<le> 0xBF"

definition utf8_second :: "u8 \<Rightarrow> u8 \<Rightarrow> bool" where
  "utf8_second b0 b1 \<longleftrightarrow>
     utf8_tail b1 \<and> (b0 = 0xE0 \<longrightarrow> 0xA0 \<le> b1) \<and> (b0 = 0xED \<longrightarrow> b1 \<le> 0x9F)
     \<and> (b0 = 0xF0 \<longrightarrow> 0x90 \<le> b1) \<and> (b0 = 0xF4 \<longrightarrow> b1 \<le> 0x8F)"

text \<open>The number of bytes of the first character, 0 when there is none.\<close>

definition utf8_width :: "u8 list \<Rightarrow> nat" where
  "utf8_width bs =
     (case bs of
        [] \<Rightarrow> 0
      | b0 # rest \<Rightarrow>
          if b0 < 0x80 then 1
          else if 0xC2 \<le> b0 \<and> b0 \<le> 0xDF then
            (case rest of b1 # _ \<Rightarrow> if utf8_tail b1 then 2 else 0 | _ \<Rightarrow> 0)
          else if 0xE0 \<le> b0 \<and> b0 \<le> 0xEF then
            (case rest of b1 # b2 # _ \<Rightarrow> if utf8_second b0 b1 \<and> utf8_tail b2 then 3 else 0 | _ \<Rightarrow> 0)
          else if 0xF0 \<le> b0 \<and> b0 \<le> 0xF4 then
            (case rest of
               b1 # b2 # b3 # _ \<Rightarrow> if utf8_second b0 b1 \<and> utf8_tail b2 \<and> utf8_tail b3 then 4 else 0
             | _ \<Rightarrow> 0)
          else 0)"

function valid_utf8 :: "u8 list \<Rightarrow> bool" where
  "valid_utf8 bs =
     (if bs = [] then True
      else if utf8_width bs = 0 then False
      else valid_utf8 (drop (utf8_width bs) bs))"
  by pat_completeness auto

termination valid_utf8
  by (relation "measure length") auto

declare valid_utf8.simps [simp del]

definition from_utf8 :: "u8 list \<Rightarrow> string option" where
  "from_utf8 bs = (if valid_utf8 bs then Some (bytes_str bs) else None)"

section \<open>Codecs\<close>

datatype body_format = FmtBinary | FmtText

record encode_context =
  enc_endpoint :: string
  enc_method :: string

record decode_context =
  dec_endpoint :: string
  dec_method :: string
  dec_status :: nat
  dec_content_type :: "string option"

record encoded_body =
  eb_bytes :: "u8 list"
  eb_format :: body_format

definition encoded_from_bytes :: "u8 list \<Rightarrow> encoded_body" where
  "encoded_from_bytes bytes = \<lparr>eb_bytes = bytes, eb_format = FmtBinary\<rparr>"

definition encoded_empty :: encoded_body where
  "encoded_empty = \<lparr>eb_bytes = [], eb_format = FmtText\<rparr>"

definition encoded_text :: "encoded_body \<Rightarrow> encoded_body" where
  "encoded_text b = b\<lparr>eb_format := FmtText\<rparr>"

record codec_error =
  cde_message :: string
  cde_source :: "string option"

definition codec_error_with_source :: "string \<Rightarrow> string \<Rightarrow> codec_error" where
  "codec_error_with_source message source = \<lparr>cde_message = message, cde_source = Some source\<rparr>"

text \<open>\<open>None\<close> in \<open>try_content_type\<close> and \<open>try_accept\<close> is an invalid header value.\<close>

record 'a body_codec =
  bc_try_content_type :: "string option option"
  bc_format :: body_format
  bc_encode :: "'a \<Rightarrow> encode_context \<Rightarrow> (codec_error, encoded_body) result"

record 'a response_codec =
  rc_try_accept :: "string option option"
  rc_is_no_content :: bool
  rc_format :: body_format
  rc_decode :: "u8 list \<Rightarrow> decode_context \<Rightarrow> (codec_error, 'a) result"

definition bc_content_type :: "'a body_codec \<Rightarrow> string option" where
  "bc_content_type codec = (case bc_try_content_type codec of Some v \<Rightarrow> v | None \<Rightarrow> None)"

definition rc_accept :: "'a response_codec \<Rightarrow> string option" where
  "rc_accept codec = (case rc_try_accept codec of Some v \<Rightarrow> v | None \<Rightarrow> None)"

text \<open>The media types of \<open>media.rs\<close> and the default methods that turn one into a header value.\<close>

definition JSON_CONTENT_TYPE :: string where
  "JSON_CONTENT_TYPE = ''application/json''"

definition TEXT_CONTENT_TYPE :: string where
  "TEXT_CONTENT_TYPE = ''text/plain; charset=utf-8''"

definition try_header_value :: "(string \<Rightarrow> string option) \<Rightarrow> string \<Rightarrow> string option" where
  "try_header_value from_str content_type = from_str content_type"

definition declared_media :: "(string \<Rightarrow> string option) \<Rightarrow> string \<Rightarrow> string option option" where
  "declared_media from_str content_type = map_option Some (try_header_value from_str content_type)"

definition no_content_body_codec :: "unit body_codec" where
  "no_content_body_codec =
     \<lparr>bc_try_content_type = Some None, bc_format = FmtText, bc_encode = \<lambda>_ _. Inr encoded_empty\<rparr>"

definition no_content_response_codec :: "unit response_codec" where
  "no_content_response_codec =
     \<lparr>rc_try_accept = Some None, rc_is_no_content = True, rc_format = FmtText, rc_decode = \<lambda>_ _. Inr ()\<rparr>"

definition json_body_codec ::
  "(string \<Rightarrow> string option) \<Rightarrow> ('a \<Rightarrow> (string, u8 list) result) \<Rightarrow> 'a body_codec" where
  "json_body_codec from_str to_vec =
     \<lparr>bc_try_content_type = declared_media from_str JSON_CONTENT_TYPE, bc_format = FmtText,
      bc_encode = \<lambda>v _. (case to_vec v of
          Inl e \<Rightarrow> Inl (codec_error_with_source ''json encode failed'' e)
        | Inr bytes \<Rightarrow> Inr (encoded_text (encoded_from_bytes bytes)))\<rparr>"

definition json_response_codec ::
  "(string \<Rightarrow> string option) \<Rightarrow> (u8 list \<Rightarrow> (string, 'a) result) \<Rightarrow> 'a response_codec" where
  "json_response_codec from_str from_slice =
     \<lparr>rc_try_accept = declared_media from_str JSON_CONTENT_TYPE, rc_is_no_content = False,
      rc_format = FmtText,
      rc_decode = \<lambda>bytes _. (case from_slice bytes of
          Inl e \<Rightarrow> Inl (codec_error_with_source ''json decode failed'' e)
        | Inr v \<Rightarrow> Inr v)\<rparr>"

definition text_body_codec :: "(string \<Rightarrow> string option) \<Rightarrow> string body_codec" where
  "text_body_codec from_str =
     \<lparr>bc_try_content_type = declared_media from_str TEXT_CONTENT_TYPE, bc_format = FmtText,
      bc_encode = \<lambda>s _. Inr (encoded_text (encoded_from_bytes (str_bytes s)))\<rparr>"

text \<open>The text of a \<open>Utf8Error\<close> is an argument.\<close>

definition text_response_codec ::
  "(string \<Rightarrow> string option) \<Rightarrow> (u8 list \<Rightarrow> string) \<Rightarrow> string response_codec" where
  "text_response_codec from_str utf8_error =
     \<lparr>rc_try_accept = declared_media from_str TEXT_CONTENT_TYPE, rc_is_no_content = False,
      rc_format = FmtText,
      rc_decode = \<lambda>bytes _. (case from_utf8 bytes of
          None \<Rightarrow> Inl (codec_error_with_source ''text decode failed'' (utf8_error bytes))
        | Some s \<Rightarrow> Inr s)\<rparr>"

section \<open>Prepared bodies\<close>

text \<open>
  What a recipe holds. \<open>'s\<close> is a byte stream and \<open>'d\<close> an advanced body, each with the size hint it
  reports.
\<close>

datatype ('s, 'd) request_payload =
    PlBytes "u8 list"
  | PlStream size_hint 's
  | PlHttpBody size_hint 'd
  | PlMultipart "(string, 's) multipart_body"

type_synonym ('s, 'd) payload_body = "(('s, 'd) request_payload, string) prepared_body"

definition no_size_hint :: size_hint where
  "no_size_hint = \<lparr>sh_lower = 0, sh_upper = None\<rparr>"

definition prepared_empty :: "('s, 'd) payload_body" where
  "prepared_empty = \<lparr>pb_recipe = RbEmpty, pb_media_type = None, pb_size_hint = exact_hint 0\<rparr>"

definition prepared_reusable_bytes :: "u8 list \<Rightarrow> string option \<Rightarrow> ('s, 'd) payload_body" where
  "prepared_reusable_bytes bytes mt =
     \<lparr>pb_recipe = RbReusableBytes (PlBytes bytes), pb_media_type = map_option MtFixed mt,
      pb_size_hint = exact_hint (word_of_nat (length bytes))\<rparr>"

definition prepared_one_shot :: "size_hint \<Rightarrow> 'd \<Rightarrow> string option \<Rightarrow> ('s, 'd) payload_body" where
  "prepared_one_shot hint body mt =
     \<lparr>pb_recipe = RbOneShotHttpBody (Some (PlHttpBody hint body)), pb_media_type = map_option MtFixed mt,
      pb_size_hint = hint\<rparr>"

definition replay_factory_terminal ::
  "size_hint \<Rightarrow> string option
    \<Rightarrow> (nat \<Rightarrow> (body_error_kind, ('s, 'd) request_payload terminal_body) result) \<Rightarrow> ('s, 'd) payload_body"
  where
  "replay_factory_terminal hint mt factory =
     \<lparr>pb_recipe = RbFactory factory 0, pb_media_type = map_option MtFixed mt, pb_size_hint = hint\<rparr>"

definition prepared_factory ::
  "size_hint \<Rightarrow> string option \<Rightarrow> (nat \<Rightarrow> (body_error_kind, size_hint \<times> 'd) result) \<Rightarrow> ('s, 'd) payload_body"
  where
  "prepared_factory hint mt factory =
     replay_factory_terminal hint mt
       (\<lambda>i. rbind (factory i) (\<lambda>(h, body). Inr (TbOneShotHttpBody (PlHttpBody h body))))"

definition prepared_stream_factory ::
  "size_hint \<Rightarrow> string option \<Rightarrow> (nat \<Rightarrow> (body_error_kind, size_hint \<times> 's) result) \<Rightarrow> ('s, 'd) payload_body"
  where
  "prepared_stream_factory hint mt factory =
     replay_factory_terminal hint mt
       (\<lambda>i. rbind (factory i) (\<lambda>(h, stream). Inr (TbOneShotByteStream (PlStream h stream))))"

definition replay_multipart_factory ::
  "(nat \<Rightarrow> (body_error_kind, (string, 's) multipart_body) result) \<Rightarrow> ('s, 'd) payload_body" where
  "replay_multipart_factory factory =
     \<lparr>pb_recipe = RbFactory (\<lambda>i. rbind (factory i) (\<lambda>m. Inr (TbMultipartRecipe (PlMultipart m)))) 0,
      pb_media_type = Some MtDynamic, pb_size_hint = no_size_hint\<rparr>"

definition prepared_multipart_factory ::
  "(nat \<Rightarrow> (multipart_body_error_kind, (string, 's) multipart_body) result) \<Rightarrow> ('s, 'd) payload_body" where
  "prepared_multipart_factory factory =
     replay_multipart_factory (\<lambda>i. map_err (\<lambda>_. BodyInvalidConfiguration) (factory i))"

definition prepared_stream :: "size_hint \<Rightarrow> 's \<Rightarrow> string option \<Rightarrow> ('s, 'd) payload_body" where
  "prepared_stream hint stream mt =
     \<lparr>pb_recipe = RbOneShotByteStream (Some (PlStream hint stream)), pb_media_type = map_option MtFixed mt,
      pb_size_hint = hint\<rparr>"

definition prepared_multipart :: "(string, 's) multipart_body \<Rightarrow> ('s, 'd) payload_body" where
  "prepared_multipart recipe =
     \<lparr>pb_recipe = RbMultipart (Some (PlMultipart recipe, is_reconstructible recipe)),
      pb_media_type = Some MtDynamic, pb_size_hint = no_size_hint\<rparr>"

section \<open>Request entities\<close>

definition no_request_body_prepare :: "(api_client_error, ('s, 'd) payload_body) result" where
  "no_request_body_prepare = Inr prepared_empty"

definition encoded_request_prepare ::
  "'a body_codec \<Rightarrow> 'a \<Rightarrow> error_context \<Rightarrow> (api_client_error, ('s, 'd) payload_body) result" where
  "encoded_request_prepare codec v ctx =
     rbind (map_err (\<lambda>_. Codec ctx ''request body encoding failed'')
              (bc_encode codec v \<lparr>enc_endpoint = ec_endpoint ctx, enc_method = ec_method ctx\<rparr>)) (\<lambda>encoded.
     rbind (ok_or (bc_try_content_type codec) (InvalidParam ctx ''content_type'')) (\<lambda>ct.
     Inr (prepared_reusable_bytes (eb_bytes encoded) ct)))"

definition raw_stream_request_prepare ::
  "(string \<Rightarrow> string option) \<Rightarrow> string \<Rightarrow> size_hint \<Rightarrow> 's \<Rightarrow> error_context
    \<Rightarrow> (api_client_error, ('s, 'd) payload_body) result" where
  "raw_stream_request_prepare from_str media hint stream ctx =
     rbind (ok_or (try_header_value from_str media) (InvalidParam ctx ''content_type'')) (\<lambda>ct.
     Inr (prepared_stream hint stream (Some ct)))"

definition multipart_error_text :: "multipart_body_error_kind \<Rightarrow> string" where
  "multipart_error_text kind =
     (case kind of
        InvalidPartName \<Rightarrow> ''multipart part name is invalid''
      | InvalidPartFileName \<Rightarrow> ''multipart part file name is invalid''
      | InvalidPartContentType \<Rightarrow> ''multipart part content type is invalid''
      | InvalidMultipartContentType \<Rightarrow> ''multipart content type is invalid'')"

definition multipart_request_prepare ::
  "(string, 's, 'p, 'f) form_ops \<Rightarrow> (string, 's) multipart_body \<Rightarrow> error_context
    \<Rightarrow> (api_client_error, ('s, 'd) payload_body) result" where
  "multipart_request_prepare ops body ctx =
     rbind (map_err (\<lambda>kind. Codec ctx (multipart_error_text kind)) (validate_multipart ops body)) (\<lambda>_.
     Inr (prepared_multipart body))"

section \<open>The native body\<close>

text \<open>
  \<open>apply_to_reqwest\<close>: what is handed to the HTTP client. A one-shot body is observed, and guarded when
  its exact length is known.
\<close>

datatype ('s, 'd, 'f) native_body =
    NativeNone
  | NativeBytes "u8 list"
  | NativeObserved "('s, 'd) request_payload"
  | NativeExact "('s, 'd) request_payload exact_length_body"
  | NativeForm 'f

definition validate_reusable_exact_length :: "u64 \<Rightarrow> u64 option \<Rightarrow> (body_failure, unit) result" where
  "validate_reusable_exact_length actual exact =
     (case exact of
        None \<Rightarrow> Inr ()
      | Some expected \<Rightarrow>
          if actual < expected then Inl (exact_length_underflow expected actual)
          else if expected < actual then Inl (exact_length_overflow expected actual)
          else Inr ())"

definition observe_native_request_body ::
  "('s, 'd) request_payload \<Rightarrow> u64 option \<Rightarrow> ('s, 'd, 'f) native_body" where
  "observe_native_request_body body exact =
     (case exact of Some len \<Rightarrow> NativeExact (exact_new body len) | None \<Rightarrow> NativeObserved body)"

text \<open>A variant holds the payload of its kind (\<open>terminal_ok\<close>), so the last equation is never used.\<close>

fun terminal_apply_to_reqwest ::
  "(string, 's, 'p, 'f) form_ops \<Rightarrow> ('s, 'd) request_payload terminal_body \<Rightarrow> u64 option
    \<Rightarrow> (body_failure, ('s, 'd, 'f) native_body) result" where
  "terminal_apply_to_reqwest ops TbEmpty exact =
     rbind (validate_reusable_exact_length 0 exact) (\<lambda>_. Inr NativeNone)"
| "terminal_apply_to_reqwest ops (TbReusableBytes (PlBytes bytes)) exact =
     rbind (validate_reusable_exact_length (word_of_nat (length bytes)) exact) (\<lambda>_. Inr (NativeBytes bytes))"
| "terminal_apply_to_reqwest ops (TbOneShotByteStream p) exact = Inr (observe_native_request_body p exact)"
| "terminal_apply_to_reqwest ops (TbOneShotHttpBody p) exact = Inr (observe_native_request_body p exact)"
| "terminal_apply_to_reqwest ops (TbMultipartRecipe (PlMultipart recipe)) exact =
     rbind (map_err (\<lambda>_. invalid_configuration) (into_form ops recipe)) (\<lambda>form. Inr (NativeForm form))"
| "terminal_apply_to_reqwest ops _ exact = Inl invalid_configuration"

definition produced_apply_to_reqwest ::
  "(string, 's, 'p, 'f) form_ops \<Rightarrow> (('s, 'd) request_payload, string) produced_body
    \<Rightarrow> (body_failure, ('s, 'd, 'f) native_body \<times> string option) result" where
  "produced_apply_to_reqwest ops body =
     rbind (terminal_apply_to_reqwest ops (pd_terminal body) (pd_exact_length body)) (\<lambda>native.
     Inr (native, pd_media_type body))"

fun terminal_ok :: "('s, 'd) request_payload terminal_body \<Rightarrow> bool" where
  "terminal_ok (TbReusableBytes p) = (\<exists>bytes. p = PlBytes bytes)"
| "terminal_ok (TbMultipartRecipe p) = (\<exists>recipe. p = PlMultipart recipe)"
| "terminal_ok (TbOneShotByteStream p) = (\<exists>h s. p = PlStream h s)"
| "terminal_ok (TbOneShotHttpBody p) = (\<exists>h d. p = PlHttpBody h d)"
| "terminal_ok TbEmpty = True"

fun recipe_ok :: "('s, 'd) request_payload request_body_recipe \<Rightarrow> bool" where
  "recipe_ok RbEmpty = True"
| "recipe_ok (RbReusableBytes p) = terminal_ok (TbReusableBytes p)"
| "recipe_ok (RbOneShotByteStream p) = pred_option (\<lambda>p. terminal_ok (TbOneShotByteStream p)) p"
| "recipe_ok (RbOneShotHttpBody p) = pred_option (\<lambda>p. terminal_ok (TbOneShotHttpBody p)) p"
| "recipe_ok (RbFactory f i) = (\<forall>i t. f i = Inr t \<longrightarrow> terminal_ok t)"
| "recipe_ok (RbMultipart m) =
     pred_option (\<lambda>(p, r). \<exists>recipe. p = PlMultipart recipe \<and> r = is_reconstructible recipe) m"

section \<open>Facts\<close>

lemma byte_char [simp]: "unat (word_of_nat (of_char c) :: u8) = of_char c"
  by (simp add: unat_of_nat take_bit_nat_eq_self)

lemma char_byte [simp]: "(word_of_nat (of_char (char_of (unat b) :: char)) :: u8) = b"
proof -
  have "unat b < 256" using unsigned_less [of b] by simp
  then show ?thesis by simp
qed

lemma str_bytes_inverse [simp]: "bytes_str (str_bytes s) = s"
  by (simp add: bytes_str_def str_bytes_def comp_def)

lemma bytes_str_inverse [simp]: "str_bytes (bytes_str bs) = bs"
  by (simp add: bytes_str_def str_bytes_def comp_def del: of_char_of)

text \<open>
  The text codec round trips. A response body decodes to a string exactly when it is the
  well-formed UTF-8 encoding of that string, and what the request side encodes for a well-formed
  string is what the response side reads back.
\<close>

theorem text_codec_round_trip:
  "(rc_decode (text_response_codec from_str utf8_error) bytes dctx = Inr s
      \<longleftrightarrow> valid_utf8 bytes \<and> str_bytes s = bytes)
   \<and> bc_encode (text_body_codec from_str) s ectx
      = Inr \<lparr>eb_bytes = str_bytes s, eb_format = FmtText\<rparr>"
  by (auto simp: text_response_codec_def text_body_codec_def from_utf8_def encoded_text_def
      encoded_from_bytes_def)

text \<open>
  A prepared body reports the size hint of what it holds: bytes are counted, and a multipart body, whose
  boundary only the HTTP client knows, declares no exact length.
\<close>

definition hint_ok :: "('s, 'd) payload_body \<Rightarrow> bool" where
  "hint_ok body \<longleftrightarrow>
     (case pb_recipe body of
        RbEmpty \<Rightarrow> pb_size_hint body = exact_hint 0
      | RbReusableBytes p \<Rightarrow>
          (\<forall>bytes. p = PlBytes bytes \<longrightarrow> pb_size_hint body = exact_hint (word_of_nat (length bytes)))
      | RbFactory f _ \<Rightarrow>
          (\<forall>i p. f i = Inr (TbMultipartRecipe p) \<longrightarrow> size_hint_exact (pb_size_hint body) = None)
      | RbMultipart _ \<Rightarrow> size_hint_exact (pb_size_hint body) = None
      | _ \<Rightarrow> True)"

definition body_ok :: "('s, 'd) payload_body \<Rightarrow> bool" where
  "body_ok body \<longleftrightarrow> recipe_ok (pb_recipe body) \<and> hint_ok body"

lemmas prepared_defs =
  prepared_empty_def prepared_reusable_bytes_def prepared_one_shot_def prepared_factory_def
  prepared_stream_factory_def replay_factory_terminal_def prepared_multipart_factory_def
  replay_multipart_factory_def prepared_stream_def prepared_multipart_def

lemma no_exact_hint [simp]: "size_hint_exact no_size_hint = None"
  by (simp add: size_hint_exact_def no_size_hint_def)

lemma exact_hint_exact [simp]: "size_hint_exact (exact_hint n) = Some n"
  by (simp add: size_hint_exact_def exact_hint_def)

lemma constructors_body_ok:
  "body_ok prepared_empty"
  "body_ok (prepared_reusable_bytes bytes mt)"
  "body_ok (prepared_one_shot hint body mt)"
  "body_ok (prepared_factory hint mt bodies)"
  "body_ok (prepared_stream_factory hint mt streams)"
  "body_ok (prepared_multipart_factory recipes)"
  "body_ok (prepared_stream hint stream mt)"
  "body_ok (prepared_multipart recipe)"
  by (auto simp: prepared_defs body_ok_def hint_ok_def rbind_Inr_iff)

lemma produce_body_ok: "body_ok body \<Longrightarrow> body_ok (snd (produce_for_execution body))"
  by (auto simp: produce_for_execution_def body_ok_def hint_ok_def
      split: request_body_recipe.splits option.splits sum.splits)

lemma validated_length [simp]:
  "validate_reusable_exact_length actual (Some expected) = Inr u \<longleftrightarrow> actual = expected"
  "validate_reusable_exact_length actual None = Inr ()"
  by (auto simp: validate_reusable_exact_length_def)

text \<open>The length a native body is bound to: its bytes, or what its guard enforces.\<close>

fun native_length :: "('s, 'd, 'f) native_body \<Rightarrow> u64 option" where
  "native_length NativeNone = Some 0"
| "native_length (NativeBytes bytes) = Some (word_of_nat (length bytes))"
| "native_length (NativeExact b) = Some (el_expected b)"
| "native_length (NativeObserved _) = None"
| "native_length (NativeForm _) = None"

lemma observed_length [simp]: "native_length (observe_native_request_body p exact) = exact"
  by (simp add: observe_native_request_body_def exact_new_def split: option.split)

lemma terminal_length:
  assumes "terminal_apply_to_reqwest ops t exact = Inr native" and "exact = Some n"
    and "\<And>p. t \<noteq> TbMultipartRecipe p"
  shows "native_length native = Some n"
  using assms by (cases "(ops, t, exact)" rule: terminal_apply_to_reqwest.cases) (auto simp: rbind_Inr_iff)

text \<open>
  Property C32: a request body that declares an exact length is held to it. Whatever way the body was
  prepared, when its size hint is exact then the native body handed to the HTTP client either has
  exactly that many bytes or is guarded by that length.
\<close>

theorem declared_length_is_enforced:
  assumes "body_ok body" and "size_hint_exact (pb_size_hint body) = Some n"
    and "fst (produce_for_execution body) = Inr produced"
    and "produced_apply_to_reqwest ops produced = Inr (native, mt)"
  shows "native_length native = Some n"
proof -
  have native: "terminal_apply_to_reqwest ops (pd_terminal produced) (pd_exact_length produced) = Inr native"
    using assms(4) by (auto simp: produced_apply_to_reqwest_def rbind_Inr_iff)
  show ?thesis
  proof (cases "pd_exact_length produced = Some n \<and> (\<forall>p. pd_terminal produced \<noteq> TbMultipartRecipe p)")
    case True
    then show ?thesis using terminal_length [OF native] by blast
  next
    case False
    then show ?thesis
      using assms(1-3) native
      by (auto simp: body_ok_def hint_ok_def produce_for_execution_def terminal_exact_length_def
          split: request_body_recipe.splits option.splits sum.splits terminal_body.splits)
  qed
qed

theorem declared_length_is_enforced_witness:
  "native_length (NativeExact (exact_new (PlStream (exact_hint 2) [1 :: nat] :: (nat list, unit) request_payload) 2)
     :: (nat list, unit, unit) native_body) = Some 2"
proof (rule declared_length_is_enforced)
  let ?body = "prepared_stream (exact_hint 2) [1] None :: (nat list, unit) payload_body"
  show "body_ok ?body" by (rule constructors_body_ok)
  show "size_hint_exact (pb_size_hint ?body) = Some 2" by (simp add: prepared_stream_def)
  show "fst (produce_for_execution ?body) =
      Inr \<lparr>pd_terminal = TbOneShotByteStream (PlStream (exact_hint 2) [1]), pd_media_type = None,
           pd_exact_length = Some 2\<rparr>"
    by (simp add: prepared_stream_def produce_for_execution_def media_type_def)
qed (simp add: produced_apply_to_reqwest_def observe_native_request_body_def)

text \<open>Which entities can be sent a second time after an authentication challenge.\<close>

lemma prepared_replayable [simp]:
  "is_replayable prepared_empty"
  "is_replayable (prepared_reusable_bytes bytes mt)"
  "\<not> is_replayable (prepared_one_shot hint body mt)"
  "is_replayable (prepared_factory hint mt bodies)"
  "is_replayable (prepared_stream_factory hint mt streams)"
  "is_replayable (prepared_multipart_factory recipes)"
  "\<not> is_replayable (prepared_stream hint stream mt)"
  "is_replayable (prepared_multipart recipe) = is_reconstructible recipe"
  by (simp_all add: is_replayable_def prepared_defs)

end
