(* ===== verification/Responses.thy ===== *)
theory Responses
  imports ExecutionProps Codecs PolicyLayers UrlRoute
begin

text \<open>
  From a response of the driver to the value the caller gets (\<open>client/execute.rs\<close>, \<open>client/send_flow.rs\<close>,
  \<open>stream_response.rs\<close>, the response entities and prepared endpoints of \<open>io.rs\<close>): buffering, the
  contract of responses without content, decoding, streaming, and the plan of a hand-written
  endpoint. Debug output is not modelled.
\<close>

section \<open>Plans and responses\<close>

record response_plan =
  rsp_accept :: "string option"
  rsp_no_content :: bool
  rsp_format :: body_format

text \<open>
  A request plan: the view the driver reads, whose \<open>rpv_no_content\<close> is \<open>response.no_content\<close>, the rest of
  the response plan, the pagination marker and the body.
\<close>

record ('h, 'b) request_plan =
  rq_view :: "'h request_plan_view"
  rq_accept :: "string option"
  rq_format :: body_format
  rq_pagination :: bool
  rq_body :: "('b, string) prepared_body"

record 'u response_context =
  rx_meta :: request_meta
  rx_logical_url :: 'u
  rx_rate_limit :: rate_limit_plan

record ('h, 'u) built_response =
  brp_status :: nat
  brp_headers :: 'h
  brp_bytes :: "u8 list"
  brp_context :: "'u response_context"

record ('h, 'u, 'a) decoded_response =
  dr_meta :: request_meta
  dr_url :: 'u
  dr_status :: nat
  dr_headers :: 'h
  dr_value :: 'a

text \<open>
  The client a plan is executed with: the environment of the driver, the two response limits,
  \<open>HeaderValue::to_str\<close> and the text of a status code.
\<close>

record ('p, 'a, 'b, 'w, 'h, 'u) api_client =
  ac_drive :: "('p, 'a, 'b, 'w, 'h, 'u) drive_env"
  ac_max_response_body_bytes :: "nat option"
  ac_max_stream_response_body_bytes :: "nat option"
  ac_to_str :: "string \<Rightarrow> string option"
  ac_status_text :: "nat \<Rightarrow> string"

abbreviation ac_headers :: "('p, 'a, 'b, 'w, 'h, 'u) api_client \<Rightarrow> ('h, string) header_map_ops" where
  "ac_headers c \<equiv> no_headers (dv_native (ac_drive c))"

abbreviation ac_from_str :: "('p, 'a, 'b, 'w, 'h, 'u) api_client \<Rightarrow> string \<Rightarrow> string option" where
  "ac_from_str c \<equiv> no_value_from_str (dv_native (ac_drive c))"

section \<open>Buffering\<close>

text \<open>
  The mapper of native body errors classifies them as timeout, connect, request or other, never as I/O,
  so a failed transport is a body error of kind \<open>Input\<close>.
\<close>

definition response_body_failure :: "error_context \<Rightarrow> body_error \<Rightarrow> api_client_error" where
  "response_body_failure ctx source =
     (case source of
        LimitExceeded limit _ \<Rightarrow> ResponseBodyLimitExceeded ctx (unat limit)
      | TransportFailure \<Rightarrow> ResponseBody ctx BodyInput)"

definition buffer_response ::
  "'u response_context \<Rightarrow> 'h execution_response \<Rightarrow> bool \<Rightarrow> error_context
    \<Rightarrow> (api_client_error, ('h, 'u) built_response) result" where
  "buffer_response context response skip_body ctx =
     rbind (if skip_body then Inr []
            else map_err (response_body_failure ctx) (fst (collect_bytes (er_body response)))) (\<lambda>bytes.
     Inr \<lparr>brp_status = er_status response, brp_headers = er_headers response, brp_bytes = bytes,
          brp_context = context\<rparr>)"

text \<open>The head of every round is built from the same plan, so its URL is the logical URL.\<close>

definition plan_response_context ::
  "('h, string, 'u) head_ops \<Rightarrow> 'h request_plan_view \<Rightarrow> (api_client_error, 'u response_context) result" where
  "plan_response_context ops plan =
     rbind (build_url ops plan) (\<lambda>url.
     Inr \<lparr>rx_meta = plan_meta plan, rx_logical_url = url, rx_rate_limit = rpv_rate_limit plan\<rparr>)"

definition execute_plan_raw_with_body ::
  "nat \<Rightarrow> ('p, 'a, 'b, 'w, 'h, 'u) api_client \<Rightarrow> ('h, 'b) request_plan \<Rightarrow> bool \<Rightarrow> ('p, 'a, 'b, 'w) drive_state
    \<Rightarrow> ((api_client_error, ('h, 'u) built_response) result \<times> ('p, 'a, 'b, 'w) drive_state) option" where
  "execute_plan_raw_with_body fuel c plan skip_body st =
     (let view = into_canonical_request_plan_view (rq_view plan); ctx = plan_ctx view in
      case drive_executions fuel (ac_drive c) view (Buffered skip_body (ac_max_response_body_bytes c))
             (st\<lparr>ds_body := rq_body plan\<rparr>) of
        None \<Rightarrow> None
      | Some (r, st') \<Rightarrow>
          Some (rbind r (\<lambda>response.
                rbind (plan_response_context (dv_head (ac_drive c)) view) (\<lambda>context.
                buffer_response context response skip_body ctx)), st'))"

definition execute_plan_raw ::
  "nat \<Rightarrow> ('p, 'a, 'b, 'w, 'h, 'u) api_client \<Rightarrow> ('h, 'b) request_plan \<Rightarrow> ('p, 'a, 'b, 'w) drive_state
    \<Rightarrow> ((api_client_error, ('h, 'u) built_response) result \<times> ('p, 'a, 'b, 'w) drive_state) option" where
  "execute_plan_raw fuel c plan st = execute_plan_raw_with_body fuel c plan False st"

definition execute_plan_raw_skip_body ::
  "nat \<Rightarrow> ('p, 'a, 'b, 'w, 'h, 'u) api_client \<Rightarrow> ('h, 'b) request_plan \<Rightarrow> ('p, 'a, 'b, 'w) drive_state
    \<Rightarrow> ((api_client_error, ('h, 'u) built_response) result \<times> ('p, 'a, 'b, 'w) drive_state) option" where
  "execute_plan_raw_skip_body fuel c plan st = execute_plan_raw_with_body fuel c plan True st"

section \<open>Decoding\<close>

definition response_body_decode_error ::
  "(nat \<Rightarrow> string) \<Rightarrow> error_context \<Rightarrow> nat \<Rightarrow> string option \<Rightarrow> api_client_error" where
  "response_body_decode_error status_text ctx status content_type =
     Decode ctx (''status='' @ status_text status @ '' content-type=''
       @ (case content_type of Some t \<Rightarrow> t | None \<Rightarrow> ''<missing>'') @ '': response body decode failed'')"

definition response_ctx :: "('h, 'u) built_response \<Rightarrow> error_context" where
  "response_ctx resp =
     \<lparr>ec_endpoint = rm_endpoint (rx_meta (brp_context resp)), ec_method = rm_method (rx_meta (brp_context resp))\<rparr>"

definition content_contract ::
  "error_context \<Rightarrow> ('h, 'u) built_response \<Rightarrow> bool \<Rightarrow> (api_client_error, unit) result" where
  "content_contract ctx resp no_content =
     (if rm_method (rx_meta (brp_context resp)) = ''HEAD'' \<and> \<not> no_content then Inl (HeadRequiresNoContent ctx)
      else if (brp_status resp = 204 \<or> brp_status resp = 205) \<and> \<not> no_content
      then Inl (NoContentStatusRequiresNoContent ctx (brp_status resp))
      else Inr ())"

definition validate_buffered_response ::
  "('h, 'u) built_response \<Rightarrow> bool \<Rightarrow> (api_client_error, error_context) result" where
  "validate_buffered_response resp no_content =
     rbind (content_contract (response_ctx resp) resp no_content) (\<lambda>_. Inr (response_ctx resp))"

definition response_content_type ::
  "('p, 'a, 'b, 'w, 'h, 'u) api_client \<Rightarrow> ('h, 'u) built_response \<Rightarrow> string option" where
  "response_content_type c resp =
     Option.bind (hmo_get (ac_headers c) (brp_headers resp) ''content-type'') (ac_to_str c)"

definition decoded_of :: "('h, 'u) built_response \<Rightarrow> 'v \<Rightarrow> ('h, 'u, 'v) decoded_response" where
  "decoded_of resp v =
     \<lparr>dr_meta = rx_meta (brp_context resp), dr_url = rx_logical_url (brp_context resp),
      dr_status = brp_status resp, dr_headers = brp_headers resp, dr_value = v\<rparr>"

definition decode_with ::
  "('p, 'a, 'b, 'w, 'h, 'u) api_client \<Rightarrow> 'v response_codec \<Rightarrow> error_context \<Rightarrow> ('h, 'u) built_response
    \<Rightarrow> u8 list \<Rightarrow> (api_client_error, ('h, 'u, 'v) decoded_response) result" where
  "decode_with c codec ctx resp bytes =
     (let content_type = response_content_type c resp in
      case rc_decode codec bytes
             \<lparr>dec_endpoint = ec_endpoint ctx, dec_method = ec_method ctx, dec_status = brp_status resp,
              dec_content_type = content_type\<rparr> of
        Inl _ \<Rightarrow> Inl (response_body_decode_error (ac_status_text c) ctx (brp_status resp) content_type)
      | Inr v \<Rightarrow> Inr (decoded_of resp v))"

definition decode_buffered_response_with_meta ::
  "('p, 'a, 'b, 'w, 'h, 'u) api_client \<Rightarrow> 'v response_codec \<Rightarrow> ('h, 'u) built_response
    \<Rightarrow> (api_client_error, ('h, 'u, 'v) decoded_response) result" where
  "decode_buffered_response_with_meta c codec resp =
     rbind (validate_buffered_response resp (rc_is_no_content codec)) (\<lambda>ctx.
     decode_with c codec ctx resp (if rc_is_no_content codec then [] else brp_bytes resp))"

definition decode_bytes_response_with_meta ::
  "('h, 'u) built_response \<Rightarrow> (api_client_error, ('h, 'u, u8 list) decoded_response) result" where
  "decode_bytes_response_with_meta resp =
     rbind (validate_buffered_response resp False) (\<lambda>_. Inr (decoded_of resp (brp_bytes resp)))"

definition decode_no_content_response_with_meta ::
  "('h, 'u) built_response \<Rightarrow> (api_client_error, ('h, 'u, unit) decoded_response) result" where
  "decode_no_content_response_with_meta resp =
     rbind (validate_buffered_response resp True) (\<lambda>_. Inr (decoded_of resp ()))"

definition decode_planned_response ::
  "('p, 'a, 'b, 'w, 'h, 'u) api_client \<Rightarrow> 'v response_codec \<Rightarrow> 'h request_plan_view \<Rightarrow> ('h, 'u) built_response
    \<Rightarrow> error_context \<Rightarrow> (api_client_error, ('h, 'u, 'v) decoded_response) result" where
  "decode_planned_response c codec plan resp ctx =
     rbind (content_contract ctx resp (rpv_no_content plan \<or> rc_is_no_content codec)) (\<lambda>_.
     decode_with c codec ctx resp (brp_bytes resp))"

section \<open>Executing a plan\<close>

definition then_decode ::
  "((api_client_error, 'r) result \<times> 's) option \<Rightarrow> ('r \<Rightarrow> (api_client_error, 'v) result)
    \<Rightarrow> ((api_client_error, 'v) result \<times> 's) option" where
  "then_decode run f = map_option (\<lambda>(r, st). (rbind r f, st)) run"

definition execute_plan ::
  "nat \<Rightarrow> ('p, 'a, 'b, 'w, 'h, 'u) api_client \<Rightarrow> 'v response_codec \<Rightarrow> ('h, 'b) request_plan
    \<Rightarrow> ('p, 'a, 'b, 'w) drive_state
    \<Rightarrow> ((api_client_error, ('h, 'u, 'v) decoded_response) result \<times> ('p, 'a, 'b, 'w) drive_state) option" where
  "execute_plan fuel c codec plan st =
     (let view = into_canonical_request_plan_view (rq_view plan) in
      then_decode (execute_plan_raw_with_body fuel c plan (rpv_no_content view) st)
        (\<lambda>resp. decode_planned_response c codec view resp (plan_ctx view)))"

definition execute_buffered_codec_response_with_meta ::
  "nat \<Rightarrow> ('p, 'a, 'b, 'w, 'h, 'u) api_client \<Rightarrow> 'v response_codec \<Rightarrow> ('h, 'b) request_plan
    \<Rightarrow> ('p, 'a, 'b, 'w) drive_state
    \<Rightarrow> ((api_client_error, ('h, 'u, 'v) decoded_response) result \<times> ('p, 'a, 'b, 'w) drive_state) option" where
  "execute_buffered_codec_response_with_meta fuel c codec plan st =
     then_decode (if rc_is_no_content codec then execute_plan_raw_skip_body fuel c plan st
                  else execute_plan_raw fuel c plan st)
       (decode_buffered_response_with_meta c codec)"

definition execute_bytes_response_with_meta ::
  "nat \<Rightarrow> ('p, 'a, 'b, 'w, 'h, 'u) api_client \<Rightarrow> ('h, 'b) request_plan \<Rightarrow> ('p, 'a, 'b, 'w) drive_state
    \<Rightarrow> ((api_client_error, ('h, 'u, u8 list) decoded_response) result \<times> ('p, 'a, 'b, 'w) drive_state) option" where
  "execute_bytes_response_with_meta fuel c plan st =
     then_decode (execute_plan_raw fuel c plan st) decode_bytes_response_with_meta"

definition execute_no_content_response_with_meta ::
  "nat \<Rightarrow> ('p, 'a, 'b, 'w, 'h, 'u) api_client \<Rightarrow> ('h, 'b) request_plan \<Rightarrow> ('p, 'a, 'b, 'w) drive_state
    \<Rightarrow> ((api_client_error, ('h, 'u, unit) decoded_response) result \<times> ('p, 'a, 'b, 'w) drive_state) option" where
  "execute_no_content_response_with_meta fuel c plan st =
     then_decode (execute_plan_raw_skip_body fuel c plan st) decode_no_content_response_with_meta"

definition value_of ::
  "((api_client_error, ('h, 'u, 'v) decoded_response) result \<times> 's) option
    \<Rightarrow> ((api_client_error, 'v) result \<times> 's) option" where
  "value_of run = then_decode run (\<lambda>decoded. Inr (dr_value decoded))"

definition execute_buffered_codec_response ::
  "nat \<Rightarrow> ('p, 'a, 'b, 'w, 'h, 'u) api_client \<Rightarrow> 'v response_codec \<Rightarrow> ('h, 'b) request_plan
    \<Rightarrow> ('p, 'a, 'b, 'w) drive_state
    \<Rightarrow> ((api_client_error, 'v) result \<times> ('p, 'a, 'b, 'w) drive_state) option" where
  "execute_buffered_codec_response fuel c codec plan st =
     value_of (execute_buffered_codec_response_with_meta fuel c codec plan st)"

definition execute_bytes_response ::
  "nat \<Rightarrow> ('p, 'a, 'b, 'w, 'h, 'u) api_client \<Rightarrow> ('h, 'b) request_plan \<Rightarrow> ('p, 'a, 'b, 'w) drive_state
    \<Rightarrow> ((api_client_error, u8 list) result \<times> ('p, 'a, 'b, 'w) drive_state) option" where
  "execute_bytes_response fuel c plan st = value_of (execute_bytes_response_with_meta fuel c plan st)"

definition execute_no_content_response ::
  "nat \<Rightarrow> ('p, 'a, 'b, 'w, 'h, 'u) api_client \<Rightarrow> ('h, 'b) request_plan \<Rightarrow> ('p, 'a, 'b, 'w) drive_state
    \<Rightarrow> ((api_client_error, unit) result \<times> ('p, 'a, 'b, 'w) drive_state) option" where
  "execute_no_content_response fuel c plan st = value_of (execute_no_content_response_with_meta fuel c plan st)"

text \<open>\<open>fill_accept\<close> is the response plan a streaming request is executed with.\<close>

definition fill_accept ::
  "('p, 'a, 'b, 'w, 'h, 'u) api_client \<Rightarrow> string \<Rightarrow> error_context \<Rightarrow> ('h, 'b) request_plan
    \<Rightarrow> (api_client_error, ('h, 'b) request_plan) result" where
  "fill_accept c media ctx plan =
     (case rq_accept plan of
        Some _ \<Rightarrow> Inr plan
      | None \<Rightarrow>
          rbind (ok_or (try_header_value (ac_from_str c) media) (InvalidParam ctx ''content_type'')) (\<lambda>accept.
          Inr (plan\<lparr>rq_accept := Some accept\<rparr>)))"

definition execute_stream_response ::
  "nat \<Rightarrow> ('p, 'a, 'b, 'w, 'h, 'u) api_client \<Rightarrow> string \<Rightarrow> ('h, 'b) request_plan \<Rightarrow> ('p, 'a, 'b, 'w) drive_state
    \<Rightarrow> ((api_client_error, 'h execution_response) result \<times> ('p, 'a, 'b, 'w) drive_state) option" where
  "execute_stream_response fuel c media plan0 st =
     (let ctx = plan_ctx (rq_view plan0) in
      case fill_accept c media ctx plan0 of
        Inl e \<Rightarrow> Some (Inl e, st)
      | Inr plan \<Rightarrow>
          (let view = into_canonical_request_plan_view (rq_view plan) in
           if rq_pagination plan then
             Some (Inl (PolicyViolation ctx ''stream responses do not support pagination''), st)
           else if rpv_no_content view then
             Some (Inl (PolicyViolation ctx ''stream responses cannot use a no-content response plan''), st)
           else
             then_decode
               (drive_executions fuel (ac_drive c) view (StreamFamily (ac_max_stream_response_body_bytes c))
                  (st\<lparr>ds_body := rq_body plan\<rparr>))
               (\<lambda>response.
                  if \<not> header_matches_media_type
                         (Option.bind (hmo_get (ac_headers c) (er_headers response) ''content-type'') (ac_to_str c))
                         media
                  then Inl (ResponseContract ctx
                              ''stream response content type did not match expected media type'')
                  else Inr response)))"

section \<open>Streaming responses\<close>

definition stream_error_context :: "'u response_context \<Rightarrow> error_context" where
  "stream_error_context context =
     \<lparr>ec_endpoint = rm_endpoint (rx_meta context), ec_method = rm_method (rx_meta context)\<rparr>"

definition stream_next_chunk ::
  "error_context \<Rightarrow> 'h execution_response \<Rightarrow> (api_client_error, u8 list option) result \<times> 'h execution_response"
  where
  "stream_next_chunk ctx response =
     (case next_chunk (er_body response) of
        (r, body) \<Rightarrow> (map_err (response_body_failure ctx) r, response\<lparr>er_body := body\<rparr>))"

text \<open>The file the chunks go to: creating, writing all of a buffer, and flushing.\<close>

record 'f file_ops =
  fl_create :: "'f \<Rightarrow> (string, unit) result \<times> 'f"
  fl_write_all :: "u8 list \<Rightarrow> 'f \<Rightarrow> (string, unit) result \<times> 'f"
  fl_flush :: "'f \<Rightarrow> (string, unit) result \<times> 'f"

function write_chunks ::
  "'f file_ops \<Rightarrow> error_context \<Rightarrow> 'h execution_response \<Rightarrow> 'f
    \<Rightarrow> (api_client_error, unit) result \<times> 'h execution_response \<times> 'f" where
  "write_chunks fs ctx response f =
     (case stream_next_chunk ctx response of
        (Inl e, response') \<Rightarrow> (Inl e, response', f)
      | (Inr None, response') \<Rightarrow> (Inr (), response', f)
      | (Inr (Some chunk), response') \<Rightarrow>
          (case fl_write_all fs chunk f of
             (Inl e, f') \<Rightarrow>
               (Inl (ResponseFile ctx ''failed to write stream response output file'' e), response', f')
           | (Inr _, f') \<Rightarrow> write_chunks fs ctx response' f'))"
  by pat_completeness auto

lemma stream_next_chunk_shrinks:
  "stream_next_chunk ctx response = (Inr (Some chunk), response')
    \<Longrightarrow> length (brs_body (er_body response')) < length (brs_body (er_body response))"
  by (auto simp: stream_next_chunk_def split: prod.splits dest: next_chunk_shrinks)

termination write_chunks
  by (relation "measure (\<lambda>(fs, ctx, response, f). length (brs_body (er_body response)))")
    (auto dest: stream_next_chunk_shrinks [OF sym])

declare write_chunks.simps [simp del]

definition write_to_file ::
  "'f file_ops \<Rightarrow> error_context \<Rightarrow> 'h execution_response \<Rightarrow> 'f
    \<Rightarrow> (api_client_error, unit) result \<times> 'h execution_response \<times> 'f" where
  "write_to_file fs ctx response f =
     (case fl_create fs f of
        (Inl e, f1) \<Rightarrow>
          (Inl (ResponseFile ctx ''failed to create stream response output file'' e), response, f1)
      | (Inr _, f1) \<Rightarrow>
          (case write_chunks fs ctx response f1 of
             (Inl e, response', f2) \<Rightarrow> (Inl e, response', f2)
           | (Inr _, response', f2) \<Rightarrow>
               (case fl_flush fs f2 of
                  (Inl e, f3) \<Rightarrow>
                    (Inl (ResponseFile ctx ''failed to flush stream response output file'' e), response', f3)
                | (Inr _, f3) \<Rightarrow> (Inr (), response', f3))))"

section \<open>Response entities\<close>

record response_entity_capabilities =
  rec_supports_pagination :: bool
  rec_is_streaming :: bool
  rec_is_no_content :: bool

record rt_response_entity_plan =
  rep_response_plan :: response_plan
  rep_capabilities :: response_entity_capabilities

definition response_plan_from_codec ::
  "'v response_codec \<Rightarrow> error_context \<Rightarrow> (api_client_error, response_plan) result" where
  "response_plan_from_codec codec ctx =
     rbind (ok_or (rc_try_accept codec) (InvalidParam ctx ''content_type'')) (\<lambda>accept.
     Inr \<lparr>rsp_accept = accept, rsp_no_content = rc_is_no_content codec, rsp_format = rc_format codec\<rparr>)"

definition buffered_plan ::
  "'v response_codec \<Rightarrow> error_context \<Rightarrow> (api_client_error, rt_response_entity_plan) result" where
  "buffered_plan codec ctx =
     rbind (response_plan_from_codec codec ctx) (\<lambda>plan.
     Inr \<lparr>rep_response_plan = plan,
          rep_capabilities = \<lparr>rec_supports_pagination = \<not> rc_is_no_content codec, rec_is_streaming = False,
            rec_is_no_content = rc_is_no_content codec\<rparr>\<rparr>)"

definition bytes_plan :: rt_response_entity_plan where
  "bytes_plan =
     \<lparr>rep_response_plan = \<lparr>rsp_accept = None, rsp_no_content = False, rsp_format = FmtBinary\<rparr>,
      rep_capabilities = \<lparr>rec_supports_pagination = False, rec_is_streaming = False, rec_is_no_content = False\<rparr>\<rparr>"

definition no_content_plan :: rt_response_entity_plan where
  "no_content_plan =
     \<lparr>rep_response_plan = \<lparr>rsp_accept = None, rsp_no_content = True, rsp_format = FmtText\<rparr>,
      rep_capabilities = \<lparr>rec_supports_pagination = False, rec_is_streaming = False, rec_is_no_content = True\<rparr>\<rparr>"

definition stream_response_plan ::
  "(string \<Rightarrow> string option) \<Rightarrow> string \<Rightarrow> error_context \<Rightarrow> (api_client_error, response_plan) result" where
  "stream_response_plan from_str media ctx =
     rbind (ok_or (try_header_value from_str media) (InvalidParam ctx ''content_type'')) (\<lambda>accept.
     Inr \<lparr>rsp_accept = Some accept, rsp_no_content = False, rsp_format = FmtBinary\<rparr>)"

definition raw_stream_plan ::
  "(string \<Rightarrow> string option) \<Rightarrow> string \<Rightarrow> error_context \<Rightarrow> (api_client_error, rt_response_entity_plan) result" where
  "raw_stream_plan from_str media ctx =
     rbind (stream_response_plan from_str media ctx) (\<lambda>plan.
     Inr \<lparr>rep_response_plan = plan,
          rep_capabilities = \<lparr>rec_supports_pagination = False, rec_is_streaming = True,
            rec_is_no_content = False\<rparr>\<rparr>)"

section \<open>Prepared endpoints\<close>

datatype prepared_authentication_placement = PaBearer | PaBasic | PaHeader string | PaQuery string

record request_authentication =
  ra_credential :: credential_id
  ra_placement :: prepared_authentication_placement
  ra_challenge :: auth_challenge_policy

definition authenticate_with ::
  "prepared_authentication_placement \<Rightarrow> credential_id \<Rightarrow> request_authentication" where
  "authenticate_with placement credential =
     \<lparr>ra_credential = credential, ra_placement = placement, ra_challenge = ChUnauthorized\<rparr>"

definition challenge_policy :: "auth_challenge_policy \<Rightarrow> request_authentication \<Rightarrow> request_authentication" where
  "challenge_policy policy a = a\<lparr>ra_challenge := policy\<rparr>"

definition into_requirement :: "request_authentication \<Rightarrow> auth_requirement" where
  "into_requirement a =
     \<lparr>ar_credential = ra_credential a,
      ar_placement =
        (case ra_placement a of
           PaBearer \<Rightarrow> PlBearer | PaBasic \<Rightarrow> PlBasic | PaHeader name \<Rightarrow> PlHeader name | PaQuery name \<Rightarrow> PlQuery name),
      ar_usage_id = ''prepared-endpoint'', ar_step_id = None, ar_provenance = ''advanced'',
      ar_challenge = ra_challenge a\<rparr>"

record 'b prepared_endpoint_core =
  pec_endpoint :: string
  pec_method :: string
  pec_path :: string
  pec_idempotent :: bool
  pec_request :: "('b, string) prepared_body"
  pec_authentication :: "request_authentication option"
  pec_timeout :: "duration option"

definition prepared_endpoint_new ::
  "string \<Rightarrow> string \<Rightarrow> string \<Rightarrow> ('b, string) prepared_body \<Rightarrow> 'b prepared_endpoint_core" where
  "prepared_endpoint_new endpoint meth path request =
     \<lparr>pec_endpoint = endpoint, pec_method = meth, pec_path = path,
      pec_idempotent = (meth \<in> {''GET'', ''HEAD'', ''PUT'', ''DELETE'', ''OPTIONS'', ''TRACE''}),
      pec_request = request, pec_authentication = None, pec_timeout = None\<rparr>"

definition prepared_endpoint_authentication ::
  "request_authentication \<Rightarrow> 'b prepared_endpoint_core \<Rightarrow> 'b prepared_endpoint_core" where
  "prepared_endpoint_authentication a e = e\<lparr>pec_authentication := Some a\<rparr>"

definition prepared_endpoint_idempotent :: "bool \<Rightarrow> 'b prepared_endpoint_core \<Rightarrow> 'b prepared_endpoint_core" where
  "prepared_endpoint_idempotent b e = e\<lparr>pec_idempotent := b\<rparr>"

definition prepared_endpoint_timeout :: "duration \<Rightarrow> 'b prepared_endpoint_core \<Rightarrow> 'b prepared_endpoint_core" where
  "prepared_endpoint_timeout d e = e\<lparr>pec_timeout := Some d\<rparr>"

definition core_error_context :: "'b prepared_endpoint_core \<Rightarrow> error_context" where
  "core_error_context e = \<lparr>ec_endpoint = pec_endpoint e, ec_method = pec_method e\<rparr>"

text \<open>What a client type fixes: scheme, domain, base route and base policy (\<open>ClientContext\<close>).\<close>

record 'h client_context =
  cx_scheme :: string
  cx_domain :: string
  cx_base_route :: route_builder
  cx_base_policy :: "error_context \<Rightarrow> (api_client_error, 'h policy) result"

definition valid_prepared_path :: "string \<Rightarrow> bool" where
  "valid_prepared_path path \<longleftrightarrow>
     starts_with path ''/'' \<and> CHR ''?'' \<notin> set path \<and> CHR ''#'' \<notin> set path \<and> CHR 92 \<notin> set path"

definition into_plan ::
  "('h, string) header_map_ops \<Rightarrow> 'h client_context \<Rightarrow> response_plan \<Rightarrow> 'b prepared_endpoint_core
    \<Rightarrow> (api_client_error, ('h, 'b) request_plan) result" where
  "into_plan hops cx response e =
     (let ctx = core_error_context e in
      if \<not> valid_prepared_path (pec_path e) then Inl (InvalidParam ctx ''path'')
      else
        (let path = push_raw (pec_path e) (rb_path (cx_base_route cx)) in
         rbind (validate_host (rb_host (cx_base_route cx)) ctx) (\<lambda>_.
         rbind (cx_base_policy cx ctx) (\<lambda>base.
         let runtime = set_layer LyRuntime base;
             policy =
               (if pec_method e \<noteq> ''HEAD'' \<and> \<not> rsp_no_content response
                then (case rsp_accept response of
                        Some accept \<Rightarrow> ensure_accept hops accept runtime
                      | None \<Rightarrow> runtime)
                else runtime)
         in case into_parts policy of
              (headers, query, timeout, limits) \<Rightarrow>
                Inr \<lparr>rq_view =
                       \<lparr>rpv_name = pec_endpoint e, rpv_method = pec_method e,
                        rpv_idempotent = pec_idempotent e, rpv_scheme = cx_scheme cx,
                        rpv_host = join_host (rb_host (cx_base_route cx)) (cx_domain cx),
                        rpv_path = as_str path, rpv_headers = headers, rpv_query = query,
                        rpv_timeout = timeout, rpv_rate_limit = canonicalize limits,
                        rpv_auth = (case pec_authentication e of
                                      Some a \<Rightarrow> [into_requirement a] | None \<Rightarrow> []),
                        rpv_no_content = rsp_no_content response,
                        rpv_override_timeout = pec_timeout e, rpv_page_index = 0\<rparr>,
                     rq_accept = rsp_accept response, rq_format = rsp_format response,
                     rq_pagination = False, rq_body = pec_request e\<rparr>))))"

definition prepared_endpoint_response ::
  "nat \<Rightarrow> ('p, 'a, 'b, 'w, 'h, 'u) api_client \<Rightarrow> 'h client_context \<Rightarrow> 'v response_codec
    \<Rightarrow> 'b prepared_endpoint_core \<Rightarrow> ('p, 'a, 'b, 'w) drive_state
    \<Rightarrow> ((api_client_error, ('h, 'u, 'v) decoded_response) result \<times> ('p, 'a, 'b, 'w) drive_state) option" where
  "prepared_endpoint_response fuel c cx codec e st =
     (case rbind (response_plan_from_codec codec (core_error_context e)) (\<lambda>response.
             into_plan (ac_headers c) cx response e) of
        Inl err \<Rightarrow> Some (Inl err, st)
      | Inr plan \<Rightarrow> execute_buffered_codec_response_with_meta fuel c codec plan st)"

definition prepared_endpoint_execute ::
  "nat \<Rightarrow> ('p, 'a, 'b, 'w, 'h, 'u) api_client \<Rightarrow> 'h client_context \<Rightarrow> 'v response_codec
    \<Rightarrow> 'b prepared_endpoint_core \<Rightarrow> ('p, 'a, 'b, 'w) drive_state
    \<Rightarrow> ((api_client_error, 'v) result \<times> ('p, 'a, 'b, 'w) drive_state) option" where
  "prepared_endpoint_execute fuel c cx codec e st =
     (case rbind (response_plan_from_codec codec (core_error_context e)) (\<lambda>response.
             into_plan (ac_headers c) cx response e) of
        Inl err \<Rightarrow> Some (Inl err, st)
      | Inr plan \<Rightarrow> execute_buffered_codec_response fuel c codec plan st)"

definition prepared_stream_endpoint_execute ::
  "nat \<Rightarrow> ('p, 'a, 'b, 'w, 'h, 'u) api_client \<Rightarrow> 'h client_context \<Rightarrow> string
    \<Rightarrow> 'b prepared_endpoint_core \<Rightarrow> ('p, 'a, 'b, 'w) drive_state
    \<Rightarrow> ((api_client_error, 'h execution_response) result \<times> ('p, 'a, 'b, 'w) drive_state) option" where
  "prepared_stream_endpoint_execute fuel c cx media e st =
     (case rbind (stream_response_plan (ac_from_str c) media (core_error_context e)) (\<lambda>response.
             into_plan (ac_headers c) cx response e) of
        Inl err \<Rightarrow> Some (Inl err, st)
      | Inr plan \<Rightarrow> execute_stream_response fuel c media plan st)"

section \<open>Facts\<close>

lemma round_builds_url:
  assumes "drive_round env plan family rebuildable locals st = Some (step, l1, st1)"
    and "\<And>e. step \<noteq> Finished (Inl e)"
  shows "\<exists>url. build_url (dv_head env) plan = Inr url"
  using assms
  by (auto simp: drive_round_def prepare_head_def resolve_public_request_head_def Let_def rbind_Inr_iff
      split: sum.splits)

text \<open>A request that succeeds was sent to a URL, so the context of its response exists.\<close>

lemma success_has_url:
  assumes "drive_loop fuel env plan family rebuildable locals st = Some (Inr response, st')"
  shows "\<exists>url. build_url (dv_head env) plan = Inr url"
  using assms
proof (induction fuel arbitrary: locals st)
  case (Suc fuel)
  obtain step l1 st1 where dr: "drive_round env plan family rebuildable locals st = Some (step, l1, st1)"
    using Suc.prems by (auto split: option.splits)
  then have "step \<noteq> Finished (Inl e)" for e using Suc.prems by auto
  from round_builds_url [OF dr this] show ?case .
qed simp

lemma canonical_plan [simp]:
  "plan_ctx (into_canonical_request_plan_view view) = plan_ctx view"
  "plan_meta (into_canonical_request_plan_view view) = plan_meta view"
  "rpv_no_content (into_canonical_request_plan_view view) = rpv_no_content view"
  "rpv_method (into_canonical_request_plan_view view) = rpv_method view"
  by (simp_all add: into_canonical_request_plan_view_def plan_ctx_def plan_meta_def)

lemma raw_success:
  assumes "execute_plan_raw_with_body fuel c plan skip st = Some (Inr resp, st')"
  obtains response where
    "drive_executions fuel (ac_drive c) (into_canonical_request_plan_view (rq_view plan))
       (Buffered skip (ac_max_response_body_bytes c)) (st\<lparr>ds_body := rq_body plan\<rparr>) = Some (Inr response, st')"
    "brp_status resp = er_status response"
    "rx_meta (brp_context resp) = plan_meta (rq_view plan)"
    "build_url (dv_head (ac_drive c)) (into_canonical_request_plan_view (rq_view plan))
       = Inr (rx_logical_url (brp_context resp))"
    "if skip then brp_bytes resp = [] else fst (collect_bytes (er_body response)) = Inr (brp_bytes resp)"
proof -
  let ?view = "into_canonical_request_plan_view (rq_view plan)"
  from assms obtain r where run: "drive_executions fuel (ac_drive c) ?view
      (Buffered skip (ac_max_response_body_bytes c)) (st\<lparr>ds_body := rq_body plan\<rparr>) = Some (r, st')"
    and r: "rbind r (\<lambda>response. rbind (plan_response_context (dv_head (ac_drive c)) ?view) (\<lambda>context.
        buffer_response context response skip (plan_ctx ?view))) = Inr resp"
    unfolding execute_plan_raw_with_body_def Let_def
    by (cases "drive_executions fuel (ac_drive c) ?view (Buffered skip (ac_max_response_body_bytes c))
        (st\<lparr>ds_body := rq_body plan\<rparr>)") auto
  from r obtain response rx where response: "r = Inr response"
    and rx: "plan_response_context (dv_head (ac_drive c)) ?view = Inr rx"
    and buffered: "buffer_response rx response skip (plan_ctx ?view) = Inr resp"
    by (auto elim!: rbind_InrE)
  have "rx_meta rx = plan_meta (rq_view plan)"
    "build_url (dv_head (ac_drive c)) ?view = Inr (rx_logical_url rx)"
    using rx by (auto simp: plan_response_context_def rbind_Inr_iff)
  moreover have "brp_status resp = er_status response" "brp_context resp = rx"
    "if skip then brp_bytes resp = [] else fst (collect_bytes (er_body response)) = Inr (brp_bytes resp)"
    using buffered by (auto simp: buffer_response_def rbind_Inr_iff split: if_splits)
  ultimately show thesis using run response that [of response] by simp
qed

lemma raw_response_ctx:
  assumes "execute_plan_raw_with_body fuel c plan skip st = Some (Inr resp, st')"
  shows "response_ctx resp = plan_ctx (rq_view plan) \<and> (skip \<longrightarrow> brp_bytes resp = [])"
  using raw_success [OF assms] by (fastforce simp: response_ctx_def plan_ctx_def plan_meta_def)

lemma then_decode_cong:
  assumes "\<And>resp st'. run = Some (Inr resp, st') \<Longrightarrow> f resp = g resp"
  shows "then_decode run f = then_decode run g"
  using assms by (cases run) (auto simp: then_decode_def rbind_def split: sum.splits)

lemma then_decode_Inr:
  "then_decode run f = Some (Inr v, st) \<longleftrightarrow> (\<exists>r. run = Some (Inr r, st) \<and> f r = Inr v)"
  by (cases run) (auto simp: then_decode_def rbind_Inr_iff)

text \<open>
  Property C27: the two ways to execute a buffered plan agree. When the plan and the codec agree on
  whether the response has content, \<open>execute_plan\<close> and the path of the response entities have the same
  outcome, errors, decoded value and effects included.
\<close>

theorem execute_plan_agrees:
  assumes "rpv_no_content (rq_view plan) = rc_is_no_content codec"
  shows "execute_plan fuel c codec plan st = execute_buffered_codec_response_with_meta fuel c codec plan st"
  unfolding execute_plan_def execute_buffered_codec_response_with_meta_def execute_plan_raw_def
    execute_plan_raw_skip_body_def Let_def
  using assms
  by (auto intro!: then_decode_cong dest!: raw_response_ctx
      simp: decode_planned_response_def decode_buffered_response_with_meta_def
        validate_buffered_response_def rbind_def split: sum.splits)

text \<open>The limit of the stream bounds what collecting it returns.\<close>

lemma next_chunk_data:
  assumes "next_chunk s = (Inr (Some data), s')" and "brs_limit s = Some limit"
  shows "brs_limit s' = Some limit \<and> brs_seen s' = saturating_add (brs_seen s) (word_of_nat (length data))
    \<and> brs_seen s' \<le> limit \<and> body_data (brs_body s) = data @ body_data (brs_body s')"
  using assms
proof (induction s rule: next_chunk.induct)
  case (1 s)
  obtain r s1 where p: "poll_frame s = (r, s1)" by fastforce
  show ?case
  proof (cases "r = Some (Inr FTrailers)")
    case True
    then have "brs_limit s1 = Some limit \<and> brs_seen s1 = brs_seen s
        \<and> body_data (brs_body s) = body_data (brs_body s1)"
      using p 1(3) by (auto simp: poll_frame_def Let_def
          split: if_splits list.splits body_item.splits frame.splits option.splits)
    moreover have "next_chunk s1 = (Inr (Some data), s')"
      using 1(2) p True by (simp add: next_chunk.simps [of s])
    ultimately show ?thesis using 1(1) p True by metis
  next
    case False
    with 1(2,3) p show ?thesis
      by (auto simp: next_chunk.simps [of s] poll_frame_def Let_def not_less
          split: if_splits list.splits body_item.splits frame.splits option.splits)
  qed
qed

lemma collected_counts:
  assumes "collect_bytes s = (Inr bytes, s')" and "brs_limit s = Some limit"
    and "length (body_data (brs_body s)) < 2 ^ 64"
  shows "length bytes \<le> length (body_data (brs_body s))
    \<and> (bytes \<noteq> [] \<longrightarrow> min (unat (brs_seen s) + length bytes) (2 ^ 64 - 1) \<le> unat limit)"
  using assms
proof (induction s arbitrary: bytes rule: collect_bytes.induct)
  case (1 s)
  obtain r s1 where chunk: "next_chunk s = (r, s1)" by fastforce
  show ?case
  proof (cases "\<exists>data. r = Inr (Some data)")
    case False
    then have "bytes = []"
      using 1(2) chunk by (auto simp: collect_bytes.simps [of s] split: sum.splits option.splits)
    then show ?thesis by simp
  next
    case True
    then obtain data where data: "next_chunk s = (Inr (Some data), s1)" using chunk by auto
    note facts = next_chunk_data [OF data 1(3)]
    obtain rest where rest: "collect_bytes s1 = (Inr rest, s')" and bytes: "bytes = data @ rest"
      using 1(2) data by (auto simp: collect_bytes.simps [of s] split: sum.splits prod.splits)
    have len: "length data + length (body_data (brs_body s1)) < 2 ^ 64" using facts 1(4) by simp
    have max: "unat (- 1 :: u64) = 2 ^ 64 - 1" by (simp add: unsigned_minus_1_eq_mask mask_eq_exp_minus_1)
    have seen: "unat (brs_seen s1) = min (unat (brs_seen s) + length data) (2 ^ 64 - 1)"
      using facts len max by (simp add: saturating_add_unat unat_of_nat take_bit_nat_eq_self)
    have "length rest \<le> length (body_data (brs_body s1))
        \<and> (rest \<noteq> [] \<longrightarrow> min (unat (brs_seen s1) + length rest) (2 ^ 64 - 1) \<le> unat limit)"
      using 1(1) [OF data [symmetric] refl refl rest] facts len by simp
    moreover have "unat (brs_seen s1) \<le> unat limit" using facts by (metis word_le_nat_alt)
    ultimately show ?thesis
      using seen facts bytes by (cases "rest = []") (auto simp: min_def split: if_splits)
  qed
qed

lemma collected_within_limit:
  assumes "brs_limit s = Some limit" and "length (body_data (brs_body s)) < 2 ^ 64"
    and "fst (collect_bytes s) = Inr bytes"
  shows "length bytes \<le> unat limit"
  using collected_counts [of s bytes "snd (collect_bytes s)" limit] assms
  by (cases "bytes = []") (auto simp: min_def prod_eq_iff split: if_splits)

text \<open>
  Property C26: a buffered request that succeeds returns what was decoded from a complete response. The
  response has a success status; a codec that expects content never sees a HEAD request, a 204 or a
  205; the value is what the codec made of the whole collected body, or of no bytes for a codec
  without content; and the body is within the configured limit.
\<close>

theorem buffered_response_end_to_end:
  assumes "execute_buffered_codec_response_with_meta fuel c codec plan st = Some (Inr decoded, st')"
  shows "200 \<le> dr_status decoded \<and> dr_status decoded < 300
    \<and> (\<not> rc_is_no_content codec \<longrightarrow>
          rpv_method (rq_view plan) \<noteq> ''HEAD'' \<and> dr_status decoded \<noteq> 204 \<and> dr_status decoded \<noteq> 205)
    \<and> (\<exists>response bytes dctx.
          drive_executions fuel (ac_drive c) (into_canonical_request_plan_view (rq_view plan))
            (Buffered (rc_is_no_content codec) (ac_max_response_body_bytes c)) (st\<lparr>ds_body := rq_body plan\<rparr>)
            = Some (Inr response, st')
          \<and> rc_decode codec bytes dctx = Inr (dr_value decoded)
          \<and> (if rc_is_no_content codec then bytes = []
             else fst (collect_bytes (er_body response)) = Inr bytes)
          \<and> (\<forall>l. ac_max_response_body_bytes c = Some l \<longrightarrow>
               length (body_data (brs_body (er_body response))) < 2 ^ 64 \<longrightarrow> length bytes \<le> l))"
proof -
  let ?nc = "rc_is_no_content codec"
  from assms obtain resp where raw: "execute_plan_raw_with_body fuel c plan ?nc st = Some (Inr resp, st')"
    and decode: "decode_buffered_response_with_meta c codec resp = Inr decoded"
    by (auto simp: execute_buffered_codec_response_with_meta_def then_decode_Inr execute_plan_raw_def
        execute_plan_raw_skip_body_def split: if_splits)
  from raw_success [OF raw] obtain response where
    run: "drive_executions fuel (ac_drive c) (into_canonical_request_plan_view (rq_view plan))
        (Buffered ?nc (ac_max_response_body_bytes c)) (st\<lparr>ds_body := rq_body plan\<rparr>) = Some (Inr response, st')"
    and status: "brp_status resp = er_status response"
    and meta: "rx_meta (brp_context resp) = plan_meta (rq_view plan)"
    and bytes: "if ?nc then brp_bytes resp = []
      else fst (collect_bytes (er_body response)) = Inr (brp_bytes resp)" by blast
  from decode obtain ctx where contract: "content_contract (response_ctx resp) resp ?nc = Inr ()"
    and made: "decode_with c codec ctx resp (brp_bytes resp) = Inr decoded"
    using bytes by (auto simp: decode_buffered_response_with_meta_def validate_buffered_response_def
        rbind_Inr_iff split: if_splits)
  from made obtain dctx where dctx: "rc_decode codec (brp_bytes resp) dctx = Inr (dr_value decoded)"
    and dstatus: "dr_status decoded = er_status response"
    using status by (auto simp: decode_with_def Let_def decoded_of_def split: sum.splits)
  have accepted: "accepted_response (Buffered ?nc (ac_max_response_body_bytes c)) response"
    using drive_loop_success run unfolding drive_executions_def by blast
  then have "length (brp_bytes resp) \<le> l"
    if "ac_max_response_body_bytes c = Some l" "length (body_data (brs_body (er_body response))) < 2 ^ 64" for l
    using that bytes
    by (auto simp: accepted_response_def family_limit_def split: if_splits
        dest!: collected_within_limit [rotated 2])
  moreover have "200 \<le> dr_status decoded \<and> dr_status decoded < 300"
    using accepted dstatus by (auto simp: accepted_response_def classify_status_def split: if_splits)
  moreover have "\<not> ?nc \<longrightarrow> rpv_method (rq_view plan) \<noteq> ''HEAD'' \<and> dr_status decoded \<noteq> 204
      \<and> dr_status decoded \<noteq> 205"
    using contract meta status dstatus by (auto simp: content_contract_def plan_meta_def split: if_splits)
  ultimately show ?thesis using run dctx bytes by blast
qed

section \<open>Files\<close>

text \<open>What is relied on of a file: creating empties it, a write that succeeds appends the buffer.\<close>

definition file_laws :: "'f file_ops \<Rightarrow> ('f \<Rightarrow> u8 list) \<Rightarrow> bool" where
  "file_laws fs contents \<longleftrightarrow>
     (\<forall>f f'. fl_create fs f = (Inr (), f') \<longrightarrow> contents f' = [])
     \<and> (\<forall>b f f'. fl_write_all fs b f = (Inr (), f') \<longrightarrow> contents f' = contents f @ b)
     \<and> (\<forall>f f'. fl_flush fs f = (Inr (), f') \<longrightarrow> contents f' = contents f)"

definition reliable_file :: "'f file_ops \<Rightarrow> bool" where
  "reliable_file fs \<longleftrightarrow>
     (\<forall>f. fst (fl_create fs f) = Inr ()) \<and> (\<forall>b f. fst (fl_write_all fs b f) = Inr ())
     \<and> (\<forall>f. fst (fl_flush fs f) = Inr ())"

definition collect_outcome :: "error_context \<Rightarrow> bounded_response_stream \<Rightarrow> (api_client_error, unit) result" where
  "collect_outcome ctx s = map_err (response_body_failure ctx) (forget (fst (collect_bytes s)))"

lemma write_chunks_collects:
  assumes "file_laws fs contents"
  shows "(fst (write_chunks fs ctx response f) = Inr () \<longrightarrow>
       (\<exists>data. fst (collect_bytes (er_body response)) = Inr data
          \<and> contents (snd (snd (write_chunks fs ctx response f))) = contents f @ data))
    \<and> (reliable_file fs \<longrightarrow> fst (write_chunks fs ctx response f) = collect_outcome ctx (er_body response))"
  using assms
proof (induction fs ctx response f rule: write_chunks.induct)
  case (1 fs ctx response f)
  obtain r s1 where chunk: "next_chunk (er_body response) = (r, s1)" by fastforce
  show ?case
  proof (cases "\<exists>data. r = Inr (Some data)")
    case False
    then show ?thesis
      using chunk
      by (auto simp: write_chunks.simps [of fs] stream_next_chunk_def collect_bytes.simps [of "er_body response"]
          collect_outcome_def forget_def map_err_def split: sum.splits option.splits)
  next
    case True
    then obtain data where "r = Inr (Some data)" by blast
    let ?next = "response\<lparr>er_body := s1\<rparr>"
    have next_step: "stream_next_chunk ctx response = (Inr (Some data), ?next)"
      using chunk \<open>r = _\<close> by (simp add: stream_next_chunk_def)
    obtain w f1 where wrote: "fl_write_all fs data f = (w, f1)" by fastforce
    show ?thesis
    proof (cases w)
      case (Inl e)
      then have "\<not> reliable_file fs" using wrote by (metis reliable_file_def fst_conv Inl_Inr_False)
      then show ?thesis using Inl wrote next_step by (simp add: write_chunks.simps [of fs])
    next
      case (Inr u)
      then have w: "fl_write_all fs data f = (Inr (), f1)" using wrote by simp
      have step: "write_chunks fs ctx response f = write_chunks fs ctx ?next f1"
        using w next_step by (simp add: write_chunks.simps [of fs ctx response])
      have "contents f1 = contents f @ data" using 1(2) w by (auto simp: file_laws_def)
      moreover have "collect_bytes (er_body response) = (case collect_bytes s1 of
          (Inl e, s) \<Rightarrow> (Inl e, s) | (Inr rest, s) \<Rightarrow> (Inr (data @ rest), s))"
        using chunk \<open>r = _\<close> by (simp add: collect_bytes.simps [of "er_body response"])
      moreover note 1(1) [OF next_step [symmetric] refl refl w [symmetric] refl 1(2)]
      ultimately show ?thesis
        by (auto simp: step collect_outcome_def forget_def split: prod.splits sum.splits)
    qed
  qed
qed

text \<open>
  Property C28: writing a stream to a file stores what buffering it would return. When \<open>write_to_file\<close>
  succeeds the file holds exactly the collected body; a stream that cannot be collected is never
  reported as written; and with a reliable file the outcome is that of collecting, with the same error.
\<close>

theorem file_holds_collected_body:
  assumes "file_laws fs contents"
  shows "(fst (write_to_file fs ctx response f) = Inr () \<longrightarrow>
       fst (collect_bytes (er_body response)) = Inr (contents (snd (snd (write_to_file fs ctx response f)))))
    \<and> (reliable_file fs \<longrightarrow>
       fst (write_to_file fs ctx response f)
         = map_err (response_body_failure ctx) (forget (fst (collect_bytes (er_body response)))))"
proof -
  obtain r f1 where create: "fl_create fs f = (r, f1)" by fastforce
  obtain r' response' f2 where chunks: "write_chunks fs ctx response f1 = (r', response', f2)"
    using prod_cases3 by blast
  obtain r'' f3 where flush: "fl_flush fs f2 = (r'', f3)" by fastforce
  have unreliable: "\<not> reliable_file fs" if "r = Inl e \<or> r'' = Inl e" for e
    using that create flush by (metis reliable_file_def fst_conv Inl_Inr_False)
  have "r = Inr () \<longrightarrow> contents f1 = []" "r'' = Inr () \<longrightarrow> contents f3 = contents f2"
    using assms create flush by (auto simp: file_laws_def)
  then show ?thesis
    using write_chunks_collects [OF assms, of ctx response f1] create chunks flush unreliable
    by (auto simp: write_to_file_def collect_outcome_def split: sum.splits)
qed

definition list_file :: "u8 list file_ops" where
  "list_file =
     \<lparr>fl_create = (\<lambda>f. (Inr (), [])), fl_write_all = (\<lambda>b f. (Inr (), f @ b)), fl_flush = (\<lambda>f. (Inr (), f))\<rparr>"

lemma run_result_collected: "fst (collect_bytes (er_body run_result)) = Inr [1, 2]"
  by (simp add: run_result_def run_response_def set_limit_def collect_bytes.simps next_chunk.simps
      poll_frame_def Let_def saturating_add_def checked_add_def)

theorem file_holds_collected_body_witness:
  "fst (write_to_file list_file \<lparr>ec_endpoint = ''e'', ec_method = ''GET''\<rparr> run_result [9]) = Inr ()
   \<and> snd (snd (write_to_file list_file \<lparr>ec_endpoint = ''e'', ec_method = ''GET''\<rparr> run_result [9])) = [1, 2]"
proof -
  let ?run = "write_to_file list_file \<lparr>ec_endpoint = ''e'', ec_method = ''GET''\<rparr> run_result [9]"
  have "file_laws list_file (\<lambda>f. f)" and reliable: "reliable_file list_file"
    by (auto simp: file_laws_def reliable_file_def list_file_def)
  note written = file_holds_collected_body [OF this(1), of "\<lparr>ec_endpoint = ''e'', ec_method = ''GET''\<rparr>" run_result "[9]"]
  then have "fst ?run = Inr ()" using reliable run_result_collected by (simp add: forget_def)
  with written run_result_collected show ?thesis by simp
qed

section \<open>Media types with parameters\<close>

lemma trim_end_subset: "set (trim_end s) \<subseteq> set s"
proof (induction s rule: trim_end.induct)
  case (1 s)
  then show ?case using set_take_subset [of _ s] by (simp add: trim_end.simps [of s]) blast
qed

lemma trim_start_subset: "set (trim_start s) \<subseteq> set s"
proof (induction s rule: trim_start.induct)
  case (1 s)
  then show ?case using set_drop_subset [of _ s] by (simp add: trim_start.simps [of s]) blast
qed

lemma ascii_lower_semicolon: "ascii_lower c = CHR '';'' \<longleftrightarrow> c = CHR '';''"
proof -
  have "char_of (n + 32) \<noteq> CHR '';''" if "65 \<le> n" "n \<le> 90" for n :: nat
  proof
    assume "char_of (n + 32) = CHR '';''"
    then have "(of_char (char_of (n + 32) :: char) :: nat) = 59" by simp
    then show False using that by simp
  qed
  then show ?thesis by (auto simp: ascii_lower_def Let_def)
qed

lemma parameterised_media_never_match:
  assumes "CHR '';'' \<in> set expected"
  shows "\<not> header_matches_media_type v expected"
proof (cases v)
  case (Some v1)
  let ?base = "trim (takeWhile (\<lambda>c. c \<noteq> CHR '';'') v1)"
  have "set ?base \<subseteq> set (takeWhile (\<lambda>c. c \<noteq> CHR '';'') v1)"
    unfolding trim_def using trim_end_subset trim_start_subset by blast
  then have "CHR '';'' \<notin> set ?base" by (auto dest: set_takeWhileD)
  then have "CHR '';'' \<notin> set (to_ascii_lowercase ?base)"
    by (metis (no_types, lifting) to_ascii_lowercase_def ascii_lower_semicolon imageE list.set_map)
  moreover have "CHR '';'' \<in> set (to_ascii_lowercase expected)"
    using assms by (metis (no_types, lifting) to_ascii_lowercase_def ascii_lower_semicolon image_eqI list.set_map)
  ultimately have "to_ascii_lowercase ?base \<noteq> to_ascii_lowercase expected" by metis
  then show ?thesis using Some by (simp add: header_matches_media_type_def eq_ignore_ascii_case_iff)
qed (simp add: header_matches_media_type_def)


section \<open>A sample response\<close>

definition run_client :: "(unit, nat, nat, nat, sample_headers, string) api_client" where
  "run_client =
     \<lparr>ac_drive = run_env, ac_max_response_body_bytes = Some 2, ac_max_stream_response_body_bytes = None,
      ac_to_str = Some, ac_status_text = (\<lambda>_. [])\<rparr>"

definition run_request :: "(sample_headers, nat) request_plan" where
  "run_request =
     \<lparr>rq_view = run_plan, rq_accept = None, rq_format = FmtBinary, rq_pagination = False,
      rq_body = ds_body run_start\<rparr>"

definition octets_codec :: "u8 list response_codec" where
  "octets_codec =
     \<lparr>rc_try_accept = Some None, rc_is_no_content = False, rc_format = FmtBinary,
      rc_decode = (\<lambda>bytes _. Inr bytes)\<rparr>"

lemma run_plan_canonical [simp]: "into_canonical_request_plan_view run_plan = run_plan"
  by (simp add: into_canonical_request_plan_view_def run_plan_def sample_plan_view_def canonicalize_def
      plan_new_def)

lemma sample_response:
  "\<exists>decoded st'. execute_buffered_codec_response_with_meta 2 run_client octets_codec run_request run_start
     = Some (Inr decoded, st') \<and> dr_value decoded = [1, 2]"
proof -
  obtain st' where run: "drive_executions 2 run_env run_plan (Buffered False (Some 2)) run_start
      = Some (Inr run_result, st')" using sample_run by blast
  have url: "build_url list_head_ops run_plan = Inr ''https://h/''"
    by (simp add: build_url_def list_head_ops_def run_plan_def sample_plan_view_def)
  show ?thesis
    using run url run_result_collected
    by (simp add: execute_buffered_codec_response_with_meta_def execute_plan_raw_def
        execute_plan_raw_with_body_def then_decode_def run_client_def run_request_def octets_codec_def
        plan_response_context_def run_env_def [THEN arg_cong [of _ _ dv_head]] buffer_response_def
        decode_buffered_response_with_meta_def validate_buffered_response_def content_contract_def
        decode_with_def decoded_of_def plan_meta_def run_plan_def [THEN arg_cong [of _ _ rpv_method]]
        sample_plan_view_def run_result_def [THEN arg_cong [of _ _ er_status]] run_response_def)
qed

theorem buffered_response_end_to_end_witness:
  "\<exists>decoded st'. execute_buffered_codec_response_with_meta 2 run_client octets_codec run_request run_start
     = Some (Inr decoded, st') \<and> dr_status decoded < 300 \<and> dr_value decoded = [1, 2]"
  using sample_response buffered_response_end_to_end by blast

theorem execute_plan_agrees_witness:
  "execute_plan 2 run_client octets_codec run_request run_start
     = execute_buffered_codec_response_with_meta 2 run_client octets_codec run_request run_start"
  by (rule execute_plan_agrees)
    (simp add: run_request_def run_plan_def sample_plan_view_def octets_codec_def)

end
