(* ===== verification/ClientConfig.thy ===== *)
theory ClientConfig
  imports RetryMode HeaderRules Transport
begin

text \<open>
  Constructing and configuring clients (\<open>client/api.rs\<close>, \<open>runtime/config.rs\<close>, \<open>runtime_state.rs\<close>, the
  managed builder of \<open>transport.rs\<close>). A client is a value that shares two cells with its clones: the
  runtime settings behind an \<open>Arc\<close> that is copied on write, and the authentication state behind an
  \<open>Arc<RwLock>\<close> that is not. The cells live in an explicit store with reference counts. Hooks, limiters
  and debug sinks are opaque values; a native client builder is the list of what it was told.
\<close>

section \<open>Runtime settings\<close>

datatype debug_level = DebugNone | DebugV | DebugVv

record ('k, 'l) client_runtime_state =
  crs_hooks :: 'k
  crs_rate_limiter :: 'l
  crs_max_rate_limit_cooldown :: duration
  crs_max_response_body_bytes :: "nat option"
  crs_max_request_body_bytes :: "nat option"
  crs_max_stream_response_body_bytes :: "nat option"

record ('k, 'l, 's) runtime_config =
  cfg_hooks :: 'k
  cfg_rate_limiter :: 'l
  cfg_max_rate_limit_cooldown :: duration
  cfg_pagination_detect_loops :: bool
  cfg_debug_level :: debug_level
  cfg_debug_sink :: 's
  cfg_max_response_body_bytes :: "nat option"
  cfg_max_request_body_bytes :: "nat option"
  cfg_max_stream_response_body_bytes :: "nat option"

definition runtime_config_default :: "'k \<Rightarrow> 'l \<Rightarrow> 's \<Rightarrow> ('k, 'l, 's) runtime_config" where
  "runtime_config_default noop_hooks default_limiter stderr_sink =
     \<lparr>cfg_hooks = noop_hooks, cfg_rate_limiter = default_limiter,
      cfg_max_rate_limit_cooldown = secs 60, cfg_pagination_detect_loops = True,
      cfg_debug_level = DebugNone, cfg_debug_sink = stderr_sink,
      cfg_max_response_body_bytes = Some (16 * 1024 * 1024),
      cfg_max_request_body_bytes = Some (16 * 1024 * 1024),
      cfg_max_stream_response_body_bytes = Some (16 * 1024 * 1024)\<rparr>"

text \<open>The methods of \<open>RuntimeConfig\<close>, one per constructor.\<close>

datatype ('k, 'l, 's) config_op =
    SetDebugLevel debug_level
  | SetDebugSink 's
  | SetRuntimeHooks 'k
  | SetRateLimiter 'l
  | SetMaxRateLimitCooldown duration
  | SetPaginationDetectLoops bool
  | SetMaxResponseBody nat
  | NoResponseBodyLimit
  | SetMaxRequestBody nat
  | NoRequestBodyLimit
  | SetMaxStreamResponseBody nat
  | NoStreamResponseBodyLimit

fun run_config_op ::
  "('k, 'l, 's) config_op \<Rightarrow> ('k, 'l, 's) runtime_config \<Rightarrow> ('k, 'l, 's) runtime_config" where
  "run_config_op (SetDebugLevel level) c = c\<lparr>cfg_debug_level := level\<rparr>"
| "run_config_op (SetDebugSink sink) c = c\<lparr>cfg_debug_sink := sink\<rparr>"
| "run_config_op (SetRuntimeHooks hooks) c = c\<lparr>cfg_hooks := hooks\<rparr>"
| "run_config_op (SetRateLimiter limiter) c = c\<lparr>cfg_rate_limiter := limiter\<rparr>"
| "run_config_op (SetMaxRateLimitCooldown d) c = c\<lparr>cfg_max_rate_limit_cooldown := d\<rparr>"
| "run_config_op (SetPaginationDetectLoops b) c = c\<lparr>cfg_pagination_detect_loops := b\<rparr>"
| "run_config_op (SetMaxResponseBody n) c = c\<lparr>cfg_max_response_body_bytes := Some n\<rparr>"
| "run_config_op NoResponseBodyLimit c = c\<lparr>cfg_max_response_body_bytes := None\<rparr>"
| "run_config_op (SetMaxRequestBody n) c = c\<lparr>cfg_max_request_body_bytes := Some n\<rparr>"
| "run_config_op NoRequestBodyLimit c = c\<lparr>cfg_max_request_body_bytes := None\<rparr>"
| "run_config_op (SetMaxStreamResponseBody n) c = c\<lparr>cfg_max_stream_response_body_bytes := Some n\<rparr>"
| "run_config_op NoStreamResponseBodyLimit c = c\<lparr>cfg_max_stream_response_body_bytes := None\<rparr>"

definition from_config :: "('k, 'l, 's) runtime_config \<Rightarrow> ('k, 'l) client_runtime_state" where
  "from_config config =
     \<lparr>crs_hooks = cfg_hooks config, crs_rate_limiter = cfg_rate_limiter config,
      crs_max_rate_limit_cooldown = cfg_max_rate_limit_cooldown config,
      crs_max_response_body_bytes = cfg_max_response_body_bytes config,
      crs_max_request_body_bytes = cfg_max_request_body_bytes config,
      crs_max_stream_response_body_bytes = cfg_max_stream_response_body_bytes config\<rparr>"

section \<open>The managed HTTP client\<close>

datatype safe_proxy_error = ProxyInvalidOrigin | ProxyTlsUnavailable

text \<open>A parsed proxy target, as \<open>SafeProxy::all\<close> reads it; \<open>pu_target\<close> is the text of the URL.\<close>

record proxy_url =
  pu_target :: string
  pu_scheme :: string
  pu_parts :: url_parts

definition safe_proxy_all ::
  "(string \<Rightarrow> proxy_url option) \<Rightarrow> tls_capability \<Rightarrow> string \<Rightarrow> (safe_proxy_error, proxy_url) result" where
  "safe_proxy_all parse tls text =
     rbind (ok_or (parse text) ProxyInvalidOrigin) (\<lambda>target.
     if \<not> (pu_scheme target = ''http'' \<or> pu_scheme target = ''https'') \<or> upt_host (pu_parts target) = None
        \<or> upt_username (pu_parts target) \<noteq> [] \<or> upt_password (pu_parts target) \<noteq> None
        \<or> upt_query (pu_parts target) \<noteq> None \<or> upt_fragment (pu_parts target) \<noteq> None
        \<or> upt_path (pu_parts target) \<noteq> ''/''
     then Inl ProxyInvalidOrigin
     else if tls = TlsUnavailable \<and> pu_scheme target = ''https'' then Inl ProxyTlsUnavailable
     else Inr target)"

text \<open>What a native client builder is told, in order.\<close>

datatype builder_setting =
    BsNoProxy
  | BsConnectTimeout duration
  | BsReadTimeout duration
  | BsPoolIdleTimeout "duration option"
  | BsPoolMaxIdlePerHost nat
  | BsTcpKeepalive "duration option"
  | BsTcpNodelay bool
  | BsHttpsOnly bool
  | BsHttp1Only
  | BsHttp2PriorKnowledge
  | BsProxy proxy_url
  | BsTrustedRoot string
  | BsIdentity string
  | BsNoGzip
  | BsNoBrotli
  | BsNoDeflate
  | BsRedirectNone
  | BsRetryNever
  | BsRetryCustom retry_builder

record safe_reqwest_builder =
  srb_builder :: "builder_setting list"
  srb_provider_builder :: "builder_setting list"
  srb_provider_retry_mode :: provider_operation_retry_mode
  srb_configured_proxies :: "proxy_url list"
  srb_proxy_error :: "safe_proxy_error option"

definition safe_builder_new :: safe_reqwest_builder where
  "safe_builder_new =
     \<lparr>srb_builder = [BsNoProxy], srb_provider_builder = [BsNoProxy],
      srb_provider_retry_mode = ProviderProtocolRecovery, srb_configured_proxies = [],
      srb_proxy_error = None\<rparr>"

text \<open>The methods of \<open>SafeReqwestBuilder\<close>; \<open>SafeSetting\<close> stands for those that forward one setting to both builders.\<close>

datatype safe_builder_op =
    SafeSetting builder_setting
  | SafeProxy proxy_url
  | SafeProviderRetry provider_operation_retry_mode

fun forwarded_setting :: "builder_setting \<Rightarrow> bool" where
  "forwarded_setting BsNoProxy = False"
| "forwarded_setting (BsProxy _) = False"
| "forwarded_setting BsRedirectNone = False"
| "forwarded_setting BsRetryNever = False"
| "forwarded_setting (BsRetryCustom _) = False"
| "forwarded_setting _ = True"

definition tell_both :: "builder_setting \<Rightarrow> safe_reqwest_builder \<Rightarrow> safe_reqwest_builder" where
  "tell_both setting b =
     b\<lparr>srb_builder := srb_builder b @ [setting], srb_provider_builder := srb_provider_builder b @ [setting]\<rparr>"

text \<open>\<open>accepts\<close> is whether \<open>reqwest::Proxy::all\<close> takes the target.\<close>

fun run_safe_op :: "(proxy_url \<Rightarrow> bool) \<Rightarrow> safe_builder_op \<Rightarrow> safe_reqwest_builder \<Rightarrow> safe_reqwest_builder" where
  "run_safe_op accepts (SafeSetting setting) b = (if forwarded_setting setting then tell_both setting b else b)"
| "run_safe_op accepts (SafeProxy proxy) b =
     (let b' = b\<lparr>srb_configured_proxies := srb_configured_proxies b @ [proxy]\<rparr> in
      if accepts proxy then tell_both (BsProxy proxy) b' else b'\<lparr>srb_proxy_error := Some ProxyInvalidOrigin\<rparr>)"
| "run_safe_op accepts (SafeProviderRetry mode) b = b\<lparr>srb_provider_retry_mode := mode\<rparr>"

text \<open>A client that was built is what its builder was told; \<open>build\<close> is whether the builder succeeds.\<close>

datatype client_build_error = SafeProxyFailure safe_proxy_error | NativeBuildFailure | TlsFailure | ConfigureFailure

record managed_reqwest_client =
  mrc_client :: "builder_setting list"
  mrc_provider_client :: "builder_setting list"
  mrc_tls :: tls_capability
  mrc_proxies :: "proxy_url list"

definition with_builder_fallible_retry ::
  "(builder_setting list \<Rightarrow> bool) \<Rightarrow> tls_capability
    \<Rightarrow> (safe_reqwest_builder \<Rightarrow> (client_build_error, safe_reqwest_builder) result) \<Rightarrow> reqwest_retry_install
    \<Rightarrow> (client_build_error, managed_reqwest_client) result" where
  "with_builder_fallible_retry build compiled configure retry =
     rbind (configure safe_builder_new) (\<lambda>configured.
     case srb_proxy_error configured of
       Some e \<Rightarrow> Inl (SafeProxyFailure e)
     | None \<Rightarrow>
         (let client = srb_builder configured @ [BsRedirectNone]
                @ (case retry of InstallRecovery \<Rightarrow> [] | InstallNever \<Rightarrow> [BsRetryNever]
                   | InstallCustom policy \<Rightarrow> [BsRetryCustom policy]);
              provider = srb_provider_builder configured @ [BsRedirectNone]
                @ (case provider_resolve (srb_provider_retry_mode configured) of
                     ProviderInstallRecovery \<Rightarrow> [] | ProviderInstallNever \<Rightarrow> [BsRetryNever])
          in if \<not> build client \<or> \<not> build provider then Inl NativeBuildFailure
             else Inr \<lparr>mrc_client = client, mrc_provider_client = provider, mrc_tls = compiled,
                       mrc_proxies = srb_configured_proxies configured\<rparr>))"

section \<open>Clients and the cells they share\<close>

record ('v, 'x, 's, 'h) client_handle =
  hd_managed :: managed_reqwest_client
  hd_vars :: 'v
  hd_auth_vars :: 'x
  hd_auth_state :: nat
  hd_debug_level :: debug_level
  hd_pagination_detect_loops :: bool
  hd_debug_sink :: 's
  hd_runtime_state :: nat
  hd_api_headers :: 'h

text \<open>A runtime cell with its strong count, and an authentication cell with whether its lock is poisoned.\<close>

record ('v, 'x, 's, 'h, 'k, 'l, 'a) client_world =
  cw_runtime :: "nat \<rightharpoonup> nat \<times> ('k, 'l) client_runtime_state"
  cw_auth :: "nat \<rightharpoonup> bool \<times> 'a"
  cw_next :: nat
  cw_clients :: "('v, 'x, 's, 'h) client_handle option list"

definition empty_world :: "('v, 'x, 's, 'h, 'k, 'l, 'a) client_world" where
  "empty_world = \<lparr>cw_runtime = Map.empty, cw_auth = Map.empty, cw_next = 0, cw_clients = []\<rparr>"

definition client_at :: "('v, 'x, 's, 'h, 'k, 'l, 'a) client_world \<Rightarrow> nat \<Rightarrow> ('v, 'x, 's, 'h) client_handle option" where
  "client_at w i = (if i < length (cw_clients w) then cw_clients w ! i else None)"

definition runtime_of ::
  "('v, 'x, 's, 'h, 'k, 'l, 'a) client_world \<Rightarrow> nat \<Rightarrow> ('k, 'l) client_runtime_state option" where
  "runtime_of w i = Option.bind (client_at w i) (\<lambda>h. map_option snd (cw_runtime w (hd_runtime_state h)))"

definition auth_state_of :: "('v, 'x, 's, 'h, 'k, 'l, 'a) client_world \<Rightarrow> nat \<Rightarrow> 'a option" where
  "auth_state_of w i = Option.bind (client_at w i) (\<lambda>h. map_option snd (cw_auth w (hd_auth_state h)))"

text \<open>\<open>with_managed_client\<close>: the defaults of a new client, with two fresh cells.\<close>

definition with_managed_client ::
  "('k, 'l, 's) runtime_config \<Rightarrow> 'h \<Rightarrow> ('v \<Rightarrow> 'x \<Rightarrow> 'a) \<Rightarrow> 'v \<Rightarrow> 'x \<Rightarrow> managed_reqwest_client
    \<Rightarrow> ('v, 'x, 's, 'h, 'k, 'l, 'a) client_world \<Rightarrow> ('v, 'x, 's, 'h, 'k, 'l, 'a) client_world" where
  "with_managed_client defaults header_map_new init_auth_state vars auth_vars managed w =
     w\<lparr>cw_runtime := (cw_runtime w)(cw_next w \<mapsto> (1, from_config defaults)),
       cw_auth := (cw_auth w)(cw_next w \<mapsto> (False, init_auth_state vars auth_vars)),
       cw_next := Suc (cw_next w),
       cw_clients := cw_clients w @
         [Some \<lparr>hd_managed = managed, hd_vars = vars, hd_auth_vars = auth_vars, hd_auth_state = cw_next w,
                hd_debug_level = DebugNone, hd_pagination_detect_loops = True,
                hd_debug_sink = cfg_debug_sink defaults, hd_runtime_state = cw_next w,
                hd_api_headers = header_map_new\<rparr>]\<rparr>"

definition clone_client ::
  "nat \<Rightarrow> ('v, 'x, 's, 'h, 'k, 'l, 'a) client_world \<Rightarrow> ('v, 'x, 's, 'h, 'k, 'l, 'a) client_world" where
  "clone_client i w =
     (case client_at w i of
        None \<Rightarrow> w
      | Some h \<Rightarrow>
          (case cw_runtime w (hd_runtime_state h) of
             None \<Rightarrow> w
           | Some (n, s) \<Rightarrow>
               w\<lparr>cw_runtime := (cw_runtime w)(hd_runtime_state h \<mapsto> (Suc n, s)),
                 cw_clients := cw_clients w @ [Some h]\<rparr>))"

text \<open>Dropping a client releases its count; the last one frees the cell.\<close>

definition drop_client ::
  "nat \<Rightarrow> ('v, 'x, 's, 'h, 'k, 'l, 'a) client_world \<Rightarrow> ('v, 'x, 's, 'h, 'k, 'l, 'a) client_world" where
  "drop_client i w =
     (case client_at w i of
        None \<Rightarrow> w
      | Some h \<Rightarrow>
          (case cw_runtime w (hd_runtime_state h) of
             None \<Rightarrow> w
           | Some (n, s) \<Rightarrow>
               w\<lparr>cw_runtime := (cw_runtime w)
                   (hd_runtime_state h := (if n \<le> 1 then None else Some (n - 1, s))),
                 cw_clients := (cw_clients w)[i := None]\<rparr>))"

text \<open>\<open>Arc::make_mut\<close>: in place when the count is 1, otherwise on a fresh copy.\<close>

definition make_mut ::
  "nat \<Rightarrow> (('k, 'l) client_runtime_state \<Rightarrow> ('k, 'l) client_runtime_state)
    \<Rightarrow> ('v, 'x, 's, 'h, 'k, 'l, 'a) client_world \<Rightarrow> ('v, 'x, 's, 'h, 'k, 'l, 'a) client_world" where
  "make_mut i f w =
     (case client_at w i of
        None \<Rightarrow> w
      | Some h \<Rightarrow>
          (case cw_runtime w (hd_runtime_state h) of
             None \<Rightarrow> w
           | Some (n, s) \<Rightarrow>
               if n = 1 then w\<lparr>cw_runtime := (cw_runtime w)(hd_runtime_state h \<mapsto> (1, f s))\<rparr>
               else w\<lparr>cw_runtime := (cw_runtime w)(hd_runtime_state h \<mapsto> (n - 1, s), cw_next w \<mapsto> (1, f s)),
                      cw_next := Suc (cw_next w),
                      cw_clients := (cw_clients w)[i := Some (h\<lparr>hd_runtime_state := cw_next w\<rparr>)]\<rparr>))"

text \<open>The setters of \<open>ApiClient\<close>. Those of \<open>hd_\<close> fields change the handle only.\<close>

definition update_handle ::
  "nat \<Rightarrow> (('v, 'x, 's, 'h) client_handle \<Rightarrow> ('v, 'x, 's, 'h) client_handle)
    \<Rightarrow> ('v, 'x, 's, 'h, 'k, 'l, 'a) client_world \<Rightarrow> ('v, 'x, 's, 'h, 'k, 'l, 'a) client_world" where
  "update_handle i f w =
     (case client_at w i of None \<Rightarrow> w | Some h \<Rightarrow> w\<lparr>cw_clients := (cw_clients w)[i := Some (f h)]\<rparr>)"

datatype ('v, 'x, 's) local_setter =
    SetVars 'v
  | SetAuthVars 'x
  | SetLevel debug_level
  | SetSink 's
  | SetDetectLoops bool

fun run_local_setter :: "('v, 'x, 's) local_setter \<Rightarrow> ('v, 'x, 's, 'h) client_handle \<Rightarrow> ('v, 'x, 's, 'h) client_handle" where
  "run_local_setter (SetVars v) h = h\<lparr>hd_vars := v\<rparr>"
| "run_local_setter (SetAuthVars x) h = h\<lparr>hd_auth_vars := x\<rparr>"
| "run_local_setter (SetLevel level) h = h\<lparr>hd_debug_level := level\<rparr>"
| "run_local_setter (SetSink sink) h = h\<lparr>hd_debug_sink := sink\<rparr>"
| "run_local_setter (SetDetectLoops b) h = h\<lparr>hd_pagination_detect_loops := b\<rparr>"

definition set_api_headers ::
  "('h, 'e) header_map_ops \<Rightarrow> nat \<Rightarrow> 'h \<Rightarrow> ('v, 'x, 's, 'h, 'k, 'l, 'a) client_world
    \<Rightarrow> (header_name, unit) result \<times> ('v, 'x, 's, 'h, 'k, 'l, 'a) client_world" where
  "set_api_headers ops i headers w =
     (case validate_public_headers ops headers of
        Inl name \<Rightarrow> (Inl name, w)
      | Inr _ \<Rightarrow> (Inr (), update_handle i (\<lambda>h. h\<lparr>hd_api_headers := headers\<rparr>) w))"

definition set_runtime_hooks ::
  "nat \<Rightarrow> 'k \<Rightarrow> ('v, 'x, 's, 'h, 'k, 'l, 'a) client_world \<Rightarrow> ('v, 'x, 's, 'h, 'k, 'l, 'a) client_world" where
  "set_runtime_hooks i hooks w = make_mut i (\<lambda>s. s\<lparr>crs_hooks := hooks\<rparr>) w"

definition set_rate_limiter ::
  "nat \<Rightarrow> 'l \<Rightarrow> ('v, 'x, 's, 'h, 'k, 'l, 'a) client_world \<Rightarrow> ('v, 'x, 's, 'h, 'k, 'l, 'a) client_world" where
  "set_rate_limiter i limiter w = make_mut i (\<lambda>s. s\<lparr>crs_rate_limiter := limiter\<rparr>) w"

definition current_config ::
  "('v, 'x, 's, 'h) client_handle \<Rightarrow> ('k, 'l) client_runtime_state \<Rightarrow> ('k, 'l, 's) runtime_config" where
  "current_config h s =
     \<lparr>cfg_hooks = crs_hooks s, cfg_rate_limiter = crs_rate_limiter s,
      cfg_max_rate_limit_cooldown = crs_max_rate_limit_cooldown s,
      cfg_pagination_detect_loops = hd_pagination_detect_loops h, cfg_debug_level = hd_debug_level h,
      cfg_debug_sink = hd_debug_sink h, cfg_max_response_body_bytes = crs_max_response_body_bytes s,
      cfg_max_request_body_bytes = crs_max_request_body_bytes s,
      cfg_max_stream_response_body_bytes = crs_max_stream_response_body_bytes s\<rparr>"

definition configure ::
  "nat \<Rightarrow> ('k, 'l, 's) config_op list \<Rightarrow> ('v, 'x, 's, 'h, 'k, 'l, 'a) client_world
    \<Rightarrow> ('v, 'x, 's, 'h, 'k, 'l, 'a) client_world" where
  "configure i ops w =
     (case (client_at w i, runtime_of w i) of
        (Some h, Some s) \<Rightarrow>
          (let config = fold run_config_op ops (current_config h s) in
           make_mut i (\<lambda>_. from_config config)
             (update_handle i (\<lambda>h. h\<lparr>hd_debug_level := cfg_debug_level config,
                hd_debug_sink := cfg_debug_sink config,
                hd_pagination_detect_loops := cfg_pagination_detect_loops config\<rparr>) w))
      | _ \<Rightarrow> w)"

text \<open>A poisoned lock is ignored by \<open>set_auth_state\<close> and refused by \<open>try_set_auth_state\<close>.\<close>

definition set_auth_state ::
  "nat \<Rightarrow> 'a \<Rightarrow> ('v, 'x, 's, 'h, 'k, 'l, 'a) client_world \<Rightarrow> ('v, 'x, 's, 'h, 'k, 'l, 'a) client_world" where
  "set_auth_state i a w =
     (case client_at w i of
        None \<Rightarrow> w
      | Some h \<Rightarrow>
          (case cw_auth w (hd_auth_state h) of
             None \<Rightarrow> w
           | Some (poisoned, _) \<Rightarrow> w\<lparr>cw_auth := (cw_auth w)(hd_auth_state h \<mapsto> (poisoned, a))\<rparr>))"

definition lock_poisoned :: "('v, 'x, 's, 'h, 'k, 'l, 'a) client_world \<Rightarrow> nat \<Rightarrow> bool" where
  "lock_poisoned w i =
     (case Option.bind (client_at w i) (\<lambda>h. cw_auth w (hd_auth_state h)) of
        Some (poisoned, _) \<Rightarrow> poisoned | None \<Rightarrow> False)"

definition try_set_auth_state ::
  "nat \<Rightarrow> 'a \<Rightarrow> ('v, 'x, 's, 'h, 'k, 'l, 'a) client_world
    \<Rightarrow> (auth_error, unit) result \<times> ('v, 'x, 's, 'h, 'k, 'l, 'a) client_world" where
  "try_set_auth_state i a w =
     (if lock_poisoned w i then (Inl (auth_error_new StateUnavailable ''auth state lock poisoned''), w)
      else (Inr (), set_auth_state i a w))"

definition preflight_generated_origin ::
  "managed_reqwest_client \<Rightarrow> api_origin_descriptor option \<Rightarrow> bool" where
  "preflight_generated_origin managed origin =
     (case origin of
        Some (FixedSingleOrigin fixed) \<Rightarrow>
          preflight_scheme (mrc_tls managed)
            (case fod_scheme fixed of OriginHttp \<Rightarrow> ''http'' | OriginHttps \<Rightarrow> ''https'')
      | _ \<Rightarrow> True)"

datatype generated_build_error = GeneratedRetry retry_mode_error | GeneratedBuild client_build_error

text \<open>\<open>with_generated_descriptor_retry_mode\<close> up to the managed client that \<open>with_managed_client\<close> takes.\<close>

definition generated_managed_client ::
  "(builder_setting list \<Rightarrow> bool) \<Rightarrow> tls_capability \<Rightarrow> origin_parsers \<Rightarrow> api_origin_descriptor option
    \<Rightarrow> retry_mode \<Rightarrow> (safe_reqwest_builder \<Rightarrow> (client_build_error, safe_reqwest_builder) result)
    \<Rightarrow> (generated_build_error, managed_reqwest_client) result" where
  "generated_managed_client build compiled parsers origin mode cfg =
     rbind (map_err GeneratedRetry (resolve_retry_mode parsers mode origin)) (\<lambda>install.
     rbind (map_err GeneratedBuild (with_builder_fallible_retry build compiled cfg install)) (\<lambda>managed.
     if preflight_generated_origin managed origin then Inr managed else Inl (GeneratedBuild TlsFailure)))"

section \<open>The reference counts\<close>

inductive client_reachable :: "('v, 'x, 's, 'h, 'k, 'l, 'a) client_world \<Rightarrow> bool" where
  start: "client_reachable empty_world"
| build: "client_reachable w
    \<Longrightarrow> client_reachable (with_managed_client defaults header_map_new init_auth_state vars auth_vars managed w)"
| clone: "client_reachable w \<Longrightarrow> client_reachable (clone_client i w)"
| dropped: "client_reachable w \<Longrightarrow> client_reachable (drop_client i w)"
| hooks: "client_reachable w \<Longrightarrow> client_reachable (set_runtime_hooks i hooks w)"
| limiter: "client_reachable w \<Longrightarrow> client_reachable (set_rate_limiter i limiter w)"
| setter: "client_reachable w \<Longrightarrow> client_reachable (update_handle i (run_local_setter setter) w)"
| headers: "client_reachable w \<Longrightarrow> client_reachable (snd (set_api_headers (ops :: ('h, string) header_map_ops) i headers w))"
| configured: "client_reachable w \<Longrightarrow> client_reachable (configure i cfg w)"
| auth: "client_reachable w \<Longrightarrow> client_reachable (set_auth_state i a w)"
| try_auth: "client_reachable w \<Longrightarrow> client_reachable (snd (try_set_auth_state i a w))"

definition holds_cell :: "nat \<Rightarrow> ('v, 'x, 's, 'h) client_handle option \<Rightarrow> bool" where
  "holds_cell a c = (case c of Some h \<Rightarrow> hd_runtime_state h = a | None \<Rightarrow> False)"

definition holders :: "('v, 'x, 's, 'h, 'k, 'l, 'a) client_world \<Rightarrow> nat \<Rightarrow> nat" where
  "holders w a = length (filter (holds_cell a) (cw_clients w))"

definition world_ok :: "('v, 'x, 's, 'h, 'k, 'l, 'a) client_world \<Rightarrow> bool" where
  "world_ok w \<longleftrightarrow>
     (\<forall>a n s. cw_runtime w a = Some (n, s) \<longrightarrow> a < cw_next w \<and> n = holders w a \<and> 0 < n)
     \<and> (\<forall>i h. client_at w i = Some h \<longrightarrow>
          cw_runtime w (hd_runtime_state h) \<noteq> None \<and> cw_auth w (hd_auth_state h) \<noteq> None)
     \<and> (\<forall>a. cw_auth w a \<noteq> None \<longrightarrow> a < cw_next w)"

lemma filter_list_update:
  "i < length xs \<Longrightarrow>
     length (filter P (xs[i := y])) + of_bool (P (xs ! i)) = length (filter P xs) + of_bool (P y)"
proof (induction xs arbitrary: i)
  case (Cons x xs)
  then show ?case by (cases i) (use Cons.IH in \<open>fastforce+\<close>)
qed simp

lemma two_in_filter:
  assumes "i < length xs" "j < length xs" "i \<noteq> j" "P (xs ! i)" "P (xs ! j)"
  shows "2 \<le> length (filter P xs)"
proof -
  have "{i, j} \<subseteq> {k. k < length xs \<and> P (xs ! k)}" using assms by auto
  then have "card {i, j} \<le> length (filter P xs)" unfolding length_filter_conv_card by (intro card_mono) auto
  then show ?thesis using assms(3) by simp
qed

lemma world_okI:
  assumes "\<And>a n s. cw_runtime w a = Some (n, s) \<Longrightarrow> a < cw_next w \<and> n = holders w a \<and> 0 < n"
    and "\<And>i h. client_at w i = Some h \<Longrightarrow>
      cw_runtime w (hd_runtime_state h) \<noteq> None \<and> cw_auth w (hd_auth_state h) \<noteq> None"
    and "\<And>a. cw_auth w a \<noteq> None \<Longrightarrow> a < cw_next w"
  shows "world_ok w"
  using assms unfolding world_ok_def by blast

lemma world_okD:
  assumes "world_ok w"
  shows "cw_runtime w a = Some (n, s) \<Longrightarrow> a < cw_next w \<and> n = holders w a \<and> 0 < n"
    and "client_at w i = Some h \<Longrightarrow>
      (\<exists>n s. cw_runtime w (hd_runtime_state h) = Some (n, s)) \<and> cw_auth w (hd_auth_state h) \<noteq> None"
    and "cw_auth w b \<noteq> None \<Longrightarrow> b < cw_next w"
  using assms unfolding world_ok_def by auto

lemma client_at_iff:
  "client_at w i = Some h \<longleftrightarrow> i < length (cw_clients w) \<and> cw_clients w ! i = Some h"
  by (simp add: client_at_def)

lemma client_at_other [simp]:
  "client_at (w\<lparr>cw_runtime := r\<rparr>) i = client_at w i"
  "client_at (w\<lparr>cw_auth := u\<rparr>) i = client_at w i"
  "client_at (w\<lparr>cw_next := m\<rparr>) i = client_at w i"
  by (simp_all add: client_at_def)

lemma holders_update:
  assumes "client_at w i = Some h"
  shows "length (filter (holds_cell a) ((cw_clients w)[i := c])) + of_bool (hd_runtime_state h = a)
    = holders w a + of_bool (holds_cell a c)"
  using assms filter_list_update [of i "cw_clients w" "holds_cell a" c]
  by (auto simp: holders_def client_at_def holds_cell_def split: if_splits)

lemma sole_holder:
  assumes "world_ok w" "client_at w i = Some h" "client_at w j = Some h'" "i \<noteq> j"
    and "cw_runtime w (hd_runtime_state h) = Some (1, s)"
  shows "hd_runtime_state h' \<noteq> hd_runtime_state h"
proof
  assume same: "hd_runtime_state h' = hd_runtime_state h"
  have "2 \<le> holders w (hd_runtime_state h)"
    unfolding holders_def
    using assms(2-4) same by (intro two_in_filter [of i _ j]) (auto simp: client_at_def holds_cell_def split: if_splits)
  then show False using world_okD(1) [OF assms(1,5)] by simp
qed

lemma fresh_unheld:
  assumes "world_ok w"
  shows "holders w (cw_next w) = 0"
proof -
  have "\<not> holds_cell (cw_next w) c" if c: "c \<in> set (cw_clients w)" for c
  proof
    assume "holds_cell (cw_next w) c"
    then obtain h where h: "c = Some h" "hd_runtime_state h = cw_next w"
      by (auto simp: holds_cell_def split: option.splits)
    with c obtain i where "client_at w i = Some h" by (metis in_set_conv_nth client_at_iff)
    from world_okD(2) [OF assms this] obtain n s where "cw_runtime w (cw_next w) = Some (n, s)"
      using h by auto
    from world_okD(1) [OF assms this] show False by simp
  qed
  then show ?thesis by (simp add: holders_def)
qed

lemma with_managed_client_ok:
  assumes "world_ok w"
  shows "world_ok (with_managed_client defaults hm ini vars auth_vars managed w)"
proof (rule world_okI)
  let ?w = "with_managed_client defaults hm ini vars auth_vars managed w"
  show "a < cw_next ?w \<and> n = holders ?w a \<and> 0 < n" if "cw_runtime ?w a = Some (n, s)" for a n s
    using that fresh_unheld [OF assms] world_okD(1) [OF assms, of a n s]
    by (auto simp: with_managed_client_def holders_def holds_cell_def split: if_splits)
  show "cw_runtime ?w (hd_runtime_state h) \<noteq> None \<and> cw_auth ?w (hd_auth_state h) \<noteq> None"
    if "client_at ?w i = Some h" for i h
    using that world_okD(2) [OF assms, of i h]
    by (auto simp: with_managed_client_def client_at_def nth_append split: if_splits)
  show "a < cw_next ?w" if "cw_auth ?w a \<noteq> None" for a
    using that world_okD(3) [OF assms, of a] by (auto simp: with_managed_client_def split: if_splits)
qed

lemma clone_client_ok:
  assumes "world_ok w"
  shows "world_ok (clone_client i w)"
proof (cases "client_at w i")
  case (Some h)
  then obtain n s where cell: "cw_runtime w (hd_runtime_state h) = Some (n, s)" using world_okD(2) [OF assms] by blast
  show ?thesis
  proof (rule world_okI)
    show "a < cw_next (clone_client i w) \<and> m = holders (clone_client i w) a \<and> 0 < m"
      if "cw_runtime (clone_client i w) a = Some (m, t)" for a m t
      using that Some cell world_okD(1) [OF assms]
      by (auto simp: clone_client_def holders_def holds_cell_def split: if_splits)
    show "cw_runtime (clone_client i w) (hd_runtime_state h') \<noteq> None
        \<and> cw_auth (clone_client i w) (hd_auth_state h') \<noteq> None" if "client_at (clone_client i w) j = Some h'" for j h'
    proof -
      have "client_at w j = Some h' \<or> h' = h"
        using that Some cell by (auto simp: clone_client_def client_at_def nth_append split: if_splits)
      then show ?thesis
        using Some cell world_okD(2) [OF assms, of _ h'] by (auto simp: clone_client_def)
    qed
    show "a < cw_next (clone_client i w)" if "cw_auth (clone_client i w) a \<noteq> None" for a
      using that Some cell world_okD(3) [OF assms, of a] by (auto simp: clone_client_def)
  qed
qed (use assms in \<open>simp add: clone_client_def\<close>)

lemma drop_client_ok:
  assumes "world_ok w"
  shows "world_ok (drop_client i w)"
proof (cases "client_at w i")
  case (Some h)
  then obtain n s where cell: "cw_runtime w (hd_runtime_state h) = Some (n, s)" using world_okD(2) [OF assms] by blast
  have count: "holders (drop_client i w) a + of_bool (hd_runtime_state h = a) = holders w a" for a
    using holders_update [OF Some, of a None] Some cell by (simp add: drop_client_def holders_def holds_cell_def)
  show ?thesis
  proof (rule world_okI)
    show "a < cw_next (drop_client i w) \<and> m = holders (drop_client i w) a \<and> 0 < m"
      if "cw_runtime (drop_client i w) a = Some (m, t)" for a m t
      using that Some cell count [of a] world_okD(1) [OF assms]
      by (fastforce simp: drop_client_def split: if_splits)
    show "cw_runtime (drop_client i w) (hd_runtime_state h') \<noteq> None
        \<and> cw_auth (drop_client i w) (hd_auth_state h') \<noteq> None" if "client_at (drop_client i w) j = Some h'" for j h'
    proof -
      have j: "client_at w j = Some h'" "j \<noteq> i"
        using that Some cell by (auto simp: drop_client_def client_at_iff nth_list_update split: if_splits)
      have "hd_runtime_state h' \<noteq> hd_runtime_state h" if "n \<le> 1"
        using sole_holder [OF assms Some j(1)] j(2) cell that world_okD(1) [OF assms cell] by (cases "n = 1") auto
      then show ?thesis using j(1) Some cell world_okD(2) [OF assms j(1)] by (auto simp: drop_client_def)
    qed
    show "a < cw_next (drop_client i w)" if "cw_auth (drop_client i w) a \<noteq> None" for a
      using that Some cell world_okD(3) [OF assms, of a] by (auto simp: drop_client_def)
  qed
qed (use assms in \<open>simp add: drop_client_def\<close>)

lemma make_mut_ok:
  assumes "world_ok w"
  shows "world_ok (make_mut i f w)"
proof (cases "client_at w i")
  case (Some h)
  then obtain n s where cell: "cw_runtime w (hd_runtime_state h) = Some (n, s)" using world_okD(2) [OF assms] by blast
  show ?thesis
  proof (cases "n = 1")
    case True
    then have mut: "make_mut i f w = w\<lparr>cw_runtime := (cw_runtime w)(hd_runtime_state h \<mapsto> (1, f s))\<rparr>"
      using Some cell by (simp add: make_mut_def)
    show ?thesis
      using assms cell True unfolding mut
      by (auto simp: world_ok_def holders_def split: if_splits)
  next
    case False
    let ?h = "h\<lparr>hd_runtime_state := cw_next w\<rparr>"
    have mut: "make_mut i f w = w\<lparr>cw_runtime := (cw_runtime w)(hd_runtime_state h \<mapsto> (n - 1, s), cw_next w \<mapsto> (1, f s)),
        cw_next := Suc (cw_next w), cw_clients := (cw_clients w)[i := Some ?h]\<rparr>"
      using Some cell False by (simp add: make_mut_def)
    have below: "hd_runtime_state h < cw_next w" using world_okD(1) [OF assms cell] by simp
    have count: "holders (make_mut i f w) a + of_bool (hd_runtime_state h = a)
        = holders w a + of_bool (a = cw_next w)" for a
      using holders_update [OF Some, of a "Some ?h"] unfolding mut by (auto simp: holders_def holds_cell_def)
    show ?thesis
    proof (rule world_okI)
      show "a < cw_next (make_mut i f w) \<and> m = holders (make_mut i f w) a \<and> 0 < m"
        if "cw_runtime (make_mut i f w) a = Some (m, t)" for a m t
      proof -
        have "0 < n" using world_okD(1) [OF assms cell] by simp
        then show ?thesis
          using that count [of a] fresh_unheld [OF assms] below False world_okD(1) [OF assms cell] world_okD(1) [OF assms, of a m t]
          unfolding mut by (auto split: if_splits)
      qed
      show "cw_runtime (make_mut i f w) (hd_runtime_state h') \<noteq> None
          \<and> cw_auth (make_mut i f w) (hd_auth_state h') \<noteq> None" if "client_at (make_mut i f w) j = Some h'" for j h'
      proof -
        have "j = i \<and> h' = ?h \<or> client_at w j = Some h'"
          using that Some unfolding mut by (auto simp: client_at_iff nth_list_update split: if_splits)
        then show ?thesis
          using world_okD(2) [OF assms Some] world_okD(2) [OF assms, of j h'] unfolding mut by auto
      qed
      show "a < cw_next (make_mut i f w)" if "cw_auth (make_mut i f w) a \<noteq> None" for a
        using that world_okD(3) [OF assms, of a] unfolding mut by auto
    qed
  qed
qed (use assms in \<open>simp add: make_mut_def\<close>)

lemma update_handle_ok:
  assumes "world_ok w"
    and "\<And>h. hd_runtime_state (f h) = hd_runtime_state h \<and> hd_auth_state (f h) = hd_auth_state h"
  shows "world_ok (update_handle i f w)"
proof (cases "client_at w i")
  case (Some h)
  then have upd: "update_handle i f w = w\<lparr>cw_clients := (cw_clients w)[i := Some (f h)]\<rparr>"
    by (simp add: update_handle_def)
  have count: "holders (update_handle i f w) a = holders w a" for a
    using holders_update [OF Some, of a "Some (f h)"] assms(2) unfolding upd
    by (auto simp: holders_def holds_cell_def)
  show ?thesis
  proof (rule world_okI)
    show "a < cw_next (update_handle i f w) \<and> n = holders (update_handle i f w) a \<and> 0 < n"
      if "cw_runtime (update_handle i f w) a = Some (n, s)" for a n s
      using that count world_okD(1) [OF assms(1), of a n s] by (simp add: upd)
    show "cw_runtime (update_handle i f w) (hd_runtime_state h') \<noteq> None
        \<and> cw_auth (update_handle i f w) (hd_auth_state h') \<noteq> None" if "client_at (update_handle i f w) j = Some h'" for j h'
    proof -
      have "h' = f h \<or> client_at w j = Some h'"
        using that Some unfolding upd by (auto simp: client_at_iff nth_list_update split: if_splits)
      then show ?thesis
        using world_okD(2) [OF assms(1) Some] world_okD(2) [OF assms(1), of j h'] assms(2) unfolding upd by auto
    qed
    show "a < cw_next (update_handle i f w)" if "cw_auth (update_handle i f w) a \<noteq> None" for a
      using that world_okD(3) [OF assms(1), of a] by (simp add: upd)
  qed
qed (use assms(1) in \<open>simp add: update_handle_def\<close>)

lemma set_auth_state_ok:
  assumes "world_ok w"
  shows "world_ok (set_auth_state i a w)"
  using assms
  by (auto simp: set_auth_state_def world_ok_def holders_def split: option.splits)

lemma configure_ok: "world_ok w \<Longrightarrow> world_ok (configure i ops w)"
  by (auto simp: configure_def Let_def intro!: make_mut_ok update_handle_ok split: option.splits)

lemma local_setter_cells:
  "hd_runtime_state (run_local_setter st h) = hd_runtime_state h \<and> hd_auth_state (run_local_setter st h) = hd_auth_state h"
  by (cases st) simp_all

text \<open>Every runtime cell of a reachable world is counted by exactly the clients that hold it.\<close>

lemma reachable_ok: "client_reachable w \<Longrightarrow> world_ok w"
proof (induction rule: client_reachable.induct)
  case start
  then show ?case by (simp add: world_ok_def empty_world_def client_at_def)
qed (auto simp: set_runtime_hooks_def set_rate_limiter_def set_api_headers_def try_set_auth_state_def
    local_setter_cells with_managed_client_ok clone_client_ok drop_client_ok make_mut_ok configure_ok
    set_auth_state_ok update_handle_ok split: sum.splits)

lemma make_mut_runtime:
  assumes "world_ok w" and "client_at w i = Some h"
  shows "runtime_of (make_mut i f w) j = (if j = i then map_option f (runtime_of w i) else runtime_of w j)"
proof -
  obtain n s where cell: "cw_runtime w (hd_runtime_state h) = Some (n, s)"
    using world_okD(2) [OF assms] by blast
  show ?thesis
  proof (cases "j = i")
    case True
    then show ?thesis using assms(2) cell
      by (auto simp: make_mut_def runtime_of_def client_at_def split: if_splits)
  next
    case j: False
    show ?thesis
    proof (cases "client_at w j")
      case None
      then show ?thesis using j assms(2) cell
        by (auto simp: make_mut_def runtime_of_def client_at_def split: if_splits)
    next
      case (Some h')
      then obtain n' s' where cell': "cw_runtime w (hd_runtime_state h') = Some (n', s')"
        using world_okD(2) [OF assms(1)] by blast
      have "hd_runtime_state h' \<noteq> cw_next w" using world_okD(1) [OF assms(1) cell'] by simp
      moreover have "hd_runtime_state h' \<noteq> hd_runtime_state h" if "n = 1"
        using sole_holder [OF assms(1,2) Some] j cell that by simp
      moreover have "client_at (make_mut i f w) j = Some h'"
      proof -
        have "cw_clients (make_mut i f w) ! j = cw_clients w ! j
            \<and> length (cw_clients (make_mut i f w)) = length (cw_clients w)"
          using assms(2) cell j by (simp add: make_mut_def)
        then show ?thesis using Some by (simp add: client_at_iff)
      qed
      ultimately show ?thesis using Some j assms(2) cell cell'
        by (auto simp: runtime_of_def make_mut_def)
    qed
  qed
qed

lemma update_handle_runtime:
  assumes "\<And>h. hd_runtime_state (f h) = hd_runtime_state h"
  shows "runtime_of (update_handle i f w) j = runtime_of w j"
  using assms by (auto simp: update_handle_def runtime_of_def client_at_def nth_list_update split: option.splits)


definition two_clients :: "(unit, unit, unit, unit, nat, nat, nat) client_world" where
  "two_clients =
     clone_client 0 (with_managed_client (runtime_config_default 1 2 ()) () (\<lambda>_ _. 7) () ()
       \<lparr>mrc_client = [], mrc_provider_client = [], mrc_tls = TlsAvailable, mrc_proxies = []\<rparr> empty_world)"


section \<open>What a configured client can be\<close>

definition allowed_setting :: "proxy_url list \<Rightarrow> builder_setting \<Rightarrow> bool" where
  "allowed_setting proxies x \<longleftrightarrow> forwarded_setting x \<or> x \<in> BsProxy ` set proxies"

definition builder_ok :: "safe_reqwest_builder \<Rightarrow> bool" where
  "builder_ok b \<longleftrightarrow>
     srb_builder b = srb_provider_builder b \<and> srb_builder b \<noteq> [] \<and> hd (srb_builder b) = BsNoProxy
     \<and> list_all (allowed_setting (srb_configured_proxies b)) (tl (srb_builder b))"

lemma more_proxies_ok: "builder_ok b \<Longrightarrow> builder_ok (b\<lparr>srb_configured_proxies := srb_configured_proxies b @ [proxy]\<rparr>)"
  by (auto simp: builder_ok_def allowed_setting_def list_all_iff)

lemma run_safe_op_ok:
  assumes "builder_ok b"
  shows "builder_ok (run_safe_op accepts oper b)"
proof (cases oper)
  case (SafeProxy proxy)
  then show ?thesis
    using more_proxies_ok [OF assms, of proxy]
    by (auto simp: Let_def allowed_setting_def builder_ok_def tell_both_def)
qed (use assms in \<open>auto simp: allowed_setting_def builder_ok_def tell_both_def\<close>)

lemma run_safe_ops_ok: "builder_ok b \<Longrightarrow> builder_ok (fold (run_safe_op accepts) opers b)"
  by (induction opers arbitrary: b) (simp_all add: run_safe_op_ok)

text \<open>
  Property C31: whatever a caller configures through the safe builder, the application client and the
  client of credential providers are told the same settings, never follow redirects, ignore the
  proxies of the environment and use only proxies that were configured; they differ at most in their
  retry policy, and the provider client never has a status-retry policy.
\<close>

theorem managed_clients_agree:
  assumes "with_builder_fallible_retry build compiled (\<lambda>b. Inr (fold (run_safe_op accepts) opers b)) retry
    = Inr managed"
  shows "\<exists>settings.
     list_all (allowed_setting (mrc_proxies managed)) settings
     \<and> mrc_client managed \<in> (\<lambda>r. BsNoProxy # settings @ BsRedirectNone # r)
          ` (case retry of InstallRecovery \<Rightarrow> {[]} | InstallNever \<Rightarrow> {[BsRetryNever]}
             | InstallCustom policy \<Rightarrow> {[BsRetryCustom policy]})
     \<and> mrc_provider_client managed \<in> (\<lambda>r. BsNoProxy # settings @ BsRedirectNone # r) ` {[], [BsRetryNever]}"
proof -
  let ?b = "fold (run_safe_op accepts) opers safe_builder_new"
  have "builder_ok ?b" by (rule run_safe_ops_ok) (simp add: builder_ok_def safe_builder_new_def)
  then have b: "srb_builder ?b = BsNoProxy # tl (srb_builder ?b)"
    "srb_provider_builder ?b = BsNoProxy # tl (srb_builder ?b)"
    "list_all (allowed_setting (srb_configured_proxies ?b)) (tl (srb_builder ?b))"
    by (auto simp: builder_ok_def) (metis list.collapse)+
  have m: "mrc_proxies managed = srb_configured_proxies ?b"
    "mrc_client managed = srb_builder ?b @ [BsRedirectNone]
       @ (case retry of InstallRecovery \<Rightarrow> [] | InstallNever \<Rightarrow> [BsRetryNever]
          | InstallCustom policy \<Rightarrow> [BsRetryCustom policy])"
    "mrc_provider_client managed \<in> {srb_provider_builder ?b @ [BsRedirectNone],
       srb_provider_builder ?b @ [BsRedirectNone, BsRetryNever]}"
    using assms by (auto simp: with_builder_fallible_retry_def Let_def
        split: option.splits if_splits provider_reqwest_retry_install.splits)
  show ?thesis
    using b m by (intro exI [of _ "tl (srb_builder ?b)"]) (auto split: reqwest_retry_install.split)
qed

definition sample_proxy :: proxy_url where
  "sample_proxy =
     \<lparr>pu_target = ''http://p/'', pu_scheme = ''http'',
      pu_parts = \<lparr>upt_username = [], upt_password = None, upt_host = Some ''p'', upt_path = ''/'',
        upt_query = None, upt_fragment = None\<rparr>\<rparr>"

theorem managed_clients_agree_witness:
  "\<exists>settings. list_all (allowed_setting [sample_proxy]) settings
   \<and> [BsNoProxy, BsTcpNodelay True, BsProxy sample_proxy, BsRedirectNone, BsRetryNever]
     = BsNoProxy # settings @ [BsRedirectNone, BsRetryNever]"
proof -
  have "with_builder_fallible_retry (\<lambda>_. True) TlsAvailable
      (\<lambda>b. Inr (fold (run_safe_op (\<lambda>_. True)) [SafeSetting (BsTcpNodelay True), SafeProxy sample_proxy] b)) InstallNever
    = Inr \<lparr>mrc_client = [BsNoProxy, BsTcpNodelay True, BsProxy sample_proxy, BsRedirectNone, BsRetryNever],
           mrc_provider_client = [BsNoProxy, BsTcpNodelay True, BsProxy sample_proxy, BsRedirectNone],
           mrc_tls = TlsAvailable, mrc_proxies = [sample_proxy]\<rparr>"
    by (simp add: with_builder_fallible_retry_def safe_builder_new_def tell_both_def provider_resolve_def)
  from managed_clients_agree [OF this] show ?thesis by auto
qed

end
