(* ===== verification/BTree.thy ===== *)
theory BTree
  imports Prelude "HOL-Library.List_Lexorder" "HOL-Library.Char_ord" "HOL-Library.Product_Lexorder"
begin

text \<open>
  \<open>std::collections::BTreeMap\<close> and \<open>BTreeSet\<close> as the macro crate uses them: association lists in
  strictly increasing key order, so that \<open>keys()\<close> and \<open>values()\<close> iterate as the sources see it.
  Strings are ordered byte by byte, tuples field by field. Each operation keeps the order
  (\<open>bt_ok\<close>), and a lookup after an insertion is the update of the finite map.
\<close>

type_synonym ('k, 'v) btree = "('k \<times> 'v) list"

named_theorems bt_simps \<open>lookups in sorted association lists\<close>

abbreviation bt_get :: "('k, 'v) btree \<Rightarrow> 'k \<Rightarrow> 'v option" where
  "bt_get m k \<equiv> map_of m k"

abbreviation bt_keys :: "('k, 'v) btree \<Rightarrow> 'k list" where
  "bt_keys m \<equiv> map fst m"

definition bt_contains :: "('k, 'v) btree \<Rightarrow> 'k \<Rightarrow> bool" where
  "bt_contains m k \<longleftrightarrow> bt_get m k \<noteq> None"

fun bt_insert :: "('k::linorder) \<Rightarrow> 'v \<Rightarrow> ('k, 'v) btree \<Rightarrow> ('k, 'v) btree" where
  "bt_insert k v [] = [(k, v)]"
| "bt_insert k v ((k', v') # m) =
     (if k < k' then (k, v) # (k', v') # m
      else if k = k' then (k, v) # m
      else (k', v') # bt_insert k v m)"

text \<open>The map after inserting a list of entries in turn, later entries replacing earlier ones.\<close>

definition bt_extend :: "('k::linorder, 'v) btree \<Rightarrow> ('k \<times> 'v) list \<Rightarrow> ('k, 'v) btree" where
  "bt_extend m kvs = fold (\<lambda>(k, v). bt_insert k v) kvs m"

definition bt_ok :: "('k::linorder, 'v) btree \<Rightarrow> bool" where
  "bt_ok m \<longleftrightarrow> sorted_wrt (<) (bt_keys m)"

lemma bt_ok_Nil [simp]: "bt_ok []"
  by (simp add: bt_ok_def)

lemma bt_insert_keys: "set (bt_keys (bt_insert k v m)) = insert k (set (bt_keys m))"
  by (induction k v m rule: bt_insert.induct) auto

lemma bt_insert_ok [simp]:
  assumes "bt_ok m"
  shows "bt_ok (bt_insert k v m)"
  using assms
proof (induction k v m rule: bt_insert.induct)
  case (1 k v)
  then show ?case by (simp add: bt_ok_def)
next
  case (2 k v k' v' m)
  have *: "\<forall>x\<in>set (bt_keys m). k' < x" and m: "bt_ok m"
    using 2(2) by (auto simp: bt_ok_def)
  consider "k < k'" | "k = k'" | "\<not> k < k'" "k \<noteq> k'" by blast
  then show ?case
  proof cases
    case 3
    then have "\<forall>x\<in>set (bt_keys (bt_insert k v m)). k' < x"
      using * unfolding bt_insert_keys by auto
    with 2(1) [OF 3 m] 3 show ?thesis by (simp add: bt_ok_def)
  qed (use * m in \<open>auto simp: bt_ok_def dest: less_trans\<close>)
qed

lemma bt_get_insert [simp, bt_simps]:
  assumes "bt_ok m"
  shows "bt_get (bt_insert k v m) = (bt_get m)(k \<mapsto> v)"
  using assms
proof (induction k v m rule: bt_insert.induct)
  case (1 k v)
  then show ?case by simp
next
  case (2 k v k' v' m)
  have *: "\<forall>x\<in>set (bt_keys m). k' < x" and m: "bt_ok m"
    using 2(2) by (auto simp: bt_ok_def)
  show ?case
    by (cases "k < k'"; cases "k = k'") (use 2(1) m in \<open>auto simp: fun_eq_iff\<close>)
qed

lemma bt_contains_iff: "bt_contains m k \<longleftrightarrow> k \<in> set (bt_keys m)"
  by (force simp: bt_contains_def map_of_eq_None_iff)

lemma bt_ok_distinct: "bt_ok m \<Longrightarrow> distinct (bt_keys m)"
  by (simp add: bt_ok_def strict_sorted_iff)

lemma bt_extend_simps [simp]:
  "bt_extend m [] = m" "bt_extend m ((k, v) # kvs) = bt_extend (bt_insert k v m) kvs"
  by (simp_all add: bt_extend_def)

lemma bt_extend_append: "bt_extend m (xs @ ys) = bt_extend (bt_extend m xs) ys"
  by (simp add: bt_extend_def)

lemma bt_extend_ok [simp]: "bt_ok m \<Longrightarrow> bt_ok (bt_extend m kvs)"
  by (induction kvs arbitrary: m) (auto simp: bt_extend_def)

lemma bt_extend_keys:
  "set (bt_keys (bt_extend m kvs)) = set (bt_keys m) \<union> fst ` set kvs"
proof (induction kvs arbitrary: m)
  case (Cons kv kvs)
  then show ?case
    using bt_insert_keys [of "fst kv" "snd kv" m] by (cases kv) simp
qed simp

lemma bt_get_extend:
  assumes "bt_ok m"
  shows "bt_get (bt_extend m kvs) = bt_get m ++ map_of (rev kvs)"
  using assms
proof (induction kvs arbitrary: m)
  case Nil
  then show ?case by simp
next
  case (Cons kv kvs)
  then show ?case
    by (cases kv) (simp add: Cons.IH fun_eq_iff map_add_def split: option.splits)
qed

lemma bt_get_dom: "dom (bt_get m) = set (bt_keys m)"
  by (simp add: dom_map_of_conv_image_fst)

lemma bt_values_from_get:
  assumes "bt_ok m"
  shows "v \<in> set (map snd m) \<longleftrightarrow> (\<exists>k. bt_get m k = Some v)"
  using bt_ok_distinct [OF assms] by (force simp: map_of_eq_Some_iff)

lemma bt_extend_values:
  assumes "distinct (map f cs)"
  shows "set (map snd (bt_extend [] (map (\<lambda>c. (f c, c)) cs))) = set cs"
proof -
  have "distinct (map fst (rev (map (\<lambda>c. (f c, c)) cs)))"
    using assms by (simp add: rev_map [symmetric] comp_def)
  then have "bt_get (bt_extend [] (map (\<lambda>c. (f c, c)) cs)) k = Some v \<longleftrightarrow> v \<in> set cs \<and> k = f v" for k v
    by (auto simp: bt_get_extend map_of_eq_Some_iff)
  then show ?thesis
    using bt_values_from_get [of "bt_extend [] (map (\<lambda>c. (f c, c)) cs)"] by (auto simp del: set_map)
qed

section \<open>Sets of seen names\<close>

text \<open>
  \<open>BTreeSet::insert\<close>, whose result says whether the element is new. Only membership and the order of
  iteration can be observed, so a set is a sorted list of its elements.
\<close>

definition bs_insert :: "('k::linorder) \<Rightarrow> 'k list \<Rightarrow> bool \<times> 'k list" where
  "bs_insert k s = (if k \<in> set s then (False, s) else (True, insort k s))"

text \<open>The first element a loop over \<open>seen.insert\<close> finds to be there already.\<close>

fun first_repeat :: "('k::linorder) list \<Rightarrow> 'k list \<Rightarrow> 'k option" where
  "first_repeat seen [] = None"
| "first_repeat seen (x # xs) =
     (let (fresh, seen') = bs_insert x seen in if fresh then first_repeat seen' xs else Some x)"

lemma first_repeat_None_iff:
  "first_repeat seen xs = None \<longleftrightarrow> distinct xs \<and> set seen \<inter> set xs = {}"
  by (induction seen xs rule: first_repeat.induct)
     (auto simp: bs_insert_def set_insort_key)

lemma first_repeat_None [simp]: "first_repeat [] xs = None \<longleftrightarrow> distinct xs"
  by (simp add: first_repeat_None_iff)

text \<open>\<open>retain(|x| seen.insert(x))\<close>: the first occurrence of each element, in order.\<close>

fun retain_first :: "('k::linorder) list \<Rightarrow> 'k list \<Rightarrow> 'k list" where
  "retain_first seen [] = []"
| "retain_first seen (x # xs) =
     (let (fresh, seen') = bs_insert x seen in
      if fresh then x # retain_first seen' xs else retain_first seen' xs)"

lemma retain_first_set: "set (retain_first seen xs) = set xs - set seen"
  by (induction seen xs rule: retain_first.induct) (auto simp: bs_insert_def set_insort_key)

lemma retain_first_distinct: "distinct (retain_first seen xs)"
  by (induction xs arbitrary: seen) (auto simp: bs_insert_def retain_first_set set_insort_key)

end
