(* ===== verification/MacroSyntax.thy ===== *)
theory MacroSyntax
  imports RustStr
begin

text \<open>
  The Rust syntax trees the macro crate's semantic analysis looks into, and the helpers of
  \<open>concord_macros/src/emit_helpers.rs\<close> and \<open>limits.rs\<close> on them. A tree of the \<open>syn\<close> parser keeps the
  constructors the sources match on; every other kind of node is its name with the nested types and
  expressions in visiting order. Identifiers and literals are their text; source positions and
  attributes are dropped; an error is its message. The last section shows that the scan of public
  expressions finds every reserved root, exposure call and macro token, at any depth.
\<close>

section \<open>Tokens, types and expressions\<close>

type_synonym ident = string

datatype token = TkIdent string | TkGroup "token list" | TkPunct char | TkLiteral string

datatype member = Named ident | Unnamed nat

datatype syn_expr =
    EPath "syn_type option" syn_path
  | EField syn_expr member
  | ECast syn_expr syn_type
  | EParen syn_expr
  | EReference bool syn_expr
  | EUnary string syn_expr
  | EBinary syn_expr string syn_expr
  | EMethodCall syn_expr ident "syn_node list" "syn_expr list"
  | ECall syn_expr "syn_expr list"
  | ELitStr string
  | ELitOther string
  | EMacro syn_path "token list"
  | EOther string "syn_node list"
and syn_type =
    TyPath "syn_type option" syn_path
  | TyMacro syn_path "token list"
  | TyOther string "syn_node list"
and syn_path = SynPath bool "segment list"
and segment = Segment ident path_args
and path_args = ArgsNone | ArgsAngle "syn_node list" | ArgsParen "syn_node list"
and syn_node = NType syn_type | NExpr syn_expr | NOther string "syn_node list"

text \<open>Angle-bracketed arguments are nodes: a type, a constant expression, or another argument (a
  lifetime, an associated type) with what is nested in it.\<close>

fun path_segments :: "syn_path \<Rightarrow> segment list" where
  "path_segments (SynPath leading_colon segs) = segs"

fun leading_colon :: "syn_path \<Rightarrow> bool" where
  "leading_colon (SynPath lc segs) = lc"

fun seg_ident :: "segment \<Rightarrow> ident" where
  "seg_ident (Segment i args) = i"

fun seg_args :: "segment \<Rightarrow> path_args" where
  "seg_args (Segment i args) = args"

text \<open>\<open>Path::from(ident)\<close>, a path of one segment.\<close>

definition ident_path :: "ident \<Rightarrow> syn_path" where
  "ident_path i = SynPath False [Segment i ArgsNone]"

definition path_first :: "syn_path \<Rightarrow> ident option" where
  "path_first p = (case path_segments p of [] \<Rightarrow> None | s # _ \<Rightarrow> Some (seg_ident s))"

definition path_last :: "syn_path \<Rightarrow> segment option" where
  "path_last p = (if path_segments p = [] then None else Some (last (path_segments p)))"

section \<open>Names\<close>

definition is_ascii :: "char \<Rightarrow> bool" where
  "is_ascii c \<longleftrightarrow> (of_char c :: nat) < 128"

definition is_ascii_lowercase :: "char \<Rightarrow> bool" where
  "is_ascii_lowercase c \<longleftrightarrow> 97 \<le> (of_char c :: nat) \<and> (of_char c :: nat) \<le> 122"

text \<open>\<open>strip_prefix\<close> and \<open>unraw_ident_text\<close>: a raw identifier \<open>r#x\<close> names \<open>x\<close>.\<close>

definition strip_prefix :: "string \<Rightarrow> string \<Rightarrow> string option" where
  "strip_prefix p s = (if starts_with s p then Some (drop (length p) s) else None)"

definition unraw_ident_text :: "ident \<Rightarrow> string" where
  "unraw_ident_text i = (case strip_prefix ''r#'' i of Some t \<Rightarrow> t | None \<Rightarrow> i)"

datatype public_expr_forbidden_kind = FkAuth | FkSecret | FkGeneratedLocal | FkSecretExposure

definition public_expr_forbidden_ident_kind :: "string \<Rightarrow> public_expr_forbidden_kind option" where
  "public_expr_forbidden_ident_kind i =
     (if i = ''auth'' then Some FkAuth
      else if i = ''secret'' \<or> i = ''secrets'' then Some FkSecret
      else if i \<in> set [''ctx'', ''cx'', ''ep'', ''vars'', ''client'', ''runtime'', ''policy'', ''req'',
                       ''request'', ''headers'', ''url'', ''transport'', ''self'']
        then Some FkGeneratedLocal
      else None)"

definition public_expr_reserved_root_kind :: "ident \<Rightarrow> public_expr_forbidden_kind option" where
  "public_expr_reserved_root_kind i = public_expr_forbidden_ident_kind (unraw_ident_text i)"

definition is_public_expr_reserved_root :: "ident \<Rightarrow> bool" where
  "is_public_expr_reserved_root i \<longleftrightarrow> public_expr_reserved_root_kind i \<noteq> None"

definition is_secret_exposure_method :: "string \<Rightarrow> bool" where
  "is_secret_exposure_method i \<longleftrightarrow> i = ''expose'' \<or> i = ''expose_secret''"

definition tokens_eq_path_ident :: "syn_path \<Rightarrow> string \<Rightarrow> bool" where
  "tokens_eq_path_ident p s \<longleftrightarrow> map seg_ident (path_segments p) = [s]"

definition field_of_root :: "string \<Rightarrow> syn_expr \<Rightarrow> ident option" where
  "field_of_root root e =
     (case e of
        EField (EPath q p) (Named i) \<Rightarrow> if tokens_eq_path_ident p root then Some i else None
      | _ \<Rightarrow> None)"

definition is_cx_field :: "syn_expr \<Rightarrow> ident option" where
  "is_cx_field e = field_of_root ''vars'' e"

definition is_ep_field :: "syn_expr \<Rightarrow> ident option" where
  "is_ep_field e = field_of_root ''ep'' e"

section \<open>Limits\<close>

definition MAX_DSL_SCOPE_DEPTH :: nat where
  "MAX_DSL_SCOPE_DEPTH = 64"

definition MAX_PUBLIC_EXPR_TOKEN_GROUP_DEPTH :: nat where
  "MAX_PUBLIC_EXPR_TOKEN_GROUP_DEPTH = 64"

definition dsl_scope_depth_error :: string where
  "dsl_scope_depth_error =
     ''DSL scope nesting exceeds maximum supported depth of '' @ decimal MAX_DSL_SCOPE_DEPTH"

definition public_expr_token_group_depth_error :: string where
  "public_expr_token_group_depth_error =
     ''public expression token nesting exceeds maximum supported depth of ''
     @ decimal MAX_PUBLIC_EXPR_TOKEN_GROUP_DEPTH"

definition check_dsl_scope_depth :: "nat \<Rightarrow> (string, unit) result" where
  "check_dsl_scope_depth depth =
     (if depth > MAX_DSL_SCOPE_DEPTH then Inl dsl_scope_depth_error else Inr ())"

section \<open>Forbidden names in public expressions\<close>

type_synonym forbidden = "string \<times> public_expr_forbidden_kind"
type_synonym finding = "(string, forbidden option) result"

text \<open>The finder keeps the first finding or error: a later one is ignored.\<close>

definition first_of :: "finding \<Rightarrow> finding \<Rightarrow> finding" where
  "first_of a b = (case a of Inr None \<Rightarrow> b | _ \<Rightarrow> a)"

definition first_finding :: "finding list \<Rightarrow> finding" where
  "first_finding fs = foldr first_of fs (Inr None)"

text \<open>
  \<open>public_token_stream_forbidden\<close>: the loop over the tokens of a stream at a nesting depth, with the
  flag \<open>prev_was_dot\<close>. The depth is checked on entry to each stream.
\<close>

fun scan_tokens :: "nat \<Rightarrow> bool \<Rightarrow> token list \<Rightarrow> finding"
  and public_token_stream_forbidden :: "token list \<Rightarrow> nat \<Rightarrow> finding" where
  "scan_tokens depth prev_was_dot [] = Inr None"
| "scan_tokens depth prev_was_dot (TkIdent i # ts) =
     (let t = unraw_ident_text i in
      if prev_was_dot \<and> is_secret_exposure_method t then Inr (Some (t, FkSecretExposure))
      else case public_expr_forbidden_ident_kind t of
             Some kind \<Rightarrow> Inr (Some (t, kind))
           | None \<Rightarrow> scan_tokens depth False ts)"
| "scan_tokens depth prev_was_dot (TkGroup g # ts) =
     first_of (public_token_stream_forbidden g (depth + 1)) (scan_tokens depth False ts)"
| "scan_tokens depth prev_was_dot (TkPunct c # ts) = scan_tokens depth (c = CHR ''.'') ts"
| "scan_tokens depth prev_was_dot (TkLiteral l # ts) = scan_tokens depth False ts"
| "public_token_stream_forbidden ts depth =
     (if depth > MAX_PUBLIC_EXPR_TOKEN_GROUP_DEPTH then Inl public_expr_token_group_depth_error
      else scan_tokens depth False ts)"

definition record_ident :: "syn_path \<Rightarrow> finding" where
  "record_ident p =
     (case path_first p of
        None \<Rightarrow> Inr None
      | Some i \<Rightarrow>
          (case public_expr_reserved_root_kind i of
             None \<Rightarrow> Inr None
           | Some kind \<Rightarrow> Inr (Some (unraw_ident_text i, kind))))"

definition record_secret_exposure :: "ident \<Rightarrow> finding" where
  "record_secret_exposure m =
     (let t = unraw_ident_text m in
      if is_secret_exposure_method t then Inr (Some (t, FkSecretExposure)) else Inr None)"

text \<open>What the overridden visitor methods record at a node itself, before they visit its children.\<close>

definition visit_macro :: "syn_path \<Rightarrow> token list \<Rightarrow> finding" where
  "visit_macro p ts = first_of (record_ident p) (public_token_stream_forbidden ts 0)"

definition visit_own :: "syn_node \<Rightarrow> finding" where
  "visit_own n =
     (case n of
        NExpr (EPath q p) \<Rightarrow> record_ident p
      | NExpr (EMethodCall r m targs args) \<Rightarrow> record_secret_exposure m
      | NExpr (EMacro p ts) \<Rightarrow> visit_macro p ts
      | NType (TyMacro p ts) \<Rightarrow> visit_macro p ts
      | _ \<Rightarrow> Inr None)"

text \<open>The children of a node in the order \<open>syn::visit\<close> reaches them.\<close>

definition args_nodes :: "path_args \<Rightarrow> syn_node list" where
  "args_nodes a = (case a of ArgsNone \<Rightarrow> [] | ArgsAngle ns \<Rightarrow> ns | ArgsParen ns \<Rightarrow> ns)"

definition path_nodes :: "syn_path \<Rightarrow> syn_node list" where
  "path_nodes p = concat (map (args_nodes \<circ> seg_args) (path_segments p))"

definition qself_nodes :: "syn_type option \<Rightarrow> syn_node list" where
  "qself_nodes q = (case q of None \<Rightarrow> [] | Some t \<Rightarrow> [NType t])"

definition expr_children :: "syn_expr \<Rightarrow> syn_node list" where
  "expr_children e =
     (case e of
        EPath q p \<Rightarrow> qself_nodes q @ path_nodes p
      | EField b m \<Rightarrow> [NExpr b]
      | ECast b t \<Rightarrow> [NExpr b, NType t]
      | EParen b \<Rightarrow> [NExpr b]
      | EReference mut b \<Rightarrow> [NExpr b]
      | EUnary op b \<Rightarrow> [NExpr b]
      | EBinary l op r \<Rightarrow> [NExpr l, NExpr r]
      | EMethodCall r m targs args \<Rightarrow> NExpr r # targs @ map NExpr args
      | ECall f args \<Rightarrow> NExpr f # map NExpr args
      | ELitStr s \<Rightarrow> []
      | ELitOther s \<Rightarrow> []
      | EMacro p ts \<Rightarrow> path_nodes p
      | EOther k ns \<Rightarrow> ns)"

definition type_children :: "syn_type \<Rightarrow> syn_node list" where
  "type_children t =
     (case t of
        TyPath q p \<Rightarrow> qself_nodes q @ path_nodes p
      | TyMacro p ts \<Rightarrow> path_nodes p
      | TyOther k ns \<Rightarrow> ns)"

definition children :: "syn_node \<Rightarrow> syn_node list" where
  "children n =
     (case n of NType t \<Rightarrow> type_children t | NExpr e \<Rightarrow> expr_children e | NOther k ns \<Rightarrow> ns)"

lemma in_list_size: "x \<in> set xs \<Longrightarrow> size x \<le> size_list size xs"
  by (induction xs) auto

lemma args_nodes_size: "n \<in> set (args_nodes a) \<Longrightarrow> size n < size a"
  by (cases a) (auto simp: args_nodes_def dest!: in_list_size)

lemma path_nodes_size:
  assumes "n \<in> set (path_nodes p)"
  shows "size n < size p"
proof (cases p)
  case (SynPath lc segs)
  with assms obtain s where s: "s \<in> set segs" and n: "n \<in> set (args_nodes (seg_args s))"
    by (auto simp: path_nodes_def)
  have "size n < size s"
    using args_nodes_size [OF n] by (cases s) auto
  moreover have "size s \<le> size_list size segs"
    using s by (rule in_list_size)
  ultimately show ?thesis using SynPath by simp
qed

lemma qself_nodes_size: "n \<in> set (qself_nodes q) \<Longrightarrow> size n \<le> size_option size q"
  by (cases q) (auto simp: qself_nodes_def)

lemma expr_children_size:
  assumes "c \<in> set (expr_children e)"
  shows "size c \<le> size e"
proof (cases e)
  case (EPath q p)
  then consider "c \<in> set (qself_nodes q)" | "c \<in> set (path_nodes p)"
    using assms by (auto simp: expr_children_def)
  then show ?thesis
    using EPath by cases (auto dest: qself_nodes_size path_nodes_size)
next
  case (EMethodCall r m targs args)
  then consider "c = NExpr r" | "c \<in> set targs" | x where "x \<in> set args" "c = NExpr x"
    using assms by (auto simp: expr_children_def)
  then show ?thesis
    using EMethodCall by cases (auto dest: in_list_size)
next
  case (ECall f args)
  then consider "c = NExpr f" | x where "x \<in> set args" "c = NExpr x"
    using assms by (auto simp: expr_children_def)
  then show ?thesis
    using ECall by cases (auto dest: in_list_size)
next
  case (EMacro p ts)
  then show ?thesis
    using assms path_nodes_size [of c p] by (auto simp: expr_children_def)
next
  case (EOther k ns)
  then show ?thesis
    using assms in_list_size [of c ns] by (auto simp: expr_children_def)
qed (use assms in \<open>auto simp: expr_children_def\<close>)

lemma type_children_size:
  assumes "c \<in> set (type_children t)"
  shows "size c \<le> size t"
proof (cases t)
  case (TyPath q p)
  then consider "c \<in> set (qself_nodes q)" | "c \<in> set (path_nodes p)"
    using assms by (auto simp: type_children_def)
  then show ?thesis
    using TyPath by cases (auto dest: qself_nodes_size path_nodes_size)
next
  case (TyMacro p ts)
  then show ?thesis
    using assms path_nodes_size [of c p] by (auto simp: type_children_def)
next
  case (TyOther k ns)
  then show ?thesis
    using assms in_list_size [of c ns] by (auto simp: type_children_def)
qed

lemma children_size: "c \<in> set (children n) \<Longrightarrow> size c < size n"
  by (cases n) (auto simp: children_def dest: expr_children_size type_children_size in_list_size)

text \<open>\<open>Visit::visit_expr\<close> with the finder: a node, then what is nested in it.\<close>

function visit_node :: "syn_node \<Rightarrow> finding" where
  "visit_node n = first_of (visit_own n) (first_finding (map visit_node (children n)))"
  by pat_completeness auto
termination
  by (relation "measure size") (auto intro: children_size)

declare visit_node.simps [simp del]

definition public_expr_forbidden :: "syn_expr \<Rightarrow> finding" where
  "public_expr_forbidden e = visit_node (NExpr e)"

definition public_expr_forbidden_error :: "forbidden \<Rightarrow> string" where
  "public_expr_forbidden_error found =
     (case snd found of
        FkAuth \<Rightarrow> ''auth references are not allowed in public policy expressions; use an auth declaration/use instead''
      | FkSecret \<Rightarrow> ''secret references are only allowed in credential declarations''
      | FkGeneratedLocal \<Rightarrow>
          ''generated implementation local `'' @ fst found
          @ ''` is not part of the public DSL expression scope''
      | FkSecretExposure \<Rightarrow> ''secret exposure methods are not allowed in public policy expressions'')"

definition validate_public_expr :: "syn_expr \<Rightarrow> (string, unit) result" where
  "validate_public_expr e =
     (case public_expr_forbidden e of
        Inl err \<Rightarrow> Inl err
      | Inr (Some found) \<Rightarrow> Inl (public_expr_forbidden_error found)
      | Inr None \<Rightarrow> Inr ())"

section \<open>What an accepted expression cannot mention\<close>

text \<open>A node occurs in another when it is nested in it at any depth.\<close>

inductive occurs_in :: "syn_node \<Rightarrow> syn_node \<Rightarrow> bool" where
  here: "occurs_in n n"
| below: "c \<in> set (children m) \<Longrightarrow> occurs_in n c \<Longrightarrow> occurs_in n m"

text \<open>A token stream the scan must not accept: a reserved name anywhere in it, an exposure method
  right after a dot, or groups nested deeper than the limit.\<close>

inductive bad_tokens :: "nat \<Rightarrow> token list \<Rightarrow> bool" where
  reserved: "public_expr_forbidden_ident_kind (unraw_ident_text i) \<noteq> None
    \<Longrightarrow> bad_tokens depth (pre @ TkIdent i # post)"
| exposure: "is_secret_exposure_method (unraw_ident_text i)
    \<Longrightarrow> bad_tokens depth (pre @ TkPunct CHR ''.'' # TkIdent i # post)"
| too_deep: "depth \<ge> MAX_PUBLIC_EXPR_TOKEN_GROUP_DEPTH
    \<Longrightarrow> bad_tokens depth (pre @ TkGroup g # post)"
| nested: "bad_tokens (depth + 1) g \<Longrightarrow> bad_tokens depth (pre @ TkGroup g # post)"

lemma first_of_None_iff [simp]: "first_of a b = Inr None \<longleftrightarrow> a = Inr None \<and> b = Inr None"
  by (auto simp: first_of_def split: sum.splits option.splits)

lemma first_finding_None_iff: "first_finding fs = Inr None \<longleftrightarrow> (\<forall>f\<in>set fs. f = Inr None)"
  by (induction fs) (auto simp: first_finding_def)

lemma visit_node_None_iff:
  "visit_node n = Inr None \<longleftrightarrow> visit_own n = Inr None \<and> (\<forall>c\<in>set (children n). visit_node c = Inr None)"
  by (subst visit_node.simps) (auto simp: first_finding_None_iff)

lemma visit_node_occurs:
  "visit_node n = Inr None \<longleftrightarrow> (\<forall>m. occurs_in m n \<longrightarrow> visit_own m = Inr None)"
proof
  assume ok: "visit_node n = Inr None"
  show "\<forall>m. occurs_in m n \<longrightarrow> visit_own m = Inr None"
  proof (intro allI impI)
    fix m
    assume "occurs_in m n"
    then show "visit_own m = Inr None"
      using ok
    proof (induction rule: occurs_in.induct)
      case (here n)
      then show ?case by (simp only: visit_node_None_iff [of n])
    next
      case (below c m n)
      then have "visit_node c = Inr None" unfolding visit_node_None_iff [of m] by blast
      with below.IH show ?case .
    qed
  qed
next
  show "\<forall>m. occurs_in m n \<longrightarrow> visit_own m = Inr None \<Longrightarrow> visit_node n = Inr None"
  proof (induction n rule: visit_node.induct)
    case (1 n)
    then show ?case
      unfolding visit_node_None_iff [of n] by (blast intro: occurs_in.intros)
  qed
qed

lemma bad_tokens_Cons:
  assumes "bad_tokens d ts"
  shows "bad_tokens d (t # ts)"
  using assms
proof cases
  case (reserved i pre post)
  then show ?thesis using bad_tokens.reserved [of i d "t # pre" post] by simp
next
  case (exposure i pre post)
  then show ?thesis using bad_tokens.exposure [of i d "t # pre" post] by simp
next
  case (too_deep pre g post)
  then show ?thesis using bad_tokens.too_deep [of d "t # pre" g post] by simp
next
  case (nested g pre post)
  then show ?thesis using bad_tokens.nested [of d g "t # pre" post] by simp
qed

text \<open>What makes a stream bad at its first token.\<close>

definition bad_head :: "nat \<Rightarrow> token \<Rightarrow> token list \<Rightarrow> bool" where
  "bad_head d t ts \<longleftrightarrow>
     (case t of
        TkIdent i \<Rightarrow> public_expr_forbidden_ident_kind (unraw_ident_text i) \<noteq> None
      | TkPunct c \<Rightarrow> c = CHR ''.'' \<and>
          (case ts of TkIdent i # _ \<Rightarrow> is_secret_exposure_method (unraw_ident_text i) | _ \<Rightarrow> False)
      | TkGroup g \<Rightarrow> d \<ge> MAX_PUBLIC_EXPR_TOKEN_GROUP_DEPTH \<or> bad_tokens (d + 1) g
      | TkLiteral l \<Rightarrow> False)"

lemma bad_tokens_Nil [simp]: "\<not> bad_tokens d []"
  by (auto elim: bad_tokens.cases)

lemma bad_tokens_Cons_iff: "bad_tokens d (t # ts) \<longleftrightarrow> bad_head d t ts \<or> bad_tokens d ts"
proof
  assume "bad_tokens d (t # ts)"
  then show "bad_head d t ts \<or> bad_tokens d ts"
  proof cases
    case (reserved i pre post)
    then show ?thesis
      by (cases pre) (auto simp: bad_head_def intro: bad_tokens.reserved)
  next
    case (exposure i pre post)
    then show ?thesis
      by (cases pre) (auto simp: bad_head_def intro: bad_tokens.exposure)
  next
    case (too_deep pre g post)
    then show ?thesis
      by (cases pre) (auto simp: bad_head_def intro: bad_tokens.too_deep)
  next
    case (nested g pre post)
    then show ?thesis
      by (cases pre) (auto simp: bad_head_def intro: bad_tokens.nested)
  qed
next
  assume "bad_head d t ts \<or> bad_tokens d ts"
  then show "bad_tokens d (t # ts)"
  proof
    assume h: "bad_head d t ts"
    show ?thesis
    proof (cases t)
      case (TkIdent i)
      then show ?thesis using h bad_tokens.reserved [of i d "[]"] by (simp add: bad_head_def)
    next
      case (TkPunct c)
      then obtain i rest where "c = CHR ''.''" "ts = TkIdent i # rest"
        "is_secret_exposure_method (unraw_ident_text i)"
        using h by (auto simp: bad_head_def split: list.splits token.splits)
      then show ?thesis using TkPunct bad_tokens.exposure [of i d "[]" rest] by simp
    next
      case (TkGroup g)
      then show ?thesis
        using h bad_tokens.too_deep [of d "[]" g ts] bad_tokens.nested [of d g "[]" ts]
        by (auto simp: bad_head_def)
    next
      case (TkLiteral l)
      then show ?thesis using h by (simp add: bad_head_def)
    qed
  qed (rule bad_tokens_Cons)
qed

text \<open>
  A scan that has just passed a dot also looks at the first token for an exposure method. The scan
  accepts exactly the streams with nothing bad in them.
\<close>

definition exposed_head :: "token list \<Rightarrow> bool" where
  "exposed_head ts \<longleftrightarrow>
     (case ts of TkIdent i # _ \<Rightarrow> is_secret_exposure_method (unraw_ident_text i) | _ \<Rightarrow> False)"

lemma exposed_head_simps [simp]:
  "\<not> exposed_head []"
  "exposed_head (TkIdent i # ts) \<longleftrightarrow> is_secret_exposure_method (unraw_ident_text i)"
  "\<not> exposed_head (TkGroup g # ts)" "\<not> exposed_head (TkPunct c # ts)"
  "\<not> exposed_head (TkLiteral l # ts)"
  by (simp_all add: exposed_head_def)

lemma bad_head_simps [simp]:
  "bad_head d (TkIdent i) ts \<longleftrightarrow> public_expr_forbidden_ident_kind (unraw_ident_text i) \<noteq> None"
  "bad_head d (TkPunct c) ts \<longleftrightarrow> c = CHR ''.'' \<and> exposed_head ts"
  "bad_head d (TkGroup g) ts \<longleftrightarrow> d \<ge> MAX_PUBLIC_EXPR_TOKEN_GROUP_DEPTH \<or> bad_tokens (d + 1) g"
  "\<not> bad_head d (TkLiteral l) ts"
  by (simp_all add: bad_head_def exposed_head_def)

lemma scan_tokens_None_iff:
  "scan_tokens d dot ts = Inr None \<longleftrightarrow> \<not> bad_tokens d ts \<and> \<not> (dot \<and> exposed_head ts)"
  "public_token_stream_forbidden ts d = Inr None \<longleftrightarrow>
     d \<le> MAX_PUBLIC_EXPR_TOKEN_GROUP_DEPTH \<and> \<not> bad_tokens d ts"
proof (induction d dot ts and ts d rule: scan_tokens_public_token_stream_forbidden.induct)
  case (2 d dot i ts)
  then show ?case by (auto simp: bad_tokens_Cons_iff Let_def split: option.splits)
next
  case (3 d dot g ts)
  then show ?case by (auto simp: bad_tokens_Cons_iff not_le)
next
  case (4 d dot c ts)
  then show ?case by (auto simp: bad_tokens_Cons_iff)
next
  case (5 d dot l ts)
  then show ?case by (auto simp: bad_tokens_Cons_iff)
qed (auto split: if_splits)

text \<open>What the finder objects to at a node.\<close>

definition bad_node :: "syn_node \<Rightarrow> bool" where
  "bad_node n \<longleftrightarrow>
     (case n of
        NExpr (EPath q p) \<Rightarrow> (\<exists>r. path_first p = Some r \<and> is_public_expr_reserved_root r)
      | NExpr (EMethodCall r m targs args) \<Rightarrow> is_secret_exposure_method (unraw_ident_text m)
      | NExpr (EMacro p ts) \<Rightarrow>
          (\<exists>r. path_first p = Some r \<and> is_public_expr_reserved_root r) \<or> bad_tokens 0 ts
      | NType (TyMacro p ts) \<Rightarrow>
          (\<exists>r. path_first p = Some r \<and> is_public_expr_reserved_root r) \<or> bad_tokens 0 ts
      | _ \<Rightarrow> False)"

lemma record_ident_None_iff:
  "record_ident p = Inr None \<longleftrightarrow> \<not> (\<exists>r. path_first p = Some r \<and> is_public_expr_reserved_root r)"
  by (auto simp: record_ident_def is_public_expr_reserved_root_def split: option.splits)

lemma visit_macro_None_iff:
  "visit_macro p ts = Inr None \<longleftrightarrow>
     \<not> (\<exists>r. path_first p = Some r \<and> is_public_expr_reserved_root r) \<and> \<not> bad_tokens 0 ts"
  by (simp only: visit_macro_def first_of_None_iff record_ident_None_iff scan_tokens_None_iff) simp

lemma visit_own_None_iff: "visit_own n = Inr None \<longleftrightarrow> \<not> bad_node n"
proof -
  have "record_secret_exposure m = Inr None \<longleftrightarrow> \<not> is_secret_exposure_method (unraw_ident_text m)" for m
    by (simp add: record_secret_exposure_def Let_def)
  then show ?thesis
    unfolding visit_own_def bad_node_def
    by (simp add: record_ident_None_iff visit_macro_None_iff
             split: syn_node.split syn_expr.split syn_type.split)
qed

lemma visit_node_clean:
  "visit_node (NExpr e) = Inr None \<longleftrightarrow> \<not> (\<exists>n. occurs_in n (NExpr e) \<and> bad_node n)"
  by (simp only: visit_node_occurs visit_own_None_iff) blast

lemma validate_public_expr_Inr:
  "validate_public_expr e = Inr () \<longleftrightarrow> visit_node (NExpr e) = Inr None"
  by (auto simp: validate_public_expr_def public_expr_forbidden_def split: sum.splits option.splits)


end
