(* ===== verification/MacroNames.thy ===== *)
theory MacroNames
  imports BTree MacroSyntax
begin

text \<open>
  \<open>concord_macros/src/sema/common.rs\<close>: the diagnostics for unknown names with their suggestions, and
  the declaration of variables. Identifiers and literals are their text, source positions are
  dropped, and an error is its message. A suggestion is the candidate with the least edit distance;
  the row-by-row computation of that distance is proved equal to the length of a shortest sequence
  of one-character edits.
\<close>

section \<open>Edit distance\<close>

text \<open>\<open>str::chars\<close> on UTF-8 bytes: a continuation byte belongs to the character before it.\<close>

definition is_cont_byte :: "char \<Rightarrow> bool" where
  "is_cont_byte c \<longleftrightarrow> 128 \<le> (of_char c :: nat) \<and> (of_char c :: nat) < 192"

function chars :: "string \<Rightarrow> string list" where
  "chars [] = []"
| "chars (c # s) = (c # takeWhile is_cont_byte s) # chars (dropWhile is_cont_byte s)"
  by pat_completeness auto
termination
  by (relation "measure length") (auto simp: le_imp_less_Suc length_dropWhile_le)

text \<open>
  One pass of the inner loop: \<open>costs\<close> from position \<open>j\<close> on, with \<open>left\<close> the entry just written and
  \<open>previous\<close> the old entry before it.
\<close>

fun lev_row :: "'c \<Rightarrow> 'c list \<Rightarrow> nat \<Rightarrow> nat \<Rightarrow> nat list \<Rightarrow> nat list" where
  "lev_row ca (cb # bs) previous left (c # costs) =
     (let insert_cost = c + 1;
          delete_cost = left + 1;
          replace_cost = previous + (if ca \<noteq> cb then 1 else 0);
          v = min (min insert_cost delete_cost) replace_cost
      in v # lev_row ca bs c v costs)"
| "lev_row ca _ previous left costs = []"

fun lev_rows :: "nat \<Rightarrow> 'c list \<Rightarrow> 'c list \<Rightarrow> nat list \<Rightarrow> nat list" where
  "lev_rows i [] bs costs = costs"
| "lev_rows i (ca # as) bs costs =
     lev_rows (Suc i) as bs (Suc i # lev_row ca bs (hd costs) (Suc i) (tl costs))"

definition levenshtein :: "string \<Rightarrow> string \<Rightarrow> nat" where
  "levenshtein a b =
     (let b_chars = chars b;
          costs = lev_rows 0 (chars a) b_chars [0..<Suc (length b_chars)]
      in costs ! length b_chars)"

text \<open>The reference: one-character replacements, deletions and insertions anywhere in a text.\<close>

inductive edit_step :: "'c list \<Rightarrow> 'c list \<Rightarrow> bool" where
  replace: "edit_step (x # a) (y # a)"
| delete: "edit_step (x # a) a"
| insert: "edit_step a (y # a)"
| deeper: "edit_step a a' \<Longrightarrow> edit_step (c # a) (c # a')"

text \<open>Alignments of two texts, by their cost.\<close>

inductive aligns :: "nat \<Rightarrow> 'c list \<Rightarrow> 'c list \<Rightarrow> bool" where
  nil: "aligns 0 [] []"
| keep: "aligns n a b \<Longrightarrow> aligns n (c # a) (c # b)"
| replace: "aligns n a b \<Longrightarrow> aligns (Suc n) (x # a) (y # b)"
| delete: "aligns n a b \<Longrightarrow> aligns (Suc n) (x # a) b"
| insert: "aligns n a b \<Longrightarrow> aligns (Suc n) a (y # b)"

inductive_cases edit_step_to_NilE: "edit_step a []"

fun edit_distance :: "'c list \<Rightarrow> 'c list \<Rightarrow> nat" where
  "edit_distance [] b = length b"
| "edit_distance a [] = length a"
| "edit_distance (x # a) (y # b) =
     min (min (edit_distance (x # a) b + 1) (edit_distance a (y # b) + 1))
         (edit_distance a b + (if x \<noteq> y then 1 else 0))"

lemma edit_distance_Nil2 [simp]: "edit_distance a [] = length a"
  by (cases a) auto

lemma aligns_refl: "aligns 0 a a"
  by (induction a) (auto intro: aligns.intros)

lemma aligns_Nil1: "aligns (length b) [] b"
  by (induction b) (auto intro: aligns.intros)

lemma aligns_Nil2: "aligns (length a) a []"
  by (induction a) (auto intro: aligns.intros)

lemma aligns_edit_distance: "aligns (edit_distance a b) a b"
proof (induction a b rule: edit_distance.induct)
  case (3 x a y b)
  let ?i = "edit_distance (x # a) b + 1" and ?d = "edit_distance a (y # b) + 1"
    and ?r = "edit_distance a b + (if x \<noteq> y then 1 else 0)"
  have "aligns ?i (x # a) (y # b)" using aligns.insert [OF 3(1)] by simp
  moreover have "aligns ?d (x # a) (y # b)" using aligns.delete [OF 3(2)] by simp
  moreover have "aligns ?r (x # a) (y # b)"
    using aligns.keep [OF 3(3), of x] aligns.replace [OF 3(3), of x y] by auto
  ultimately show ?case by (simp add: min_def)
next
  case (2 x a)
  then show ?case using aligns_Nil2 [of "x # a"] by simp
qed (simp add: aligns_Nil1)

lemma edit_distance_cons_le:
  "edit_distance (x # a) b \<le> Suc (edit_distance a b)"
  "edit_distance a (y # b) \<le> Suc (edit_distance a b)"
proof -
  show "edit_distance (x # a) b \<le> Suc (edit_distance a b)"
    by (cases b) auto
  show "edit_distance a (y # b) \<le> Suc (edit_distance a b)"
    by (cases a) auto
qed

lemma edit_distance_least: "aligns n a b \<Longrightarrow> edit_distance a b \<le> n"
proof (induction rule: aligns.induct)
  case (delete n a b x)
  then show ?case using edit_distance_cons_le(1) [of x a b] by linarith
next
  case (insert n a b y)
  then show ?case using edit_distance_cons_le(2) [of a y b] by linarith
qed auto

lemma aligns_after_step:
  assumes "aligns n a' b" and "edit_step a a'"
  shows "\<exists>m\<le>Suc n. aligns m a b"
  using assms
proof (induction arbitrary: a rule: aligns.induct)
  case nil
  then show ?case
    by (auto elim!: edit_step_to_NilE intro: aligns.intros)
next
  case (keep n a' b c)
  from keep.prems show ?case
  proof cases
    case (deeper a1)
    with keep.IH show ?thesis by (meson aligns.keep)
  qed (use keep.hyps in \<open>blast intro: aligns.intros le_refl le_SucI\<close>)+
next
  case (replace n a' b x y)
  from replace.prems show ?case
  proof cases
    case (deeper a1)
    with replace.IH obtain m where "m \<le> Suc n" "aligns m a1 b" by blast
    with deeper show ?thesis using aligns.replace [of m a1 b x y] by (meson Suc_le_mono)
  qed (use replace.hyps in \<open>blast intro: aligns.intros le_refl le_SucI\<close>)+
next
  case (delete n a' b x)
  from delete.prems show ?case
  proof cases
    case (deeper a1)
    with delete.IH obtain m where "m \<le> Suc n" "aligns m a1 b" by blast
    with deeper show ?thesis using aligns.delete [of m a1 b x] by (meson Suc_le_mono)
  qed (use delete.hyps in \<open>blast intro: aligns.intros le_refl le_SucI\<close>)+
next
  case (insert n a' b y)
  then obtain m where "m \<le> Suc n" "aligns m a b" by blast
  then show ?case using aligns.insert [of m a b y] by (meson Suc_le_mono)
qed

lemma edit_steps_cons: "(edit_step ^^ n) a b \<Longrightarrow> (edit_step ^^ n) (c # a) (c # b)"
  by (induction n arbitrary: b) (auto intro: edit_step.deeper)

lemma aligns_imp_steps: "aligns n a b \<Longrightarrow> (edit_step ^^ n) a b"
proof (induction rule: aligns.induct)
  case (keep n a b c)
  then show ?case by (blast intro: edit_steps_cons)
next
  case (replace n a b x y)
  then have "(edit_step ^^ n) (y # a) (y # b)" by (blast intro: edit_steps_cons)
  then show ?case by (meson edit_step.replace relpowp_Suc_I2)
next
  case (delete n a b x)
  then show ?case by (meson edit_step.delete relpowp_Suc_I2)
next
  case (insert n a b y)
  then show ?case by (meson edit_step.insert relpowp_Suc_I)
qed simp

lemma steps_imp_aligns: "(edit_step ^^ n) a b \<Longrightarrow> \<exists>m\<le>n. aligns m a b"
proof (induction n arbitrary: a)
  case 0
  then show ?case using aligns_refl by auto
next
  case (Suc n)
  then obtain a' where "edit_step a a'" "(edit_step ^^ n) a' b"
    by (meson relpowp_Suc_D2)
  with Suc.IH obtain m where "m \<le> n" "aligns m a' b" by blast
  with aligns_after_step \<open>edit_step a a'\<close> show ?case
    by (meson Suc_le_mono le_trans)
qed

lemma edit_distance_is_least:
  "edit_distance a b = (LEAST n. (edit_step ^^ n) a b)"
  by (rule sym, rule Least_equality)
     (auto intro: aligns_imp_steps aligns_edit_distance
           dest!: steps_imp_aligns edit_distance_least)

lemma aligns_snoc:
  assumes "aligns n a b"
  shows "aligns n (a @ [c]) (b @ [c])" "aligns (Suc n) (a @ [x]) (b @ [y])"
    "aligns (Suc n) (a @ [x]) b" "aligns (Suc n) a (b @ [y])"
  using assms by (induction rule: aligns.induct) (auto intro: aligns.intros)

lemma aligns_rev: "aligns n a b \<Longrightarrow> aligns n (rev a) (rev b)"
  by (induction rule: aligns.induct) (auto intro: aligns_snoc aligns.nil)

lemma edit_distance_rev: "edit_distance (rev a) (rev b) = edit_distance a b"
  by (rule antisym)
     (metis aligns_edit_distance aligns_rev edit_distance_least,
      metis aligns_edit_distance aligns_rev edit_distance_least rev_rev_ident)

text \<open>The table row after reading the prefix \<open>a\<close>: its distance to every prefix of \<open>b\<close>.\<close>

definition lev_spec_row :: "'c list \<Rightarrow> 'c list \<Rightarrow> nat list" where
  "lev_spec_row a b = map (\<lambda>j. edit_distance a (take j b)) [0..<Suc (length b)]"

lemma edit_distance_snoc:
  "edit_distance (a @ [x]) (b @ [y]) =
     min (min (edit_distance (a @ [x]) b + 1) (edit_distance a (b @ [y]) + 1))
         (edit_distance a b + (if x \<noteq> y then 1 else 0))"
  using edit_distance.simps(3) [of x "rev a" y "rev b"]
    edit_distance_rev [of "a @ [x]" "b @ [y]"] edit_distance_rev [of "a @ [x]" b]
    edit_distance_rev [of a "b @ [y]"] edit_distance_rev [of a b]
  by simp

lemma lev_row_spec:
  assumes "costs = map (\<lambda>j. edit_distance a (b0 @ take (Suc j) bs)) [0..<length bs]"
  shows "lev_row x bs (edit_distance a b0) (edit_distance (a @ [x]) b0) costs
    = map (\<lambda>j. edit_distance (a @ [x]) (b0 @ take (Suc j) bs)) [0..<length bs]"
  using assms
proof (induction bs arbitrary: b0 costs)
  case Nil
  then show ?case by simp
next
  case (Cons y bs)
  let ?f = "\<lambda>a j. edit_distance a ((b0 @ [y]) @ take (Suc j) bs)"
  have costs: "costs = edit_distance a (b0 @ [y]) # map (?f a) [0..<length bs]"
    using Cons.prems by (simp add: upt_conv_Cons map_Suc_upt [symmetric] comp_def del: upt_Suc)
  have v: "min (min (edit_distance a (b0 @ [y]) + 1) (edit_distance (a @ [x]) b0 + 1))
      (edit_distance a b0 + (if x \<noteq> y then 1 else 0)) = edit_distance (a @ [x]) (b0 @ [y])"
    by (simp only: edit_distance_snoc min.commute)
  show ?case
    unfolding costs lev_row.simps Let_def v Cons.IH [OF refl, of "b0 @ [y]"]
    by (simp add: upt_conv_Cons map_Suc_upt [symmetric] comp_def del: upt_Suc)
qed

lemma lev_rows_spec:
  "lev_rows (length a) as b (lev_spec_row a b) = lev_spec_row (a @ as) b"
proof (induction as arbitrary: a)
  case Nil
  then show ?case by simp
next
  case (Cons x as)
  have split: "lev_spec_row a' b
      = length a' # map (\<lambda>j. edit_distance a' (take (Suc j) b)) [0..<length b]" for a'
    unfolding lev_spec_row_def
    by (simp add: upt_conv_Cons map_Suc_upt [symmetric] comp_def del: upt_Suc)
  have row: "lev_row x b (edit_distance a []) (edit_distance (a @ [x]) [])
        (map (\<lambda>j. edit_distance a (take (Suc j) b)) [0..<length b])
      = map (\<lambda>j. edit_distance (a @ [x]) (take (Suc j) b)) [0..<length b]"
    using lev_row_spec [of _ a "[]" b x, OF refl] by simp
  have "Suc (length a) # lev_row x b (hd (lev_spec_row a b)) (Suc (length a)) (tl (lev_spec_row a b))
      = lev_spec_row (a @ [x]) b"
    using row unfolding split by simp
  with Cons.IH [of "a @ [x]"] show ?case by simp
qed

lemma levenshtein_edit_distance: "levenshtein a b = edit_distance (chars a) (chars b)"
proof -
  have "[0..<Suc (length (chars b))] = lev_spec_row [] (chars b)"
    by (rule nth_equalityI) (auto simp: lev_spec_row_def simp del: upt_Suc)
  then have "levenshtein a b = lev_spec_row (chars a) (chars b) ! length (chars b)"
    using lev_rows_spec [of "[]" "chars a" "chars b"]
    by (simp add: levenshtein_def Let_def del: upt_Suc)
  also have "\<dots> = edit_distance (chars a) (chars b)"
    by (simp add: lev_spec_row_def del: upt_Suc)
  finally show ?thesis .
qed

text \<open>
  The edit distance computed row by row is the length of a shortest sequence of
  replacements, deletions and insertions of single characters that turns one name into the other.
\<close>

theorem levenshtein_least_edits:
  "levenshtein a b = (LEAST n. (edit_step ^^ n) (chars a) (chars b))"
  by (simp only: levenshtein_edit_distance edit_distance_is_least)

section \<open>Suggestions for unknown names\<close>

text \<open>\<open>Iterator::min_by_key\<close>: the first element with the least key.\<close>

fun min_by_key :: "('a \<Rightarrow> 'k::linorder) \<Rightarrow> 'a list \<Rightarrow> 'a option" where
  "min_by_key f [] = None"
| "min_by_key f (x # xs) =
     (case min_by_key f xs of None \<Rightarrow> Some x | Some y \<Rightarrow> if f y < f x then Some y else Some x)"

definition abs_diff :: "nat \<Rightarrow> nat \<Rightarrow> nat" where
  "abs_diff a b = (if a < b then b - a else a - b)"

definition name_score :: "string \<Rightarrow> string \<Rightarrow> nat \<times> nat" where
  "name_score needle candidate =
     (levenshtein needle candidate, abs_diff (length candidate) (length needle))"

definition close_enough :: "nat \<times> nat \<Rightarrow> bool" where
  "close_enough s \<longleftrightarrow> fst s \<le> 3 \<or> (fst s \<le> 4 \<and> snd s \<le> 2)"

definition best_name_suggestion :: "string \<Rightarrow> string list \<Rightarrow> string option" where
  "best_name_suggestion needle candidates =
     min_by_key (name_score needle)
       (filter (\<lambda>c. close_enough (name_score needle c)) candidates)"

lemma min_by_key_None_iff [simp]: "min_by_key f xs = None \<longleftrightarrow> xs = []"
  by (cases xs) (auto split: option.splits)

lemma min_by_key_Some:
  "min_by_key f xs = Some x \<Longrightarrow> x \<in> set xs \<and> (\<forall>y\<in>set xs. f x \<le> f y)"
proof (induction xs arbitrary: x)
  case (Cons a xs)
  show ?case
  proof (cases "min_by_key f xs")
    case None
    with Cons.prems show ?thesis by simp
  next
    case (Some y)
    with Cons.IH have "y \<in> set xs" "\<forall>z\<in>set xs. f y \<le> f z" by auto
    then show ?thesis
      using Cons.prems Some by (auto split: if_splits dest: less_imp_le)
  qed
qed simp

text \<open>
  A suggestion is a declared name, close enough to the one asked for, and no declared name is closer;
  there is none only when no declared name is close enough. A name that is declared suggests itself.
\<close>

theorem best_name_suggestion_nearest:
  "(case best_name_suggestion needle names of
      None \<Rightarrow> \<not> (\<exists>c\<in>set names. close_enough (name_score needle c))
    | Some c \<Rightarrow> c \<in> set names \<and> close_enough (name_score needle c)
        \<and> \<not> (\<exists>d\<in>set names. name_score needle d < name_score needle c))"
proof (cases "best_name_suggestion needle names")
  case None
  then show ?thesis by (auto simp: best_name_suggestion_def filter_empty_conv)
next
  case (Some c)
  then have c: "c \<in> set names" "close_enough (name_score needle c)"
    and least: "\<And>d. d \<in> set names \<Longrightarrow> close_enough (name_score needle d) \<Longrightarrow>
        name_score needle c \<le> name_score needle d"
    by (auto simp: best_name_suggestion_def dest!: min_by_key_Some)
  have "close_enough (name_score needle d)" if "name_score needle d < name_score needle c" for d
    using that c(2) by (auto simp: close_enough_def less_prod_def)
  with c least Some show ?thesis by (auto dest: leD)
qed

fun join :: "string \<Rightarrow> string list \<Rightarrow> string" where
  "join sep [] = []"
| "join sep [x] = x"
| "join sep (x # y # ys) = x @ sep @ join sep (y # ys)"

definition unknown_name_message_from_keys :: "string \<Rightarrow> string \<Rightarrow> string list \<Rightarrow> string" where
  "unknown_name_message_from_keys kind name available =
     ''unknown '' @ kind @ '' `'' @ name @ ''`''
     @ (case best_name_suggestion name available of
          Some suggestion \<Rightarrow> ''\<newline>did you mean `'' @ suggestion @ ''`?''
        | None \<Rightarrow> [])
     @ (if available = [] then ''\<newline>no '' @ kind @ ''s are declared''
        else ''\<newline>available '' @ kind @ ''s: ''
             @ join '', '' (map (\<lambda>n. ''`'' @ n @ ''`'') available))"

definition unknown_name_message :: "string \<Rightarrow> ident \<Rightarrow> (string, 'v) btree \<Rightarrow> string" where
  "unknown_name_message kind name available =
     unknown_name_message_from_keys kind name (bt_keys available)"

definition unknown_scoped_name_message ::
    "string \<Rightarrow> string \<Rightarrow> ident \<Rightarrow> (string, 'v) btree \<Rightarrow> string" where
  "unknown_scoped_name_message kind prefix name available =
     unknown_name_message_from_keys kind (prefix @ ''.'' @ name)
       (map (\<lambda>key. prefix @ ''.'' @ key) (bt_keys available))"

section \<open>Variables\<close>

record var_info =
  vi_rust :: ident
  vi_optional :: bool
  vi_ty :: syn_type
  vi_default :: "syn_expr option"

type_synonym var_map = "(string, var_info) btree"

datatype policy_owner = OwnerClient | OwnerEndpoint | OwnerLayer

definition upsert_var ::
    "var_map \<Rightarrow> ident \<Rightarrow> bool \<Rightarrow> syn_type \<Rightarrow> syn_expr option \<Rightarrow> (string, var_map) result" where
  "upsert_var out rust optional ty def =
     (case bt_get out rust of
        Some prev \<Rightarrow>
          (if vi_optional prev \<noteq> optional then
             Inl (''var `'' @ rust @ ''` redefined with different optionality'')
           else if vi_ty prev \<noteq> ty then
             Inl (''var `'' @ rust @ ''` redefined with different type'')
           else case (vi_default prev, def) of
             (Some prev_default, Some d) \<Rightarrow>
               if prev_default \<noteq> d then
                 Inl (''var `'' @ rust @ ''` redefined with different default'')
               else Inr out
           | _ \<Rightarrow> Inr out)
      | None \<Rightarrow>
          Inr (bt_insert rust
            \<lparr>vi_rust = rust, vi_optional = optional, vi_ty = ty, vi_default = def\<rparr> out))"

text \<open>Every entry of a variable map is filed under its own name.\<close>

definition vars_ok :: "var_map \<Rightarrow> bool" where
  "vars_ok m \<longleftrightarrow> bt_ok m \<and> (\<forall>k v. bt_get m k = Some v \<longrightarrow> vi_rust v = k)"

lemma vars_ok_Nil [simp]: "vars_ok []"
  by (simp add: vars_ok_def)

lemma upsert_var_ok:
  assumes "vars_ok m" and "upsert_var m rust opt ty def = Inr m'"
  shows "vars_ok m'" and "set (bt_keys m') = insert rust (set (bt_keys m))"
    and "\<exists>v. bt_get m' rust = Some v \<and> vi_optional v = opt \<and> vi_ty v = ty"
    and "bt_get m k = Some v \<Longrightarrow> bt_get m' k = Some v"
proof -
  have "bt_ok m" using assms(1) by (simp add: vars_ok_def)
  consider (old) prev where "bt_get m rust = Some prev" "m' = m" "vi_optional prev = opt" "vi_ty prev = ty"
    | (new) "bt_get m rust = None" "m' = bt_insert rust
        \<lparr>vi_rust = rust, vi_optional = opt, vi_ty = ty, vi_default = def\<rparr> m"
    using assms(2) by (auto simp: upsert_var_def split: option.splits if_splits)
  then have "vars_ok m' \<and> set (bt_keys m') = insert rust (set (bt_keys m))
      \<and> (\<exists>v. bt_get m' rust = Some v \<and> vi_optional v = opt \<and> vi_ty v = ty)
      \<and> (bt_get m k = Some v \<longrightarrow> bt_get m' k = Some v)"
  proof cases
    case (old prev)
    then have "rust \<in> set (bt_keys m)" unfolding bt_get_dom [symmetric] by blast
    with old assms(1) show ?thesis by auto
  next
    case new
    show ?thesis
      unfolding new(2) bt_insert_keys
      using new(1) assms(1) \<open>bt_ok m\<close> by (auto simp: vars_ok_def)
  qed
  then show "vars_ok m'" and "set (bt_keys m') = insert rust (set (bt_keys m))"
    and "\<exists>v. bt_get m' rust = Some v \<and> vi_optional v = opt \<and> vi_ty v = ty"
    and "bt_get m k = Some v \<Longrightarrow> bt_get m' k = Some v"
    by blast+
qed

end
