(* ===== verification/MacroAst.thy ===== *)
theory MacroAst
  imports MacroNames
begin

text \<open>
  The data of \<open>concord_macros/src/ast\<close> and \<open>model/norm.rs\<close>, and the normalisation of
  \<open>sema/normalize.rs\<close> from parsed items to the tree the analysis walks. A scope is a record of its
  own fields with the list of its items beside it. Normalisation is shown to accept exactly the trees
  nested at most \<open>MAX_DSL_SCOPE_DEPTH\<close> deep and to keep every endpoint with its scope names, host
  atoms and path atoms, in order, although a scope with a host and a path becomes two layers.
\<close>

section \<open>Policies, routes and endpoint input/output\<close>

record var_decl =
  vd_rust :: ident
  vd_optional :: bool
  vd_ty :: syn_type
  vd_default :: "syn_expr option"

datatype ref_scope = RefCx | RefEp | RefAuth

record scoped_ref =
  sr_scope :: ref_scope
  sr_ident :: ident
  sr_explicit :: bool

datatype fmt_piece = FmtLit string | FmtRef scoped_ref

record fmt_spec =
  fs_require_all :: bool
  fs_pieces :: "fmt_piece list"

datatype policy_value = PolicyExpr syn_expr | PolicyFmt fmt_spec

datatype key_spec = KeyIdent ident | KeyStr string

datatype policy_stmt = StmtRemove key_spec | StmtSet key_spec policy_value

record policy_blocks =
  pb_headers :: "policy_stmt list option"
  pb_query :: "policy_stmt list option"
  pb_timeout :: "syn_expr option"

definition default_policy_blocks :: policy_blocks where
  "default_policy_blocks = \<lparr>pb_headers = None, pb_query = None, pb_timeout = None\<rparr>"

datatype route_atom = AtomStatic string | AtomRef scoped_ref | AtomFmt fmt_spec

type_synonym route_expr = "route_atom list"

record paginate_assign =
  pa_key :: ident
  pa_value :: syn_expr

record paginate_spec =
  pg_ctrl_ty :: syn_type
  pg_assigns :: "paginate_assign list"

record raw_io_spec =
  io_marker :: syn_type
  io_enc :: syn_path
  io_ty :: syn_type
  io_args :: "syn_type list"
  io_had_angle_args :: bool

section \<open>Authentication\<close>

datatype auth_credential_kind =
    CredApiKey ident
  | CredStaticBearer ident
  | CredBasic ident ident
  | CredOAuth2 string ident ident "string option"
  | CredEndpoint syn_path

record auth_credential_decl =
  ac_name :: ident
  ac_kind :: auth_credential_kind

datatype auth_use_kind =
    UseBearer ident "ident option"
  | UseHeader string ident "ident option"
  | UseQuery string ident "ident option"
  | UseBasic ident "ident option"

datatype auth_use_decl = AuthSingle auth_use_kind

record norm_auth_use = nau_kind :: auth_use_kind

section \<open>Rate limits and profiles\<close>

text \<open>An integer literal is the text of its digits, with a sign when it has one.\<close>

type_synonym lit_int = string

datatype rl_key_spec = RkRouteHost | RkEndpoint | RkMethod | RkNamed ident | RkStatic string

datatype rl_duration_unit = UnitSeconds | UnitMinutes

record rl_window_spec =
  ws_max :: lit_int
  ws_every :: lit_int
  ws_unit :: rl_duration_unit

record rl_bucket_spec =
  bs_kind :: ident
  bs_key :: "rl_key_spec list"
  bs_cost :: "lit_int option"
  bs_windows :: "rl_window_spec list"

type_synonym rl_plan_spec = "rl_bucket_spec list"

datatype rl_spec = RlProfiles bool "ident list" | RlInline bool rl_plan_spec | RlOff

record rl_profile_def =
  rp_name :: ident
  rp_extends :: "ident option"
  rp_plan :: rl_plan_spec

record rl_profiles_block =
  rb_profiles :: "rl_profile_def list"
  rb_default :: "ident list"
  rb_response_policy :: "syn_path option"

record rl_key_binding_spec =
  kb_name :: ident
  kb_value :: ident

record profile_patch =
  pp_auth_uses :: "auth_use_decl list"
  pp_rate_limit :: "rl_spec option"

record profile_def =
  pd_name :: ident
  pd_extends :: "ident option"
  pd_patch :: profile_patch

text \<open>A \<open>profile\<close> clause is the list of the names it attaches.\<close>

type_synonym profile_use_spec = "ident list"

section \<open>Clients, scopes and endpoints\<close>

datatype dsl_scheme = SchemeHttp | SchemeHttps

record 'auth client_decl =
  cl_name :: ident
  cl_scheme :: dsl_scheme
  cl_host :: string
  cl_policy :: policy_blocks
  cl_vars :: "var_decl list option"
  cl_auth_vars :: "var_decl list option"
  cl_auth :: "auth_credential_decl list option"
  cl_auth_uses :: "'auth list"
  cl_default_profile_uses :: "profile_use_spec list"
  cl_rate_limit :: "rl_profiles_block option"
  cl_profiles :: "profile_def list option"

record raw_scope =
  rs_scope_name :: "ident option"
  rs_host_route :: "route_expr option"
  rs_path_route :: "route_expr option"
  rs_params :: "var_decl list"
  rs_policy :: policy_blocks
  rs_profile_uses :: "profile_use_spec list"
  rs_auth_uses :: "auth_use_decl list"
  rs_rate_limit :: "rl_spec option"
  rs_rate_limit_keys :: "rl_key_binding_spec list"

record 'auth endpoint_decl =
  ed_method :: ident
  ed_name :: ident
  ed_alias :: "ident option"
  ed_route :: route_expr
  ed_params :: "var_decl list"
  ed_policy :: policy_blocks
  ed_profile_uses :: "profile_use_spec list"
  ed_auth_uses :: "'auth list"
  ed_rate_limit :: "rl_spec option"
  ed_rate_limit_keys :: "rl_key_binding_spec list"
  ed_paginate :: "paginate_spec option"
  ed_body :: "raw_io_spec option"
  ed_response :: raw_io_spec

type_synonym raw_endpoint = "auth_use_decl endpoint_decl"
type_synonym norm_endpoint = "norm_auth_use endpoint_decl"
type_synonym norm_client = "norm_auth_use client_decl"

datatype raw_item = RawLayer raw_scope "raw_item list" | RawEndpoint raw_endpoint

record raw_api =
  ra_client :: "auth_use_decl client_decl"
  ra_items :: "raw_item list"

datatype route_layer_kind = KindPrefix | KindPath

record norm_scope =
  ns_scope_name :: "ident option"
  ns_kind :: route_layer_kind
  ns_route :: route_expr
  ns_params :: "var_decl list"
  ns_policy :: policy_blocks
  ns_profile_uses :: "profile_use_spec list"
  ns_auth_uses :: "norm_auth_use list"
  ns_rate_limit :: "rl_spec option"
  ns_rate_limit_keys :: "rl_key_binding_spec list"

datatype norm_node = NormLayer norm_scope "norm_node list" | NormEndpoint norm_endpoint

record norm_api_tree =
  nt_client :: norm_client
  nt_items :: "norm_node list"

section \<open>Normalisation\<close>

primrec normalize_auth_use :: "auth_use_decl \<Rightarrow> norm_auth_use" where
  "normalize_auth_use (AuthSingle kind) = \<lparr>nau_kind = kind\<rparr>"

definition normalize_auth_uses :: "auth_use_decl list \<Rightarrow> (string, norm_auth_use list) result" where
  "normalize_auth_uses uses = Inr (map normalize_auth_use uses)"

definition normalize_endpoint :: "raw_endpoint \<Rightarrow> (string, norm_endpoint) result" where
  "normalize_endpoint raw =
     rbind (normalize_auth_uses (ed_auth_uses raw)) (\<lambda>auth_uses. Inr
       \<lparr>ed_method = ed_method raw, ed_name = ed_name raw, ed_alias = ed_alias raw,
        ed_route = ed_route raw, ed_params = ed_params raw, ed_policy = ed_policy raw,
        ed_profile_uses = ed_profile_uses raw, ed_auth_uses = auth_uses,
        ed_rate_limit = ed_rate_limit raw, ed_rate_limit_keys = ed_rate_limit_keys raw,
        ed_paginate = ed_paginate raw, ed_body = ed_body raw, ed_response = ed_response raw\<rparr>)"

text \<open>The layer that carries all clauses of a scope, and the bare layer for its path.\<close>

definition scope_layer :: "raw_scope \<Rightarrow> norm_auth_use list \<Rightarrow> route_layer_kind \<Rightarrow> route_expr \<Rightarrow> norm_scope" where
  "scope_layer raw auth_uses kind route =
     \<lparr>ns_scope_name = rs_scope_name raw, ns_kind = kind, ns_route = route,
      ns_params = rs_params raw, ns_policy = rs_policy raw,
      ns_profile_uses = rs_profile_uses raw, ns_auth_uses = auth_uses,
      ns_rate_limit = rs_rate_limit raw, ns_rate_limit_keys = rs_rate_limit_keys raw\<rparr>"

definition path_layer :: "route_expr \<Rightarrow> norm_scope" where
  "path_layer path =
     \<lparr>ns_scope_name = None, ns_kind = KindPath, ns_route = path, ns_params = [],
      ns_policy = default_policy_blocks, ns_profile_uses = [], ns_auth_uses = [],
      ns_rate_limit = None, ns_rate_limit_keys = []\<rparr>"

definition assemble_scope :: "raw_scope \<Rightarrow> norm_auth_use list \<Rightarrow> norm_node list \<Rightarrow> norm_node" where
  "assemble_scope raw auth_uses items =
     (case (rs_host_route raw, rs_path_route raw) of
        (Some host, Some path) \<Rightarrow>
          NormLayer (scope_layer raw auth_uses KindPrefix host) [NormLayer (path_layer path) items]
      | (Some host, None) \<Rightarrow> NormLayer (scope_layer raw auth_uses KindPrefix host) items
      | (None, Some path) \<Rightarrow> NormLayer (scope_layer raw auth_uses KindPath path) items
      | (None, None) \<Rightarrow> NormLayer (scope_layer raw auth_uses KindPath []) items)"

fun normalize_items :: "raw_item list \<Rightarrow> nat \<Rightarrow> (string, norm_node list) result"
  and normalize_item :: "raw_item \<Rightarrow> nat \<Rightarrow> (string, norm_node) result"
  and normalize_scope :: "raw_scope \<Rightarrow> raw_item list \<Rightarrow> nat \<Rightarrow> (string, norm_node) result" where
  "normalize_items [] scope_depth = Inr []"
| "normalize_items (item # items) scope_depth =
     rbind (normalize_item item scope_depth) (\<lambda>node.
     rbind (normalize_items items scope_depth) (\<lambda>nodes. Inr (node # nodes)))"
| "normalize_item (RawLayer scope items) scope_depth = normalize_scope scope items (scope_depth + 1)"
| "normalize_item (RawEndpoint endpoint) scope_depth =
     rbind (normalize_endpoint endpoint) (\<lambda>e. Inr (NormEndpoint e))"
| "normalize_scope raw items scope_depth =
     rbind (check_dsl_scope_depth scope_depth) (\<lambda>_.
     rbind (normalize_auth_uses (rs_auth_uses raw)) (\<lambda>auth_uses.
     rbind (normalize_items items scope_depth) (\<lambda>nodes.
     Inr (assemble_scope raw auth_uses nodes))))"

definition normalize_api :: "raw_api \<Rightarrow> (string, norm_api_tree) result" where
  "normalize_api raw =
     (let c = ra_client raw in
      rbind (normalize_auth_uses (cl_auth_uses c)) (\<lambda>client_auth_uses.
      rbind (normalize_items (ra_items raw) 0) (\<lambda>items.
      Inr \<lparr>nt_client =
             \<lparr>cl_name = cl_name c, cl_scheme = cl_scheme c, cl_host = cl_host c,
              cl_policy = cl_policy c, cl_vars = cl_vars c, cl_auth_vars = cl_auth_vars c,
              cl_auth = cl_auth c, cl_auth_uses = client_auth_uses,
              cl_default_profile_uses = cl_default_profile_uses c,
              cl_rate_limit = cl_rate_limit c, cl_profiles = cl_profiles c\<rparr>,
           nt_items = items\<rparr>)))"

section \<open>What normalisation keeps\<close>

text \<open>How deep scopes are nested in parsed items.\<close>

fun raw_depth :: "raw_item \<Rightarrow> nat" where
  "raw_depth (RawLayer scope items) = Suc (foldr (\<lambda>i. max (raw_depth i)) items 0)"
| "raw_depth (RawEndpoint e) = 0"

abbreviation raw_depths :: "raw_item list \<Rightarrow> nat" where
  "raw_depths items \<equiv> foldr (\<lambda>i. max (raw_depth i)) items 0"

text \<open>Every endpoint with the names, host atoms and path atoms of the scopes around it.\<close>

record placed_endpoint =
  pe_scopes :: "ident list"
  pe_host :: route_expr
  pe_path :: route_expr
  pe_endpoint :: norm_endpoint

definition within :: "ident option \<Rightarrow> route_expr \<Rightarrow> route_expr \<Rightarrow> placed_endpoint \<Rightarrow> placed_endpoint" where
  "within name host path e =
     e\<lparr>pe_scopes := (case name of None \<Rightarrow> [] | Some n \<Rightarrow> [n]) @ pe_scopes e,
       pe_host := host @ pe_host e, pe_path := path @ pe_path e\<rparr>"

definition placed_here :: "norm_endpoint \<Rightarrow> placed_endpoint" where
  "placed_here e = \<lparr>pe_scopes = [], pe_host = [], pe_path = [], pe_endpoint = e\<rparr>"

definition strip_decl :: "raw_endpoint \<Rightarrow> norm_endpoint" where
  "strip_decl raw =
     \<lparr>ed_method = ed_method raw, ed_name = ed_name raw, ed_alias = ed_alias raw,
      ed_route = ed_route raw, ed_params = ed_params raw, ed_policy = ed_policy raw,
      ed_profile_uses = ed_profile_uses raw,
      ed_auth_uses = map normalize_auth_use (ed_auth_uses raw),
      ed_rate_limit = ed_rate_limit raw, ed_rate_limit_keys = ed_rate_limit_keys raw,
      ed_paginate = ed_paginate raw, ed_body = ed_body raw, ed_response = ed_response raw\<rparr>"

fun raw_placed :: "raw_item \<Rightarrow> placed_endpoint list" where
  "raw_placed (RawLayer scope items) =
     map (within (rs_scope_name scope) (case rs_host_route scope of None \<Rightarrow> [] | Some h \<Rightarrow> h)
            (case rs_path_route scope of None \<Rightarrow> [] | Some p \<Rightarrow> p))
       (concat (map raw_placed items))"
| "raw_placed (RawEndpoint e) = [placed_here (strip_decl e)]"

fun norm_placed :: "norm_node \<Rightarrow> placed_endpoint list" where
  "norm_placed (NormLayer scope items) =
     map (case ns_kind scope of
            KindPrefix \<Rightarrow> within (ns_scope_name scope) (ns_route scope) []
          | KindPath \<Rightarrow> within (ns_scope_name scope) [] (ns_route scope))
       (concat (map norm_placed items))"
| "norm_placed (NormEndpoint e) = [placed_here e]"

lemma normalize_endpoint_eq: "normalize_endpoint e = Inr (strip_decl e)"
  by (simp add: normalize_endpoint_def normalize_auth_uses_def strip_decl_def)

lemma within_within: "within None [] p \<circ> within name h q = within name h (p @ q)"
  by (simp add: within_def fun_eq_iff)

lemma norm_placed_assemble:
  "norm_placed (assemble_scope raw auth nodes) =
     map (within (rs_scope_name raw) (case rs_host_route raw of None \<Rightarrow> [] | Some h \<Rightarrow> h)
            (case rs_path_route raw of None \<Rightarrow> [] | Some p \<Rightarrow> p))
       (concat (map norm_placed nodes))"
  by (cases "rs_host_route raw"; cases "rs_path_route raw")
     (simp_all add: assemble_scope_def scope_layer_def path_layer_def within_def comp_def)

lemma normalize_placed:
  "normalize_items items d = Inr nodes \<Longrightarrow>
     concat (map norm_placed nodes) = concat (map raw_placed items)"
  "normalize_item item d = Inr node \<Longrightarrow> norm_placed node = raw_placed item"
  "normalize_scope scope items d = Inr node \<Longrightarrow> norm_placed node = raw_placed (RawLayer scope items)"
proof (induction items d and item d and scope items d arbitrary: nodes and node and node
    rule: normalize_items_normalize_item_normalize_scope.induct)
  case (5 raw items d)
  then obtain nodes where n: "check_dsl_scope_depth d = Inr ()" "normalize_items items d = Inr nodes"
      and node: "node = assemble_scope raw (map normalize_auth_use (rs_auth_uses raw)) nodes"
    by (auto simp: rbind_Inr_iff normalize_auth_uses_def)
  then show ?case
    using 5(1) by (simp add: norm_placed_assemble normalize_auth_uses_def)
qed (auto simp: rbind_Inr_iff normalize_endpoint_eq)

lemma normalize_ok_iff:
  "(\<exists>nodes. normalize_items items d = Inr nodes) \<longleftrightarrow>
     raw_depths items = 0 \<or> d + raw_depths items \<le> MAX_DSL_SCOPE_DEPTH"
  "(\<exists>node. normalize_item item d = Inr node) \<longleftrightarrow>
     raw_depth item = 0 \<or> d + raw_depth item \<le> MAX_DSL_SCOPE_DEPTH"
  "(\<exists>node. normalize_scope scope items d = Inr node) \<longleftrightarrow>
     d + raw_depths items \<le> MAX_DSL_SCOPE_DEPTH"
proof (induction items d and item d and scope items d
    rule: normalize_items_normalize_item_normalize_scope.induct)
  case (2 item items d)
  then show ?case by (auto simp: rbind_Inr_iff)
next
  case (5 raw items d)
  show ?case
  proof (cases "d \<le> MAX_DSL_SCOPE_DEPTH")
    case True
    then have "check_dsl_scope_depth d = Inr ()"
      by (simp add: check_dsl_scope_depth_def)
    then show ?thesis
      using 5 True by (auto simp: rbind_Inr_iff normalize_auth_uses_def)
  next
    case False
    then show ?thesis
      by (simp add: check_dsl_scope_depth_def)
  qed
qed (auto simp: normalize_endpoint_eq)

lemma normalize_error:
  "normalize_items items d = Inl err \<Longrightarrow> err = dsl_scope_depth_error"
  "normalize_item item d = Inl err \<Longrightarrow> err = dsl_scope_depth_error"
  "normalize_scope scope items d = Inl err \<Longrightarrow> err = dsl_scope_depth_error"
proof (induction items d and item d and scope items d
    rule: normalize_items_normalize_item_normalize_scope.induct)
  case (2 item items d)
  then show ?case by (auto simp: rbind_def split: sum.splits)
next
  case (5 raw items d)
  then show ?case
    by (auto simp: rbind_def normalize_auth_uses_def check_dsl_scope_depth_def split: sum.splits if_splits)
qed (auto simp: normalize_endpoint_eq)

text \<open>
  Normalisation accepts exactly the trees whose scopes are nested at most
  \<open>MAX_DSL_SCOPE_DEPTH\<close> deep, and then the endpoints come out in order, each with the same clauses and
  the same scope names, host atoms and path atoms around it.
\<close>

theorem normalize_keeps_endpoints:
  "(case normalize_items items 0 of
      Inl err \<Rightarrow> err = dsl_scope_depth_error \<and> raw_depths items > MAX_DSL_SCOPE_DEPTH
    | Inr nodes \<Rightarrow> raw_depths items \<le> MAX_DSL_SCOPE_DEPTH
        \<and> concat (map norm_placed nodes) = concat (map raw_placed items))"
proof (cases "normalize_items items 0")
  case (Inl err)
  then show ?thesis
    using normalize_error(1) normalize_ok_iff(1) [of items 0] by auto
next
  case (Inr nodes)
  then show ?thesis
    using normalize_placed(1) normalize_ok_iff(1) [of items 0] by auto
qed

end
