(* ===== verification/MacroProfiles.thy ===== *)
theory MacroProfiles
  imports MacroAst
begin

text \<open>
  Profile inheritance: the generic resolver of \<open>sema/profiles.rs\<close>, with which rate-limit profiles are
  resolved, and the resolver of behaviour profiles in \<open>sema/profile.rs\<close>. Both follow \<open>extends\<close> with a
  set of names being visited and a map of results, which are passed and returned. The set ends the
  recursion; a profile resolves exactly when its chain of parents reaches a root, and then to the merge
  of the values along the chain, root first.
\<close>

section \<open>The generic resolver\<close>

record 'v profile =
  pf_name :: string
  pf_extends :: "string option"
  pf_value :: 'v

type_synonym 'v profile_map = "(string, 'v profile) btree"

type_synonym 'v resolve_state = "string list \<times> (string, 'v) btree"

definition bs_remove :: "'k \<Rightarrow> 'k list \<Rightarrow> 'k list" where
  "bs_remove k s = remove1 k s"

lemma unvisited_less:
  assumes "k \<in> set ks" and "k \<notin> set visiting" and "set visiting' = insert k (set visiting)"
  shows "card (set ks - set visiting') < card (set ks - set visiting)"
proof -
  have "card (set ks - set visiting - {k}) < card (set ks - set visiting)"
    using assms(1,2) by (intro card_Diff1_less) auto
  moreover have "set ks - set visiting' = set ks - set visiting - {k}"
    using assms(3) by auto
  ultimately show ?thesis by simp
qed

text \<open>
  \<open>resolve_one_profile\<close>, with the trait's \<open>empty\<close> and \<open>merge\<close> as arguments. It returns the value and
  the sets \<open>visiting\<close> and \<open>resolved\<close> as it leaves them.
\<close>

function resolve_one_profile ::
    "'v \<Rightarrow> ('v \<Rightarrow> 'v \<Rightarrow> 'v) \<Rightarrow> string \<Rightarrow> 'v profile_map \<Rightarrow> string \<Rightarrow> 'v resolve_state
      \<Rightarrow> (string, 'v \<times> 'v resolve_state) result" where
  "resolve_one_profile mempty merge label profiles key (visiting, resolved) =
     (case bt_get resolved key of
        Some value \<Rightarrow> Inr (value, visiting, resolved)
      | None \<Rightarrow>
          (case bt_get profiles key of
             None \<Rightarrow> Inl (''unknown '' @ label @ '' profile `'' @ key @ ''`'')
           | Some profile \<Rightarrow>
               (let (fresh, visiting) = bs_insert key visiting in
                if \<not> fresh then
                  Inl (label @ '' profile inheritance cycle involving `'' @ key @ ''`'')
                else
                  (case (case pf_extends profile of
                           Some parent \<Rightarrow>
                             resolve_one_profile mempty merge label profiles parent (visiting, resolved)
                         | None \<Rightarrow> Inr (mempty, visiting, resolved)) of
                     Inl e \<Rightarrow> Inl e
                   | Inr (parent, visiting, resolved) \<Rightarrow>
                       (let value = merge parent (pf_value profile) in
                        Inr (value, bs_remove key visiting, bt_insert key value resolved))))))"
  by pat_completeness auto
termination
proof (relation "measure (\<lambda>(mempty, merge, label, profiles, key, visiting, resolved).
    card (set (bt_keys profiles) - set visiting))", goal_cases)
  case 1
  then show ?case by simp
next
  case (2 mempty merge label profiles key visiting resolved profile x fresh visiting' parent)
  then have new: "key \<notin> set visiting" and v: "set visiting' = insert key (set visiting)"
    by (auto simp: bs_insert_def set_insort_key split: if_splits)
  have "key \<in> set (bt_keys profiles)"
    using 2(2) by (metis bt_get_dom domI)
  then show ?case
    using unvisited_less [OF _ new v] by (simp del: set_map)
qed

declare resolve_one_profile.simps [simp del]

text \<open>The loop over the raw profiles: the name map, or the first name declared twice.\<close>

fun collect_profiles ::
    "string \<Rightarrow> (ident \<times> ident option \<times> 'v) list \<Rightarrow> 'v profile_map \<Rightarrow> (string, 'v profile_map) result" where
  "collect_profiles label [] m = Inr m"
| "collect_profiles label ((name, extends, value) # raw) m =
     (if bt_contains m name then Inl (''duplicate '' @ label @ '' profile `'' @ name @ ''`'')
      else collect_profiles label raw
             (bt_insert name \<lparr>pf_name = name, pf_extends = extends, pf_value = value\<rparr> m))"

fun resolve_keys ::
    "'v \<Rightarrow> ('v \<Rightarrow> 'v \<Rightarrow> 'v) \<Rightarrow> ('v \<Rightarrow> (string, unit) result) \<Rightarrow> string \<Rightarrow> 'v profile_map \<Rightarrow> string list
      \<Rightarrow> (string, 'v) btree \<Rightarrow> (string, (string, 'v) btree) result" where
  "resolve_keys mempty merge validate label profiles [] resolved = Inr resolved"
| "resolve_keys mempty merge validate label profiles (key # keys) resolved =
     rbind (resolve_one_profile mempty merge label profiles key ([], resolved))
       (\<lambda>(value, visiting, resolved).
     rbind (validate value) (\<lambda>_. resolve_keys mempty merge validate label profiles keys resolved))"

definition resolve_profile_set ::
    "'v \<Rightarrow> ('v \<Rightarrow> 'v \<Rightarrow> 'v) \<Rightarrow> ('v \<Rightarrow> (string, unit) result) \<Rightarrow> string
      \<Rightarrow> (ident \<times> ident option \<times> 'v) list \<Rightarrow> ident list \<Rightarrow> (string, (string, 'v) btree) result" where
  "resolve_profile_set mempty merge validate label raw_profiles defaults =
     rbind (collect_profiles label raw_profiles []) (\<lambda>profiles.
     case find (\<lambda>d. \<not> bt_contains profiles d) defaults of
       Some d \<Rightarrow> Inl (''unknown default '' @ label @ '' profile `'' @ d @ ''`'')
     | None \<Rightarrow> resolve_keys mempty merge validate label profiles (bt_keys profiles) [])"

section \<open>Chains of parents\<close>

text \<open>The names from the root of a profile's inheritance down to the profile itself.\<close>

inductive parent_chain :: "'v profile_map \<Rightarrow> string \<Rightarrow> string list \<Rightarrow> bool" for profiles where
  root: "bt_get profiles key = Some p \<Longrightarrow> pf_extends p = None \<Longrightarrow> parent_chain profiles key [key]"
| extend: "bt_get profiles key = Some p \<Longrightarrow> pf_extends p = Some parent \<Longrightarrow>
    parent_chain profiles parent ks \<Longrightarrow> parent_chain profiles key (ks @ [key])"

definition chain_value :: "'v \<Rightarrow> ('v \<Rightarrow> 'v \<Rightarrow> 'v) \<Rightarrow> 'v profile_map \<Rightarrow> string list \<Rightarrow> 'v" where
  "chain_value mempty merge profiles ks =
     foldl merge mempty (map (\<lambda>k. pf_value (the (bt_get profiles k))) ks)"

lemma chain_value_snoc [simp]:
  "chain_value mempty merge profiles (ks @ [k]) =
     merge (chain_value mempty merge profiles ks) (pf_value (the (bt_get profiles k)))"
  "chain_value mempty merge profiles [k] = merge mempty (pf_value (the (bt_get profiles k)))"
  "chain_value mempty merge profiles [] = mempty"
  by (simp_all add: chain_value_def)

lemma parent_chain_unique:
  "parent_chain profiles key ks \<Longrightarrow> parent_chain profiles key ks' \<Longrightarrow> ks = ks'"
proof (induction arbitrary: ks' rule: parent_chain.induct)
  case (root key p)
  from root.prems show ?case
    by cases (use root.hyps in simp_all)
next
  case (extend key p parent ks)
  from extend.prems show ?case
  proof cases
    case (extend p' parent' ks'')
    with \<open>bt_get profiles key = Some p\<close> \<open>pf_extends p = Some parent\<close>
    have "parent_chain profiles parent ks''" by simp
    with extend show ?thesis using \<open>\<And>ks'. parent_chain profiles parent ks' \<Longrightarrow> ks = ks'\<close> by simp
  qed (use extend.hyps in simp_all)
qed

lemma parent_chain_not_Nil: "parent_chain profiles key ks \<Longrightarrow> ks \<noteq> []"
  by (induction rule: parent_chain.induct) auto

lemma parent_chain_prefix:
  "parent_chain profiles key ks \<Longrightarrow> k \<in> set ks \<Longrightarrow>
     \<exists>ks' rest. parent_chain profiles k ks' \<and> ks = ks' @ rest"
proof (induction rule: parent_chain.induct)
  case (root key p)
  then show ?case by (auto intro: parent_chain.root)
next
  case (extend key p parent ks)
  show ?case
  proof (cases "k \<in> set ks")
    case True
    then show ?thesis using extend.IH by fastforce
  next
    case False
    then have "k = key" using extend.prems by simp
    then show ?thesis using parent_chain.extend [OF extend.hyps] by blast
  qed
qed

lemma parent_chain_distinct: "parent_chain profiles key ks \<Longrightarrow> distinct ks"
proof (induction rule: parent_chain.induct)
  case (extend key p parent ks)
  have "key \<notin> set ks"
  proof
    assume "key \<in> set ks"
    then obtain ks' rest where "parent_chain profiles key ks'" "ks = ks' @ rest"
      using parent_chain_prefix [OF extend.hyps(3)] by blast
    moreover have "parent_chain profiles key (ks @ [key])"
      using extend.hyps by (rule parent_chain.extend)
    ultimately have "ks' = ks @ [key]"
      by (metis parent_chain_unique)
    then show False using \<open>ks = ks' @ rest\<close> by simp
  qed
  then show ?case using extend.IH by simp
qed simp

lemma parent_chain_last: "parent_chain profiles key ks \<Longrightarrow> key \<in> set ks"
  by (induction rule: parent_chain.induct) auto

text \<open>Results so far are chain values.\<close>

definition resolved_ok :: "'v \<Rightarrow> ('v \<Rightarrow> 'v \<Rightarrow> 'v) \<Rightarrow> 'v profile_map \<Rightarrow> (string, 'v) btree \<Rightarrow> bool" where
  "resolved_ok mempty merge profiles resolved \<longleftrightarrow> bt_ok resolved \<and>
     (\<forall>k v. bt_get resolved k = Some v \<longrightarrow>
        (\<exists>ks. parent_chain profiles k ks \<and> v = chain_value mempty merge profiles ks))"

lemma resolved_ok_Nil [simp]: "resolved_ok mempty merge profiles []"
  by (simp add: resolved_ok_def)

lemma resolved_ok_insert:
  assumes "resolved_ok mempty merge profiles resolved" and "parent_chain profiles key ks"
  shows "resolved_ok mempty merge profiles
      (bt_insert key (chain_value mempty merge profiles ks) resolved)"
  using assms by (auto simp: resolved_ok_def)

lemma remove_insort: "k \<notin> set s \<Longrightarrow> bs_remove k (insort k s) = s"
  by (induction s) (auto simp: bs_remove_def)

lemma resolve_hit:
  "bt_get resolved key = Some v \<Longrightarrow>
     resolve_one_profile mempty merge label profiles key (visiting, resolved) = Inr (v, visiting, resolved)"
  by (subst resolve_one_profile.simps) simp

lemma resolve_unknown:
  "bt_get resolved key = None \<Longrightarrow> bt_get profiles key = None \<Longrightarrow>
     resolve_one_profile mempty merge label profiles key (visiting, resolved)
       = Inl (''unknown '' @ label @ '' profile `'' @ key @ ''`'')"
  by (subst resolve_one_profile.simps) simp

lemma resolve_cycle:
  "bt_get resolved key = None \<Longrightarrow> bt_get profiles key = Some p \<Longrightarrow> key \<in> set visiting \<Longrightarrow>
     resolve_one_profile mempty merge label profiles key (visiting, resolved)
       = Inl (label @ '' profile inheritance cycle involving `'' @ key @ ''`'')"
  by (subst resolve_one_profile.simps) (simp add: bs_insert_def)

lemma resolve_root:
  "bt_get resolved key = None \<Longrightarrow> bt_get profiles key = Some p \<Longrightarrow> key \<notin> set visiting \<Longrightarrow>
     pf_extends p = None \<Longrightarrow>
     resolve_one_profile mempty merge label profiles key (visiting, resolved)
       = Inr (merge mempty (pf_value p), visiting, bt_insert key (merge mempty (pf_value p)) resolved)"
  by (subst resolve_one_profile.simps) (simp add: bs_insert_def Let_def remove_insort)

lemma resolve_extend:
  "bt_get resolved key = None \<Longrightarrow> bt_get profiles key = Some p \<Longrightarrow> key \<notin> set visiting \<Longrightarrow>
     pf_extends p = Some parent \<Longrightarrow>
     resolve_one_profile mempty merge label profiles key (visiting, resolved)
       = (case resolve_one_profile mempty merge label profiles parent (insort key visiting, resolved) of
            Inl e \<Rightarrow> Inl e
          | Inr (pv, vis, res) \<Rightarrow>
              Inr (merge pv (pf_value p), bs_remove key vis,
                   bt_insert key (merge pv (pf_value p)) res))"
  by (subst resolve_one_profile.simps) (simp add: bs_insert_def Let_def split: sum.split)

lemmas resolve_steps = resolve_hit resolve_unknown resolve_cycle resolve_root resolve_extend

text \<open>
  A call that returns gives the value of the profile's chain, leaves \<open>visiting\<close> as it was, and only
  adds results.
\<close>

lemma resolve_one_profile_sound:
  assumes "resolve_one_profile mempty merge label profiles key (visiting, resolved)
      = Inr (val, visiting', resolved')"
    and "resolved_ok mempty merge profiles resolved"
  shows "(\<exists>ks. parent_chain profiles key ks \<and> val = chain_value mempty merge profiles ks)
    \<and> visiting' = visiting \<and> resolved_ok mempty merge profiles resolved'
    \<and> bt_get resolved' key = Some val
    \<and> set (bt_keys resolved) \<subseteq> set (bt_keys resolved')"
  using assms
proof (induction mempty merge label profiles key "(visiting, resolved)"
    arbitrary: visiting resolved val visiting' resolved'
    rule: resolve_one_profile.induct)
  case (1 mempty merge label profiles key visiting resolved)
  show ?case
  proof (cases "bt_get resolved key")
    case (Some v)
    then show ?thesis
      using 1(2,3) by (auto simp: resolve_hit resolved_ok_def)
  next
    case None
    then obtain p where p: "bt_get profiles key = Some p"
      using 1(2) by (cases "bt_get profiles key") (simp_all add: resolve_unknown)
    have new: "key \<notin> set visiting"
      using 1(2) None p by (cases "key \<in> set visiting") (simp_all add: resolve_cycle)
    have bt: "bt_ok resolved" using 1(3) by (simp add: resolved_ok_def)
    show ?thesis
    proof (cases "pf_extends p")
      case no_parent: None
      have chain: "parent_chain profiles key [key]"
        using p no_parent by (rule parent_chain.root)
      have out: "val = chain_value mempty merge profiles [key]" "visiting' = visiting"
          "resolved' = bt_insert key val resolved"
        using 1(2) by (auto simp: resolve_root [OF None p new no_parent] p)
      then show ?thesis
        using chain resolved_ok_insert [OF 1(3) chain] bt
        unfolding out(3) bt_insert_keys by auto
    next
      case ext: (Some parent)
      obtain pv vis' res' where
          called: "resolve_one_profile mempty merge label profiles parent (insort key visiting, resolved)
              = Inr (pv, vis', res')"
        and out: "val = merge pv (pf_value p)" "visiting' = bs_remove key vis'"
          "resolved' = bt_insert key val res'"
        using 1(2) by (auto simp: resolve_extend [OF None p new ext] split: sum.splits prod.splits)
      have IH: "(\<exists>ks. parent_chain profiles parent ks \<and> pv = chain_value mempty merge profiles ks)
          \<and> vis' = insort key visiting \<and> resolved_ok mempty merge profiles res'
          \<and> bt_get res' parent = Some pv \<and> set (bt_keys resolved) \<subseteq> set (bt_keys res')"
        using 1(1) [OF None p _ refl _ ext called 1(3)] new by (simp add: bs_insert_def)
      then obtain ks where ks: "parent_chain profiles parent ks" "pv = chain_value mempty merge profiles ks"
        by blast
      have chain: "parent_chain profiles key (ks @ [key])"
        using p ext ks(1) by (rule parent_chain.extend)
      have valeq: "val = chain_value mempty merge profiles (ks @ [key])"
        using out ks p by simp
      have "resolved_ok mempty merge profiles resolved'"
        using resolved_ok_insert [OF _ chain] IH unfolding out(3) valeq by blast
      moreover have "visiting' = visiting"
        using IH new by (simp add: out(2) remove_insort)
      moreover have "bt_get resolved' key = Some val"
        using IH by (simp add: out(3) resolved_ok_def)
      moreover have "set (bt_keys resolved) \<subseteq> set (bt_keys resolved')"
        using IH unfolding out(3) bt_insert_keys by blast
      ultimately show ?thesis using chain valeq by blast
    qed
  qed
qed

lemma resolve_one_profile_complete:
  assumes "parent_chain profiles key ks" and "set ks \<inter> set visiting = {}"
  shows "\<exists>r. resolve_one_profile mempty merge label profiles key (visiting, resolved) = Inr r"
  using assms
proof (induction arbitrary: visiting rule: parent_chain.induct)
  case (root key p)
  then show ?case
    by (cases "bt_get resolved key") (auto simp: resolve_hit resolve_root)
next
  case (extend key p parent ks)
  have "distinct (ks @ [key])"
    using parent_chain_distinct parent_chain.extend [OF extend.hyps] by blast
  then have "set ks \<inter> set (insort key visiting) = {}"
    using extend.prems by (auto simp: set_insort_key)
  then obtain r where r: "resolve_one_profile mempty merge label profiles parent
      (insort key visiting, resolved) = Inr r"
    using extend.IH by blast
  have new: "key \<notin> set visiting" using extend.prems by auto
  show ?case
  proof (cases "bt_get resolved key")
    case None
    then show ?thesis
      using r by (cases r) (simp add: resolve_extend [OF None extend.hyps(1) new extend.hyps(2)])
  qed (simp add: resolve_hit)
qed

section \<open>Resolving a whole set\<close>

definition profiles_of :: "(ident \<times> ident option \<times> 'v) list \<Rightarrow> 'v profile_map" where
  "profiles_of raw = bt_extend []
     (map (\<lambda>(n, e, v). (n, \<lparr>pf_name = n, pf_extends = e, pf_value = v\<rparr>)) raw)"

abbreviation raw_names :: "(ident \<times> ident option \<times> 'v) list \<Rightarrow> ident list" where
  "raw_names raw \<equiv> map fst raw"

lemma collect_profiles_eq:
  assumes "bt_ok m"
  shows "collect_profiles label raw m =
    (if distinct (raw_names raw) \<and> set (raw_names raw) \<inter> set (bt_keys m) = {}
     then Inr (bt_extend m
       (map (\<lambda>(n, e, v). (n, \<lparr>pf_name = n, pf_extends = e, pf_value = v\<rparr>)) raw))
     else collect_profiles label raw m)"
  using assms
proof (induction label raw m rule: collect_profiles.induct)
  case (2 label name extends v raw m)
  show ?case
  proof (cases "name \<in> set (bt_keys m)")
    case False
    then have c: "\<not> bt_contains m name" by (simp add: bt_contains_iff del: set_map)
    show ?thesis
      using 2(1) [OF c] 2(2) c
      by (auto simp: bt_insert_keys simp del: set_map split: if_splits)
  qed auto
qed auto

lemma collect_profiles_Inr:
  assumes "bt_ok m" and "collect_profiles label raw m = Inr m'"
  shows "distinct (raw_names raw) \<and> set (raw_names raw) \<inter> set (bt_keys m) = {}"
  using assms
proof (induction label raw m rule: collect_profiles.induct)
  case (2 label name extends v raw m)
  then have "\<not> bt_contains m name" by (auto split: if_splits)
  then show ?case
    using 2 by (auto simp: bt_contains_iff bt_insert_keys simp del: set_map)
qed simp

lemma collect_profiles_spec:
  "collect_profiles label raw [] = Inr m \<longleftrightarrow> distinct (raw_names raw) \<and> m = profiles_of raw"
proof
  assume r: "collect_profiles label raw [] = Inr m"
  then have "distinct (raw_names raw)"
    using collect_profiles_Inr [of "[]" label raw m] by simp
  then show "distinct (raw_names raw) \<and> m = profiles_of raw"
    using r collect_profiles_eq [of "[]" label raw] by (simp add: profiles_of_def)
next
  assume "distinct (raw_names raw) \<and> m = profiles_of raw"
  then show "collect_profiles label raw [] = Inr m"
    using collect_profiles_eq [of "[]" label raw] by (simp add: profiles_of_def)
qed

lemma profiles_of_keys: "set (bt_keys (profiles_of raw)) = set (raw_names raw)"
proof -
  have "fst ` set (map (\<lambda>(n, e, v). (n, \<lparr>pf_name = n, pf_extends = e, pf_value = v\<rparr>)) raw)
      = set (raw_names raw)"
    by force
  then show ?thesis
    unfolding profiles_of_def bt_extend_keys by simp
qed

lemma parent_chain_in: "parent_chain profiles k ks \<Longrightarrow> k \<in> set (bt_keys profiles)"
  unfolding bt_get_dom [symmetric] by (induction rule: parent_chain.induct) auto

lemma resolve_keys_sound:
  assumes "resolve_keys mempty merge validate label profiles keys resolved = Inr r"
    and "resolved_ok mempty merge profiles resolved"
  shows "resolved_ok mempty merge profiles r
    \<and> set keys \<union> set (bt_keys resolved) \<subseteq> set (bt_keys r)
    \<and> (\<forall>k\<in>set keys. \<exists>ks. parent_chain profiles k ks
          \<and> validate (chain_value mempty merge profiles ks) = Inr ())"
  using assms
proof (induction keys arbitrary: resolved)
  case Nil
  then show ?case by simp
next
  case (Cons key keys)
  obtain v vis res where one: "resolve_one_profile mempty merge label profiles key ([], resolved)
      = Inr (v, vis, res)" and ok: "validate v = Inr ()"
    and rest: "resolve_keys mempty merge validate label profiles keys res = Inr r"
    using Cons.prems(1) by (auto simp: rbind_Inr_iff)
  note s = resolve_one_profile_sound [OF one Cons.prems(2)]
  have "key \<in> set (bt_keys res)"
    using s unfolding bt_get_dom [symmetric] by blast
  then show ?case
    using Cons.IH [OF rest] s ok by (auto simp del: set_map)
qed

lemma resolve_keys_complete:
  assumes "\<forall>k\<in>set keys. \<exists>ks. parent_chain profiles k ks
      \<and> validate (chain_value mempty merge profiles ks) = Inr ()"
    and "resolved_ok mempty merge profiles resolved"
  shows "\<exists>r. resolve_keys mempty merge validate label profiles keys resolved = Inr r"
  using assms
proof (induction keys arbitrary: resolved)
  case (Cons key keys)
  then obtain ks where ks: "parent_chain profiles key ks"
    "validate (chain_value mempty merge profiles ks) = Inr ()" by auto
  obtain v vis res where one: "resolve_one_profile mempty merge label profiles key ([], resolved)
      = Inr (v, vis, res)"
    using resolve_one_profile_complete [OF ks(1), of "[]"] by fastforce
  note s = resolve_one_profile_sound [OF one Cons.prems(2)]
  then have "validate v = Inr ()"
    using ks parent_chain_unique by metis
  then show ?case
    using Cons.IH [of res] Cons.prems(1) s one by simp
qed simp

text \<open>What it takes for a set of raw profiles to be resolvable, and what it resolves to.\<close>

definition profiles_valid ::
    "'v \<Rightarrow> ('v \<Rightarrow> 'v \<Rightarrow> 'v) \<Rightarrow> ('v \<Rightarrow> (string, unit) result) \<Rightarrow> (ident \<times> ident option \<times> 'v) list
      \<Rightarrow> ident list \<Rightarrow> bool" where
  "profiles_valid mempty merge validate raw defaults \<longleftrightarrow>
     distinct (raw_names raw) \<and> set defaults \<subseteq> set (raw_names raw)
     \<and> (\<forall>k\<in>set (raw_names raw). \<exists>ks. parent_chain (profiles_of raw) k ks
          \<and> validate (chain_value mempty merge (profiles_of raw) ks) = Inr ())"

lemma resolve_profile_set_Inr:
  assumes "resolve_profile_set mempty merge validate label raw defaults = Inr r"
  shows "profiles_valid mempty merge validate raw defaults
    \<and> resolved_ok mempty merge (profiles_of raw) r \<and> set (bt_keys r) = set (raw_names raw)"
proof -
  obtain m where m: "collect_profiles label raw [] = Inr m"
    and d: "find (\<lambda>d. \<not> bt_contains m d) defaults = None"
    and k: "resolve_keys mempty merge validate label m (bt_keys m) [] = Inr r"
    using assms by (auto simp: resolve_profile_set_def rbind_Inr_iff split: option.splits)
  have names: "distinct (raw_names raw)" "m = profiles_of raw"
    using m unfolding collect_profiles_spec by auto
  note s = resolve_keys_sound [OF k resolved_ok_Nil]
  have "set (bt_keys r) \<subseteq> set (bt_keys m)"
  proof
    fix k assume "k \<in> set (bt_keys r)"
    then obtain v where "bt_get r k = Some v"
      unfolding bt_get_dom [symmetric] by blast
    then show "k \<in> set (bt_keys m)"
      using s parent_chain_in unfolding resolved_ok_def by metis
  qed
  with s have keys: "set (bt_keys r) = set (raw_names raw)"
    using profiles_of_keys [of raw] unfolding names by blast
  have "set defaults \<subseteq> set (raw_names raw)"
    using d profiles_of_keys [of raw]
    by (auto simp: find_None_iff bt_contains_iff names simp del: set_map)
  then show ?thesis
    using s keys names(1) profiles_of_keys [of raw] unfolding profiles_valid_def names(2) by blast
qed

lemma resolve_profile_set_complete:
  assumes "profiles_valid mempty merge validate raw defaults"
  shows "\<exists>r. resolve_profile_set mempty merge validate label raw defaults = Inr r"
proof -
  let ?m = "profiles_of raw"
  have m: "collect_profiles label raw [] = Inr ?m"
    using assms by (simp add: collect_profiles_spec profiles_valid_def)
  have "find (\<lambda>d. \<not> bt_contains ?m d) defaults = None"
    using assms profiles_of_keys [of raw]
    by (auto simp: find_None_iff bt_contains_iff profiles_valid_def simp del: set_map)
  moreover have "\<exists>r. resolve_keys mempty merge validate label ?m (bt_keys ?m) [] = Inr r"
    by (rule resolve_keys_complete)
       (use assms profiles_of_keys [of raw] in \<open>auto simp: profiles_valid_def simp del: set_map\<close>)
  ultimately show ?thesis
    using m by (simp add: resolve_profile_set_def)
qed

text \<open>
  Property C19: resolving a set of profiles succeeds exactly when the names are distinct, the defaults
  are declared, and every profile's chain of parents reaches a root (no unknown parent, no cycle) with
  a valid result; every profile then has as value the merge of the values along its chain, root first.
\<close>

theorem profile_set_resolution:
  "(case resolve_profile_set mempty merge validate label raw defaults of
      Inl _ \<Rightarrow> \<not> profiles_valid mempty merge validate raw defaults
    | Inr r \<Rightarrow> profiles_valid mempty merge validate raw defaults
        \<and> (\<forall>k v. bt_get r k = Some v \<longleftrightarrow>
             (\<exists>ks. parent_chain (profiles_of raw) k ks
                   \<and> v = chain_value mempty merge (profiles_of raw) ks)))"
proof (cases "resolve_profile_set mempty merge validate label raw defaults")
  case (Inl e)
  then show ?thesis
    using resolve_profile_set_complete [of mempty merge validate raw defaults label] by auto
next
  case (Inr r)
  note s = resolve_profile_set_Inr [OF Inr]
  have "bt_get r k = Some v" if "parent_chain (profiles_of raw) k ks"
      "v = chain_value mempty merge (profiles_of raw) ks" for k v ks
  proof -
    have "k \<in> set (bt_keys r)"
      using parent_chain_in [OF that(1)] s profiles_of_keys [of raw] by blast
    then obtain w where w: "bt_get r k = Some w"
      unfolding bt_get_dom [symmetric] by blast
    then obtain ks' where "parent_chain (profiles_of raw) k ks'"
        "w = chain_value mempty merge (profiles_of raw) ks'"
      using s unfolding resolved_ok_def by blast
    then show ?thesis using that w parent_chain_unique by metis
  qed
  then show ?thesis
    using Inr s unfolding resolved_ok_def by auto
qed

text \<open>The code that calls the resolver shares its results when it appends what values carry.\<close>

locale appending_profile =
  fixes mempty :: 'v and merge :: "'v \<Rightarrow> 'v \<Rightarrow> 'v" and parts :: "'v \<Rightarrow> 'p list"
  assumes parts_empty: "parts mempty = []"
    and parts_merge: "parts (merge parent child) = parts parent @ parts child"
begin

lemma parts_chain:
  "parts (chain_value mempty merge profiles ks) =
     concat (map (\<lambda>k. parts (pf_value (the (bt_get profiles k)))) ks)"
  by (induction ks rule: rev_induct) (simp_all add: parts_empty parts_merge)

lemma parts_resolved:
  assumes "resolve_profile_set mempty merge validate label raw defaults = Inr r"
    and "bt_get r k = Some v"
  shows "\<exists>ks. parent_chain (profiles_of raw) k ks
    \<and> parts v = concat (map (\<lambda>k. parts (pf_value (the (bt_get (profiles_of raw) k)))) ks)"
  using resolve_profile_set_Inr [OF assms(1)] assms(2) parts_chain
  unfolding resolved_ok_def by metis

end

section \<open>Behaviour profiles\<close>

record profile_resolved =
  pr_auth_uses :: "norm_auth_use list"
  pr_rate_limit_specs :: "rl_spec list"

definition default_profile_resolved :: profile_resolved where
  "default_profile_resolved = \<lparr>pr_auth_uses = [], pr_rate_limit_specs = []\<rparr>"

definition merge_profile :: "profile_resolved \<Rightarrow> profile_resolved \<Rightarrow> profile_resolved" where
  "merge_profile parent child =
     \<lparr>pr_auth_uses = pr_auth_uses parent @ pr_auth_uses child,
      pr_rate_limit_specs = pr_rate_limit_specs parent @ pr_rate_limit_specs child\<rparr>"

interpretation auth_profiles: appending_profile default_profile_resolved merge_profile pr_auth_uses
  by unfold_locales (simp_all add: default_profile_resolved_def merge_profile_def)

interpretation limit_profiles: appending_profile default_profile_resolved merge_profile pr_rate_limit_specs
  by unfold_locales (simp_all add: default_profile_resolved_def merge_profile_def)

type_synonym raw_profiles = "(string, profile_def) btree"

text \<open>\<open>resolve_profile\<close>, with \<open>visiting\<close> and \<open>resolved\<close> returned.\<close>

function resolve_profile ::
    "string \<Rightarrow> raw_profiles \<Rightarrow> profile_resolved resolve_state
      \<Rightarrow> (string, profile_resolved \<times> profile_resolved resolve_state) result" where
  "resolve_profile name raw_profiles (visiting, resolved) =
     (case bt_get resolved name of
        Some v \<Rightarrow> Inr (v, visiting, resolved)
      | None \<Rightarrow>
          (case bt_get raw_profiles name of
             None \<Rightarrow> Inl (''unknown profile `'' @ name @ ''`'')
           | Some profile \<Rightarrow>
               (let (fresh, visiting) = bs_insert name visiting in
                if \<not> fresh then Inl (''profile inheritance cycle involving `'' @ name @ ''`'')
                else
                  (case (case pd_extends profile of
                           Some parent \<Rightarrow>
                             if parent = pd_name profile then
                               Inl (''profile inheritance cycle involving `'' @ name @ ''`'')
                             else if \<not> bt_contains raw_profiles parent then
                               Inl (''unknown profile parent `'' @ parent @ ''`'')
                             else resolve_profile parent raw_profiles (visiting, resolved)
                         | None \<Rightarrow> Inr (default_profile_resolved, visiting, resolved)) of
                     Inl e \<Rightarrow> Inl e
                   | Inr (out, visiting, resolved) \<Rightarrow>
                       rbind (normalize_auth_uses (pp_auth_uses (pd_patch profile))) (\<lambda>auth_uses.
                       let rate_limit_specs =
                             (case pp_rate_limit (pd_patch profile) of None \<Rightarrow> [] | Some spec \<Rightarrow> [spec]);
                           out = merge_profile out
                             \<lparr>pr_auth_uses = auth_uses, pr_rate_limit_specs = rate_limit_specs\<rparr>
                       in Inr (out, bs_remove name visiting, bt_insert name out resolved))))))"
  by pat_completeness auto
termination
proof (relation "measure (\<lambda>(name, raw_profiles, visiting, resolved).
    card (set (bt_keys raw_profiles) - set visiting))", goal_cases)
  case 1
  then show ?case by simp
next
  case (2 name raw_profiles visiting resolved profile x fresh visiting' parent)
  then have new: "name \<notin> set visiting" and v: "set visiting' = insert name (set visiting)"
    by (auto simp: bs_insert_def set_insort_key split: if_splits)
  have "name \<in> set (bt_keys raw_profiles)"
    using 2(2) by (metis bt_get_dom domI)
  then show ?case
    using unvisited_less [OF _ new v] by (simp del: set_map)
qed

declare resolve_profile.simps [simp del]

fun collect_raw_profiles :: "profile_def list \<Rightarrow> raw_profiles \<Rightarrow> (string, raw_profiles) result" where
  "collect_raw_profiles [] m = Inr m"
| "collect_raw_profiles (profile # profiles) m =
     (if bt_contains m (pd_name profile)
      then Inl (''duplicate profile `'' @ pd_name profile @ ''`'')
      else collect_raw_profiles profiles (bt_insert (pd_name profile) profile m))"

fun resolve_profile_names ::
    "string list \<Rightarrow> raw_profiles \<Rightarrow> profile_resolved resolve_state
      \<Rightarrow> (string, profile_resolved resolve_state) result" where
  "resolve_profile_names [] raw_profiles st = Inr st"
| "resolve_profile_names (name # names) raw_profiles st =
     rbind (resolve_profile name raw_profiles st) (\<lambda>(_, st). resolve_profile_names names raw_profiles st)"

definition resolve_profiles ::
    "profile_def list option \<Rightarrow> (string, (string, profile_resolved) btree) result" where
  "resolve_profiles block =
     (case block of
        None \<Rightarrow> Inr []
      | Some profiles \<Rightarrow>
          rbind (collect_raw_profiles profiles []) (\<lambda>raw_profiles.
          rbind (resolve_profile_names (bt_keys raw_profiles) raw_profiles ([], []))
            (\<lambda>(visiting, resolved). Inr resolved)))"

text \<open>Names attached at one site, in order.\<close>

fun resolve_profile_name_list ::
    "ident list \<Rightarrow> (string, profile_resolved) btree \<Rightarrow> profile_resolved \<Rightarrow> (string, profile_resolved) result" where
  "resolve_profile_name_list [] profiles out = Inr out"
| "resolve_profile_name_list (name # names) profiles out =
     (case bt_get profiles name of
        None \<Rightarrow> Inl (''unknown profile `'' @ name @ ''`'')
      | Some profile \<Rightarrow> resolve_profile_name_list names profiles (merge_profile out profile))"

definition resolve_profile_uses ::
    "profile_use_spec list \<Rightarrow> (string, profile_resolved) btree \<Rightarrow> (string, profile_resolved) result" where
  "resolve_profile_uses uses profiles =
     resolve_profile_name_list (concat uses) profiles default_profile_resolved"

definition validate_profile_uses_unique_at_site :: "profile_use_spec list \<Rightarrow> (string, unit) result" where
  "validate_profile_uses_unique_at_site uses =
     (case first_repeat [] (concat uses) of
        None \<Rightarrow> Inr ()
      | Some name \<Rightarrow> Inl (''duplicate profile `'' @ name @ ''` at this attachment site''))"

definition profile_use_names :: "profile_use_spec list \<Rightarrow> string list" where
  "profile_use_names uses = concat uses"

section \<open>Behaviour profiles resolve like the generic set\<close>

definition patch_value :: "profile_def \<Rightarrow> profile_resolved" where
  "patch_value p =
     \<lparr>pr_auth_uses = map normalize_auth_use (pp_auth_uses (pd_patch p)),
      pr_rate_limit_specs = (case pp_rate_limit (pd_patch p) of None \<Rightarrow> [] | Some s \<Rightarrow> [s])\<rparr>"

definition as_profile :: "profile_def \<Rightarrow> profile_resolved profile" where
  "as_profile p = \<lparr>pf_name = pd_name p, pf_extends = pd_extends p, pf_value = patch_value p\<rparr>"

definition as_profiles :: "raw_profiles \<Rightarrow> profile_resolved profile_map" where
  "as_profiles m = map (\<lambda>(k, p). (k, as_profile p)) m"

lemma as_profile_value:
  "pf_value (as_profile p) = patch_value p" "pf_extends (as_profile p) = pd_extends p"
  by (simp_all add: as_profile_def)

lemma as_profiles_get: "bt_get (as_profiles m) k = map_option as_profile (bt_get m k)"
  unfolding as_profiles_def by (simp add: map_of_map)

lemma as_profiles_keys [simp]: "bt_keys (as_profiles m) = bt_keys m"
  by (simp add: as_profiles_def comp_def case_prod_unfold)

abbreviation generic_resolve where
  "generic_resolve name raw st \<equiv>
     resolve_one_profile default_profile_resolved merge_profile [] (as_profiles raw) name st"

definition filed :: "raw_profiles \<Rightarrow> bool" where
  "filed raw \<longleftrightarrow> (\<forall>k p. bt_get raw k = Some p \<longrightarrow> pd_name p = k)"

lemma resolve_profile_extend:
  assumes "bt_get resolved name = None" and "bt_get raw name = Some p" and "name \<notin> set visiting"
    and "pd_extends p = Some parent" and "parent \<noteq> pd_name p" and "bt_contains raw parent"
  shows "resolve_profile name raw (visiting, resolved) =
    (case resolve_profile parent raw (insort name visiting, resolved) of
        Inl e \<Rightarrow> Inl e
      | Inr (pv, vis, res) \<Rightarrow>
          Inr (merge_profile pv (patch_value p), bs_remove name vis,
               bt_insert name (merge_profile pv (patch_value p)) res))"
  using assms
  by (subst resolve_profile.simps)
     (simp add: bs_insert_def normalize_auth_uses_def patch_value_def Let_def split: sum.split)

lemma resolve_profile_generic:
  assumes "filed raw" and "set (bt_keys resolved) \<subseteq> set (bt_keys raw)"
  shows "resolve_profile name raw (visiting, resolved) = Inr r
    \<longleftrightarrow> generic_resolve name raw (visiting, resolved) = Inr r"
  using assms
proof (induction name raw "(visiting, resolved)" arbitrary: visiting r rule: resolve_profile.induct)
  case (1 name raw visiting)
  consider (hit) v where "bt_get resolved name = Some v"
    | (unknown) "bt_get resolved name = None" "bt_get raw name = None"
    | (cycle) p where "bt_get resolved name = None" "bt_get raw name = Some p" "name \<in> set visiting"
    | (root) p where "bt_get resolved name = None" "bt_get raw name = Some p" "name \<notin> set visiting"
        "pd_extends p = None"
    | (ext) p parent where "bt_get resolved name = None" "bt_get raw name = Some p"
        "name \<notin> set visiting" "pd_extends p = Some parent"
    by fastforce
  then show ?case
  proof cases
    case hit
    then show ?thesis by (simp add: resolve_profile.simps [of name] resolve_hit)
  next
    case unknown
    then show ?thesis
      by (simp add: resolve_profile.simps [of name] resolve_unknown as_profiles_get)
  next
    case cycle
    then show ?thesis
      by (simp add: resolve_profile.simps [of name] resolve_cycle as_profiles_get bs_insert_def)
  next
    case root
    then show ?thesis
      by (simp add: resolve_profile.simps [of name] resolve_root as_profiles_get bs_insert_def
            as_profile_def patch_value_def normalize_auth_uses_def Let_def remove_insort)
  next
    case ext
    have gen: "generic_resolve name raw (visiting, resolved) =
        (case generic_resolve parent raw (insort name visiting, resolved) of
            Inl e \<Rightarrow> Inl e
          | Inr (pv, vis, res) \<Rightarrow>
              Inr (merge_profile pv (patch_value p), bs_remove name vis,
                   bt_insert name (merge_profile pv (patch_value p)) res))"
      using ext resolve_extend [of resolved name "as_profiles raw" "as_profile p" visiting parent
          default_profile_resolved merge_profile]
      unfolding as_profile_value by (simp add: as_profiles_get)
    have nm: "pd_name p = name" using 1(2) ext by (simp add: filed_def)
    show ?thesis
    proof (cases "parent = name \<or> \<not> bt_contains raw parent")
      case True
      have "\<exists>e. generic_resolve parent raw (insort name visiting, resolved) = Inl e"
      proof (cases "parent = name")
        case True
        then show ?thesis
          using ext by (simp add: resolve_cycle as_profiles_get set_insort_key)
      next
        case False
        with True have "parent \<notin> set (bt_keys raw)" by (simp add: bt_contains_iff del: set_map)
        then have "bt_get raw parent = None" "bt_get resolved parent = None"
          using 1(3) unfolding map_of_eq_None_iff by auto
        then show ?thesis by (simp add: resolve_unknown as_profiles_get)
      qed
      with True show ?thesis
        using ext nm unfolding gen
        by (auto simp: resolve_profile.simps [of name] bs_insert_def)
    next
      case False
      then have eq: "resolve_profile name raw (visiting, resolved) =
          (case resolve_profile parent raw (insort name visiting, resolved) of
              Inl e \<Rightarrow> Inl e
            | Inr (pv, vis, res) \<Rightarrow>
                Inr (merge_profile pv (patch_value p), bs_remove name vis,
                     bt_insert name (merge_profile pv (patch_value p)) res))"
        using ext nm by (intro resolve_profile_extend) auto
      have IH: "resolve_profile parent raw (insort name visiting, resolved) = Inr r'
          \<longleftrightarrow> generic_resolve parent raw (insort name visiting, resolved) = Inr r'" for r'
        using 1(1) [of p "(True, insort name visiting)" True "insort name visiting" parent r']
          1(2,3) ext False nm
        by (simp add: bs_insert_def)
      show ?thesis
      proof (cases "generic_resolve parent raw (insort name visiting, resolved)")
        case (Inr r')
        with IH [of r'] show ?thesis unfolding gen eq by simp
      next
        case (Inl e)
        with IH obtain e' where "resolve_profile parent raw (insort name visiting, resolved) = Inl e'"
          by (metis Inl_Inr_False sumE)
        with Inl show ?thesis unfolding gen eq by simp
      qed
    qed
  qed
qed

definition raw_triple :: "profile_def \<Rightarrow> ident \<times> ident option \<times> profile_resolved" where
  "raw_triple p = (pd_name p, pd_extends p, patch_value p)"

abbreviation no_validation :: "'v \<Rightarrow> (string, unit) result" where
  "no_validation \<equiv> \<lambda>_. Inr ()"

lemma as_profiles_insert: "as_profiles (bt_insert k p m) = bt_insert k (as_profile p) (as_profiles m)"
  by (induction k p m rule: bt_insert.induct) (auto simp: as_profiles_def)

lemma as_profiles_contains: "bt_contains (as_profiles m) k \<longleftrightarrow> bt_contains m k"
  by (simp add: bt_contains_iff del: set_map)

lemma collect_raw_generic:
  "(case collect_raw_profiles ps m of
      Inl e \<Rightarrow> \<exists>e'. collect_profiles [] (map raw_triple ps) (as_profiles m) = Inl e'
    | Inr m' \<Rightarrow> collect_profiles [] (map raw_triple ps) (as_profiles m) = Inr (as_profiles m'))"
proof (induction ps m rule: collect_raw_profiles.induct)
  case (2 p ps m)
  have step: "collect_profiles [] (map raw_triple (p # ps)) (as_profiles m) =
      (if bt_contains m (pd_name p) then Inl (''duplicate '' @ '' profile `'' @ pd_name p @ ''`'')
       else collect_profiles [] (map raw_triple ps) (as_profiles (bt_insert (pd_name p) p m)))"
    by (simp add: as_profiles_contains raw_triple_def as_profiles_insert as_profile_def)
  show ?case
    unfolding step using 2 by simp
qed simp

lemma collect_raw_filed:
  assumes "collect_raw_profiles ps m = Inr m'" and "bt_ok m" and "filed m"
  shows "bt_ok m' \<and> filed m'"
  using assms
proof (induction ps m rule: collect_raw_profiles.induct)
  case (2 p ps m)
  then have "\<not> bt_contains m (pd_name p)"
    "collect_raw_profiles ps (bt_insert (pd_name p) p m) = Inr m'"
    by (auto split: if_splits)
  moreover have "filed (bt_insert (pd_name p) p m)"
    using 2(3,4) by (simp add: filed_def)
  ultimately show ?case using 2(1,3) by simp
qed simp

lemma resolved_keys_in:
  assumes "resolved_ok mempty merge profiles r"
  shows "set (bt_keys r) \<subseteq> set (bt_keys profiles)"
proof
  fix k assume "k \<in> set (bt_keys r)"
  then obtain v where "bt_get r k = Some v"
    unfolding bt_get_dom [symmetric] by blast
  then show "k \<in> set (bt_keys profiles)"
    using assms parent_chain_in unfolding resolved_ok_def by metis
qed

lemma resolve_names_generic:
  assumes "filed raw" and "resolved_ok default_profile_resolved merge_profile (as_profiles raw) res"
  shows "resolve_profile_names names raw ([], res) = Inr (vis, r) \<longleftrightarrow>
    vis = [] \<and> resolve_keys default_profile_resolved merge_profile no_validation []
      (as_profiles raw) names res = Inr r"
  using assms(2)
proof (induction names arbitrary: res)
  case Nil
  then show ?case by auto
next
  case (Cons name names)
  have "set (bt_keys res) \<subseteq> set (bt_keys raw)"
    using resolved_keys_in [OF Cons.prems] by simp
  then have one: "resolve_profile name raw ([], res) = Inr out \<longleftrightarrow>
      generic_resolve name raw ([], res) = Inr out" for out
    using resolve_profile_generic [OF assms(1)] by blast
  show ?case
  proof (cases "generic_resolve name raw ([], res)")
    case (Inl e)
    with one obtain e' where "resolve_profile name raw ([], res) = Inl e'"
      by (metis Inl_Inr_False sumE)
    with Inl show ?thesis by simp
  next
    case (Inr out)
    obtain v vis' res' where out: "out = (v, vis', res')" by (cases out) auto
    note s = resolve_one_profile_sound [OF Inr [unfolded out] Cons.prems]
    with Cons.IH [of res'] show ?thesis
      using Inr one [of out] by (simp add: out)
  qed
qed

text \<open>Behaviour profiles resolve as the generic set does, with one error message for another.\<close>

lemma resolve_profiles_generic:
  "resolve_profiles (Some ps) = Inr r \<longleftrightarrow>
     resolve_profile_set default_profile_resolved merge_profile no_validation []
       (map raw_triple ps) [] = Inr r"
proof (cases "collect_raw_profiles ps []")
  case (Inl e)
  then show ?thesis
    using collect_raw_generic [of ps "[]"]
    by (auto simp: resolve_profiles_def resolve_profile_set_def as_profiles_def)
next
  case (Inr m)
  then have "filed m"
    using collect_raw_filed [OF Inr] by (simp add: filed_def)
  then have "(\<exists>vis. resolve_profile_names (bt_keys m) m ([], []) = Inr (vis, r)) \<longleftrightarrow>
      resolve_keys default_profile_resolved merge_profile no_validation []
        (as_profiles m) (bt_keys m) [] = Inr r"
    using resolve_names_generic [of m "[]"] by simp
  then show ?thesis
    using Inr collect_raw_generic [of ps "[]"]
    by (auto simp: resolve_profiles_def resolve_profile_set_def as_profiles_def rbind_Inr_iff
          comp_def case_prod_unfold)
qed

text \<open>
  A resolved behaviour profile carries the authentication uses and the rate-limit clauses of its whole
  chain of parents, root first, each profile of the chain once.
\<close>

lemma resolved_profile_contents:
  assumes "resolve_profiles (Some ps) = Inr r" and "bt_get r k = Some v"
  shows "\<exists>ks. parent_chain (profiles_of (map raw_triple ps)) k ks \<and> distinct ks
    \<and> pr_auth_uses v = concat (map (\<lambda>k. pr_auth_uses
          (pf_value (the (bt_get (profiles_of (map raw_triple ps)) k)))) ks)
    \<and> pr_rate_limit_specs v = concat (map (\<lambda>k. pr_rate_limit_specs
          (pf_value (the (bt_get (profiles_of (map raw_triple ps)) k)))) ks)"
proof -
  have r: "resolve_profile_set default_profile_resolved merge_profile no_validation []
      (map raw_triple ps) [] = Inr r"
    using assms(1) by (simp only: resolve_profiles_generic)
  obtain ks where ks: "parent_chain (profiles_of (map raw_triple ps)) k ks"
    "pr_auth_uses v = concat (map (\<lambda>k. pr_auth_uses
          (pf_value (the (bt_get (profiles_of (map raw_triple ps)) k)))) ks)"
    using auth_profiles.parts_resolved [OF r assms(2)] by blast
  obtain ks' where ks': "parent_chain (profiles_of (map raw_triple ps)) k ks'"
    "pr_rate_limit_specs v = concat (map (\<lambda>k. pr_rate_limit_specs
          (pf_value (the (bt_get (profiles_of (map raw_triple ps)) k)))) ks')"
    using limit_profiles.parts_resolved [OF r assms(2)] by blast
  have "ks' = ks" using ks(1) ks'(1) by (metis parent_chain_unique)
  then show ?thesis using ks ks' parent_chain_distinct by blast
qed

lemma validate_profile_uses_ok:
  "validate_profile_uses_unique_at_site uses = Inr () \<longleftrightarrow> distinct (concat uses)"
  using first_repeat_None [of "concat uses"]
  by (cases "first_repeat [] (concat uses)")
     (simp_all add: validate_profile_uses_unique_at_site_def del: first_repeat_None)

end
