(* ===== verification/MacroRateLimit.thy ===== *)
theory MacroRateLimit
  imports MacroProfiles RateLimitGovernor
begin

text \<open>
  \<open>sema/rate_limit.rs\<close> and the rate-limit part of \<open>sema/profile.rs\<close>: rate-limit profiles, attached
  clauses and key bindings resolved to plans of the macro's intermediate form, and the plan that the
  code emitted by \<open>codegen/policy/rate_limit.rs\<close> builds at run time. A plan the analysis accepts has
  only windows the run-time limiter accepts. Clauses of one site are merged before they are applied;
  the last section says exactly when that is the same as applying them in turn.
\<close>

section \<open>Literals\<close>

text \<open>\<open>LitInt::base10_parse\<close> for an unsigned integer of \<open>bits\<close> bits, on the literal's digits.\<close>

definition base10_parse :: "nat \<Rightarrow> lit_int \<Rightarrow> (string, nat) result" where
  "base10_parse bits s =
     (if s = [] then Inl ''cannot parse integer from empty string''
      else if \<not> list_all is_digit_char s then Inl ''invalid digit found in string''
      else if 2 ^ bits \<le> decimal_value s then Inl ''number too large to fit in target type''
      else Inr (decimal_value s))"

definition base10_parse_u32 :: "lit_int \<Rightarrow> (string, u32) result" where
  "base10_parse_u32 s = rbind (base10_parse 32 s) (\<lambda>n. Inr (of_nat n))"

definition base10_parse_u64 :: "lit_int \<Rightarrow> (string, u64) result" where
  "base10_parse_u64 s = rbind (base10_parse 64 s) (\<lambda>n. Inr (of_nat n))"

definition u64_checked_mul :: "u64 \<Rightarrow> u64 \<Rightarrow> u64 option" where
  "u64_checked_mul a b = (if unat a * unat b < 2 ^ 64 then Some (a * b) else None)"

text \<open>\<open>u128\<close> products are natural numbers below \<open>2 ^ 128\<close>.\<close>

definition u128_checked_mul :: "nat \<Rightarrow> nat \<Rightarrow> nat option" where
  "u128_checked_mul a b = (if a * b < 2 ^ 128 then Some (a * b) else None)"

section \<open>Plans of the intermediate form\<close>

record rl_window_resolved =
  rwr_max :: u32
  rwr_per_secs :: u64

datatype rl_key_template = KtRouteHost | KtEndpoint | KtMethod | KtNamed string | KtStatic string string

datatype rl_key_resolved =
  KrRouteHost | KrEndpoint | KrMethod | KrEpField string ident | KrStatic string string

record 'k rl_bucket =
  rbk_kind :: string
  rbk_name :: string
  rbk_key :: "'k list"
  rbk_cost :: u32
  rbk_windows :: "rl_window_resolved list"

type_synonym rl_plan_template = "rl_key_template rl_bucket list"
type_synonym rl_plan_resolved = "rl_key_resolved rl_bucket list"

datatype rl_resolved = RlAdd rl_plan_resolved | RlReplace rl_plan_resolved | RlClear

datatype rl_attachment_context = AttachClientBase | AttachLayer | AttachEndpoint

record rl_key_binding =
  rkb_name :: string
  rkb_field :: ident

primrec resolve_rate_limit_key_spec :: "rl_key_spec \<Rightarrow> rl_key_template" where
  "resolve_rate_limit_key_spec RkRouteHost = KtRouteHost"
| "resolve_rate_limit_key_spec RkEndpoint = KtEndpoint"
| "resolve_rate_limit_key_spec RkMethod = KtMethod"
| "resolve_rate_limit_key_spec (RkNamed name) = KtNamed name"
| "resolve_rate_limit_key_spec (RkStatic v) = KtStatic ''static'' v"

definition resolve_bucket_cost :: "lit_int option \<Rightarrow> (string, u32) result" where
  "resolve_bucket_cost lit =
     (case lit of
        None \<Rightarrow> Inr 1
      | Some cost_lit \<Rightarrow>
          rbind (base10_parse_u32 cost_lit) (\<lambda>cost.
          if cost = 0 then Inl ''rate_limit bucket cost must be greater than zero'' else Inr cost))"

definition unit_multiplier :: "rl_duration_unit \<Rightarrow> u64" where
  "unit_multiplier u = (case u of UnitSeconds \<Rightarrow> 1 | UnitMinutes \<Rightarrow> 60)"

definition resolve_window :: "u32 \<Rightarrow> rl_window_spec \<Rightarrow> (string, rl_window_resolved) result" where
  "resolve_window cost window =
     rbind (base10_parse_u32 (ws_max window)) (\<lambda>mx.
     if mx = 0 then Inl ''rate_limit max must be greater than zero''
     else if cost > mx then Inl ''rate_limit bucket cost must not exceed the window max''
     else
     rbind (base10_parse_u64 (ws_every window)) (\<lambda>amount.
     if amount = 0 then Inl ''rate_limit duration must be greater than zero''
     else
     rbind (ok_or (u64_checked_mul amount (unit_multiplier (ws_unit window)))
              ''rate_limit duration is too large'') (\<lambda>per_secs.
     rbind (ok_or (u128_checked_mul (unat per_secs) 1000000000)
              ''rate_limit duration is too large'') (\<lambda>per_nanos.
     if unat mx > per_nanos then
       Inl ''rate_limit window is too small for max; reduce `limit` or increase `every`''
     else Inr \<lparr>rwr_max = mx, rwr_per_secs = per_secs\<rparr>))))"

definition resolve_bucket ::
    "string \<Rightarrow> nat \<times> rl_bucket_spec \<Rightarrow> (string, rl_key_template rl_bucket) result" where
  "resolve_bucket default_bucket_name = (\<lambda>(idx, bucket).
     if bs_windows bucket = [] then Inl ''rate_limit bucket must contain at least one `limit`''
     else
     rbind (resolve_bucket_cost (bs_cost bucket)) (\<lambda>cost.
     rbind (collect_results (resolve_window cost) (bs_windows bucket)) (\<lambda>windows.
     Inr \<lparr>rbk_kind = bs_kind bucket, rbk_name = default_bucket_name @ ''_'' @ decimal idx,
          rbk_key = map resolve_rate_limit_key_spec (bs_key bucket),
          rbk_cost = cost, rbk_windows = windows\<rparr>)))"

definition resolve_rate_limit_plan_spec :: "rl_plan_spec \<Rightarrow> string \<Rightarrow> (string, rl_plan_template) result" where
  "resolve_rate_limit_plan_spec plan default_bucket_name =
     collect_results (resolve_bucket default_bucket_name) (List.enumerate 0 plan)"

text \<open>\<open>impl ProfileValue for RateLimitPlanTemplate\<close>.\<close>

definition template_empty :: rl_plan_template where
  "template_empty = []"

definition template_merge :: "rl_plan_template \<Rightarrow> rl_plan_template \<Rightarrow> rl_plan_template" where
  "template_merge parent child = parent @ child"

definition template_validate :: "rl_plan_template \<Rightarrow> (string, unit) result" where
  "template_validate plan = Inr ()"

interpretation plan_profiles: appending_profile template_empty template_merge "\<lambda>plan. plan"
  by unfold_locales (simp_all add: template_empty_def template_merge_def)

definition resolve_rl_profile_def ::
    "rl_profile_def \<Rightarrow> (string, ident \<times> ident option \<times> rl_plan_template) result" where
  "resolve_rl_profile_def p =
     rbind (resolve_rate_limit_plan_spec (rp_plan p) (rp_name p)) (\<lambda>plan.
     Inr (rp_name p, rp_extends p, plan))"

definition resolve_rate_limit_profiles ::
    "rl_profiles_block option \<Rightarrow> (string, (string, rl_plan_template) btree) result" where
  "resolve_rate_limit_profiles block =
     (case block of
        None \<Rightarrow> Inr []
      | Some b \<Rightarrow>
          rbind (collect_results resolve_rl_profile_def (rb_profiles b)) (\<lambda>raw.
          resolve_profile_set template_empty template_merge template_validate ''rate_limit'' raw
            (rb_default b)))"

fun combine_rate_limit_profiles_from ::
    "rl_plan_template \<Rightarrow> ident list \<Rightarrow> (string, rl_plan_template) btree \<Rightarrow> (string, rl_plan_template) result" where
  "combine_rate_limit_profiles_from out [] profiles = Inr out"
| "combine_rate_limit_profiles_from out (name # names) profiles =
     (case bt_get profiles name of
        None \<Rightarrow> Inl (unknown_name_message ''rate_limit profile'' name profiles)
      | Some plan \<Rightarrow> combine_rate_limit_profiles_from (out @ plan) names profiles)"

definition combine_rate_limit_profiles ::
    "ident list \<Rightarrow> (string, rl_plan_template) btree \<Rightarrow> (string, rl_plan_template) result" where
  "combine_rate_limit_profiles names profiles = combine_rate_limit_profiles_from [] names profiles"

section \<open>Keys\<close>

definition materialize_rate_limit_key ::
    "(string, rl_key_binding) btree \<Rightarrow> var_map option \<Rightarrow> rl_attachment_context \<Rightarrow> rl_key_template
      \<Rightarrow> (string, rl_key_resolved) result" where
  "materialize_rate_limit_key visible_keys endpoint_vars ctx key =
     (case key of
        KtRouteHost \<Rightarrow> Inr KrRouteHost
      | KtEndpoint \<Rightarrow> Inr KrEndpoint
      | KtMethod \<Rightarrow> Inr KrMethod
      | KtStatic name v \<Rightarrow> Inr (KrStatic name v)
      | KtNamed name \<Rightarrow>
          (case bt_get visible_keys name of
             Some binding \<Rightarrow> Inr (KrEpField name (rkb_field binding))
           | None \<Rightarrow>
               if ctx = AttachClientBase then
                 Inl ''endpoint/scope rate_limit key cannot be used in client base policy''
               else case endpoint_vars of
                 None \<Rightarrow>
                   Inl (unknown_name_message_from_keys ''rate_limit key'' name (bt_keys visible_keys))
               | Some vars \<Rightarrow>
                   (case bt_get vars name of
                      None \<Rightarrow>
                        Inl (unknown_name_message_from_keys ''rate_limit key'' name
                               (bt_keys visible_keys @ bt_keys vars))
                    | Some var \<Rightarrow>
                        if vi_optional var then
                          Inl (''rate_limit key `'' @ name @ ''` cannot use optional param'')
                        else Inr (KrEpField name (vi_rust var)))))"

definition materialize_bucket ::
    "(string, rl_key_binding) btree \<Rightarrow> var_map option \<Rightarrow> rl_attachment_context
      \<Rightarrow> rl_key_template rl_bucket \<Rightarrow> (string, rl_key_resolved rl_bucket) result" where
  "materialize_bucket visible_keys endpoint_vars ctx bucket =
     rbind (collect_results (materialize_rate_limit_key visible_keys endpoint_vars ctx) (rbk_key bucket))
       (\<lambda>key. Inr \<lparr>rbk_kind = rbk_kind bucket, rbk_name = rbk_name bucket, rbk_key = key,
                   rbk_cost = rbk_cost bucket, rbk_windows = rbk_windows bucket\<rparr>)"

definition materialize_rate_limit_plan ::
    "rl_plan_template \<Rightarrow> (string, rl_key_binding) btree \<Rightarrow> var_map option \<Rightarrow> rl_attachment_context
      \<Rightarrow> (string, rl_plan_resolved) result" where
  "materialize_rate_limit_plan plan visible_keys endpoint_vars ctx =
     collect_results (materialize_bucket visible_keys endpoint_vars ctx) plan"

definition resolve_client_rate_limit ::
    "rl_profiles_block option \<Rightarrow> (string, rl_plan_template) btree \<Rightarrow> (string, rl_key_binding) btree
      \<Rightarrow> var_map option \<Rightarrow> (string, rl_resolved option) result" where
  "resolve_client_rate_limit block profiles visible_keys endpoint_vars =
     (case block of
        None \<Rightarrow> Inr None
      | Some b \<Rightarrow>
          if rb_default b = [] then Inr None
          else
            rbind (combine_rate_limit_profiles (rb_default b) profiles) (\<lambda>plan.
            rbind (materialize_rate_limit_plan plan visible_keys endpoint_vars AttachClientBase) (\<lambda>plan.
            Inr (Some (RlAdd plan)))))"

definition only_or_add :: "bool \<Rightarrow> rl_plan_resolved \<Rightarrow> rl_resolved" where
  "only_or_add only plan = (if only then RlReplace plan else RlAdd plan)"

definition resolve_rate_limit_spec ::
    "rl_spec option \<Rightarrow> (string, rl_plan_template) btree \<Rightarrow> (string, rl_key_binding) btree
      \<Rightarrow> var_map option \<Rightarrow> rl_attachment_context \<Rightarrow> (string, rl_resolved option) result" where
  "resolve_rate_limit_spec spec profiles visible_keys endpoint_vars ctx =
     (case spec of
        None \<Rightarrow> Inr None
      | Some RlOff \<Rightarrow> Inr (Some RlClear)
      | Some (RlProfiles only names) \<Rightarrow>
          rbind (combine_rate_limit_profiles names profiles) (\<lambda>plan.
          rbind (materialize_rate_limit_plan plan visible_keys endpoint_vars ctx) (\<lambda>plan.
          Inr (Some (only_or_add only plan))))
      | Some (RlInline only plan) \<Rightarrow>
          rbind (resolve_rate_limit_plan_spec plan ''inline'') (\<lambda>plan.
          rbind (materialize_rate_limit_plan plan visible_keys endpoint_vars ctx) (\<lambda>plan.
          Inr (Some (only_or_add only plan)))))"

fun resolve_key_bindings_from ::
    "string list \<Rightarrow> rl_key_binding_spec list \<Rightarrow> var_info list \<Rightarrow> (string, rl_key_binding list) result" where
  "resolve_key_bindings_from seen [] decls = Inr []"
| "resolve_key_bindings_from seen (binding # bindings) decls =
     (let (fresh, seen) = bs_insert (kb_name binding) seen in
      if \<not> fresh then Inl (''duplicate rate_limit key `'' @ kb_name binding @ ''`'')
      else case find (\<lambda>d. vi_rust d = kb_value binding) decls of
        None \<Rightarrow> Inl (''unknown rate_limit key binding `'' @ kb_value binding @ ''`'')
      | Some decl \<Rightarrow>
          if vi_optional decl then
            Inl (''rate_limit key binding `'' @ kb_name binding
                 @ ''` cannot reference optional parameter `'' @ kb_value binding @ ''`'')
          else rbind (resolve_key_bindings_from seen bindings decls) (\<lambda>out.
            Inr (\<lparr>rkb_name = kb_name binding, rkb_field = vi_rust decl\<rparr> # out)))"

definition resolve_rate_limit_key_bindings ::
    "rl_key_binding_spec list \<Rightarrow> var_info list \<Rightarrow> (string, rl_key_binding list) result" where
  "resolve_rate_limit_key_bindings bindings decls = resolve_key_bindings_from [] bindings decls"

section \<open>Clauses of one site\<close>

definition merge_rate_limit_resolved :: "rl_resolved option \<Rightarrow> rl_resolved option \<Rightarrow> rl_resolved option" where
  "merge_rate_limit_resolved existing incoming =
     (case incoming of
        None \<Rightarrow> existing
      | Some inc \<Rightarrow>
          (case (existing, inc) of
             (None, _) \<Rightarrow> Some inc
           | (Some RlClear, RlClear) \<Rightarrow> Some RlClear
           | (Some RlClear, RlAdd plan) \<Rightarrow> Some (RlAdd plan)
           | (Some RlClear, RlReplace plan) \<Rightarrow> Some (RlReplace plan)
           | (Some (RlAdd parent), RlAdd child) \<Rightarrow> Some (RlAdd (parent @ child))
           | (Some (RlAdd _), RlReplace plan) \<Rightarrow> Some (RlReplace plan)
           | (Some (RlAdd _), RlClear) \<Rightarrow> Some RlClear
           | (Some (RlReplace parent), RlAdd child) \<Rightarrow> Some (RlReplace (parent @ child))
           | (Some (RlReplace _), RlReplace plan) \<Rightarrow> Some (RlReplace plan)
           | (Some (RlReplace _), RlClear) \<Rightarrow> Some RlClear))"

fun resolve_profile_rate_limit_specs_from ::
    "rl_resolved option \<Rightarrow> rl_spec list \<Rightarrow> (string, rl_plan_template) btree \<Rightarrow> (string, rl_key_binding) btree
      \<Rightarrow> var_map option \<Rightarrow> rl_attachment_context \<Rightarrow> (string, rl_resolved option) result" where
  "resolve_profile_rate_limit_specs_from out [] profiles visible_keys endpoint_vars ctx = Inr out"
| "resolve_profile_rate_limit_specs_from out (spec # specs) profiles visible_keys endpoint_vars ctx =
     rbind (resolve_rate_limit_spec (Some spec) profiles visible_keys endpoint_vars ctx) (\<lambda>resolved.
     resolve_profile_rate_limit_specs_from (merge_rate_limit_resolved out resolved) specs profiles
       visible_keys endpoint_vars ctx)"

definition resolve_profile_rate_limit_specs ::
    "rl_spec list \<Rightarrow> (string, rl_plan_template) btree \<Rightarrow> (string, rl_key_binding) btree
      \<Rightarrow> var_map option \<Rightarrow> rl_attachment_context \<Rightarrow> (string, rl_resolved option) result" where
  "resolve_profile_rate_limit_specs specs profiles visible_keys endpoint_vars ctx =
     resolve_profile_rate_limit_specs_from None specs profiles visible_keys endpoint_vars ctx"

section \<open>The emitted plan\<close>

text \<open>
  What the emitted expression evaluates to, with \<open>ep_field\<close> the text of an endpoint field at run time.
  A key that refers to an endpoint field cannot be emitted for the client's base policy.
\<close>

definition emit_rate_limit_key_part ::
    "rl_attachment_context \<Rightarrow> (ident \<Rightarrow> string) \<Rightarrow> rl_key_resolved \<Rightarrow> (string, rate_limit_key_part) result" where
  "emit_rate_limit_key_part ctx ep_field key =
     (case key of
        KrRouteHost \<Rightarrow> Inr key_part_url_host
      | KrEndpoint \<Rightarrow> Inr key_part_endpoint
      | KrMethod \<Rightarrow> Inr key_part_method
      | KrEpField name field \<Rightarrow>
          if ctx = AttachClientBase then
            Inl ''internal Concord error: endpoint/scope rate_limit key reached client base codegen''
          else Inr (key_part_static name (ep_field field))
      | KrStatic name v \<Rightarrow> Inr (key_part_static name v))"

definition emit_rate_limit_window :: "rl_window_resolved \<Rightarrow> (string, rate_limit_window) result" where
  "emit_rate_limit_window w =
     (if rwr_max w = 0 then Inl ''validated rate-limit max was zero''
      else Inr \<lparr>rlw_max = rwr_max w, rlw_per = secs (unat (rwr_per_secs w))\<rparr>)"

definition emit_rate_limit_bucket ::
    "rl_attachment_context \<Rightarrow> (ident \<Rightarrow> string) \<Rightarrow> rl_key_resolved rl_bucket
      \<Rightarrow> (string, rate_limit_bucket_use) result" where
  "emit_rate_limit_bucket ctx ep_field b =
     rbind (collect_results (emit_rate_limit_key_part ctx ep_field) (rbk_key b)) (\<lambda>key.
     if rbk_cost b = 0 then Inl ''validated rate-limit cost was zero''
     else
     rbind (collect_results emit_rate_limit_window (rbk_windows b)) (\<lambda>windows.
     Inr (with_windows (with_cost (bucket_use_new (rbk_kind b) (rbk_name b) key) (rbk_cost b)) windows)))"

definition emit_rate_limit_plan ::
    "rl_attachment_context \<Rightarrow> (ident \<Rightarrow> string) \<Rightarrow> rl_plan_resolved \<Rightarrow> (string, rate_limit_plan) result" where
  "emit_rate_limit_plan ctx ep_field plan =
     rbind (collect_results (emit_rate_limit_bucket ctx ep_field) plan) (\<lambda>buckets.
     Inr \<lparr>rlp_buckets = buckets\<rparr>)"

definition emit_rate_limit_op ::
    "rl_attachment_context \<Rightarrow> (ident \<Rightarrow> string) \<Rightarrow> rl_resolved option \<Rightarrow> rate_limit_plan
      \<Rightarrow> (string, rate_limit_plan) result" where
  "emit_rate_limit_op ctx ep_field op inherited =
     (case op of
        None \<Rightarrow> Inr inherited
      | Some RlClear \<Rightarrow> Inr plan_new
      | Some (RlAdd plan) \<Rightarrow>
          rbind (emit_rate_limit_plan ctx ep_field plan) (\<lambda>p. Inr (plan_extend inherited p))
      | Some (RlReplace plan) \<Rightarrow> emit_rate_limit_plan ctx ep_field plan)"

section \<open>Accepted plans are accepted at run time\<close>

definition window_valid :: "u32 \<Rightarrow> rl_window_resolved \<Rightarrow> bool" where
  "window_valid cost w \<longleftrightarrow>
     rwr_max w \<noteq> 0 \<and> cost \<le> rwr_max w \<and> rwr_per_secs w \<noteq> 0
     \<and> unat (rwr_max w) \<le> unat (rwr_per_secs w) * 1000000000"

definition bucket_valid :: "'k rl_bucket \<Rightarrow> bool" where
  "bucket_valid b \<longleftrightarrow>
     rbk_cost b \<noteq> 0 \<and> rbk_windows b \<noteq> [] \<and> (\<forall>w\<in>set (rbk_windows b). window_valid (rbk_cost b) w)"

definition plan_valid :: "'k rl_bucket list \<Rightarrow> bool" where
  "plan_valid plan \<longleftrightarrow> (\<forall>b\<in>set plan. bucket_valid b)"

definition resolved_valid :: "rl_resolved option \<Rightarrow> bool" where
  "resolved_valid r \<longleftrightarrow>
     (case r of Some (RlAdd plan) \<Rightarrow> plan_valid plan | Some (RlReplace plan) \<Rightarrow> plan_valid plan | _ \<Rightarrow> True)"

definition profiles_plans_valid :: "(string, rl_plan_template) btree \<Rightarrow> bool" where
  "profiles_plans_valid profiles \<longleftrightarrow> (\<forall>k plan. bt_get profiles k = Some plan \<longrightarrow> plan_valid plan)"

lemma plan_valid_append [simp]: "plan_valid (p @ q) \<longleftrightarrow> plan_valid p \<and> plan_valid q"
  by (auto simp: plan_valid_def)

lemma plan_valid_Nil [simp]: "plan_valid []"
  by (simp add: plan_valid_def)

lemma checked_mul_nonzero:
  assumes "u64_checked_mul a b = Some c" and "a \<noteq> 0" and "b \<noteq> 0"
  shows "c \<noteq> 0"
proof -
  have c: "c = a * b" and small: "unat a * unat b < 2 ^ 64"
    using assms(1) by (auto simp: u64_checked_mul_def split: if_splits)
  have "unat c = unat a * unat b"
    unfolding c using small by (simp add: unat_word_ariths)
  moreover have "unat a \<noteq> 0" "unat b \<noteq> 0"
    using assms(2,3) by (simp_all add: unat_eq_zero)
  ultimately show ?thesis by auto
qed

lemma unit_multiplier_nonzero: "unit_multiplier u \<noteq> 0"
  by (cases u) (simp_all add: unit_multiplier_def)

lemma resolve_window_valid:
  assumes "resolve_window cost spec = Inr w"
  shows "window_valid cost w"
proof -
  obtain mx amount per_secs per_nanos where
    "mx \<noteq> 0" "\<not> cost > mx" "amount \<noteq> 0"
    and mul: "u64_checked_mul amount (unit_multiplier (ws_unit spec)) = Some per_secs"
    and nanos: "u128_checked_mul (unat per_secs) 1000000000 = Some per_nanos"
    and "\<not> unat mx > per_nanos" and w: "w = \<lparr>rwr_max = mx, rwr_per_secs = per_secs\<rparr>"
    using assms
    by (auto simp: resolve_window_def rbind_Inr_iff split: if_splits)
  moreover have "per_secs \<noteq> 0"
    using checked_mul_nonzero [OF mul \<open>amount \<noteq> 0\<close> unit_multiplier_nonzero] .
  ultimately show ?thesis
    by (auto simp: window_valid_def u128_checked_mul_def split: if_splits)
qed

lemma resolve_bucket_valid:
  assumes "resolve_bucket name ib = Inr b"
  shows "bucket_valid b"
proof -
  obtain idx spec where ib: "ib = (idx, spec)" by (cases ib)
  obtain cost ws where ne: "bs_windows spec \<noteq> []" and cost: "resolve_bucket_cost (bs_cost spec) = Inr cost"
    and ws: "collect_results (resolve_window cost) (bs_windows spec) = Inr ws"
    and b: "rbk_cost b = cost" "rbk_windows b = ws"
    using assms by (auto simp: resolve_bucket_def ib rbind_Inr_iff split: if_splits)
  have "cost \<noteq> 0"
    using cost by (auto simp: resolve_bucket_cost_def rbind_Inr_iff split: option.splits if_splits)
  moreover have "ws \<noteq> []"
    using collect_results_length [OF ws] ne by auto
  moreover have "window_valid cost w" if "w \<in> set ws" for w
    using that collect_results_set [OF ws] resolve_window_valid by blast
  ultimately show ?thesis by (simp add: bucket_valid_def b)
qed

lemma resolve_plan_valid:
  assumes "resolve_rate_limit_plan_spec plan name = Inr t"
  shows "plan_valid t"
  using collect_results_set [OF assms [unfolded resolve_rate_limit_plan_spec_def]]
    resolve_bucket_valid unfolding plan_valid_def by blast

lemma profiles_of_in:
  assumes "bt_get (profiles_of raw) k = Some p"
  shows "(k, pf_extends p, pf_value p) \<in> set raw"
proof -
  have "(k, p) \<in> set (map (\<lambda>(n, e, v). (n, \<lparr>pf_name = n, pf_extends = e, pf_value = v\<rparr>)) raw)"
    using assms
    by (simp add: profiles_of_def bt_get_extend) (metis (no_types) map_of_SomeD rev_map set_rev set_map)
  then show ?thesis by auto
qed

lemma parent_chain_all_in: "parent_chain profiles k ks \<Longrightarrow> c \<in> set ks \<Longrightarrow> \<exists>p. bt_get profiles c = Some p"
  by (induction rule: parent_chain.induct) auto

lemma resolve_profiles_valid:
  assumes "resolve_rate_limit_profiles block = Inr profiles"
  shows "profiles_plans_valid profiles"
proof (cases block)
  case None
  then show ?thesis
    using assms by (simp add: resolve_rate_limit_profiles_def profiles_plans_valid_def)
next
  case (Some b)
  obtain raw where raw: "collect_results resolve_rl_profile_def (rb_profiles b) = Inr raw"
    and set: "resolve_profile_set template_empty template_merge template_validate ''rate_limit'' raw
        (rb_default b) = Inr profiles"
    using assms by (auto simp: resolve_rate_limit_profiles_def Some rbind_Inr_iff)
  have raw_valid: "plan_valid v" if "(n, e, v) \<in> set raw" for n e v
    using that collect_results_set [OF raw] resolve_plan_valid
    by (fastforce simp: resolve_rl_profile_def_def rbind_Inr_iff)
  show ?thesis
    unfolding profiles_plans_valid_def
  proof (intro allI impI)
    fix k plan
    assume "bt_get profiles k = Some plan"
    then obtain ks where ks: "parent_chain (profiles_of raw) k ks"
      and plan: "plan = concat (map (\<lambda>k. pf_value (the (bt_get (profiles_of raw) k))) ks)"
      using plan_profiles.parts_resolved [OF set] by blast
    have "plan_valid (pf_value (the (bt_get (profiles_of raw) c)))" if c: "c \<in> set ks" for c
    proof -
      obtain p where "bt_get (profiles_of raw) c = Some p"
        using parent_chain_all_in [OF ks c] by blast
      then show ?thesis using profiles_of_in raw_valid by fastforce
    qed
    then show "plan_valid plan" unfolding plan plan_valid_def by auto
  qed
qed

lemma combine_valid:
  "combine_rate_limit_profiles_from out names profiles = Inr plan \<Longrightarrow>
     profiles_plans_valid profiles \<Longrightarrow> plan_valid out \<Longrightarrow> plan_valid plan"
  by (induction out names profiles rule: combine_rate_limit_profiles_from.induct)
     (auto simp: profiles_plans_valid_def split: option.splits)

lemma materialize_valid:
  assumes "materialize_rate_limit_plan t keys vars ctx = Inr plan" and "plan_valid t"
  shows "plan_valid plan"
  using collect_results_set [OF assms(1) [unfolded materialize_rate_limit_plan_def]] assms(2)
  by (auto simp: plan_valid_def materialize_bucket_def rbind_Inr_iff bucket_valid_def)

lemma resolve_spec_valid:
  assumes "resolve_rate_limit_spec spec profiles keys vars ctx = Inr r"
    and "profiles_plans_valid profiles"
  shows "resolved_valid r"
  using assms
  by (auto simp: resolve_rate_limit_spec_def rbind_Inr_iff resolved_valid_def only_or_add_def
        combine_rate_limit_profiles_def
      dest!: resolve_plan_valid combine_valid materialize_valid
      split: option.splits rl_spec.splits if_splits)

lemma merge_valid:
  assumes "resolved_valid e" and "resolved_valid i"
  shows "resolved_valid (merge_rate_limit_resolved e i)"
  using assms
  by (auto simp: merge_rate_limit_resolved_def resolved_valid_def
      split: option.splits rl_resolved.splits)

lemma profile_specs_valid:
  assumes "resolve_profile_rate_limit_specs_from out specs profiles keys vars ctx = Inr r"
    and "profiles_plans_valid profiles" and "resolved_valid out"
  shows "resolved_valid r"
  using assms
proof (induction out specs profiles keys vars ctx rule: resolve_profile_rate_limit_specs_from.induct)
  case (2 out spec specs profiles keys vars ctx)
  then obtain x where x: "resolve_rate_limit_spec (Some spec) profiles keys vars ctx = Inr x"
    and rest: "resolve_profile_rate_limit_specs_from (merge_rate_limit_resolved out x) specs profiles
        keys vars ctx = Inr r"
    by (auto simp: rbind_Inr_iff)
  show ?case
    using 2(1) [OF rest 2(3)] merge_valid [OF 2(4) resolve_spec_valid [OF x 2(3)]] .
qed simp

text \<open>What the emitted code needs of a plan to run, and what the limiter needs of the result.\<close>

definition runtime_accepts ::
    "(duration \<Rightarrow> 'q option) \<Rightarrow> ('q \<Rightarrow> u32 \<Rightarrow> 'q) \<Rightarrow> rate_limit_context \<Rightarrow> rate_limit_bucket_use \<Rightarrow> bool" where
  "runtime_accepts with_period allow_burst rctx b \<longleftrightarrow>
     bu_windows b \<noteq> [] \<and> bu_cost b \<noteq> 0 \<and>
     list_all (\<lambda>w. bu_cost b \<le> rlw_max w \<and>
        (\<exists>q. quota_for_window with_period allow_burst rctx w = Inr q)) (bu_windows b)"

lemma window_quota:
  assumes "window_valid cost w" and "emit_rate_limit_window w = Inr rw"
    and "\<And>d. d \<noteq> 0 \<Longrightarrow> with_period d \<noteq> None"
  shows "cost \<le> rlw_max rw \<and> (\<exists>q. quota_for_window with_period allow_burst rctx rw = Inr q)"
proof -
  have rw: "rw = \<lparr>rlw_max = rwr_max w, rlw_per = secs (unat (rwr_per_secs w))\<rparr>"
    using assms(1,2) by (auto simp: emit_rate_limit_window_def window_valid_def)
  have "unat (rwr_max w) \<noteq> 0" "unat (rwr_per_secs w) \<noteq> 0"
    using assms(1) by (simp_all add: window_valid_def unat_eq_zero)
  moreover have "unat (rwr_max w) \<le> secs (unat (rwr_per_secs w))"
    using assms(1) by (simp add: window_valid_def secs_def)
  ultimately have cell: "secs (unat (rwr_per_secs w)) div unat (rwr_max w) \<noteq> 0"
    "secs (unat (rwr_per_secs w)) \<noteq> 0"
    by (auto simp: div_eq_0_iff)
  obtain q where "with_period (secs (unat (rwr_per_secs w)) div unat (rwr_max w)) = Some q"
    using assms(3) cell(1) by blast
  then show ?thesis
    using assms(1) cell by (simp add: rw quota_for_window_def window_valid_def Let_def)
qed

lemma emit_bucket_accepted:
  assumes "bucket_valid b" and "ctx \<noteq> AttachClientBase"
    and period: "\<And>d. d \<noteq> 0 \<Longrightarrow> with_period d \<noteq> None"
  shows "\<exists>u. emit_rate_limit_bucket ctx ep_field b = Inr u
    \<and> runtime_accepts with_period allow_burst rctx u"
proof -
  have "\<forall>k\<in>set (rbk_key b). \<exists>p. emit_rate_limit_key_part ctx ep_field k = Inr p"
    using assms(2) by (auto simp: emit_rate_limit_key_part_def split: rl_key_resolved.splits)
  then obtain key where key: "collect_results (emit_rate_limit_key_part ctx ep_field) (rbk_key b) = Inr key"
    using collect_results_ok_iff by metis
  have "\<forall>w\<in>set (rbk_windows b). \<exists>rw. emit_rate_limit_window w = Inr rw"
    using assms(1) by (auto simp: bucket_valid_def window_valid_def emit_rate_limit_window_def)
  then obtain ws where ws: "collect_results emit_rate_limit_window (rbk_windows b) = Inr ws"
    using collect_results_ok_iff by metis
  have "rbk_cost b \<le> rlw_max rw \<and> (\<exists>q. quota_for_window with_period allow_burst rctx rw = Inr q)"
    if "rw \<in> set ws" for rw
  proof -
    obtain w where "w \<in> set (rbk_windows b)" "emit_rate_limit_window w = Inr rw"
      using \<open>rw \<in> set ws\<close> collect_results_set [OF ws] by blast
    then show ?thesis
      using window_quota [OF _ _ period] assms(1) by (auto simp: bucket_valid_def)
  qed
  moreover have "ws \<noteq> []"
    using collect_results_length [OF ws] assms(1) by (auto simp: bucket_valid_def)
  ultimately show ?thesis
    using assms(1) key ws
    by (simp add: emit_rate_limit_bucket_def runtime_accepts_def with_windows_def with_cost_def
          bucket_use_new_def bucket_valid_def list_all_iff)
qed

lemma emit_plan_accepted:
  assumes "plan_valid plan" and "ctx \<noteq> AttachClientBase"
    and period: "\<And>d. d \<noteq> 0 \<Longrightarrow> with_period d \<noteq> None"
  shows "\<exists>rt. emit_rate_limit_plan ctx ep_field plan = Inr rt
    \<and> list_all (runtime_accepts with_period allow_burst rctx) (rlp_buckets rt)"
proof -
  have each: "\<exists>u. emit_rate_limit_bucket ctx ep_field b = Inr u
      \<and> runtime_accepts with_period allow_burst rctx u" if "b \<in> set plan" for b
    using that emit_bucket_accepted [OF _ assms(2) period] assms(1) by (simp add: plan_valid_def)
  then obtain us where us: "collect_results (emit_rate_limit_bucket ctx ep_field) plan = Inr us"
    using collect_results_ok_iff by metis
  have "runtime_accepts with_period allow_burst rctx u" if "u \<in> set us" for u
    using that each collect_results_set [OF us] by force
  then show ?thesis
    using us by (simp add: emit_rate_limit_plan_def list_all_iff)
qed

text \<open>
  Property C9: whatever rate-limit clauses and profiles the analysis accepts at a scope or endpoint,
  the plan the generated code builds from them is accepted by the run-time limiter: no window is
  rejected as too small or empty, and no bucket costs more than any of its windows admits.
\<close>

theorem accepted_limits_run:
  assumes "resolve_rate_limit_profiles block = Inr profiles"
    and "resolve_profile_rate_limit_specs specs profiles visible_keys vars ctx = Inr from_profiles"
    and "resolve_rate_limit_spec spec profiles visible_keys vars ctx = Inr explicit"
    and "merge_rate_limit_resolved from_profiles explicit \<in> {Some (RlAdd plan), Some (RlReplace plan)}"
    and "ctx \<noteq> AttachClientBase"
    and "\<And>d. d \<noteq> 0 \<Longrightarrow> with_period d \<noteq> None"
  shows "\<exists>rt. emit_rate_limit_plan ctx ep_field plan = Inr rt
    \<and> list_all (runtime_accepts with_period allow_burst rctx) (rlp_buckets rt)"
proof -
  have profiles: "profiles_plans_valid profiles"
    using assms(1) by (rule resolve_profiles_valid)
  have "resolved_valid from_profiles"
    using profile_specs_valid [OF assms(2) [unfolded resolve_profile_rate_limit_specs_def] profiles]
    by (simp add: resolved_valid_def)
  then have "resolved_valid (merge_rate_limit_resolved from_profiles explicit)"
    using resolve_spec_valid [OF assms(3) profiles] by (rule merge_valid)
  then have "plan_valid plan"
    using assms(4) by (auto simp: resolved_valid_def)
  then show ?thesis
    using assms(5,6) by (rule emit_plan_accepted)
qed

text \<open>An endpoint with \<open>bucket read by [host] { 10 / 1m }\<close> written inline.\<close>

definition sample_bucket :: rl_bucket_spec where
  "sample_bucket =
     \<lparr>bs_kind = ''read'', bs_key = [RkRouteHost], bs_cost = Some ''2'',
      bs_windows = [\<lparr>ws_max = ''10'', ws_every = ''1'', ws_unit = UnitMinutes\<rparr>]\<rparr>"

definition sample_plan :: rl_plan_resolved where
  "sample_plan =
     [\<lparr>rbk_kind = ''read'', rbk_name = ''inline_0'', rbk_key = [KrRouteHost], rbk_cost = 2,
       rbk_windows = [\<lparr>rwr_max = 10, rwr_per_secs = 60\<rparr>]\<rparr>]"

theorem accepted_limits_run_witness:
  "\<forall>rctx. resolve_rate_limit_spec (Some (RlInline False [sample_bucket])) [] [] None AttachEndpoint
      = Inr (Some (RlAdd sample_plan))
    \<and> (\<exists>rt. emit_rate_limit_plan AttachEndpoint (\<lambda>f. f) sample_plan = Inr rt
        \<and> list_all (runtime_accepts (\<lambda>d. if d = 0 then None else Some d) (\<lambda>q n. q) rctx)
            (rlp_buckets rt))"
proof -
  have spec: "resolve_rate_limit_spec (Some (RlInline False [sample_bucket])) [] [] None AttachEndpoint
      = Inr (Some (RlAdd sample_plan))"
  proof -
    have "resolve_window 2 \<lparr>ws_max = ''10'', ws_every = ''1'', ws_unit = UnitMinutes\<rparr>
        = Inr \<lparr>rwr_max = 10, rwr_per_secs = 60\<rparr>"
      by (simp add: resolve_window_def base10_parse_u32_def base10_parse_u64_def base10_parse_def
            is_digit_char_def decimal_value_def unit_multiplier_def u64_checked_mul_def
            u128_checked_mul_def)
    moreover have "resolve_bucket_cost (Some ''2'') = Inr 2"
      by (simp add: resolve_bucket_cost_def base10_parse_u32_def base10_parse_def is_digit_char_def
            decimal_value_def)
    moreover have "digit_char 0 = CHR ''0''"
      by code_simp
    ultimately show ?thesis
      by (simp add: resolve_rate_limit_spec_def resolve_rate_limit_plan_spec_def resolve_bucket_def
            sample_bucket_def sample_plan_def materialize_rate_limit_plan_def materialize_bucket_def
            materialize_rate_limit_key_def only_or_add_def decimal.simps [of 0])
  qed
  have profiles: "resolve_rate_limit_profiles None = Inr []"
    by (simp add: resolve_rate_limit_profiles_def)
  have none: "resolve_profile_rate_limit_specs [] [] [] None AttachEndpoint = Inr None"
    by (simp add: resolve_profile_rate_limit_specs_def)
  show ?thesis
    using spec accepted_limits_run [OF profiles none spec, of sample_plan
        "\<lambda>d. if d = 0 then None else Some d" "\<lambda>f. f" "\<lambda>q n. q"]
    by (simp add: merge_rate_limit_resolved_def)
qed

section \<open>Merging against applying in turn\<close>

definition apply_limit_clause :: "rl_resolved option \<Rightarrow> rl_plan_resolved \<Rightarrow> rl_plan_resolved" where
  "apply_limit_clause r inherited =
     (case r of
        None \<Rightarrow> inherited
      | Some RlClear \<Rightarrow> []
      | Some (RlAdd plan) \<Rightarrow> inherited @ plan
      | Some (RlReplace plan) \<Rightarrow> plan)"

text \<open>
  Property C18: merging two rate-limit clauses of one site and applying the result to the inherited
  limits is the same as applying them one after the other, except when \<open>rate_limit off\<close> is followed by
  a clause that adds limits while limits are inherited: the merge forgets the \<open>off\<close>.
\<close>

theorem merge_is_sequential_except_off_then_add:
  "apply_limit_clause (merge_rate_limit_resolved e i) inherited = apply_limit_clause i (apply_limit_clause e inherited)
   \<longleftrightarrow> \<not> (e = Some RlClear \<and> (\<exists>plan. i = Some (RlAdd plan)) \<and> inherited \<noteq> [])"
  by (auto simp: merge_rate_limit_resolved_def apply_limit_clause_def
      split: option.splits rl_resolved.splits)

end
