(* ===== verification/MacroPolicy.thy ===== *)
theory MacroPolicy
  imports MacroRateLimit
begin

text \<open>
  \<open>sema/policy.rs\<close>: header, query and timeout clauses and pagination assignments resolved to values
  of client and endpoint fields, literals, templates and other expressions. Every expression that
  reaches the intermediate form has been validated, and every field it names is declared. The \<open>http\<close>
  crate's check of header values and the lower-casing of letters outside ASCII are arguments.
\<close>

section \<open>Lowering of expressions\<close>

text \<open>A path expression \<open>x\<close> of one segment without a qualified self type.\<close>

definition single_ident :: "syn_expr \<Rightarrow> ident option" where
  "single_ident e =
     (case e of
        EPath None (SynPath lc [Segment i args]) \<Rightarrow> Some i
      | _ \<Rightarrow> None)"

definition ep_field_expr :: "ident \<Rightarrow> syn_expr" where
  "ep_field_expr i = EField (EPath None (ident_path ''ep'')) (Named i)"

definition starts_ascii_lowercase :: "ident \<Rightarrow> bool" where
  "starts_ascii_lowercase i = (case i of [] \<Rightarrow> False | c # _ \<Rightarrow> is_ascii_lowercase c)"

definition lower_public_policy_expr_path :: "syn_type option \<Rightarrow> syn_path \<Rightarrow> syn_expr" where
  "lower_public_policy_expr_path q p =
     (case single_ident (EPath q p) of
        Some i \<Rightarrow>
          if \<not> is_public_expr_reserved_root i \<and> starts_ascii_lowercase i then ep_field_expr i
          else EPath q p
      | None \<Rightarrow> EPath q p)"

definition reserved_root :: "syn_expr \<Rightarrow> bool" where
  "reserved_root e \<longleftrightarrow>
     (case single_ident e of Some i \<Rightarrow> is_public_expr_reserved_root i | None \<Rightarrow> False)"

fun lower_public_policy_expr :: "syn_expr \<Rightarrow> syn_expr" where
  "lower_public_policy_expr (EPath q p) = lower_public_policy_expr_path q p"
| "lower_public_policy_expr (EField base m) =
     (if reserved_root base then EField base m else EField (lower_public_policy_expr base) m)"
| "lower_public_policy_expr (ECast e t) = ECast (lower_public_policy_expr e) t"
| "lower_public_policy_expr (EParen e) = EParen (lower_public_policy_expr e)"
| "lower_public_policy_expr (EReference mut e) = EReference mut (lower_public_policy_expr e)"
| "lower_public_policy_expr (EUnary op e) = EUnary op (lower_public_policy_expr e)"
| "lower_public_policy_expr (EBinary l op r) =
     EBinary (lower_public_policy_expr l) op (lower_public_policy_expr r)"
| "lower_public_policy_expr (EMethodCall r m targs args) = EMethodCall r m targs args"
| "lower_public_policy_expr (ECall f args) = ECall f args"
| "lower_public_policy_expr (ELitStr s) = ELitStr s"
| "lower_public_policy_expr (ELitOther s) = ELitOther s"
| "lower_public_policy_expr (EMacro p ts) = EMacro p ts"
| "lower_public_policy_expr (EOther k ns) = EOther k ns"

definition direct_secret_error :: string where
  "direct_secret_error =
     ''DSL-010 direct `secret.*` is not allowed in policy expressions; declare an auth credential''"

fun reject_direct_secret_expr :: "syn_expr \<Rightarrow> (string, unit) result"
  and reject_direct_secret_exprs :: "syn_expr list \<Rightarrow> (string, unit) result" where
  "reject_direct_secret_expr (EField base m) =
     (if single_ident base = Some ''secret'' then Inl direct_secret_error
      else reject_direct_secret_expr base)"
| "reject_direct_secret_expr (EPath q p) =
     (if q = None \<and> path_first p = Some ''secret'' then Inl direct_secret_error else Inr ())"
| "reject_direct_secret_expr (ECast e t) = reject_direct_secret_expr e"
| "reject_direct_secret_expr (EParen e) = reject_direct_secret_expr e"
| "reject_direct_secret_expr (EReference mut e) = reject_direct_secret_expr e"
| "reject_direct_secret_expr (EUnary op e) = reject_direct_secret_expr e"
| "reject_direct_secret_expr (EBinary l op r) =
     rbind (reject_direct_secret_expr l) (\<lambda>_. reject_direct_secret_expr r)"
| "reject_direct_secret_expr (EMethodCall r m targs args) =
     rbind (reject_direct_secret_expr r) (\<lambda>_. reject_direct_secret_exprs args)"
| "reject_direct_secret_expr (ECall f args) =
     rbind (reject_direct_secret_expr f) (\<lambda>_. reject_direct_secret_exprs args)"
| "reject_direct_secret_expr (ELitStr s) = Inr ()"
| "reject_direct_secret_expr (ELitOther s) = Inr ()"
| "reject_direct_secret_expr (EMacro p ts) = Inr ()"
| "reject_direct_secret_expr (EOther k ns) = Inr ()"
| "reject_direct_secret_exprs [] = Inr ()"
| "reject_direct_secret_exprs (e # es) =
     rbind (reject_direct_secret_expr e) (\<lambda>_. reject_direct_secret_exprs es)"

definition lower_public_policy_expr_checked :: "syn_expr \<Rightarrow> (string, syn_expr) result" where
  "lower_public_policy_expr_checked e =
     rbind (reject_direct_secret_expr e) (\<lambda>_. Inr (lower_public_policy_expr e))"

section \<open>Values\<close>

datatype fmt_var_source = SourceCx | SourceEp

datatype fmt_resolved_piece = ResLit string | ResVar fmt_var_source ident bool

record fmt_resolved =
  fr_require_all :: bool
  fr_pieces :: "fmt_resolved_piece list"

datatype value_kind =
    VkLitStr string | VkCxField ident | VkEpField ident | VkOtherExpr syn_expr | VkFmt fmt_resolved

datatype public_value_kind =
    PubLitStr string | PubCxField ident | PubEpField ident | PubOtherExpr syn_expr | PubFmt fmt_resolved

datatype pagination_value_kind =
    PagLitStr string | PagEpField ident | PagOtherExpr syn_expr | PagFmt fmt_resolved

datatype key_resolved = KeyStatic string | KeyIdentifier ident

datatype policy_set_value =
    SetValue public_value_kind | SetOptionalCxField ident | SetOptionalEpField ident

datatype query_value_cardinality = Scalar | OptionalScalar | Vector | OptionalVector

datatype dsl_policy_op =
    PolicyRemove key_resolved
  | PolicySet key_resolved policy_set_value query_value_cardinality

datatype policy_key_kind = KindHeader | KindQuery

definition resolve_policy_key :: "key_spec \<Rightarrow> key_resolved" where
  "resolve_policy_key k = (case k of KeyIdent i \<Rightarrow> KeyIdentifier i | KeyStr s \<Rightarrow> KeyStatic s)"

definition resolve_value_kind :: "syn_expr \<Rightarrow> (string, value_kind) result" where
  "resolve_value_kind e =
     (case e of
        ELitStr s \<Rightarrow> Inr (VkLitStr s)
      | _ \<Rightarrow>
          (case is_cx_field e of
             Some i \<Rightarrow> Inr (VkCxField i)
           | None \<Rightarrow>
               (case is_ep_field e of
                  Some i \<Rightarrow> Inr (VkEpField i)
                | None \<Rightarrow> Inr (VkOtherExpr e))))"

definition public_value_from_value_kind :: "value_kind \<Rightarrow> (string, public_value_kind) result" where
  "public_value_from_value_kind v =
     (case v of
        VkLitStr s \<Rightarrow> Inr (PubLitStr s)
      | VkCxField i \<Rightarrow> Inr (PubCxField i)
      | VkEpField i \<Rightarrow> Inr (PubEpField i)
      | VkOtherExpr e \<Rightarrow> rbind (validate_public_expr e) (\<lambda>_. Inr (PubOtherExpr e))
      | VkFmt f \<Rightarrow> Inr (PubFmt f))"

definition pagination_scoped_ref_error :: string where
  "pagination_scoped_ref_error =
     ''paginate assignments must not reference client variables or secrets; use `ep.*` or constants''"

definition mentions_cx :: "fmt_resolved \<Rightarrow> bool" where
  "mentions_cx f \<longleftrightarrow>
     list_ex (\<lambda>p. case p of ResVar SourceCx field optional \<Rightarrow> True | _ \<Rightarrow> False) (fr_pieces f)"

definition pagination_value_from_value_kind :: "value_kind \<Rightarrow> (string, pagination_value_kind) result" where
  "pagination_value_from_value_kind v =
     (case v of
        VkLitStr s \<Rightarrow> Inr (PagLitStr s)
      | VkEpField i \<Rightarrow> Inr (PagEpField i)
      | VkOtherExpr e \<Rightarrow> rbind (validate_public_expr e) (\<lambda>_. Inr (PagOtherExpr e))
      | VkFmt f \<Rightarrow> if mentions_cx f then Inl pagination_scoped_ref_error else Inr (PagFmt f)
      | VkCxField i \<Rightarrow> Inl pagination_scoped_ref_error)"

definition direct_secret_policy_error :: string where
  "direct_secret_policy_error =
     ''direct secret.* is not allowed in policy expressions; declare an auth credential''"

definition lookup_cx :: "var_map \<Rightarrow> ident \<Rightarrow> (string, var_info) result" where
  "lookup_cx client_vars i =
     ok_or (bt_get client_vars i) (unknown_scoped_name_message ''client var'' ''vars'' i client_vars)"

definition lookup_ep :: "string \<Rightarrow> var_map option \<Rightarrow> ident \<Rightarrow> (string, var_info) result" where
  "lookup_ep not_here endpoint_vars i =
     rbind (ok_or endpoint_vars not_here) (\<lambda>ep.
     ok_or (bt_get ep i) (unknown_scoped_name_message ''endpoint var'' ''ep'' i ep))"

text \<open>The pieces of a template in a policy value.\<close>

definition resolve_policy_fmt_piece ::
    "var_map \<Rightarrow> var_map option \<Rightarrow> fmt_piece \<Rightarrow> (string, fmt_resolved_piece) result" where
  "resolve_policy_fmt_piece client_vars endpoint_vars piece =
     (case piece of
        FmtLit s \<Rightarrow> Inr (ResLit s)
      | FmtRef r \<Rightarrow>
          (case sr_scope r of
             RefCx \<Rightarrow> rbind (lookup_cx client_vars (sr_ident r)) (\<lambda>v.
               Inr (ResVar SourceCx (sr_ident r) (vi_optional v)))
           | RefEp \<Rightarrow> rbind (lookup_ep ''`ep.*` is not allowed here'' endpoint_vars (sr_ident r)) (\<lambda>v.
               Inr (ResVar SourceEp (sr_ident r) (vi_optional v)))
           | RefAuth \<Rightarrow> Inl direct_secret_policy_error))"

definition piece_optional :: "fmt_resolved_piece \<Rightarrow> bool" where
  "piece_optional p = (case p of ResVar s f optional \<Rightarrow> optional | ResLit _ \<Rightarrow> False)"

definition resolve_policy_value_kind ::
    "policy_value \<Rightarrow> var_map \<Rightarrow> var_map option \<Rightarrow> (string, value_kind) result" where
  "resolve_policy_value_kind v client_vars endpoint_vars =
     (case v of
        PolicyExpr e \<Rightarrow> resolve_value_kind e
      | PolicyFmt fmt \<Rightarrow>
          rbind (collect_results (resolve_policy_fmt_piece client_vars endpoint_vars) (fs_pieces fmt))
            (\<lambda>pieces.
          if \<not> fs_require_all fmt \<and> list_ex piece_optional pieces then
            Inl ''optional placeholders are not allowed in this template context''
          else Inr (VkFmt \<lparr>fr_require_all = fs_require_all fmt, fr_pieces = pieces\<rparr>)))"

text \<open>The pieces of a template in a route. \<open>client_vars\<close> and \<open>ep_vars\<close> are always there in the calls.\<close>

definition resolve_route_fmt_piece ::
    "var_map option \<Rightarrow> var_map option \<Rightarrow> bool \<Rightarrow> fmt_piece \<Rightarrow> (string, fmt_resolved_piece) result" where
  "resolve_route_fmt_piece client_vars ep_vars allow_explicit_ep piece =
     (case piece of
        FmtLit s \<Rightarrow> Inr (ResLit s)
      | FmtRef r \<Rightarrow>
          (case sr_scope r of
             RefCx \<Rightarrow>
               rbind (case client_vars of
                        None \<Rightarrow> Inl (''unknown client var `vars.'' @ sr_ident r @ ''`'')
                      | Some vars \<Rightarrow> lookup_cx vars (sr_ident r)) (\<lambda>v.
               Inr (ResVar SourceCx (sr_ident r) (vi_optional v)))
           | RefEp \<Rightarrow>
               if sr_explicit r \<and> \<not> allow_explicit_ep then
                 Inl ''`ep.*` is not allowed in scope route fmt[...] specs; use the scope parameter name directly''
               else rbind (lookup_ep ''`ep.*` is not allowed here'' ep_vars (sr_ident r)) (\<lambda>v.
                 Inr (ResVar SourceEp (sr_ident r) (vi_optional v)))
           | RefAuth \<Rightarrow> Inl ''secret references are only allowed in credential declarations''))"

definition resolve_route_fmt_spec ::
    "fmt_spec \<Rightarrow> var_map option \<Rightarrow> var_map option \<Rightarrow> bool \<Rightarrow> (string, fmt_resolved) result" where
  "resolve_route_fmt_spec spec client_vars ep_vars allow_explicit_ep =
     rbind (collect_results (resolve_route_fmt_piece client_vars ep_vars allow_explicit_ep) (fs_pieces spec))
       (\<lambda>pieces. Inr \<lparr>fr_require_all = fs_require_all spec, fr_pieces = pieces\<rparr>)"

section \<open>Cardinality of query values\<close>

definition is_standard_vec_type :: "syn_type \<Rightarrow> bool" where
  "is_standard_vec_type ty =
     (case ty of
        TyPath None p \<Rightarrow>
          (let segs = path_segments p;
               is_standard_prefix =
                 (case segs of
                    [s] \<Rightarrow> \<not> leading_colon p \<and> seg_ident s = ''Vec''
                  | [s, t, u] \<Rightarrow>
                      seg_args s = ArgsNone \<and> seg_args t = ArgsNone
                      \<and> seg_ident s = ''std'' \<and> seg_ident t = ''vec'' \<and> seg_ident u = ''Vec''
                  | _ \<Rightarrow> False)
           in is_standard_prefix \<and>
              (case seg_args (last segs) of ArgsAngle [NType t] \<Rightarrow> True | _ \<Rightarrow> False))
      | _ \<Rightarrow> False)"

definition query_cardinality :: "policy_key_kind \<Rightarrow> bool \<Rightarrow> syn_type \<Rightarrow> query_value_cardinality" where
  "query_cardinality kind optional ty =
     (if kind \<noteq> KindQuery then (if optional then OptionalScalar else Scalar)
      else if is_standard_vec_type ty then (if optional then OptionalVector else Vector)
      else if optional then OptionalScalar else Scalar)"

section \<open>Header keys\<close>

text \<open>\<open>char::to_lowercase\<close> on one character, with the letters outside ASCII an argument.\<close>

definition char_to_lowercase :: "(string \<Rightarrow> string) \<Rightarrow> string \<Rightarrow> string" where
  "char_to_lowercase uni ch = (if list_all is_ascii ch then to_ascii_lowercase ch else uni ch)"

definition to_kebab :: "(string \<Rightarrow> string) \<Rightarrow> ident \<Rightarrow> string" where
  "to_kebab uni i =
     concat (map (\<lambda>c. if c = ''_'' then ''-'' else char_to_lowercase uni c) (chars i))"

definition header_key_for_duplicate_check :: "(string \<Rightarrow> string) \<Rightarrow> key_resolved \<Rightarrow> string" where
  "header_key_for_duplicate_check uni key =
     (case key of
        KeyStatic lit \<Rightarrow> to_ascii_lowercase lit
      | KeyIdentifier i \<Rightarrow> to_ascii_lowercase (to_kebab uni i))"

definition set_keys :: "(string \<Rightarrow> string) \<Rightarrow> dsl_policy_op list \<Rightarrow> string list" where
  "set_keys uni ops = List.map_filter (\<lambda>op. case op of
     PolicySet key v c \<Rightarrow> Some (header_key_for_duplicate_check uni key) | PolicyRemove _ \<Rightarrow> None) ops"

definition reject_duplicate_header_sets :: "(string \<Rightarrow> string) \<Rightarrow> dsl_policy_op list \<Rightarrow> (string, unit) result" where
  "reject_duplicate_header_sets uni ops =
     (case first_repeat [] (set_keys uni ops) of
        Some normalized \<Rightarrow> Inl (''duplicate header `'' @ normalized @ ''` in the same policy layer'')
      | None \<Rightarrow> Inr ())"

section \<open>Blocks\<close>

definition lower_policy_value :: "policy_value \<Rightarrow> (string, policy_value) result" where
  "lower_policy_value v =
     (case v of
        PolicyExpr e \<Rightarrow> rbind (lower_public_policy_expr_checked e) (\<lambda>l. Inr (PolicyExpr l))
      | PolicyFmt f \<Rightarrow> Inr (PolicyFmt f))"

definition resolve_set_value ::
    "value_kind \<Rightarrow> var_map \<Rightarrow> var_map option \<Rightarrow> (string, policy_set_value) result" where
  "resolve_set_value vk client_vars endpoint_vars =
     (case vk of
        VkCxField i \<Rightarrow>
          rbind (lookup_cx client_vars i) (\<lambda>v.
          Inr (if vi_optional v then SetOptionalCxField i else SetValue (PubCxField i)))
      | VkEpField i \<Rightarrow>
          rbind (lookup_ep ''ep.* is not allowed here'' endpoint_vars i) (\<lambda>v.
          Inr (if vi_optional v then SetOptionalEpField i else SetValue (PubEpField i)))
      | other \<Rightarrow> rbind (public_value_from_value_kind other) (\<lambda>v. Inr (SetValue v)))"

definition cardinality_of ::
    "policy_key_kind \<Rightarrow> var_map \<Rightarrow> var_map option \<Rightarrow> policy_set_value \<Rightarrow> query_value_cardinality" where
  "cardinality_of kind client_vars endpoint_vars v =
     (let ep = \<lambda>i. Option.bind endpoint_vars (\<lambda>vars. bt_get vars i);
          card = \<lambda>optional fallback var.
            (case var of None \<Rightarrow> fallback | Some info \<Rightarrow> query_cardinality kind optional (vi_ty info))
      in case v of
           SetOptionalCxField i \<Rightarrow> card True OptionalScalar (bt_get client_vars i)
         | SetOptionalEpField i \<Rightarrow> card True OptionalScalar (ep i)
         | SetValue (PubCxField i) \<Rightarrow> card False Scalar (bt_get client_vars i)
         | SetValue (PubEpField i) \<Rightarrow> card False Scalar (ep i)
         | _ \<Rightarrow> Scalar)"

definition resolve_policy_stmt ::
    "policy_key_kind \<Rightarrow> var_map \<Rightarrow> var_map option \<Rightarrow> policy_stmt \<Rightarrow> (string, dsl_policy_op) result" where
  "resolve_policy_stmt kind client_vars endpoint_vars stmt =
     (case stmt of
        StmtRemove key \<Rightarrow> Inr (PolicyRemove (resolve_policy_key key))
      | StmtSet key v \<Rightarrow>
          rbind (lower_policy_value v) (\<lambda>lowered.
          rbind (resolve_policy_value_kind lowered client_vars endpoint_vars) (\<lambda>vk.
          rbind (resolve_set_value vk client_vars endpoint_vars) (\<lambda>set_value.
          Inr (PolicySet (resolve_policy_key key) set_value
                (cardinality_of kind client_vars endpoint_vars set_value))))))"

definition is_ep_set :: "dsl_policy_op \<Rightarrow> bool" where
  "is_ep_set op =
     (case op of
        PolicySet k (SetValue (PubEpField i)) c \<Rightarrow> True
      | PolicySet k (SetOptionalEpField i) c \<Rightarrow> True
      | _ \<Rightarrow> False)"

text \<open>The check of one operation after the whole block is resolved.\<close>

definition check_cx :: "var_map \<Rightarrow> ident \<Rightarrow> (string, unit) result" where
  "check_cx client_vars i = rbind (lookup_cx client_vars i) (\<lambda>_. Inr ())"

definition check_ep :: "var_map option \<Rightarrow> ident \<Rightarrow> (string, unit) result" where
  "check_ep endpoint_vars i = rbind (lookup_ep ''`ep.*` is not allowed here'' endpoint_vars i) (\<lambda>_. Inr ())"

definition validate_policy_op ::
    "(string \<Rightarrow> bool) \<Rightarrow> policy_key_kind \<Rightarrow> var_map \<Rightarrow> var_map option \<Rightarrow> dsl_policy_op \<Rightarrow> (string, unit) result" where
  "validate_policy_op header_value_ok kind client_vars endpoint_vars op =
     (case op of
        PolicyRemove k \<Rightarrow> Inr ()
      | PolicySet k v c \<Rightarrow>
          (case v of
             SetValue (PubCxField i) \<Rightarrow> check_cx client_vars i
           | SetOptionalCxField i \<Rightarrow> check_cx client_vars i
           | SetValue (PubEpField i) \<Rightarrow> check_ep endpoint_vars i
           | SetOptionalEpField i \<Rightarrow> check_ep endpoint_vars i
           | SetValue (PubOtherExpr e) \<Rightarrow> validate_public_expr e
           | SetValue (PubLitStr lit) \<Rightarrow>
               if kind = KindHeader \<and> \<not> header_value_ok lit then
                 Inl ''header value literal is not a valid HTTP header value''
               else Inr ()
           | SetValue (PubFmt f) \<Rightarrow> Inr ()))"

definition resolve_policy_block ::
    "(string \<Rightarrow> bool) \<Rightarrow> (string \<Rightarrow> string) \<Rightarrow> policy_stmt list \<Rightarrow> policy_key_kind \<Rightarrow> policy_owner
      \<Rightarrow> var_map \<Rightarrow> var_map option \<Rightarrow> (string, dsl_policy_op list) result" where
  "resolve_policy_block header_value_ok uni stmts kind owner client_vars endpoint_vars =
     rbind (collect_results (resolve_policy_stmt kind client_vars endpoint_vars) stmts) (\<lambda>ops.
     if owner = OwnerClient \<and> list_ex is_ep_set ops then Inl ''`ep.*` is not allowed in client policy''
     else
     rbind (collect_results (validate_policy_op header_value_ok kind client_vars endpoint_vars) ops) (\<lambda>_.
     rbind (if kind = KindHeader then reject_duplicate_header_sets uni ops else Inr ()) (\<lambda>_.
     Inr ops)))"

record policy_blocks_resolved =
  pbr_headers :: "dsl_policy_op list"
  pbr_query :: "dsl_policy_op list"
  pbr_timeout :: "public_value_kind option"
  pbr_rate_limit :: "rl_resolved option"

definition resolve_timeout :: "syn_expr \<Rightarrow> (string, public_value_kind) result" where
  "resolve_timeout t =
     rbind (lower_public_policy_expr_checked t) (\<lambda>lowered.
     rbind (resolve_value_kind lowered) public_value_from_value_kind)"

definition resolve_policy_blocks ::
    "(string \<Rightarrow> bool) \<Rightarrow> (string \<Rightarrow> string) \<Rightarrow> policy_blocks \<Rightarrow> policy_owner \<Rightarrow> var_map \<Rightarrow> var_map option
      \<Rightarrow> (string, policy_blocks_resolved) result" where
  "resolve_policy_blocks header_value_ok uni policy owner client_vars endpoint_vars =
     rbind (case pb_headers policy of
              None \<Rightarrow> Inr []
            | Some h \<Rightarrow> resolve_policy_block header_value_ok uni h KindHeader owner client_vars endpoint_vars)
       (\<lambda>headers.
     rbind (case pb_query policy of
              None \<Rightarrow> Inr []
            | Some q \<Rightarrow> resolve_policy_block header_value_ok uni q KindQuery owner client_vars endpoint_vars)
       (\<lambda>query.
     rbind (case pb_timeout policy of
              None \<Rightarrow> Inr None
            | Some t \<Rightarrow> rbind (resolve_timeout t) (\<lambda>v. Inr (Some v))) (\<lambda>timeout.
     Inr \<lparr>pbr_headers = headers, pbr_query = query, pbr_timeout = timeout, pbr_rate_limit = None\<rparr>)))"

section \<open>Pagination\<close>

record pagination_binding =
  pgb_controller_field :: ident
  pgb_endpoint_rust_field :: ident

record pagination_assignment =
  pga_field :: ident
  pga_value :: pagination_value_kind

record paginate_resolved =
  pgr_controller_ty :: syn_type
  pgr_assigns :: "pagination_assignment list"
  pgr_bindings :: "pagination_binding list"

definition assignment_bindings ::
    "var_map \<Rightarrow> ident \<Rightarrow> pagination_value_kind \<Rightarrow> (string, pagination_binding list) result" where
  "assignment_bindings ep_vars key vk =
     (case vk of
        PagEpField endpoint_field \<Rightarrow>
          rbind (lookup_ep [] (Some ep_vars) endpoint_field) (\<lambda>info.
          Inr [\<lparr>pgb_controller_field = key, pgb_endpoint_rust_field = vi_rust info\<rparr>])
      | _ \<Rightarrow> Inr [])"

definition resolve_paginate_assign ::
    "var_map \<Rightarrow> paginate_assign
      \<Rightarrow> (string, pagination_assignment \<times> pagination_binding list) result" where
  "resolve_paginate_assign ep_vars a =
     rbind (lower_public_policy_expr_checked (pa_value a)) (\<lambda>lowered.
     rbind (resolve_value_kind lowered) (\<lambda>vk.
     rbind (pagination_value_from_value_kind vk) (\<lambda>vk.
     rbind (assignment_bindings ep_vars (pa_key a) vk) (\<lambda>binding.
     Inr (\<lparr>pga_field = pa_key a, pga_value = vk\<rparr>, binding)))))"

definition resolve_paginate :: "paginate_spec \<Rightarrow> var_map \<Rightarrow> (string, paginate_resolved) result" where
  "resolve_paginate p ep_vars =
     rbind (collect_results (resolve_paginate_assign ep_vars) (pg_assigns p)) (\<lambda>rs.
     Inr \<lparr>pgr_controller_ty = pg_ctrl_ty p, pgr_assigns = map fst rs, pgr_bindings = concat (map snd rs)\<rparr>)"

section \<open>What resolved policies can refer to\<close>

definition declared :: "var_map option \<Rightarrow> ident \<Rightarrow> bool \<Rightarrow> bool" where
  "declared vars i optional \<longleftrightarrow>
     (\<exists>m v. vars = Some m \<and> bt_get m i = Some v \<and> vi_optional v = optional)"

text \<open>An expression with nothing reserved in it, at any depth.\<close>

definition expr_closed :: "syn_expr \<Rightarrow> bool" where
  "expr_closed e \<longleftrightarrow> \<not> (\<exists>n. occurs_in n (NExpr e) \<and> bad_node n)"

definition piece_declared :: "var_map option \<Rightarrow> var_map option \<Rightarrow> fmt_resolved_piece \<Rightarrow> bool" where
  "piece_declared cx ep piece =
     (case piece of
        ResLit s \<Rightarrow> True
      | ResVar SourceCx i optional \<Rightarrow> declared cx i optional
      | ResVar SourceEp i optional \<Rightarrow> declared ep i optional)"

definition value_closed :: "var_map option \<Rightarrow> var_map option \<Rightarrow> policy_set_value \<Rightarrow> bool" where
  "value_closed cx ep v =
     (case v of
        SetOptionalCxField i \<Rightarrow> declared cx i True
      | SetOptionalEpField i \<Rightarrow> declared ep i True
      | SetValue (PubCxField i) \<Rightarrow> declared cx i False
      | SetValue (PubEpField i) \<Rightarrow> declared ep i False
      | SetValue (PubOtherExpr e) \<Rightarrow> expr_closed e
      | SetValue (PubLitStr s) \<Rightarrow> True
      | SetValue (PubFmt f) \<Rightarrow>
          list_all (piece_declared cx ep) (fr_pieces f)
          \<and> (fr_require_all f \<or> \<not> list_ex piece_optional (fr_pieces f)))"

definition op_closed :: "var_map option \<Rightarrow> var_map option \<Rightarrow> dsl_policy_op \<Rightarrow> bool" where
  "op_closed cx ep op = (case op of PolicyRemove k \<Rightarrow> True | PolicySet k v c \<Rightarrow> value_closed cx ep v)"

lemma validate_public_expr_closed: "validate_public_expr e = Inr () \<Longrightarrow> expr_closed e"
  by (simp only: validate_public_expr_Inr visit_node_clean expr_closed_def) blast

lemma lookup_cx_declared: "lookup_cx m i = Inr v \<Longrightarrow> declared (Some m) i (vi_optional v)"
  by (simp add: lookup_cx_def declared_def)

lemma lookup_ep_declared: "lookup_ep msg vars i = Inr v \<Longrightarrow> declared vars i (vi_optional v)"
  by (cases vars) (simp_all add: lookup_ep_def declared_def)

lemma resolve_policy_fmt_piece_declared:
  "resolve_policy_fmt_piece m ep piece = Inr p \<Longrightarrow> piece_declared (Some m) ep p"
  by (auto simp: resolve_policy_fmt_piece_def piece_declared_def rbind_Inr_iff
      dest: lookup_cx_declared lookup_ep_declared split: fmt_piece.splits ref_scope.splits)

lemma resolve_policy_value_fmt:
  assumes "resolve_policy_value_kind v m ep = Inr (VkFmt f)"
  shows "list_all (piece_declared (Some m) ep) (fr_pieces f)
    \<and> (fr_require_all f \<or> \<not> list_ex piece_optional (fr_pieces f))"
proof (cases v)
  case (PolicyExpr e)
  then show ?thesis
    using assms
    by (auto simp: resolve_policy_value_kind_def resolve_value_kind_def
        split: syn_expr.splits option.splits)
next
  case (PolicyFmt fmt)
  then obtain pieces where
      c: "collect_results (resolve_policy_fmt_piece m ep) (fs_pieces fmt) = Inr pieces"
    and f: "f = \<lparr>fr_require_all = fs_require_all fmt, fr_pieces = pieces\<rparr>"
      "fs_require_all fmt \<or> \<not> list_ex piece_optional pieces"
    using assms by (auto simp: resolve_policy_value_kind_def rbind_Inr_iff split: if_splits)
  then show ?thesis
    using collect_results_set [OF c] resolve_policy_fmt_piece_declared
    by (auto simp: list_all_iff)
qed

lemma resolve_set_value_closed:
  assumes "resolve_policy_value_kind pv m ep = Inr vk" and "resolve_set_value vk m ep = Inr v"
  shows "value_closed (Some m) ep v"
proof (cases vk)
  case (VkFmt f)
  then show ?thesis
    using assms resolve_policy_value_fmt [of pv m ep f]
    by (auto simp: resolve_set_value_def public_value_from_value_kind_def value_closed_def)
qed (use assms(2) in \<open>auto simp: resolve_set_value_def public_value_from_value_kind_def
      value_closed_def rbind_Inr_iff
    dest: lookup_cx_declared lookup_ep_declared validate_public_expr_closed split: if_splits\<close>)

lemma resolve_policy_stmt_closed:
  "resolve_policy_stmt kind m ep stmt = Inr op \<Longrightarrow> op_closed (Some m) ep op"
  by (auto simp: resolve_policy_stmt_def op_closed_def rbind_Inr_iff
      dest: resolve_set_value_closed split: policy_stmt.splits)

lemma reject_duplicate_header_sets_ok:
  "reject_duplicate_header_sets uni ops = Inr () \<longleftrightarrow> distinct (set_keys uni ops)"
  using first_repeat_None [of "set_keys uni ops"]
  by (cases "first_repeat [] (set_keys uni ops)")
     (simp_all add: reject_duplicate_header_sets_def del: first_repeat_None)

text \<open>
  Property C15: a header or query block that the analysis accepts refers only to declared client and
  endpoint variables, with their declared optionality; its other expressions mention nothing reserved
  at any depth; templates with optional parts require all of them; the headers it sets are distinct
  after normalisation; and in the client's policy no value is an endpoint field.
\<close>

theorem policy_block_closed:
  assumes "resolve_policy_block header_value_ok uni stmts kind owner client_vars endpoint_vars = Inr ops"
  shows "list_all (op_closed (Some client_vars) endpoint_vars) ops
    \<and> length ops = length stmts
    \<and> (kind = KindHeader \<longrightarrow> distinct (set_keys uni ops))
    \<and> (owner = OwnerClient \<longrightarrow> \<not> list_ex is_ep_set ops)"
proof -
  have c: "collect_results (resolve_policy_stmt kind client_vars endpoint_vars) stmts = Inr ops"
    and rest: "\<not> (owner = OwnerClient \<and> list_ex is_ep_set ops)"
      "kind = KindHeader \<longrightarrow> reject_duplicate_header_sets uni ops = Inr ()"
    using assms by (auto simp: resolve_policy_block_def rbind_Inr_iff split: if_splits)
  have "list_all (op_closed (Some client_vars) endpoint_vars) ops"
    using collect_results_set [OF c] resolve_policy_stmt_closed by (auto simp: list_all_iff)
  then show ?thesis
    using rest collect_results_length [OF c] by (auto simp: reject_duplicate_header_sets_ok)
qed

definition sample_vars :: var_map where
  "sample_vars =
     [(''trace'', \<lparr>vi_rust = ''trace'', vi_optional = True, vi_ty = TyPath None (ident_path ''String''),
        vi_default = None\<rparr>)]"

definition sample_policy_headers :: "policy_stmt list" where
  "sample_policy_headers =
     [StmtSet (KeyStr ''X-Trace'') (PolicyExpr (EPath None (ident_path ''trace''))),
      StmtRemove (KeyStr ''X-Old''),
      StmtSet (KeyIdent ''x_debug'') (PolicyExpr (ELitStr ''1''))]"

definition sample_ops :: "dsl_policy_op list" where
  "sample_ops =
     [PolicySet (KeyStatic ''X-Trace'') (SetOptionalEpField ''trace'') OptionalScalar,
      PolicyRemove (KeyStatic ''X-Old''),
      PolicySet (KeyIdentifier ''x_debug'') (SetValue (PubLitStr ''1'')) Scalar]"

theorem policy_block_closed_witness:
  "resolve_policy_block (\<lambda>s. s \<noteq> []) (\<lambda>c. c) sample_policy_headers KindHeader OwnerEndpoint [] (Some sample_vars)
     = Inr sample_ops
   \<and> list_all (op_closed (Some []) (Some sample_vars)) sample_ops
   \<and> distinct (set_keys (\<lambda>c. c) sample_ops)"
proof -
  have r: "resolve_policy_block (\<lambda>s. s \<noteq> []) (\<lambda>c. c) sample_policy_headers KindHeader OwnerEndpoint []
      (Some sample_vars) = Inr sample_ops"
    by code_simp
  show ?thesis
    using r policy_block_closed [OF r] by simp
qed

text \<open>Pagination assignments name no client variable, and bind declared endpoint fields.\<close>

definition pagination_closed :: "var_map \<Rightarrow> pagination_value_kind \<Rightarrow> bool" where
  "pagination_closed ep_vars v =
     (case v of
        PagLitStr s \<Rightarrow> True
      | PagEpField i \<Rightarrow> bt_get ep_vars i \<noteq> None
      | PagOtherExpr e \<Rightarrow> expr_closed e
      | PagFmt f \<Rightarrow> \<not> mentions_cx f)"

lemma resolve_paginate_closed:
  assumes "resolve_paginate p ep_vars = Inr r"
  shows "list_all (\<lambda>a. pagination_closed ep_vars (pga_value a)) (pgr_assigns r)
    \<and> map pga_field (pgr_assigns r) = map pa_key (pg_assigns p)"
proof -
  obtain rs where c: "collect_results (resolve_paginate_assign ep_vars) (pg_assigns p) = Inr rs"
    and r: "pgr_assigns r = map fst rs"
    using assms by (auto simp: resolve_paginate_def rbind_Inr_iff)
  have one: "pagination_closed ep_vars (pga_value (fst x)) \<and> pga_field (fst x) = pa_key a"
    if asg: "resolve_paginate_assign ep_vars a = Inr x" for a x
  proof -
    obtain vk pv b where pv: "pagination_value_from_value_kind vk = Inr pv"
      and b: "assignment_bindings ep_vars (pa_key a) pv = Inr b"
      and x: "x = (\<lparr>pga_field = pa_key a, pga_value = pv\<rparr>, b)"
      using asg by (auto simp: resolve_paginate_assign_def rbind_Inr_iff)
    have "pagination_closed ep_vars pv"
      using pv b
      by (cases vk)
         (auto simp: pagination_value_from_value_kind_def pagination_closed_def lookup_ep_def
            assignment_bindings_def rbind_Inr_iff dest: validate_public_expr_closed split: if_splits)
    then show ?thesis by (simp add: x)
  qed
  have l: "list_all2 (\<lambda>a x. resolve_paginate_assign ep_vars a = Inr x) (pg_assigns p) rs"
    using c by (simp add: collect_results_Inr_iff)
  then have "map pga_field (map fst rs) = map pa_key (pg_assigns p)"
    by (induction rule: list_all2_induct) (simp_all add: one)
  then show ?thesis
    using one collect_results_set [OF c] by (auto simp: r list_all_iff)
qed

end
