(* ===== verification/MacroRoute.thy ===== *)
theory MacroRoute
  imports MacroPolicy UrlRoute RetryMode
begin

text \<open>
  Routes: the resolution of host and path atoms (\<open>sema/items.rs\<close>), the code emitted for them
  (\<open>codegen/policy/route.rs\<close> and \<open>route_guards.rs\<close>) as the host and path it builds at run time, and the
  classification of an endpoint's and an API's origin (\<open>sema/descriptor.rs\<close>). An endpoint classified
  as having a fixed origin is shown to send to exactly that origin, whatever its parameters are. The
  \<open>url\<close> crate and the text of IP addresses are arguments.
\<close>

section \<open>Pieces\<close>

datatype prefix_piece =
    PxStatic string | PxCxVar ident bool | PxEpVar ident | PxFmt fmt_resolved

datatype path_piece =
    PtStatic string | PtCxVar ident bool | PtEpVar ident | PtFmt fmt_resolved

text \<open>\<open>str::split\<close> at a character.\<close>

fun split_on :: "char \<Rightarrow> string \<Rightarrow> string list" where
  "split_on c [] = [[]]"
| "split_on c (x # s) =
     (if x = c then [] # split_on c s
      else case split_on c s of [] \<Rightarrow> [[x]] | y # ys \<Rightarrow> (x # y) # ys)"

definition reject_formatted_lit :: "string \<Rightarrow> string \<Rightarrow> (string, unit) result" where
  "reject_formatted_lit lit ctx =
     (if CHR ''{'' \<in> set lit \<or> CHR ''}'' \<in> set lit then
        Inl (ctx @ '' string literals must not contain `{` or `}`; use separate route atoms such as \"a\", id, \"b\", or fmt[\"x\", id]'')
      else Inr ())"

text \<open>\<open>"a.b.c"\<close> is a shorthand for three host labels.\<close>

definition prefix_labels :: "string \<Rightarrow> (string, prefix_piece list) result" where
  "prefix_labels lit =
     collect_results (\<lambda>label. let label = trim label in
         if label = [] then Inl ''prefix label must not be empty'' else Inr (PxStatic label))
       (split_on CHR ''.'' lit)"

definition secret_reference_error :: string where
  "secret_reference_error = ''secret references are only allowed in credential declarations''"

definition explicit_ep_error :: string where
  "explicit_ep_error =
     ''`ep.*` is not allowed in scope routes; use the scope parameter name directly''"

definition analyze_prefix_atom ::
    "var_map \<Rightarrow> var_map \<Rightarrow> route_atom \<Rightarrow> (string, prefix_piece list) result" where
  "analyze_prefix_atom client_vars layer_vars atom =
     (case atom of
        AtomStatic lit \<Rightarrow> rbind (reject_formatted_lit lit ''prefix'') (\<lambda>_. prefix_labels lit)
      | AtomFmt spec \<Rightarrow>
          rbind (resolve_route_fmt_spec spec (Some client_vars) (Some layer_vars) False) (\<lambda>resolved.
          Inr [PxFmt resolved])
      | AtomRef r \<Rightarrow>
          (case sr_scope r of
             RefCx \<Rightarrow> rbind (lookup_cx client_vars (sr_ident r)) (\<lambda>v.
               Inr [PxCxVar (sr_ident r) (vi_optional v)])
           | RefEp \<Rightarrow>
               if sr_explicit r then Inl explicit_ep_error
               else rbind (ok_or (bt_get layer_vars (sr_ident r))
                      (unknown_scoped_name_message ''scope param'' ''scope'' (sr_ident r) layer_vars))
                    (\<lambda>_. Inr [PxEpVar (sr_ident r)])
           | RefAuth \<Rightarrow> Inl secret_reference_error))"

definition analyze_path_atom ::
    "var_map \<Rightarrow> var_map \<Rightarrow> route_atom \<Rightarrow> (string, path_piece) result" where
  "analyze_path_atom client_vars layer_vars atom =
     (case atom of
        AtomStatic lit \<Rightarrow> rbind (reject_formatted_lit lit ''path'') (\<lambda>_. Inr (PtStatic lit))
      | AtomFmt spec \<Rightarrow>
          rbind (resolve_route_fmt_spec spec (Some client_vars) (Some layer_vars) False) (\<lambda>resolved.
          Inr (PtFmt resolved))
      | AtomRef r \<Rightarrow>
          (case sr_scope r of
             RefCx \<Rightarrow> rbind (lookup_cx client_vars (sr_ident r)) (\<lambda>v.
               Inr (PtCxVar (sr_ident r) (vi_optional v)))
           | RefEp \<Rightarrow>
               if sr_explicit r then Inl explicit_ep_error
               else rbind (ok_or (bt_get layer_vars (sr_ident r))
                      (unknown_scoped_name_message ''scope param'' ''scope'' (sr_ident r) layer_vars))
                    (\<lambda>_. Inr (PtEpVar (sr_ident r)))
           | RefAuth \<Rightarrow> Inl secret_reference_error))"

text \<open>The route of an endpoint, where \<open>ep.x\<close> may be written out.\<close>

definition analyze_endpoint_atom ::
    "var_map \<Rightarrow> var_map \<Rightarrow> route_atom \<Rightarrow> (string, path_piece) result" where
  "analyze_endpoint_atom client_vars ep_vars atom =
     (case atom of
        AtomStatic lit \<Rightarrow> rbind (reject_formatted_lit lit ''endpoint route'') (\<lambda>_. Inr (PtStatic lit))
      | AtomFmt spec \<Rightarrow>
          rbind (resolve_route_fmt_spec spec (Some client_vars) (Some ep_vars) True) (\<lambda>resolved.
          Inr (PtFmt resolved))
      | AtomRef r \<Rightarrow>
          (case sr_scope r of
             RefCx \<Rightarrow> rbind (lookup_cx client_vars (sr_ident r)) (\<lambda>v.
               Inr (PtCxVar (sr_ident r) (vi_optional v)))
           | RefEp \<Rightarrow> rbind (ok_or (bt_get ep_vars (sr_ident r))
               (unknown_scoped_name_message ''endpoint var'' ''ep'' (sr_ident r) ep_vars))
               (\<lambda>_. Inr (PtEpVar (sr_ident r)))
           | RefAuth \<Rightarrow> Inl secret_reference_error))"

definition var_of_decl :: "var_decl \<Rightarrow> var_info" where
  "var_of_decl d =
     \<lparr>vi_rust = vd_rust d, vi_optional = vd_optional d, vi_ty = vd_ty d, vi_default = vd_default d\<rparr>"

definition by_name :: "var_info list \<Rightarrow> (string \<times> var_info) list" where
  "by_name vs = map (\<lambda>v. (vi_rust v, v)) vs"

text \<open>\<open>ancestor_decls\<close> are the declarations of the enclosing layers, outermost first.\<close>

definition analyze_layer_route_and_decls ::
    "norm_scope \<Rightarrow> var_info list \<Rightarrow> var_map
      \<Rightarrow> (string, prefix_piece list \<times> path_piece list \<times> var_info list) result" where
  "analyze_layer_route_and_decls ld ancestor_decls client_vars =
     (let decls = map var_of_decl (ns_params ld);
          layer_vars = bt_extend (bt_extend [] (by_name ancestor_decls)) (by_name decls)
      in case ns_kind ld of
           KindPrefix \<Rightarrow>
             rbind (collect_results (analyze_prefix_atom client_vars layer_vars) (ns_route ld)) (\<lambda>ps.
             Inr (concat ps, [], decls))
         | KindPath \<Rightarrow>
             rbind (collect_results (analyze_path_atom client_vars layer_vars) (ns_route ld)) (\<lambda>ps.
             Inr ([], ps, decls)))"

section \<open>Emitted routes\<close>

text \<open>
  The fields of the client's variables and of the endpoint at run time: the text a field displays and
  whether an optional field is set.
\<close>

record field_env =
  fe_cx_text :: "ident \<Rightarrow> string"
  fe_cx_set :: "ident \<Rightarrow> bool"
  fe_ep_text :: "ident \<Rightarrow> string"
  fe_ep_set :: "ident \<Rightarrow> bool"

type_synonym ep_optionals = "ident \<Rightarrow> bool option"

definition effective_optional :: "ep_optionals \<Rightarrow> fmt_var_source \<Rightarrow> ident \<Rightarrow> bool \<Rightarrow> bool" where
  "effective_optional opts source field optional =
     (case source of
        SourceCx \<Rightarrow> optional
      | SourceEp \<Rightarrow> (case opts field of Some o' \<Rightarrow> o' | None \<Rightarrow> optional))"

definition field_text :: "field_env \<Rightarrow> fmt_var_source \<Rightarrow> ident \<Rightarrow> string" where
  "field_text env source field =
     (case source of SourceCx \<Rightarrow> fe_cx_text env field | SourceEp \<Rightarrow> fe_ep_text env field)"

definition field_set :: "field_env \<Rightarrow> fmt_var_source \<Rightarrow> ident \<Rightarrow> bool" where
  "field_set env source field =
     (case source of SourceCx \<Rightarrow> fe_cx_set env field | SourceEp \<Rightarrow> fe_ep_set env field)"

definition emit_fmt_piece :: "ep_optionals \<Rightarrow> field_env \<Rightarrow> fmt_resolved_piece \<Rightarrow> string" where
  "emit_fmt_piece opts env piece =
     (case piece of
        ResLit s \<Rightarrow> s
      | ResVar source field optional \<Rightarrow>
          if effective_optional opts source field optional \<and> \<not> field_set env source field then []
          else field_text env source field)"

definition emit_fmt_build_string_with_ep_optionals :: "ep_optionals \<Rightarrow> field_env \<Rightarrow> fmt_resolved \<Rightarrow> string" where
  "emit_fmt_build_string_with_ep_optionals opts env f = concat (map (emit_fmt_piece opts env) (fr_pieces f))"

definition emit_fmt_require_all_guard_with_ep_optionals ::
    "ep_optionals \<Rightarrow> field_env \<Rightarrow> fmt_resolved \<Rightarrow> bool" where
  "emit_fmt_require_all_guard_with_ep_optionals opts env f \<longleftrightarrow>
     list_all (\<lambda>piece. case piece of
         ResLit s \<Rightarrow> True
       | ResVar source field optional \<Rightarrow>
           effective_optional opts source field optional \<longrightarrow> field_set env source field) (fr_pieces f)"

definition ep_optional :: "ep_optionals \<Rightarrow> ident \<Rightarrow> bool" where
  "ep_optional opts field = (case opts field of Some o' \<Rightarrow> o' | None \<Rightarrow> False)"

definition emit_prefix_piece :: "ep_optionals \<Rightarrow> field_env \<Rightarrow> prefix_piece \<Rightarrow> host_parts \<Rightarrow> host_parts" where
  "emit_prefix_piece opts env piece h =
     (case piece of
        PxStatic s \<Rightarrow> push_label_static s h
      | PxCxVar field optional \<Rightarrow>
          if optional \<and> \<not> fe_cx_set env field then h
          else push_label (fe_cx_text env field) (LsPlaceholder (''cx.'' @ field)) h
      | PxEpVar field \<Rightarrow>
          if ep_optional opts field \<and> \<not> fe_ep_set env field then h
          else push_label (fe_ep_text env field) (LsPlaceholder (''ep.'' @ field)) h
      | PxFmt f \<Rightarrow>
          if fr_require_all f \<and> \<not> emit_fmt_require_all_guard_with_ep_optionals opts env f then h
          else push_label (emit_fmt_build_string_with_ep_optionals opts env f) LsMixed h)"

definition emit_prefix_route_apply ::
    "prefix_piece list \<Rightarrow> ep_optionals \<Rightarrow> field_env \<Rightarrow> host_parts \<Rightarrow> host_parts" where
  "emit_prefix_route_apply pieces opts env h = fold (emit_prefix_piece opts env) pieces h"

definition emit_dynamic_path_segment_push ::
    "error_context \<Rightarrow> string \<Rightarrow> string \<Rightarrow> url_path \<Rightarrow> (api_client_error, url_path) result" where
  "emit_dynamic_path_segment_push ctx label segment p =
     (if segment = [] \<or> segment = ''.'' \<or> segment = ''..'' \<or> CHR ''/'' \<in> set segment \<or> CHR 92 \<in> set segment
      then Inl (InvalidParam ctx label)
      else Inr (push_segment_encoded segment p))"

definition emit_path_piece ::
    "error_context \<Rightarrow> ep_optionals \<Rightarrow> field_env \<Rightarrow> path_piece \<Rightarrow> url_path \<Rightarrow> (api_client_error, url_path) result" where
  "emit_path_piece ctx opts env piece p =
     (case piece of
        PtStatic s \<Rightarrow> Inr (push_raw s p)
      | PtCxVar field optional \<Rightarrow>
          if optional \<and> \<not> fe_cx_set env field then Inr p
          else emit_dynamic_path_segment_push ctx (''vars.'' @ field) (fe_cx_text env field) p
      | PtEpVar field \<Rightarrow>
          if ep_optional opts field \<and> \<not> fe_ep_set env field then Inr p
          else emit_dynamic_path_segment_push ctx (''ep.'' @ field) (fe_ep_text env field) p
      | PtFmt f \<Rightarrow>
          if fr_require_all f \<and> \<not> emit_fmt_require_all_guard_with_ep_optionals opts env f then Inr p
          else emit_dynamic_path_segment_push ctx ''fmt'' (emit_fmt_build_string_with_ep_optionals opts env f) p)"

fun emit_path_route_apply ::
    "error_context \<Rightarrow> path_piece list \<Rightarrow> ep_optionals \<Rightarrow> field_env \<Rightarrow> url_path
      \<Rightarrow> (api_client_error, url_path) result" where
  "emit_path_route_apply ctx [] opts env p = Inr p"
| "emit_path_route_apply ctx (piece # pieces) opts env p =
     rbind (emit_path_piece ctx opts env piece p) (\<lambda>p. emit_path_route_apply ctx pieces opts env p)"

section \<open>Origins\<close>

datatype 'ip url_host = UrlDomain string | UrlIpv4 'ip | UrlIpv6 'ip

record 'ip parsed_origin =
  po_scheme :: string
  po_username :: string
  po_password :: "string option"
  po_host :: "'ip url_host option"
  po_path :: string
  po_query :: "string option"
  po_fragment :: "string option"

text \<open>\<open>url::Url::parse\<close>, and \<open>FromStr\<close> and \<open>Display\<close> of the IP addresses.\<close>

record 'ip origin_ops =
  oo_parse_url :: "string \<Rightarrow> 'ip parsed_origin option"
  oo_parse_v4 :: "string \<Rightarrow> 'ip option"
  oo_parse_v6 :: "string \<Rightarrow> 'ip option"
  oo_show_v4 :: "'ip \<Rightarrow> string"
  oo_show_v6 :: "'ip \<Rightarrow> string"

definition valid_dns_label :: "string \<Rightarrow> bool" where
  "valid_dns_label label \<longleftrightarrow>
     label \<noteq> [] \<and> length label \<le> 63 \<and> \<not> starts_with label ''-'' \<and> \<not> ends_with label ''-''
     \<and> list_all (\<lambda>b. ascii_alphanumeric b \<or> b = CHR ''-'') label"

definition valid_dns_name :: "string \<Rightarrow> bool" where
  "valid_dns_name domain \<longleftrightarrow>
     domain \<noteq> [] \<and> length domain \<le> 253 \<and> list_all valid_dns_label (split_on CHR ''.'' domain)"

definition valid_origin_url :: "'ip parsed_origin \<Rightarrow> string \<Rightarrow> bool" where
  "valid_origin_url url expected_scheme \<longleftrightarrow>
     po_scheme url = expected_scheme \<and> po_username url = [] \<and> po_password url = None
     \<and> po_host url \<noteq> None \<and> po_path url = ''/'' \<and> po_query url = None \<and> po_fragment url = None"

text \<open>\<open>rsplit_once\<close> at the last occurrence of a character.\<close>

definition rsplit_once :: "char \<Rightarrow> string \<Rightarrow> (string \<times> string) option" where
  "rsplit_once c s =
     (if c \<in> set s then
        (let after = rev (takeWhile (\<lambda>x. x \<noteq> c) (rev s)) in
         Some (take (length s - length after - 1) s, after))
      else None)"

definition strip_suffix :: "string \<Rightarrow> string \<Rightarrow> string option" where
  "strip_suffix p s = (if ends_with s p then Some (take (length s - length p) s) else None)"

definition raw_authority_split :: "string \<Rightarrow> (string \<times> string option) option" where
  "raw_authority_split authority =
     (if starts_with authority ''['' then
        (if CHR '']'' \<in> set authority then
           (let close = length (takeWhile (\<lambda>x. x \<noteq> CHR '']'') authority);
                host = take (close + 1) authority;
                remainder = drop (close + 1) authority
            in if remainder = [] then Some (host, None)
               else map_option (\<lambda>port. (host, Some port)) (strip_prefix '':'' remainder))
         else None)
      else case rsplit_once CHR '':'' authority of
        Some (host, port) \<Rightarrow> if CHR '':'' \<notin> set host then Some (host, Some port) else None
      | None \<Rightarrow> Some (authority, None))"

definition port_ok :: "string \<Rightarrow> bool" where
  "port_ok port \<longleftrightarrow> port \<noteq> [] \<and> list_all is_digit_char port \<and> decimal_value port < 2 ^ 16"

text \<open>A bracketed host without a port is returned at once.\<close>

definition split_authority :: "string \<Rightarrow> (string \<times> string option) option" where
  "split_authority authority =
     (case raw_authority_split authority of
        None \<Rightarrow> None
      | Some (host, port) \<Rightarrow>
          if starts_with authority ''['' \<and> port = None then Some (host, port)
          else if host = [] then None
          else case port of
            None \<Rightarrow> Some (host, port)
          | Some p \<Rightarrow> if port_ok p then Some (host, port) else None)"

definition origin_host_text ::
    "'ip origin_ops \<Rightarrow> 'ip url_host \<Rightarrow> string \<Rightarrow> string list \<Rightarrow> string option" where
  "origin_host_text ops host raw_host labels =
     (case host of
        UrlDomain domain \<Rightarrow>
          if \<not> list_all is_ascii raw_host \<or> \<not> eq_ignore_ascii_case raw_host domain \<or> \<not> valid_dns_name domain
          then None else Some domain
      | UrlIpv4 address \<Rightarrow>
          if labels \<noteq> [] \<or> oo_parse_v4 ops raw_host \<noteq> Some address then None
          else Some (oo_show_v4 ops address)
      | UrlIpv6 address \<Rightarrow>
          if labels \<noteq> []
             \<or> Option.bind (Option.bind (strip_prefix ''['' raw_host) (strip_suffix '']'')) (oo_parse_v6 ops)
               \<noteq> Some address
          then None else Some (''['' @ oo_show_v6 ops address @ '']''))"

definition scheme_text :: "dsl_scheme \<Rightarrow> string" where
  "scheme_text s = (case s of SchemeHttp \<Rightarrow> ''http'' | SchemeHttps \<Rightarrow> ''https'')"

definition authority_with_port :: "string \<Rightarrow> string option \<Rightarrow> string" where
  "authority_with_port host port = host @ (case port of None \<Rightarrow> [] | Some p \<Rightarrow> '':'' @ p)"

definition combine_host :: "string list \<Rightarrow> string \<Rightarrow> string" where
  "combine_host labels host = (if labels = [] then host else join ''.'' labels @ ''.'' @ host)"

definition is_domain :: "'ip url_host \<Rightarrow> bool" where
  "is_domain h = (case h of UrlDomain d \<Rightarrow> True | _ \<Rightarrow> False)"

definition validated_origin_authority ::
    "'ip origin_ops \<Rightarrow> dsl_scheme \<Rightarrow> string \<Rightarrow> string list \<Rightarrow> string option" where
  "validated_origin_authority ops scheme base_authority labels =
     (if base_authority = [] \<or> has_whitespace base_authority \<or> has_control (map of_char base_authority)
         \<or> list_ex (\<lambda>ch. ch \<in> set ''@/?#'' \<or> ch = CHR 92) base_authority
      then None
      else
      Option.bind (oo_parse_url ops (scheme_text scheme @ ''://'' @ base_authority)) (\<lambda>base_url.
      if \<not> valid_origin_url base_url (scheme_text scheme) then None
      else
      Option.bind (split_authority base_authority) (\<lambda>(raw_host, port).
      Option.bind (po_host base_url) (\<lambda>host.
      Option.bind (origin_host_text ops host raw_host labels) (\<lambda>host_text.
      let combined_host = combine_host labels host_text in
      if is_domain host \<and> \<not> valid_dns_name combined_host then None
      else
      let authority = authority_with_port combined_host port in
      Option.bind (oo_parse_url ops (scheme_text scheme @ ''://'' @ authority)) (\<lambda>candidate.
      if valid_origin_url candidate (scheme_text scheme) then Some authority else None))))))"

datatype endpoint_origin = OriginFixed fixed_origin_descriptor | OriginDynamic

text \<open>The labels of a prefix made only of valid static labels.\<close>

fun static_labels :: "prefix_piece list \<Rightarrow> string list option" where
  "static_labels [] = Some []"
| "static_labels (PxStatic label # pieces) =
     (if valid_dns_label label then map_option ((#) label) (static_labels pieces) else None)"
| "static_labels (_ # pieces) = None"

definition origin_scheme_of :: "dsl_scheme \<Rightarrow> origin_scheme" where
  "origin_scheme_of s = (case s of SchemeHttp \<Rightarrow> OriginHttp | SchemeHttps \<Rightarrow> OriginHttps)"

definition classify_endpoint_origin ::
    "'ip origin_ops \<Rightarrow> dsl_scheme \<Rightarrow> string \<Rightarrow> prefix_piece list \<Rightarrow> endpoint_origin" where
  "classify_endpoint_origin ops scheme domain pieces =
     (case static_labels pieces of
        None \<Rightarrow> OriginDynamic
      | Some labels \<Rightarrow>
          (case validated_origin_authority ops scheme domain labels of
             None \<Rightarrow> OriginDynamic
           | Some authority \<Rightarrow>
               OriginFixed \<lparr>fod_scheme = origin_scheme_of scheme, fod_authority = authority\<rparr>))"

definition host_fields :: "prefix_piece list \<Rightarrow> ident list" where
  "host_fields pieces = concat (map (\<lambda>piece. case piece of
       PxEpVar field \<Rightarrow> [field]
     | PxFmt f \<Rightarrow> List.map_filter (\<lambda>p. case p of ResVar SourceEp field optional \<Rightarrow> Some field | _ \<Rightarrow> None) (fr_pieces f)
     | _ \<Rightarrow> []) pieces)"

definition pagination_can_change_origin :: "prefix_piece list \<Rightarrow> paginate_resolved \<Rightarrow> bool" where
  "pagination_can_change_origin pieces pagination \<longleftrightarrow>
     list_ex (\<lambda>b. pgb_endpoint_rust_field b \<in> set (host_fields pieces)) (pgr_bindings pagination)"

section \<open>A fixed origin is where requests go\<close>

lemma strip_prefix_Some: "strip_prefix p s = Some t \<longleftrightarrow> s = p @ t"
  by (auto simp: strip_prefix_def starts_with_iff)

lemma rsplit_once_Some:
  assumes "rsplit_once c s = Some (a, b)"
  shows "s = a @ c # b"
proof -
  let ?w = "takeWhile (\<lambda>x. x \<noteq> c) (rev s)" and ?d = "dropWhile (\<lambda>x. x \<noteq> c) (rev s)"
  have c: "c \<in> set s" and ab: "b = rev ?w" "a = take (length s - length b - 1) s"
    using assms by (auto simp: rsplit_once_def Let_def split: if_splits)
  have "?d \<noteq> []" using c by (simp add: dropWhile_eq_Nil_conv)
  moreover have "hd ?d = c" using hd_dropWhile [OF calculation] by simp
  ultimately obtain ys where ys: "?d = c # ys" by (cases ?d) auto
  have "rev s = ?w @ c # ys" using takeWhile_dropWhile_id [of "\<lambda>x. x \<noteq> c" "rev s"] ys by metis
  then have "s = rev (?w @ c # ys)" by (metis rev_rev_ident)
  then have s: "s = rev ys @ c # b" by (simp add: ab)
  then have "a = rev ys" by (simp add: ab(2))
  with s show ?thesis by simp
qed

lemma split_authority_join:
  assumes "split_authority authority = Some (host, port)"
  shows "authority = authority_with_port host port"
proof -
  have r: "raw_authority_split authority = Some (host, port)"
    using assms by (auto simp: split_authority_def split: option.splits if_splits)
  show ?thesis
  proof (cases "starts_with authority ''[''")
    case True
    then show ?thesis
      using r
      by (auto simp: raw_authority_split_def Let_def authority_with_port_def strip_prefix_Some
            split: if_splits) (metis append_take_drop_id)
  next
    case False
    then show ?thesis
      using r
      by (auto simp: raw_authority_split_def authority_with_port_def
            dest: rsplit_once_Some split: option.splits if_splits)
  qed
qed

lemma join_join_labels: "join ''.'' ls = join_labels ls"
  by (induction ls rule: join_labels.induct) simp_all

text \<open>Static labels become static host labels, which validation accepts.\<close>

definition static_host :: "string list \<Rightarrow> host_parts" where
  "static_host labels =
     host_parts_default\<lparr>hp_spec := SuffixDomain (map (\<lambda>s. \<lparr>hl_value = s, hl_source = LsStatic s\<rparr>) labels)\<rparr>"

lemma emit_static_labels:
  "static_labels pieces = Some labels \<Longrightarrow>
     emit_prefix_route_apply pieces opts env (static_host before) = static_host (before @ labels)"
proof (induction pieces arbitrary: before labels rule: static_labels.induct)
  case (2 label pieces)
  then obtain ls where ls: "static_labels pieces = Some ls" "labels = label # ls" "valid_dns_label label"
    by (auto split: if_splits)
  have "emit_prefix_piece opts env (PxStatic label) (static_host before) = static_host (before @ [label])"
    by (simp add: emit_prefix_piece_def push_label_static_def push_label_def static_host_def)
  then show ?case
    using 2(1) [OF ls(3,1), of "before @ [label]"] by (simp add: emit_prefix_route_apply_def ls)
qed (auto simp: emit_prefix_route_apply_def)

lemma static_labels_valid: "static_labels pieces = Some labels \<Longrightarrow> list_all valid_dns_label labels"
  by (induction pieces arbitrary: labels rule: static_labels.induct) (auto split: if_splits)

lemma static_host_valid:
  assumes "list_all valid_dns_label labels"
  shows "validate_host (static_host labels) ctx = Inr ()"
proof -
  have "valid_dns_label l \<Longrightarrow> label_error l = None" for l
    unfolding label_error_None_iff by (auto simp: valid_dns_label_def list_all_iff label_byte_def)
  then show ?thesis
    using assms by (auto simp: static_host_def validate_host_def validate_labels_iff list_all_iff)
qed

lemma join_static_host: "join_host (static_host labels) domain = combine_host labels domain"
  by (auto simp: static_host_def join_host_def combine_host_def join_join_labels comp_def)

text \<open>The text of a host in the descriptor names the host written in the client declaration.\<close>

definition same_host :: "'ip origin_ops \<Rightarrow> string \<Rightarrow> string \<Rightarrow> bool" where
  "same_host ops raw_host host_text \<longleftrightarrow>
     eq_ignore_ascii_case raw_host host_text
     \<or> (\<exists>a. oo_parse_v4 ops raw_host = Some a \<and> host_text = oo_show_v4 ops a)
     \<or> (\<exists>a h. raw_host = ''['' @ h @ '']'' \<and> oo_parse_v6 ops h = Some a
          \<and> host_text = ''['' @ oo_show_v6 ops a @ '']'')"

lemma strip_suffix_Some: "strip_suffix p s = Some t \<longleftrightarrow> s = t @ p"
  by (auto simp: strip_suffix_def ends_with_iff)

lemma origin_host_text_same:
  "origin_host_text ops host raw_host labels = Some t \<Longrightarrow> same_host ops raw_host t"
  by (auto simp: origin_host_text_def same_host_def bind_eq_Some_conv strip_prefix_Some strip_suffix_Some
      split: url_host.splits if_splits)

lemma validated_origin_authority_Some:
  assumes "validated_origin_authority ops scheme base labels = Some authority"
  obtains raw_host port host_text where
    "split_authority base = Some (raw_host, port)" "same_host ops raw_host host_text"
    "authority = authority_with_port (combine_host labels host_text) port"
  using assms
  by (auto simp: validated_origin_authority_def bind_eq_Some_conv Let_def
      dest!: origin_host_text_same split: if_splits prod.splits)

text \<open>
  An endpoint whose origin is classified as fixed sends every request there. Whatever
  values its variables have, the emitted route builds a host that validation accepts, made of the
  labels and port of the descriptor's authority around the host of the client's base URL.
\<close>

lemma fixed_origin_host:
  assumes "classify_endpoint_origin ops scheme domain pieces = OriginFixed origin"
  shows "\<exists>labels raw_host port host_text.
    fod_scheme origin = origin_scheme_of scheme
    \<and> fod_authority origin = authority_with_port (combine_host labels host_text) port
    \<and> same_host ops raw_host host_text
    \<and> (\<forall>opts env ctx.
         let h = emit_prefix_route_apply pieces opts env host_parts_default in
         validate_host h ctx = Inr ()
         \<and> join_host h domain = authority_with_port (combine_host labels raw_host) port)"
proof -
  obtain labels authority where l: "static_labels pieces = Some labels"
    and a: "validated_origin_authority ops scheme domain labels = Some authority"
    and o': "origin = \<lparr>fod_scheme = origin_scheme_of scheme, fod_authority = authority\<rparr>"
    using assms by (auto simp: classify_endpoint_origin_def split: option.splits)
  obtain raw_host port host_text where
      split: "split_authority domain = Some (raw_host, port)" and same: "same_host ops raw_host host_text"
    and auth: "authority = authority_with_port (combine_host labels host_text) port"
    using a by (rule validated_origin_authority_Some)
  have "host_parts_default = static_host []"
    by (simp add: static_host_def host_parts_default_def)
  then have h: "emit_prefix_route_apply pieces opts env host_parts_default = static_host labels" for opts env
    using emit_static_labels [OF l, of opts env "[]"] by simp
  have "join_host (static_host labels) domain = authority_with_port (combine_host labels raw_host) port"
    using split_authority_join [OF split]
    by (simp add: join_static_host combine_host_def authority_with_port_def)
  then show ?thesis
    using same auth o' static_host_valid [OF static_labels_valid [OF l]] by (auto simp: h Let_def)
qed

text \<open>A parser for \<open>https\<close> URLs that are a lower-case domain and nothing else.\<close>

definition domain_ops :: "nat origin_ops" where
  "domain_ops =
     \<lparr>oo_parse_url = (\<lambda>s. if starts_with s ''https://'' then
          Some \<lparr>po_scheme = ''https'', po_username = [], po_password = None,
                po_host = Some (UrlDomain (drop 8 s)), po_path = ''/'', po_query = None, po_fragment = None\<rparr>
        else None),
      oo_parse_v4 = (\<lambda>_. None), oo_parse_v6 = (\<lambda>_. None), oo_show_v4 = decimal, oo_show_v6 = decimal\<rparr>"

end
