(* ===== verification/MacroAuth.thy ===== *)
theory MacroAuth
  imports MacroAst AuthPlan
begin

text \<open>
  \<open>sema/auth.rs\<close>: credentials, the uses of credentials at a site, their requirements on an endpoint
  and the check for two requirements with one target, with the plan that
  \<open>codegen/endpoints/auth.rs\<close> emits. An endpoint the analysis accepts never fails at run time for
  a duplicate target, each use fits the shape of its credential's material, and every credential refers
  to a declared, required secret or to a declared endpoint. \<open>url::Url\<close> is an argument.
\<close>

section \<open>Credentials\<close>

datatype auth_material_shape = ShapeAccessToken | ShapeSecretValue | ShapeBasic | ShapeUnknown

record endpoint_target =
  et_scope_modules :: "ident list"
  et_endpoint :: ident

type_synonym endpoint_target_key = "string list \<times> string"

definition target_key :: "endpoint_target \<Rightarrow> endpoint_target_key" where
  "target_key t = (et_scope_modules t, et_endpoint t)"

definition target_display_string :: "endpoint_target \<Rightarrow> string" where
  "target_display_string t =
     (if et_scope_modules t = [] then et_endpoint t
      else join ''::'' (et_scope_modules t) @ ''::'' @ et_endpoint t)"

datatype auth_credential_kind_ir =
    IrApiKey ident
  | IrStaticBearer ident
  | IrBasic ident ident
  | IrOAuth2 string ident ident "string option"
  | IrEndpoint endpoint_target syn_type auth_material_shape

record auth_credential_ir =
  aci_name :: ident
  aci_kind :: auth_credential_kind_ir

definition shape_from_type :: "syn_type \<Rightarrow> auth_material_shape" where
  "shape_from_type ty =
     (case ty of
        TyPath q p \<Rightarrow>
          (case path_last p of
             None \<Rightarrow> ShapeUnknown
           | Some segment \<Rightarrow>
               (if seg_ident segment = ''AccessToken'' then ShapeAccessToken
                else if seg_ident segment = ''ApiKey'' then ShapeSecretValue
                else if seg_ident segment = ''BasicCredential'' then ShapeBasic
                else ShapeUnknown))
      | _ \<Rightarrow> ShapeUnknown)"

definition endpoint_target_from_path :: "syn_path \<Rightarrow> (string, endpoint_target) result" where
  "endpoint_target_from_path path =
     (let segs = path_segments path in
      if segs = [] then
        Inl ''auth endpoint reference must be `Endpoint(Name)` or `Endpoint(scope::Name)`''
      else if \<not> list_all (\<lambda>s. seg_args s = ArgsNone) segs then
        Inl ''auth endpoint reference segments must not contain generic arguments''
      else Inr \<lparr>et_scope_modules = map seg_ident (butlast segs), et_endpoint = seg_ident (last segs)\<rparr>)"

definition validate_required_secret :: "var_map \<Rightarrow> ident \<Rightarrow> (string, unit) result" where
  "validate_required_secret auth_vars secret =
     (case bt_get auth_vars secret of
        None \<Rightarrow> Inl (''unknown secret `secret.'' @ secret @ ''` in auth credential'')
      | Some info \<Rightarrow>
          if vi_optional info then
            Inl (''auth credential secret `secret.'' @ secret
                 @ ''` must be required; optional secrets are not supported yet'')
          else Inr ())"

definition oauth2_token_url_error :: string where
  "oauth2_token_url_error =
     ''OAuth2 token URL must be an https URL with a host, no userinfo, and no fragment''"

text \<open>\<open>split_once\<close> at the first of some characters, keeping the part before it.\<close>

definition before_any :: "char list \<Rightarrow> string \<Rightarrow> string" where
  "before_any cs s = takeWhile (\<lambda>c. c \<notin> set cs) s"

definition macro_oauth2_token_url_raw :: "string \<Rightarrow> (string, unit) result" where
  "macro_oauth2_token_url_raw token_url =
     (case strip_prefix ''https://'' token_url of
        None \<Rightarrow> Inl oauth2_token_url_error
      | Some rest \<Rightarrow>
          (let authority = before_any [CHR ''/'', CHR ''?'', CHR ''#''] rest in
           if authority = [] \<or> contains_str authority ''@'' \<or> starts_with authority ''/''
           then Inl oauth2_token_url_error else Inr ()))"

record parsed_url =
  pu_scheme :: string
  pu_host_str :: "string option"
  pu_username :: string
  pu_password :: "string option"
  pu_fragment :: "string option"

definition macro_oauth2_token_url ::
    "(string \<Rightarrow> (string, parsed_url) result) \<Rightarrow> string \<Rightarrow> (string, unit) result" where
  "macro_oauth2_token_url parse_url token_url =
     rbind (macro_oauth2_token_url_raw token_url) (\<lambda>_.
     rbind (map_err (\<lambda>err. ''invalid OAuth2 token URL: '' @ err) (parse_url token_url)) (\<lambda>url.
     if pu_scheme url \<noteq> ''https''
        \<or> (case pu_host_str url of None \<Rightarrow> True | Some host \<Rightarrow> host = [])
        \<or> pu_username url \<noteq> [] \<or> pu_password url \<noteq> None \<or> pu_fragment url \<noteq> None
     then Inl oauth2_token_url_error else Inr ()))"

definition analyze_credential_kind ::
    "(string \<Rightarrow> (string, parsed_url) result) \<Rightarrow> var_map \<Rightarrow> (endpoint_target_key, syn_type) btree
      \<Rightarrow> auth_credential_kind \<Rightarrow> (string, auth_credential_kind_ir) result" where
  "analyze_credential_kind parse_url auth_vars endpoint_outputs kind =
     (case kind of
        CredApiKey secret \<Rightarrow>
          rbind (validate_required_secret auth_vars secret) (\<lambda>_. Inr (IrApiKey secret))
      | CredStaticBearer secret \<Rightarrow>
          rbind (validate_required_secret auth_vars secret) (\<lambda>_. Inr (IrStaticBearer secret))
      | CredBasic username password \<Rightarrow>
          rbind (validate_required_secret auth_vars username) (\<lambda>_.
          rbind (validate_required_secret auth_vars password) (\<lambda>_. Inr (IrBasic username password)))
      | CredOAuth2 token_url client_id client_secret scope \<Rightarrow>
          rbind (macro_oauth2_token_url parse_url token_url) (\<lambda>_.
          rbind (validate_required_secret auth_vars client_id) (\<lambda>_.
          rbind (validate_required_secret auth_vars client_secret) (\<lambda>_.
          Inr (IrOAuth2 token_url client_id client_secret scope))))
      | CredEndpoint endpoint \<Rightarrow>
          rbind (endpoint_target_from_path endpoint) (\<lambda>target.
          rbind (ok_or (bt_get endpoint_outputs (target_key target))
                   (''unknown auth endpoint `'' @ target_display_string target
                    @ ''` in credential source'')) (\<lambda>output_ty.
          Inr (IrEndpoint target output_ty (shape_from_type output_ty)))))"

fun analyze_credentials_from ::
    "(string \<Rightarrow> (string, parsed_url) result) \<Rightarrow> string list \<Rightarrow> auth_credential_decl list \<Rightarrow> var_map
      \<Rightarrow> (endpoint_target_key, syn_type) btree \<Rightarrow> (string, auth_credential_ir list) result" where
  "analyze_credentials_from parse_url seen [] auth_vars endpoint_outputs = Inr []"
| "analyze_credentials_from parse_url seen (decl # decls) auth_vars endpoint_outputs =
     (let (fresh, seen) = bs_insert (ac_name decl) seen in
      if \<not> fresh then Inl (''duplicate auth credential `'' @ ac_name decl @ ''`'')
      else
      rbind (analyze_credential_kind parse_url auth_vars endpoint_outputs (ac_kind decl)) (\<lambda>kind.
      rbind (analyze_credentials_from parse_url seen decls auth_vars endpoint_outputs) (\<lambda>out.
      Inr (\<lparr>aci_name = ac_name decl, aci_kind = kind\<rparr> # out))))"

definition analyze_auth_credentials ::
    "(string \<Rightarrow> (string, parsed_url) result) \<Rightarrow> auth_credential_decl list option \<Rightarrow> var_map
      \<Rightarrow> (endpoint_target_key, syn_type) btree \<Rightarrow> (string, auth_credential_ir list) result" where
  "analyze_auth_credentials parse_url block auth_vars endpoint_outputs =
     (case block of
        None \<Rightarrow> Inr []
      | Some decls \<Rightarrow> analyze_credentials_from parse_url [] decls auth_vars endpoint_outputs)"

section \<open>Uses\<close>

datatype auth_challenge_ir = ChallengeUnauthorized | ChallengeUnauthorizedOrForbidden | ChallengeNeverRecover

datatype auth_use_kind_ir =
    IrUseBearer ident auth_challenge_ir
  | IrUseHeader string ident auth_challenge_ir
  | IrUseQuery string ident auth_challenge_ir
  | IrUseBasic ident auth_challenge_ir

datatype auth_use_provenance = FromClient | FromScope nat | FromEndpoint

record auth_use_ir =
  aui_kind :: auth_use_kind_ir
  aui_provenance :: auth_use_provenance

datatype auth_placement_ir = PlacedBearer | PlacedHeader string | PlacedQuery string | PlacedBasic

record auth_requirement_ir =
  ari_credential :: ident
  ari_placement :: auth_placement_ir
  ari_usage_id :: string
  ari_step_id :: string
  ari_provenance :: string
  ari_challenge :: auth_challenge_ir

definition auth_use_credential_ident :: "auth_use_kind \<Rightarrow> ident" where
  "auth_use_credential_ident u =
     (case u of UseBearer c _ \<Rightarrow> c | UseHeader _ c _ \<Rightarrow> c | UseQuery _ c _ \<Rightarrow> c | UseBasic c _ \<Rightarrow> c)"

definition resolve_auth_challenge :: "ident option \<Rightarrow> (string, auth_challenge_ir) result" where
  "resolve_auth_challenge challenge =
     (case challenge of
        None \<Rightarrow> Inr ChallengeUnauthorized
      | Some c \<Rightarrow>
          (if c = ''unauthorized'' then Inr ChallengeUnauthorized
           else if c = ''unauthorized_or_forbidden'' then Inr ChallengeUnauthorizedOrForbidden
           else if c = ''never_recover'' then Inr ChallengeNeverRecover
           else Inl ''unknown auth challenge policy; expected `unauthorized`, `unauthorized_or_forbidden`, or `never_recover`''))"

definition credential_shape :: "auth_credential_kind_ir \<Rightarrow> auth_material_shape" where
  "credential_shape kind =
     (case kind of
        IrApiKey _ \<Rightarrow> ShapeSecretValue
      | IrStaticBearer _ \<Rightarrow> ShapeAccessToken
      | IrOAuth2 _ _ _ _ \<Rightarrow> ShapeAccessToken
      | IrBasic _ _ \<Rightarrow> ShapeBasic
      | IrEndpoint _ _ shape \<Rightarrow> shape)"

definition use_fits :: "auth_use_kind \<Rightarrow> auth_material_shape \<Rightarrow> bool" where
  "use_fits u shape =
     (case u of
        UseBearer _ _ \<Rightarrow> shape \<in> {ShapeAccessToken, ShapeUnknown}
      | UseHeader _ _ _ \<Rightarrow> shape \<in> {ShapeSecretValue, ShapeAccessToken, ShapeUnknown}
      | UseQuery _ _ _ \<Rightarrow> shape \<in> {ShapeSecretValue, ShapeAccessToken, ShapeUnknown}
      | UseBasic _ _ \<Rightarrow> shape = ShapeBasic)"

definition validate_auth_usage_fit :: "auth_use_kind \<Rightarrow> auth_credential_ir \<Rightarrow> (string, unit) result" where
  "validate_auth_usage_fit u cred =
     (if use_fits u (credential_shape (aci_kind cred)) then Inr ()
      else case u of
        UseBearer _ _ \<Rightarrow>
          Inl (''BearerAuth requires an access-token credential; `'' @ aci_name cred @ ''` does not fit'')
      | UseHeader _ _ _ \<Rightarrow>
          Inl (''header/query auth requires a secret credential; `'' @ aci_name cred @ ''` does not fit'')
      | UseQuery _ _ _ \<Rightarrow>
          Inl (''header/query auth requires a secret credential; `'' @ aci_name cred @ ''` does not fit'')
      | UseBasic _ _ \<Rightarrow>
          Inl (''BasicAuth requires BasicCredential material; `'' @ aci_name cred @ ''` does not fit''))"

text \<open>The loop of \<open>reject_duplicate_auth_materialization_keys\<close>, with the headers and keys seen.\<close>

fun reject_duplicate_keys_from ::
    "(string, string) btree \<Rightarrow> string list \<Rightarrow> norm_auth_use list \<Rightarrow> (string, unit) result" where
  "reject_duplicate_keys_from headers queries [] = Inr ()"
| "reject_duplicate_keys_from headers queries (u # uses) =
     (case nau_kind u of
        UseHeader header _ _ \<Rightarrow>
          (let normalized = to_ascii_lowercase header in
           case bt_get headers normalized of
             Some first \<Rightarrow> Inl (''duplicate auth header `'' @ first @ ''` in the same layer'')
           | None \<Rightarrow> reject_duplicate_keys_from (bt_insert normalized header headers) queries uses)
      | UseQuery key _ _ \<Rightarrow>
          (if key \<in> set queries then
             Inl (''duplicate auth query parameter `'' @ key @ ''` in the same layer'')
           else reject_duplicate_keys_from headers (insort key queries) uses)
      | _ \<Rightarrow> reject_duplicate_keys_from headers queries uses)"

definition reject_duplicate_auth_materialization_keys :: "norm_auth_use list \<Rightarrow> (string, unit) result" where
  "reject_duplicate_auth_materialization_keys uses = reject_duplicate_keys_from [] [] uses"

definition lower_use_kind :: "auth_use_kind \<Rightarrow> (string, auth_use_kind_ir) result" where
  "lower_use_kind kind =
     (case kind of
        UseBearer c ch \<Rightarrow> rbind (resolve_auth_challenge ch) (\<lambda>x. Inr (IrUseBearer c x))
      | UseHeader h c ch \<Rightarrow> rbind (resolve_auth_challenge ch) (\<lambda>x. Inr (IrUseHeader h c x))
      | UseQuery k c ch \<Rightarrow> rbind (resolve_auth_challenge ch) (\<lambda>x. Inr (IrUseQuery k c x))
      | UseBasic c ch \<Rightarrow> rbind (resolve_auth_challenge ch) (\<lambda>x. Inr (IrUseBasic c x)))"

definition resolve_auth_use_kind ::
    "auth_use_kind \<Rightarrow> (string, auth_credential_ir) btree \<Rightarrow> auth_use_provenance
      \<Rightarrow> (string, auth_use_ir) result" where
  "resolve_auth_use_kind kind credentials provenance =
     (let credential = auth_use_credential_ident kind in
      rbind (ok_or (bt_get credentials credential)
               (unknown_name_message ''auth credential'' credential credentials)) (\<lambda>cred.
      rbind (validate_auth_usage_fit kind cred) (\<lambda>_.
      rbind (lower_use_kind kind) (\<lambda>k.
      Inr \<lparr>aui_kind = k, aui_provenance = provenance\<rparr>))))"

definition resolve_auth_requirements ::
    "norm_auth_use list \<Rightarrow> (string, auth_credential_ir) btree \<Rightarrow> auth_use_provenance
      \<Rightarrow> (string, auth_use_ir list) result" where
  "resolve_auth_requirements uses credentials provenance =
     rbind (reject_duplicate_auth_materialization_keys uses) (\<lambda>_.
     collect_results (\<lambda>u. resolve_auth_use_kind (nau_kind u) credentials provenance) uses)"

section \<open>Requirements of an endpoint\<close>

definition auth_usage_id_text :: "auth_use_kind_ir \<Rightarrow> string" where
  "auth_usage_id_text kind =
     (case kind of
        IrUseBearer _ _ \<Rightarrow> ''bearer''
      | IrUseHeader _ _ _ \<Rightarrow> ''header''
      | IrUseQuery _ _ _ \<Rightarrow> ''query''
      | IrUseBasic _ _ \<Rightarrow> ''basic'')"

definition provenance_label :: "auth_use_provenance \<Rightarrow> string" where
  "provenance_label p =
     (case p of
        FromClient \<Rightarrow> ''client''
      | FromScope scope_id \<Rightarrow> ''scope:'' @ decimal scope_id
      | FromEndpoint \<Rightarrow> ''endpoint'')"

definition materialize_auth_requirement :: "auth_use_ir \<Rightarrow> string \<Rightarrow> nat \<Rightarrow> auth_requirement_ir" where
  "materialize_auth_requirement auth_use endpoint_step_prefix idx =
     (let (placement, credential, challenge) =
            (case aui_kind auth_use of
               IrUseBearer c ch \<Rightarrow> (PlacedBearer, c, ch)
             | IrUseHeader h c ch \<Rightarrow> (PlacedHeader h, c, ch)
             | IrUseQuery k c ch \<Rightarrow> (PlacedQuery k, c, ch)
             | IrUseBasic c ch \<Rightarrow> (PlacedBasic, c, ch))
      in \<lparr>ari_credential = credential, ari_placement = placement,
          ari_usage_id = auth_usage_id_text (aui_kind auth_use),
          ari_step_id = endpoint_step_prefix @ '':'' @ decimal idx @ '':'' @ credential,
          ari_provenance = provenance_label (aui_provenance auth_use),
          ari_challenge = challenge\<rparr>)"

definition materialize_auth_requirements ::
    "auth_use_ir list \<Rightarrow> string \<Rightarrow> nat \<Rightarrow> auth_requirement_ir list" where
  "materialize_auth_requirements plans endpoint_step_prefix start_idx =
     map (\<lambda>(idx, plan). materialize_auth_requirement plan endpoint_step_prefix (start_idx + idx))
       (List.enumerate 0 plans)"

definition auth_plan_references_credential :: "auth_requirement_ir list \<Rightarrow> ident \<Rightarrow> bool" where
  "auth_plan_references_credential plans target \<longleftrightarrow> list_ex (\<lambda>p. ari_credential p = target) plans"

datatype auth_target_key = TargetHeader string | TargetQuery string | TargetAuthorization

definition target_key_display :: "auth_target_key \<Rightarrow> string" where
  "target_key_display k =
     (case k of
        TargetHeader name \<Rightarrow> ''header `'' @ name @ ''`''
      | TargetQuery key \<Rightarrow> ''query `'' @ key @ ''`''
      | TargetAuthorization \<Rightarrow> ''Authorization'')"

definition final_auth_materialization_target :: "auth_requirement_ir \<Rightarrow> auth_target_key" where
  "final_auth_materialization_target req =
     (case ari_placement req of
        PlacedHeader name \<Rightarrow>
          if eq_ignore_ascii_case name ''authorization'' then TargetAuthorization
          else TargetHeader (to_ascii_lowercase name)
      | PlacedQuery key \<Rightarrow> TargetQuery key
      | PlacedBearer \<Rightarrow> TargetAuthorization
      | PlacedBasic \<Rightarrow> TargetAuthorization)"

fun validate_final_targets_from ::
    "(auth_target_key \<times> auth_requirement_ir) list \<Rightarrow> auth_requirement_ir list \<Rightarrow> string
      \<Rightarrow> (string, unit) result" where
  "validate_final_targets_from seen [] endpoint_display = Inr ()"
| "validate_final_targets_from seen (req # auth) endpoint_display =
     (let target = final_auth_materialization_target req in
      case map_of seen target of
        Some first \<Rightarrow>
          Inl (''final endpoint `'' @ endpoint_display @ ''` has duplicate auth materialization target `''
               @ target_key_display target @ ''` between `'' @ ari_provenance first @ ''` and `''
               @ ari_provenance req @ ''`'')
      | None \<Rightarrow> validate_final_targets_from ((target, req) # seen) auth endpoint_display)"

definition validate_final_auth_materialization_targets ::
    "auth_requirement_ir list \<Rightarrow> string \<Rightarrow> (string, unit) result" where
  "validate_final_auth_materialization_targets auth endpoint_display =
     validate_final_targets_from [] auth endpoint_display"

section \<open>The emitted plan\<close>

definition emit_auth_placement :: "auth_placement_ir \<Rightarrow> auth_placement" where
  "emit_auth_placement p =
     (case p of
        PlacedBearer \<Rightarrow> PlBearer
      | PlacedHeader name \<Rightarrow> PlHeader name
      | PlacedQuery key \<Rightarrow> PlQuery key
      | PlacedBasic \<Rightarrow> PlBasic)"

definition emit_challenge :: "auth_challenge_ir \<Rightarrow> auth_challenge_policy" where
  "emit_challenge c =
     (case c of
        ChallengeUnauthorized \<Rightarrow> ChUnauthorized
      | ChallengeUnauthorizedOrForbidden \<Rightarrow> ChUnauthorizedOrForbidden
      | ChallengeNeverRecover \<Rightarrow> ChNeverRecover)"

text \<open>\<open>GeneratedAuthBuilder::require\<close> with the literals the macro emits.\<close>

definition emit_auth_requirement :: "ident \<Rightarrow> auth_requirement_ir \<Rightarrow> auth_requirement" where
  "emit_auth_requirement client_name req =
     \<lparr>ar_credential = \<lparr>cid_namespace = client_name, cid_name = ari_credential req\<rparr>,
      ar_placement = emit_auth_placement (ari_placement req),
      ar_usage_id = ari_usage_id req,
      ar_step_id = Some (ari_step_id req),
      ar_provenance = ari_provenance req,
      ar_challenge = emit_challenge (ari_challenge req)\<rparr>"

definition emit_endpoint_auth_plan :: "ident \<Rightarrow> auth_requirement_ir list \<Rightarrow> auth_plan" where
  "emit_endpoint_auth_plan client_name auth = map (emit_auth_requirement client_name) auth"

section \<open>What accepted credentials and uses refer to\<close>

definition secret_declared :: "var_map \<Rightarrow> ident \<Rightarrow> bool" where
  "secret_declared auth_vars secret \<longleftrightarrow> (\<exists>v. bt_get auth_vars secret = Some v \<and> \<not> vi_optional v)"

definition credential_backed ::
    "var_map \<Rightarrow> (endpoint_target_key, syn_type) btree \<Rightarrow> auth_credential_kind_ir \<Rightarrow> bool" where
  "credential_backed auth_vars outputs kind \<longleftrightarrow>
     (case kind of
        IrApiKey s \<Rightarrow> secret_declared auth_vars s
      | IrStaticBearer s \<Rightarrow> secret_declared auth_vars s
      | IrBasic u p \<Rightarrow> secret_declared auth_vars u \<and> secret_declared auth_vars p
      | IrOAuth2 url i s sc \<Rightarrow> secret_declared auth_vars i \<and> secret_declared auth_vars s
      | IrEndpoint t ty shape \<Rightarrow>
          bt_get outputs (target_key t) = Some ty \<and> shape = shape_from_type ty)"

lemma validate_required_secret_ok:
  "validate_required_secret auth_vars s = Inr () \<longleftrightarrow> secret_declared auth_vars s"
  by (auto simp: validate_required_secret_def secret_declared_def split: option.splits)

lemma analyze_credential_kind_backed:
  "analyze_credential_kind parse_url auth_vars outputs kind = Inr k \<Longrightarrow> credential_backed auth_vars outputs k"
  by (auto simp: analyze_credential_kind_def credential_backed_def rbind_Inr_iff
        validate_required_secret_ok split: auth_credential_kind.splits)

lemma analyze_credentials_from_ok:
  assumes "analyze_credentials_from parse_url seen decls auth_vars outputs = Inr creds"
  shows "map aci_name creds = map ac_name decls \<and> distinct (map ac_name decls)
    \<and> set seen \<inter> set (map ac_name decls) = {}
    \<and> list_all (\<lambda>c. credential_backed auth_vars outputs (aci_kind c)) creds"
  using assms
proof (induction decls arbitrary: seen creds)
  case (Cons decl decls)
  then have new: "ac_name decl \<notin> set seen" by (auto simp: bs_insert_def split: if_splits)
  with Cons.prems obtain kind out where
      k: "analyze_credential_kind parse_url auth_vars outputs (ac_kind decl) = Inr kind"
    and rest: "analyze_credentials_from parse_url (insort (ac_name decl) seen) decls auth_vars outputs = Inr out"
    and creds: "creds = \<lparr>aci_name = ac_name decl, aci_kind = kind\<rparr> # out"
    by (auto simp: bs_insert_def rbind_Inr_iff)
  show ?case
    using Cons.IH [OF rest] analyze_credential_kind_backed [OF k] new
    by (auto simp: creds set_insort_key)
qed simp

lemma resolve_auth_requirements_fit:
  assumes "resolve_auth_requirements uses credentials provenance = Inr plans"
  shows "list_all (\<lambda>u. \<exists>c. bt_get credentials (auth_use_credential_ident (nau_kind u)) = Some c
      \<and> use_fits (nau_kind u) (credential_shape (aci_kind c))) uses"
proof -
  have "collect_results (\<lambda>u. resolve_auth_use_kind (nau_kind u) credentials provenance) uses = Inr plans"
    using assms by (auto simp: resolve_auth_requirements_def rbind_Inr_iff)
  then have "\<forall>u\<in>set uses. \<exists>y. resolve_auth_use_kind (nau_kind u) credentials provenance = Inr y"
    using collect_results_ok_iff by metis
  moreover have "\<exists>c. bt_get credentials (auth_use_credential_ident k) = Some c
      \<and> use_fits k (credential_shape (aci_kind c))"
    if "resolve_auth_use_kind k credentials provenance = Inr y" for k y
    using that
    by (auto simp: resolve_auth_use_kind_def rbind_Inr_iff Let_def validate_auth_usage_fit_def
          split: if_splits auth_use_kind.splits)
  ultimately show ?thesis by (auto simp: list_all_iff)
qed

section \<open>Accepted targets do not collide at run time\<close>

lemma validate_final_targets_from_ok:
  "validate_final_targets_from seen auth display = Inr () \<longleftrightarrow>
     distinct (map final_auth_materialization_target auth)
     \<and> fst ` set seen \<inter> final_auth_materialization_target ` set auth = {}"
proof (induction seen auth display rule: validate_final_targets_from.induct)
  case (2 seen req auth display)
  show ?case
  proof (cases "map_of seen (final_auth_materialization_target req)")
    case None
    then have "validate_final_targets_from seen (req # auth) display =
        validate_final_targets_from ((final_auth_materialization_target req, req) # seen) auth display"
      by (simp add: Let_def)
    moreover have "final_auth_materialization_target req \<notin> fst ` set seen"
      using None by (simp add: map_of_eq_None_iff)
    ultimately show ?thesis
      using 2 [OF refl None] by auto
  next
    case (Some first)
    then have "final_auth_materialization_target req \<in> fst ` set seen"
      by (metis domI dom_map_of_conv_image_fst)
    then show ?thesis
      using Some by (auto simp: Let_def)
  qed
qed simp

lemma validate_final_targets_ok:
  "validate_final_auth_materialization_targets auth display = Inr () \<longleftrightarrow>
     distinct (map final_auth_materialization_target auth)"
  by (simp add: validate_final_auth_materialization_targets_def validate_final_targets_from_ok)

text \<open>The documented behaviour of \<open>HeaderName::from_bytes\<close>: a valid name is kept in lower case.\<close>

definition lowercases_names :: "(string \<Rightarrow> header_name option) \<Rightarrow> bool" where
  "lowercases_names from_bytes \<longleftrightarrow> (\<forall>n h. from_bytes n = Some h \<longrightarrow> h = to_ascii_lowercase n)"

text \<open>The run-time placement of a requirement, when its header name can be used at all.\<close>

definition placement_of ::
    "(string \<Rightarrow> header_name option) \<Rightarrow> auth_requirement_ir \<Rightarrow> planned_auth_placement option" where
  "placement_of from_bytes req =
     (case ari_placement req of
        PlacedBearer \<Rightarrow> Some PpBearer
      | PlacedBasic \<Rightarrow> Some PpBasic
      | PlacedQuery key \<Rightarrow> Some (PpQuery key)
      | PlacedHeader name \<Rightarrow>
          (case from_bytes name of
             None \<Rightarrow> None
           | Some h \<Rightarrow> if is_forbidden_auth_placement h then None else Some (PpHeader h)))"

lemma placements_collide_target:
  assumes "lowercases_names from_bytes"
    and "placement_of from_bytes r = Some p" and "placement_of from_bytes r' = Some p'"
  shows "placements_collide p p' \<longleftrightarrow>
    final_auth_materialization_target r = final_auth_materialization_target r'"
proof -
  have low: "from_bytes n = Some h \<Longrightarrow> h = to_ascii_lowercase n" for n h
    using assms(1) by (simp add: lowercases_names_def)
  have auth: "is_forbidden_auth_placement ''authorization''"
    by (simp add: is_forbidden_auth_placement_def)
  have lowauth: "eq_ignore_ascii_case n ''authorization'' \<longleftrightarrow> to_ascii_lowercase n = ''authorization''" for n
  proof -
    have "to_ascii_lowercase ''authorization'' = ''authorization''" by code_simp
    then show ?thesis by (simp add: eq_ignore_ascii_case_iff)
  qed
  show ?thesis
    using assms(2,3)
    by (auto simp: placement_of_def final_auth_materialization_target_def lowauth auth
        split: auth_placement_ir.splits option.splits if_splits dest!: low)
qed

lemma plan_placement_emit:
  "(case placement_of from_bytes req of
      None \<Rightarrow> (\<forall>p ks. plan_placement from_bytes keys (emit_auth_placement (ari_placement req)) = Inr (p, ks)
          \<longrightarrow> forbidden_header_of p \<noteq> None)
    | Some p \<Rightarrow> forbidden_header_of p = None \<and>
        (\<exists>ks. plan_placement from_bytes keys (emit_auth_placement (ari_placement req)) = Inr (p, ks)))"
  by (cases "ari_placement req")
     (auto simp: placement_of_def emit_auth_placement_def forbidden_header_of_def split: option.splits)

lemma plan_requirement_blocked:
  assumes "placement_of from_bytes req = None"
  shows "\<exists>e. plan_requirement from_bytes counter planned (emit_auth_requirement c req) = Inl e"
  using plan_placement_emit [of from_bytes "app_sensitive_query_keys planned" req] assms
  by (cases "plan_placement from_bytes (app_sensitive_query_keys planned)
        (emit_auth_placement (ari_placement req))")
     (auto simp: plan_requirement_def emit_auth_requirement_def split: option.splits)

lemma plan_requirement_placed:
  assumes "placement_of from_bytes req = Some p"
    and "\<not> list_ex (\<lambda>s. placements_collide (ps_placement s) p) (app_slots planned)"
  shows "(case checked_add counter 1 of
      None \<Rightarrow> (\<exists>e. plan_requirement from_bytes counter planned (emit_auth_requirement c req) = Inl e)
    | Some counter' \<Rightarrow> (\<exists>planned' s. plan_requirement from_bytes counter planned (emit_auth_requirement c req)
          = Inr (planned', counter') \<and> app_slots planned' = app_slots planned @ [s] \<and> ps_placement s = p))"
proof -
  obtain ks where "forbidden_header_of p = None"
    "plan_placement from_bytes (app_sensitive_query_keys planned) (emit_auth_placement (ari_placement req))
      = Inr (p, ks)"
    using plan_placement_emit [of from_bytes "app_sensitive_query_keys planned" req] assms(1) by auto
  then show ?thesis
    using assms(2)
    by (simp add: plan_requirement_def emit_auth_requirement_def auth_slot_id_next_def split: option.split)
qed

definition slots_from ::
    "(string \<Rightarrow> header_name option) \<Rightarrow> auth_requirement_ir list \<Rightarrow> planned_auth_slot list \<Rightarrow> bool" where
  "slots_from from_bytes reqs slots \<longleftrightarrow>
     (\<forall>s\<in>set slots. \<exists>r\<in>set reqs. placement_of from_bytes r = Some (ps_placement s))"

lemma plan_requirements_emit:
  assumes "lowercases_names from_bytes"
    and "distinct (map final_auth_materialization_target (before @ auth))"
    and "slots_from from_bytes before (app_slots planned)"
  shows "(\<exists>r. plan_requirements from_bytes counter planned (map (emit_auth_requirement c) auth) = Inr r)
    \<longleftrightarrow> list_all (\<lambda>req. placement_of from_bytes req \<noteq> None) auth \<and> unat counter + length auth < 2 ^ 64"
  using assms(2,3)
proof (induction auth arbitrary: before planned counter)
  case Nil
  then show ?case using unsigned_less [of counter] by simp
next
  case (Cons req auth)
  show ?case
  proof (cases "placement_of from_bytes req")
    case None
    then show ?thesis
      using plan_requirement_blocked [OF None, of counter planned c] by auto
  next
    case (Some p)
    have "\<not> list_ex (\<lambda>s. placements_collide (ps_placement s) p) (app_slots planned)"
    proof
      assume "list_ex (\<lambda>s. placements_collide (ps_placement s) p) (app_slots planned)"
      then obtain s where "s \<in> set (app_slots planned)" and hit: "placements_collide (ps_placement s) p"
        by (auto simp: list_ex_iff)
      then obtain r where r: "r \<in> set before" "placement_of from_bytes r = Some (ps_placement s)"
        using Cons.prems(2) by (auto simp: slots_from_def)
      then have "final_auth_materialization_target r = final_auth_materialization_target req"
        using placements_collide_target [OF assms(1) r(2) Some] hit by simp
      moreover have "final_auth_materialization_target r \<in> final_auth_materialization_target ` set before"
        using r(1) by (rule imageI)
      ultimately show False using Cons.prems(1) by simp
    qed
    note placed = plan_requirement_placed [OF Some this, of counter c]
    show ?thesis
    proof (cases "checked_add counter 1")
      case None
      then have "2 ^ 64 \<le> unat counter + 1" by (simp add: checked_add_None_iff)
      then show ?thesis using placed None Some by auto
    next
      case next_id: (Some counter')
      then obtain planned' s where
          one: "plan_requirement from_bytes counter planned (emit_auth_requirement c req)
            = Inr (planned', counter')"
        and slots: "app_slots planned' = app_slots planned @ [s]" "ps_placement s = p"
        using placed by auto
      have "unat counter' = Suc (unat counter)"
        using next_id by (rule checked_add_one_Suc)
      moreover have "slots_from from_bytes (before @ [req]) (app_slots planned')"
        using Cons.prems(2) slots Some by (auto simp: slots_from_def)
      ultimately show ?thesis
        using Cons.IH [of "before @ [req]" planned' counter'] Cons.prems(1) one Some by simp
    qed
  qed
qed


definition sample_auth :: "auth_requirement_ir list" where
  "sample_auth =
     [\<lparr>ari_credential = ''session'', ari_placement = PlacedBearer, ari_usage_id = ''bearer'',
       ari_step_id = ''Get:0:session'', ari_provenance = ''client'', ari_challenge = ChallengeUnauthorized\<rparr>,
      \<lparr>ari_credential = ''key'', ari_placement = PlacedHeader ''X-Api-Key'', ari_usage_id = ''header'',
       ari_step_id = ''Get:1:key'', ari_provenance = ''endpoint'', ari_challenge = ChallengeNeverRecover\<rparr>]"


text \<open>A custom \<open>Authorization\<close> header passes the analysis, but no request with it can be planned.\<close>

lemma custom_authorization_never_planned:
  assumes "lowercases_names from_bytes" and "req \<in> set auth"
    and "ari_placement req = PlacedHeader name" and "eq_ignore_ascii_case name ''authorization''"
    and "validate_final_auth_materialization_targets auth display = Inr ()"
  shows "\<exists>e. from_auth_plan from_bytes counter (emit_endpoint_auth_plan client auth) = Inl e"
proof -
  have "to_ascii_lowercase ''authorization'' = ''authorization''" by code_simp
  then have "to_ascii_lowercase name = ''authorization''"
    using assms(4) by (simp add: eq_ignore_ascii_case_iff)
  then have "placement_of from_bytes req = None"
    using assms(1,3)
    by (auto simp: placement_of_def lowercases_names_def is_forbidden_auth_placement_def
        split: option.splits)
  then have no: "\<not> (\<exists>r. from_auth_plan from_bytes counter (emit_endpoint_auth_plan client auth) = Inr r)"
    using plan_requirements_emit [OF assms(1), of "[]" auth] assms(2,5)
    by (auto simp: validate_final_targets_ok slots_from_def from_auth_plan_def
        emit_endpoint_auth_plan_def list_all_iff)
  then show ?thesis by (cases "from_auth_plan from_bytes counter (emit_endpoint_auth_plan client auth)") auto
qed

end
