(* ===== verification/MacroItems.thy ===== *)
theory MacroItems
  imports MacroRoute MacroAuth
begin

text \<open>
  \<open>sema/items.rs\<close>, the endpoint part of \<open>sema/descriptor.rs\<close> and \<open>resolve\<close> of \<open>sema/mod.rs\<close>: the
  classification of request and response bodies, the walk over scopes with a growing table of layers
  and the indices of the enclosing ones, the analysis of an endpoint, and the resolved API. What the \<open>quote\<close> crate prints for
  a type, path or expression and what derived \<open>Debug\<close> prints for a format are arguments, like the
  parsers and the Unicode letter tables.
\<close>

record 'ip macro_env =
  me_header_value_ok :: "string \<Rightarrow> bool"
  me_uni_lower :: "string \<Rightarrow> string"
  me_uni_upper :: "string \<Rightarrow> string"
  me_uni_is_upper :: "string \<Rightarrow> bool"
  me_xid_start :: "string \<Rightarrow> bool"
  me_xid_continue :: "string \<Rightarrow> bool"
  me_parse_url :: "string \<Rightarrow> (string, parsed_url) result"
  me_origin_ops :: "'ip origin_ops"
  me_show_type :: "syn_type \<Rightarrow> string"
  me_show_path :: "syn_path \<Rightarrow> string"
  me_show_expr :: "syn_expr \<Rightarrow> string"
  me_debug_fmt :: "fmt_resolved \<Rightarrow> string"

section \<open>Request and response bodies\<close>

record buffered_codec_io =
  bci_marker :: syn_type
  bci_codec_path :: syn_path
  bci_value_ty :: syn_type

datatype endpoint_io =
    IoBufferedCodec buffered_codec_io
  | IoBufferedBytes
  | IoNoContent
  | IoRawStream syn_type
  | IoMultipart syn_type

datatype request_body_io =
    ReqNone | ReqBufferedCodec buffered_codec_io | ReqRawStream syn_type | ReqMultipart syn_type

datatype response_body_io =
    RespBufferedCodec buffered_codec_io | RespBufferedBytes | RespNoContent | RespRawStream syn_type

datatype endpoint_io_position = PositionRequest | PositionResponse

definition endpoint_io_family_name :: "raw_io_spec \<Rightarrow> ident option" where
  "endpoint_io_family_name spec =
     (case io_marker spec of TyPath q p \<Rightarrow> map_option seg_ident (path_last p) | _ \<Rightarrow> None)"

definition buffered_codec_io :: "raw_io_spec \<Rightarrow> buffered_codec_io" where
  "buffered_codec_io spec =
     \<lparr>bci_marker = io_marker spec, bci_codec_path = io_enc spec, bci_value_ty = io_ty spec\<rparr>"

definition classify_endpoint_io ::
    "raw_io_spec \<Rightarrow> endpoint_io_position \<Rightarrow> (string, endpoint_io) result" where
  "classify_endpoint_io spec position =
     (let family = (case endpoint_io_family_name spec of None \<Rightarrow> [] | Some f \<Rightarrow> f);
          arg_count = length (io_args spec)
      in if family = ''Bytes'' then
           (if io_had_angle_args spec \<or> arg_count \<noteq> 0 then
              Inl ''reserved endpoint I/O family `Bytes` does not take type arguments''
            else Inr IoBufferedBytes)
         else if family = ''NoContent'' then
           (if io_had_angle_args spec \<or> arg_count \<noteq> 0 then
              Inl ''reserved endpoint I/O family `NoContent` does not take type arguments''
            else if position = PositionRequest then
              Inl ''`NoContent` is only valid as an endpoint response''
            else Inr IoNoContent)
         else if family = ''Stream'' then
           (case io_args spec of
              [t] \<Rightarrow> Inr (IoRawStream t)
            | _ \<Rightarrow> Inl ''reserved endpoint I/O family `Stream` expects exactly one type argument'')
         else if family = ''Multipart'' then
           (case io_args spec of
              [t] \<Rightarrow> Inr (IoMultipart t)
            | _ \<Rightarrow> Inl ''reserved endpoint I/O family `Multipart` expects exactly one type argument'')
         else if arg_count > 1 then Inl ''codec spec expects exactly one type argument: `Enc<T>`''
         else Inr (IoBufferedCodec (buffered_codec_io spec)))"

definition classify_request_io :: "raw_io_spec option \<Rightarrow> (string, request_body_io) result" where
  "classify_request_io spec =
     (case spec of
        None \<Rightarrow> Inr ReqNone
      | Some spec \<Rightarrow>
          rbind (classify_endpoint_io spec PositionRequest) (\<lambda>io.
          case io of
            IoBufferedCodec c \<Rightarrow> Inr (ReqBufferedCodec c)
          | IoBufferedBytes \<Rightarrow> Inl ''`Bytes` endpoint I/O is reserved but not supported yet''
          | IoNoContent \<Rightarrow> Inl ''`NoContent` is not valid as an endpoint request''
          | IoRawStream t \<Rightarrow> Inr (ReqRawStream t)
          | IoMultipart t \<Rightarrow> Inr (ReqMultipart t)))"

definition classify_http_response_io :: "raw_io_spec \<Rightarrow> (string, response_body_io) result" where
  "classify_http_response_io spec =
     rbind (classify_endpoint_io spec PositionResponse) (\<lambda>io.
     case io of
       IoBufferedCodec c \<Rightarrow> Inr (RespBufferedCodec c)
     | IoBufferedBytes \<Rightarrow> Inr RespBufferedBytes
     | IoNoContent \<Rightarrow> Inr RespNoContent
     | IoRawStream t \<Rightarrow> Inr (RespRawStream t)
     | IoMultipart t \<Rightarrow> Inl ''`Multipart` is only valid as an endpoint request'')"

text \<open>The types the analysis writes with \<open>parse_quote!\<close>.\<close>

definition plain_segments :: "ident list \<Rightarrow> segment list" where
  "plain_segments is = map (\<lambda>i. Segment i ArgsNone) is"

definition private_ty :: "ident \<Rightarrow> syn_type" where
  "private_ty name = TyPath None (SynPath True (plain_segments [''concord_core'', ''__private'', name]))"

definition private_ty_of :: "ident \<Rightarrow> syn_type \<Rightarrow> syn_type" where
  "private_ty_of name arg =
     TyPath None (SynPath True (plain_segments [''concord_core'', ''__private'']
       @ [Segment name (ArgsAngle [NType arg])]))"

definition stream_body_ty :: syn_type where
  "stream_body_ty = TyPath None (ident_path ''StreamBody'')"

definition multipart_body_ty :: syn_type where
  "multipart_body_ty =
     TyPath None (SynPath True (plain_segments [''concord_core'', ''advanced'', ''MultipartBody'']))"

definition response_public_output_ty :: "response_body_io \<Rightarrow> syn_type" where
  "response_public_output_ty io =
     (case io of
        RespBufferedCodec c \<Rightarrow> bci_value_ty c
      | RespBufferedBytes \<Rightarrow> TyPath None (SynPath True (plain_segments [''bytes'', ''Bytes'']))
      | RespNoContent \<Rightarrow> TyOther ''tuple'' []
      | RespRawStream media_ty \<Rightarrow>
          TyPath None (SynPath True (plain_segments [''concord_core'', ''advanced'']
            @ [Segment ''StreamResponse'' (ArgsAngle [NType media_ty])])))"

record io_doc =
  iod_summary :: string
  iod_facade_summary :: "string option"

record request_io_capabilities =
  rqc_has_body :: bool
  rqc_is_streaming :: bool
  rqc_is_multipart :: bool

record response_io_capabilities =
  rsc_supports_pagination :: bool
  rsc_is_streaming :: bool
  rsc_is_no_content :: bool

record request_entity_plan =
  rqp_adapter_ty :: syn_type
  rqp_public_input_ty :: "syn_type option"
  rqp_body_field_ty :: "syn_type option"
  rqp_doc :: io_doc
  rqp_capabilities :: request_io_capabilities

record response_entity_plan =
  rsp_adapter_ty :: syn_type
  rsp_public_output_ty :: syn_type
  rsp_doc :: io_doc
  rsp_capabilities :: response_io_capabilities

definition doc_codec :: "'ip macro_env \<Rightarrow> syn_path \<Rightarrow> syn_type \<Rightarrow> string" where
  "doc_codec env enc ty = me_show_path env enc @ ''<'' @ me_show_type env ty @ ''>''"

definition request_entity_plan_ir :: "'ip macro_env \<Rightarrow> request_body_io \<Rightarrow> request_entity_plan" where
  "request_entity_plan_ir env io =
     (case io of
        ReqNone \<Rightarrow>
          \<lparr>rqp_adapter_ty = private_ty ''GeneratedNoRequestBody'', rqp_public_input_ty = None,
           rqp_body_field_ty = None,
           rqp_doc = \<lparr>iod_summary = ''No request body.'', iod_facade_summary = None\<rparr>,
           rqp_capabilities = \<lparr>rqc_has_body = False, rqc_is_streaming = False, rqc_is_multipart = False\<rparr>\<rparr>
      | ReqBufferedCodec c \<Rightarrow>
          \<lparr>rqp_adapter_ty = private_ty_of ''GeneratedEncodedRequest'' (bci_marker c),
           rqp_public_input_ty = Some (bci_value_ty c), rqp_body_field_ty = Some (bci_value_ty c),
           rqp_doc = \<lparr>iod_summary = ''Buffered request body encoded by ''
                        @ doc_codec env (bci_codec_path c) (bci_value_ty c) @ ''.'',
                      iod_facade_summary = Some (''Body: '' @ doc_codec env (bci_codec_path c) (bci_value_ty c))\<rparr>,
           rqp_capabilities = \<lparr>rqc_has_body = True, rqc_is_streaming = False, rqc_is_multipart = False\<rparr>\<rparr>
      | ReqRawStream media_ty \<Rightarrow>
          \<lparr>rqp_adapter_ty = private_ty_of ''GeneratedRawStreamRequest'' media_ty,
           rqp_public_input_ty = Some stream_body_ty, rqp_body_field_ty = Some stream_body_ty,
           rqp_doc = \<lparr>iod_summary = ''Streaming request body.'',
                      iod_facade_summary = Some (''Body: Stream<'' @ me_show_type env media_ty @ ''>'')\<rparr>,
           rqp_capabilities = \<lparr>rqc_has_body = True, rqc_is_streaming = True, rqc_is_multipart = False\<rparr>\<rparr>
      | ReqMultipart value_ty \<Rightarrow>
          \<lparr>rqp_adapter_ty = private_ty ''GeneratedMultipartRequest'',
           rqp_public_input_ty = Some multipart_body_ty, rqp_body_field_ty = Some multipart_body_ty,
           rqp_doc = \<lparr>iod_summary = ''Multipart request body.'',
                      iod_facade_summary = Some (''Body: Multipart<'' @ me_show_type env value_ty @ ''>'')\<rparr>,
           rqp_capabilities = \<lparr>rqc_has_body = True, rqc_is_streaming = True, rqc_is_multipart = True\<rparr>\<rparr>)"

definition response_entity_plan_ir :: "'ip macro_env \<Rightarrow> response_body_io \<Rightarrow> response_entity_plan" where
  "response_entity_plan_ir env io =
     (case io of
        RespBufferedCodec c \<Rightarrow>
          \<lparr>rsp_adapter_ty = private_ty_of ''GeneratedBufferedResponse'' (bci_marker c),
           rsp_public_output_ty = response_public_output_ty io,
           rsp_doc = \<lparr>iod_summary = ''Buffered response decoded by ''
                        @ doc_codec env (bci_codec_path c) (bci_value_ty c) @ ''.'',
                      iod_facade_summary = Some (''Response: '' @ doc_codec env (bci_codec_path c) (bci_value_ty c))\<rparr>,
           rsp_capabilities = \<lparr>rsc_supports_pagination = True, rsc_is_streaming = False, rsc_is_no_content = False\<rparr>\<rparr>
      | RespBufferedBytes \<Rightarrow>
          \<lparr>rsp_adapter_ty = private_ty ''GeneratedBytesResponse'',
           rsp_public_output_ty = response_public_output_ty io,
           rsp_doc = \<lparr>iod_summary = ''Buffered bytes response.'',
                      iod_facade_summary = Some ''Response: bytes::Bytes''\<rparr>,
           rsp_capabilities = \<lparr>rsc_supports_pagination = False, rsc_is_streaming = False, rsc_is_no_content = False\<rparr>\<rparr>
      | RespNoContent \<Rightarrow>
          \<lparr>rsp_adapter_ty = private_ty ''GeneratedNoContentResponse'',
           rsp_public_output_ty = response_public_output_ty io,
           rsp_doc = \<lparr>iod_summary = ''No response body.'', iod_facade_summary = Some ''Response: ()''\<rparr>,
           rsp_capabilities = \<lparr>rsc_supports_pagination = False, rsc_is_streaming = False, rsc_is_no_content = True\<rparr>\<rparr>
      | RespRawStream media_ty \<Rightarrow>
          \<lparr>rsp_adapter_ty = private_ty_of ''GeneratedRawStreamResponse'' media_ty,
           rsp_public_output_ty = response_public_output_ty io,
           rsp_doc = \<lparr>iod_summary = ''Streaming response body.'',
                      iod_facade_summary = Some (''Response: Stream<'' @ me_show_type env media_ty @ ''>'')\<rparr>,
           rsp_capabilities = \<lparr>rsc_supports_pagination = False, rsc_is_streaming = True, rsc_is_no_content = False\<rparr>\<rparr>)"

section \<open>Descriptors\<close>

datatype request_body_descriptor = DescNone | DescBuffered string | DescStreaming string | DescMultipart

datatype response_format_descriptor =
  FormatBuffered string | FormatBytes | FormatNoContent | FormatStreaming string

record endpoint_descriptor =
  edr_origin :: endpoint_origin
  edr_request_body :: request_body_descriptor
  edr_response_format :: response_format_descriptor
  edr_pagination_can_change_origin :: bool

definition request_body_descriptor :: "'ip macro_env \<Rightarrow> request_body_io \<Rightarrow> request_body_descriptor" where
  "request_body_descriptor env io =
     (case io of
        ReqNone \<Rightarrow> DescNone
      | ReqBufferedCodec c \<Rightarrow> DescBuffered (me_show_path env (bci_codec_path c))
      | ReqRawStream media_ty \<Rightarrow> DescStreaming (me_show_type env media_ty)
      | ReqMultipart _ \<Rightarrow> DescMultipart)"

definition response_format_descriptor :: "'ip macro_env \<Rightarrow> response_body_io \<Rightarrow> response_format_descriptor" where
  "response_format_descriptor env io =
     (case io of
        RespBufferedCodec c \<Rightarrow> FormatBuffered (me_show_path env (bci_codec_path c))
      | RespBufferedBytes \<Rightarrow> FormatBytes
      | RespNoContent \<Rightarrow> FormatNoContent
      | RespRawStream media_ty \<Rightarrow> FormatStreaming (me_show_type env media_ty))"

definition resolve_endpoint_descriptor ::
    "'ip macro_env \<Rightarrow> dsl_scheme \<Rightarrow> string \<Rightarrow> prefix_piece list \<Rightarrow> request_body_io \<Rightarrow> response_body_io
      \<Rightarrow> paginate_resolved option \<Rightarrow> endpoint_descriptor" where
  "resolve_endpoint_descriptor env scheme domain pieces request response pagination =
     \<lparr>edr_origin = classify_endpoint_origin (me_origin_ops env) scheme domain pieces,
      edr_request_body = request_body_descriptor env request,
      edr_response_format = response_format_descriptor env response,
      edr_pagination_can_change_origin =
        (case pagination of None \<Rightarrow> False | Some p \<Rightarrow> pagination_can_change_origin pieces p)\<rparr>"

section \<open>Layers\<close>

record layer_ir =
  li_scope_name :: "ident option"
  li_kind :: route_layer_kind
  li_prefix_pieces :: "prefix_piece list"
  li_path_pieces :: "path_piece list"
  li_policy :: policy_blocks_resolved
  li_auth :: "auth_use_ir list"
  li_rate_limit_key_bindings :: "rl_key_binding list"
  li_profile_names :: "string list"
  li_decls :: "var_info list"

text \<open>What a walk is given and does not change.\<close>

record walk_ctx =
  wc_base_scheme :: dsl_scheme
  wc_base_domain :: string
  wc_client_vars :: var_map
  wc_auth_credentials :: "(string, auth_credential_ir) btree"
  wc_client_auth :: "auth_use_ir list"
  wc_client_default_profile_names :: "string list"
  wc_rate_limit_profiles :: "(string, rl_plan_template) btree"
  wc_profiles :: "(string, profile_resolved) btree"

abbreviation enclosing :: "nat list \<Rightarrow> layer_ir list \<Rightarrow> layer_ir list" where
  "enclosing ancestry layers \<equiv> map (\<lambda>i. layers ! i) ancestry"

definition binding_entries :: "rl_key_binding list \<Rightarrow> (string \<times> rl_key_binding) list" where
  "binding_entries bs = map (\<lambda>b. (rkb_name b, b)) bs"

definition rate_limit_key_bindings_for_ancestry :: "layer_ir list \<Rightarrow> (string, rl_key_binding) btree" where
  "rate_limit_key_bindings_for_ancestry outer =
     bt_extend [] (concat (map (\<lambda>l. binding_entries (li_rate_limit_key_bindings l)) outer))"

text \<open>The profile clauses of a site, then its explicit clause.\<close>

definition resolve_site_rate_limit ::
    "walk_ctx \<Rightarrow> rl_spec list \<Rightarrow> rl_spec option \<Rightarrow> (string, rl_key_binding) btree \<Rightarrow> var_map option
      \<Rightarrow> rl_attachment_context \<Rightarrow> (string, rl_resolved option) result" where
  "resolve_site_rate_limit ctx specs explicit visible_keys vars actx =
     rbind (resolve_profile_rate_limit_specs specs (wc_rate_limit_profiles ctx) visible_keys vars actx)
       (\<lambda>from_profiles.
     rbind (resolve_rate_limit_spec explicit (wc_rate_limit_profiles ctx) visible_keys vars actx)
       (\<lambda>explicit.
     Inr (merge_rate_limit_resolved from_profiles explicit)))"

definition resolve_layer ::
    "'ip macro_env \<Rightarrow> walk_ctx \<Rightarrow> norm_scope \<Rightarrow> layer_ir list \<Rightarrow> nat \<Rightarrow> (string, layer_ir) result" where
  "resolve_layer env ctx ld outer layer_id =
     (let outer_decls = concat (map li_decls outer) in
      rbind (analyze_layer_route_and_decls ld outer_decls (wc_client_vars ctx)) (\<lambda>(prefix, path, decls).
      let layer_vars = bt_extend (bt_extend [] (by_name outer_decls)) (by_name decls) in
      rbind (resolve_rate_limit_key_bindings (ns_rate_limit_keys ld) decls) (\<lambda>key_bindings.
      rbind (validate_profile_uses_unique_at_site (ns_profile_uses ld)) (\<lambda>_.
      rbind (resolve_profile_uses (ns_profile_uses ld) (wc_profiles ctx)) (\<lambda>profile.
      rbind (resolve_policy_blocks (me_header_value_ok env) (me_uni_lower env) (ns_policy ld) OwnerLayer
               (wc_client_vars ctx) (Some layer_vars)) (\<lambda>policy.
      let visible_keys = bt_extend (rate_limit_key_bindings_for_ancestry outer) (binding_entries key_bindings) in
      rbind (resolve_site_rate_limit ctx (pr_rate_limit_specs profile) (ns_rate_limit ld) visible_keys None
               AttachLayer) (\<lambda>rate_limit.
      rbind (resolve_auth_requirements (pr_auth_uses profile @ ns_auth_uses ld) (wc_auth_credentials ctx)
               (FromScope layer_id)) (\<lambda>auth.
      Inr \<lparr>li_scope_name = ns_scope_name ld, li_kind = ns_kind ld, li_prefix_pieces = prefix,
           li_path_pieces = path, li_policy = policy\<lparr>pbr_rate_limit := rate_limit\<rparr>, li_auth = auth,
           li_rate_limit_key_bindings = key_bindings,
           li_profile_names = profile_use_names (ns_profile_uses ld), li_decls = decls\<rparr>))))))))"

section \<open>Endpoints\<close>

record resolved_endpoint =
  re_name :: ident
  re_alias :: "ident option"
  re_scope_modules :: "ident list"
  re_facade_param_groups :: "var_info list list"
  re_method :: ident
  re_prefix_pieces :: "prefix_piece list"
  re_scope_path_pieces :: "path_piece list"
  re_route_pieces :: "path_piece list"
  re_vars :: "var_info list"
  re_query_cardinalities :: "(string, query_value_cardinality) btree"
  re_request_entity :: request_entity_plan
  re_response_entity :: response_entity_plan
  re_policy_scopes :: "policy_blocks_resolved list"
  re_policy_endpoint :: policy_blocks_resolved
  re_auth :: "auth_requirement_ir list"
  re_profile_doc :: "string list"
  re_descriptor :: endpoint_descriptor
  re_paginate :: "paginate_resolved option"

text \<open>The variables of an endpoint with the order in which their names were first declared.\<close>

fun upsert_all :: "var_info list \<Rightarrow> var_map \<times> string list \<Rightarrow> (string, var_map \<times> string list) result" where
  "upsert_all [] st = Inr st"
| "upsert_all (v # vs) (vars, order) =
     (let order = (if bt_contains vars (vi_rust v) then order else order @ [vi_rust v]) in
      rbind (upsert_var vars (vi_rust v) (vi_optional v) (vi_ty v) (vi_default v)) (\<lambda>vars.
      upsert_all vs (vars, order)))"

definition ep_set_field :: "dsl_policy_op \<Rightarrow> (ident \<times> query_value_cardinality) option" where
  "ep_set_field op =
     (case op of
        PolicySet k (SetValue (PubEpField field)) c \<Rightarrow> Some (field, c)
      | PolicySet k (SetOptionalEpField field) c \<Rightarrow> Some (field, c)
      | _ \<Rightarrow> None)"

definition cx_set_field :: "dsl_policy_op \<Rightarrow> (ident \<times> query_value_cardinality) option" where
  "cx_set_field op =
     (case op of
        PolicySet k (SetValue (PubCxField field)) c \<Rightarrow> Some (field, c)
      | PolicySet k (SetOptionalCxField field) c \<Rightarrow> Some (field, c)
      | _ \<Rightarrow> None)"

definition collect_endpoint_query_cardinalities ::
    "policy_blocks_resolved list \<Rightarrow> policy_blocks_resolved \<Rightarrow> (string, query_value_cardinality) btree" where
  "collect_endpoint_query_cardinalities scopes endpoint =
     bt_extend [] (List.map_filter ep_set_field (concat (map pbr_query (scopes @ [endpoint]))))"

definition collect_client_query_cardinalities ::
    "policy_blocks_resolved \<Rightarrow> resolved_endpoint list \<Rightarrow> (string, query_value_cardinality) btree" where
  "collect_client_query_cardinalities client_policy endpoints =
     bt_extend [] (List.map_filter cx_set_field (concat (map pbr_query
       (client_policy # concat (map (\<lambda>e. re_policy_scopes e @ [re_policy_endpoint e]) endpoints)))))"

text \<open>Credentials obtained from this endpoint must not be needed to call it.\<close>

fun reject_self_acquisition ::
    "auth_credential_ir list \<Rightarrow> endpoint_target \<Rightarrow> auth_requirement_ir list \<Rightarrow> (string, unit) result" where
  "reject_self_acquisition [] target auth = Inr ()"
| "reject_self_acquisition (credential # credentials) target auth =
     (case aci_kind credential of
        IrEndpoint t ty shape \<Rightarrow>
          if t = target \<and> auth_plan_references_credential auth (aci_name credential) then
            Inl (''credential `'' @ aci_name credential @ ''` cannot acquire via endpoint `''
                 @ et_endpoint target @ ''` because the endpoint uses that credential'')
          else reject_self_acquisition credentials target auth
      | _ \<Rightarrow> reject_self_acquisition credentials target auth)"

definition supported_methods :: "string list" where
  "supported_methods = [''GET'', ''POST'', ''PUT'', ''DELETE'', ''HEAD'', ''OPTIONS'', ''PATCH'']"

definition check_pagination_io ::
    "paginate_spec option \<Rightarrow> response_body_io \<Rightarrow> response_entity_plan \<Rightarrow> request_entity_plan
      \<Rightarrow> (string, unit) result" where
  "check_pagination_io paginate response_io response_entity request_entity =
     (if response_io = RespBufferedBytes \<and> paginate \<noteq> None then
        Inl ''`Bytes` responses do not support pagination''
      else if \<not> rsc_supports_pagination (rsp_capabilities response_entity) \<and> paginate \<noteq> None then
        Inl ''pagination is only supported for buffered responses''
      else if rqc_has_body (rqp_capabilities request_entity) \<and> paginate \<noteq> None then
        Inl ''paginated endpoints with request bodies are not supported''
      else Inr ())"

definition option_list :: "'a option \<Rightarrow> 'a list" where
  "option_list x = (case x of None \<Rightarrow> [] | Some a \<Rightarrow> [a])"

text \<open>What an endpoint takes from the layers around it.\<close>

definition scope_modules_of :: "layer_ir list \<Rightarrow> ident list" where
  "scope_modules_of outer = concat (map (\<lambda>l. option_list (li_scope_name l)) outer)"

definition facade_groups_of :: "layer_ir list \<Rightarrow> var_info list list" where
  "facade_groups_of outer = map li_decls (filter (\<lambda>l. li_scope_name l \<noteq> None) outer)"

definition prefix_pieces_of :: "layer_ir list \<Rightarrow> prefix_piece list" where
  "prefix_pieces_of outer = concat (map (\<lambda>l. if li_kind l = KindPrefix then li_prefix_pieces l else []) outer)"

definition path_pieces_of :: "layer_ir list \<Rightarrow> path_piece list" where
  "path_pieces_of outer = concat (map (\<lambda>l. if li_kind l = KindPath then li_path_pieces l else []) outer)"

definition analyze_endpoint ::
    "'ip macro_env \<Rightarrow> walk_ctx \<Rightarrow> norm_endpoint \<Rightarrow> layer_ir list \<Rightarrow> (string, resolved_endpoint) result" where
  "analyze_endpoint env ctx ed outer =
     rbind (upsert_all (concat (map li_decls outer) @ map var_of_decl (ed_params ed)) ([], []))
       (\<lambda>(ep_vars, ep_var_order).
     rbind (collect_results (analyze_endpoint_atom (wc_client_vars ctx) ep_vars) (ed_route ed)) (\<lambda>route_pieces.
     rbind (resolve_policy_blocks (me_header_value_ok env) (me_uni_lower env) (ed_policy ed) OwnerEndpoint
              (wc_client_vars ctx) (Some ep_vars)) (\<lambda>policy.
     rbind (validate_profile_uses_unique_at_site (ed_profile_uses ed)) (\<lambda>_.
     rbind (resolve_profile_uses (ed_profile_uses ed) (wc_profiles ctx)) (\<lambda>profile.
     let endpoint_decls = List.map_filter (bt_get ep_vars) ep_var_order in
     rbind (resolve_rate_limit_key_bindings (ed_rate_limit_keys ed) endpoint_decls) (\<lambda>bindings.
     let visible_keys = bt_extend (rate_limit_key_bindings_for_ancestry outer) (binding_entries bindings) in
     rbind (resolve_site_rate_limit ctx (pr_rate_limit_specs profile) (ed_rate_limit ed) visible_keys
              (Some ep_vars) AttachEndpoint) (\<lambda>rate_limit.
     let policy = policy\<lparr>pbr_rate_limit := rate_limit\<rparr>;
         scope_modules = scope_modules_of outer;
         scope_policies = map li_policy outer;
         target = \<lparr>et_scope_modules = scope_modules, et_endpoint = ed_name ed\<rparr> in
     rbind (resolve_auth_requirements (pr_auth_uses profile @ ed_auth_uses ed) (wc_auth_credentials ctx)
              FromEndpoint) (\<lambda>own_auth.
     let auth_plans = wc_client_auth ctx @ concat (map li_auth outer) @ own_auth;
         auth = materialize_auth_requirements auth_plans (target_display_string target) 0 in
     rbind (validate_final_auth_materialization_targets auth (target_display_string target)) (\<lambda>_.
     rbind (reject_self_acquisition (map snd (wc_auth_credentials ctx)) target auth) (\<lambda>_.
     if ed_method ed \<notin> set supported_methods then Inl ''unsupported endpoint method''
     else
     rbind (classify_request_io (ed_body ed)) (\<lambda>request_io.
     let request_entity = request_entity_plan_ir env request_io in
     rbind (classify_http_response_io (ed_response ed)) (\<lambda>response_io.
     let response_entity = response_entity_plan_ir env response_io in
     rbind (check_pagination_io (ed_paginate ed) response_io response_entity request_entity) (\<lambda>_.
     rbind (case ed_paginate ed of
              None \<Rightarrow> Inr None
            | Some p \<Rightarrow> rbind (resolve_paginate p ep_vars) (\<lambda>r. Inr (Some r))) (\<lambda>paginate.
     let prefix_pieces = prefix_pieces_of outer in
     Inr \<lparr>re_name = ed_name ed, re_alias = ed_alias ed, re_scope_modules = scope_modules,
          re_facade_param_groups = facade_groups_of outer, re_method = ed_method ed,
          re_prefix_pieces = prefix_pieces, re_scope_path_pieces = path_pieces_of outer,
          re_route_pieces = route_pieces, re_vars = endpoint_decls,
          re_query_cardinalities = collect_endpoint_query_cardinalities scope_policies policy,
          re_request_entity = request_entity, re_response_entity = response_entity,
          re_policy_scopes = scope_policies, re_policy_endpoint = policy, re_auth = auth,
          re_profile_doc = retain_first [] (wc_client_default_profile_names ctx
            @ concat (map li_profile_names outer) @ profile_use_names (ed_profile_uses ed)),
          re_descriptor = resolve_endpoint_descriptor env (wc_base_scheme ctx) (wc_base_domain ctx)
            prefix_pieces request_io response_io paginate,
          re_paginate = paginate\<rparr>))))))))))))))"

section \<open>The walk\<close>

type_synonym walk_state = "layer_ir list \<times> resolved_endpoint list"

definition next_depth :: "norm_scope \<Rightarrow> nat \<Rightarrow> nat" where
  "next_depth ld depth = (if ns_scope_name ld \<noteq> None then depth + 1 else depth)"

fun walk_items ::
    "'ip macro_env \<Rightarrow> walk_ctx \<Rightarrow> norm_node list \<Rightarrow> nat list \<Rightarrow> walk_state \<Rightarrow> nat \<Rightarrow> (string, walk_state) result" where
  "walk_items env ctx [] ancestry st depth = Inr st"
| "walk_items env ctx (NormLayer ld kids # items) ancestry (layers, endpoints) depth =
     rbind (check_dsl_scope_depth (next_depth ld depth)) (\<lambda>_.
     let layer_id = length layers in
     rbind (resolve_layer env ctx ld (enclosing ancestry layers) layer_id) (\<lambda>layer.
     rbind (walk_items env ctx kids (ancestry @ [layer_id]) (layers @ [layer], endpoints) (next_depth ld depth))
       (\<lambda>st.
     walk_items env ctx items ancestry st depth)))"
| "walk_items env ctx (NormEndpoint ed # items) ancestry (layers, endpoints) depth =
     rbind (analyze_endpoint env ctx ed (enclosing ancestry layers)) (\<lambda>endpoint.
     walk_items env ctx items ancestry (layers, endpoints @ [endpoint]) depth)"

section \<open>The resolved API\<close>

definition endpoint_public_output_ty :: "norm_endpoint \<Rightarrow> (string, syn_type) result" where
  "endpoint_public_output_ty e =
     rbind (classify_http_response_io (ed_response e)) (\<lambda>io. Inr (response_public_output_ty io))"

fun collect_endpoint_output_types_into ::
    "norm_node list \<Rightarrow> (endpoint_target_key, syn_type) btree \<Rightarrow> ident list \<Rightarrow> nat
      \<Rightarrow> (string, (endpoint_target_key, syn_type) btree) result" where
  "collect_endpoint_output_types_into [] out scope_stack depth = Inr out"
| "collect_endpoint_output_types_into (NormLayer ld kids # items) out scope_stack depth =
     rbind (case ns_scope_name ld of
              Some name \<Rightarrow>
                rbind (check_dsl_scope_depth (depth + 1)) (\<lambda>_.
                collect_endpoint_output_types_into kids out (scope_stack @ [name]) (depth + 1))
            | None \<Rightarrow> collect_endpoint_output_types_into kids out scope_stack depth) (\<lambda>out.
     collect_endpoint_output_types_into items out scope_stack depth)"
| "collect_endpoint_output_types_into (NormEndpoint ed # items) out scope_stack depth =
     (let key = (scope_stack, ed_name ed) in
      if bt_contains out key then
        Inl (''duplicate endpoint `''
             @ (if scope_stack = [] then ed_name ed else join ''::'' scope_stack @ ''::'' @ ed_name ed)
             @ ''`'')
      else
        rbind (endpoint_public_output_ty ed) (\<lambda>output_ty.
        collect_endpoint_output_types_into items (bt_insert key output_ty out) scope_stack depth))"

definition collect_endpoint_output_types ::
    "norm_node list \<Rightarrow> (string, (endpoint_target_key, syn_type) btree) result" where
  "collect_endpoint_output_types items = collect_endpoint_output_types_into items [] [] 0"

datatype api_origin = ApiFixedSingle fixed_origin_descriptor | ApiMulti | ApiDynamic

text \<open>The set of fixed origins of all endpoints, or the early return.\<close>

fun collect_origins ::
    "resolved_endpoint list \<Rightarrow> fixed_origin_descriptor set \<Rightarrow> fixed_origin_descriptor set option" where
  "collect_origins [] origins = Some origins"
| "collect_origins (e # es) origins =
     (if edr_pagination_can_change_origin (re_descriptor e) then None
      else case edr_origin (re_descriptor e) of
        OriginFixed origin \<Rightarrow> collect_origins es (insert origin origins)
      | OriginDynamic \<Rightarrow> None)"

definition classify_api_origin :: "resolved_endpoint list \<Rightarrow> api_origin" where
  "classify_api_origin endpoints =
     (case collect_origins endpoints {} of
        None \<Rightarrow> ApiDynamic
      | Some origins \<Rightarrow>
          if origins = {} then ApiDynamic
          else if card origins = 1 then ApiFixedSingle (the_elem origins)
          else ApiMulti)"

definition is_ascii_uppercase :: "char \<Rightarrow> bool" where
  "is_ascii_uppercase c \<longleftrightarrow> 65 \<le> (of_char c :: nat) \<and> (of_char c :: nat) \<le> 90"

definition char_is_uppercase :: "'ip macro_env \<Rightarrow> string \<Rightarrow> bool" where
  "char_is_uppercase env ch =
     (if list_all is_ascii ch then list_all is_ascii_uppercase ch else me_uni_is_upper env ch)"

definition to_snake_char :: "'ip macro_env \<Rightarrow> nat \<Rightarrow> string \<Rightarrow> string" where
  "to_snake_char env i ch =
     (if char_is_uppercase env ch
      then (if i \<noteq> 0 then ''_'' else []) @ char_to_lowercase (me_uni_lower env) ch
      else ch)"

definition to_snake :: "'ip macro_env \<Rightarrow> string \<Rightarrow> string" where
  "to_snake env name = concat (map (\<lambda>(i, ch). to_snake_char env i ch) (List.enumerate 0 (chars name)))"

record resolved_api =
  rapi_mod_name :: ident
  rapi_client_name :: ident
  rapi_scheme :: dsl_scheme
  rapi_domain :: string
  rapi_client_vars :: "var_info list"
  rapi_client_auth_vars :: "var_info list"
  rapi_client_auth_credentials :: "auth_credential_ir list"
  rapi_client_policy :: policy_blocks_resolved
  rapi_client_query_cardinalities :: "(string, query_value_cardinality) btree"
  rapi_rate_limit_response_policy :: "syn_path option"
  rapi_origin :: api_origin
  rapi_endpoints :: "resolved_endpoint list"

text \<open>The \<open>vars\<close> and \<open>secret\<close> blocks: the map, and the variables in the order they were first declared.\<close>

fun declare_vars :: "string \<Rightarrow> var_decl list \<Rightarrow> var_map \<times> var_info list \<Rightarrow> (string, var_map \<times> var_info list) result" where
  "declare_vars kind [] st = Inr st"
| "declare_vars kind (d # ds) (m, vars) =
     rbind (upsert_var m (vd_rust d) (vd_optional d) (vd_ty d) (vd_default d)) (\<lambda>m'.
     rbind (if bt_contains m (vd_rust d) then Inr vars
            else case bt_get m' (vd_rust d) of
              None \<Rightarrow> Inl (''internal resolver error: inserted '' @ kind @ '' var missing from resolution map'')
            | Some v \<Rightarrow> Inr (vars @ [v])) (\<lambda>vars.
     declare_vars kind ds (m', vars)))"

definition declare_block ::
    "string \<Rightarrow> var_decl list option \<Rightarrow> (string, var_map \<times> var_info list) result" where
  "declare_block kind block = (case block of None \<Rightarrow> Inr ([], []) | Some ds \<Rightarrow> declare_vars kind ds ([], []))"

text \<open>\<open>resolve\<close> up to the resolved API, before the facade is built and checked.\<close>

definition resolve_api :: "'ip macro_env \<Rightarrow> norm_api_tree \<Rightarrow> (string, resolved_api) result" where
  "resolve_api env tree =
     (let c = nt_client tree in
      rbind (declare_block ''client'' (cl_vars c)) (\<lambda>(client_vars_map, client_vars).
      rbind (declare_block ''auth'' (cl_auth_vars c)) (\<lambda>(auth_vars_map, client_auth_vars).
      rbind (collect_endpoint_output_types (nt_items tree)) (\<lambda>endpoint_output_map.
      rbind (analyze_auth_credentials (me_parse_url env) (cl_auth c) auth_vars_map endpoint_output_map)
        (\<lambda>credentials.
      let credential_map = bt_extend [] (map (\<lambda>c. (aci_name c, c)) credentials) in
      rbind (resolve_rate_limit_profiles (cl_rate_limit c)) (\<lambda>rate_limit_profiles.
      rbind (resolve_profiles (cl_profiles c)) (\<lambda>profiles.
      rbind (validate_profile_uses_unique_at_site (cl_default_profile_uses c)) (\<lambda>_.
      rbind (resolve_profile_uses (cl_default_profile_uses c) profiles) (\<lambda>default_profile.
      rbind (resolve_profile_rate_limit_specs (pr_rate_limit_specs default_profile) rate_limit_profiles []
               None AttachClientBase) (\<lambda>default_profile_rate_limit.
      rbind (resolve_auth_requirements (pr_auth_uses default_profile @ cl_auth_uses c) credential_map
               FromClient) (\<lambda>client_auth.
      rbind (resolve_policy_blocks (me_header_value_ok env) (me_uni_lower env) (cl_policy c) OwnerClient
               client_vars_map None) (\<lambda>client_policy.
      rbind (resolve_client_rate_limit (cl_rate_limit c) rate_limit_profiles [] None)
        (\<lambda>explicit_default_rate_limit.
      let client_policy = client_policy\<lparr>pbr_rate_limit :=
            merge_rate_limit_resolved default_profile_rate_limit explicit_default_rate_limit\<rparr>;
          ctx = \<lparr>wc_base_scheme = cl_scheme c, wc_base_domain = cl_host c, wc_client_vars = client_vars_map,
                 wc_auth_credentials = credential_map, wc_client_auth = client_auth,
                 wc_client_default_profile_names = profile_use_names (cl_default_profile_uses c),
                 wc_rate_limit_profiles = rate_limit_profiles, wc_profiles = profiles\<rparr> in
      rbind (walk_items env ctx (nt_items tree) [] ([], []) 0) (\<lambda>(layers, endpoints).
      Inr \<lparr>rapi_mod_name = to_snake env (cl_name c), rapi_client_name = cl_name c,
           rapi_scheme = cl_scheme c, rapi_domain = cl_host c, rapi_client_vars = client_vars,
           rapi_client_auth_vars = client_auth_vars, rapi_client_auth_credentials = credentials,
           rapi_client_policy = client_policy,
           rapi_client_query_cardinalities = collect_client_query_cardinalities client_policy endpoints,
           rapi_rate_limit_response_policy = Option.bind (cl_rate_limit c) rb_response_policy,
           rapi_origin = classify_api_origin endpoints, rapi_endpoints = endpoints\<rparr>))))))))))))))"

end
