(* ===== verification/MacroItemsProps.thy ===== *)
theory MacroItemsProps
  imports MacroItems
begin

text \<open>
  What the analysis of \<open>MacroItems\<close> guarantees: its walk is a plain recursion that hands the enclosing
  layers down, the endpoints of a resolved API are those of the tree, each with a key of its own, the
  endpoints that credentials are acquired from exist and do not need those credentials, and an API
  with one fixed origin sends every request there.
\<close>

section \<open>The walk hands the enclosing layers down\<close>

text \<open>
  The specification: a scope resolves its layer in the layers around it and hands them on with its own
  layer added; \<open>n\<close> counts the layers resolved before.
\<close>

fun walk_tree ::
    "'ip macro_env \<Rightarrow> walk_ctx \<Rightarrow> norm_node list \<Rightarrow> layer_ir list \<Rightarrow> nat \<Rightarrow> nat \<Rightarrow> (string, walk_state) result" where
  "walk_tree env ctx [] outer n depth = Inr ([], [])"
| "walk_tree env ctx (NormLayer ld kids # items) outer n depth =
     rbind (check_dsl_scope_depth (next_depth ld depth)) (\<lambda>_.
     rbind (resolve_layer env ctx ld outer n) (\<lambda>layer.
     rbind (walk_tree env ctx kids (outer @ [layer]) (Suc n) (next_depth ld depth)) (\<lambda>(ls, es).
     rbind (walk_tree env ctx items outer (Suc n + length ls) depth) (\<lambda>(ls', es').
     Inr (layer # ls @ ls', es @ es')))))"
| "walk_tree env ctx (NormEndpoint ed # items) outer n depth =
     rbind (analyze_endpoint env ctx ed outer) (\<lambda>e.
     rbind (walk_tree env ctx items outer n depth) (\<lambda>(ls, es).
     Inr (ls, e # es)))"

lemma enclosing_append:
  "list_all (\<lambda>i. i < length layers) ancestry \<Longrightarrow> enclosing ancestry (layers @ later) = enclosing ancestry layers"
  by (auto simp: list_all_iff nth_append)

lemma list_all_less_mono:
  "list_all (\<lambda>i. i < (m :: nat)) is \<Longrightarrow> m \<le> n \<Longrightarrow> list_all (\<lambda>i. i < n) is"
  by (auto simp: list_all_iff)

lemma walk_items_tree:
  assumes "list_all (\<lambda>i. i < length layers) ancestry"
  shows "walk_items env ctx items ancestry (layers, endpoints) depth =
    rbind (walk_tree env ctx items (enclosing ancestry layers) (length layers) depth)
      (\<lambda>(ls, es). Inr (layers @ ls, endpoints @ es))"
  using assms
proof (induction env ctx items "enclosing ancestry layers" "length layers" depth
    arbitrary: ancestry layers endpoints rule: walk_tree.induct)
  case (1 env ctx depth)
  show ?case by simp
next
  case (2 env ctx ld kids items depth)
  show ?case
  proof (cases "check_dsl_scope_depth (next_depth ld depth)")
    case (Inr u)
    show ?thesis
    proof (cases "resolve_layer env ctx ld (enclosing ancestry layers) (length layers)")
      case layer: (Inr layer)
      have inner: "walk_items env ctx kids (ancestry @ [length layers]) (layers @ [layer], endpoints)
            (next_depth ld depth) =
          rbind (walk_tree env ctx kids (enclosing ancestry layers @ [layer]) (Suc (length layers))
            (next_depth ld depth)) (\<lambda>(ls, es). Inr (layers @ layer # ls, endpoints @ es))"
        using 2(1) [of layer "layers @ [layer]" "ancestry @ [length layers]" endpoints] 2(3) Inr layer
        by (simp add: list_all_less_mono [OF 2(3)] enclosing_append)
      show ?thesis
      proof (cases "walk_tree env ctx kids (enclosing ancestry layers @ [layer]) (Suc (length layers))
            (next_depth ld depth)")
        case kids: (Inr st)
        obtain ls es where st: "st = (ls, es)" by (cases st)
        have rest: "walk_items env ctx items ancestry (layers @ layer # ls, endpoints @ es) depth =
            rbind (walk_tree env ctx items (enclosing ancestry layers) (Suc (length layers) + length ls) depth)
              (\<lambda>(ls', es'). Inr (layers @ layer # ls @ ls', endpoints @ es @ es'))"
          using 2(2) [of "layers @ layer # ls" ancestry ls "endpoints @ es"] 2(3)
          by (simp add: list_all_less_mono [OF 2(3)] enclosing_append del: map_eq_conv)
        show ?thesis
          using Inr layer kids st inner rest
          by (cases "walk_tree env ctx items (enclosing ancestry layers) (Suc (length layers + length ls)) depth") auto
      qed (use Inr layer inner in simp)
    qed (use Inr in simp)
  qed simp
next
  case (3 env ctx ed items depth)
  show ?case
  proof (cases "analyze_endpoint env ctx ed (enclosing ancestry layers)")
    case (Inr e)
    with 3(1) [of layers ancestry "endpoints @ [e]"] 3(2) show ?thesis
      by (cases "walk_tree env ctx items (enclosing ancestry layers) (length layers) depth") auto
  qed simp
qed

text \<open>
  Property C16: the walk over scopes and endpoints, with its growing table of layers and the indices of
  the enclosing ones, computes what the recursion that hands the enclosing layers down computes: the
  same layers, the same endpoints in order, and the same first error.
\<close>

theorem walk_items_hands_layers_down:
  "walk_items env ctx items [] ([], []) 0 = walk_tree env ctx items [] 0 0"
  by (cases "walk_tree env ctx items [] 0 0") (simp_all add: walk_items_tree split_beta)

section \<open>Endpoints and the credentials acquired from them\<close>

text \<open>Every endpoint below the scopes \<open>stack\<close> with the key it is known by.\<close>

fun placed_at :: "ident list \<Rightarrow> norm_node list \<Rightarrow> (endpoint_target_key \<times> norm_endpoint) list" where
  "placed_at stack [] = []"
| "placed_at stack (NormLayer ld kids # items) =
     placed_at (stack @ option_list (ns_scope_name ld)) kids @ placed_at stack items"
| "placed_at stack (NormEndpoint ed # items) = ((stack, ed_name ed), ed) # placed_at stack items"

text \<open>The output types of some endpoints were added under keys that were not there.\<close>

definition outputs_added ::
    "('k::linorder, syn_type) btree \<Rightarrow> ('k \<times> norm_endpoint) list \<Rightarrow> ('k, syn_type) btree \<Rightarrow> bool" where
  "outputs_added out ps out' \<longleftrightarrow>
     bt_ok out' \<and> distinct (map fst ps) \<and> (\<forall>k. k \<in> fst ` set ps \<longrightarrow> bt_get out k = None)
     \<and> (\<forall>k. k \<notin> fst ` set ps \<longrightarrow> bt_get out' k = bt_get out k)
     \<and> (\<forall>k ed. (k, ed) \<in> set ps \<longrightarrow>
           (\<exists>ty. endpoint_public_output_ty ed = Inr ty \<and> bt_get out' k = Some ty))"

lemma outputs_added_ok: "outputs_added out ps out' \<Longrightarrow> bt_ok out'"
  by (simp add: outputs_added_def)

lemma outputs_added_type:
  "outputs_added out ps out' \<Longrightarrow> (k, ed) \<in> set ps \<Longrightarrow>
     \<exists>ty. endpoint_public_output_ty ed = Inr ty \<and> bt_get out' k = Some ty"
  unfolding outputs_added_def by (elim conjE) simp

lemma outputs_added_new: "outputs_added out ps out' \<Longrightarrow> k \<in> fst ` set ps \<Longrightarrow> bt_get out k = None"
  unfolding outputs_added_def by (elim conjE) simp

lemma outputs_added_kept: "outputs_added out ps out' \<Longrightarrow> k \<notin> fst ` set ps \<Longrightarrow> bt_get out' k = bt_get out k"
  unfolding outputs_added_def by (elim conjE) simp

lemma outputs_added_append:
  assumes ps: "outputs_added out ps mid" and qs: "outputs_added mid qs out'"
  shows "outputs_added out (ps @ qs) out'"
proof -
  have new: "k \<notin> fst ` set qs" if "k \<in> fst ` set ps" for k
  proof
    assume "k \<in> fst ` set qs"
    then have "bt_get mid k = None" by (rule outputs_added_new [OF qs])
    moreover obtain ed where "(k, ed) \<in> set ps" using \<open>k \<in> fst ` set ps\<close> by force
    ultimately show False using outputs_added_type [OF ps] by fastforce
  qed
  have kept: "bt_get out' k = bt_get mid k" if "k \<notin> fst ` set qs" for k
    using that by (rule outputs_added_kept [OF qs])
  have "distinct (map fst (ps @ qs))"
    using ps qs new by (auto simp: outputs_added_def)
  moreover have "\<exists>ty. endpoint_public_output_ty ed = Inr ty \<and> bt_get out' k = Some ty"
    if "(k, ed) \<in> set (ps @ qs)" for k ed
  proof (cases "(k, ed) \<in> set qs")
    case False
    then have "(k, ed) \<in> set ps" using that by simp
    moreover from this have "k \<notin> fst ` set qs" using new by force
    ultimately show ?thesis using outputs_added_type [OF ps] kept by simp
  qed (rule outputs_added_type [OF qs])
  moreover have "bt_get out k = None" if "k \<in> fst ` set (ps @ qs)" for k
  proof (cases "k \<in> fst ` set ps")
    case True
    then show ?thesis by (rule outputs_added_new [OF ps])
  next
    case False
    then have "bt_get mid k = bt_get out k" "k \<in> fst ` set qs"
      using outputs_added_kept [OF ps] that by (auto simp: image_Un)
    then show ?thesis using outputs_added_new [OF qs] by simp
  qed
  moreover have "bt_get out' k = bt_get out k" if "k \<notin> fst ` set (ps @ qs)" for k
    using that kept outputs_added_kept [OF ps] by (auto simp: image_Un)
  ultimately show ?thesis
    using outputs_added_ok [OF qs] unfolding outputs_added_def by (intro conjI allI impI)
qed

lemma outputs_added_one:
  assumes "bt_ok out" and "\<not> bt_contains out k" and "endpoint_public_output_ty ed = Inr ty"
  shows "outputs_added out [(k, ed)] (bt_insert k ty out)"
  using assms by (simp add: outputs_added_def bt_contains_iff map_of_eq_None_iff)

lemma collect_endpoint_output_types_into_ok:
  assumes "bt_ok out" and "collect_endpoint_output_types_into items out stack depth = Inr out'"
  shows "outputs_added out (placed_at stack items) out'"
  using assms
proof (induction items out stack depth arbitrary: out' rule: collect_endpoint_output_types_into.induct)
  case (1 out stack depth)
  then show ?case by (simp add: outputs_added_def)
next
  case (2 ld kids items out stack depth)
  obtain mid where rest: "collect_endpoint_output_types_into items mid stack depth = Inr out'"
      and mid: "outputs_added out (placed_at (stack @ option_list (ns_scope_name ld)) kids) mid"
    using 2(1,2,4,5) by (cases "ns_scope_name ld") (auto simp: rbind_Inr_iff option_list_def)
  then have "outputs_added mid (placed_at stack items) out'"
    using 2(3) outputs_added_ok by blast
  then show ?case
    using outputs_added_append [OF mid] by simp
next
  case (3 ed items out stack depth)
  then have k: "\<not> bt_contains out (stack, ed_name ed)" by (auto simp: Let_def)
  then obtain ty where ty: "endpoint_public_output_ty ed = Inr ty"
      and rest: "collect_endpoint_output_types_into items (bt_insert (stack, ed_name ed) ty out) stack depth = Inr out'"
    using 3(3) by (auto simp: rbind_Inr_iff)
  show ?case
    using outputs_added_append [OF outputs_added_one [OF 3(2) k ty]] 3(1) [OF refl k _ rest] 3(2) by simp
qed

lemma resolve_layer_scope_name:
  "resolve_layer env ctx ld outer n = Inr layer \<Longrightarrow> li_scope_name layer = ns_scope_name ld"
  by (auto simp: resolve_layer_def rbind_Inr_iff Let_def)

lemma walk_tree_placed:
  assumes "walk_tree env ctx items outer n depth = Inr (ls, es)"
  shows "list_all2 (\<lambda>(key, ed) e. \<exists>around. key = (scope_modules_of around, ed_name ed)
      \<and> analyze_endpoint env ctx ed around = Inr e) (placed_at (scope_modules_of outer) items) es"
  using assms
proof (induction env ctx items outer n depth arbitrary: ls es rule: walk_tree.induct)
  case (1 env ctx outer n depth)
  then show ?case by simp
next
  case (2 env ctx ld kids items outer n depth)
  from 2(3) obtain layer ks kes js ies where
      layer: "resolve_layer env ctx ld outer n = Inr layer"
    and kids: "walk_tree env ctx kids (outer @ [layer]) (Suc n) (next_depth ld depth) = Inr (ks, kes)"
    and items: "walk_tree env ctx items outer (Suc n + length ks) depth = Inr (js, ies)"
    and es: "es = kes @ ies"
    by (auto simp: rbind_Inr_iff)
  have "scope_modules_of (outer @ [layer]) = scope_modules_of outer @ option_list (ns_scope_name ld)"
    by (simp add: scope_modules_of_def resolve_layer_scope_name [OF layer])
  then show ?case
    using 2(1) [OF kids] 2(2) [OF items] by (simp add: es list_all2_appendI)
next
  case (3 env ctx ed items outer n depth)
  then show ?case by (auto simp: rbind_Inr_iff)
qed

lemma reject_self_acquisition_ok:
  "reject_self_acquisition credentials target auth = Inr () \<longleftrightarrow>
     (\<forall>c \<in> set credentials. \<forall>t ty shape. aci_kind c = IrEndpoint t ty shape \<longrightarrow> t = target
        \<longrightarrow> \<not> auth_plan_references_credential auth (aci_name c))"
  by (induction credentials) (auto split: auth_credential_kind_ir.splits)

lemma analyze_endpoint_ok:
  assumes "analyze_endpoint env ctx ed outer = Inr e"
  obtains request_io response_io where
    "re_name e = ed_name ed" "re_scope_modules e = scope_modules_of outer"
    "re_prefix_pieces e = prefix_pieces_of outer"
    "reject_self_acquisition (map snd (wc_auth_credentials ctx))
       \<lparr>et_scope_modules = scope_modules_of outer, et_endpoint = ed_name ed\<rparr> (re_auth e) = Inr ()"
    "classify_http_response_io (ed_response ed) = Inr response_io"
    "re_response_entity e = response_entity_plan_ir env response_io"
    "re_descriptor e = resolve_endpoint_descriptor env (wc_base_scheme ctx) (wc_base_domain ctx)
       (prefix_pieces_of outer) request_io response_io (re_paginate e)"
  using assms that
  by (simp add: analyze_endpoint_def rbind_Inr_iff Let_def split_beta split: if_splits) fastforce

lemma resolve_api_ok:
  assumes "resolve_api env tree = Inr api"
  obtains outputs auth_vars ctx st where
    "collect_endpoint_output_types (nt_items tree) = Inr outputs"
    "analyze_auth_credentials (me_parse_url env) (cl_auth (nt_client tree)) auth_vars outputs
       = Inr (rapi_client_auth_credentials api)"
    "walk_items env ctx (nt_items tree) [] ([], []) 0 = Inr st"
    "wc_auth_credentials ctx = bt_extend [] (map (\<lambda>c. (aci_name c, c)) (rapi_client_auth_credentials api))"
    "wc_base_scheme ctx = rapi_scheme api" "wc_base_domain ctx = rapi_domain api"
    "rapi_endpoints api = snd st" "rapi_origin api = classify_api_origin (rapi_endpoints api)"
  using assms unfolding resolve_api_def Let_def split_beta
  by - (elim rbind_InrE, drule Inr_inject [THEN sym], rule that, assumption, simp, assumption, simp_all)

lemma resolved_endpoints:
  assumes "resolve_api env tree = Inr api"
  obtains outputs ctx where
    "outputs_added [] (placed_at [] (nt_items tree)) outputs"
    "wc_base_scheme ctx = rapi_scheme api" "wc_base_domain ctx = rapi_domain api"
    "set (map snd (wc_auth_credentials ctx)) = set (rapi_client_auth_credentials api)"
    "\<forall>c \<in> set (rapi_client_auth_credentials api). \<exists>auth_vars. credential_backed auth_vars outputs (aci_kind c)"
    "list_all2 (\<lambda>(key, ed) e. \<exists>around. key = (scope_modules_of around, ed_name ed)
      \<and> analyze_endpoint env ctx ed around = Inr e) (placed_at [] (nt_items tree)) (rapi_endpoints api)"
    "rapi_origin api = classify_api_origin (rapi_endpoints api)"
proof -
  obtain outputs auth_vars ctx st where
      outputs: "collect_endpoint_output_types (nt_items tree) = Inr outputs"
    and creds: "analyze_auth_credentials (me_parse_url env) (cl_auth (nt_client tree)) auth_vars outputs
       = Inr (rapi_client_auth_credentials api)"
    and walk: "walk_items env ctx (nt_items tree) [] ([], []) 0 = Inr st"
    and ctx: "wc_auth_credentials ctx = bt_extend [] (map (\<lambda>c. (aci_name c, c)) (rapi_client_auth_credentials api))"
      "wc_base_scheme ctx = rapi_scheme api" "wc_base_domain ctx = rapi_domain api"
    and es: "rapi_endpoints api = snd st"
    and origin: "rapi_origin api = classify_api_origin (rapi_endpoints api)"
    using assms by (rule resolve_api_ok)
  have backed: "distinct (map aci_name (rapi_client_auth_credentials api))
      \<and> list_all (\<lambda>c. credential_backed auth_vars outputs (aci_kind c)) (rapi_client_auth_credentials api)"
    using creds analyze_credentials_from_ok
    by (fastforce simp: analyze_auth_credentials_def split: option.splits)
  have "walk_tree env ctx (nt_items tree) [] 0 0 = Inr st"
    using walk by (cases "walk_tree env ctx (nt_items tree) [] 0 0") (auto simp: walk_items_tree)
  then have "list_all2 (\<lambda>(key, ed) e. \<exists>around. key = (scope_modules_of around, ed_name ed)
      \<and> analyze_endpoint env ctx ed around = Inr e) (placed_at [] (nt_items tree)) (rapi_endpoints api)"
    using walk_tree_placed [of env ctx "nt_items tree" "[]" 0 0 "fst st" "snd st"]
    by (simp add: es scope_modules_of_def)
  moreover have "outputs_added [] (placed_at [] (nt_items tree)) outputs"
    using outputs collect_endpoint_output_types_into_ok [of "[]" "nt_items tree" "[]" 0 outputs]
    by (simp add: collect_endpoint_output_types_def)
  ultimately show thesis
    using that [of outputs ctx] ctx backed origin bt_extend_values [of aci_name "rapi_client_auth_credentials api"]
    by (auto simp: list_all_iff simp del: set_map)
qed

lemma collect_origins_Some:
  "collect_origins es origins = Some out \<longleftrightarrow>
     (\<forall>e \<in> set es. \<not> edr_pagination_can_change_origin (re_descriptor e)
        \<and> edr_origin (re_descriptor e) \<noteq> OriginDynamic)
     \<and> out = origins \<union> {o'. \<exists>e \<in> set es. edr_origin (re_descriptor e) = OriginFixed o'}"
  by (induction es arbitrary: origins) (auto split: endpoint_origin.splits)

lemma classify_api_origin_fixed:
  "classify_api_origin es = ApiFixedSingle origin \<longleftrightarrow>
     es \<noteq> [] \<and> (\<forall>e \<in> set es. \<not> edr_pagination_can_change_origin (re_descriptor e)
        \<and> edr_origin (re_descriptor e) = OriginFixed origin)"
proof
  assume "classify_api_origin es = ApiFixedSingle origin"
  then obtain origins where o: "collect_origins es {} = Some origins" "card origins = 1" "origin = the_elem origins"
    by (auto simp: classify_api_origin_def split: option.splits if_splits)
  have "origins = {origin}"
    using card_1_singletonE [OF o(2)] o(3) by (metis the_elem_eq)
  then have one: "{o'. \<exists>e \<in> set es. edr_origin (re_descriptor e) = OriginFixed o'} = {origin}"
    using o(1) unfolding collect_origins_Some by (elim conjE) (simp only: Un_empty_left)
  show "es \<noteq> [] \<and> (\<forall>e \<in> set es. \<not> edr_pagination_can_change_origin (re_descriptor e)
        \<and> edr_origin (re_descriptor e) = OriginFixed origin)"
  proof (intro conjI ballI)
    show "es \<noteq> []" using one by auto
    fix e assume e: "e \<in> set es"
    then show "\<not> edr_pagination_can_change_origin (re_descriptor e)"
      using o(1) by (simp add: collect_origins_Some)
    show "edr_origin (re_descriptor e) = OriginFixed origin"
      using o(1) e one by (cases "edr_origin (re_descriptor e)") (auto simp: collect_origins_Some)
  qed
next
  assume r: "es \<noteq> [] \<and> (\<forall>e \<in> set es. \<not> edr_pagination_can_change_origin (re_descriptor e)
        \<and> edr_origin (re_descriptor e) = OriginFixed origin)"
  then have "{o'. \<exists>e \<in> set es. edr_origin (re_descriptor e) = OriginFixed o'} = {origin}"
    by (cases es) auto
  then have "collect_origins es {} = Some {origin}"
    using r by (auto simp: collect_origins_Some)
  then show "classify_api_origin es = ApiFixedSingle origin"
    by (simp add: classify_api_origin_def)
qed

lemma resolved_endpoint_origin:
  assumes "resolve_api env tree = Inr api" and "e \<in> set (rapi_endpoints api)"
  shows "edr_origin (re_descriptor e) =
    classify_endpoint_origin (me_origin_ops env) (rapi_scheme api) (rapi_domain api) (re_prefix_pieces e)"
proof -
  obtain outputs ctx where ctx: "wc_base_scheme ctx = rapi_scheme api" "wc_base_domain ctx = rapi_domain api"
    and all: "list_all2 (\<lambda>(key, ed) e. \<exists>around. key = (scope_modules_of around, ed_name ed)
      \<and> analyze_endpoint env ctx ed around = Inr e) (placed_at [] (nt_items tree)) (rapi_endpoints api)"
    using assms(1) by (rule resolved_endpoints) (rule that)
  obtain ed around where "analyze_endpoint env ctx ed around = Inr e"
    using list_all2_right [OF all assms(2)] by auto
  then show ?thesis
    by (rule analyze_endpoint_ok) (simp add: resolve_endpoint_descriptor_def ctx)
qed

text \<open>
  Property C12: an API whose origin is classified as one fixed origin sends every request there. For
  every endpoint and whatever values its variables have, the emitted route builds a host that
  validation accepts, made of the labels and port of that origin's authority around the host of the
  client's base URL.
\<close>

theorem fixed_api_origin_is_every_request_host:
  assumes "resolve_api env tree = Inr api" and "rapi_origin api = ApiFixedSingle origin"
    and "e \<in> set (rapi_endpoints api)"
  shows "\<exists>labels raw_host port host_text.
    fod_scheme origin = origin_scheme_of (rapi_scheme api)
    \<and> fod_authority origin = authority_with_port (combine_host labels host_text) port
    \<and> same_host (me_origin_ops env) raw_host host_text
    \<and> (\<forall>opts values ctx.
         let h = emit_prefix_route_apply (re_prefix_pieces e) opts values host_parts_default in
         validate_host h ctx = Inr ()
         \<and> join_host h (rapi_domain api) = authority_with_port (combine_host labels raw_host) port)"
proof -
  have "classify_api_origin (rapi_endpoints api) = ApiFixedSingle origin"
    using assms(1,2) by (metis resolved_endpoints)
  then have "edr_origin (re_descriptor e) = OriginFixed origin"
    using assms(3) by (simp add: classify_api_origin_fixed)
  then show ?thesis
    using fixed_origin_host resolved_endpoint_origin [OF assms(1,3)] by metis
qed

text \<open>
  Property C13: in a resolved API no two endpoints share their scopes and name, and a credential that
  is acquired from an endpoint names one of them: the endpoint returns the type the credential was
  given, and calling it does not need the credential itself.
\<close>

theorem acquisition_endpoints_exist:
  assumes "resolve_api env tree = Inr api"
  shows "distinct (map (\<lambda>e. (re_scope_modules e, re_name e)) (rapi_endpoints api))
    \<and> (\<forall>c t ty shape. c \<in> set (rapi_client_auth_credentials api) \<longrightarrow> aci_kind c = IrEndpoint t ty shape \<longrightarrow>
         (\<exists>e. e \<in> set (rapi_endpoints api) \<and> re_scope_modules e = et_scope_modules t \<and> re_name e = et_endpoint t
            \<and> rsp_public_output_ty (re_response_entity e) = ty \<and> shape = shape_from_type ty
            \<and> \<not> auth_plan_references_credential (re_auth e) (aci_name c)))"
proof -
  let ?ps = "placed_at [] (nt_items tree)" and ?es = "rapi_endpoints api"
  obtain outputs ctx where outputs: "outputs_added [] ?ps outputs"
    and creds: "set (map snd (wc_auth_credentials ctx)) = set (rapi_client_auth_credentials api)"
    and backed: "\<forall>c \<in> set (rapi_client_auth_credentials api).
        \<exists>auth_vars. credential_backed auth_vars outputs (aci_kind c)"
    and all: "list_all2 (\<lambda>(key, ed) e. \<exists>around. key = (scope_modules_of around, ed_name ed)
      \<and> analyze_endpoint env ctx ed around = Inr e) ?ps ?es"
    using assms by (rule resolved_endpoints) (rule that)
  have "list_all2 (\<lambda>p e. fst p = (re_scope_modules e, re_name e)) ?ps ?es"
    by (rule list_all2_mono [OF all]) (auto elim: analyze_endpoint_ok)
  then have keys: "map (\<lambda>e. (re_scope_modules e, re_name e)) ?es = map fst ?ps"
    by (auto simp: list_all2_conv_all_nth intro: nth_equalityI)
  have "\<exists>e. e \<in> set ?es \<and> re_scope_modules e = et_scope_modules t \<and> re_name e = et_endpoint t
            \<and> rsp_public_output_ty (re_response_entity e) = ty \<and> shape = shape_from_type ty
            \<and> \<not> auth_plan_references_credential (re_auth e) (aci_name c)"
    if c: "c \<in> set (rapi_client_auth_credentials api)" "aci_kind c = IrEndpoint t ty shape" for c t ty shape
  proof -
    have ty: "bt_get outputs (target_key t) = Some ty" and shape: "shape = shape_from_type ty"
      using bspec [OF backed c(1)] c(2) by (auto simp: credential_backed_def)
    then have "target_key t \<in> fst ` set ?ps"
      using outputs_added_kept [OF outputs] by fastforce
    then obtain ed where p: "(target_key t, ed) \<in> set ?ps" by force
    then obtain e around where e: "e \<in> set ?es" "target_key t = (scope_modules_of around, ed_name ed)"
        and an: "analyze_endpoint env ctx ed around = Inr e"
      using list_all2_left [OF all p] by auto
    from an show ?thesis
    proof (rule analyze_endpoint_ok)
      fix request_io response_io
      assume names: "re_name e = ed_name ed" "re_scope_modules e = scope_modules_of around"
        and rej: "reject_self_acquisition (map snd (wc_auth_credentials ctx))
           \<lparr>et_scope_modules = scope_modules_of around, et_endpoint = ed_name ed\<rparr> (re_auth e) = Inr ()"
        and io: "classify_http_response_io (ed_response ed) = Inr response_io"
        and plan: "re_response_entity e = response_entity_plan_ir env response_io"
      have "t = \<lparr>et_scope_modules = scope_modules_of around, et_endpoint = ed_name ed\<rparr>"
        using e(2) by (cases t) (simp add: target_key_def)
      then have "\<not> auth_plan_references_credential (re_auth e) (aci_name c)"
        using rej c unfolding reject_self_acquisition_ok creds by simp
      moreover have "rsp_public_output_ty (re_response_entity e) = ty"
        using outputs_added_type [OF outputs p] ty io
        by (auto simp: plan endpoint_public_output_ty_def response_entity_plan_ir_def split: response_body_io.splits)
      ultimately show ?thesis
        using e names shape by (auto simp: target_key_def)
    qed
  qed
  moreover have "distinct (map fst ?ps)"
    using outputs by (simp add: outputs_added_def)
  ultimately show ?thesis
    by (simp add: keys)
qed

text \<open>A client with one endpoint in a scope, which returns the token the client acquires.\<close>

definition sample_env :: "nat macro_env" where
  "sample_env =
     \<lparr>me_header_value_ok = (\<lambda>_. True), me_uni_lower = (\<lambda>c. c), me_uni_upper = (\<lambda>c. c),
      me_uni_is_upper = (\<lambda>_. False), me_xid_start = (\<lambda>_. False), me_xid_continue = (\<lambda>_. False),
      me_parse_url = (\<lambda>_. Inl ''not parsed''),
      me_origin_ops = domain_ops, me_show_type = (\<lambda>_. ''type''), me_show_path = (\<lambda>_. ''path''),
      me_show_expr = (\<lambda>_. ''expr''), me_debug_fmt = (\<lambda>_. ''fmt'')\<rparr>"

definition sample_ty :: "ident \<Rightarrow> syn_type" where
  "sample_ty name = TyPath None (ident_path name)"

definition json_io :: "ident \<Rightarrow> raw_io_spec" where
  "json_io name =
     \<lparr>io_marker = TyPath None (SynPath False [Segment ''J'' (ArgsAngle [NType (sample_ty name)])]),
      io_enc = ident_path ''J'', io_ty = sample_ty name, io_args = [sample_ty name],
      io_had_angle_args = True\<rparr>"

definition sample_endpoint :: "ident \<Rightarrow> ident \<Rightarrow> norm_auth_use list \<Rightarrow> norm_endpoint" where
  "sample_endpoint name result uses =
     \<lparr>ed_method = ''GET'', ed_name = name, ed_alias = None, ed_route = [AtomStatic ''v''],
      ed_params = [], ed_policy = default_policy_blocks, ed_profile_uses = [], ed_auth_uses = uses,
      ed_rate_limit = None, ed_rate_limit_keys = [], ed_paginate = None, ed_body = None,
      ed_response = json_io result\<rparr>"

definition sample_scope :: norm_scope where
  "sample_scope =
     \<lparr>ns_scope_name = Some ''s'', ns_kind = KindPrefix, ns_route = [AtomStatic ''a''], ns_params = [],
      ns_policy = default_policy_blocks, ns_profile_uses = [], ns_auth_uses = [], ns_rate_limit = None,
      ns_rate_limit_keys = []\<rparr>"

definition sample_client :: norm_client where
  "sample_client =
     \<lparr>cl_name = ''S'', cl_scheme = SchemeHttps, cl_host = ''b'',
      cl_policy = default_policy_blocks, cl_vars = None, cl_auth_vars = None,
      cl_auth = Some [\<lparr>ac_name = ''t'',
        ac_kind = CredEndpoint (SynPath False [Segment ''s'' ArgsNone, Segment ''L'' ArgsNone])\<rparr>],
      cl_auth_uses = [], cl_default_profile_uses = [], cl_rate_limit = None, cl_profiles = None\<rparr>"

definition sample_tree :: norm_api_tree where
  "sample_tree =
     \<lparr>nt_client = sample_client,
      nt_items = [NormLayer sample_scope
        [NormEndpoint (sample_endpoint ''L'' ''AccessToken'' [])]]\<rparr>"

lemma sample_resolves:
  "case resolve_api sample_env sample_tree of
     Inl err \<Rightarrow> False
   | Inr api \<Rightarrow>
       rapi_origin api = ApiFixedSingle \<lparr>fod_scheme = OriginHttps, fod_authority = ''a.b''\<rparr>
       \<and> map re_name (rapi_endpoints api) = [''L'']
       \<and> map aci_kind (rapi_client_auth_credentials api)
           = [IrEndpoint \<lparr>et_scope_modules = [''s''], et_endpoint = ''L''\<rparr> (sample_ty ''AccessToken'') ShapeAccessToken]"
  by code_simp

theorem fixed_api_origin_is_every_request_host_witness:
  "\<exists>api e. resolve_api sample_env sample_tree = Inr api \<and> e \<in> set (rapi_endpoints api)
    \<and> (\<exists>labels raw_host port host_text.
         ''a.b'' = authority_with_port (combine_host labels host_text) port
         \<and> same_host domain_ops raw_host host_text)"
proof -
  obtain api where api: "resolve_api sample_env sample_tree = Inr api"
      "rapi_origin api = ApiFixedSingle \<lparr>fod_scheme = OriginHttps, fod_authority = ''a.b''\<rparr>"
      "map re_name (rapi_endpoints api) = [''L'']"
    using sample_resolves by (auto split: sum.splits)
  then obtain e where e: "e \<in> set (rapi_endpoints api)"
    by (cases "rapi_endpoints api") auto
  show ?thesis
    using api(1) e fixed_api_origin_is_every_request_host [OF api(1,2) e]
    by (auto simp: sample_env_def)
qed

theorem acquisition_endpoints_exist_witness:
  "\<exists>api c e. resolve_api sample_env sample_tree = Inr api \<and> c \<in> set (rapi_client_auth_credentials api)
    \<and> e \<in> set (rapi_endpoints api) \<and> re_name e = ''L''
    \<and> \<not> auth_plan_references_credential (re_auth e) (aci_name c)"
proof -
  obtain api where api: "resolve_api sample_env sample_tree = Inr api"
      "map aci_kind (rapi_client_auth_credentials api)
         = [IrEndpoint \<lparr>et_scope_modules = [''s''], et_endpoint = ''L''\<rparr> (sample_ty ''AccessToken'') ShapeAccessToken]"
    using sample_resolves by (auto split: sum.splits)
  then obtain c where c: "c \<in> set (rapi_client_auth_credentials api)"
      "aci_kind c = IrEndpoint \<lparr>et_scope_modules = [''s''], et_endpoint = ''L''\<rparr> (sample_ty ''AccessToken'') ShapeAccessToken"
    by auto
  then show ?thesis
    using api(1) acquisition_endpoints_exist [OF api(1)] by fastforce
qed

end
