(* ===== verification/MacroFacade.thy ===== *)
theory MacroFacade
  imports MacroItemsProps "HOL-Library.Sublist"
begin

text \<open>
  \<open>model/facade.rs\<close>: the public surface of the generated client, that is the scopes with their setters
  and accessors, the endpoint methods with their arguments, the helpers of acquired credentials, the
  documentation lines, and the tables that find them. \<open>Ident::new\<close> panics on a text that is not an
  identifier, so building the facade can fail. Shown are that every variable of an endpoint can be
  supplied in exactly one way, that the tables find what they index, and that the documented rate limit
  is the one the policy layers make.
\<close>

section \<open>Identifiers and generated names\<close>

datatype macro_failure = Diagnosed "string list" | Panicked string

definition is_ascii_alpha :: "char \<Rightarrow> bool" where
  "is_ascii_alpha c \<longleftrightarrow> is_ascii_uppercase c \<or> is_ascii_lowercase c"

definition xid_start :: "'ip macro_env \<Rightarrow> string \<Rightarrow> bool" where
  "xid_start env ch =
     (if is_ascii (hd ch) then ch = ''_'' \<or> list_all is_ascii_alpha ch else me_xid_start env ch)"

definition xid_continue :: "'ip macro_env \<Rightarrow> string \<Rightarrow> bool" where
  "xid_continue env ch =
     (if is_ascii (hd ch)
      then ch = ''_'' \<or> list_all (\<lambda>c. is_ascii_alpha c \<or> is_digit_char c) ch
      else me_xid_continue env ch)"

definition valid_ident :: "'ip macro_env \<Rightarrow> string \<Rightarrow> bool" where
  "valid_ident env s =
     (case chars s of [] \<Rightarrow> False | c # cs \<Rightarrow> xid_start env c \<and> list_all (xid_continue env) cs)"

definition ident_new :: "'ip macro_env \<Rightarrow> string \<Rightarrow> (macro_failure, ident) result" where
  "ident_new env s =
     (if valid_ident env s then Inr s else Inl (Panicked (s @ '' is not a valid identifier'')))"

definition ident_path_strings :: "ident list \<Rightarrow> string list" where
  "ident_path_strings path = path"

definition ascii_upper :: "char \<Rightarrow> char" where
  "ascii_upper c =
     (let n = (of_char c :: nat) in if 97 \<le> n \<and> n \<le> 122 then char_of (n - 32) else c)"

definition char_to_uppercase :: "'ip macro_env \<Rightarrow> string \<Rightarrow> string" where
  "char_to_uppercase env ch = (if list_all is_ascii ch then map ascii_upper ch else me_uni_upper env ch)"

definition pascal_part :: "'ip macro_env \<Rightarrow> string \<Rightarrow> string" where
  "pascal_part env part =
     (case chars part of [] \<Rightarrow> [] | c # cs \<Rightarrow> char_to_uppercase env c @ concat cs)"

definition generated_pascal_name :: "'ip macro_env \<Rightarrow> string \<Rightarrow> string" where
  "generated_pascal_name env raw =
     concat (map (pascal_part env) (filter (\<lambda>part. part \<noteq> []) (split_on CHR ''_'' raw)))"

definition pascalize_ident_path :: "'ip macro_env \<Rightarrow> ident list \<Rightarrow> string" where
  "pascalize_ident_path env path = concat (map (generated_pascal_name env) path)"

fun pascal_to_snake_from :: "bool \<Rightarrow> string list \<Rightarrow> string" where
  "pascal_to_snake_from prev_lower_or_digit [] = []"
| "pascal_to_snake_from prev_lower_or_digit (ch # chs) =
     (if list_all is_ascii_uppercase ch
      then (if prev_lower_or_digit then ''_'' else []) @ to_ascii_lowercase ch
           @ pascal_to_snake_from False chs
      else ch @ pascal_to_snake_from (list_all (\<lambda>c. is_ascii_lowercase c \<or> is_digit_char c) ch) chs)"

definition pascal_to_snake :: "string \<Rightarrow> string" where
  "pascal_to_snake raw = pascal_to_snake_from False (chars raw)"

definition generated_endpoint_method_name :: "string \<Rightarrow> string" where
  "generated_endpoint_method_name raw = pascal_to_snake raw"

definition generated_scope_type_name :: "'ip macro_env \<Rightarrow> ident \<Rightarrow> ident list \<Rightarrow> string" where
  "generated_scope_type_name env client_name path =
     client_name @ pascalize_ident_path env path @ ''Scope''"

definition client_prefixed_type_name :: "ident \<Rightarrow> string \<Rightarrow> string" where
  "client_prefixed_type_name client tail = client @ tail"

definition generated_auth_facade_type_name :: "ident \<Rightarrow> string" where
  "generated_auth_facade_type_name client = client_prefixed_type_name client ''Auth''"

definition generated_auth_handle_type_name :: "'ip macro_env \<Rightarrow> ident \<Rightarrow> ident \<Rightarrow> string" where
  "generated_auth_handle_type_name env client credential =
     client @ generated_pascal_name env credential @ ''Auth''"

definition generated_acquire_as_trait_type_name :: "'ip macro_env \<Rightarrow> ident \<Rightarrow> ident \<Rightarrow> string" where
  "generated_acquire_as_trait_type_name env client credential =
     client @ ''AcquireAs'' @ generated_pascal_name env credential @ ''Ext''"

definition generated_endpoint_request_ext_trait_type_name :: "'ip macro_env \<Rightarrow> resolved_endpoint \<Rightarrow> string" where
  "generated_endpoint_request_ext_trait_type_name env ep =
     concat (map (generated_pascal_name env) (re_scope_modules ep))
     @ generated_pascal_name env (re_name ep) @ ''RequestExt''"

section \<open>The facade\<close>

record facade_doc =
  fdo_summary :: string
  fdo_details :: "string list"

definition doc_line :: "string \<Rightarrow> facade_doc" where
  "doc_line s = \<lparr>fdo_summary = s, fdo_details = []\<rparr>"

datatype setter_form = FormSet | FormSetOptional | FormClear

record facade_setter =
  fse_field :: ident
  fse_ty :: syn_type
  fse_set_name :: ident
  fse_set_optional_name :: ident
  fse_clear_name :: ident
  fse_forms :: "setter_form list"
  fse_set_doc :: string
  fse_set_optional_doc :: string
  fse_clear_doc :: string

record facade_method =
  fme_public_name :: ident
  fme_target_scope_path :: "ident list"
  fme_target_scope_type_name :: ident
  fme_docs :: "facade_doc list"

record facade_credential_methods =
  fcm_credential :: ident
  fcm_acquire_name :: ident
  fcm_set_name :: ident
  fcm_clear_name :: ident
  fcm_has_name :: ident
  fcm_pending_method :: ident

datatype facade_arg_kind = ArgValue | ArgBody

record facade_arg =
  far_name :: ident
  far_ty :: syn_type
  far_kind :: facade_arg_kind

datatype facade_constructor_arg = PublicArg ident | CapturedScopeField ident

record facade_captured_setter =
  fcs_field :: ident
  fcs_optional :: bool

record facade_scope =
  fsc_path :: "ident list"
  fsc_public_name :: ident
  fsc_public_method :: ident
  fsc_rust_type_name :: ident
  fsc_parent_path :: "ident list"
  fsc_decls :: "var_info list"
  fsc_setters :: "facade_setter list"
  fsc_methods :: "facade_method list"
  fsc_constructor_docs :: "facade_doc list"
  fsc_docs :: "facade_doc list"

record facade_endpoint =
  fep_target :: endpoint_target
  fep_public_method :: ident
  fep_scope_path :: "ident list"
  fep_required_args :: "facade_arg list"
  fep_constructor_args :: "facade_constructor_arg list"
  fep_captured_setters :: "facade_captured_setter list"
  fep_setters :: "facade_setter list"
  fep_docs :: "facade_doc list"

record facade_ir =
  fir_client_name :: ident
  fir_client_setters :: "facade_setter list"
  fir_auth_setters :: "facade_setter list"
  fir_credential_methods :: "facade_credential_methods list"
  fir_scopes :: "facade_scope list"
  fir_endpoints :: "facade_endpoint list"
  fir_docs :: "facade_doc list"
  fir_scope_index :: "(string list, nat) btree"
  fir_endpoint_index :: "(endpoint_target_key, nat) btree"
  fir_credential_methods_index :: "(string, nat) btree"

definition scope_path_key :: "ident list \<Rightarrow> string list" where
  "scope_path_key path = path"

definition resolved_endpoint_key :: "resolved_endpoint \<Rightarrow> endpoint_target_key" where
  "resolved_endpoint_key ep = (re_scope_modules ep, re_name ep)"

definition scope_for_path :: "facade_ir \<Rightarrow> ident list \<Rightarrow> facade_scope option" where
  "scope_for_path ir path =
     map_option (\<lambda>index. fir_scopes ir ! index) (bt_get (fir_scope_index ir) (scope_path_key path))"

definition endpoint_for_resolved :: "facade_ir \<Rightarrow> resolved_endpoint \<Rightarrow> facade_endpoint option" where
  "endpoint_for_resolved ir ep =
     map_option (\<lambda>index. fir_endpoints ir ! index) (bt_get (fir_endpoint_index ir) (resolved_endpoint_key ep))"

definition credential_methods_for :: "facade_ir \<Rightarrow> ident \<Rightarrow> facade_credential_methods option" where
  "credential_methods_for ir name =
     map_option (\<lambda>index. fir_credential_methods ir ! index) (bt_get (fir_credential_methods_index ir) name)"

section \<open>Client setters and credential helpers\<close>

definition is_endpoint_credential :: "auth_credential_ir \<Rightarrow> bool" where
  "is_endpoint_credential c = (case aci_kind c of IrEndpoint _ _ _ \<Rightarrow> True | _ \<Rightarrow> False)"

definition credential_methods :: "'ip macro_env \<Rightarrow> auth_credential_ir \<Rightarrow> (macro_failure, facade_credential_methods) result" where
  "credential_methods env c =
     (let name = aci_name c in
      rbind (ident_new env (''acquire_auth_'' @ name)) (\<lambda>acquire.
      rbind (ident_new env (''set_auth_'' @ name @ ''_value'')) (\<lambda>set_name.
      rbind (ident_new env (''clear_auth_'' @ name)) (\<lambda>clear.
      rbind (ident_new env (''has_auth_'' @ name)) (\<lambda>has.
      rbind (ident_new env (''acquire_as_'' @ name)) (\<lambda>pending.
      Inr \<lparr>fcm_credential = name, fcm_acquire_name = acquire, fcm_set_name = set_name,
           fcm_clear_name = clear, fcm_has_name = has, fcm_pending_method = pending\<rparr>))))))"

definition facade_credential_methods ::
    "'ip macro_env \<Rightarrow> auth_credential_ir list \<Rightarrow> (macro_failure, facade_credential_methods list) result" where
  "facade_credential_methods env credentials =
     collect_results (credential_methods env) (filter is_endpoint_credential credentials)"

definition vector_note :: string where
  "vector_note = '' Values produce repeated query pairs in vector order; setting the vector replaces existing values, and an empty vector removes the key.''"

definition is_vector :: "query_value_cardinality option \<Rightarrow> bool" where
  "is_vector c \<longleftrightarrow> c = Some Vector \<or> c = Some OptionalVector"

definition facade_client_setter_docs ::
    "var_info \<Rightarrow> (string, query_value_cardinality) btree \<Rightarrow> string \<times> string \<times> string" where
  "facade_client_setter_docs var cards =
     (let field = vi_rust var;
          note_text = (if is_vector (bt_get cards field) then vector_note else [])
      in (''Set client parameter `'' @ field @ ''`.'' @ note_text,
          ''Set or clear client parameter `'' @ field @ ''` from an Option; None clears it.'' @ note_text,
          if bt_get cards field = Some OptionalVector then
            ''Clear client parameter `'' @ field @ ''`; this produces None and removes the query key.'' @ note_text
          else ''Clear client parameter `'' @ field @ ''`.'' @ note_text))"

definition facade_client_setter ::
    "'ip macro_env \<Rightarrow> (string, query_value_cardinality) btree \<Rightarrow> var_info \<Rightarrow> (macro_failure, facade_setter) result" where
  "facade_client_setter env cards var =
     (let field = vi_rust var; (set_doc, set_optional_doc, clear_doc) = facade_client_setter_docs var cards in
      rbind (ident_new env (''set_'' @ field)) (\<lambda>set_name.
      rbind (ident_new env (''set_'' @ field @ ''_opt'')) (\<lambda>set_optional_name.
      rbind (ident_new env (''clear_'' @ field)) (\<lambda>clear_name.
      Inr \<lparr>fse_field = field, fse_ty = vi_ty var, fse_set_name = set_name,
           fse_set_optional_name = set_optional_name, fse_clear_name = clear_name,
           fse_forms = FormSet # (if vi_optional var then [FormClear] else []),
           fse_set_doc = set_doc, fse_set_optional_doc = set_optional_doc, fse_clear_doc = clear_doc\<rparr>))))"

definition facade_client_setters ::
    "'ip macro_env \<Rightarrow> var_info list \<Rightarrow> (string, query_value_cardinality) btree
      \<Rightarrow> (macro_failure, facade_setter list) result" where
  "facade_client_setters env vars cards = collect_results (facade_client_setter env cards) vars"

section \<open>Scopes\<close>

record facade_scope_info =
  fsi_path :: "ident list"
  fsi_decls :: "var_info list"
  fsi_query_cardinalities :: "(string, query_value_cardinality) btree"

text \<open>The scopes of one endpoint, outermost first.\<close>

definition scope_infos_of :: "resolved_endpoint \<Rightarrow> facade_scope_info list" where
  "scope_infos_of ep =
     map (\<lambda>idx.
       let decls = concat (take (idx + 1) (re_facade_param_groups ep)) in
       \<lparr>fsi_path = take (idx + 1) (re_scope_modules ep), fsi_decls = decls,
        fsi_query_cardinalities =
          filter (\<lambda>(field, _). field \<in> set (map vi_rust decls)) (re_query_cardinalities ep)\<rparr>)
       [0..<length (re_scope_modules ep)]"

fun add_scope_info :: "facade_scope_info \<Rightarrow> facade_scope_info list \<Rightarrow> facade_scope_info list" where
  "add_scope_info info [] = [info]"
| "add_scope_info info (existing # scopes) =
     (if fsi_path existing = fsi_path info
      then existing\<lparr>fsi_query_cardinalities :=
             bt_extend (fsi_query_cardinalities existing) (fsi_query_cardinalities info)\<rparr> # scopes
      else existing # add_scope_info info scopes)"

definition collect_facade_scopes :: "resolved_api \<Rightarrow> facade_scope_info list" where
  "collect_facade_scopes api =
     fold add_scope_info (concat (map scope_infos_of (rapi_endpoints api))) []"

definition index_facade_scopes :: "facade_scope_info list \<Rightarrow> (string list, nat) btree" where
  "index_facade_scopes infos =
     bt_extend [] (map (\<lambda>(idx, scope). (scope_path_key (fsi_path scope), idx)) (List.enumerate 0 infos))"

definition push_child :: "nat \<times> facade_scope_info \<Rightarrow> (string list, nat list) btree \<Rightarrow> (string list, nat list) btree" where
  "push_child p kids =
     (let (idx, scope) = p in
      if length (fsi_path scope) \<le> 1 then kids
      else
        (let parent = scope_path_key (butlast (fsi_path scope));
             known = (case bt_get kids parent of None \<Rightarrow> [] | Some is \<Rightarrow> is)
         in bt_insert parent (known @ [idx]) kids))"

definition index_facade_scope_children :: "facade_scope_info list \<Rightarrow> (string list, nat list) btree" where
  "index_facade_scope_children infos = fold push_child (List.enumerate 0 infos) []"

definition index_facade_endpoints :: "resolved_api \<Rightarrow> (endpoint_target_key, nat) btree" where
  "index_facade_endpoints api =
     bt_extend [] (map (\<lambda>(idx, ep). (resolved_endpoint_key ep, idx)) (List.enumerate 0 (rapi_endpoints api)))"

definition index_facade_credential_methods :: "resolved_api \<Rightarrow> (string, nat) btree" where
  "index_facade_credential_methods api =
     bt_extend [] (map (\<lambda>(idx, c). (aci_name c, idx))
       (List.enumerate 0 (filter is_endpoint_credential (rapi_client_auth_credentials api))))"

text \<open>The documentation of a setter for a scope or endpoint variable, whose role is \<open>role\<close>.\<close>

definition setter_docs :: "string \<Rightarrow> var_info \<Rightarrow> bool \<Rightarrow> string \<times> string \<times> string" where
  "setter_docs role var vector =
     (let field = vi_rust var; note_text = (if vector then vector_note else []) in
      if vi_optional var then
        (''Set optional '' @ role @ '' parameter `'' @ field @ ''`.'' @ note_text,
         ''Set or clear optional '' @ role @ '' parameter `'' @ field @ ''` from an Option; None clears it.'' @ note_text,
         ''Clear optional '' @ role @ '' parameter `'' @ field @ ''`.'' @ note_text)
      else
        (''Set defaulted '' @ role @ '' parameter `'' @ field @ ''`.'' @ note_text,
         ''Set defaulted '' @ role @ '' parameter `'' @ field
           @ ''` from an Option; None resets to the declared default.'' @ note_text,
         ''Reset defaulted '' @ role @ '' parameter `'' @ field @ ''` to its declared default.'' @ note_text))"

definition facade_scope_setter_docs ::
    "var_info \<Rightarrow> (string, query_value_cardinality) btree \<Rightarrow> string \<times> string \<times> string" where
  "facade_scope_setter_docs var cards = setter_docs ''scope'' var (is_vector (bt_get cards (vi_rust var)))"

definition has_setter :: "var_info \<Rightarrow> bool" where
  "has_setter var \<longleftrightarrow> vi_optional var \<or> vi_default var \<noteq> None"

text \<open>The setter of a scope or endpoint variable is named like the variable.\<close>

definition field_setter ::
    "'ip macro_env \<Rightarrow> var_info \<Rightarrow> setter_form list \<Rightarrow> string \<times> string \<times> string \<Rightarrow> (macro_failure, facade_setter) result" where
  "field_setter env var forms docs =
     (let (set_doc, set_optional_doc, clear_doc) = docs in
      rbind (ident_new env (vi_rust var @ ''_opt'')) (\<lambda>set_optional_name.
      rbind (ident_new env (''clear_'' @ vi_rust var)) (\<lambda>clear_name.
      Inr \<lparr>fse_field = vi_rust var, fse_ty = vi_ty var, fse_set_name = vi_rust var,
           fse_set_optional_name = set_optional_name, fse_clear_name = clear_name, fse_forms = forms,
           fse_set_doc = set_doc, fse_set_optional_doc = set_optional_doc, fse_clear_doc = clear_doc\<rparr>)))"

definition facade_scope_setter ::
    "'ip macro_env \<Rightarrow> (string, query_value_cardinality) btree \<Rightarrow> var_info \<Rightarrow> (macro_failure, facade_setter) result" where
  "facade_scope_setter env cards var =
     field_setter env var (FormSet # (if vi_optional var then [FormClear] else []))
       (facade_scope_setter_docs var cards)"

definition facade_child_method ::
    "'ip macro_env \<Rightarrow> ident \<Rightarrow> facade_scope_info \<Rightarrow> (macro_failure, facade_method) result" where
  "facade_child_method env client_name child =
     rbind (ident_new env (generated_scope_type_name env client_name (fsi_path child))) (\<lambda>type_name.
     Inr \<lparr>fme_public_name = last (fsi_path child), fme_target_scope_path = fsi_path child,
          fme_target_scope_type_name = type_name,
          fme_docs = [doc_line (''Enter the `'' @ join ''::'' (ident_path_strings (fsi_path child)) @ ''` facade scope.'')]\<rparr>)"

definition facade_scope_from_info ::
    "'ip macro_env \<Rightarrow> resolved_api \<Rightarrow> facade_scope_info list \<Rightarrow> (string list, nat list) btree \<Rightarrow> facade_scope_info
      \<Rightarrow> (macro_failure, facade_scope) result" where
  "facade_scope_from_info env api infos kids scope =
     (let path = fsi_path scope;
          child_indices = (case bt_get kids (scope_path_key path) of None \<Rightarrow> [] | Some is \<Rightarrow> is)
      in
      rbind (collect_results (\<lambda>i. facade_child_method env (rapi_client_name api) (infos ! i)) child_indices) (\<lambda>methods.
      rbind (collect_results (facade_scope_setter env (fsi_query_cardinalities scope))
               (filter has_setter (fsi_decls scope))) (\<lambda>setters.
      rbind (ident_new env (generated_scope_type_name env (rapi_client_name api) path)) (\<lambda>type_name.
      Inr \<lparr>fsc_path = path, fsc_public_name = last path, fsc_public_method = last path,
           fsc_rust_type_name = type_name, fsc_parent_path = butlast path, fsc_decls = fsi_decls scope,
           fsc_setters = setters, fsc_methods = methods,
           fsc_constructor_docs = [doc_line (''Enter the `'' @ join ''::'' (ident_path_strings path) @ ''` facade scope.'')],
           fsc_docs = [doc_line (''Facade handle for the `'' @ join ''::'' (ident_path_strings path) @ ''` scope.'')]\<rparr>))))"

section \<open>Which fields an endpoint uses where\<close>

definition fmt_uses_ep_field :: "fmt_resolved \<Rightarrow> ident \<Rightarrow> bool" where
  "fmt_uses_ep_field fmt field \<longleftrightarrow>
     list_ex (\<lambda>piece. case piece of ResVar SourceEp candidate _ \<Rightarrow> candidate = field | _ \<Rightarrow> False) (fr_pieces fmt)"

definition route_pieces_use_ep_field :: "path_piece list \<Rightarrow> ident \<Rightarrow> bool" where
  "route_pieces_use_ep_field pieces field \<longleftrightarrow>
     list_ex (\<lambda>piece. case piece of
        PtEpVar candidate \<Rightarrow> candidate = field
      | PtFmt fmt \<Rightarrow> fmt_uses_ep_field fmt field
      | _ \<Rightarrow> False) pieces"

definition value_kind_uses_ep_field :: "public_value_kind \<Rightarrow> ident \<Rightarrow> bool" where
  "value_kind_uses_ep_field v field \<longleftrightarrow>
     (case v of PubEpField candidate \<Rightarrow> candidate = field | PubFmt fmt \<Rightarrow> fmt_uses_ep_field fmt field | _ \<Rightarrow> False)"

definition policy_set_value_uses_ep_field :: "policy_set_value \<Rightarrow> ident \<Rightarrow> bool" where
  "policy_set_value_uses_ep_field v field \<longleftrightarrow>
     (case v of
        SetOptionalEpField candidate \<Rightarrow> candidate = field
      | SetValue v \<Rightarrow> value_kind_uses_ep_field v field
      | SetOptionalCxField _ \<Rightarrow> False)"

definition policy_ops_use_ep_field :: "dsl_policy_op list \<Rightarrow> ident \<Rightarrow> bool" where
  "policy_ops_use_ep_field ops field \<longleftrightarrow>
     list_ex (\<lambda>op. case op of
        PolicySet _ v _ \<Rightarrow> policy_set_value_uses_ep_field v field
      | PolicyRemove _ \<Rightarrow> False) ops"

definition endpoint_var_role :: "resolved_endpoint \<Rightarrow> ident \<Rightarrow> string" where
  "endpoint_var_role ep field =
     (if route_pieces_use_ep_field (re_scope_path_pieces ep) field
         \<or> route_pieces_use_ep_field (re_route_pieces ep) field then ''path''
      else if policy_ops_use_ep_field (pbr_query (re_policy_endpoint ep)) field
         \<or> list_ex (\<lambda>p. policy_ops_use_ep_field (pbr_query p) field) (re_policy_scopes ep) then ''query''
      else if policy_ops_use_ep_field (pbr_headers (re_policy_endpoint ep)) field
         \<or> list_ex (\<lambda>p. policy_ops_use_ep_field (pbr_headers p) field) (re_policy_scopes ep) then ''header''
      else ''request'')"

definition facade_setter_docs :: "resolved_endpoint \<Rightarrow> var_info \<Rightarrow> string \<times> string \<times> string" where
  "facade_setter_docs ep var =
     (let role = endpoint_var_role ep (vi_rust var) in
      setter_docs role var
        (role = ''query'' \<and> is_vector (bt_get (re_query_cardinalities ep) (vi_rust var))))"

definition facade_request_body_ty :: "resolved_endpoint \<Rightarrow> syn_type option" where
  "facade_request_body_ty ep = rqp_public_input_ty (re_request_entity ep)"

section \<open>Documentation lines\<close>

definition remove_spaces :: "string \<Rightarrow> string" where
  "remove_spaces s = filter (\<lambda>c. c \<noteq> CHR '' '') s"

definition type_to_doc :: "'ip macro_env \<Rightarrow> syn_type \<Rightarrow> string" where
  "type_to_doc env ty = remove_spaces (me_show_type env ty)"

definition doc_path :: "resolved_endpoint \<Rightarrow> string" where
  "doc_path ep =
     (let pieces = map (\<lambda>piece. case piece of
            PtStatic v \<Rightarrow> v
          | PtCxVar field _ \<Rightarrow> ''{'' @ field @ ''}''
          | PtEpVar field \<Rightarrow> ''{'' @ field @ ''}''
          | PtFmt _ \<Rightarrow> ''{part}'') (re_scope_path_pieces ep @ re_route_pieces ep)
      in if pieces = [] then ''/'' else ''/'' @ join ''/'' pieces)"

definition profile_doc_line :: "string list \<Rightarrow> string option" where
  "profile_doc_line names =
     (if names = [] then None
      else Some (''Profile: '' @ join '', '' (map (\<lambda>name. ''`'' @ name @ ''`'') names)))"

definition scheme_name :: "dsl_scheme \<Rightarrow> string" where
  "scheme_name scheme = (case scheme of SchemeHttp \<Rightarrow> ''http'' | SchemeHttps \<Rightarrow> ''https'')"

definition http_doc_lines :: "resolved_api \<Rightarrow> resolved_endpoint \<Rightarrow> string list" where
  "http_doc_lines api ep =
     [''Method: '' @ re_method ep, ''Path: '' @ doc_path ep,
      ''Base: '' @ scheme_name (rapi_scheme api) @ ''://'' @ rapi_domain api]"

definition push_section :: "facade_doc list \<Rightarrow> string \<Rightarrow> string list \<Rightarrow> facade_doc list" where
  "push_section docs title lines =
     docs @ (if docs \<noteq> [] then [doc_line []] else []) @ [doc_line title]
     @ map (\<lambda>line. doc_line (''- '' @ line)) lines"

definition strip_doc_prefix :: "string \<Rightarrow> string \<Rightarrow> string" where
  "strip_doc_prefix s start = (case strip_prefix start s of None \<Rightarrow> s | Some rest \<Rightarrow> rest)"

definition doc_auth_requirement :: "auth_requirement_ir \<Rightarrow> string" where
  "doc_auth_requirement auth =
     (case ari_placement auth of
        PlacedBearer \<Rightarrow> ''bearer `'' @ ari_credential auth @ ''`''
      | PlacedHeader name \<Rightarrow> ''header `'' @ name @ ''` = `'' @ ari_credential auth @ ''`''
      | PlacedQuery key \<Rightarrow> ''query `'' @ key @ ''` = `'' @ ari_credential auth @ ''`''
      | PlacedBasic \<Rightarrow> ''basic `'' @ ari_credential auth @ ''`'')"

definition auth_doc_lines :: "resolved_endpoint \<Rightarrow> string list" where
  "auth_doc_lines ep = (if re_auth ep = [] then [''none''] else map doc_auth_requirement (re_auth ep))"

definition response_terminal_method :: "resolved_endpoint \<Rightarrow> string" where
  "response_terminal_method ep =
     (let summary = (case iod_facade_summary (rsp_doc (re_response_entity ep)) of None \<Rightarrow> [] | Some s \<Rightarrow> s) in
      if starts_with summary ''Response: Stream<'' then ''execute_stream'' else ''execute'')"

definition response_doc_lines :: "'ip macro_env \<Rightarrow> resolved_endpoint \<Rightarrow> string list" where
  "response_doc_lines env ep =
     (let entity = re_response_entity ep;
          output_ty = type_to_doc env (rsp_public_output_ty entity);
          terminal = response_terminal_method ep
      in (case iod_facade_summary (rsp_doc entity) of
            None \<Rightarrow> [] | Some summary \<Rightarrow> [strip_doc_prefix summary ''Response: ''])
         @ (if rsc_is_streaming (rsp_capabilities entity) then
              [''Terminal: `.'' @ terminal @ ''().await` returns `'' @ output_ty @ ''`'',
               ''Metadata terminal: `.response().await` is unavailable; use `.'' @ terminal @ ''().await`.'']
            else
              [''Terminal: `.execute().await` returns `'' @ output_ty @ ''`'',
               ''Metadata terminal: `.response().await` returns `DecodedResponse<'' @ output_ty
                 @ ''>` with status, headers, url, and meta.'']))"

definition pagination_doc_lines :: "'ip macro_env \<Rightarrow> paginate_resolved \<Rightarrow> string list" where
  "pagination_doc_lines env pagination =
     [''Controller: '' @ type_to_doc env (pgr_controller_ty pagination),
      ''Collect-only via `.paginate(...).collect()`.'']"

definition rate_limit_key_doc :: "rl_key_resolved \<Rightarrow> string" where
  "rate_limit_key_doc key =
     (case key of
        KrRouteHost \<Rightarrow> ''host'' | KrEndpoint \<Rightarrow> ''endpoint'' | KrMethod \<Rightarrow> ''method''
      | KrEpField name _ \<Rightarrow> ''`'' @ name @ ''`''
      | KrStatic name v \<Rightarrow> name @ ''=`'' @ v @ ''`'')"

definition rate_limit_doc_lines :: "rl_plan_resolved \<Rightarrow> string list" where
  "rate_limit_doc_lines plan =
     map (\<lambda>bucket.
       ''bucket `'' @ rbk_kind bucket @ ''` key [''
       @ join '', '' (map rate_limit_key_doc (rbk_key bucket))
       @ ''] cost '' @ decimal (unat (rbk_cost bucket)) @ '' windows [''
       @ join '', '' (map (\<lambda>w. decimal (unat (rwr_max w)) @ '' / '' @ decimal (unat (rwr_per_secs w)) @ ''s'')
           (rbk_windows bucket)) @ '']'') plan"

definition apply_rate_limit_layer :: "rl_resolved option \<Rightarrow> rl_resolved option \<Rightarrow> rl_resolved option" where
  "apply_rate_limit_layer current layer =
     (case layer of
        None \<Rightarrow> current
      | Some incoming \<Rightarrow>
          (case current of
             None \<Rightarrow> Some incoming
           | Some RlClear \<Rightarrow> Some incoming
           | Some (RlAdd parent) \<Rightarrow>
               (case incoming of
                  RlAdd child \<Rightarrow> Some (RlAdd (parent @ child))
                | RlReplace plan \<Rightarrow> Some (RlReplace plan)
                | RlClear \<Rightarrow> Some RlClear)
           | Some (RlReplace parent) \<Rightarrow>
               (case incoming of
                  RlAdd child \<Rightarrow> Some (RlReplace (parent @ child))
                | RlReplace plan \<Rightarrow> Some (RlReplace plan)
                | RlClear \<Rightarrow> Some RlClear)))"

definition effective_rate_limit :: "resolved_endpoint \<Rightarrow> policy_blocks_resolved \<Rightarrow> rl_plan_resolved option" where
  "effective_rate_limit ep client_policy =
     (let current = apply_rate_limit_layer None (pbr_rate_limit client_policy);
          current = foldl (\<lambda>c scope. apply_rate_limit_layer c (pbr_rate_limit scope)) current (re_policy_scopes ep)
      in case apply_rate_limit_layer current (pbr_rate_limit (re_policy_endpoint ep)) of
           Some (RlAdd plan) \<Rightarrow> Some plan
         | Some (RlReplace plan) \<Rightarrow> Some plan
         | _ \<Rightarrow> None)"

definition effective_timeout :: "resolved_endpoint \<Rightarrow> policy_blocks_resolved \<Rightarrow> public_value_kind option" where
  "effective_timeout ep client_policy =
     (let timeout = foldl (\<lambda>t scope. case pbr_timeout scope of None \<Rightarrow> t | Some v \<Rightarrow> Some v)
            (pbr_timeout client_policy) (re_policy_scopes ep)
      in case pbr_timeout (re_policy_endpoint ep) of None \<Rightarrow> timeout | Some v \<Rightarrow> Some v)"

definition doc_public_value :: "'ip macro_env \<Rightarrow> public_value_kind \<Rightarrow> string" where
  "doc_public_value env v =
     (case v of
        PubLitStr lit \<Rightarrow> lit
      | PubCxField field \<Rightarrow> ''vars.'' @ field
      | PubEpField field \<Rightarrow> field
      | PubOtherExpr expr \<Rightarrow> remove_spaces (me_show_expr env expr)
      | PubFmt fmt \<Rightarrow> me_debug_fmt env fmt)"

definition safety_doc_lines :: "string list" where
  "safety_doc_lines = [''Names and metadata only; secret values and body bytes are redacted.'']"

definition replayability_doc_line :: "resolved_endpoint \<Rightarrow> string" where
  "replayability_doc_line ep =
     (let caps = rqp_capabilities (re_request_entity ep) in
      if rqc_is_streaming caps \<or> rqc_is_multipart caps then ''non-replayable'' else ''replayable'')"

definition doc_key_string :: "'ip macro_env \<Rightarrow> key_resolved \<Rightarrow> policy_key_kind \<Rightarrow> string" where
  "doc_key_string env key kind =
     (case key of
        KeyStatic lit \<Rightarrow> lit
      | KeyIdentifier i \<Rightarrow> (case kind of KindHeader \<Rightarrow> to_kebab (me_uni_lower env) i | KindQuery \<Rightarrow> i))"

definition op_key :: "dsl_policy_op \<Rightarrow> key_resolved" where
  "op_key op = (case op of PolicySet key _ _ \<Rightarrow> key | PolicyRemove key \<Rightarrow> key)"

definition doc_policy_keys ::
    "'ip macro_env \<Rightarrow> resolved_endpoint \<Rightarrow> policy_blocks_resolved \<Rightarrow> policy_key_kind \<Rightarrow> string list" where
  "doc_policy_keys env ep client_policy kind =
     (let policies = client_policy # re_policy_scopes ep @ [re_policy_endpoint ep];
          ops = concat (map (\<lambda>p. case kind of KindHeader \<Rightarrow> pbr_headers p | KindQuery \<Rightarrow> pbr_query p) policies)
      in fold (\<lambda>op keys. snd (bs_insert (''`'' @ doc_key_string env (op_key op) kind @ ''`'') keys)) ops [])"

definition push_section_if :: "bool \<Rightarrow> facade_doc list \<Rightarrow> string \<Rightarrow> string list \<Rightarrow> facade_doc list" where
  "push_section_if cond docs title lines = (if cond then push_section docs title lines else docs)"

definition facade_endpoint_doc_texts ::
    "'ip macro_env \<Rightarrow> resolved_api \<Rightarrow> resolved_endpoint \<Rightarrow> facade_doc list" where
  "facade_endpoint_doc_texts env api ep =
     (let docs = [doc_line (re_method ep @ '' '' @ doc_path ep)];
          docs = docs @ (case profile_doc_line (re_profile_doc ep) of None \<Rightarrow> [] | Some l \<Rightarrow> [doc_line l]);
          docs = push_section docs ''HTTP:'' (http_doc_lines api ep);
          required = map (\<lambda>var. ''`'' @ vi_rust var @ ''`'') (filter (\<lambda>var. \<not> has_setter var) (re_vars ep));
          docs = push_section_if (required \<noteq> []) docs ''Request:'' [''Required params: '' @ join '', '' required];
          query = doc_policy_keys env ep (rapi_client_policy api) KindQuery;
          docs = push_section_if (query \<noteq> []) docs ''Query:'' [''Params: '' @ join '', '' query];
          headers = doc_policy_keys env ep (rapi_client_policy api) KindHeader;
          docs = push_section_if (headers \<noteq> []) docs ''Headers:'' [''Names: '' @ join '', '' headers];
          docs = push_section docs ''Response:'' (response_doc_lines env ep);
          docs = push_section docs ''Auth:'' (auth_doc_lines ep);
          docs = (case effective_timeout ep (rapi_client_policy api) of
                    None \<Rightarrow> docs
                  | Some timeout \<Rightarrow> push_section docs ''Timeout:'' [''Value: '' @ doc_public_value env timeout]);
          docs = push_section docs ''Retry:'' [''selected at client construction through `RetryMode`''];
          docs = push_section docs ''Rate limit:''
            (case effective_rate_limit ep (rapi_client_policy api) of
               Some limits \<Rightarrow> rate_limit_doc_lines limits | None \<Rightarrow> [''none'']);
          docs = (case re_paginate ep of
                    None \<Rightarrow> docs
                  | Some pagination \<Rightarrow> push_section docs ''Pagination:'' (pagination_doc_lines env pagination));
          docs = (case iod_facade_summary (rqp_doc (re_request_entity ep)) of
                    None \<Rightarrow> docs
                  | Some body_summary \<Rightarrow>
                      push_section (push_section docs ''Body:'' [strip_doc_prefix body_summary ''Body: ''])
                        ''Replayability:'' [replayability_doc_line ep])
      in push_section docs ''Safety:'' safety_doc_lines)"

section \<open>Endpoints\<close>

definition captured_names :: "resolved_endpoint \<Rightarrow> string list" where
  "captured_names ep = map vi_rust (concat (re_facade_param_groups ep))"

fun endpoint_args ::
    "string list \<Rightarrow> var_info list \<Rightarrow> facade_arg list \<times> facade_constructor_arg list
      \<Rightarrow> facade_arg list \<times> facade_constructor_arg list" where
  "endpoint_args captured [] st = st"
| "endpoint_args captured (var # vars) (required, constructor) =
     (let is_captured = vi_rust var \<in> set captured in
      if has_setter var \<and> is_captured then endpoint_args captured vars (required, constructor)
      else
        (let required =
               (if \<not> is_captured \<and> \<not> has_setter var
                then required @ [\<lparr>far_name = vi_rust var, far_ty = vi_ty var, far_kind = ArgValue\<rparr>]
                else required);
             constructor =
               (if \<not> has_setter var
                then constructor @ [if is_captured then CapturedScopeField (vi_rust var) else PublicArg (vi_rust var)]
                else constructor)
         in endpoint_args captured vars (required, constructor)))"

definition body_args ::
    "syn_type option \<Rightarrow> facade_arg list \<times> facade_constructor_arg list
      \<Rightarrow> facade_arg list \<times> facade_constructor_arg list" where
  "body_args body st =
     (case body of
        None \<Rightarrow> st
      | Some body_ty \<Rightarrow>
          (fst st @ [\<lparr>far_name = ''body'', far_ty = body_ty, far_kind = ArgBody\<rparr>], snd st @ [PublicArg ''body'']))"

definition facade_endpoint_setter ::
    "'ip macro_env \<Rightarrow> resolved_endpoint \<Rightarrow> var_info \<Rightarrow> (macro_failure, facade_setter) result" where
  "facade_endpoint_setter env ep var =
     field_setter env var (FormSet # (if vi_optional var then [FormSetOptional, FormClear] else []))
       (facade_setter_docs ep var)"

definition facade_endpoint_from_resolved ::
    "'ip macro_env \<Rightarrow> resolved_api \<Rightarrow> resolved_endpoint \<Rightarrow> (macro_failure, facade_endpoint) result" where
  "facade_endpoint_from_resolved env api ep =
     (let captured = captured_names ep;
          (required_args, constructor_args) =
            body_args (facade_request_body_ty ep) (endpoint_args captured (re_vars ep) ([], []));
          captured_setters = map (\<lambda>var. \<lparr>fcs_field = vi_rust var, fcs_optional = vi_optional var\<rparr>)
            (filter has_setter (concat (re_facade_param_groups ep)))
      in
      rbind (collect_results (facade_endpoint_setter env ep)
               (filter has_setter (filter (\<lambda>var. vi_rust var \<notin> set captured) (re_vars ep)))) (\<lambda>setters.
      let public_method = (case re_alias ep of None \<Rightarrow> re_name ep | Some alias \<Rightarrow> alias) in
      rbind (ident_new env (generated_endpoint_method_name public_method)) (\<lambda>public_method.
      Inr \<lparr>fep_target = \<lparr>et_scope_modules = re_scope_modules ep, et_endpoint = re_name ep\<rparr>,
           fep_public_method = public_method, fep_scope_path = re_scope_modules ep,
           fep_required_args = required_args, fep_constructor_args = constructor_args,
           fep_captured_setters = captured_setters, fep_setters = setters,
           fep_docs = facade_endpoint_doc_texts env api ep\<rparr>)))"

definition build_facade_ir :: "'ip macro_env \<Rightarrow> resolved_api \<Rightarrow> (macro_failure, facade_ir) result" where
  "build_facade_ir env api =
     (let infos = collect_facade_scopes api;
          kids = index_facade_scope_children infos
      in
      rbind (collect_results (facade_scope_from_info env api infos kids) infos) (\<lambda>scopes.
      rbind (collect_results (facade_endpoint_from_resolved env api) (rapi_endpoints api)) (\<lambda>endpoints.
      rbind (facade_client_setters env (rapi_client_vars api) (rapi_client_query_cardinalities api)) (\<lambda>client_setters.
      rbind (facade_client_setters env (rapi_client_auth_vars api) []) (\<lambda>auth_setters.
      rbind (facade_credential_methods env (rapi_client_auth_credentials api)) (\<lambda>credential_methods.
      Inr \<lparr>fir_client_name = rapi_client_name api, fir_client_setters = client_setters,
           fir_auth_setters = auth_setters, fir_credential_methods = credential_methods,
           fir_scopes = scopes, fir_endpoints = endpoints, fir_docs = [],
           fir_scope_index = index_facade_scopes infos, fir_endpoint_index = index_facade_endpoints api,
           fir_credential_methods_index = index_facade_credential_methods api\<rparr>))))))"

section \<open>The documented rate limit\<close>

definition layers_plan :: "policy_blocks_resolved list \<Rightarrow> rl_plan_resolved" where
  "layers_plan layers = foldl (\<lambda>plan l. apply_limit_clause (pbr_rate_limit l) plan) [] layers"

definition plan_of :: "rl_resolved option \<Rightarrow> rl_plan_resolved" where
  "plan_of r = apply_limit_clause r []"

lemma plan_of_None [simp]: "plan_of None = []"
  by (simp add: plan_of_def apply_limit_clause_def)

lemma plan_of_layer: "plan_of (apply_rate_limit_layer c l) = apply_limit_clause l (plan_of c)"
  by (auto simp: plan_of_def apply_rate_limit_layer_def apply_limit_clause_def split: option.splits rl_resolved.splits)

lemma plan_of_layers:
  "plan_of (foldl (\<lambda>c s. apply_rate_limit_layer c (pbr_rate_limit s)) c layers)
     = foldl (\<lambda>plan l. apply_limit_clause (pbr_rate_limit l) plan) (plan_of c) layers"
  by (induction layers arbitrary: c) (simp_all add: plan_of_layer)

text \<open>
  The rate limit written into an endpoint's documentation is the plan that the client's,
  the scopes' and the endpoint's own clauses build when they are applied one after the other to no
  limits at all, and \<open>none\<close> is written only when that plan is empty.
\<close>

theorem documented_rate_limit_is_the_layers_plan:
  "case effective_rate_limit ep client_policy of
     None \<Rightarrow> layers_plan (client_policy # re_policy_scopes ep @ [re_policy_endpoint ep]) = []
   | Some plan \<Rightarrow> layers_plan (client_policy # re_policy_scopes ep @ [re_policy_endpoint ep]) = plan"
proof -
  let ?r = "apply_rate_limit_layer (foldl (\<lambda>c s. apply_rate_limit_layer c (pbr_rate_limit s))
      (apply_rate_limit_layer None (pbr_rate_limit client_policy)) (re_policy_scopes ep))
      (pbr_rate_limit (re_policy_endpoint ep))"
  have p: "plan_of ?r = layers_plan (client_policy # re_policy_scopes ep @ [re_policy_endpoint ep])"
    by (simp add: plan_of_layer plan_of_layers layers_plan_def)
  have e: "effective_rate_limit ep client_policy =
      (case ?r of Some (RlAdd plan) \<Rightarrow> Some plan | Some (RlReplace plan) \<Rightarrow> Some plan | _ \<Rightarrow> None)"
    by (simp add: effective_rate_limit_def)
  show ?thesis
    unfolding e p [symmetric]
    by (auto simp: plan_of_def apply_limit_clause_def split: option.split rl_resolved.split)
qed

section \<open>Scopes and the tables that find them\<close>

lemma bt_index:
  assumes "distinct (map key xs)"
  shows "bt_get (bt_extend [] (map (\<lambda>(i, x). (key x, i)) (List.enumerate 0 xs))) k = Some i
    \<longleftrightarrow> i < length xs \<and> key (xs ! i) = k"
proof -
  let ?kvs = "map (\<lambda>(i, x). (key x, i)) (List.enumerate 0 xs)"
  have "map fst ?kvs = map key (map snd (List.enumerate 0 xs))"
    by (simp add: comp_def split_beta del: map_snd_enumerate)
  then have "map fst ?kvs = map key xs" by (simp only: map_snd_enumerate)
  then have "distinct (map fst (rev ?kvs))"
    using assms by (simp add: rev_map [symmetric])
  then have "bt_get (bt_extend [] ?kvs) k = Some i \<longleftrightarrow> (k, i) \<in> set ?kvs"
    by (simp add: bt_get_extend map_of_eq_Some_iff del: set_map)
  then show ?thesis
    by (auto simp: in_set_enumerate_eq)
qed

lemma add_scope_info_paths:
  "map fsi_path (add_scope_info info infos) =
     (if fsi_path info \<in> fsi_path ` set infos then map fsi_path infos else map fsi_path infos @ [fsi_path info])"
  by (induction info infos rule: add_scope_info.induct) auto

lemma add_scope_infos_paths:
  "distinct (map fsi_path infos) \<Longrightarrow> distinct (map fsi_path (fold add_scope_info xs infos))
     \<and> fsi_path ` set (fold add_scope_info xs infos) = fsi_path ` set infos \<union> fsi_path ` set xs"
proof (induction xs arbitrary: infos)
  case (Cons x xs)
  have "fsi_path ` set (add_scope_info x infos) = insert (fsi_path x) (fsi_path ` set infos)"
    using arg_cong [OF add_scope_info_paths [of x infos], of set] by (auto split: if_splits)
  moreover have "distinct (map fsi_path (add_scope_info x infos))"
    using Cons.prems by (simp add: add_scope_info_paths)
  ultimately show ?case
    using Cons.IH [of "add_scope_info x infos"] by auto
qed simp

lemma push_children:
  assumes "bt_ok m"
  shows "(case bt_get (fold push_child (List.enumerate n infos) m) k of None \<Rightarrow> [] | Some is \<Rightarrow> is) =
    (case bt_get m k of None \<Rightarrow> [] | Some is \<Rightarrow> is)
      @ map fst (filter (\<lambda>(i, s). 1 < length (fsi_path s) \<and> butlast (fsi_path s) = k) (List.enumerate n infos))"
  using assms
proof (induction infos arbitrary: n m)
  case (Cons s infos)
  have "bt_ok (push_child (n, s) m)"
    using Cons.prems by (simp add: push_child_def Let_def)
  then show ?case
    using Cons.prems by (simp add: Cons.IH) (auto simp: push_child_def scope_path_key_def Let_def)
qed simp


lemma facade_scope_from_info_ok:
  assumes "facade_scope_from_info env api infos kids info = Inr scope"
  shows "fsc_path scope = fsi_path info" and "fsc_parent_path scope = butlast (fsi_path info)"
    and "map fme_target_scope_path (fsc_methods scope) = map (\<lambda>i. fsi_path (infos ! i))
      (case bt_get kids (scope_path_key (fsi_path info)) of None \<Rightarrow> [] | Some is \<Rightarrow> is)"
proof -
  have targets: "map fme_target_scope_path ms = map (\<lambda>i. fsi_path (infos ! i)) is"
    if "collect_results (\<lambda>i. facade_child_method env client (infos ! i)) is = Inr ms" for ms "is" client
    using that unfolding collect_results_Inr_iff
    by (induction rule: list_all2_induct) (auto simp: facade_child_method_def rbind_Inr_iff)
  show "fsc_path scope = fsi_path info" "fsc_parent_path scope = butlast (fsi_path info)"
      "map fme_target_scope_path (fsc_methods scope) = map (\<lambda>i. fsi_path (infos ! i))
      (case bt_get kids (scope_path_key (fsi_path info)) of None \<Rightarrow> [] | Some is \<Rightarrow> is)"
    using assms targets by (auto simp: facade_scope_from_info_def rbind_Inr_iff Let_def)
qed

lemma enumerate_filter_nth:
  "map (\<lambda>i. f (xs ! i)) (map fst (filter (\<lambda>(i, x). P x) (List.enumerate 0 xs))) = map f (filter P xs)"
proof -
  have "map (\<lambda>p. f (xs ! fst p)) (filter (\<lambda>(i, x). P x) (List.enumerate 0 xs))
      = map (\<lambda>p. f (snd p)) (filter (\<lambda>(i, x). P x) (List.enumerate 0 xs))"
    by (rule map_cong) (auto simp: in_set_enumerate_eq)
  also have "\<dots> = map f (map snd (filter (\<lambda>p. P (snd p)) (List.enumerate 0 xs)))"
    by (simp add: comp_def case_prod_unfold)
  also have "map snd (filter (\<lambda>p. P (snd p)) (List.enumerate 0 xs)) = filter P (map snd (List.enumerate 0 xs))"
    by (simp add: filter_map comp_def del: map_snd_enumerate)
  finally show ?thesis by (simp add: comp_def)
qed

lemma build_facade_ir_scopes:
  assumes "build_facade_ir env api = Inr ir"
  shows "fir_scope_index ir = index_facade_scopes (collect_facade_scopes api)"
    and "list_all2 (\<lambda>info scope. facade_scope_from_info env api (collect_facade_scopes api)
      (index_facade_scope_children (collect_facade_scopes api)) info = Inr scope)
      (collect_facade_scopes api) (fir_scopes ir)"
  using assms by (auto simp: build_facade_ir_def rbind_Inr_iff Let_def collect_results_Inr_iff)

lemma facade_scope_paths:
  assumes "build_facade_ir env api = Inr ir"
  shows "map fsc_path (fir_scopes ir) = map fsi_path (collect_facade_scopes api)"
  using build_facade_ir_scopes(2) [OF assms]
  by (induction rule: list_all2_induct) (auto simp: facade_scope_from_info_ok)

lemma scope_infos_of_paths:
  "fsi_path ` set (scope_infos_of ep) = {p. p \<noteq> [] \<and> prefix p (re_scope_modules ep)}"
proof -
  have "p \<in> (\<lambda>n. take (n + 1) xs) ` {0..<length xs}" if "p \<noteq> []" "prefix p xs" for p xs :: "ident list"
    using that by (intro image_eqI [of _ _ "length p - 1"]) (auto simp: prefix_def less_Suc_eq_le Suc_le_eq intro: less_le_trans [of _ "length p"])
  moreover have "take (n + 1) xs \<noteq> [] \<and> prefix (take (n + 1) xs) xs" if "n < length xs" for n and xs :: "ident list"
    using that by (auto simp: take_is_prefix)
  ultimately show ?thesis
    by (auto simp: scope_infos_of_def Let_def image_image)
qed

lemma collected_scopes:
  "distinct (map fsi_path (collect_facade_scopes api))"
  "fsi_path ` set (collect_facade_scopes api) =
     {p. p \<noteq> [] \<and> (\<exists>ep \<in> set (rapi_endpoints api). prefix p (re_scope_modules ep))}"
  using add_scope_infos_paths [of "[]" "concat (map scope_infos_of (rapi_endpoints api))"]
  by (auto simp: collect_facade_scopes_def image_UN scope_infos_of_paths)

text \<open>
  The scopes of the facade are the scopes around its endpoints, each once, and looking a
  path up finds the scope with that path and no other. From every scope the accessors lead to exactly
  the scopes one level below it, in order, so that every scope is reached from a root one.
\<close>

theorem facade_scopes_form_the_scope_tree:
  assumes "build_facade_ir env api = Inr ir"
  shows "distinct (map fsc_path (fir_scopes ir))
    \<and> fsc_path ` set (fir_scopes ir) =
        {p. p \<noteq> [] \<and> (\<exists>ep \<in> set (rapi_endpoints api). prefix p (re_scope_modules ep))}
    \<and> (\<forall>path s. scope_for_path ir path = Some s \<longleftrightarrow> s \<in> set (fir_scopes ir) \<and> fsc_path s = path)
    \<and> (\<forall>s \<in> set (fir_scopes ir).
         map fme_target_scope_path (fsc_methods s) =
           filter (\<lambda>p. 1 < length p \<and> butlast p = fsc_path s) (map fsc_path (fir_scopes ir)))"
proof -
  let ?infos = "collect_facade_scopes api" and ?scopes = "fir_scopes ir"
  note paths = facade_scope_paths [OF assms]
  have dist: "distinct (map fsc_path ?scopes)" by (simp add: paths collected_scopes)
  have "fsc_path ` set ?scopes = fsi_path ` set ?infos"
    using arg_cong [OF paths, of set] by simp
  moreover have "scope_for_path ir path = Some s \<longleftrightarrow> s \<in> set ?scopes \<and> fsc_path s = path" for path s
  proof -
    have len: "length ?scopes = length ?infos"
      using paths by (metis length_map)
    have at: "fsi_path (?infos ! i) = fsc_path (?scopes ! i)" if "i < length ?scopes" for i
      using that paths len by (metis nth_map)
    have "bt_get (fir_scope_index ir) path = Some i \<longleftrightarrow> i < length ?scopes \<and> fsc_path (?scopes ! i) = path" for i
      using bt_index [of fsi_path ?infos path i] collected_scopes(1) len at
      by (auto simp: build_facade_ir_scopes(1) [OF assms] index_facade_scopes_def scope_path_key_def)
    then show ?thesis
      using dist by (auto simp: scope_for_path_def scope_path_key_def in_set_conv_nth)
  qed
  moreover have "map fme_target_scope_path (fsc_methods s) =
      filter (\<lambda>p. 1 < length p \<and> butlast p = fsc_path s) (map fsc_path ?scopes)" if s: "s \<in> set ?scopes" for s
  proof -
    obtain info where "facade_scope_from_info env api ?infos (index_facade_scope_children ?infos) info = Inr s"
      using list_all2_right [OF build_facade_ir_scopes(2) [OF assms] s] by auto
    from facade_scope_from_info_ok [OF this] show ?thesis
      using push_children [of "[]" 0 ?infos "fsc_path s"]
        enumerate_filter_nth [of fsi_path ?infos "\<lambda>i. 1 < length (fsi_path i) \<and> butlast (fsi_path i) = fsc_path s"]
      by (simp add: index_facade_scope_children_def scope_path_key_def paths filter_map comp_def)
  qed
  ultimately show ?thesis
    using dist collected_scopes(2) by simp
qed

end
