(* ===== verification/MacroPublicNames.thy ===== *)
theory MacroPublicNames
  imports MacroFacade
begin

text \<open>
  The last stage of \<open>sema/mod.rs\<close>: the names of the generated public API are added to one namespace per
  generated module or type, clashes and raw identifiers are reported together, and \<open>resolve\<close> puts the
  stages in order. Acceptance is shown to be exactly uniqueness of the names in every namespace, and
  the report of raw identifiers to be out of reach for the names the facade is built from, because
  building it panics first.
\<close>

section \<open>Namespaces\<close>

record public_name_namespace =
  pn_label :: string
  pn_names :: "(string, string) btree"

definition pn_new :: "string \<Rightarrow> public_name_namespace" where
  "pn_new label = \<lparr>pn_label = label, pn_names = []\<rparr>"

definition pn_reserve :: "string \<Rightarrow> string \<Rightarrow> public_name_namespace \<Rightarrow> public_name_namespace" where
  "pn_reserve kind name ns = ns\<lparr>pn_names := bt_insert name kind (pn_names ns)\<rparr>"

text \<open>\<open>Option<syn::Error>\<close> with \<open>combine\<close> is the list of the messages.\<close>

definition push_error :: "string list \<Rightarrow> string \<Rightarrow> string list" where
  "push_error errors err = errors @ [err]"

fun pn_add :: "string \<times> string \<Rightarrow> string list \<times> public_name_namespace \<Rightarrow> string list \<times> public_name_namespace" where
  "pn_add (name, kind) (errors, ns) =
     (case bt_get (pn_names ns) name of
        Some existing \<Rightarrow>
          (push_error errors (''generated public API name `'' @ name @ ''` for '' @ kind @ '' conflicts with ''
             @ existing @ '' in '' @ pn_label ns), ns)
      | None \<Rightarrow> (errors, ns\<lparr>pn_names := bt_insert name kind (pn_names ns)\<rparr>))"

definition reject_raw_ident :: "string \<Rightarrow> ident \<Rightarrow> string list \<Rightarrow> string list" where
  "reject_raw_ident kind name errors =
     (if starts_with name ''r#'' then
        push_error errors (''raw Rust identifier `'' @ name @ ''` is not supported for generated public API ''
          @ kind @ '' names'')
      else errors)"

section \<open>The namespaces of the generated API\<close>

definition client_method_names :: "string list" where
  "client_method_names =
     [''new'', ''new_with_retry_mode'', ''new_with_safe_reqwest_builder'',
      ''new_with_safe_reqwest_builder_fallible'', ''new_with_safe_reqwest_builder_and_retry_mode'',
      ''builder'', ''debug_level'', ''set_debug_level'', ''with_debug_level'',
      ''pagination_detect_loops'', ''set_pagination_detect_loops'', ''with_pagination_detect_loops'',
      ''configure'', ''configure_mut'', ''api_headers'', ''set_api_headers'', ''with_api_headers'',
      ''request'', ''auth_state'']"

definition root_auth_scope_exists :: "facade_ir \<Rightarrow> bool" where
  "root_auth_scope_exists ir \<longleftrightarrow>
     list_ex (\<lambda>s. case fsc_path s of [] \<Rightarrow> False | part # _ \<Rightarrow> part = ''auth'') (fir_scopes ir)"

definition reserved_client_names :: "facade_ir \<Rightarrow> string list" where
  "reserved_client_names ir =
     client_method_names @ (if root_auth_scope_exists ir then [] else [''auth''])"

definition setter_adds :: "string \<Rightarrow> string \<Rightarrow> var_info list \<Rightarrow> (string \<times> string) list" where
  "setter_adds set_kind clear_kind vars =
     concat (map (\<lambda>var. (''set_'' @ vi_rust var, set_kind)
       # (if vi_optional var then [(''clear_'' @ vi_rust var, clear_kind)] else [])) vars)"

definition client_method_adds :: "resolved_api \<Rightarrow> facade_ir \<Rightarrow> (string \<times> string) list" where
  "client_method_adds api ir =
     setter_adds ''client parameter setter'' ''client parameter clearer'' (rapi_client_vars api)
     @ setter_adds ''client secret setter'' ''client secret clearer'' (rapi_client_auth_vars api)
     @ concat (map (\<lambda>m. map (\<lambda>name. (name, ''endpoint-backed credential helper''))
         [fcm_acquire_name m, fcm_set_name m, fcm_clear_name m, fcm_has_name m]) (fir_credential_methods ir))
     @ map (\<lambda>s. (fsc_public_method s, ''root scope accessor'')) (filter (\<lambda>s. length (fsc_path s) = 1) (fir_scopes ir))
     @ map (\<lambda>e. (fep_public_method e, ''root endpoint method'')) (filter (\<lambda>e. fep_scope_path e = []) (fir_endpoints ir))"

definition validate_client_method_namespace :: "resolved_api \<Rightarrow> facade_ir \<Rightarrow> string list \<Rightarrow> string list" where
  "validate_client_method_namespace api ir errors =
     (let ns = fold (pn_reserve ''generated client method'') (reserved_client_names ir) (pn_new ''generated client'')
      in fst (fold pn_add (client_method_adds api ir) (errors, ns)))"

definition builder_adds :: "resolved_api \<Rightarrow> (string \<times> string) list" where
  "builder_adds api =
     map (\<lambda>var. (vi_rust var, ''required constructor parameter builder setter''))
       (filter (\<lambda>var. \<not> has_setter var) (rapi_client_vars api @ rapi_client_auth_vars api))"

definition validate_builder_namespace :: "resolved_api \<Rightarrow> string list \<Rightarrow> string list" where
  "validate_builder_namespace api errors =
     (let ns = fold (pn_reserve ''generated builder method'') [''new'', ''build'']
            (pn_new ''generated client builder'')
      in fst (fold pn_add (builder_adds api) (errors, ns)))"

definition auth_facade_adds :: "resolved_api \<Rightarrow> (string \<times> string) list" where
  "auth_facade_adds api =
     map (\<lambda>c. (aci_name c, ''endpoint-backed credential auth-state accessor''))
       (filter is_endpoint_credential (rapi_client_auth_credentials api))"

definition validate_auth_facade_namespace :: "resolved_api \<Rightarrow> string list \<Rightarrow> string list" where
  "validate_auth_facade_namespace api errors =
     fst (fold pn_add (auth_facade_adds api) (errors, pn_new ''generated auth-state facade''))"

text \<open>\<open>entry(path).or_insert_with(...).add(...)\<close> on a map of namespaces.\<close>

fun add_in ::
    "(ident list \<Rightarrow> string) \<Rightarrow> ident list \<times> string \<times> string
      \<Rightarrow> string list \<times> (string list, public_name_namespace) btree
      \<Rightarrow> string list \<times> (string list, public_name_namespace) btree" where
  "add_in label_of (path, entry) (errors, namespaces) =
     (let key = ident_path_strings path;
          ns = (case bt_get namespaces key of Some ns \<Rightarrow> ns | None \<Rightarrow> pn_new (label_of path));
          (errors, ns) = pn_add entry (errors, ns)
      in (errors, bt_insert key ns namespaces))"

definition scope_namespace_label :: "ident list \<Rightarrow> string" where
  "scope_namespace_label path =
     (if path = [] then ''generated client''
      else ''generated `'' @ join ''::'' (ident_path_strings path) @ ''` scope facade'')"

definition scope_adds :: "facade_scope \<Rightarrow> (string \<times> string) list" where
  "scope_adds s =
     concat (map (\<lambda>setter. (fse_set_name setter, ''scope parameter setter'')
         # (if FormClear \<in> set (fse_forms setter) then [(fse_clear_name setter, ''scope parameter clearer'')] else []))
       (fsc_setters s))
     @ map (\<lambda>m. (fme_public_name m, ''scope accessor'')) (fsc_methods s)"

definition scope_method_adds :: "facade_ir \<Rightarrow> (ident list \<times> string \<times> string) list" where
  "scope_method_adds ir =
     concat (map (\<lambda>s. map (Pair (fsc_path s)) (scope_adds s)) (fir_scopes ir))
     @ map (\<lambda>e. (fep_scope_path e, fep_public_method e, ''endpoint method''))
         (filter (\<lambda>e. fep_scope_path e \<noteq> []) (fir_endpoints ir))"

definition validate_scope_method_namespaces :: "facade_ir \<Rightarrow> string list \<Rightarrow> string list" where
  "validate_scope_method_namespaces ir errors =
     fst (fold (add_in scope_namespace_label) (scope_method_adds ir) (errors, []))"

definition endpoint_type_namespace_label :: "ident list \<Rightarrow> string" where
  "endpoint_type_namespace_label path =
     (if path = [] then ''generated endpoints module''
      else ''generated endpoints::'' @ join ''::'' (ident_path_strings path) @ '' module'')"

text \<open>The child modules of an endpoint's path, with their parents.\<close>

definition scope_module_entries :: "ident list \<Rightarrow> (ident list \<times> string) list" where
  "scope_module_entries modules = map (\<lambda>idx. (take idx modules, modules ! idx)) [0..<length modules]"

text \<open>Child modules are added once, whatever number of endpoints lie in them.\<close>

fun child_module_adds ::
    "(string list \<times> string) list \<Rightarrow> (ident list \<times> string) list
      \<Rightarrow> (ident list \<times> string \<times> string) list \<times> (string list \<times> string) list" where
  "child_module_adds seen [] = ([], seen)"
| "child_module_adds seen ((parent, child) # entries) =
     (let (fresh, seen) = bs_insert (ident_path_strings parent, child) seen;
          (adds, seen) = child_module_adds seen entries
      in (if fresh then (parent, child, ''endpoint scope module'') # adds else adds, seen))"

fun endpoint_type_adds ::
    "(string list \<times> string) list \<Rightarrow> resolved_endpoint list \<Rightarrow> (ident list \<times> string \<times> string) list" where
  "endpoint_type_adds seen [] = []"
| "endpoint_type_adds seen (ep # eps) =
     (let (adds, seen) = child_module_adds seen (scope_module_entries (re_scope_modules ep))
      in (re_scope_modules ep, re_name ep, ''endpoint marker type'') # adds @ endpoint_type_adds seen eps)"

definition validate_endpoint_public_type_namespaces :: "resolved_api \<Rightarrow> string list \<Rightarrow> string list" where
  "validate_endpoint_public_type_namespaces api errors =
     fst (fold (add_in endpoint_type_namespace_label) (endpoint_type_adds [] (rapi_endpoints api)) (errors, []))"

definition type_adds :: "'ip macro_env \<Rightarrow> resolved_api \<Rightarrow> facade_ir \<Rightarrow> (string \<times> string) list" where
  "type_adds env api ir =
     (let client = rapi_client_name api in
      [(client, ''client type'')]
      @ map (\<lambda>tail. (client_prefixed_type_name client tail, ''generated client support type''))
          [''Vars'', ''AuthInner'', ''AuthVars'', ''AuthState'', ''Cx'', ''Builder'']
      @ [(generated_auth_facade_type_name client, ''generated auth-state facade type'')]
      @ concat (map (\<lambda>c.
          [(generated_auth_handle_type_name env client (aci_name c), ''endpoint-backed credential auth handle type''),
           (generated_acquire_as_trait_type_name env client (aci_name c),
            ''endpoint-backed credential request extension trait'')])
          (filter is_endpoint_credential (rapi_client_auth_credentials api)))
      @ map (\<lambda>s. (fsc_rust_type_name s, ''scope facade type'')) (fir_scopes ir)
      @ map (\<lambda>e. (generated_endpoint_request_ext_trait_type_name env e, ''endpoint request extension trait''))
          (rapi_endpoints api))"

definition validate_generated_type_namespace ::
    "'ip macro_env \<Rightarrow> resolved_api \<Rightarrow> facade_ir \<Rightarrow> string list \<Rightarrow> string list" where
  "validate_generated_type_namespace env api ir errors =
     validate_endpoint_public_type_namespaces api
       (fst (fold pn_add (type_adds env api ir) (errors, pn_new ''generated module type namespace'')))"

text \<open>The identifiers the raw check visits, with what they name.\<close>

definition public_idents :: "resolved_api \<Rightarrow> (string \<times> ident) list" where
  "public_idents api =
     (''client type'', rapi_client_name api)
     # map (\<lambda>v. (''client parameter'', vi_rust v)) (rapi_client_vars api @ rapi_client_auth_vars api)
     @ map (\<lambda>c. (''credential'', aci_name c)) (rapi_client_auth_credentials api)
     @ concat (map (\<lambda>e.
         (''endpoint'', re_name e)
         # map (Pair ''endpoint alias'') (option_list (re_alias e))
         @ map (Pair ''scope'') (re_scope_modules e)
         @ map (\<lambda>v. (''endpoint parameter'', vi_rust v)) (re_vars e)
         @ map (\<lambda>v. (''scope parameter'', vi_rust v)) (concat (re_facade_param_groups e))) (rapi_endpoints api))"

definition validate_generated_public_api ::
    "'ip macro_env \<Rightarrow> resolved_api \<Rightarrow> facade_ir \<Rightarrow> (macro_failure, unit) result" where
  "validate_generated_public_api env api ir =
     (let errors = fold (\<lambda>(kind, name). reject_raw_ident kind name) (public_idents api) [];
          errors = validate_client_method_namespace api ir errors;
          errors = validate_builder_namespace api errors;
          errors = validate_auth_facade_namespace api errors;
          errors = validate_scope_method_namespaces ir errors;
          errors = validate_generated_type_namespace env api ir errors
      in if errors = [] then Inr () else Inl (Diagnosed errors))"

text \<open>\<open>resolve\<close>: the module name, the resolved API, the facade, and the checks of its names.\<close>

definition resolve :: "'ip macro_env \<Rightarrow> norm_api_tree \<Rightarrow> (macro_failure, resolved_api \<times> facade_ir) result" where
  "resolve env tree =
     rbind (ident_new env (to_snake env (cl_name (nt_client tree)))) (\<lambda>_.
     rbind (map_err (\<lambda>err. Diagnosed [err]) (resolve_api env tree)) (\<lambda>api.
     rbind (build_facade_ir env api) (\<lambda>ir.
     rbind (validate_generated_public_api env api ir) (\<lambda>_.
     Inr (api, ir)))))"

definition analyze_pipeline :: "'ip macro_env \<Rightarrow> raw_api \<Rightarrow> (macro_failure, resolved_api \<times> facade_ir) result" where
  "analyze_pipeline env raw =
     rbind (map_err (\<lambda>err. Diagnosed [err]) (normalize_api raw)) (resolve env)"

section \<open>Acceptance is uniqueness\<close>

lemma pn_adds_ok:
  "fst (fold pn_add adds (errors, ns)) = [] \<longleftrightarrow>
     errors = [] \<and> distinct (map fst adds) \<and> set (map fst adds) \<inter> set (bt_keys (pn_names ns)) = {}"
proof (induction adds arbitrary: errors ns)
  case (Cons a adds)
  obtain name kind where a: "a = (name, kind)" by (cases a)
  show ?case
  proof (cases "bt_get (pn_names ns) name")
    case None
    then have "name \<notin> set (bt_keys (pn_names ns))"
      by (simp add: map_of_eq_None_iff)
    then show ?thesis
      using None by (auto simp: a Cons.IH bt_insert_keys simp del: set_map)
  next
    case (Some existing)
    then have "name \<in> set (bt_keys (pn_names ns))"
      by (metis map_of_eq_None_iff option.distinct(1) set_map)
    then show ?thesis
      using Some by (auto simp: a Cons.IH push_error_def simp del: set_map)
  qed
qed simp

lemma pn_reserve_keys:
  "set (bt_keys (pn_names (fold (pn_reserve kind) names ns))) = set names \<union> set (bt_keys (pn_names ns))"
  by (induction names arbitrary: ns) (auto simp: pn_reserve_def bt_insert_keys simp del: set_map)

definition entry_of :: "ident list \<times> string \<times> string \<Rightarrow> ident list \<times> string" where
  "entry_of a = (fst a, fst (snd a))"

lemma entry_of_simp [simp]: "entry_of (path, name, kind) = (path, name)"
  by (simp add: entry_of_def)

definition names_at :: "(string list, public_name_namespace) btree \<Rightarrow> (ident list \<times> string) set" where
  "names_at nss = {(path, name). \<exists>ns. bt_get nss path = Some ns \<and> name \<in> set (bt_keys (pn_names ns))}"

lemma add_in_ok:
  assumes "bt_ok nss"
  shows "fst (fold (add_in label_of) adds (errors, nss)) = [] \<longleftrightarrow>
     errors = [] \<and> distinct (map entry_of adds) \<and> entry_of ` set adds \<inter> names_at nss = {}"
  using assms
proof (induction adds arbitrary: errors nss)
  case (Cons a adds)
  obtain path name kind where a: "a = (path, name, kind)" by (cases a)
  let ?ns = "case bt_get nss path of Some ns \<Rightarrow> ns | None \<Rightarrow> pn_new (label_of path)"
  have known: "(path, name) \<in> names_at nss \<longleftrightarrow> name \<in> set (bt_keys (pn_names ?ns))"
    by (auto simp: names_at_def pn_new_def split: option.splits)
  show ?case
  proof (cases "bt_get (pn_names ?ns) name")
    case None
    let ?nss = "bt_insert path (?ns\<lparr>pn_names := bt_insert name kind (pn_names ?ns)\<rparr>) nss"
    have new: "name \<notin> set (bt_keys (pn_names ?ns))"
      using None by (simp add: map_of_eq_None_iff)
    have "names_at ?nss = insert (path, name) (names_at nss)"
      using Cons.prems
      by (auto simp: names_at_def pn_new_def bt_insert_keys simp del: set_map split: option.splits if_splits)
    then show ?thesis
      using None new known Cons.prems
      by (auto simp: a Cons.IH ident_path_strings_def entry_of_def Let_def)
  next
    case (Some existing)
    then have "name \<in> set (bt_keys (pn_names ?ns))"
      by (metis map_of_eq_None_iff option.distinct(1) set_map)
    then show ?thesis
      using Some known Cons.prems
      by (auto simp: a Cons.IH ident_path_strings_def entry_of_def Let_def push_error_def)
  qed
qed simp

lemma child_module_adds_ok:
  "distinct (map entry_of (fst (child_module_adds seen entries)))
   \<and> entry_of ` set (fst (child_module_adds seen entries)) = set entries - set seen
   \<and> set (snd (child_module_adds seen entries)) = set seen \<union> set entries"
proof (induction entries arbitrary: seen)
  case (Cons e entries)
  obtain parent child where e: "e = (parent, child)" by (cases e)
  show ?case
  proof (cases "(parent, child) \<in> set seen")
    case True
    then have "child_module_adds seen (e # entries) = child_module_adds seen entries"
      by (simp add: e bs_insert_def ident_path_strings_def split_beta)
    then show ?thesis using Cons.IH [of seen] True by (auto simp: e)
  next
    case False
    let ?rest = "child_module_adds (insort (parent, child) seen) entries"
    have "child_module_adds seen (e # entries) = ((parent, child, ''endpoint scope module'') # fst ?rest, snd ?rest)"
      using False by (simp add: e bs_insert_def ident_path_strings_def split_beta)
    then show ?thesis
      using Cons.IH [of "insort (parent, child) seen"] False by (auto simp: e set_insort_key)
  qed
qed simp

abbreviation scope_modules_entries :: "resolved_endpoint list \<Rightarrow> (ident list \<times> string) set" where
  "scope_modules_entries eps \<equiv> (\<Union>e \<in> set eps. set (scope_module_entries (re_scope_modules e)))"

lemma endpoint_type_adds_ok:
  "entry_of ` set (endpoint_type_adds seen eps) =
     set (map resolved_endpoint_key eps) \<union> (scope_modules_entries eps - set seen)
   \<and> (distinct (map entry_of (endpoint_type_adds seen eps)) \<longleftrightarrow>
        distinct (map resolved_endpoint_key eps)
        \<and> set (map resolved_endpoint_key eps) \<inter> (scope_modules_entries eps - set seen) = {})"
proof (induction seen eps rule: endpoint_type_adds.induct)
  case (2 seen ep eps)
  let ?es = "scope_module_entries (re_scope_modules ep)"
  obtain adds seen' where c: "child_module_adds seen ?es = (adds, seen')" by (cases "child_module_adds seen ?es")
  then have k: "distinct (map entry_of adds)" "entry_of ` set adds = set ?es - set seen" "set seen' = set seen \<union> set ?es"
    using child_module_adds_ok [of seen ?es] by auto
  have key: "(re_scope_modules ep, re_name ep) = resolved_endpoint_key ep"
    by (simp add: resolved_endpoint_key_def)
  from 2 [OF c [symmetric] refl]
  have e: "entry_of ` set (endpoint_type_adds seen' eps) =
        set (map resolved_endpoint_key eps) \<union> (scope_modules_entries eps - set seen')"
    and d: "distinct (map entry_of (endpoint_type_adds seen' eps)) \<longleftrightarrow> distinct (map resolved_endpoint_key eps)
        \<and> set (map resolved_endpoint_key eps) \<inter> (scope_modules_entries eps - set seen') = {}"
    by blast+
  have "entry_of ` set (endpoint_type_adds seen (ep # eps)) =
      insert (resolved_endpoint_key ep) (entry_of ` set adds \<union> entry_of ` set (endpoint_type_adds seen' eps))"
    by (simp add: c key image_Un)
  moreover have "distinct (map entry_of (endpoint_type_adds seen (ep # eps))) \<longleftrightarrow>
      resolved_endpoint_key ep \<notin> entry_of ` set adds \<union> entry_of ` set (endpoint_type_adds seen' eps)
      \<and> distinct (map entry_of (endpoint_type_adds seen' eps))
      \<and> entry_of ` set adds \<inter> entry_of ` set (endpoint_type_adds seen' eps) = {}"
    using k(1) by (auto simp: c key)
  ultimately show ?case
    unfolding e d k(2,3) by (simp del: set_map add: image_Un) blast
qed simp


lemma raw_errors_ok:
  "fold (\<lambda>(kind, name). reject_raw_ident kind name) idents errors = [] \<longleftrightarrow>
     errors = [] \<and> list_all (\<lambda>(kind, name). \<not> starts_with name ''r#'') idents"
proof (induction idents arbitrary: errors)
  case (Cons a idents)
  then show ?case
    by (cases a; cases "starts_with (snd a) ''r#''") (simp_all add: reject_raw_ident_def push_error_def)
qed simp

lemma pn_new_names [simp]: "pn_names (pn_new label) = []"
  by (simp add: pn_new_def)

lemma names_at_Nil [simp]: "names_at [] = {}"
  by (simp add: names_at_def)

text \<open>
  Property C14: the check of the generated names accepts exactly when no public identifier is raw and
  the names are unique in every namespace: the methods of the client beside the reserved ones, the
  setters of the builder beside \<open>new\<close> and \<open>build\<close>, the accessors of acquired credentials, the setters,
  accessors and endpoint methods of each scope, the generated types, and in each endpoint module the
  endpoints beside the modules nested in it.
\<close>

theorem accepted_iff_public_names_unique:
  "validate_generated_public_api env api ir = Inr () \<longleftrightarrow>
     list_all (\<lambda>(kind, name). \<not> starts_with name ''r#'') (public_idents api)
     \<and> distinct (map fst (client_method_adds api ir))
     \<and> set (map fst (client_method_adds api ir)) \<inter> set (reserved_client_names ir) = {}
     \<and> distinct (map fst (builder_adds api)) \<and> set (map fst (builder_adds api)) \<inter> {''new'', ''build''} = {}
     \<and> distinct (map fst (auth_facade_adds api))
     \<and> distinct (map entry_of (scope_method_adds ir))
     \<and> distinct (map fst (type_adds env api ir))
     \<and> distinct (map resolved_endpoint_key (rapi_endpoints api))
     \<and> set (map resolved_endpoint_key (rapi_endpoints api)) \<inter> scope_modules_entries (rapi_endpoints api) = {}"
proof -
  have "validate_generated_public_api env api ir = Inr () \<longleftrightarrow>
      validate_generated_type_namespace env api ir (validate_scope_method_namespaces ir
        (validate_auth_facade_namespace api (validate_builder_namespace api
          (validate_client_method_namespace api ir
            (fold (\<lambda>(kind, name). reject_raw_ident kind name) (public_idents api) []))))) = []"
    by (simp add: validate_generated_public_api_def Let_def)
  then show ?thesis
    unfolding validate_generated_type_namespace_def validate_endpoint_public_type_namespaces_def
      validate_scope_method_namespaces_def validate_auth_facade_namespace_def validate_builder_namespace_def
      validate_client_method_namespace_def Let_def pn_adds_ok add_in_ok [OF bt_ok_Nil] raw_errors_ok pn_reserve_keys
    using endpoint_type_adds_ok [of "[]" "rapi_endpoints api"]
    by (simp del: set_map fold_simps)
qed

section \<open>Raw identifiers\<close>

lemma chars_hash: "CHR ''#'' \<in> set s \<Longrightarrow> \<exists>ch \<in> set (chars s). ch \<noteq> [] \<and> hd ch = CHR ''#''"
proof (induction s rule: chars.induct)
  case (2 c s)
  show ?case
  proof (cases "c = CHR ''#''")
    case False
    have "CHR ''#'' \<notin> set (takeWhile is_cont_byte s)"
      by (auto dest!: set_takeWhileD simp: is_cont_byte_def)
    then have "CHR ''#'' \<in> set (dropWhile is_cont_byte s)"
      using 2(2) False by (metis UnE set_append set_ConsD takeWhile_dropWhile_id)
    then show ?thesis using 2(1) by auto
  qed simp
qed simp

lemma concat_chars [simp]: "concat (chars s) = s"
  by (induction s rule: chars.induct) simp_all

lemma hash_char: "is_ascii CHR ''#''" "\<not> is_ascii_alpha CHR ''#''" "\<not> is_digit_char CHR ''#''"
  by code_simp+

lemma hash_not_ident: "CHR ''#'' \<in> set s \<Longrightarrow> \<not> valid_ident env s"
proof
  assume "CHR ''#'' \<in> set s" and v: "valid_ident env s"
  then obtain ch where ch: "ch \<in> set (chars s)" "ch \<noteq> []" "hd ch = CHR ''#''"
    using chars_hash by blast
  have "\<not> xid_start env ch" "\<not> xid_continue env ch"
    using ch(2,3) by (cases ch; simp add: xid_start_def xid_continue_def hash_char)+
  then show False
    using v ch(1) by (auto simp: valid_ident_def list_all_iff split: list.splits)
qed

lemma ident_new_ok: "ident_new env s = Inr i \<Longrightarrow> CHR ''#'' \<notin> set s"
  using hash_not_ident by (auto simp: ident_new_def split: if_splits)

lemma raw_hash: "starts_with name ''r#'' \<Longrightarrow> CHR ''#'' \<in> set name"
  by (auto simp: starts_with_iff)

definition panics_only :: "(macro_failure, 'a) result \<Rightarrow> bool" where
  "panics_only r \<longleftrightarrow> (\<forall>err. r = Inl err \<longrightarrow> (\<exists>msg. err = Panicked msg))"

named_theorems panics_intros \<open>computations whose only failure is a panic\<close>

lemma panics_only_Inr [panics_intros]: "panics_only (Inr v)"
  by (simp add: panics_only_def)

lemma panics_only_ident [panics_intros]: "panics_only (ident_new env s)"
  by (simp add: panics_only_def ident_new_def)

lemma panics_only_rbind [panics_intros]:
  "panics_only r \<Longrightarrow> (\<And>v. panics_only (f v)) \<Longrightarrow> panics_only (rbind r f)"
  by (cases r) (simp_all add: panics_only_def)

lemma panics_only_collect [panics_intros]:
  "(\<And>x. panics_only (f x)) \<Longrightarrow> panics_only (collect_results f xs)"
  by (induction xs) (auto simp: panics_only_def split: sum.splits)

lemma panics_only_setters [panics_intros]:
  "panics_only (facade_client_setter env cards var)" "panics_only (field_setter env var forms docs)"
  "panics_only (credential_methods env c)"
  by (auto simp: facade_client_setter_def field_setter_def credential_methods_def Let_def split_beta
      intro!: panics_intros)

lemma panics_only_scope [panics_intros]: "panics_only (facade_scope_from_info env api infos kids info)"
  by (auto simp: facade_scope_from_info_def facade_child_method_def facade_scope_setter_def Let_def
      intro!: panics_intros)

lemma panics_only_endpoint [panics_intros]: "panics_only (facade_endpoint_from_resolved env api ep)"
  by (auto simp: facade_endpoint_from_resolved_def facade_endpoint_setter_def Let_def split_beta
      intro!: panics_intros)

lemma panics_only_build: "panics_only (build_facade_ir env api)"
  by (auto simp: build_facade_ir_def facade_client_setters_def facade_credential_methods_def Let_def
      intro!: panics_intros)

lemma pascal_to_snake_hash: "CHR ''#'' \<in> set s \<Longrightarrow> CHR ''#'' \<in> set (pascal_to_snake s)"
proof -
  have "CHR ''#'' \<in> set (concat chs) \<Longrightarrow> CHR ''#'' \<in> set (pascal_to_snake_from prev chs)" for chs prev
  proof (induction prev chs rule: pascal_to_snake_from.induct)
    case (2 prev ch chs)
    have "\<not> is_ascii_uppercase CHR ''#''" using hash_char(2) by (simp add: is_ascii_alpha_def)
    then have "CHR ''#'' \<notin> set ch" if "list_all is_ascii_uppercase ch"
      using that by (auto simp: list_all_iff)
    then show ?case using 2 by auto
  qed simp
  from this [of "chars s" False] show "CHR ''#'' \<in> set s \<Longrightarrow> CHR ''#'' \<in> set (pascal_to_snake s)"
    by (simp add: pascal_to_snake_def)
qed

lemma split_on_first: "c \<notin> set p \<Longrightarrow> \<exists>part parts. split_on c (p @ s) = (p @ part) # parts"
proof (induction p)
  case Nil
  have "split_on c s \<noteq> []" by (cases s) (auto split: list.splits)
  then show ?case by (cases "split_on c s") auto
next
  case (Cons x p)
  then show ?case by auto
qed

lemma pascal_name_hash:
  assumes "starts_with name ''r#''"
  shows "CHR ''#'' \<in> set (generated_pascal_name env name)"
proof -
  obtain s where s: "name = ''r#'' @ s" using assms by (auto simp: starts_with_iff)
  obtain part parts where "split_on CHR ''_'' name = (''r#'' @ part) # parts"
    using split_on_first [of "CHR ''_''" "''r#''" s] s by auto
  moreover have "pascal_part env (''r#'' @ part) = char_to_uppercase env ''r'' @ CHR ''#'' # part"
  proof -
    have "chars (''r#'' @ part) = ''r'' # chars (CHR ''#'' # part)"
      by (simp add: is_cont_byte_def)
    then show ?thesis using concat_chars [of "CHR ''#'' # part"] by (simp add: pascal_part_def)
  qed
  ultimately show ?thesis by (simp add: generated_pascal_name_def)
qed

text \<open>The names from which the facade makes identifiers of its own.\<close>

definition facade_ident_sources :: "resolved_api \<Rightarrow> ident list" where
  "facade_ident_sources api =
     map vi_rust (rapi_client_vars api @ rapi_client_auth_vars api)
     @ map aci_name (filter is_endpoint_credential (rapi_client_auth_credentials api))
     @ concat (map (\<lambda>e.
         (case re_alias e of None \<Rightarrow> re_name e | Some alias \<Rightarrow> alias)
         # re_scope_modules e
         @ map vi_rust (filter (\<lambda>v. has_setter v \<and> vi_rust v \<notin> set (captured_names e)) (re_vars e)))
         (rapi_endpoints api))"

lemma client_setters_no_hash:
  assumes "facade_client_setters env vars cards = Inr setters" and "v \<in> set vars"
  shows "CHR ''#'' \<notin> set (vi_rust v)"
proof -
  have "list_all2 (\<lambda>v s. facade_client_setter env cards v = Inr s) vars setters"
    using assms(1) by (simp add: facade_client_setters_def collect_results_Inr_iff)
  from list_all2_left [OF this assms(2)] show ?thesis
    by (auto simp: facade_client_setter_def Let_def split_beta rbind_Inr_iff dest!: ident_new_ok)
qed

lemma credential_methods_no_hash:
  assumes "facade_credential_methods env cs = Inr ms" and "c \<in> set (filter is_endpoint_credential cs)"
  shows "CHR ''#'' \<notin> set (aci_name c)"
proof -
  have "list_all2 (\<lambda>c m. credential_methods env c = Inr m) (filter is_endpoint_credential cs) ms"
    using assms(1) by (simp add: facade_credential_methods_def collect_results_Inr_iff)
  from list_all2_left [OF this assms(2)] show ?thesis
    by (auto simp: credential_methods_def Let_def rbind_Inr_iff dest!: ident_new_ok)
qed

lemma endpoint_no_hash:
  assumes "facade_endpoint_from_resolved env api e = Inr f"
  shows "CHR ''#'' \<notin> set (case re_alias e of None \<Rightarrow> re_name e | Some alias \<Rightarrow> alias)"
    and "v \<in> set (re_vars e) \<Longrightarrow> has_setter v \<Longrightarrow> vi_rust v \<notin> set (captured_names e) \<Longrightarrow> CHR ''#'' \<notin> set (vi_rust v)"
proof -
  obtain setters i where
      setters: "collect_results (facade_endpoint_setter env e)
        (filter has_setter (filter (\<lambda>var. vi_rust var \<notin> set (captured_names e)) (re_vars e))) = Inr setters"
    and i: "ident_new env (pascal_to_snake (case re_alias e of None \<Rightarrow> re_name e | Some alias \<Rightarrow> alias)) = Inr i"
    using assms by (auto simp: facade_endpoint_from_resolved_def Let_def split_beta rbind_Inr_iff
        generated_endpoint_method_name_def)
  show "CHR ''#'' \<notin> set (case re_alias e of None \<Rightarrow> re_name e | Some alias \<Rightarrow> alias)"
    using ident_new_ok [OF i] pascal_to_snake_hash by blast
  show "v \<in> set (re_vars e) \<Longrightarrow> has_setter v \<Longrightarrow> vi_rust v \<notin> set (captured_names e) \<Longrightarrow> CHR ''#'' \<notin> set (vi_rust v)"
    using list_all2_left [OF setters [unfolded collect_results_Inr_iff], of v]
    by (auto simp: facade_endpoint_setter_def field_setter_def Let_def split_beta rbind_Inr_iff dest!: ident_new_ok)
qed

lemma scope_not_raw:
  assumes "build_facade_ir env api = Inr ir" and "e \<in> set (rapi_endpoints api)" and "m \<in> set (re_scope_modules e)"
  shows "\<not> starts_with m ''r#''"
proof
  assume raw: "starts_with m ''r#''"
  have "re_scope_modules e \<in> fsi_path ` set (collect_facade_scopes api)"
    using assms(2,3) by (auto simp: collected_scopes)
  then obtain info where info: "info \<in> set (collect_facade_scopes api)" "fsi_path info = re_scope_modules e"
    by auto
  obtain scope where "facade_scope_from_info env api (collect_facade_scopes api)
      (index_facade_scope_children (collect_facade_scopes api)) info = Inr scope"
    using list_all2_left [OF build_facade_ir_scopes(2) [OF assms(1)] info(1)] by auto
  then obtain i where "ident_new env (generated_scope_type_name env (rapi_client_name api) (fsi_path info)) = Inr i"
    by (auto simp: facade_scope_from_info_def Let_def rbind_Inr_iff)
  then have "CHR ''#'' \<notin> set (generated_pascal_name env m)"
    using assms(3) info(2)
    by (auto simp: generated_scope_type_name_def pascalize_ident_path_def dest!: ident_new_ok)
  then show False using pascal_name_hash [OF raw, of env] by simp
qed

lemma facade_built_not_raw:
  assumes "build_facade_ir env api = Inr ir" and "name \<in> set (facade_ident_sources api)"
  shows "\<not> starts_with name ''r#''"
proof -
  obtain client_setters auth_setters methods where
      vars: "facade_client_setters env (rapi_client_vars api) (rapi_client_query_cardinalities api) = Inr client_setters"
      "facade_client_setters env (rapi_client_auth_vars api) [] = Inr auth_setters"
    and methods: "facade_credential_methods env (rapi_client_auth_credentials api) = Inr methods"
    and eps: "list_all2 (\<lambda>e f. facade_endpoint_from_resolved env api e = Inr f) (rapi_endpoints api) (fir_endpoints ir)"
    using assms(1) by (auto simp: build_facade_ir_def Let_def rbind_Inr_iff collect_results_Inr_iff)
  consider (var) v where "v \<in> set (rapi_client_vars api) \<union> set (rapi_client_auth_vars api)" "name = vi_rust v"
    | (cred) c where "c \<in> set (filter is_endpoint_credential (rapi_client_auth_credentials api))" "name = aci_name c"
    | (own) e where "e \<in> set (rapi_endpoints api)" "name = (case re_alias e of None \<Rightarrow> re_name e | Some alias \<Rightarrow> alias)"
    | (scope) e where "e \<in> set (rapi_endpoints api)" "name \<in> set (re_scope_modules e)"
    | (param) e v where "e \<in> set (rapi_endpoints api)" "v \<in> set (re_vars e)" "has_setter v"
        "vi_rust v \<notin> set (captured_names e)" "name = vi_rust v"
    using assms(2) by (auto simp: facade_ident_sources_def)
  then show ?thesis
  proof cases
    case var
    then show ?thesis using client_setters_no_hash vars raw_hash by blast
  next
    case cred
    then show ?thesis using credential_methods_no_hash [OF methods] raw_hash by blast
  next
    case own
    then show ?thesis using list_all2_left [OF eps] endpoint_no_hash(1) raw_hash by blast
  next
    case scope
    then show ?thesis using scope_not_raw [OF assms(1)] by blast
  next
    case param
    then show ?thesis using list_all2_left [OF eps] endpoint_no_hash(2) raw_hash by blast
  qed
qed

text \<open>
  Property C17: a raw identifier that names a client parameter or secret, a credential acquired from an
  endpoint, a scope, an endpoint or its alias, or an optional or defaulted parameter of an endpoint is
  never reported: the facade is built before the names are checked, and \<open>Ident::new\<close> panics on a name
  made from it.
\<close>

theorem raw_names_panic_before_the_report:
  assumes "resolve_api env tree = Inr api" and "name \<in> set (facade_ident_sources api)"
    and "starts_with name ''r#''"
  shows "\<exists>msg. resolve env tree = Inl (Panicked msg)"
proof (cases "build_facade_ir env api")
  case (Inl err)
  then obtain msg where "err = Panicked msg"
    using panics_only_build [of env api] by (auto simp: panics_only_def)
  then show ?thesis
    using Inl assms(1) by (auto simp: resolve_def ident_new_def)
next
  case (Inr ir)
  then show ?thesis
    using facade_built_not_raw [OF Inr assms(2)] assms(3) by simp
qed

text \<open>A client with a parameter named \<open>r#type\<close> and no endpoints.\<close>

definition raw_tree :: norm_api_tree where
  "raw_tree =
     \<lparr>nt_client = sample_client\<lparr>cl_auth := None, cl_vars :=
        Some [\<lparr>vd_rust = ''r#type'', vd_optional = False, vd_ty = sample_ty ''String'', vd_default = None\<rparr>]\<rparr>,
      nt_items = []\<rparr>"

lemma raw_tree_resolves:
  "case resolve_api sample_env raw_tree of Inl err \<Rightarrow> False | Inr api \<Rightarrow> ''r#type'' \<in> set (facade_ident_sources api)"
  by code_simp

theorem raw_names_panic_before_the_report_witness:
  "\<exists>api msg. resolve_api sample_env raw_tree = Inr api \<and> ''r#type'' \<in> set (facade_ident_sources api)
     \<and> resolve sample_env raw_tree = Inl (Panicked msg)"
proof -
  obtain api where api: "resolve_api sample_env raw_tree = Inr api" "''r#type'' \<in> set (facade_ident_sources api)"
    using raw_tree_resolves by (auto split: sum.splits)
  then show ?thesis
    using raw_names_panic_before_the_report [OF api] by (auto simp: starts_with_def)
qed

end
