(* ===== verification/Spec2Isabelle.thy ===== *)
theory Spec2Isabelle
  imports GovernorWindows CredentialSystem AuthEngineProps ExecutionProps PaginationProps UrlRoute
    PolicyLayers Multipart RetryMode AuthHttp Responses ClientConfig MacroPublicNames
begin

text \<open>
  Concord is a Rust toolkit for typed HTTP API clients. A macro (\<open>concord_macros\<close>) turns the
  description of an API into Rust code; the runtime (\<open>concord_core\<close>) executes the requests of that code.
  This development models the runtime and the semantic analysis of the macro. Paths below are relative
  to \<open>src/concord_core/src/\<close> for the runtime and to \<open>src/concord_macros/src/\<close> for the macro.

  \<^bold>\<open>The parts and how they interact.\<close> A client builds a policy in layers (\<open>policy.rs\<close>) and a route
  (\<open>types.rs\<close>). A logical request is driven by \<open>drive_executions\<close> (\<open>client/execute.rs\<close>): it resolves the
  public head and checks it against the authentication plan (\<open>client/build.rs\<close>, \<open>auth/plan.rs\<close>),
  prepares the credentials (\<open>auth/orchestrator.rs\<close>) from their slots (\<open>auth/credentials.rs\<close>), produces
  the body (\<open>io.rs\<close>, \<open>body.rs\<close>, \<open>multipart.rs\<close>), waits for the rate limiter (\<open>rate_limit/\<close>), sends the request
  once (\<open>client/send_flow.rs\<close>, \<open>transport.rs\<close>), tells the limiter about the response, and either returns
  the limited response, or classifies a rejected credential and sends at most one recovery execution.
  Pagination (\<open>request.rs\<close>, \<open>pagination.rs\<close>) runs logical requests until its caps or its controller stop it.

  The macro parses a definition, normalises it (\<open>sema/normalize.rs\<close>), resolves credentials, profiles, rate
  limits and policies, walks the scopes and endpoints (\<open>sema/items.rs\<close>), classifies the origin of the API
  (\<open>sema/descriptor.rs\<close>), builds the facade of the generated client (\<open>model/facade.rs\<close>) and checks its names
  (\<open>sema/mod.rs\<close>). The routes, plans and descriptors it emits are what the runtime is given.

  \<^bold>\<open>Theories.\<close>
  \<^item> \<open>Prelude\<close>, \<open>RustStr\<close>, \<open>Transition\<close>: machine integers with checked and saturating arithmetic, results as
    sums, instants, hash maps as association lists; the \<open>str\<close> operations on UTF-8 bytes; the locales
    \<open>invariant_system\<close> and \<open>generation_cell\<close> for step relations.
  \<^item> \<open>Errors\<close> (\<open>error.rs\<close>, \<open>auth/errors.rs\<close>, \<open>rate_limit/error.rs\<close>, \<open>response_classify.rs\<close>): the error values.
  \<^item> \<open>RateLimitPlan\<close> (\<open>rate_limit/plan.rs\<close>, \<open>rate_limit/response.rs\<close>, \<open>policy/feature.rs\<close>) and
    \<open>RateLimitGovernor\<close> (\<open>rate_limit/governor_runtime.rs\<close>): plans, the response policy, and the default
    limiter with its cooldown and window tables. \<open>GovernorCooldown\<close> shows that every key a response puts on
    cooldown is consulted by later acquisitions, that a stored cooldown delays them, and that the wait
    loop ends; \<open>GovernorWindows\<close> shows that the window table is bounded, evicts the least recently used
    entries, keeps a limiter while it is in use, and that a permit was granted by every window.
  \<^item> \<open>CredentialSlot\<close> (\<open>auth/credentials.rs\<close>): the slot, one definition per critical section.
    \<open>CredentialSystem\<close> composes them into a step relation over any number of tasks and shows, for every
    interleaving, that a generation names one value, that a waiting task waits for a live refresh, that
    an invalidated generation never comes back and that a superseded refresh never commits.
  \<^item> \<open>HeaderRules\<close> (\<open>header_ownership.rs\<close>, \<open>redaction.rs\<close>, \<open>debug.rs\<close>): the name rules and the sanitised views,
    which never show a protected value.
  \<^item> \<open>AuthPlan\<close> (\<open>auth/plan.rs\<close>, \<open>auth/materials.rs\<close>) and \<open>AuthEngine\<close> (\<open>auth/orchestrator.rs\<close> and the
    authentication functions of \<open>client/execute.rs\<close>); \<open>AuthEngineProps\<close>: planned targets are distinct, the
    preflight is exact, prepared credentials fit their slots and name the cached generation, rejection
    plans ask for at most one recovery and applying them drops the rejected generation. The locale
    \<open>credential_source\<close> is what the engine needs of a slot.
  \<^item> \<open>Transport\<close> (\<open>transport.rs\<close>): materialising credentials and the bounded response stream.
    \<open>RequestHead\<close> (\<open>client/build.rs\<close>, the body recipes of \<open>io.rs\<close>): the head and the body of one execution.
  \<^item> \<open>Bodies\<close> (\<open>body.rs\<close>, \<open>stream_body.rs\<close>) and \<open>Multipart\<close> (\<open>multipart.rs\<close>): streamed bodies and their guards.
    The locales \<open>byte_guard\<close> and \<open>exact_guard\<close> are the contracts of the limiter, the exact-length guard and
    the multipart stream. Multipart validation and construction agree.
  \<^item> \<open>Pipeline\<close> (\<open>client/send_flow.rs\<close>) and \<open>Execution\<close> (\<open>drive_executions\<close>): the request driver. Every effect
    is an event of a trace. \<open>ExecutionProps\<close> shows that the trace of a request is accepted by a life-cycle
    automaton, that effects occur in their order, that the driver ends, and that a result is limited.
  \<^item> \<open>Pagination\<close> (\<open>pagination.rs\<close> and \<open>pagination/\<close>) and \<open>PaginationRun\<close> (\<open>request.rs\<close>, \<open>timeout.rs\<close>): the controllers
    and the collection loop. \<open>PaginationProps\<close> shows that collecting ends within its caps and that each
    controller collects the whole data set of a server that answers as its protocol says; the locale
    \<open>page_walk\<close> is what a controller and a server have to provide.
  \<^item> \<open>UrlRoute\<close> (\<open>types.rs\<close>): hosts and paths; \<open>PolicyLayers\<close> (\<open>policy.rs\<close>): the policy refines a last-writer
    view; \<open>RetryMode\<close> (\<open>retry_mode.rs\<close>, \<open>rate_limit/limiter.rs\<close>, \<open>rate_limit/no_governor_default.rs\<close>): status retry
    and the limiters of a build without the governor.
  \<^item> \<open>AuthHttp\<close> (\<open>auth/http.rs\<close>, \<open>client/auth_http.rs\<close>, \<open>auth/providers.rs\<close>): the requests providers send while
    they acquire a credential, with the stack that stops cycles, and the provided providers.
  \<^item> \<open>Codecs\<close> (\<open>codec.rs\<close>, \<open>codec/\<close>, \<open>media.rs\<close>, the prepared bodies and request entities of \<open>io.rs\<close>): values become
    bodies, and a declared length is enforced. \<open>Responses\<close> (\<open>client/execute.rs\<close>, \<open>stream_response.rs\<close>, the response
    entities and prepared endpoints of \<open>io.rs\<close>): a decoded value comes from a complete limited body, the
    two ways to execute a plan agree, a file gets what buffering returns, and a streamed media type
    with a parameter is never accepted.
  \<^item> \<open>ClientConfig\<close> (\<open>client/api.rs\<close>, \<open>runtime/config.rs\<close>, \<open>runtime_state.rs\<close>, the builder of \<open>transport.rs\<close>): clients with
    the cells they share. Settings are private to a client, authentication state is shared with its
    clones, and the application and provider clients are built alike.
  \<^item> \<open>BTree\<close>: \<open>BTreeMap\<close> and \<open>BTreeSet\<close> as sorted lists. \<open>MacroSyntax\<close> (\<open>emit_helpers.rs\<close>, \<open>limits.rs\<close>): syntax trees
    and the check that a public expression reaches no secret or implementation local. \<open>MacroNames\<close>
    (\<open>sema/common.rs\<close>): variables, messages, and the edit distance, which is the least number of edits.
  \<^item> \<open>MacroAst\<close> (\<open>ast/\<close>, \<open>model/norm.rs\<close>, \<open>sema/normalize.rs\<close>): normalisation keeps every endpoint in its place.
    \<open>MacroProfiles\<close> (\<open>sema/profiles.rs\<close>, \<open>sema/profile.rs\<close>): resolution ends, and succeeds exactly on
    acyclic, complete sets; the locale \<open>appending_profile\<close> is the contract of a profile value.
  \<^item> \<open>MacroRateLimit\<close> (\<open>sema/rate_limit.rs\<close>, \<open>codegen/policy/rate_limit.rs\<close>): accepted limits are accepted by the
    default limiter. \<open>MacroAuth\<close> (\<open>sema/auth.rs\<close>, \<open>codegen/endpoints/auth.rs\<close>): accepted requirements are
    planned by the runtime. \<open>MacroPolicy\<close> (\<open>sema/policy.rs\<close>): accepted values are closed.
  \<^item> \<open>MacroRoute\<close> (route atoms of \<open>sema/items.rs\<close>, \<open>codegen/policy/route.rs\<close>, \<open>sema/descriptor.rs\<close>), \<open>MacroItems\<close>
    (\<open>sema/items.rs\<close>, \<open>resolve\<close> of \<open>sema/mod.rs\<close>) and \<open>MacroItemsProps\<close>: the walk is a plain recursion, a fixed
    origin is the host of every request, and acquired credentials name endpoints that do not need them.
  \<^item> \<open>MacroFacade\<close> (\<open>model/facade.rs\<close>) and \<open>MacroPublicNames\<close> (the name checks of \<open>sema/mod.rs\<close>): scopes form a tree,
    documented limits are the effective ones, acceptance is uniqueness of names, and raw identifiers
    end in a panic before they are reported.

  \<^bold>\<open>Correspondence.\<close> A struct is a record, an enum a datatype with the constructors of the source, an
  operation a function that returns the new state, an early return or \<open>?\<close> an \<open>Inl\<close> branch. \<open>u8\<close>, \<open>u32\<close> and
  \<open>u64\<close> are words; \<open>usize\<close> is a natural number with the largest value of the target as an argument where a
  computation can overflow. Async code is the sequence of its effects; where tasks share a slot, each
  critical section is one step of the transition system.

  \<^bold>\<open>Bounds and fuel.\<close> \<open>drive_executions\<close> takes fuel for its loop; two rounds are enough, because the recovery
  budget is used up by the first recovery (property on termination). Collecting takes as fuel the number
  of rounds its cap allows. The cooldown wait takes at most two rounds when nobody extends the table. The
  waiting loop of a slot takes fuel for wake-ups, which depend on other tasks; undisturbed, one round is
  enough. Nested provider requests take as fuel one more than the requirements not on the stack. The
  other loops are total functions; profile resolution ends because the set of names being visited grows.

  \<^bold>\<open>What is an argument.\<close> The \<open>governor\<close>, \<open>http\<close>, \<open>url\<close>, \<open>httpdate\<close>, \<open>base64\<close> and \<open>reqwest\<close> crates, the clock, user
  callbacks (credential providers, hooks, response policies), \<open>serde_json\<close>, files and generated code (endpoints, plans) are
  arguments of the definitions, with what the runtime relies on as named hypotheses, such as
  \<open>header_map_laws\<close>. For the macro, the \<open>url\<close> parser, the \<open>quote\<close> printer and the Unicode letter and identifier
  tables are the fields of \<open>macro_env\<close>; source positions are left out.

  \<^bold>\<open>Not modelled.\<close> Text rendering (\<open>Display\<close>, \<open>Debug\<close>, debug sinks), accessors, the descriptors generated code
  fills in (\<open>__private/\<close>), and the development executor.
  Of the macro, the parser, which works on the compiler's token streams, and the emission of modules,
  structs and wrappers, whose output is Rust source text.
\<close>

end
